(* ===== verification/Prelude.thy ===== *)
theory Prelude
  imports Main
begin

text \<open>
  Shared vocabulary of the development: the outcome of a Go call (a value, an error or a
  panic), Go maps with string keys as association lists in iteration order, the loops
  \<^verbatim>\<open>for _, x := range xs\<close> over a fallible body, and the named collections that carry the
  component proofs.
\<close>

named_theorems res_simps "inversion of the outcome monad"
named_theorems gomap_simps "lookups and keys of Go maps"

section \<open>Outcomes of Go calls\<close>

text \<open>
  A Go function that returns \<^verbatim>\<open>(T, error)\<close> either returns a value (the error is nil),
  returns an error, or panics (a failed type assertion, an index out of range, a division by
  zero, an explicit \<^verbatim>\<open>panic\<close>).
\<close>

datatype ('e, 'a) res = Ok 'a | Err 'e | Panic

fun res_bind :: "('e, 'a) res \<Rightarrow> ('a \<Rightarrow> ('e, 'b) res) \<Rightarrow> ('e, 'b) res" where
  "res_bind (Ok a) f = f a"
| "res_bind (Err e) f = Err e"
| "res_bind Panic f = Panic"

text \<open>\<^verbatim>\<open>fmt.Errorf("...: %w", err)\<close>: an error is wrapped, values and panics pass.\<close>

fun res_map_err :: "('e \<Rightarrow> 'f) \<Rightarrow> ('e, 'a) res \<Rightarrow> ('f, 'a) res" where
  "res_map_err g (Ok a) = Ok a"
| "res_map_err g (Err e) = Err (g e)"
| "res_map_err g Panic = Panic"

fun is_ok :: "('e, 'a) res \<Rightarrow> bool" where
  "is_ok (Ok a) = True"
| "is_ok _ = False"

text \<open>A range loop whose body returns early with an error.\<close>

fun for_each :: "('a \<Rightarrow> ('e, unit) res) \<Rightarrow> 'a list \<Rightarrow> ('e, unit) res" where
  "for_each f [] = Ok ()"
| "for_each f (x # xs) = res_bind (f x) (\<lambda>_. for_each f xs)"

section \<open>Go maps with string keys\<close>

text \<open>
  A Go map is an association list with distinct keys. The list's order is one of the orders in
  which \<^verbatim>\<open>range\<close> may visit the map; a property stated for every list therefore holds for
  every iteration order. \<^verbatim>\<open>m[k] = v\<close> overwrites in place or adds an entry.
\<close>

type_synonym 'v gomap = "(string \<times> 'v) list"

definition gomap_ok :: "'v gomap \<Rightarrow> bool" where
  "gomap_ok m \<longleftrightarrow> distinct (map fst m)"

definition gomap_keys :: "'v gomap \<Rightarrow> string list" where
  "gomap_keys m = map fst m"

definition gomap_get :: "'v gomap \<Rightarrow> string \<Rightarrow> 'v option" where
  "gomap_get m k = map_of m k"

fun gomap_put :: "string \<Rightarrow> 'v \<Rightarrow> 'v gomap \<Rightarrow> 'v gomap" where
  "gomap_put k v [] = [(k, v)]"
| "gomap_put k v ((k', v') # m) =
     (if k = k' then (k, v) # m else (k', v') # gomap_put k v m)"

definition gomap_delete :: "string \<Rightarrow> 'v gomap \<Rightarrow> 'v gomap" where
  "gomap_delete k m = filter (\<lambda>e. fst e \<noteq> k) m"

text \<open>\<^verbatim>\<open>for k, v := range src { dst[k] = v }\<close>\<close>

fun gomap_put_all :: "'v gomap \<Rightarrow> 'v gomap \<Rightarrow> 'v gomap" where
  "gomap_put_all [] dst = dst"
| "gomap_put_all ((k, v) # src) dst = gomap_put_all src (gomap_put k v dst)"

section \<open>Lemmas on outcomes\<close>

lemma res_bind_Ok_iff [res_simps]: "res_bind m f = Ok b \<longleftrightarrow> (\<exists>a. m = Ok a \<and> f a = Ok b)"
  by (cases m) auto

lemma res_bind_Panic_iff [res_simps]:
  "res_bind m f = Panic \<longleftrightarrow> m = Panic \<or> (\<exists>a. m = Ok a \<and> f a = Panic)"
  by (cases m) auto

lemma res_map_err_Ok_iff [res_simps]: "res_map_err g m = Ok a \<longleftrightarrow> m = Ok a"
  by (cases m) auto

lemma res_map_err_Panic_iff [res_simps]: "res_map_err g m = Panic \<longleftrightarrow> m = Panic"
  by (cases m) auto

lemma is_ok_iff [res_simps]: "is_ok m \<longleftrightarrow> (\<exists>a. m = Ok a)"
  by (cases m) auto

lemma res_bind_assoc: "res_bind (res_bind m f) g = res_bind m (\<lambda>x. res_bind (f x) g)"
  by (cases m) auto

lemma for_each_Ok_iff [res_simps]: "for_each f xs = Ok () \<longleftrightarrow> (\<forall>x\<in>set xs. f x = Ok ())"
  by (induction xs) (auto simp: res_simps)

lemma for_each_append: "for_each f (xs @ ys) = res_bind (for_each f xs) (\<lambda>_. for_each f ys)"
  by (induction xs) (auto simp: res_bind_assoc)

section \<open>The contract of a map\<close>

text \<open>
  The interface the components use a map through: what a read returns after a write or a
  delete, and that well-formedness is kept.
\<close>

locale string_map =
  fixes ok :: "'m \<Rightarrow> bool"
    and get :: "'m \<Rightarrow> string \<Rightarrow> 'v option"
    and put :: "string \<Rightarrow> 'v \<Rightarrow> 'm \<Rightarrow> 'm"
    and delete :: "string \<Rightarrow> 'm \<Rightarrow> 'm"
  assumes get_put: "get (put k v m) k' = (if k' = k then Some v else get m k')"
    and get_delete: "ok m \<Longrightarrow> get (delete k m) k' = (if k' = k then None else get m k')"
    and ok_put: "ok m \<Longrightarrow> ok (put k v m)"
    and ok_delete: "ok m \<Longrightarrow> ok (delete k m)"
begin

lemma put_put_same: "get (put k v (put k w m)) = get (put k v m)"
  by (rule ext) (simp add: get_put)

lemma put_comm: "k \<noteq> k' \<Longrightarrow> get (put k v (put k' w m)) = get (put k' w (put k v m))"
  by (rule ext) (simp add: get_put)

lemma delete_put: "ok m \<Longrightarrow> get (delete k (put k v m)) = get (delete k m)"
  by (rule ext) (simp add: get_put get_delete ok_put)

lemma get_fold_put:
  "get (fold (\<lambda>e. put (fst e) (snd e)) es m) k =
     (case map_of (rev es) k of None \<Rightarrow> get m k | Some v \<Rightarrow> Some v)"
  by (induction es arbitrary: m) (auto simp: get_put map_add_def split: option.splits)

lemma ok_fold_put: "ok m \<Longrightarrow> ok (fold (\<lambda>e. put (fst e) (snd e)) es m)"
  by (induction es arbitrary: m) (auto simp: ok_put)

end

lemma gomap_get_put: "gomap_get (gomap_put k v m) k' = (if k' = k then Some v else gomap_get m k')"
  by (induction m) (auto simp: gomap_get_def)

lemma gomap_get_delete: "gomap_get (gomap_delete k m) k' = (if k' = k then None else gomap_get m k')"
  by (induction m) (auto simp: gomap_get_def gomap_delete_def)

lemma set_keys_put: "fst ` set (gomap_put k v m) = insert k (fst ` set m)"
proof (induction m)
  case Nil
  show ?case by simp
next
  case (Cons e m)
  then show ?case by (cases e) (simp add: insert_commute)
qed

lemma gomap_ok_put: "gomap_ok m \<Longrightarrow> gomap_ok (gomap_put k v m)"
proof (induction m)
  case Nil
  then show ?case by (simp add: gomap_ok_def)
next
  case (Cons e m)
  obtain k' v' where e: "e = (k', v')" by (cases e)
  from Cons have "gomap_ok (gomap_put k v m)" by (simp add: gomap_ok_def)
  moreover have "k' \<notin> fst ` set m" using Cons.prems by (simp add: gomap_ok_def e)
  ultimately show ?case
    using Cons.prems by (auto simp: gomap_ok_def e set_keys_put)
qed

lemma gomap_ok_delete: "gomap_ok m \<Longrightarrow> gomap_ok (gomap_delete k m)"
  by (simp add: gomap_ok_def gomap_delete_def distinct_map_filter)

interpretation gm: string_map gomap_ok gomap_get gomap_put gomap_delete
  by unfold_locales
    (simp_all add: gomap_get_put gomap_get_delete gomap_ok_put gomap_ok_delete)

lemma gomap_put_all_fold: "gomap_put_all src dst = fold (\<lambda>e. gomap_put (fst e) (snd e)) src dst"
  by (induction src dst rule: gomap_put_all.induct) auto

lemma map_of_rev_ok: "gomap_ok m \<Longrightarrow> map_of (rev m) = map_of m"
  by (rule map_of_eqI) (auto simp: gomap_ok_def rev_map [symmetric] dest!: map_of_SomeD)

text \<open>Copying one map over another: the copied entries win.\<close>

lemma gomap_get_put_all [gomap_simps]:
  "gomap_ok src \<Longrightarrow>
   gomap_get (gomap_put_all src dst) k =
     (case gomap_get src k of None \<Rightarrow> gomap_get dst k | Some v \<Rightarrow> Some v)"
  by (simp add: gomap_put_all_fold gm.get_fold_put map_of_rev_ok)
    (simp add: gomap_get_def)

lemma gomap_ok_put_all: "gomap_ok dst \<Longrightarrow> gomap_ok (gomap_put_all src dst)"
  by (simp add: gomap_put_all_fold gm.ok_fold_put)

declare gomap_get_put [gomap_simps] gomap_get_delete [gomap_simps]

lemma gomap_get_Nil [gomap_simps, simp]: "gomap_get [] k = None"
  by (simp add: gomap_get_def)

lemma gomap_get_Cons [gomap_simps]:
  "gomap_get ((k', v) # m) k = (if k = k' then Some v else gomap_get m k)"
  by (simp add: gomap_get_def)

lemma gomap_get_None_iff: "gomap_get m k = None \<longleftrightarrow> k \<notin> fst ` set m"
  by (simp add: gomap_get_def map_of_eq_None_iff)

lemma gomap_get_Some_mem: "gomap_get m k = Some v \<Longrightarrow> (k, v) \<in> set m"
  by (simp add: gomap_get_def map_of_SomeD)

lemma gomap_mem_get: "gomap_ok m \<Longrightarrow> (k, v) \<in> set m \<Longrightarrow> gomap_get m k = Some v"
  by (simp add: gomap_get_def gomap_ok_def)

section \<open>Validation loops that refuse duplicates\<close>

text \<open>
  The specification validators walk a list with a set of names already seen: a repeated name is
  an error, otherwise the element itself is checked, and an accumulator may be updated. The
  locale states the loop by its two unfoldings; the client's fact is that the loop succeeds
  exactly when the names are new and pairwise distinct and every element passes.
\<close>

locale dup_checked_loop =
  fixes loop :: "string list \<Rightarrow> 'acc \<Rightarrow> 'a list \<Rightarrow> ('e, 'acc) res"
    and key :: "'a \<Rightarrow> string"
    and dup :: "'a \<Rightarrow> 'e"
    and check :: "'a \<Rightarrow> ('e, unit) res"
    and upd :: "'a \<Rightarrow> 'acc \<Rightarrow> 'acc"
  assumes loop_Nil: "loop seen acc [] = Ok acc"
    and loop_Cons: "loop seen acc (x # xs) =
      (if key x \<in> set seen then Err (dup x)
       else res_bind (check x) (\<lambda>_. loop (key x # seen) (upd x acc) xs))"
begin

lemma loop_Ok_iff:
  "loop seen acc xs = Ok r \<longleftrightarrow>
     distinct (map key xs) \<and> (\<forall>x\<in>set xs. key x \<notin> set seen \<and> check x = Ok ()) \<and>
     r = fold upd xs acc"
proof (induction xs arbitrary: seen acc)
  case Nil
  show ?case by (auto simp: loop_Nil)
next
  case (Cons x xs)
  show ?case
    by (cases "check x") (auto simp: loop_Cons Cons.IH image_iff)
qed

lemma loop_duplicate_refused:
  "\<not> distinct (map key xs) \<Longrightarrow> \<not> is_ok (loop seen acc xs)"
  by (simp add: is_ok_iff loop_Ok_iff)

end

lemma gomap_put_same: "gomap_get m k = Some v \<Longrightarrow> gomap_put k v m = m"
  by (induction m) (auto simp: gomap_get_def split: if_splits)

lemma gomap_delete_absent: "gomap_get m k = None \<Longrightarrow> gomap_delete k m = m"
  by (induction m) (auto simp: gomap_get_def gomap_delete_def split: if_splits)

end
