(* ===== verification/Go_Strings.thy ===== *)
theory Go_Strings
  imports Prelude "HOL-Library.Sublist"
begin

text \<open>
  What the sources use of Go's \<^verbatim>\<open>strings\<close>, \<^verbatim>\<open>strconv\<close> and \<^verbatim>\<open>unicode\<close> packages, on strings as
  lists of bytes, with the round trips the components need: splitting and joining at a
  separator, printing and parsing decimal integers.
\<close>

section \<open>Prefixes, suffixes, substrings\<close>

definition HasPrefix :: "string \<Rightarrow> string \<Rightarrow> bool" where
  "HasPrefix s p \<longleftrightarrow> take (length p) s = p"

definition HasSuffix :: "string \<Rightarrow> string \<Rightarrow> bool" where
  "HasSuffix s p \<longleftrightarrow> HasPrefix (rev s) (rev p)"

definition TrimPrefix :: "string \<Rightarrow> string \<Rightarrow> string" where
  "TrimPrefix s p = (if HasPrefix s p then drop (length p) s else s)"

definition TrimSuffix :: "string \<Rightarrow> string \<Rightarrow> string" where
  "TrimSuffix s p = (if HasSuffix s p then take (length s - length p) s else s)"

fun Contains :: "string \<Rightarrow> string \<Rightarrow> bool" where
  "Contains [] sub = (sub = [])"
| "Contains (c # s) sub = (HasPrefix (c # s) sub \<or> Contains s sub)"

section \<open>White space and case\<close>

text \<open>
  \<^verbatim>\<open>strings.TrimSpace(s) == ""\<close> holds when every rune of \<open>s\<close> is Unicode white space. The length
  in bytes of the white-space rune a UTF-8 string starts with (0 if there is none) covers the
  ASCII ones, U+0085, U+00A0, U+1680, U+2000 to U+200A, U+2028, U+2029, U+202F, U+205F and
  U+3000.
\<close>

definition space_rune_len :: "string \<Rightarrow> nat" where
  "space_rune_len s =
     (case map (of_char :: char \<Rightarrow> nat) (take 3 s) of
        [] \<Rightarrow> 0
      | b # bs \<Rightarrow>
          if b \<in> {9, 10, 11, 12, 13, 32} then 1
          else if b = 194 \<and> (take 1 bs = [133] \<or> take 1 bs = [160]) then 2
          else if b = 225 \<and> bs = [154, 128] then 3
          else if b = 226 \<and>
            ((case bs of [m, l] \<Rightarrow> m = 128 \<and> (128 \<le> l \<and> l \<le> 138 \<or> l \<in> {168, 169, 175}) | _ \<Rightarrow> False) \<or>
             bs = [129, 159]) then 3
          else if b = 227 \<and> bs = [128, 128] then 3
          else 0)"

lemma space_rune_len_Nil [simp]: "space_rune_len [] = 0"
  by (simp add: space_rune_len_def)

function is_blank :: "string \<Rightarrow> bool" where
  "is_blank s = (if s = [] then True
                 else if space_rune_len s = 0 then False
                 else is_blank (drop (space_rune_len s) s))"
  by pat_completeness auto
termination
  by (relation "measure length") auto

declare is_blank.simps [simp del]

definition ascii_lower :: "char \<Rightarrow> char" where
  "ascii_lower c =
     (let b = (of_char c :: nat) in if 65 \<le> b \<and> b \<le> 90 then char_of (b + 32) else c)"

text \<open>
  \<^verbatim>\<open>strings.ToLower\<close> on the ASCII letters. Bytes of a multi-byte rune are left alone: the
  sources only search the result for an ASCII word none of whose letters is the lower case of a
  non-ASCII rune.
\<close>

definition ToLower :: "string \<Rightarrow> string" where
  "ToLower s = map ascii_lower s"

text \<open>
  \<^verbatim>\<open>strings.EqualFold(s, t)\<close> for an ASCII \<open>t\<close> without the letter k: the ASCII letters fold to
  their other case, and the letter s also to U+017F (bytes C5 BF).
\<close>

fun EqualFold :: "string \<Rightarrow> string \<Rightarrow> bool" where
  "EqualFold [] [] = True"
| "EqualFold (x # xs) (y # ys) =
     (ascii_lower x = ascii_lower y \<and> EqualFold xs ys \<or>
      ascii_lower y = CHR ''s'' \<and> of_char x = (197 :: nat) \<and>
      (case xs of [] \<Rightarrow> False | x' # xs' \<Rightarrow> of_char x' = (191 :: nat) \<and> EqualFold xs' ys))"
| "EqualFold _ _ = False"

section \<open>Splitting and joining\<close>

text \<open>\<^verbatim>\<open>strings.Split(s, sep)\<close> for a separator of one byte.\<close>

fun Split :: "char \<Rightarrow> string \<Rightarrow> string list" where
  "Split c [] = [[]]"
| "Split c (x # xs) =
     (if x = c then [] # Split c xs
      else case Split c xs of
             [] \<Rightarrow> [[x]]
           | p # ps \<Rightarrow> (x # p) # ps)"

text \<open>\<^verbatim>\<open>strings.SplitN(s, sep, 2)\<close>.\<close>

definition SplitN2 :: "char \<Rightarrow> string \<Rightarrow> string list" where
  "SplitN2 c s =
     (case dropWhile (\<lambda>x. x \<noteq> c) s of
        [] \<Rightarrow> [s]
      | _ # rest \<Rightarrow> [takeWhile (\<lambda>x. x \<noteq> c) s, rest])"

fun Join :: "string list \<Rightarrow> string \<Rightarrow> string" where
  "Join [] sep = []"
| "Join [p] sep = p"
| "Join (p # q # ps) sep = p @ sep @ Join (q # ps) sep"

section \<open>Decimal integers\<close>

definition digit_char :: "nat \<Rightarrow> char" where
  "digit_char d = (if d < 10 then ''0123456789'' ! d else CHR ''?'')"

definition digit_val :: "char \<Rightarrow> nat option" where
  "digit_val c = (let b = (of_char c :: nat) in
     if 48 \<le> b \<and> b \<le> 57 then Some (b - 48) else None)"

fun nat_Itoa :: "nat \<Rightarrow> string" where
  "nat_Itoa n = (if n < 10 then [digit_char n] else nat_Itoa (n div 10) @ [digit_char (n mod 10)])"

declare nat_Itoa.simps [simp del]

definition Itoa :: "int \<Rightarrow> string" where
  "Itoa i = (if i < 0 then CHR ''-'' # nat_Itoa (nat (- i)) else nat_Itoa (nat i))"

fun digits_val :: "nat \<Rightarrow> string \<Rightarrow> nat option" where
  "digits_val acc [] = Some acc"
| "digits_val acc (c # cs) =
     (case digit_val c of None \<Rightarrow> None | Some d \<Rightarrow> digits_val (10 * acc + d) cs)"

text \<open>
  \<^verbatim>\<open>strconv.Atoi\<close>: an optional sign, at least one digit, nothing else, and a value in the range
  of a 64-bit \<^verbatim>\<open>int\<close>.
\<close>

definition Atoi :: "string \<Rightarrow> int option" where
  "Atoi s =
     (let (neg, ds) = (case s of
            [] \<Rightarrow> (False, [])
          | c # cs \<Rightarrow> if c = CHR ''-'' then (True, cs)
                      else if c = CHR ''+'' then (False, cs) else (False, s))
      in if ds = [] then None
         else case digits_val 0 ds of
                None \<Rightarrow> None
              | Some n \<Rightarrow>
                  (let i = (if neg then - int n else int n) in
                   if - (2 ^ 63) \<le> i \<and> i < 2 ^ 63 then Some i else None))"

section \<open>Lemmas\<close>

lemma HasPrefix_prefix: "HasPrefix s p \<longleftrightarrow> prefix p s"
  by (metis HasPrefix_def append_eq_conv_conj append_take_drop_id prefix_def)

lemma HasPrefix_append [simp]: "HasPrefix (p @ s) p"
  by (simp add: HasPrefix_def)

lemma TrimPrefix_append [simp]: "TrimPrefix (p @ s) p = s"
  by (simp add: TrimPrefix_def)

lemma HasSuffix_append [simp]: "HasSuffix (s @ p) p"
  by (simp add: HasSuffix_def)

lemma HasSuffix_iff: "HasSuffix s p \<longleftrightarrow> (\<exists>t. s = t @ p)"
proof
  assume "HasSuffix s p"
  then obtain t where "rev s = rev p @ t"
    by (auto simp: HasSuffix_def HasPrefix_prefix prefix_def)
  then have "s = rev t @ p" by (metis rev_append rev_rev_ident)
  then show "\<exists>t. s = t @ p" ..
qed auto

lemma Contains_iff: "Contains s sub \<longleftrightarrow> (\<exists>l r. s = l @ sub @ r)"
proof (induction s)
  case Nil
  show ?case by auto
next
  case (Cons c s)
  show ?case
  proof
    assume "Contains (c # s) sub"
    then consider "prefix sub (c # s)" | "Contains s sub"
      by (auto simp: HasPrefix_prefix)
    then show "\<exists>l r. c # s = l @ sub @ r"
    proof cases
      case 1
      then obtain r where "c # s = [] @ sub @ r" by (auto elim: prefixE)
      then show ?thesis by blast
    next
      case 2
      then obtain l r where "s = l @ sub @ r" using Cons.IH by blast
      then have "c # s = (c # l) @ sub @ r" by simp
      then show ?thesis by blast
    qed
  next
    assume "\<exists>l r. c # s = l @ sub @ r"
    then obtain l r where eq: "c # s = l @ sub @ r" by blast
    show "Contains (c # s) sub"
    proof (cases l)
      case Nil
      with eq have "prefix sub (c # s)" by simp
      then show ?thesis by (simp add: HasPrefix_prefix)
    next
      case (Cons x l')
      with eq have "s = l' @ sub @ r" by simp
      then have "Contains s sub" using Cons.IH by blast
      then show ?thesis by simp
    qed
  qed
qed

lemma Split_not_Nil [simp]: "Split c s \<noteq> []"
  by (cases s) (auto split: list.splits)

lemma Join_Split: "Join (Split c s) [c] = s"
proof (induction s)
  case Nil
  show ?case by simp
next
  case (Cons x xs)
  obtain p ps where sp: "Split c xs = p # ps" by (cases "Split c xs") auto
  show ?case using Cons sp by (cases ps) auto
qed

lemma Split_no_sep: "c \<notin> set s \<Longrightarrow> Split c s = [s]"
  by (induction s) auto

lemma Split_append_sep: "c \<notin> set p \<Longrightarrow> Split c (p @ c # s) = p # Split c s"
  by (induction p) auto

lemma Split_parts_no_sep: "p \<in> set (Split c s) \<Longrightarrow> c \<notin> set p"
proof (induction s arbitrary: p)
  case Nil
  then show ?case by simp
next
  case (Cons x xs)
  obtain q qs where sp: "Split c xs = q # qs" by (cases "Split c xs") auto
  with Cons show ?case by (auto split: if_splits)
qed

lemma Split_snoc_sep: "c \<notin> set p \<Longrightarrow> Split c (s @ c # p) = Split c s @ [p]"
proof (induction s)
  case Nil
  then show ?case by (simp add: Split_no_sep)
next
  case (Cons x xs)
  obtain q qs where sp: "Split c xs = q # qs" by (cases "Split c xs") auto
  with Cons show ?case by auto
qed

lemma SplitN2_no_sep: "c \<notin> set s \<Longrightarrow> SplitN2 c s = [s]"
  by (simp add: SplitN2_def) (metis (mono_tags, lifting) dropWhile_eq_Nil_conv list.simps(4))

lemma SplitN2_append_sep: "c \<notin> set p \<Longrightarrow> SplitN2 c (p @ c # s) = [p, s]"
proof -
  assume p: "c \<notin> set p"
  then have "dropWhile (\<lambda>x. x \<noteq> c) (p @ c # s) = c # s"
    and "takeWhile (\<lambda>x. x \<noteq> c) (p @ c # s) = p"
    by (auto simp: dropWhile_append takeWhile_append)
  then show ?thesis by (simp add: SplitN2_def)
qed

subsection \<open>Printing and parsing integers\<close>

lemma less_10_cases:
  "(n::nat) < 10 \<Longrightarrow>
   n = 0 \<or> n = 1 \<or> n = 2 \<or> n = 3 \<or> n = 4 \<or> n = 5 \<or> n = 6 \<or> n = 7 \<or> n = 8 \<or> n = 9"
  by arith

lemma digit_val_char [simp]: "d < 10 \<Longrightarrow> digit_val (digit_char d) = Some d"
  by (drule less_10_cases) (auto simp: digit_val_def digit_char_def)

lemma digit_char_not_sign:
  "d < 10 \<Longrightarrow> digit_char d \<noteq> CHR ''-'' \<and> digit_char d \<noteq> CHR ''+'' \<and> digit_char d \<noteq> CHR ''.''"
  by (drule less_10_cases) (auto simp: digit_char_def)

lemma digits_val_append:
  "digits_val acc (xs @ ys) =
     (case digits_val acc xs of None \<Rightarrow> None | Some a \<Rightarrow> digits_val a ys)"
  by (induction xs arbitrary: acc) (auto split: option.splits)

lemma digits_val_Itoa: "digits_val 0 (nat_Itoa n) = Some n"
proof (induction n rule: nat_Itoa.induct)
  case (1 n)
  show ?case
  proof (cases "n < 10")
    case True
    then show ?thesis by (simp add: nat_Itoa.simps [of n])
  next
    case False
    with 1 show ?thesis by (simp add: nat_Itoa.simps [of n] digits_val_append)
  qed
qed

lemma nat_Itoa_chars: "c \<in> set (nat_Itoa n) \<Longrightarrow> \<exists>d < 10. c = digit_char d"
proof (induction n rule: nat_Itoa.induct)
  case (1 n)
  show ?case
  proof (cases "n < 10")
    case True
    with 1 show ?thesis by (auto simp: nat_Itoa.simps [of n])
  next
    case False
    with 1 have "c \<in> set (nat_Itoa (n div 10)) \<or> c = digit_char (n mod 10)"
      by (auto simp: nat_Itoa.simps [of n])
    moreover have "n mod 10 < 10" by simp
    ultimately show ?thesis using 1 False by blast
  qed
qed

lemma nat_Itoa_not_Nil [simp]: "nat_Itoa n \<noteq> []"
  by (subst nat_Itoa.simps) simp

lemma nat_Itoa_no_sep:
  "CHR ''-'' \<notin> set (nat_Itoa n) \<and> CHR ''+'' \<notin> set (nat_Itoa n) \<and> CHR ''.'' \<notin> set (nat_Itoa n)"
proof -
  have "c \<noteq> CHR ''-'' \<and> c \<noteq> CHR ''+'' \<and> c \<noteq> CHR ''.''" if "c \<in> set (nat_Itoa n)" for c
    using nat_Itoa_chars [OF that] digit_char_not_sign by metis
  then show ?thesis by blast
qed

lemma Itoa_nonneg_no_dash: "0 \<le> i \<Longrightarrow> CHR ''-'' \<notin> set (Itoa i)"
  by (simp add: Itoa_def nat_Itoa_no_sep)

lemma Itoa_not_Nil [simp]: "Itoa i \<noteq> []"
  by (simp add: Itoa_def)

lemma Atoi_Itoa: "- (2 ^ 63) \<le> i \<Longrightarrow> i < 2 ^ 63 \<Longrightarrow> Atoi (Itoa i) = Some i"
proof -
  assume r: "- (2 ^ 63) \<le> i" "i < 2 ^ 63"
  show ?thesis
  proof (cases "i < 0")
    case True
    with r show ?thesis by (simp add: Itoa_def Atoi_def digits_val_Itoa)
  next
    case False
    obtain c cs where s: "nat_Itoa (nat i) = c # cs" by (cases "nat_Itoa (nat i)") auto
    then have "c \<noteq> CHR ''-''" "c \<noteq> CHR ''+''"
      using nat_Itoa_no_sep [of "nat i"] by auto
    moreover have "digits_val 0 (c # cs) = Some (nat i)"
      using digits_val_Itoa [of "nat i"] s by simp
    ultimately show ?thesis
      using False r s by (simp add: Itoa_def Atoi_def del: digits_val.simps)
  qed
qed

section \<open>Replacing and trimming\<close>

text \<open>\<^verbatim>\<open>strings.ReplaceAll\<close> for a non-empty old string\<close>

function ReplaceAll :: "string \<Rightarrow> string \<Rightarrow> string \<Rightarrow> string" where
  "ReplaceAll s old new =
     (if s = [] then []
      else if old \<noteq> [] \<and> HasPrefix s old then new @ ReplaceAll (drop (length old) s) old new
      else hd s # ReplaceAll (tl s) old new)"
  by pat_completeness auto
termination
  by (relation "measure (\<lambda>(s, old, new). length s)") auto

declare ReplaceAll.simps [simp del]

text \<open>\<^verbatim>\<open>strings.TrimLeft(s, "0")\<close> and \<^verbatim>\<open>strings.ToUpper\<close> on the ASCII letters of a hexadecimal node ID.\<close>

definition TrimLeftZeros :: "string \<Rightarrow> string" where
  "TrimLeftZeros s = dropWhile (\<lambda>c. c = CHR ''0'') s"

definition ascii_upper :: "char \<Rightarrow> char" where
  "ascii_upper c = (let n = (of_char c :: nat) in if 97 \<le> n \<and> n \<le> 122 then char_of (n - 32) else c)"

definition ToUpper :: "string \<Rightarrow> string" where
  "ToUpper s = map ascii_upper s"

end
