(* ===== verification/Config_Value.thy ===== *)
theory Config_Value
  imports Complex_Main Go_Strings
begin

text \<open>
  Unstructured Aerospike configuration: the values a Go \<^verbatim>\<open>interface{}\<close> holds in
  \<^verbatim>\<open>AerospikeConfigSpec.Value\<close>, their dynamic types, type assertions, and the readers of
  \<^verbatim>\<open>api/v1/utils.go\<close> and \<^verbatim>\<open>api/v1/index_checkpoint.go\<close> over them.
\<close>

section \<open>Values and dynamic types\<close>

text \<open>
  The dynamic types the sources switch on. JSON decoding produces nil, strings, finite
  \<^verbatim>\<open>float64\<close> numbers (kept as the rationals they denote), booleans, lists and maps; the integer
  types appear in configurations built by Go code.
\<close>

datatype gval =
    GNil
  | GString string
  | GFloat64 rat
  | GBool bool
  | GInt int
  | GInt64 int
  | GInt32 int
  | GList "gval list"
  | GMap "(string \<times> gval) list"

datatype gtype = TNil | TString | TFloat64 | TBool | TInt | TInt64 | TInt32 | TList | TMap

text \<open>\<^verbatim>\<open>reflect.TypeOf\<close>\<close>

fun TypeOf :: "gval \<Rightarrow> gtype" where
  "TypeOf GNil = TNil"
| "TypeOf (GString _) = TString"
| "TypeOf (GFloat64 _) = TFloat64"
| "TypeOf (GBool _) = TBool"
| "TypeOf (GInt _) = TInt"
| "TypeOf (GInt64 _) = TInt64"
| "TypeOf (GInt32 _) = TInt32"
| "TypeOf (GList _) = TList"
| "TypeOf (GMap _) = TMap"

text \<open>Type assertions in their two-value form, \<^verbatim>\<open>v, ok := x.(T)\<close>.\<close>

fun as_string :: "gval \<Rightarrow> string option" where
  "as_string (GString s) = Some s"
| "as_string _ = None"

fun as_bool :: "gval \<Rightarrow> bool option" where
  "as_bool (GBool b) = Some b"
| "as_bool _ = None"

fun as_list :: "gval \<Rightarrow> gval list option" where
  "as_list (GList l) = Some l"
| "as_list _ = None"

fun as_map :: "gval \<Rightarrow> gval gomap option" where
  "as_map (GMap m) = Some m"
| "as_map _ = None"

fun as_float64 :: "gval \<Rightarrow> rat option" where
  "as_float64 (GFloat64 r) = Some r"
| "as_float64 _ = None"

text \<open>The one-value form \<^verbatim>\<open>x.(T)\<close> panics when the dynamic type is another.\<close>

fun must :: "'a option \<Rightarrow> ('e, 'a) res" where
  "must (Some a) = Ok a"
| "must None = Panic"

text \<open>\<^verbatim>\<open>m[k]\<close> is nil for a missing key.\<close>

definition idx :: "gval gomap \<Rightarrow> string \<Rightarrow> gval" where
  "idx m k = (case gomap_get m k of None \<Rightarrow> GNil | Some v \<Rightarrow> v)"

text \<open>Conversions of a \<^verbatim>\<open>float64\<close>: towards zero, and modulo the width of \<^verbatim>\<open>int32\<close>.\<close>

definition int_of_float64 :: "rat \<Rightarrow> int" where
  "int_of_float64 r = (if r < 0 then \<lceil>r\<rceil> else \<lfloor>r\<rfloor>)"

definition int32_of_float64 :: "rat \<Rightarrow> int" where
  "int32_of_float64 r = (int_of_float64 r + 2 ^ 31) mod 2 ^ 32 - 2 ^ 31"

text \<open>
  A well-formed value: every map in it has distinct keys.
\<close>

fun gval_ok :: "gval \<Rightarrow> bool" where
  "gval_ok (GList l) = list_all gval_ok l"
| "gval_ok (GMap m) = (distinct (map fst m) \<and> list_all (\<lambda>e. gval_ok (snd e)) m)"
| "gval_ok _ = True"

section \<open>Configuration keys\<close>

definition ConfKeyNamespace :: string where "ConfKeyNamespace = ''namespaces''"
definition ConfKeyStorageEngine :: string where "ConfKeyStorageEngine = ''storage-engine''"
definition ConfKeyStrongConsistency :: string where "ConfKeyStrongConsistency = ''strong-consistency''"
definition ConfKeyName :: string where "ConfKeyName = ''name''"
definition ConfKeyDataSize :: string where "ConfKeyDataSize = ''data-size''"
definition ConfKeySkipCheckpoint :: string where "ConfKeySkipCheckpoint = ''skip-checkpoint''"
definition ConfKeyNetwork :: string where "ConfKeyNetwork = ''network''"
definition ConfKeyNetworkService :: string where "ConfKeyNetworkService = ''service''"
definition ConfKeyNetworkHeartbeat :: string where "ConfKeyNetworkHeartbeat = ''heartbeat''"
definition ConfKeyNetworkFabric :: string where "ConfKeyNetworkFabric = ''fabric''"
definition ConfKeyNetworkAdmin :: string where "ConfKeyNetworkAdmin = ''admin''"
definition ConfKeyNetworkTLS :: string where "ConfKeyNetworkTLS = ''tls''"
definition ConfKeyTLSName :: string where "ConfKeyTLSName = ''tls-name''"
definition ConfKeyTLSPort :: string where "ConfKeyTLSPort = ''tls-port''"
definition ConfKeyPort :: string where "ConfKeyPort = ''port''"
definition ConfKeyXdr :: string where "ConfKeyXdr = ''xdr''"
definition ConfKeyXdrDCs :: string where "ConfKeyXdrDCs = ''dcs''"
definition ConfKeySecurity :: string where "ConfKeySecurity = ''security''"
definition confKeySecurityDefaultPasswordFile :: string where
  "confKeySecurityDefaultPasswordFile = ''default-password-file''"
definition ConfKeyService :: string where "ConfKeyService = ''service''"
definition confKeyWorkDirectory :: string where "confKeyWorkDirectory = ''work-directory''"
definition ConfKeyMigrateFillDelay :: string where "ConfKeyMigrateFillDelay = ''migrate-fill-delay''"
definition ConfKeyServiceIndexCheckpointPath :: string where
  "ConfKeyServiceIndexCheckpointPath = ''index-checkpoint-path''"
definition DefaultWorkDirectory :: string where "DefaultWorkDirectory = ''/opt/aerospike''"

lemmas conf_keys =
  ConfKeyNamespace_def ConfKeyStorageEngine_def ConfKeyStrongConsistency_def ConfKeyName_def
  ConfKeyDataSize_def ConfKeySkipCheckpoint_def ConfKeyNetwork_def ConfKeyNetworkService_def
  ConfKeyNetworkHeartbeat_def ConfKeyNetworkFabric_def ConfKeyNetworkAdmin_def
  ConfKeyNetworkTLS_def ConfKeyTLSName_def ConfKeyTLSPort_def ConfKeyPort_def ConfKeyXdr_def
  ConfKeyXdrDCs_def ConfKeySecurity_def confKeySecurityDefaultPasswordFile_def ConfKeyService_def
  confKeyWorkDirectory_def ConfKeyMigrateFillDelay_def ConfKeyServiceIndexCheckpointPath_def
  DefaultWorkDirectory_def

section \<open>Readers\<close>

text \<open>\<^verbatim>\<open>AerospikeConfigSpec\<close>: \<open>None\<close> is a nil map, which reads like an empty one.\<close>

record AerospikeConfigSpec =
  Value :: "gval gomap option"

definition conf_map :: "AerospikeConfigSpec \<Rightarrow> gval gomap" where
  "conf_map c = (case Value c of None \<Rightarrow> [] | Some m \<Rightarrow> m)"

datatype conf_error =
    MissingAerospikeConfiguration
  | InvalidOrEmpty string
  | ContextNotFound string
  | KeyNotValid string
  | KeyNotPresent string
  | InvalidConf string conf_error
  | XdrNotMap
  | XdrDcsNotList
  | XdrDcNotMap
  | InvalidTLSElement
  | InvalidTLSConfiguration
  | NotAnInt
  | InvalidFillDelay conf_error

definition GetConfiguredWorkDirectory :: "AerospikeConfigSpec \<Rightarrow> (conf_error, string) res" where
  "GetConfiguredWorkDirectory spec =
     (case idx (conf_map spec) ConfKeyService of
        GNil \<Rightarrow> Ok []
      | serviceTmp \<Rightarrow>
          res_bind (must (as_map serviceTmp)) (\<lambda>serviceConf.
            case gomap_get serviceConf confKeyWorkDirectory of
              None \<Rightarrow> Ok []
            | Some workDir \<Rightarrow> must (as_string workDir)))"

definition GetWorkDirectory :: "AerospikeConfigSpec \<Rightarrow> (conf_error, string) res" where
  "GetWorkDirectory spec =
     res_bind (GetConfiguredWorkDirectory spec) (\<lambda>workDir.
       if workDir \<noteq> [] then Ok workDir else Ok DefaultWorkDirectory)"

definition IsServiceTLSEnabled :: "AerospikeConfigSpec \<Rightarrow> bool" where
  "IsServiceTLSEnabled spec =
     (case gomap_get (conf_map spec) ConfKeyNetwork of
        Some (GMap networkConf) \<Rightarrow>
          (case gomap_get networkConf ConfKeyNetworkService of
             Some (GMap serviceConf) \<Rightarrow> gomap_get serviceConf ConfKeyTLSName \<noteq> None
           | _ \<Rightarrow> False)
      | _ \<Rightarrow> False)"

definition GetConfigContext ::
  "gval gomap option \<Rightarrow> string \<Rightarrow> (conf_error, gval gomap) res" where
  "GetConfigContext aerospikeConfig ctx =
     (case aerospikeConfig of
        None \<Rightarrow> Err MissingAerospikeConfiguration
      | Some conf \<Rightarrow>
          (case gomap_get conf ctx of
             Some v \<Rightarrow> (case as_map v of Some m \<Rightarrow> Ok m | None \<Rightarrow> Err (InvalidOrEmpty ctx))
           | None \<Rightarrow> Err (ContextNotFound ctx)))"

text \<open>The error is inspected with \<^verbatim>\<open>errors.Is\<close>.\<close>

definition IsSecurityEnabled :: "gval gomap option \<Rightarrow> (conf_error, bool) res" where
  "IsSecurityEnabled aerospikeConfig =
     (case GetConfigContext aerospikeConfig ''security'' of
        Ok _ \<Rightarrow> Ok True
      | Err (ContextNotFound _) \<Rightarrow> Ok False
      | Err (InvalidOrEmpty _) \<Rightarrow> Ok True
      | Err e \<Rightarrow> Err e
      | Panic \<Rightarrow> Panic)"

definition GetBoolConfig :: "gval gomap \<Rightarrow> string \<Rightarrow> (conf_error, bool) res" where
  "GetBoolConfig configMap k =
     (case gomap_get configMap k of
        Some enabled \<Rightarrow> (case as_bool enabled of Some b \<Rightarrow> Ok b | None \<Rightarrow> Err (KeyNotValid k))
      | None \<Rightarrow> Err (KeyNotPresent k))"

definition IsAttributeEnabled ::
  "gval gomap option \<Rightarrow> string \<Rightarrow> string \<Rightarrow> (conf_error, bool) res" where
  "IsAttributeEnabled aerospikeConfig ctx k =
     res_bind (GetConfigContext aerospikeConfig ctx) (\<lambda>confMap.
       res_map_err (InvalidConf ctx) (GetBoolConfig confMap k))"

fun namespace_present :: "gval list \<Rightarrow> string \<Rightarrow> bool" where
  "namespace_present [] namespaceName = False"
| "namespace_present (nsConf # confs) namespaceName =
     (case as_map nsConf of
        None \<Rightarrow> False
      | Some namespaceConf \<Rightarrow>
          idx namespaceConf ConfKeyName = GString namespaceName \<or>
          namespace_present confs namespaceName)"

definition IsAerospikeNamespacePresent :: "AerospikeConfigSpec \<Rightarrow> string \<Rightarrow> bool" where
  "IsAerospikeNamespacePresent spec namespaceName =
     (case as_list (idx (conf_map spec) ConfKeyNamespace) of
        Some confs \<Rightarrow> namespace_present confs namespaceName
      | None \<Rightarrow> False)"

definition IsXdrEnabled :: "AerospikeConfigSpec \<Rightarrow> bool" where
  "IsXdrEnabled spec \<longleftrightarrow> idx (conf_map spec) ConfKeyXdr \<noteq> GNil"

fun xdr_named_dcs :: "gval list \<Rightarrow> (conf_error, gval gomap list) res" where
  "xdr_named_dcs [] = Ok []"
| "xdr_named_dcs (d # ds) =
     (case as_map d of
        None \<Rightarrow> Err XdrDcNotMap
      | Some dcConf \<Rightarrow>
          res_bind (xdr_named_dcs ds) (\<lambda>dcs.
            case as_string (idx dcConf ConfKeyName) of
              Some name \<Rightarrow> Ok (if name \<noteq> [] then dcConf # dcs else dcs)
            | None \<Rightarrow> Ok dcs))"

definition GetXDRDCs :: "AerospikeConfigSpec \<Rightarrow> (conf_error, gval gomap list) res" where
  "GetXDRDCs spec =
     (case idx (conf_map spec) ConfKeyXdr of
        GNil \<Rightarrow> Ok []
      | xdr \<Rightarrow>
          (case as_map xdr of
             None \<Rightarrow> Err XdrNotMap
           | Some xdrConf \<Rightarrow>
               (case idx xdrConf ConfKeyXdrDCs of
                  GNil \<Rightarrow> Ok []
                | dcs \<Rightarrow>
                    (case as_list dcs of
                       None \<Rightarrow> Err XdrDcsNotList
                     | Some dcList \<Rightarrow> xdr_named_dcs dcList))))"

fun all_strings :: "gval list \<Rightarrow> string list option" where
  "all_strings [] = Some []"
| "all_strings (v # vs) =
     (case as_string v of
        None \<Rightarrow> None
      | Some s \<Rightarrow> map_option (\<lambda>ss. s # ss) (all_strings vs))"

definition ReadTLSAuthenticateClient :: "gval gomap \<Rightarrow> (conf_error, string list) res" where
  "ReadTLSAuthenticateClient serviceConf =
     (case gomap_get serviceConf ''tls-authenticate-client'' of
        None \<Rightarrow> Ok []
      | Some (GString v) \<Rightarrow> Ok [v]
      | Some (GList vs) \<Rightarrow>
          (case all_strings vs of None \<Rightarrow> Err InvalidTLSElement | Some ss \<Rightarrow> Ok ss)
      | Some _ \<Rightarrow> Err InvalidTLSConfiguration)"

definition GetTLSNameAndPort ::
  "AerospikeConfigSpec \<Rightarrow> string \<Rightarrow> (conf_error, string \<times> int option) res" where
  "GetTLSNameAndPort aeroConf connectionType =
     (case gomap_get (conf_map aeroConf) ConfKeyNetwork of
        None \<Rightarrow> Ok ([], None)
      | Some networkConfTmp \<Rightarrow>
          res_bind (must (as_map networkConfTmp)) (\<lambda>networkConf.
            case gomap_get networkConf connectionType of
              None \<Rightarrow> Ok ([], None)
            | Some connTmp \<Rightarrow>
                res_bind (must (as_map connTmp)) (\<lambda>connConf.
                  case gomap_get connConf ConfKeyTLSName of
                    None \<Rightarrow> Ok ([], None)
                  | Some name \<Rightarrow>
                      res_bind (must (as_string name)) (\<lambda>tlsName.
                        case gomap_get connConf ConfKeyTLSPort of
                          None \<Rightarrow> Ok (tlsName, None)
                        | Some tlsPort \<Rightarrow>
                            res_bind (must (as_float64 tlsPort)) (\<lambda>p.
                              Ok (tlsName, Some (int32_of_float64 p)))))))"

definition GetServiceTLSNameAndPort ::
  "AerospikeConfigSpec \<Rightarrow> (conf_error, string \<times> int option) res" where
  "GetServiceTLSNameAndPort c = GetTLSNameAndPort c ConfKeyNetworkService"

definition GetHeartbeatTLSNameAndPort ::
  "AerospikeConfigSpec \<Rightarrow> (conf_error, string \<times> int option) res" where
  "GetHeartbeatTLSNameAndPort c = GetTLSNameAndPort c ConfKeyNetworkHeartbeat"

definition GetFabricTLSNameAndPort ::
  "AerospikeConfigSpec \<Rightarrow> (conf_error, string \<times> int option) res" where
  "GetFabricTLSNameAndPort c = GetTLSNameAndPort c ConfKeyNetworkFabric"

definition GetAdminTLSNameAndPort ::
  "AerospikeConfigSpec \<Rightarrow> (conf_error, string \<times> int option) res" where
  "GetAdminTLSNameAndPort c = GetTLSNameAndPort c ConfKeyNetworkAdmin"

text \<open>The set of names is kept as the list of insertions; only membership is read.\<close>

definition GetNetworkTLSNames :: "gval gomap \<Rightarrow> string list" where
  "GetNetworkTLSNames networkConf =
     (case as_list (idx networkConf ConfKeyNetworkTLS) of
        None \<Rightarrow> []
      | Some tlsConfList \<Rightarrow>
          List.map_filter
            (\<lambda>t. case as_map t of
                   None \<Rightarrow> None
                 | Some tlsConf \<Rightarrow> as_string (idx tlsConf ConfKeyName))
            tlsConfList)"

definition GetPortFromConfig ::
  "AerospikeConfigSpec \<Rightarrow> string \<Rightarrow> string \<Rightarrow> (conf_error, int option) res" where
  "GetPortFromConfig aeroConf connectionType paramName =
     (case gomap_get (conf_map aeroConf) ConfKeyNetwork of
        None \<Rightarrow> Ok None
      | Some networkTmp \<Rightarrow>
          res_bind (must (as_map networkTmp)) (\<lambda>networkConf.
            case gomap_get networkConf connectionType of
              None \<Rightarrow> Ok None
            | Some connTmp \<Rightarrow>
                res_bind (must (as_map connTmp)) (\<lambda>connConf.
                  case gomap_get connConf paramName of
                    None \<Rightarrow> Ok None
                  | Some port \<Rightarrow>
                      res_bind (must (as_float64 port)) (\<lambda>p. Ok (Some (int32_of_float64 p))))))"

definition GetServicePort :: "AerospikeConfigSpec \<Rightarrow> (conf_error, int option) res" where
  "GetServicePort c = GetPortFromConfig c ConfKeyNetworkService ConfKeyPort"

definition GetHeartbeatPort :: "AerospikeConfigSpec \<Rightarrow> (conf_error, int option) res" where
  "GetHeartbeatPort c = GetPortFromConfig c ConfKeyNetworkHeartbeat ConfKeyPort"

definition GetFabricPort :: "AerospikeConfigSpec \<Rightarrow> (conf_error, int option) res" where
  "GetFabricPort c = GetPortFromConfig c ConfKeyNetworkFabric ConfKeyPort"

definition GetAdminPort :: "AerospikeConfigSpec \<Rightarrow> (conf_error, int option) res" where
  "GetAdminPort c = GetPortFromConfig c ConfKeyNetworkAdmin ConfKeyPort"

fun GetIntType :: "gval \<Rightarrow> (conf_error, int) res" where
  "GetIntType (GInt64 v) = Ok v"
| "GetIntType (GInt v) = Ok v"
| "GetIntType (GFloat64 v) = Ok (int_of_float64 v)"
| "GetIntType _ = Err NotAnInt"

text \<open>\<open>None\<close> is a nil pointer to the configuration.\<close>

definition GetMigrateFillDelay :: "AerospikeConfigSpec option \<Rightarrow> (conf_error, int) res" where
  "GetMigrateFillDelay asConfig =
     (case asConfig of
        None \<Rightarrow> Ok 0
      | Some c \<Rightarrow>
          (case as_map (idx (conf_map c) ConfKeyService) of
             None \<Rightarrow> Ok 0
           | Some serviceConfig \<Rightarrow>
               (case gomap_get serviceConfig ConfKeyMigrateFillDelay of
                  None \<Rightarrow> Ok 0
                | Some v \<Rightarrow> res_map_err InvalidFillDelay (GetIntType v))))"

definition IsNSSCEnabled :: "gval gomap \<Rightarrow> (conf_error, bool) res" where
  "IsNSSCEnabled nsConf =
     (case gomap_get nsConf ConfKeyStrongConsistency of
        None \<Rightarrow> Ok False
      | Some scEnabled \<Rightarrow> must (as_bool scEnabled))"

fun any_ns_sc :: "gval list \<Rightarrow> (conf_error, bool) res" where
  "any_ns_sc [] = Ok False"
| "any_ns_sc (ns # nss) =
     res_bind (must (as_map ns)) (\<lambda>nsConf.
       res_bind (IsNSSCEnabled nsConf) (\<lambda>isEnabled.
         if isEnabled then Ok True else any_ns_sc nss))"

text \<open>\<^verbatim>\<open>ptr.Deref(boolPtr, false)\<close>\<close>

definition GetBool :: "bool option \<Rightarrow> bool" where
  "GetBool boolPtr = (case boolPtr of None \<Rightarrow> False | Some b \<Rightarrow> b)"

definition GetDefaultPasswordFilePath ::
  "AerospikeConfigSpec \<Rightarrow> (conf_error, string option) res" where
  "GetDefaultPasswordFilePath spec =
     (case gomap_get (conf_map spec) ConfKeySecurity of
        None \<Rightarrow> Ok None
      | Some securityConfTmp \<Rightarrow>
          (case as_map securityConfTmp of
             None \<Rightarrow> Ok None
           | Some securityConf \<Rightarrow>
               (case gomap_get securityConf confKeySecurityDefaultPasswordFile of
                  None \<Rightarrow> Ok None
                | Some passFileTmp \<Rightarrow>
                    res_bind (must (as_string passFileTmp)) (\<lambda>f. Ok (Some f)))))"

definition named_namespace :: "gval \<Rightarrow> string option" where
  "named_namespace ns =
     (case as_map ns of
        None \<Rightarrow> None
      | Some nsConf \<Rightarrow>
          (case as_string (idx nsConf ConfKeyName) of
             Some name \<Rightarrow> if name \<noteq> [] then Some name else None
           | None \<Rightarrow> None))"

definition GetNamespaceNamesFromConfig :: "gval gomap \<Rightarrow> string list" where
  "GetNamespaceNamesFromConfig aerospikeConfig =
     (case as_list (idx aerospikeConfig ConfKeyNamespace) of
        None \<Rightarrow> []
      | Some namespaces \<Rightarrow> List.map_filter named_namespace namespaces)"

definition GetNamespaceDataSize :: "gval gomap \<Rightarrow> int option" where
  "GetNamespaceDataSize namespaceConf =
     (case as_map (idx namespaceConf ConfKeyStorageEngine) of
        None \<Rightarrow> None
      | Some storageConf \<Rightarrow>
          (case gomap_get storageConf ConfKeyDataSize of
             None \<Rightarrow> None
           | Some sizeIface \<Rightarrow> (case GetIntType sizeIface of Ok sz \<Rightarrow> Some sz | _ \<Rightarrow> None)))"

fun ns_data_sizes :: "gval list \<Rightarrow> int gomap \<Rightarrow> int gomap" where
  "ns_data_sizes [] sizes = sizes"
| "ns_data_sizes (ns # nss) sizes =
     ns_data_sizes nss
       (case as_map ns of
          None \<Rightarrow> sizes
        | Some nsConf \<Rightarrow>
            (case as_string (idx nsConf ConfKeyName) of
               None \<Rightarrow> sizes
             | Some name \<Rightarrow>
                 (case GetNamespaceDataSize nsConf of
                    Some sz \<Rightarrow> gomap_put name sz sizes
                  | None \<Rightarrow> sizes)))"

definition GetInMemoryNsDataSizes :: "gval gomap \<Rightarrow> int gomap" where
  "GetInMemoryNsDataSizes aerospikeConfig =
     (case as_list (idx aerospikeConfig ConfKeyNamespace) of
        None \<Rightarrow> []
      | Some nsList \<Rightarrow> ns_data_sizes nsList [])"

section \<open>Index checkpoints\<close>

definition GetIndexCheckpointPath :: "gval gomap \<Rightarrow> string" where
  "GetIndexCheckpointPath aerospikeConfig =
     (case as_map (idx aerospikeConfig ConfKeyService) of
        None \<Rightarrow> []
      | Some serviceConf \<Rightarrow>
          (case as_string (idx serviceConf ConfKeyServiceIndexCheckpointPath) of
             None \<Rightarrow> []
           | Some path \<Rightarrow> path))"

definition IsCheckpointSkipped :: "gval gomap \<Rightarrow> bool" where
  "IsCheckpointSkipped namespaceConf =
     (case as_bool (idx namespaceConf ConfKeySkipCheckpoint) of None \<Rightarrow> False | Some skip \<Rightarrow> skip)"

definition IsCheckpointUsableNamespaceName :: "string \<Rightarrow> bool" where
  "IsCheckpointUsableNamespaceName name \<longleftrightarrow>
     name \<noteq> ''.'' \<and> name \<noteq> ''..'' \<and> \<not> Contains name ''/'' \<and>
     \<not> HasSuffix name ''.tmp'' \<and> \<not> HasSuffix name ''.deleting''"

definition checkpointed_namespace :: "gval \<Rightarrow> string option" where
  "checkpointed_namespace ns =
     (case as_map ns of
        None \<Rightarrow> None
      | Some nsConf \<Rightarrow>
          if IsCheckpointSkipped nsConf then None
          else (case as_string (idx nsConf ConfKeyName) of
                  Some name \<Rightarrow> if name \<noteq> [] then Some name else None
                | None \<Rightarrow> None))"

definition GetIndexCheckpointNamespaces :: "gval gomap \<Rightarrow> string list" where
  "GetIndexCheckpointNamespaces aerospikeConfig =
     (if GetIndexCheckpointPath aerospikeConfig = [] then []
      else case as_list (idx aerospikeConfig ConfKeyNamespace) of
             None \<Rightarrow> []
           | Some namespaces \<Rightarrow> List.map_filter checkpointed_namespace namespaces)"

end
