(* ===== verification/Json_Patch.thy ===== *)
theory Json_Patch
  imports Config_Value
begin

text \<open>
  \<^verbatim>\<open>pkg/jsonpatch/jsonpatch.go\<close>: the JSON patch between two documents. The operations are
  collected in the order in which the code appends them. A specification of applying a patch
  (RFC 6902 over RFC 6901 pointers) follows, and the round trip: applying the patch computed from
  \<open>a\<close> and \<open>b\<close> to \<open>a\<close> gives \<open>b\<close>.
\<close>

section \<open>The patch of two documents\<close>

record PatchOperation =
  PatchValue :: gval
  Operation :: string
  Path :: string

definition NewPatch :: "string \<Rightarrow> string \<Rightarrow> gval \<Rightarrow> PatchOperation" where
  "NewPatch operation path v = \<lparr>PatchValue = v, Operation = operation, Path = path\<rparr>"

lemma size_idx: "size (idx m k) < Suc (size_list (size_prod (\<lambda>_. 0) size) m)"
  by (induction m) (auto simp: idx_def gomap_get_def split: option.splits)

text \<open>
  The two loops over keys compare \<^verbatim>\<open>at[key]\<close> with \<^verbatim>\<open>bt[key]\<close>, nil for a missing key. For lists of
  equal length both loops compare the same pairs. Integers and nil fall through to false.
\<close>

function (sequential) matchesValue :: "gval \<Rightarrow> gval \<Rightarrow> bool" where
  "matchesValue (GString xt) (GString yt) = (yt = xt)"
| "matchesValue (GFloat64 xt) (GFloat64 yt) = (yt = xt)"
| "matchesValue (GBool xt) (GBool yt) = (yt = xt)"
| "matchesValue (GMap xt) (GMap yt) =
     (list_all (\<lambda>key. matchesValue (idx xt key) (idx yt key)) (map fst xt) \<and>
      list_all (\<lambda>key. matchesValue (idx xt key) (idx yt key)) (map fst yt))"
| "matchesValue (GList xt) (GList yt) =
     (length yt = length xt \<and> list_all (\<lambda>i. matchesValue (xt ! i) (yt ! i)) [0..<length xt])"
| "matchesValue _ _ = False"
  by pat_completeness auto
termination
proof (relation "measure (\<lambda>(a, b). size a)", goal_cases)
  case 1
  show ?case by simp
next
  case (2 xt yt key)
  show ?case using size_idx [of xt key] by simp
next
  case (3 xt yt key)
  show ?case using size_idx [of xt key] by simp
next
  case (4 xt yt i)
  then have "xt ! i \<in> set xt" by simp
  then have "size (xt ! i) \<le> size_list size xt"
    using size_list_estimation' [of "xt ! i" xt "size (xt ! i)" size] by simp
  then show ?case by simp
qed

definition rfc6901_escape :: "char \<Rightarrow> string" where
  "rfc6901_escape c = (if c = CHR ''~'' then ''~0'' else if c = CHR ''/'' then ''~1'' else [c])"

text \<open>\<^verbatim>\<open>strings.NewReplacer("~", "~0", "/", "~1")\<close>\<close>

definition rfc6901Encoder :: "string \<Rightarrow> string" where
  "rfc6901Encoder s = concat (map rfc6901_escape s)"

text \<open>The new part is a key, or an index printed in decimal.\<close>

definition makePath :: "string \<Rightarrow> string \<Rightarrow> string" where
  "makePath path newPart =
     (let key = rfc6901Encoder newPart in
      if path = [] then ''/'' @ key
      else if HasSuffix path ''/'' then path @ key
      else path @ ''/'' @ key)"

definition index_part :: "nat \<Rightarrow> string" where
  "index_part i = Itoa (int i)"

function (sequential)
    patch_diff :: "gval gomap \<Rightarrow> gval gomap \<Rightarrow> string \<Rightarrow> (unit, PatchOperation list) res"
and patch_diff_entries :: "gval gomap \<Rightarrow> gval gomap \<Rightarrow> string \<Rightarrow> (unit, PatchOperation list) res"
and patch_handleValues :: "gval \<Rightarrow> gval \<Rightarrow> string \<Rightarrow> (unit, PatchOperation list) res"
and patch_elems :: "gval list \<Rightarrow> gval list \<Rightarrow> nat \<Rightarrow> string \<Rightarrow> (unit, PatchOperation list) res"
where
  "patch_diff a b path =
     res_bind (patch_diff_entries a b path) (\<lambda>ops.
       Ok (ops @ map (\<lambda>e. NewPatch ''remove'' (makePath path (fst e)) GNil)
                   (filter (\<lambda>e. gomap_get b (fst e) = None) a)))"
| "patch_diff_entries a [] path = Ok []"
| "patch_diff_entries a ((key, bv) # b) path =
     res_bind
       (case gomap_get a key of
          None \<Rightarrow> Ok [NewPatch ''add'' (makePath path key) bv]
        | Some av \<Rightarrow>
            if TypeOf av \<noteq> TypeOf bv then Ok [NewPatch ''replace'' (makePath path key) bv]
            else patch_handleValues av bv (makePath path key))
       (\<lambda>ops. res_bind (patch_diff_entries a b path) (\<lambda>rest. Ok (ops @ rest)))"
| "patch_handleValues (GMap xt) bv p =
     (case bv of GMap yt \<Rightarrow> patch_diff xt yt p | _ \<Rightarrow> Panic)"
| "patch_handleValues (GList xt) bv p =
     (case bv of
        GList yt \<Rightarrow>
          (let minLen = min (length xt) (length yt) in
           res_bind (patch_elems xt yt 0 p) (\<lambda>ops.
             Ok (ops @
                 map (\<lambda>i. NewPatch ''remove'' (makePath p (index_part i)) GNil)
                   (rev [minLen..<length xt]) @
                 map (\<lambda>i. NewPatch ''add'' (makePath p (index_part i)) (yt ! i))
                   [minLen..<length yt])))
      | _ \<Rightarrow> Ok [NewPatch ''replace'' p bv])"
| "patch_handleValues GNil bv p =
     (case bv of GNil \<Rightarrow> Ok [] | _ \<Rightarrow> Ok [NewPatch ''add'' p bv])"
| "patch_handleValues (GInt _) bv p = Panic"
| "patch_handleValues (GInt64 _) bv p = Panic"
| "patch_handleValues (GInt32 _) bv p = Panic"
| "patch_handleValues av bv p =
     (if matchesValue av bv then Ok [] else Ok [NewPatch ''replace'' p bv])"
| "patch_elems (av # xt) (bv # yt) i p =
     res_bind (patch_handleValues av bv (makePath p (index_part i))) (\<lambda>ops.
       res_bind (patch_elems xt yt (Suc i) p) (\<lambda>rest. Ok (ops @ rest)))"
| "patch_elems _ _ i p = Ok []"
  by pat_completeness auto
termination
  by (relation "measure (\<lambda>x. case x of
      Inl (Inl (a, b, p)) \<Rightarrow> 2 * size_list (size_prod (\<lambda>_. 0) size) b + 1
    | Inl (Inr (a, b, p)) \<Rightarrow> 2 * size_list (size_prod (\<lambda>_. 0) size) b
    | Inr (Inl (a, b, p)) \<Rightarrow> 2 * size b
    | Inr (Inr (a, b, i, p)) \<Rightarrow> 2 * size_list size b)") auto

text \<open>
  \<^verbatim>\<open>CreatePatch\<close> decodes both documents first; \<open>unmarshal\<close> is \<^verbatim>\<open>json.Unmarshal\<close> into a map, \<open>None\<close>
  for an invalid document.
\<close>

datatype patch_error = ErrBadJSONDoc

definition CreatePatch ::
  "('bytes \<Rightarrow> gval gomap option) \<Rightarrow> 'bytes \<Rightarrow> 'bytes \<Rightarrow> (patch_error, PatchOperation list) res" where
  "CreatePatch unmarshal a b =
     (case unmarshal a of
        None \<Rightarrow> Err ErrBadJSONDoc
      | Some aI \<Rightarrow>
          (case unmarshal b of
             None \<Rightarrow> Err ErrBadJSONDoc
           | Some bI \<Rightarrow> res_map_err (\<lambda>_. ErrBadJSONDoc) (patch_diff aI bI [])))"

section \<open>Applying a patch\<close>

text \<open>
  Reference tokens: an operation addresses the member of an object or the element of an array
  named by the last token of its path, inside the value the tokens before it lead to.
\<close>

datatype edit = EAdd gval | EReplace gval | ERemove

definition token_index :: "string \<Rightarrow> nat option" where
  "token_index t = (case digits_val 0 t of
     Some n \<Rightarrow> if t = index_part n then Some n else None | None \<Rightarrow> None)"

fun edit_child :: "edit \<Rightarrow> string \<Rightarrow> gval \<Rightarrow> gval option" where
  "edit_child (EAdd v) k (GMap m) = Some (GMap (gomap_put k v m))"
| "edit_child (EReplace v) k (GMap m) =
     (if gomap_get m k = None then None else Some (GMap (gomap_put k v m)))"
| "edit_child ERemove k (GMap m) =
     (if gomap_get m k = None then None else Some (GMap (gomap_delete k m)))"
| "edit_child (EAdd v) k (GList l) =
     (case token_index k of
        Some i \<Rightarrow> if i \<le> length l then Some (GList (take i l @ v # drop i l)) else None
      | None \<Rightarrow> if k = ''-'' then Some (GList (l @ [v])) else None)"
| "edit_child (EReplace v) k (GList l) =
     (case token_index k of
        Some i \<Rightarrow> if i < length l then Some (GList (l[i := v])) else None
      | None \<Rightarrow> None)"
| "edit_child ERemove k (GList l) =
     (case token_index k of
        Some i \<Rightarrow> if i < length l then Some (GList (take i l @ drop (Suc i) l)) else None
      | None \<Rightarrow> None)"
| "edit_child _ _ _ = None"

fun edit_at :: "edit \<Rightarrow> string list \<Rightarrow> gval \<Rightarrow> gval option" where
  "edit_at (EAdd v) [] d = Some v"
| "edit_at (EReplace v) [] d = Some v"
| "edit_at ERemove [] d = None"
| "edit_at e [k] d = edit_child e k d"
| "edit_at e (k # ks) (GMap m) =
     (case gomap_get m k of
        None \<Rightarrow> None
      | Some d \<Rightarrow> map_option (\<lambda>d'. GMap (gomap_put k d' m)) (edit_at e ks d))"
| "edit_at e (k # ks) (GList l) =
     (case token_index k of
        None \<Rightarrow> None
      | Some i \<Rightarrow>
          if i < length l then map_option (\<lambda>d'. GList (l[i := d'])) (edit_at e ks (l ! i)) else None)"
| "edit_at e (k # ks) d = None"

fun rfc6901_unescape :: "string \<Rightarrow> string" where
  "rfc6901_unescape (c # d # s) =
     (if c = CHR ''~'' \<and> d = CHR ''1'' then CHR ''/'' # rfc6901_unescape s
      else if c = CHR ''~'' \<and> d = CHR ''0'' then CHR ''~'' # rfc6901_unescape s
      else c # rfc6901_unescape (d # s))"
| "rfc6901_unescape s = s"

definition parse_pointer :: "string \<Rightarrow> string list option" where
  "parse_pointer s =
     (case s of
        [] \<Rightarrow> Some []
      | c # r \<Rightarrow> if c = CHR ''/'' then Some (map rfc6901_unescape (Split (CHR ''/'') r)) else None)"

definition parse_edit :: "PatchOperation \<Rightarrow> edit option" where
  "parse_edit op =
     (if Operation op = ''add'' then Some (EAdd (PatchValue op))
      else if Operation op = ''replace'' then Some (EReplace (PatchValue op))
      else if Operation op = ''remove'' then Some ERemove else None)"

definition apply_op :: "PatchOperation \<Rightarrow> gval \<Rightarrow> gval option" where
  "apply_op op d =
     (case (parse_edit op, parse_pointer (Path op)) of
        (Some e, Some ks) \<Rightarrow> edit_at e ks d
      | _ \<Rightarrow> None)"

fun apply_patch :: "PatchOperation list \<Rightarrow> gval \<Rightarrow> gval option" where
  "apply_patch [] d = Some d"
| "apply_patch (op # ops) d = Option.bind (apply_op op d) (apply_patch ops)"

text \<open>Equality of documents: objects are compared as maps, whatever the order of their keys.\<close>

fun json_eq :: "gval \<Rightarrow> gval \<Rightarrow> bool" where
  "json_eq (GMap m) d =
     (case d of
        GMap n \<Rightarrow>
          list_all (\<lambda>k. k \<in> set (map fst m)) (map fst n) \<and>
          list_all (\<lambda>e. case gomap_get n (fst e) of None \<Rightarrow> False | Some w \<Rightarrow> json_eq (snd e) w) m
      | _ \<Rightarrow> False)"
| "json_eq (GList l) d = (case d of GList l' \<Rightarrow> list_all2 json_eq l l' | _ \<Rightarrow> False)"
| "json_eq v d = (v = d)"

text \<open>
  A decoded document: no integer types, distinct and non-empty keys. \<open>no_nil_elems\<close>: no array
  of the document holds a null.
\<close>

fun json_doc :: "gval \<Rightarrow> bool" where
  "json_doc (GMap m) =
     (distinct (map fst m) \<and> list_all (\<lambda>e. fst e \<noteq> [] \<and> json_doc (snd e)) m)"
| "json_doc (GList l) = list_all json_doc l"
| "json_doc (GInt _) = False"
| "json_doc (GInt64 _) = False"
| "json_doc (GInt32 _) = False"
| "json_doc _ = True"

fun no_nil_elems :: "gval \<Rightarrow> bool" where
  "no_nil_elems (GMap m) = list_all (\<lambda>e. no_nil_elems (snd e)) m"
| "no_nil_elems (GList l) = list_all (\<lambda>v. v \<noteq> GNil \<and> no_nil_elems v) l"
| "no_nil_elems _ = True"

section \<open>Pointers\<close>

text \<open>The pointer that names a list of tokens; what \<open>makePath\<close> builds from the root.\<close>

definition path_of :: "string list \<Rightarrow> string" where
  "path_of ks = concat (map (\<lambda>k. CHR ''/'' # rfc6901Encoder k) ks)"

lemma rfc6901Encoder_Cons: "rfc6901Encoder (c # s) = rfc6901_escape c @ rfc6901Encoder s"
  by (simp add: rfc6901Encoder_def)

lemma encoder_no_slash: "CHR ''/'' \<notin> set (rfc6901Encoder s)"
  by (auto simp: rfc6901Encoder_def rfc6901_escape_def split: if_splits)

lemma encoder_Nil_iff [simp]: "rfc6901Encoder s = [] \<longleftrightarrow> s = []"
  by (cases s) (auto simp: rfc6901Encoder_def rfc6901_escape_def)

lemma unescape_Cons: "c \<noteq> CHR ''~'' \<Longrightarrow> rfc6901_unescape (c # s) = c # rfc6901_unescape s"
  by (cases s) auto

lemma unescape_encoder: "rfc6901_unescape (rfc6901Encoder s) = s"
proof (induction s)
  case Nil
  show ?case by (simp add: rfc6901Encoder_def)
next
  case (Cons c s)
  then show ?case by (auto simp: rfc6901Encoder_Cons rfc6901_escape_def unescape_Cons)
qed

lemma makePath_path_of:
  assumes "list_all (\<lambda>k. k \<noteq> []) ks"
  shows "makePath (path_of ks) k = path_of (ks @ [k])"
proof (cases ks rule: rev_exhaust)
  case Nil
  then show ?thesis by (simp add: makePath_def path_of_def)
next
  case (snoc ks' l)
  with assms obtain s x where e: "rfc6901Encoder l = s @ [x]"
    by (cases "rfc6901Encoder l" rule: rev_exhaust) auto
  have "x \<noteq> CHR ''/''" using encoder_no_slash [of l] by (auto simp: e)
  then have "\<not> HasSuffix (path_of ks) ''/''"
    by (auto simp: HasSuffix_iff path_of_def snoc e)
  moreover have "path_of ks \<noteq> []" by (simp add: path_of_def snoc)
  ultimately show ?thesis by (simp add: makePath_def path_of_def)
qed

lemma parse_pointer_path_of: "parse_pointer (path_of ks) = Some ks"
proof (cases ks)
  case Nil
  then show ?thesis by (simp add: path_of_def parse_pointer_def)
next
  case (Cons k ks')
  have "Split (CHR ''/'') (rfc6901Encoder k @ path_of ks') = map rfc6901Encoder (k # ks')"
  proof (induction ks' arbitrary: k)
    case Nil
    show ?case by (simp add: path_of_def Split_no_sep encoder_no_slash)
  next
    case (Cons l ls)
    show ?case using Cons [of l] by (simp add: path_of_def Split_append_sep encoder_no_slash)
  qed
  with Cons show ?thesis
    by (simp add: path_of_def parse_pointer_def unescape_encoder comp_def)
qed

lemma token_index_part [simp]: "token_index (index_part i) = Some i"
  by (simp add: token_index_def index_part_def Itoa_def digits_val_Itoa)

lemma index_part_nonempty [simp]: "index_part i \<noteq> []"
  by (simp add: index_part_def)

section \<open>Patches relative to a position\<close>

text \<open>
  An edit with the tokens that lead to it. \<open>op_of ps\<close> prints it as the operation the code emits
  for a position \<open>ps\<close> of the document; \<open>run\<close> applies a list of them.
\<close>

type_synonym located = "edit \<times> string list"

fun op_of :: "string list \<Rightarrow> located \<Rightarrow> PatchOperation" where
  "op_of ps (EAdd v, ks) = NewPatch ''add'' (path_of (ps @ ks)) v"
| "op_of ps (EReplace v, ks) = NewPatch ''replace'' (path_of (ps @ ks)) v"
| "op_of ps (ERemove, ks) = NewPatch ''remove'' (path_of (ps @ ks)) GNil"

fun run :: "located list \<Rightarrow> gval \<Rightarrow> gval option" where
  "run [] d = Some d"
| "run ((e, ks) # ts) d = Option.bind (edit_at e ks d) (run ts)"

definition below :: "string \<Rightarrow> located \<Rightarrow> located" where
  "below k t = (fst t, k # snd t)"

lemma below_pair [simp]: "below k (e, ks) = (e, k # ks)"
  by (simp add: below_def)

lemma op_of_below: "op_of ps (below k t) = op_of (ps @ [k]) t"
  by (cases t; cases "fst t") (auto simp: below_def)

lemma map_op_of_below: "map (op_of (ps @ [k])) ts = map (op_of ps) (map (below k) ts)"
  by (simp add: op_of_below)

lemma apply_op_of: "apply_op (op_of [] t) d = edit_at (fst t) (snd t) d"
  by (cases t; cases "fst t")
    (auto simp: apply_op_def NewPatch_def parse_edit_def parse_pointer_path_of)

lemma apply_patch_run: "apply_patch (map (op_of []) ts) d = run ts d"
  by (induction ts d rule: run.induct) (auto simp: apply_op_of split: bind_splits)

lemma run_append: "run (ts @ us) d = Option.bind (run ts d) (run us)"
  by (induction ts d rule: run.induct) (auto split: bind_splits)

lemma edit_at_map:
  assumes "gomap_get m k = Some d" "edit_at e ks d = Some d'"
  shows "edit_at e (k # ks) (GMap m) = Some (GMap (gomap_put k d' m))"
  using assms by (cases ks; cases e) auto

lemma gomap_put_put: "gomap_put k v (gomap_put k w m) = gomap_put k v m"
  by (induction m) auto

lemma gomap_put_get: "gomap_get m k = Some v \<Longrightarrow> gomap_put k v m = m"
  by (induction m) (auto simp: gomap_get_Cons split: if_splits)

text \<open>Edits below a member of an object change that member only.\<close>

lemma run_below_map:
  assumes "gomap_get m k = Some d" "run ts d = Some d'"
  shows "run (map (below k) ts) (GMap m) = Some (GMap (gomap_put k d' m))"
  using assms
proof (induction ts d arbitrary: m rule: run.induct)
  case (1 d)
  then show ?case by (simp add: gomap_put_get)
next
  case (2 e ks ts d)
  then obtain d1 where d1: "edit_at e ks d = Some d1" "run ts d1 = Some d'"
    by (auto simp: bind_eq_Some_conv)
  have "run (map (below k) ts) (GMap (gomap_put k d1 m)) =
      Some (GMap (gomap_put k d' (gomap_put k d1 m)))"
    by (rule "2.IH" [OF d1(1)]) (simp_all add: gomap_get_put d1)
  then show ?case using 2 d1 by (simp add: edit_at_map gomap_put_put)
qed

text \<open>So do edits below an element of an array, unless one of them adds at the element itself.\<close>

definition adds_here :: "located \<Rightarrow> bool" where
  "adds_here t = (case t of (EAdd v, []) \<Rightarrow> True | _ \<Rightarrow> False)"

lemma edit_at_list:
  assumes "i < length l" "edit_at e ks (l ! i) = Some d'" "\<not> adds_here (e, ks)"
  shows "edit_at e (index_part i # ks) (GList l) = Some (GList (l[i := d']))"
  using assms by (cases ks; cases e) (auto simp: adds_here_def)

lemma run_below_list:
  assumes "i < length l" "l ! i = d" "run ts d = Some d'" "\<forall>t\<in>set ts. \<not> adds_here t"
  shows "run (map (below (index_part i)) ts) (GList l) = Some (GList (l[i := d']))"
  using assms
proof (induction ts d arbitrary: l rule: run.induct)
  case (1 d)
  then show ?case by auto
next
  case (2 e ks ts d)
  then obtain d1 where d1: "edit_at e ks d = Some d1" "run ts d1 = Some d'"
    by (auto simp: bind_eq_Some_conv)
  have "run (map (below (index_part i)) ts) (GList (l[i := d1])) = Some (GList (l[i := d1, i := d']))"
    by (rule "2.IH" [OF d1(1)]) (use 2 d1 in simp_all)
  then show ?case using 2 d1 by (simp add: edit_at_list)
qed

section \<open>Removing and adding at the end of an array\<close>

lemma run_removes:
  "run (map (\<lambda>i. (ERemove, [index_part i])) (rev [length l..<length l + length r])) (GList (l @ r)) =
     Some (GList l)"
proof (induction r rule: rev_induct)
  case Nil
  show ?case by simp
next
  case (snoc x r)
  then show ?case by simp
qed

lemma run_adds:
  "run (map (\<lambda>i. (EAdd (yt ! i), [index_part i])) [length l..<length yt])
     (GList l) = Some (GList (l @ drop (length l) yt))"
proof (induction "length yt - length l" arbitrary: l)
  case 0
  then show ?case by simp
next
  case (Suc n)
  then have lt: "length l < length yt" by simp
  have "run (map (\<lambda>i. (EAdd (yt ! i), [index_part i])) [length (l @ [yt ! length l])..<length yt])
      (GList (l @ [yt ! length l])) =
    Some (GList ((l @ [yt ! length l]) @ drop (length (l @ [yt ! length l])) yt))"
    by (rule Suc.hyps(1)) (use Suc.hyps in simp)
  then show ?case using lt by (simp add: upt_conv_Cons Cons_nth_drop_Suc)
qed

section \<open>The patch leads from one document to the other\<close>

lemma json_eq_refl: "json_doc v \<Longrightarrow> json_eq v v"
proof (induction v rule: json_doc.induct)
  case (1 m)
  then show ?case
    by (auto simp: list_all_iff gomap_get_def)
next
  case (2 l)
  then show ?case by (auto simp: list_all_iff list_all2_same)
qed auto

text \<open>What it means for edits to turn the members of an object into those of \<open>b\<close>, one at a time.\<close>

definition member_eq :: "gval gomap \<Rightarrow> gval gomap \<Rightarrow> gval gomap \<Rightarrow> bool" where
  "member_eq b m m' \<longleftrightarrow>
     (\<forall>k. case gomap_get b k of
            None \<Rightarrow> gomap_get m' k = gomap_get m k
          | Some w \<Rightarrow> (\<exists>v. gomap_get m' k = Some v \<and> json_eq v w))"

definition patches_value :: "string list \<Rightarrow> gval \<Rightarrow> gval \<Rightarrow> PatchOperation list \<Rightarrow> bool" where
  "patches_value ps av bv ops \<longleftrightarrow>
     (\<exists>ts d. ops = map (op_of ps) ts \<and> run ts av = Some d \<and> json_eq d bv \<and>
        (av \<noteq> GNil \<longrightarrow> (\<forall>t\<in>set ts. \<not> adds_here t)))"

definition patches_members ::
  "string list \<Rightarrow> gval gomap \<Rightarrow> gval gomap \<Rightarrow> PatchOperation list \<Rightarrow> bool" where
  "patches_members ps a b ops \<longleftrightarrow>
     (\<exists>ts. ops = map (op_of ps) ts \<and> (\<forall>t\<in>set ts. \<not> adds_here t) \<and>
        (\<forall>m. gomap_ok m \<and> (\<forall>k\<in>fst ` set b. gomap_get m k = gomap_get a k) \<longrightarrow>
           (\<exists>m'. run ts (GMap m) = Some (GMap m') \<and> gomap_ok m' \<and> member_eq b m m')))"

lemma member_eq_Some:
  "member_eq b m m' \<Longrightarrow> gomap_get b k = Some w \<Longrightarrow> \<exists>v. gomap_get m' k = Some v \<and> json_eq v w"
  unfolding member_eq_def by (drule spec [of _ k]) simp

lemma member_eq_None:
  "member_eq b m m' \<Longrightarrow> gomap_get b k = None \<Longrightarrow> gomap_get m' k = gomap_get m k"
  unfolding member_eq_def by (drule spec [of _ k]) simp

lemma adds_here_simps [simp]:
  "\<not> adds_here (e, k # ks)" "\<not> adds_here (below k t)"
  "\<not> adds_here (EReplace v, ks)" "\<not> adds_here (ERemove, ks)"
  by (auto simp: adds_here_def below_def split: prod.splits edit.splits)

lemma patches_members_Nil: "patches_members ps a [] []"
  by (auto simp: patches_members_def member_eq_def intro!: exI [of _ "[]"])

lemma patches_members_Cons:
  assumes rest: "patches_members ps a b ops'"
    and new: "key \<notin> fst ` set b"
    and ts: "\<forall>t\<in>set ts. \<not> adds_here t" "ops = map (op_of ps) ts"
    and one: "\<And>m. gomap_ok m \<Longrightarrow> gomap_get m key = gomap_get a key \<Longrightarrow>
      \<exists>v. run ts (GMap m) = Some (GMap (gomap_put key v m)) \<and> json_eq v bv"
  shows "patches_members ps a ((key, bv) # b) (ops @ ops')"
proof -
  obtain us where us: "ops' = map (op_of ps) us" "\<forall>t\<in>set us. \<not> adds_here t"
    and run: "\<And>m. gomap_ok m \<Longrightarrow> \<forall>k\<in>fst ` set b. gomap_get m k = gomap_get a k \<Longrightarrow>
      \<exists>m'. run us (GMap m) = Some (GMap m') \<and> gomap_ok m' \<and> member_eq b m m'"
    using rest by (auto simp: patches_members_def)
  have "\<exists>m'. run (ts @ us) (GMap m) = Some (GMap m') \<and> gomap_ok m' \<and> member_eq ((key, bv) # b) m m'"
    if m: "gomap_ok m" "\<forall>k\<in>fst ` set ((key, bv) # b). gomap_get m k = gomap_get a k" for m
  proof -
    obtain v where v: "run ts (GMap m) = Some (GMap (gomap_put key v m))" "json_eq v bv"
      using one [of m] m by auto
    have "\<forall>k\<in>fst ` set b. gomap_get (gomap_put key v m) k = gomap_get a k"
      using m new by (auto simp: gomap_get_put)
    then obtain m' where m': "run us (GMap (gomap_put key v m)) = Some (GMap m')"
      "gomap_ok m'" "member_eq b (gomap_put key v m) m'"
      using run m by (metis gomap_ok_put)
    have "gomap_get b key = None" using new by (simp add: gomap_get_None_iff)
    then have "member_eq ((key, bv) # b) m m'"
      using m'(3) v(2) by (auto simp: member_eq_def gomap_get_Cons gomap_get_put split: option.splits if_splits)
    with v(1) m' show ?thesis by (simp add: run_append)
  qed
  then show ?thesis
    unfolding patches_members_def
    by (intro exI [of _ "ts @ us"]) (use ts us in auto)
qed

lemma run_remove_members:
  assumes "distinct ks" "set ks \<subseteq> fst ` set m" "gomap_ok m"
  shows "run (map (\<lambda>k. (ERemove, [k])) ks) (GMap m) =
    Some (GMap (filter (\<lambda>e. fst e \<notin> set ks) m))"
  using assms
proof (induction ks arbitrary: m)
  case Nil
  then show ?case by simp
next
  case (Cons k ks)
  then have "gomap_get m k \<noteq> None" by (auto simp: gomap_get_None_iff)
  moreover have "set ks \<subseteq> fst ` set (gomap_delete k m)"
    using Cons.prems by (force simp: gomap_delete_def)
  ultimately show ?case
    using Cons by (auto simp: gomap_ok_delete)
      (auto simp: gomap_delete_def intro: arg_cong [where f = "\<lambda>P. filter P m"])
qed

lemma json_eq_GMapI:
  assumes "gomap_ok m" "\<And>k v. gomap_get m k = Some v \<Longrightarrow> \<exists>w. gomap_get b k = Some w \<and> json_eq v w"
    and "\<And>k w. gomap_get b k = Some w \<Longrightarrow> gomap_get m k \<noteq> None"
  shows "json_eq (GMap m) (GMap b)"
proof -
  have "gomap_get b k \<noteq> None" if "k \<in> fst ` set b" for k
    using that by (simp add: gomap_get_None_iff)
  then have "k \<in> fst ` set m" if "k \<in> fst ` set b" for k
    using that assms(3) by (metis gomap_get_None_iff option.exhaust)
  moreover have "case gomap_get b (fst e) of None \<Rightarrow> False | Some w \<Rightarrow> json_eq (snd e) w"
    if "e \<in> set m" for e
    using assms(2) [of "fst e" "snd e"] gomap_mem_get [OF assms(1), of "fst e" "snd e"] that by auto
  ultimately show ?thesis by (auto simp: list_all_iff)
qed

lemma patches_members_removed:
  assumes "patches_members ps a b ops" "gomap_ok a" "gomap_ok b"
    and "ops' = map (\<lambda>e. op_of ps (ERemove, [fst e])) (filter (\<lambda>e. gomap_get b (fst e) = None) a)"
  shows "patches_value ps (GMap a) (GMap b) (ops @ ops')"
proof -
  define ks where "ks = map fst (filter (\<lambda>e. gomap_get b (fst e) = None) a)"
  obtain ts m' where ts: "ops = map (op_of ps) ts" "\<forall>t\<in>set ts. \<not> adds_here t"
    and m': "run ts (GMap a) = Some (GMap m')" "gomap_ok m'" "member_eq b a m'"
    using assms(1,2) by (auto simp: patches_members_def)
  have get: "gomap_get m' k = gomap_get a k" if "gomap_get b k = None" for k
    by (rule member_eq_None [OF m'(3) that])
  have "set ks \<subseteq> fst ` set m'"
  proof
    fix k assume "k \<in> set ks"
    then have "gomap_get b k = None" "k \<in> fst ` set a" by (auto simp: ks_def)
    with get show "k \<in> fst ` set m'" by (metis gomap_get_None_iff)
  qed
  moreover have "distinct ks" using assms(2) by (simp add: ks_def gomap_ok_def distinct_map_filter)
  ultimately have run: "run (ts @ map (\<lambda>k. (ERemove, [k])) ks) (GMap a) =
      Some (GMap (filter (\<lambda>e. fst e \<notin> set ks) m'))"
    using m' by (simp add: run_append run_remove_members)
  have f: "gomap_get (filter (\<lambda>e. fst e \<notin> set ks) m') k = (if k \<in> set ks then None else gomap_get m' k)" for k
    by (induction m') (auto simp: gomap_get_def)
  have "json_eq (GMap (filter (\<lambda>e. fst e \<notin> set ks) m')) (GMap b)"
  proof (rule json_eq_GMapI)
    show "gomap_ok (filter (\<lambda>e. fst e \<notin> set ks) m')"
      using m'(2) by (simp add: gomap_ok_def distinct_map_filter)
  next
    fix k v assume v: "gomap_get (filter (\<lambda>e. fst e \<notin> set ks) m') k = Some v"
    then have k: "k \<notin> set ks" "gomap_get m' k = Some v" by (auto simp: f split: if_splits)
    have "gomap_get b k \<noteq> None"
    proof
      assume n: "gomap_get b k = None"
      then have "gomap_get a k = Some v" using get k by simp
      then have "k \<in> set ks" using n by (force simp: ks_def dest: gomap_get_Some_mem)
      with k show False by simp
    qed
    then show "\<exists>w. gomap_get b k = Some w \<and> json_eq v w"
      using m'(3) k by (auto simp: member_eq_def dest: spec [of _ k])
  next
    fix k w assume w: "gomap_get b k = Some w"
    then have "k \<notin> set ks" by (auto simp: ks_def)
    moreover have "gomap_get m' k \<noteq> None"
      using member_eq_Some [OF m'(3) w] by auto
    ultimately show "gomap_get (filter (\<lambda>e. fst e \<notin> set ks) m') k \<noteq> None" by (simp add: f)
  qed
  with run show ?thesis
    unfolding patches_value_def
    by (intro exI [of _ "ts @ map (\<lambda>k. (ERemove, [k])) ks"])
      (use ts assms(4) in \<open>auto simp: ks_def comp_def\<close>)
qed

text \<open>Edits that turn the elements of \<open>xt\<close>, found from index \<open>i\<close> on, into those of \<open>yt\<close>.\<close>

definition patches_elems ::
  "string list \<Rightarrow> nat \<Rightarrow> gval list \<Rightarrow> gval list \<Rightarrow> PatchOperation list \<Rightarrow> bool" where
  "patches_elems ps i xt yt ops \<longleftrightarrow>
     (\<exists>ts. ops = map (op_of ps) ts \<and> (\<forall>t\<in>set ts. \<not> adds_here t) \<and>
        (\<forall>pre. length pre = i \<longrightarrow>
           (\<exists>ds. run ts (GList (pre @ xt)) = Some (GList (pre @ ds @ drop (length yt) xt)) \<and>
              list_all2 json_eq ds (take (length xt) yt))))"

lemma patches_elems_end: "xt = [] \<or> yt = [] \<Longrightarrow> patches_elems ps i xt yt []"
  by (auto simp: patches_elems_def intro!: exI [of _ "[]"])

lemma patches_elems_Cons:
  assumes hd: "patches_value (ps @ [index_part i]) av bv ops" "av \<noteq> GNil"
    and tl: "patches_elems ps (Suc i) xt yt ops'"
  shows "patches_elems ps i (av # xt) (bv # yt) (ops @ ops')"
proof -
  obtain ts d where ts: "ops = map (op_of (ps @ [index_part i])) ts" "run ts av = Some d"
      "json_eq d bv" "\<forall>t\<in>set ts. \<not> adds_here t"
    using hd by (auto simp: patches_value_def)
  obtain us where us: "ops' = map (op_of ps) us" "\<forall>t\<in>set us. \<not> adds_here t"
    and run: "\<And>pre. length pre = Suc i \<Longrightarrow>
      \<exists>ds. run us (GList (pre @ xt)) = Some (GList (pre @ ds @ drop (length yt) xt)) \<and>
        list_all2 json_eq ds (take (length xt) yt)"
    using tl by (auto simp: patches_elems_def)
  have "\<exists>ds. run (map (below (index_part i)) ts @ us) (GList (pre @ av # xt)) =
      Some (GList (pre @ ds @ drop (length yt) xt)) \<and> list_all2 json_eq ds (bv # take (length xt) yt)"
    if pre: "length pre = i" for pre
  proof -
    have "run (map (below (index_part i)) ts) (GList (pre @ av # xt)) =
        Some (GList ((pre @ av # xt)[i := d]))"
      by (rule run_below_list) (use ts pre in auto)
    then have 1: "run (map (below (index_part i)) ts) (GList (pre @ av # xt)) =
        Some (GList ((pre @ [d]) @ xt))"
      using pre by (simp add: list_update_append)
    obtain ds where "run us (GList ((pre @ [d]) @ xt)) =
          Some (GList ((pre @ [d]) @ ds @ drop (length yt) xt))"
        "list_all2 json_eq ds (take (length xt) yt)"
      using run [of "pre @ [d]"] pre by auto
    with 1 ts(3) show ?thesis
      by (intro exI [of _ "d # ds"]) (simp add: run_append)
  qed
  then show ?thesis
    unfolding patches_elems_def
    by (intro exI [of _ "map (below (index_part i)) ts @ us"])
      (use ts us in \<open>auto simp: map_op_of_below\<close>)
qed

lemma patches_elems_resized:
  assumes "patches_elems ps 0 xt yt ops" "list_all json_doc yt"
    and "ops' = map (\<lambda>i. op_of ps (ERemove, [index_part i])) (rev [min (length xt) (length yt)..<length xt])"
    and "ops'' = map (\<lambda>i. op_of ps (EAdd (yt ! i), [index_part i])) [min (length xt) (length yt)..<length yt]"
  shows "patches_value ps (GList xt) (GList yt) (ops @ ops' @ ops'')"
proof -
  obtain ts ds where ts: "ops = map (op_of ps) ts" "\<forall>t\<in>set ts. \<not> adds_here t"
    and ds: "run ts (GList xt) = Some (GList (ds @ drop (length yt) xt))"
      "list_all2 json_eq ds (take (length xt) yt)"
    using assms(1) by (fastforce simp: patches_elems_def)
  define n where "n = min (length xt) (length yt)"
  have len: "length ds = n" using ds(2) by (auto dest: list_all2_lengthD simp: n_def min.commute)
  have rem: "run (map (\<lambda>i. (ERemove, [index_part i])) (rev [n..<length xt]))
      (GList (ds @ drop (length yt) xt)) = Some (GList ds)"
    using run_removes [of ds "drop (length yt) xt"] len by (auto simp: n_def min_def split: if_splits)
  have add: "run (map (\<lambda>i. (EAdd (yt ! i), [index_part i])) [n..<length yt]) (GList ds) =
      Some (GList (ds @ drop n yt))"
    using run_adds [of yt ds] len by simp
  have "list_all2 json_eq (drop n yt) (drop n yt)"
    using assms(2) by (auto simp: list_all2_same list_all_iff json_eq_refl dest: in_set_dropD)
  moreover have "take (length xt) yt = take n yt" by (auto simp: n_def min_def)
  ultimately have "list_all2 json_eq (ds @ drop n yt) (take n yt @ drop n yt)"
    using ds(2) by (intro list_all2_appendI) simp_all
  then have "list_all2 json_eq (ds @ drop n yt) yt" by simp
  then show ?thesis
    unfolding patches_value_def
    by (intro exI [of _ "ts @ map (\<lambda>i. (ERemove, [index_part i])) (rev [n..<length xt]) @
          map (\<lambda>i. (EAdd (yt ! i), [index_part i])) [n..<length yt]"] exI [of _ "GList (ds @ drop n yt)"])
      (use ts ds rem add assms(3,4) in \<open>auto simp: run_append n_def\<close>)
qed

lemma patches_value_replace: "json_doc bv \<Longrightarrow> patches_value ps av bv [NewPatch ''replace'' (path_of ps) bv]"
  unfolding patches_value_def
  by (intro exI [of _ "[(EReplace bv, [])]"] exI [of _ bv]) (simp add: json_eq_refl)

lemma patches_value_same: "json_doc bv \<Longrightarrow> patches_value ps bv bv []"
  unfolding patches_value_def
  by (intro exI [of _ "[]"] exI [of _ bv]) (simp add: json_eq_refl)

lemma patches_value_add: "json_doc bv \<Longrightarrow> patches_value ps GNil bv [NewPatch ''add'' (path_of ps) bv]"
  unfolding patches_value_def
  by (intro exI [of _ "[(EAdd bv, [])]"] exI [of _ bv]) (simp add: json_eq_refl)

text \<open>One member of \<open>b\<close>: added, replaced or patched in place.\<close>

lemma patches_members_add:
  assumes "patches_members ps a b ops" "key \<notin> fst ` set b" "json_doc bv"
  shows "patches_members ps a ((key, bv) # b) (NewPatch ''add'' (path_of (ps @ [key])) bv # ops)"
proof -
  have "patches_members ps a ((key, bv) # b) ([NewPatch ''add'' (path_of (ps @ [key])) bv] @ ops)"
    by (rule patches_members_Cons [OF assms(1,2), of "[(EAdd bv, [key])]"])
      (auto intro!: exI [of _ bv] json_eq_refl assms(3))
  then show ?thesis by simp
qed

lemma patches_members_patch:
  assumes "patches_members ps a b ops'" "key \<notin> fst ` set b"
    and "gomap_get a key = Some av" "patches_value (ps @ [key]) av bv ops"
  shows "patches_members ps a ((key, bv) # b) (ops @ ops')"
proof -
  obtain ts d where ts: "ops = map (op_of (ps @ [key])) ts" "run ts av = Some d" "json_eq d bv"
    using assms(4) by (auto simp: patches_value_def)
  show ?thesis
  proof (rule patches_members_Cons [OF assms(1,2)])
    show "ops = map (op_of ps) (map (below key) ts)" by (simp add: ts map_op_of_below)
    show "\<exists>v. run (map (below key) ts) (GMap m) = Some (GMap (gomap_put key v m)) \<and> json_eq v bv"
      if "gomap_get m key = gomap_get a key" for m
      using run_below_map [of m key av ts d] that ts assms(3) by auto
  qed auto
qed

text \<open>
  The code asserts that what faces an object is an object. Between members it has compared the
  types before; between array elements it has not. \<open>maps_kept a b\<close>: no array element that is an
  object in \<open>a\<close> becomes something else in \<open>b\<close>.
\<close>

function (sequential) maps_kept :: "gval \<Rightarrow> gval \<Rightarrow> bool" where
  "maps_kept (GMap a) (GMap b) =
     list_all (\<lambda>e. case gomap_get a (fst e) of
         None \<Rightarrow> True
       | Some av \<Rightarrow> TypeOf av \<noteq> TypeOf (snd e) \<or> maps_kept av (snd e)) b"
| "maps_kept (GMap a) _ = False"
| "maps_kept (GList xt) (GList yt) = list_all (\<lambda>(x, y). maps_kept x y) (zip xt yt)"
| "maps_kept _ _ = True"
  by pat_completeness auto
termination
proof (relation "measure (\<lambda>(a, b). size b)", goal_cases)
  case 1
  show ?case by simp
next
  case (2 a b e av)
  moreover have "size (snd e) \<le> size_prod (\<lambda>_. 0) size e" by (cases e) simp
  ultimately show ?case
    using size_list_estimation' [of e b "size (snd e)" "size_prod (\<lambda>_. 0) size"] by simp
next
  case (3 xt yt z x y)
  then have "y \<in> set yt" by (auto dest: set_zip_rightD)
  then show ?case using size_list_estimation' [of y yt "size y" size] by simp
qed

lemma doc_member:
  "gomap_get a k = Some v \<Longrightarrow> json_doc (GMap a) \<Longrightarrow> json_doc v"
  "gomap_get a k = Some v \<Longrightarrow> no_nil_elems (GMap a) \<Longrightarrow> no_nil_elems v"
  by (auto simp: list_all_iff dest!: gomap_get_Some_mem)

lemma matchesValue_scalar:
  "matchesValue (GString v) bv \<longleftrightarrow> bv = GString v"
  "matchesValue (GFloat64 r) bv \<longleftrightarrow> bv = GFloat64 r"
  "matchesValue (GBool c) bv \<longleftrightarrow> bv = GBool c"
  by (cases bv; auto)+

abbreviation tokens_ok :: "string list \<Rightarrow> bool" where
  "tokens_ok ps \<equiv> list_all (\<lambda>k. k \<noteq> []) ps"

lemma patch_correct:
  "tokens_ok ps \<Longrightarrow> p = path_of ps \<Longrightarrow> json_doc (GMap a) \<Longrightarrow> json_doc (GMap b) \<Longrightarrow>
     no_nil_elems (GMap a) \<Longrightarrow> maps_kept (GMap a) (GMap b) \<Longrightarrow>
     \<exists>ops. patch_diff a b p = Ok ops \<and> patches_value ps (GMap a) (GMap b) ops"
  "tokens_ok ps \<Longrightarrow> p = path_of ps \<Longrightarrow> json_doc (GMap a) \<Longrightarrow> json_doc (GMap b) \<Longrightarrow>
     no_nil_elems (GMap a) \<Longrightarrow> maps_kept (GMap a) (GMap b) \<Longrightarrow>
     \<exists>ops. patch_diff_entries a b p = Ok ops \<and> patches_members ps a b ops"
  "tokens_ok ps \<Longrightarrow> p = path_of ps \<Longrightarrow> json_doc av \<Longrightarrow> json_doc bv \<Longrightarrow>
     no_nil_elems av \<Longrightarrow> maps_kept av bv \<Longrightarrow>
     \<exists>ops. patch_handleValues av bv p = Ok ops \<and> patches_value ps av bv ops"
  "tokens_ok ps \<Longrightarrow> p = path_of ps \<Longrightarrow> list_all json_doc xt \<Longrightarrow> list_all json_doc yt \<Longrightarrow>
     no_nil_elems (GList xt) \<Longrightarrow> maps_kept (GList xt) (GList yt) \<Longrightarrow>
     \<exists>ops. patch_elems xt yt i p = Ok ops \<and> patches_elems ps i xt yt ops"
proof (induction a b p and a b p and av bv p and xt yt i p arbitrary: ps and ps and ps and ps
    rule: patch_diff_patch_diff_entries_patch_handleValues_patch_elems.induct)
  case (1 a b path)
  then obtain ops where "patch_diff_entries a b path = Ok ops" "patches_members ps a b ops" by blast
  with 1 patches_members_removed [of ps a b ops] show ?case
    by (auto simp: makePath_path_of gomap_ok_def)
next
  case (2 a path)
  show ?case by (simp add: patches_members_Nil)
next
  case (3 a key bv b path)
  have kb: "key \<noteq> []" "key \<notin> fst ` set b" "json_doc bv" using "3.prems" by auto
  have docs: "json_doc (GMap b)" "maps_kept (GMap a) (GMap b)" using "3.prems" by auto
  obtain ops' where ops': "patch_diff_entries a b path = Ok ops'" "patches_members ps a b ops'"
    using "3.IH"(2) "3.prems" docs by blast
  show ?case
  proof (cases "gomap_get a key")
    case None
    with ops' kb "3.prems" show ?thesis
      by (auto simp: makePath_path_of intro: patches_members_add)
  next
    case (Some av)
    have "\<exists>ops. (if TypeOf av \<noteq> TypeOf bv then Ok [NewPatch ''replace'' (makePath path key) bv]
        else patch_handleValues av bv (makePath path key)) = Ok ops \<and> patches_value (ps @ [key]) av bv ops"
    proof (cases "TypeOf av = TypeOf bv")
      case False
      with kb "3.prems" show ?thesis by (auto simp: makePath_path_of intro: patches_value_replace)
    next
      case True
      with "3.IH"(1) [OF Some, of "ps @ [key]"] "3.prems" Some kb show ?thesis
        by (auto simp: makePath_path_of doc_member simp del: json_doc.simps(1) no_nil_elems.simps(1))
    qed
    then show ?thesis
      using ops' kb Some patches_members_patch by fastforce
  qed
next
  case (4 xt bv p)
  show ?case
  proof (cases bv)
    case (GMap yt)
    with 4 show ?thesis by simp
  qed (use 4 in auto)
next
  case (5 xt bv p)
  show ?case
  proof (cases "\<exists>yt. bv = GList yt")
    case True
    then obtain yt where bv: "bv = GList yt" by blast
    obtain ops where "patch_elems xt yt 0 p = Ok ops" "patches_elems ps 0 xt yt ops"
      using "5.IH" [OF bv refl, of ps] "5.prems" by (auto simp: bv)
    with patches_elems_resized [of ps xt yt ops] 5 bv show ?thesis
      by (auto simp: makePath_path_of Let_def)
  next
    case False
    with 5 show ?thesis by (cases bv) (auto intro: patches_value_replace)
  qed
next
  case (6 bv p)
  show ?case using 6 patches_value_add patches_value_same by (cases bv) auto
next
  case (7 v bv p)
  then show ?case by simp
next
  case (8 v bv p)
  then show ?case by simp
next
  case (9 v bv p)
  then show ?case by simp
next
  case (11 av xt bv yt i p)
  obtain ops where ops: "patch_handleValues av bv (makePath p (index_part i)) = Ok ops"
      "patches_value (ps @ [index_part i]) av bv ops"
    using "11.IH"(1) [of "ps @ [index_part i]"] "11.prems" by (auto simp: makePath_path_of)
  moreover obtain ops' where "patch_elems xt yt (Suc i) p = Ok ops'" "patches_elems ps (Suc i) xt yt ops'"
    using "11.IH"(2) [of ps] "11.prems" by auto
  ultimately show ?case using patches_elems_Cons [of ps i av bv ops xt yt] "11.prems" by auto
qed (auto simp: matchesValue_scalar patches_elems_end intro: patches_value_replace patches_value_same)

lemma patch_diff_entries_same:
  assumes "\<And>k v. (k, v) \<in> set b \<Longrightarrow> gomap_get a k = Some v"
    and "\<And>k v p. (k, v) \<in> set b \<Longrightarrow> patch_handleValues v v p = Ok []"
  shows "patch_diff_entries a b p = Ok []"
  using assms
proof (induction b)
  case Nil
  show ?case by simp
next
  case (Cons e b)
  obtain k v where e: "e = (k, v)" by (cases e)
  have "gomap_get a k = Some v" "patch_handleValues v v (makePath p k) = Ok []"
    using Cons.prems(1) [of k v] Cons.prems(2) [of k v] by (simp_all add: e)
  moreover have "patch_diff_entries a b p = Ok []"
    using Cons.IH Cons.prems by (meson list.set_intros(2))
  ultimately show ?case by (simp add: e)
qed

lemma patch_elems_same:
  assumes "\<And>v p. v \<in> set l \<Longrightarrow> patch_handleValues v v p = Ok []"
  shows "patch_elems l l i p = Ok []"
  using assms by (induction l arbitrary: i) auto

lemma patch_handleValues_same: "json_doc v \<Longrightarrow> patch_handleValues v v p = Ok []"
proof (induction v arbitrary: p rule: json_doc.induct)
  case (1 m)
  have ok: "gomap_ok m" using 1 by (simp add: gomap_ok_def)
  have "patch_diff_entries m m p = Ok []"
    by (rule patch_diff_entries_same)
      (use 1 ok in \<open>auto simp: gomap_mem_get list_all_iff\<close>)
  moreover have "filter (\<lambda>e. gomap_get m (fst e) = None) m = []"
    by (auto simp: filter_empty_conv gomap_get_None_iff)
  ultimately show ?case by simp
next
  case (2 l)
  have "patch_elems l l 0 p = Ok []" by (rule patch_elems_same) (use 2 in \<open>auto simp: list_all_iff\<close>)
  then show ?case by simp
qed auto

section \<open>Properties\<close>


definition doc_before :: "gval gomap" where
  "doc_before = [(''a/b'', GList [GBool True, GString ''x'', GMap [(''k'', GFloat64 1)]]), (''c'', GNil)]"

definition doc_after :: "gval gomap" where
  "doc_after = [(''d'', GString ''new''), (''a/b'', GList [GBool True, GString ''y''])]"


text \<open>Fact. The patch between a decoded document and itself has no operation.\<close>

theorem CreatePatch_no_change:
  assumes "unmarshal ja = Some a" and "unmarshal jb = Some a" and "json_doc (GMap a)"
  shows "CreatePatch unmarshal ja jb = Ok []"
  using patch_handleValues_same [OF assms(3), of "[]"] assms
  by (simp add: CreatePatch_def del: patch_diff.simps)

theorem CreatePatch_no_change_witness:
  "CreatePatch (\<lambda>j. Some doc_before) False True = Ok []"
  by (rule CreatePatch_no_change [where a = doc_before]) (simp_all add: doc_before_def)

text \<open>
  Fact. A null array element that becomes a string is patched with an \<open>add\<close> operation at its
  index. Applied to the original document it inserts the string in front of the null instead of
  replacing it, so the result is not the modified document.
\<close>

theorem CreatePatch_null_element:
  "CreatePatch Some [(''k'', GList [GNil])] [(''k'', GList [GString ''v''])] =
     Ok [NewPatch ''add'' ''/k/0'' (GString ''v'')] \<and>
   apply_patch [NewPatch ''add'' ''/k/0'' (GString ''v'')] (GMap [(''k'', GList [GNil])]) =
     Some (GMap [(''k'', GList [GString ''v'', GNil])]) \<and>
   \<not> json_eq (GMap [(''k'', GList [GString ''v'', GNil])]) (GMap [(''k'', GList [GString ''v''])])"
  by code_simp

end
