(* ===== verification/Storage_Spec.thy ===== *)
theory Storage_Spec
  imports Config_Value
begin

text \<open>
  The storage part of a specification (\<^verbatim>\<open>api/v1/aerospikecluster_types.go\<close>): volumes, where they come
  from, how they are attached to containers and how they are initialised and wiped. Of the
  Kubernetes volume sources the code only looks at whether they are set, so they are kept as
  their decoded JSON.
\<close>

text \<open>A Go slice: \<open>None\<close> is the nil slice, which has no elements.\<close>

type_synonym 'a slice = "'a list option"

definition elems :: "'a slice \<Rightarrow> 'a list" where
  "elems s = (case s of None \<Rightarrow> [] | Some xs \<Rightarrow> xs)"

section \<open>Volumes\<close>

record AerospikePersistentVolumePolicySpec =
  InputInitMethod :: "string option"
  InputWipeMethod :: "string option"
  InputCascadeDelete :: "bool option"
  InitMethod :: string
  WipeMethod :: string
  CascadeDelete :: bool

record MountOptions =
  MoReadOnly :: "bool option"
  MoSubPath :: string
  MoMountPropagation :: "string option"
  MoSubPathExpr :: string

record AerospikeServerVolumeAttachment =
  AttPath :: string
  AttMountOptions :: MountOptions

record VolumeAttachment =
  VaContainerName :: string
  VaPath :: string
  VaMountOptions :: MountOptions

record LabelSelector =
  MatchLabels :: "string gomap option"
  MatchExpressions :: "(string \<times> string \<times> string slice) slice"

record PersistentVolumeSpec =
  PvLabels :: "string gomap option"
  PvAnnotations :: "string gomap option"
  PvStorageClass :: string
  PvVolumeMode :: string
  PvSize :: string
  PvAccessModes :: "string slice"
  PvSelector :: "LabelSelector option"

record VolumeSource =
  SrcEmptyDir :: "gval option"
  SrcSecret :: "gval option"
  SrcConfigMap :: "gval option"
  SrcPersistentVolume :: "PersistentVolumeSpec option"
  SrcHostPath :: "gval option"

record VolumeSpec =
  VolPolicy :: AerospikePersistentVolumePolicySpec
  VolName :: string
  VolSource :: VolumeSource
  VolAerospike :: "AerospikeServerVolumeAttachment option"
  VolSidecars :: "VolumeAttachment list"
  VolInitContainers :: "VolumeAttachment list"

record AerospikeStorageSpec =
  FileSystemVolumePolicy :: AerospikePersistentVolumePolicySpec
  BlockVolumePolicy :: AerospikePersistentVolumePolicySpec
  CleanupThreads :: int
  LocalStorageClasses :: "string list"
  DeleteLocalStorageOnRestart :: "bool option"
  DeleteLocalStorageOnPodRecovery :: "bool option"
  Volumes :: "VolumeSpec list"

definition AerospikeVolumeMethodNone :: string where "AerospikeVolumeMethodNone = ''none''"
definition AerospikeVolumeMethodDD :: string where "AerospikeVolumeMethodDD = ''dd''"
definition AerospikeVolumeMethodHeaderCleanup :: string where
  "AerospikeVolumeMethodHeaderCleanup = ''headerCleanup''"
definition AerospikeVolumeMethodBlkdiscard :: string where
  "AerospikeVolumeMethodBlkdiscard = ''blkdiscard''"
definition AerospikeVolumeMethodBlkdiscardWithHeaderCleanup :: string where
  "AerospikeVolumeMethodBlkdiscardWithHeaderCleanup = ''blkdiscardWithHeaderCleanup''"
definition AerospikeVolumeMethodDeleteFiles :: string where
  "AerospikeVolumeMethodDeleteFiles = ''deleteFiles''"

definition PersistentVolumeBlock :: string where "PersistentVolumeBlock = ''Block''"
definition PersistentVolumeFilesystem :: string where "PersistentVolumeFilesystem = ''Filesystem''"

lemmas volume_constants =
  AerospikeVolumeMethodNone_def AerospikeVolumeMethodDD_def AerospikeVolumeMethodHeaderCleanup_def
  AerospikeVolumeMethodBlkdiscard_def AerospikeVolumeMethodBlkdiscardWithHeaderCleanup_def
  AerospikeVolumeMethodDeleteFiles_def PersistentVolumeBlock_def PersistentVolumeFilesystem_def

text \<open>Zero values.\<close>

definition no_policy :: AerospikePersistentVolumePolicySpec where
  "no_policy = \<lparr>InputInitMethod = None, InputWipeMethod = None, InputCascadeDelete = None,
     InitMethod = [], WipeMethod = [], CascadeDelete = False\<rparr>"

definition no_mount_options :: MountOptions where
  "no_mount_options = \<lparr>MoReadOnly = None, MoSubPath = [], MoMountPropagation = None, MoSubPathExpr = []\<rparr>"

definition no_source :: VolumeSource where
  "no_source = \<lparr>SrcEmptyDir = None, SrcSecret = None, SrcConfigMap = None,
     SrcPersistentVolume = None, SrcHostPath = None\<rparr>"

definition no_storage :: AerospikeStorageSpec where
  "no_storage = \<lparr>FileSystemVolumePolicy = no_policy, BlockVolumePolicy = no_policy,
     CleanupThreads = 0, LocalStorageClasses = [], DeleteLocalStorageOnRestart = None,
     DeleteLocalStorageOnPodRecovery = None, Volumes = []\<rparr>"

section \<open>Deep equality\<close>

text \<open>\<^verbatim>\<open>reflect.DeepEqual\<close> on maps is by key; the nil map differs from the empty one.\<close>

definition map_DeepEqual :: "'v gomap option \<Rightarrow> 'v gomap option \<Rightarrow> bool" where
  "map_DeepEqual a b =
     (case (a, b) of
        (None, None) \<Rightarrow> True
      | (Some m, Some n) \<Rightarrow>
          list_all (\<lambda>e. gomap_get n (fst e) = gomap_get m (fst e)) m \<and>
          list_all (\<lambda>e. gomap_get m (fst e) = gomap_get n (fst e)) n
      | _ \<Rightarrow> False)"

definition selector_DeepEqual :: "LabelSelector option \<Rightarrow> LabelSelector option \<Rightarrow> bool" where
  "selector_DeepEqual a b =
     (case (a, b) of
        (None, None) \<Rightarrow> True
      | (Some s, Some t) \<Rightarrow>
          map_DeepEqual (MatchLabels s) (MatchLabels t) \<and> MatchExpressions s = MatchExpressions t
      | _ \<Rightarrow> False)"

definition pv_DeepEqual :: "PersistentVolumeSpec \<Rightarrow> PersistentVolumeSpec \<Rightarrow> bool" where
  "pv_DeepEqual a b \<longleftrightarrow>
     map_DeepEqual (PvLabels a) (PvLabels b) \<and> map_DeepEqual (PvAnnotations a) (PvAnnotations b) \<and>
     PvStorageClass a = PvStorageClass b \<and> PvVolumeMode a = PvVolumeMode b \<and>
     PvSize a = PvSize b \<and> PvAccessModes a = PvAccessModes b \<and>
     selector_DeepEqual (PvSelector a) (PvSelector b)"

lemma map_DeepEqual_iff:
  "map_DeepEqual a b \<longleftrightarrow>
     (a = None \<longleftrightarrow> b = None) \<and> (\<forall>m n. a = Some m \<longrightarrow> b = Some n \<longrightarrow> gomap_get m = gomap_get n)"
proof -
  have "gomap_get m = gomap_get n"
    if "\<forall>e\<in>set m. gomap_get n (fst e) = gomap_get m (fst e)"
      and "\<forall>e\<in>set n. gomap_get m (fst e) = gomap_get n (fst e)" for m n :: "'a gomap"
  proof
    fix k
    show "gomap_get m k = gomap_get n k"
    proof (cases "k \<in> fst ` set m \<union> fst ` set n")
      case True
      then show ?thesis using that by auto
    next
      case False
      then show ?thesis by (metis UnCI gomap_get_None_iff)
    qed
  qed
  then show ?thesis
    by (auto simp: map_DeepEqual_def list_all_iff split: option.splits)
qed

lemma selector_DeepEqual_refl [simp]: "selector_DeepEqual s s"
  by (auto simp: selector_DeepEqual_def map_DeepEqual_iff split: option.splits)

lemma pv_DeepEqual_refl [simp]: "pv_DeepEqual a a"
  by (simp add: pv_DeepEqual_def map_DeepEqual_iff)

lemma pv_DeepEqual_sym: "pv_DeepEqual a b \<Longrightarrow> pv_DeepEqual b a"
  by (auto simp: pv_DeepEqual_def selector_DeepEqual_def map_DeepEqual_iff split: option.splits)

end
