(* ===== verification/Cluster_Spec.thy ===== *)
theory Cluster_Spec
  imports Storage_Spec "HOL-Library.Word" "HOL-Library.Signed_Division"
begin

text \<open>
  The parts of \<^verbatim>\<open>AerospikeClusterSpec\<close> the modelled components read
  (\<^verbatim>\<open>api/v1/aerospikecluster_types.go\<close>), and the readers over a whole specification: container
  images and versions, namespaces across racks, the distribution of pods over racks, naming and
  labels (\<^verbatim>\<open>api/v1/utils.go\<close>, \<^verbatim>\<open>pkg/utils/utils.go\<close>).
\<close>

section \<open>Specification records\<close>

type_synonym uint32 = "32 word"

record AerospikeRoleSpec =
  RoleName :: string
  RolePrivileges :: "string list"
  RoleWhitelist :: "string slice"
  RoleReadQuota :: uint32
  RoleWriteQuota :: uint32

record AerospikeUserSpec =
  UserAuthMode :: string
  UserName :: string
  UserSecretName :: string
  UserRoles :: "string list"

record AerospikeAccessControlSpec =
  AdminPolicyTimeout :: "int option"
  Roles :: "AerospikeRoleSpec list"
  Users :: "AerospikeUserSpec list"

text \<open>Affinity and tolerations are opaque.\<close>

record SchedulingPolicy =
  Affinity :: "string option"
  Tolerations :: "string slice"
  NodeSelector :: "string gomap"

definition no_scheduling :: SchedulingPolicy where
  "no_scheduling = \<lparr>Affinity = None, Tolerations = None, NodeSelector = []\<rparr>"

record Rack =
  RackID :: int
  RackRevision :: string
  RackAerospikeConfig :: AerospikeConfigSpec
  RackStorage :: AerospikeStorageSpec
  RackForceBlockFromRoster :: "bool option"
  RackZone :: string
  RackRegion :: string
  RackRackLabel :: string
  RackNodeName :: string
  RackInputAerospikeConfig :: "AerospikeConfigSpec option"
  RackInputStorage :: "AerospikeStorageSpec option"
  RackInputPodSpec :: "SchedulingPolicy option"
  RackPodSpec :: SchedulingPolicy

record Container =
  ContainerName :: string
  ContainerImage :: string

text \<open>
  Quantities of resources in their smallest unit; a resource that is not listed has quantity zero.
\<close>

record ResourceList =
  ResCpu :: int
  ResMemory :: int

record ResourceRequirements =
  ResLimits :: "ResourceList option"
  ResRequests :: "ResourceList option"

record AerospikeInitContainerSpec =
  ImageRegistry :: string
  ImageRegistryNamespace :: "string option"
  ImageNameAndTag :: string
  InitResources :: "ResourceRequirements option"

text \<open>The fields of a pod's security context but its file system group are opaque.\<close>

record PodSecurityContext =
  FSGroup :: "int option"
  OtherSecurity :: string

text \<open>\<open>DNSConfig\<close> is opaque; only whether it is set is read.\<close>

record AerospikePodSpec =
  InitContainerSpec :: "AerospikeInitContainerSpec option"
  Sidecars :: "Container list"
  InitContainers :: "Container list"
  ContainerResources :: "ResourceRequirements option"
  ObjectLabels :: "string gomap"
  ObjectAnnotations :: "string gomap"
  MultiPodPerHost :: "bool option"
  HostNetwork :: bool
  InputDNSPolicy :: "string option"
  DNSPolicy :: string
  DNSConfig :: "string option"
  SchedPolicy :: SchedulingPolicy
  SecurityContext :: "PodSecurityContext option"

text \<open>Certificates of the operator, the network policy and the validation policy.\<close>

record CaCertsSource =
  CaSecretName :: string
  CaSecretNamespace :: string

record AerospikeSecretCertSource =
  CertCaCertsSource :: "CaCertsSource option"
  CertSecretName :: string
  CertSecretNamespace :: string
  CaCertsFilename :: string
  ClientCertFilename :: string
  ClientKeyFilename :: string

record AerospikeCertPathInOperatorSource =
  CaCertsPath :: string
  ClientCertPath :: string
  ClientKeyPath :: string

record AerospikeOperatorClientCertSpec =
  TLSClientName :: string
  SecretCertSource :: "AerospikeSecretCertSource option"
  CertPathInOperator :: "AerospikeCertPathInOperatorSource option"

record AerospikeNetworkPolicy =
  AccessType :: string
  CustomAccessNetworkNames :: "string slice"
  AlternateAccessType :: string
  CustomAlternateAccessNetworkNames :: "string slice"
  TLSAccessType :: string
  CustomTLSAccessNetworkNames :: "string slice"
  TLSAlternateAccessType :: string
  CustomTLSAlternateAccessNetworkNames :: "string slice"
  FabricType :: string
  CustomFabricNetworkNames :: "string slice"
  TLSFabricType :: string
  CustomTLSFabricNetworkNames :: "string slice"

record ValidationPolicySpec =
  SkipWorkDirValidate :: bool
  SkipXdrDlogFileValidate :: bool

text \<open>Metadata of the services the operator creates, and the load balancer of the seeds.\<close>

record ServiceSpec =
  SvcAnnotations :: "string gomap"
  SvcLabels :: "string gomap"

record LoadBalancerSpec =
  ExternalTrafficPolicy :: string
  LbAnnotations :: "string gomap"
  LbPortName :: string
  LbPort :: int
  LbTargetPort :: int
  LoadBalancerSourceRanges :: "string list"

text \<open>\<^verbatim>\<open>intstr.IntOrString\<close>\<close>

datatype IntOrString = IosInt int | IosString string

text \<open>An on-demand operation.\<close>

record OperationSpec =
  OpKind :: string
  OpID :: string
  OpPodList :: "string slice"

definition OperationWarmRestart :: string where "OperationWarmRestart = ''WarmRestart''"
definition OperationPodRestart :: string where "OperationPodRestart = ''PodRestart''"

text \<open>
  \<open>SpecAerospikeConfig\<close> is dereferenced unconditionally by the readers; it is never nil. The
  fields of the Go structure's \<^verbatim>\<open>RackConfig\<close> and of \<^verbatim>\<open>RestartStrategy\<close> stand beside the others.
\<close>

record AerospikeClusterSpec =
  SpecSize :: int
  SpecImage :: string
  SpecAccessControl :: "AerospikeAccessControlSpec option"
  SpecAerospikeConfig :: AerospikeConfigSpec
  SpecStorage :: AerospikeStorageSpec
  SpecRacks :: "Rack list"
  SpecRollingUpdateBatchSize :: "IntOrString option"
  SpecScaleDownBatchSize :: "IntOrString option"
  SpecEnableParallelScaleDown :: "bool option"
  SpecMaxIgnorablePods :: "IntOrString option"
  SpecPodSpec :: AerospikePodSpec
  SpecEnableDynamicConfigUpdate :: "bool option"
  SpecEnableRackIDOverride :: "bool option"
  SpecIgnoreSidecarFailure :: "bool option"
  SpecRosterNodeBlockList :: "string list"
  SpecK8sNodeBlockList :: "string list"
  SpecOperations :: "OperationSpec slice"
  SpecOverrideMigrateFillDelay :: "uint32 option"
  SpecPreviewFeatures :: "string list"
  SpecRackNamespaces :: "string list"
  SpecMaxUnavailable :: "IntOrString option"
  SpecDisablePDB :: "bool option"
  SpecValidationPolicy :: "ValidationPolicySpec option"
  SpecNetworkPolicy :: AerospikeNetworkPolicy
  SpecOperatorClientCert :: "AerospikeOperatorClientCertSpec option"
  SpecPaused :: "bool option"
  SpecLoadBalancer :: "LoadBalancerSpec option"
  SpecHeadlessService :: ServiceSpec
  SpecPodService :: ServiceSpec

text \<open>The status of a pod and of the cluster, as far as the modelled code reads them.\<close>

record AerospikePodStatus =
  PsInitImage :: string
  PsDirtyVolumes :: "string list"
  PsAerospikeConfigHash :: string
  PsNetworkPolicyHash :: string
  PsPodSpecHash :: string
  PsDynamicConfigUpdateStatus :: string
  PsRackIDOverridden :: bool

text \<open>
  The specification part of the status: what was last reconciled. The fields of the Go structure that
  are never written (\<^verbatim>\<open>MultiPodPerHost\<close>, \<^verbatim>\<open>Resources\<close>) and the readiness probe flag are left out.
\<close>

record AerospikeClusterStatusSpec =
  StSize :: int
  StImage :: string
  StMaxUnavailable :: "IntOrString option"
  StDisablePDB :: "bool option"
  StStorage :: AerospikeStorageSpec
  StAccessControl :: "AerospikeAccessControlSpec option"
  StAerospikeConfig :: "AerospikeConfigSpec option"
  StEnableDynamicConfigUpdate :: "bool option"
  StEnableRackIDOverride :: "bool option"
  StIgnoreSidecarFailure :: "bool option"
  StValidationPolicy :: "ValidationPolicySpec option"
  StRackNamespaces :: "string list"
  StRacks :: "Rack list"
  StRollingUpdateBatchSize :: "IntOrString option"
  StScaleDownBatchSize :: "IntOrString option"
  StEnableParallelScaleDown :: "bool option"
  StMaxIgnorablePods :: "IntOrString option"
  StNetworkPolicy :: AerospikeNetworkPolicy
  StOperatorClientCert :: "AerospikeOperatorClientCertSpec option"
  StPodSpec :: AerospikePodSpec
  StLoadBalancer :: "LoadBalancerSpec option"
  StHeadlessService :: ServiceSpec
  StPodService :: ServiceSpec
  StRosterNodeBlockList :: "string list"
  StK8sNodeBlockList :: "string list"
  StOperations :: "OperationSpec slice"
  StOverrideMigrateFillDelay :: "uint32 option"
  StPreviewFeatures :: "string list"

record AerospikeClusterStatus = AerospikeClusterStatusSpec +
  StPods :: "AerospikePodStatus gomap"
  StDynamicMigrateFillDelay :: uint32

record AerospikeCluster =
  ClusterName :: string
  ClusterNamespace :: string
  ClusterLabels :: "string gomap"
  ClusterSpec :: AerospikeClusterSpec
  ClusterStatus :: AerospikeClusterStatus

text \<open>A specification with nothing set, to be overwritten field by field.\<close>

definition no_pod_spec :: AerospikePodSpec where
  "no_pod_spec = \<lparr>InitContainerSpec = None, Sidecars = [], InitContainers = [], ContainerResources = None,
     ObjectLabels = [], ObjectAnnotations = [], MultiPodPerHost = None, HostNetwork = False,
     InputDNSPolicy = None, DNSPolicy = [], DNSConfig = None, SchedPolicy = no_scheduling, SecurityContext = None\<rparr>"

definition no_network_policy :: AerospikeNetworkPolicy where
  "no_network_policy = \<lparr>AccessType = [], CustomAccessNetworkNames = None, AlternateAccessType = [],
     CustomAlternateAccessNetworkNames = None, TLSAccessType = [], CustomTLSAccessNetworkNames = None,
     TLSAlternateAccessType = [], CustomTLSAlternateAccessNetworkNames = None, FabricType = [],
     CustomFabricNetworkNames = None, TLSFabricType = [], CustomTLSFabricNetworkNames = None\<rparr>"

definition no_service :: ServiceSpec where
  "no_service = \<lparr>SvcAnnotations = [], SvcLabels = []\<rparr>"

definition no_spec :: AerospikeClusterSpec where
  "no_spec = \<lparr>SpecSize = 0, SpecImage = [], SpecAccessControl = None,
     SpecAerospikeConfig = \<lparr>Value = None\<rparr>, SpecStorage = no_storage, SpecRacks = [],
     SpecRollingUpdateBatchSize = None, SpecScaleDownBatchSize = None,
     SpecEnableParallelScaleDown = None, SpecMaxIgnorablePods = None,
     SpecPodSpec = no_pod_spec,
     SpecEnableDynamicConfigUpdate = None, SpecEnableRackIDOverride = None,
     SpecIgnoreSidecarFailure = None, SpecRosterNodeBlockList = [], SpecK8sNodeBlockList = [],
     SpecOperations = None, SpecOverrideMigrateFillDelay = None, SpecPreviewFeatures = [],
     SpecRackNamespaces = [], SpecMaxUnavailable = None, SpecDisablePDB = None, SpecValidationPolicy = None,
     SpecNetworkPolicy = no_network_policy, SpecOperatorClientCert = None, SpecPaused = None,
     SpecLoadBalancer = None, SpecHeadlessService = no_service, SpecPodService = no_service\<rparr>"

definition no_status_spec :: AerospikeClusterStatusSpec where
  "no_status_spec = \<lparr>StSize = 0, StImage = [], StMaxUnavailable = None, StDisablePDB = None, StStorage = no_storage,
     StAccessControl = None, StAerospikeConfig = None, StEnableDynamicConfigUpdate = None,
     StEnableRackIDOverride = None, StIgnoreSidecarFailure = None, StValidationPolicy = None,
     StRackNamespaces = [], StRacks = [], StRollingUpdateBatchSize = None, StScaleDownBatchSize = None,
     StEnableParallelScaleDown = None, StMaxIgnorablePods = None, StNetworkPolicy = no_network_policy,
     StOperatorClientCert = None, StPodSpec = no_pod_spec, StLoadBalancer = None,
     StHeadlessService = no_service, StPodService = no_service, StRosterNodeBlockList = [],
     StK8sNodeBlockList = [], StOperations = None, StOverrideMigrateFillDelay = None, StPreviewFeatures = []\<rparr>"

definition no_status :: AerospikeClusterStatus where
  "no_status = AerospikeClusterStatusSpec.extend no_status_spec
     \<lparr>StPods = [], StDynamicMigrateFillDelay = 0\<rparr>"

text \<open>
  The copies between a specification and its status. Deep copies are values here. \<^verbatim>\<open>Paused\<close> has no
  counterpart in the status; empty lists are not copied, so they come back as nil. A nil
  configuration and a configuration without value are one value of the specification.
\<close>

definition copied :: "'a slice \<Rightarrow> 'a slice" where
  "copied xs = (if elems xs \<noteq> [] then xs else None)"

definition CopySpecToStatus :: "AerospikeClusterSpec \<Rightarrow> AerospikeClusterStatusSpec" where
  "CopySpecToStatus spec = no_status_spec\<lparr>StSize := SpecSize spec, StImage := SpecImage spec,
     StMaxUnavailable := SpecMaxUnavailable spec, StStorage := SpecStorage spec,
     StAccessControl := SpecAccessControl spec, StAerospikeConfig := Some (SpecAerospikeConfig spec),
     StValidationPolicy := SpecValidationPolicy spec,
     StRackNamespaces := SpecRackNamespaces spec, StRacks := SpecRacks spec,
     StRollingUpdateBatchSize := SpecRollingUpdateBatchSize spec, StScaleDownBatchSize := SpecScaleDownBatchSize spec,
     StEnableParallelScaleDown := SpecEnableParallelScaleDown spec, StMaxIgnorablePods := SpecMaxIgnorablePods spec,
     StNetworkPolicy := SpecNetworkPolicy spec, StOperatorClientCert := SpecOperatorClientCert spec,
     StEnableDynamicConfigUpdate := SpecEnableDynamicConfigUpdate spec,
     StEnableRackIDOverride := SpecEnableRackIDOverride spec, StDisablePDB := SpecDisablePDB spec,
     StIgnoreSidecarFailure := SpecIgnoreSidecarFailure spec, StPodSpec := SpecPodSpec spec,
     StLoadBalancer := SpecLoadBalancer spec, StHeadlessService := SpecHeadlessService spec,
     StPodService := SpecPodService spec, StRosterNodeBlockList := SpecRosterNodeBlockList spec,
     StK8sNodeBlockList := SpecK8sNodeBlockList spec, StOperations := copied (SpecOperations spec),
     StOverrideMigrateFillDelay := SpecOverrideMigrateFillDelay spec, StPreviewFeatures := SpecPreviewFeatures spec\<rparr>"

definition CopyStatusToSpec :: "'a AerospikeClusterStatusSpec_scheme \<Rightarrow> AerospikeClusterSpec" where
  "CopyStatusToSpec status = no_spec\<lparr>SpecSize := StSize status, SpecImage := StImage status,
     SpecMaxUnavailable := StMaxUnavailable status, SpecStorage := StStorage status,
     SpecAccessControl := StAccessControl status,
     SpecAerospikeConfig := (case StAerospikeConfig status of None \<Rightarrow> \<lparr>Value = None\<rparr> | Some c \<Rightarrow> c),
     SpecValidationPolicy := StValidationPolicy status,
     SpecRackNamespaces := StRackNamespaces status, SpecRacks := StRacks status,
     SpecRollingUpdateBatchSize := StRollingUpdateBatchSize status, SpecScaleDownBatchSize := StScaleDownBatchSize status,
     SpecEnableParallelScaleDown := StEnableParallelScaleDown status, SpecMaxIgnorablePods := StMaxIgnorablePods status,
     SpecNetworkPolicy := StNetworkPolicy status, SpecOperatorClientCert := StOperatorClientCert status,
     SpecEnableDynamicConfigUpdate := StEnableDynamicConfigUpdate status,
     SpecEnableRackIDOverride := StEnableRackIDOverride status, SpecDisablePDB := StDisablePDB status,
     SpecIgnoreSidecarFailure := StIgnoreSidecarFailure status, SpecPodSpec := StPodSpec status,
     SpecLoadBalancer := StLoadBalancer status, SpecHeadlessService := StHeadlessService status,
     SpecPodService := StPodService status, SpecRosterNodeBlockList := StRosterNodeBlockList status,
     SpecK8sNodeBlockList := StK8sNodeBlockList status, SpecPreviewFeatures := StPreviewFeatures status,
     SpecOperations := copied (StOperations status),
     SpecOverrideMigrateFillDelay := StOverrideMigrateFillDelay status\<rparr>"

definition AerospikeAuthModeInternal :: string where "AerospikeAuthModeInternal = ''Internal''"
definition AerospikeAuthModePKIOnly :: string where "AerospikeAuthModePKIOnly = ''PKIOnly''"

definition IsAuthModeInternal :: "string \<Rightarrow> bool" where
  "IsAuthModeInternal authMode \<longleftrightarrow> authMode = AerospikeAuthModeInternal \<or> authMode = []"

text \<open>The authentication modes of the client library the operator configures.\<close>

datatype as_auth_mode = AuthModeInternal | AuthModePKI

definition GetClientAuthMode :: "string \<Rightarrow> as_auth_mode" where
  "GetClientAuthMode authMode =
     (if authMode = AerospikeAuthModeInternal then AuthModeInternal
      else if authMode = AerospikeAuthModePKIOnly then AuthModePKI
      else AuthModeInternal)"

definition IsFederal :: "string \<Rightarrow> bool" where
  "IsFederal img = Contains (ToLower img) ''federal''"

section \<open>Namespaces of a specification\<close>

text \<open>Sets of names are kept as lists of insertions; only membership is read.\<close>

definition GetAllNamespaceNames :: "AerospikeClusterSpec \<Rightarrow> string list" where
  "GetAllNamespaceNames spec =
     concat (map (\<lambda>r. GetNamespaceNamesFromConfig (conf_map (RackAerospikeConfig r))) (SpecRacks spec))"

definition GetAllPodNames :: "'p gomap \<Rightarrow> string list" where
  "GetAllPodNames pods = map fst pods"

text \<open>\<^verbatim>\<open>Racks[0]\<close> and the assertions on the namespace list panic when they do not hold.\<close>

definition IsClusterSCEnabled :: "AerospikeClusterSpec \<Rightarrow> (conf_error, bool) res" where
  "IsClusterSCEnabled spec =
     (case SpecRacks spec of
        [] \<Rightarrow> Panic
      | rack # _ \<Rightarrow>
          res_bind (must (as_list (idx (conf_map (RackAerospikeConfig rack)) ConfKeyNamespace)))
            any_ns_sc)"

section \<open>Distribution of pods over racks\<close>

text \<open>
  \<^verbatim>\<open>int32\<close> division truncates towards zero and panics on a zero divisor. The loop variable runs
  over \<^verbatim>\<open>0 .. totalGroups - 1\<close>.
\<close>

definition DistributeItems :: "int \<Rightarrow> int \<Rightarrow> (conf_error, int list) res" where
  "DistributeItems totalItems totalGroups =
     (if totalGroups = 0 then Panic
      else
        let itemsPerGroup = totalItems sdiv totalGroups;
            extraItems = totalItems smod totalGroups
        in Ok (map (\<lambda>groupIdx. if groupIdx < extraItems then itemsPerGroup + 1 else itemsPerGroup)
                 [0..totalGroups - 1]))"

section \<open>Container images\<close>

definition AerospikeServerContainerName :: string where
  "AerospikeServerContainerName = ''aerospike-server''"
definition AerospikeInitContainerName :: string where
  "AerospikeInitContainerName = ''aerospike-init''"
definition AerospikeInitContainerRegistryEnvVar :: string where
  "AerospikeInitContainerRegistryEnvVar = ''AEROSPIKE_KUBERNETES_INIT_REGISTRY''"
definition AerospikeInitContainerRegistryNamespaceEnvVar :: string where
  "AerospikeInitContainerRegistryNamespaceEnvVar = ''AEROSPIKE_KUBERNETES_INIT_REGISTRY_NAMESPACE''"
definition AerospikeInitContainerNameTagEnvVar :: string where
  "AerospikeInitContainerNameTagEnvVar = ''AEROSPIKE_KUBERNETES_INIT_NAME_TAG''"
definition AerospikeInitContainerDefaultRegistry :: string where
  "AerospikeInitContainerDefaultRegistry = ''docker.io''"
definition AerospikeInitContainerDefaultRegistryNamespace :: string where
  "AerospikeInitContainerDefaultRegistryNamespace = ''aerospike''"
definition AerospikeInitContainerDefaultNameAndTag :: string where
  "AerospikeInitContainerDefaultNameAndTag = ''aerospike-kubernetes-init:2.5.5''"

text \<open>The process environment is the argument \<open>env\<close> (\<^verbatim>\<open>os.LookupEnv\<close>).\<close>

definition getInitContainerImage :: "string \<Rightarrow> string \<Rightarrow> string \<Rightarrow> string" where
  "getInitContainerImage registry namespace repoAndTag =
     TrimSuffix registry ''/'' @ ''/'' @ TrimSuffix namespace ''/'' @ ''/'' @ repoAndTag"

definition getInitContainerImageRegistryNamespace ::
  "(string \<Rightarrow> string option) \<Rightarrow> AerospikeCluster \<Rightarrow> string" where
  "getInitContainerImageRegistryNamespace env aeroCluster =
     (case (case InitContainerSpec (SpecPodSpec (ClusterSpec aeroCluster)) of
              None \<Rightarrow> None
            | Some c \<Rightarrow> ImageRegistryNamespace c) of
        Some namespace \<Rightarrow> namespace
      | None \<Rightarrow>
          (case env AerospikeInitContainerRegistryNamespaceEnvVar of
             Some namespace \<Rightarrow> namespace
           | None \<Rightarrow> AerospikeInitContainerDefaultRegistryNamespace))"

definition getInitContainerImageValue ::
  "(string \<Rightarrow> string option) \<Rightarrow> AerospikeCluster \<Rightarrow> string \<Rightarrow> string \<Rightarrow> string" where
  "getInitContainerImageValue env aeroCluster envVar defaultValue =
     (let fromCR =
            (case InitContainerSpec (SpecPodSpec (ClusterSpec aeroCluster)) of
               None \<Rightarrow> []
             | Some c \<Rightarrow>
                 if envVar = AerospikeInitContainerRegistryEnvVar then ImageRegistry c
                 else if envVar = AerospikeInitContainerNameTagEnvVar then ImageNameAndTag c
                 else []);
          fromEnv = (if fromCR = []
                     then (case env envVar of Some v \<Rightarrow> v | None \<Rightarrow> fromCR)
                     else fromCR)
      in if fromEnv = [] then defaultValue else fromEnv)"

definition GetAerospikeInitContainerImage ::
  "(string \<Rightarrow> string option) \<Rightarrow> AerospikeCluster \<Rightarrow> string" where
  "GetAerospikeInitContainerImage env aeroCluster =
     (let registry = getInitContainerImageValue env aeroCluster
            AerospikeInitContainerRegistryEnvVar AerospikeInitContainerDefaultRegistry;
          namespace = getInitContainerImageRegistryNamespace env aeroCluster;
          repoAndTag = getInitContainerImageValue env aeroCluster
            AerospikeInitContainerNameTagEnvVar AerospikeInitContainerDefaultNameAndTag
      in getInitContainerImage registry namespace repoAndTag)"

subsection \<open>Image tags\<close>

text \<open>
  The regular expression \<^verbatim>\<open>(?P<registry>[^/]+/)?(?P<image>[^:]+)(?P<version>:.+)?\<close> under Go's
  leftmost, greedy matching. At one position: the registry group takes everything up to and
  including the first slash if at least one other byte precedes it; if the image group then
  cannot take a byte, the registry group is left out. The image group takes everything up to the
  first colon, and the version group the colon and the rest of the line if the rest is not
  empty.
\<close>

definition image_version_group :: "string \<Rightarrow> string" where
  "image_version_group s =
     (case s of
        x # y # rest \<Rightarrow>
          if x = CHR '':'' \<and> y \<noteq> CHR 0x0A
          then takeWhile (\<lambda>c. c \<noteq> CHR 0x0A) s else []
      | _ \<Rightarrow> [])"

definition image_name_groups :: "string \<Rightarrow> (string \<times> string) option" where
  "image_name_groups s =
     (let name = takeWhile (\<lambda>c. c \<noteq> CHR '':'') s in
      if name = [] then None
      else Some (name, image_version_group (dropWhile (\<lambda>c. c \<noteq> CHR '':'') s)))"

definition image_match_at :: "string \<Rightarrow> (string \<times> string \<times> string) option" where
  "image_match_at s =
     (let reg = takeWhile (\<lambda>c. c \<noteq> CHR ''/'') s;
          after = dropWhile (\<lambda>c. c \<noteq> CHR ''/'') s;
          withRegistry =
            (if reg \<noteq> [] \<and> after \<noteq> []
             then map_option (\<lambda>(n, v). (reg @ ''/'', n, v)) (image_name_groups (tl after))
             else None)
      in case withRegistry of
           Some m \<Rightarrow> Some m
         | None \<Rightarrow> map_option (\<lambda>(n, v). ([], n, v)) (image_name_groups s))"

fun image_find_match :: "string \<Rightarrow> (string \<times> string \<times> string) option" where
  "image_find_match [] = None"
| "image_find_match (c # s) =
     (case image_match_at (c # s) of Some m \<Rightarrow> Some m | None \<Rightarrow> image_find_match s)"

text \<open>\<^verbatim>\<open>api/v1.ParseDockerImageTag\<close>: a tag without a match parses to empty parts.\<close>

definition ParseDockerImageTag :: "string \<Rightarrow> string \<times> string \<times> string" where
  "ParseDockerImageTag tag =
     (if tag = [] then ([], [], [])
      else case image_find_match tag of
             None \<Rightarrow> ([], [], [])
           | Some (r, n, v) \<Rightarrow> (r, n, TrimPrefix v '':''))"

text \<open>\<^verbatim>\<open>pkg/utils.ParseDockerImageTag\<close>: indexing the nil match panics.\<close>

definition utils_ParseDockerImageTag ::
  "string \<Rightarrow> (conf_error, string \<times> string \<times> string) res" where
  "utils_ParseDockerImageTag tag =
     (if tag = [] then Ok ([], [], [])
      else case image_find_match tag of
             None \<Rightarrow> Panic
           | Some (r, n, v) \<Rightarrow> Ok (r, n, TrimPrefix v '':''))"

definition DockerHubImagePrefix :: string where "DockerHubImagePrefix = ''docker.io/''"

definition IsImageEqual :: "string \<Rightarrow> string \<Rightarrow> (conf_error, bool) res" where
  "IsImageEqual image1 image2 =
     res_bind (utils_ParseDockerImageTag (TrimPrefix image1 DockerHubImagePrefix))
       (\<lambda>(desiredRegistry, desiredName, desiredVersion).
     res_bind (utils_ParseDockerImageTag (TrimPrefix image2 DockerHubImagePrefix))
       (\<lambda>(actualRegistry, actualName, actualVersion).
     Ok (desiredRegistry = actualRegistry \<and> desiredName = actualName \<and>
         (desiredVersion = actualVersion \<or>
          desiredVersion = '':latest'' \<and> actualVersion = [] \<or>
          actualVersion = '':latest'' \<and> desiredVersion = []))))"

fun container_image :: "string \<Rightarrow> Container list \<Rightarrow> string option" where
  "container_image name [] = None"
| "container_image name (c # cs) =
     (if ContainerName c = name then Some (ContainerImage c) else container_image name cs)"

text \<open>The error is the name of the container that is not found.\<close>

definition GetDesiredImage ::
  "(string \<Rightarrow> string option) \<Rightarrow> AerospikeCluster \<Rightarrow> string \<Rightarrow> (string, string) res" where
  "GetDesiredImage env aeroCluster containerName =
     (if containerName = AerospikeServerContainerName
      then Ok (SpecImage (ClusterSpec aeroCluster))
      else if containerName = AerospikeInitContainerName
      then Ok (GetAerospikeInitContainerImage env aeroCluster)
      else case container_image containerName (Sidecars (SpecPodSpec (ClusterSpec aeroCluster))) of
             Some img \<Rightarrow> Ok img
           | None \<Rightarrow>
               (case container_image containerName
                       (filter (\<lambda>c. ContainerName c \<noteq> AerospikeInitContainerName)
                          (InitContainers (SpecPodSpec (ClusterSpec aeroCluster)))) of
                  Some img \<Rightarrow> Ok img
                | None \<Rightarrow> Err containerName))"

subsection \<open>Image versions\<close>

text \<open>
  The regular expression \<^verbatim>\<open>(\d+(\.\d+)+)\<close>: digits, then one or more groups of a dot and
  digits, all greedy. \<open>version_groups\<close> returns what the groups take and what is left.
\<close>

definition is_digit :: "char \<Rightarrow> bool" where
  "is_digit c \<longleftrightarrow> digit_val c \<noteq> None"

function version_groups :: "string \<Rightarrow> string \<times> string" where
  "version_groups s =
     (case s of
        [] \<Rightarrow> ([], [])
      | c # rest \<Rightarrow>
          (let ds = takeWhile is_digit rest in
           if c = CHR ''.'' \<and> ds \<noteq> []
           then (let (g, r) = version_groups (drop (length ds) rest) in (c # ds @ g, r))
           else ([], s)))"
  by pat_completeness auto
termination
  by (relation "measure length") auto

declare version_groups.simps [simp del]

definition version_match_at :: "string \<Rightarrow> string option" where
  "version_match_at s =
     (let ds = takeWhile is_digit s; (g, r) = version_groups (dropWhile is_digit s) in
      if ds \<noteq> [] \<and> g \<noteq> [] then Some (ds @ g) else None)"

lemma version_match_at_nonempty: "version_match_at s = Some m \<Longrightarrow> m \<noteq> []"
  by (auto simp: version_match_at_def Let_def split: prod.splits if_splits)

function version_matches :: "string \<Rightarrow> string list" where
  "version_matches s =
     (case s of
        [] \<Rightarrow> []
      | c # rest \<Rightarrow>
          (case version_match_at s of
             Some m \<Rightarrow> m # version_matches (drop (length m) s)
           | None \<Rightarrow> version_matches rest))"
  by pat_completeness auto
termination
  by (relation "measure length") (auto dest: version_match_at_nonempty)

declare version_matches.simps [simp del]

text \<open>The last of the longest matches.\<close>

fun longest_match :: "string \<Rightarrow> string list \<Rightarrow> string" where
  "longest_match best [] = best"
| "longest_match best (m # ms) =
     longest_match (if length m \<ge> length best then m else best) ms"

datatype image_error = ImageVersionMandatory string | InvalidImageVersionFormat string

definition GetImageVersion :: "string \<Rightarrow> (image_error, string) res" where
  "GetImageVersion imageStr =
     (let (_, _, version) = ParseDockerImageTag imageStr in
      if version = [] \<or> EqualFold version ''latest'' then Err (ImageVersionMandatory imageStr)
      else case version_matches version of
             [] \<Rightarrow> Err (InvalidImageVersionFormat version)
           | m # ms \<Rightarrow> Ok (longest_match m (m # ms)))"

section \<open>Facts on the distribution\<close>

lemma upto_Suc_snoc: "[0..int (Suc n) - 1] = [0..int n - 1] @ [int n]"
  by (simp add: upto_rec2)

lemma sum_distribution:
  "0 \<le> e \<Longrightarrow>
   sum_list (map (\<lambda>i. if i < e then q + 1 else q) [0..int n - 1]) = int n * q + min e (int n)"
proof (induction n)
  case 0
  then show ?case by simp
next
  case (Suc n)
  then show ?case by (simp only: upto_Suc_snoc) (auto simp: algebra_simps)
qed

lemma DistributeItems_nonneg:
  assumes "0 \<le> totalItems" and "0 < totalGroups"
  shows "DistributeItems totalItems totalGroups =
    Ok (map (\<lambda>i. if i < totalItems mod totalGroups then totalItems div totalGroups + 1
                  else totalItems div totalGroups) [0..totalGroups - 1])"
proof (cases "totalItems = 0")
  case True
  with assms show ?thesis
    by (simp add: DistributeItems_def signed_divide_int_def signed_modulo_int_def Let_def)
next
  case False
  with assms have "totalItems sdiv totalGroups = totalItems div totalGroups"
    and "totalItems smod totalGroups = totalItems mod totalGroups"
    by (simp_all add: signed_divide_int_def signed_modulo_int_def)
  with assms show ?thesis by (simp add: DistributeItems_def Let_def)
qed

lemma DistributeItems_sum:
  assumes "0 \<le> totalItems" and "0 < totalGroups"
    and "DistributeItems totalItems totalGroups = Ok ts"
  shows "sum_list ts = totalItems"
proof -
  let ?e = "totalItems mod totalGroups" and ?q = "totalItems div totalGroups"
  obtain n where n: "totalGroups = int n" using assms(2) by (metis zero_le_imp_eq_int less_imp_le)
  from assms(2) have e: "0 \<le> ?e" "?e < totalGroups" by auto
  have "sum_list ts = totalGroups * ?q + min ?e totalGroups"
    using assms(3) sum_distribution [OF e(1), of ?q n]
    unfolding DistributeItems_nonneg [OF assms(1,2)] n [symmetric] by auto
  also have "\<dots> = totalItems" using e by simp
  finally show ?thesis .
qed

section \<open>Facts on image tags\<close>

lemma takeWhile_no: "c \<notin> set s \<Longrightarrow> takeWhile (\<lambda>x. x \<noteq> c) s = s"
  by (simp add: takeWhile_eq_all_conv) metis

lemma dropWhile_no: "c \<notin> set s \<Longrightarrow> dropWhile (\<lambda>x. x \<noteq> c) s = []"
  by (simp add: dropWhile_eq_Nil_conv) metis

lemma takeWhile_until: "c \<notin> set s \<Longrightarrow> takeWhile (\<lambda>x. x \<noteq> c) (s @ c # t) = s"
  by (induction s) auto

lemma dropWhile_until: "c \<notin> set s \<Longrightarrow> dropWhile (\<lambda>x. x \<noteq> c) (s @ c # t) = c # t"
  by (induction s) auto

lemma image_name_groups_tagged:
  assumes "n \<noteq> []" and "CHR '':'' \<notin> set n" and "v \<noteq> []" and "CHR 0x0A \<notin> set v"
  shows "image_name_groups (n @ CHR '':'' # v) = Some (n, CHR '':'' # v)"
proof -
  obtain y w where v: "v = y # w" using assms(3) by (cases v) auto
  have "takeWhile (\<lambda>c. c \<noteq> CHR 0x0A) (CHR '':'' # v) = CHR '':'' # v"
    using assms(4) takeWhile_no [of "CHR 0x0A" "CHR '':'' # v"] by simp
  moreover have "y \<noteq> CHR 0x0A" using assms(4) v by auto
  ultimately show ?thesis
    using assms(1,2) v
    by (simp add: image_name_groups_def takeWhile_until dropWhile_until image_version_group_def)
qed

lemma image_name_groups_untagged:
  assumes "n \<noteq> []" and "CHR '':'' \<notin> set n"
  shows "image_name_groups n = Some (n, [])"
  using assms
  by (simp add: image_name_groups_def takeWhile_no dropWhile_no image_version_group_def)

lemma image_match_no_slash:
  assumes "CHR ''/'' \<notin> set s"
  shows "image_match_at s = map_option (\<lambda>(n, v). ([], n, v)) (image_name_groups s)"
  using dropWhile_no [OF assms] by (simp add: image_match_at_def)

lemma image_find_first: "s \<noteq> [] \<Longrightarrow> image_match_at s = Some m \<Longrightarrow> image_find_match s = Some m"
  by (cases s) auto

lemma parse_plain_tagged:
  assumes "n \<noteq> []" and "CHR '':'' \<notin> set n" and "CHR ''/'' \<notin> set n"
    and "v \<noteq> []" and "CHR 0x0A \<notin> set v" and "CHR ''/'' \<notin> set v"
  shows "utils_ParseDockerImageTag (n @ CHR '':'' # v) = Ok ([], n, v)"
proof -
  have "image_find_match (n @ CHR '':'' # v) = Some ([], n, CHR '':'' # v)"
    using assms by (intro image_find_first) (auto simp: image_match_no_slash image_name_groups_tagged)
  then show ?thesis
    by (simp add: utils_ParseDockerImageTag_def TrimPrefix_def HasPrefix_def)
qed

lemma parse_plain_untagged:
  assumes "n \<noteq> []" and "CHR '':'' \<notin> set n" and "CHR ''/'' \<notin> set n"
  shows "utils_ParseDockerImageTag n = Ok ([], n, [])"
proof -
  have "image_find_match n = Some ([], n, [])"
    using assms by (intro image_find_first) (auto simp: image_match_no_slash image_name_groups_untagged)
  then show ?thesis
    using assms(1) by (simp add: utils_ParseDockerImageTag_def TrimPrefix_def HasPrefix_def)
qed

lemma TrimPrefix_docker_plain:
  assumes "CHR ''/'' \<notin> set s"
  shows "TrimPrefix s DockerHubImagePrefix = s"
proof -
  have "\<not> HasPrefix s DockerHubImagePrefix"
  proof
    assume "HasPrefix s DockerHubImagePrefix"
    then have "set DockerHubImagePrefix \<subseteq> set s"
      by (metis HasPrefix_prefix set_mono_prefix)
    with assms show False by (simp add: DockerHubImagePrefix_def)
  qed
  then show ?thesis by (simp add: TrimPrefix_def)
qed

text \<open>Comparison is symmetric, and an image that parses equals itself.\<close>

lemma IsImageEqual_refl:
  "utils_ParseDockerImageTag (TrimPrefix a DockerHubImagePrefix) = Ok p \<Longrightarrow> IsImageEqual a a = Ok True"
  by (cases p) (simp add: IsImageEqual_def)

lemma IsImageEqual_sym: "IsImageEqual a b = Ok r \<Longrightarrow> IsImageEqual b a = Ok r"
  by (auto simp: IsImageEqual_def res_simps split: prod.splits)

lemma IsImageEqual_tagged:
  assumes "n \<noteq> []" "CHR '':'' \<notin> set n" "CHR ''/'' \<notin> set n"
    and "v \<noteq> []" "CHR 0x0A \<notin> set v" "CHR ''/'' \<notin> set v" and "v \<noteq> '':latest''"
  shows "IsImageEqual (n @ CHR '':'' # v) n = Ok False"
  using assms parse_plain_tagged [OF assms(1-6)] parse_plain_untagged [OF assms(1-3)]
  by (simp add: IsImageEqual_def TrimPrefix_docker_plain)

section \<open>Facts on image versions\<close>

definition dotted :: "string list \<Rightarrow> string" where
  "dotted gs = concat (map (\<lambda>d. CHR ''.'' # d) gs)"

definition digit_strings :: "string list \<Rightarrow> bool" where
  "digit_strings gs \<longleftrightarrow> list_all (\<lambda>d. d \<noteq> [] \<and> list_all is_digit d) gs"

lemma is_digit_dot: "\<not> is_digit (CHR ''.'')"
  by (simp add: is_digit_def digit_val_def)

lemma takeWhile_digits_dotted:
  "list_all is_digit d \<Longrightarrow> takeWhile is_digit (d @ dotted gs) = d \<and> dropWhile is_digit (d @ dotted gs) = dotted gs"
  by (induction d) (cases gs; simp add: dotted_def is_digit_dot)+

lemma version_groups_dotted: "digit_strings gs \<Longrightarrow> version_groups (dotted gs) = (dotted gs, [])"
proof (induction gs)
  case Nil
  then show ?case by (simp add: dotted_def version_groups.simps)
next
  case (Cons d gs)
  then have d: "d \<noteq> []" "list_all is_digit d" and gs: "digit_strings gs"
    by (auto simp: digit_strings_def)
  have eq: "dotted (d # gs) = CHR ''.'' # d @ dotted gs" by (simp add: dotted_def)
  have "takeWhile is_digit (d @ dotted gs) = d" using takeWhile_digits_dotted [OF d(2)] by simp
  with d Cons.IH [OF gs] show ?case
    by (subst version_groups.simps) (simp add: eq Let_def)
qed

lemma version_matches_dotted:
  assumes "list_all is_digit d" "d \<noteq> []" "digit_strings gs" "gs \<noteq> []"
  shows "version_matches (d @ dotted gs) = [d @ dotted gs]"
proof -
  have "dotted gs \<noteq> []" using assms(4) by (cases gs) (auto simp: dotted_def)
  then have "version_match_at (d @ dotted gs) = Some (d @ dotted gs)"
    using assms takeWhile_digits_dotted [OF assms(1)]
    by (simp add: version_match_at_def version_groups_dotted)
  then show ?thesis
    using assms(2) version_matches.simps [of "[]"]
    by (subst version_matches.simps) (auto split: list.split)
qed

lemma parse_version_part:
  assumes "n \<noteq> []" "CHR '':'' \<notin> set n" "v \<noteq> []" "CHR 0x0A \<notin> set v" "CHR ''/'' \<notin> set v"
  shows "\<exists>r i. ParseDockerImageTag (n @ CHR '':'' # v) = (r, i, v)"
proof -
  let ?s = "n @ CHR '':'' # v"
  let ?reg = "takeWhile (\<lambda>c. c \<noteq> CHR ''/'') ?s" and ?after = "dropWhile (\<lambda>c. c \<noteq> CHR ''/'') ?s"
  have plain: "image_name_groups ?s = Some (n, CHR '':'' # v)"
    using assms by (intro image_name_groups_tagged) auto
  have "\<exists>r i. image_match_at ?s = Some (r, i, CHR '':'' # v)"
  proof (cases "CHR ''/'' \<in> set n")
    case False
    with assms have "CHR ''/'' \<notin> set ?s" by simp
    then show ?thesis by (simp add: image_match_no_slash plain)
  next
    case True
    then obtain a b where n: "n = a @ CHR ''/'' # b" and a: "CHR ''/'' \<notin> set a"
      by (meson split_list_first)
    have after: "?after = CHR ''/'' # b @ CHR '':'' # v" using a by (simp add: n dropWhile_until)
    show ?thesis
    proof (cases "?reg \<noteq> [] \<and> b \<noteq> []")
      case True
      then have "image_name_groups (tl ?after) = Some (b, CHR '':'' # v)"
        using assms n after by (simp add: image_name_groups_tagged)
      with True after show ?thesis by (simp add: image_match_at_def)
    next
      case False
      then have "?reg = [] \<or> image_name_groups (tl ?after) = None"
        using after by (auto simp: image_name_groups_def)
      then show ?thesis using plain by (auto simp: image_match_at_def Let_def)
    qed
  qed
  then obtain r i where "image_find_match ?s = Some (r, i, CHR '':'' # v)"
    using image_find_first [of ?s] by auto
  then show ?thesis
    by (simp add: ParseDockerImageTag_def TrimPrefix_def HasPrefix_def)
qed

lemma is_digit_not: "is_digit c \<Longrightarrow> c \<noteq> CHR 0x0A \<and> c \<noteq> CHR ''/'' \<and> c \<noteq> CHR '':'' \<and> ascii_lower c \<noteq> CHR ''l''"
  by (auto simp: is_digit_def digit_val_def ascii_lower_def Let_def split: if_splits)

lemma dotted_chars: "digit_strings gs \<Longrightarrow> c \<in> set (dotted gs) \<Longrightarrow> is_digit c \<or> c = CHR ''.''"
  by (auto simp: digit_strings_def dotted_def list_all_iff split: if_splits)

lemma GetImageVersion_dotted:
  assumes "n \<noteq> []" "CHR '':'' \<notin> set n"
    and "list_all is_digit d" "d \<noteq> []" "digit_strings gs" "gs \<noteq> []"
  shows "GetImageVersion (n @ CHR '':'' # d @ dotted gs) = Ok (d @ dotted gs)"
proof -
  let ?v = "d @ dotted gs"
  have chars: "is_digit c \<or> c = CHR ''.''" if "c \<in> set ?v" for c
    using that assms(3) dotted_chars [OF assms(5)] by (auto simp: list_all_iff)
  then have "CHR 0x0A \<notin> set ?v" "CHR ''/'' \<notin> set ?v" using is_digit_not by fastforce+
  then obtain r i where p: "ParseDockerImageTag (n @ CHR '':'' # ?v) = (r, i, ?v)"
    using parse_version_part [of n ?v] assms by auto
  obtain c d' where d: "d = c # d'" using assms(4) by (cases d) auto
  have "ascii_lower c \<noteq> ascii_lower (CHR ''l'')"
    using is_digit_not [of c] assms(3) d by (simp add: ascii_lower_def)
  then have "\<not> EqualFold ?v ''latest''" by (simp add: d ascii_lower_def)
  with p assms(4) version_matches_dotted [OF assms(3-6)] show ?thesis
    by (simp add: GetImageVersion_def)
qed

section \<open>Properties\<close>

text \<open>
  Fact. Distributing pods over racks loses none: the sizes add up to the cluster's size,
  there is one per rack, they differ by at most one, and no rack gets more pods than one before it.
\<close>

theorem DistributeItems_balanced:
  assumes "0 \<le> totalItems" and "0 < totalGroups"
  shows "\<exists>ts. DistributeItems totalItems totalGroups = Ok ts \<and>
    sum_list ts = totalItems \<and> int (length ts) = totalGroups \<and> sorted (rev ts) \<and>
    set ts \<subseteq> {totalItems div totalGroups, totalItems div totalGroups + 1}"
proof -
  let ?f = "\<lambda>i. if i < totalItems mod totalGroups then totalItems div totalGroups + 1
                  else totalItems div totalGroups"
  let ?ts = "map ?f [0..totalGroups - 1]"
  have ok: "DistributeItems totalItems totalGroups = Ok ?ts" by (rule DistributeItems_nonneg [OF assms])
  have "sorted_wrt (\<ge>) ?ts"
    unfolding sorted_wrt_map by (rule sorted_wrt_mono_rel [OF _ sorted_wrt_upto]) auto
  then have "sorted (rev ?ts)" by (simp add: sorted_wrt_rev)
  moreover have "set ?ts \<subseteq> {totalItems div totalGroups, totalItems div totalGroups + 1}" by auto
  ultimately show ?thesis using ok DistributeItems_sum [OF assms ok] assms(2) by fastforce
qed

theorem DistributeItems_witness:
  "DistributeItems 7 3 = Ok [3, 2, 2] \<and> sum_list [3, 2, 2::int] = 7"
proof -
  have "DistributeItems 7 3 = Ok [3, 2, 2]" by code_simp
  with DistributeItems_balanced [of 7 3] show ?thesis by auto
qed

text \<open>
  Fact. The version read from an image reference is its tag, for every tag of the form of
  a version: digits and one or more groups of a dot and digits.
\<close>

theorem GetImageVersion_reads_tag:
  assumes "n \<noteq> []" and "CHR '':'' \<notin> set n"
    and "list_all is_digit d" and "d \<noteq> []" and "digit_strings gs" and "gs \<noteq> []"
  shows "GetImageVersion (n @ '':'' @ d @ dotted gs) = Ok (d @ dotted gs)"
  using GetImageVersion_dotted [OF assms] by simp

theorem GetImageVersion_witness:
  "GetImageVersion ''docker.io/aerospike/aerospike-server:8.1.0.1'' = Ok ''8.1.0.1''"
  using GetImageVersion_reads_tag [of "''docker.io/aerospike/aerospike-server''" "''8''" "[''1'', ''0'', ''1'']"]
  by (simp add: digit_strings_def dotted_def is_digit_def digit_val_def)

text \<open>
  Fact. Image comparison treats every tag literally: an image tagged \<^verbatim>\<open>latest\<close> and the same
  image without a tag are different, because the comparison with the colon never holds.
\<close>

theorem IsImageEqual_latest:
  assumes "n \<noteq> []" and "CHR '':'' \<notin> set n" and "CHR ''/'' \<notin> set n"
  shows "IsImageEqual (n @ '':latest'') n = Ok False \<and> IsImageEqual n (n @ '':latest'') = Ok False"
proof -
  have "IsImageEqual (n @ '':latest'') n = Ok False"
    using IsImageEqual_tagged [OF assms, of "''latest''"] by simp
  then show ?thesis using IsImageEqual_sym by blast
qed

theorem IsImageEqual_latest_witness:
  "IsImageEqual ''redis:latest'' ''redis'' = Ok False \<and> IsImageEqual ''redis'' ''redis:latest'' = Ok False"
  using IsImageEqual_latest [of "''redis''"] by simp

text \<open>
  Fact. The status remembers the specification: copied back, it is the specification it was made
  from, except that the pause flag is dropped and an empty list of operations is nil.
\<close>

theorem status_copy_round_trip:
  "CopyStatusToSpec (CopySpecToStatus spec) =
     spec\<lparr>SpecPaused := None, SpecOperations := copied (SpecOperations spec)\<rparr>"
  by (simp add: CopyStatusToSpec_def CopySpecToStatus_def no_spec_def no_status_spec_def copied_def)

end
