(* ===== verification/Go_Net.thy ===== *)
theory Go_Net
  imports Go_Strings
begin

text \<open>
  The part of Go's package \<^verbatim>\<open>net\<close> the whitelist validation uses: \<^verbatim>\<open>ParseIP\<close>, \<^verbatim>\<open>ParseCIDR\<close> and the
  printed form of a network, \<^verbatim>\<open>(*IPNet).String\<close>. An address is its bytes, four or sixteen.
\<close>

section \<open>Parsing addresses\<close>

datatype addr = V4 "nat list" | V6 "nat list"

text \<open>An octet: decimal digits without a leading zero, at most 255.\<close>

definition parse_octet :: "string \<Rightarrow> nat option" where
  "parse_octet s =
     (case digits_val 0 s of
        Some n \<Rightarrow> if s = nat_Itoa n \<and> n \<le> 255 then Some n else None
      | None \<Rightarrow> None)"

fun all_some :: "'a option list \<Rightarrow> 'a list option" where
  "all_some [] = Some []"
| "all_some (None # xs) = None"
| "all_some (Some x # xs) = map_option (Cons x) (all_some xs)"

definition parse_v4 :: "string \<Rightarrow> nat list option" where
  "parse_v4 s =
     (let parts = Split (CHR ''.'') s in
      if length parts = 4 then all_some (map parse_octet parts) else None)"

definition hex_val :: "char \<Rightarrow> nat option" where
  "hex_val c =
     (let n = of_char c :: nat in
      if 48 \<le> n \<and> n \<le> 57 then Some (n - 48)
      else if 97 \<le> n \<and> n \<le> 102 then Some (n - 87)
      else if 65 \<le> n \<and> n \<le> 70 then Some (n - 55) else None)"

definition is_hex :: "char \<Rightarrow> bool" where
  "is_hex c \<longleftrightarrow> hex_val c \<noteq> None"

definition hex_num :: "string \<Rightarrow> nat" where
  "hex_num s = foldl (\<lambda>acc c. 16 * acc + (case hex_val c of None \<Rightarrow> 0 | Some d \<Rightarrow> d)) 0 s"

definition chunk_bytes :: "string \<Rightarrow> nat list" where
  "chunk_bytes s = [hex_num s div 256, hex_num s mod 256]"

text \<open>
  The loop of \<^verbatim>\<open>netip.parseIPv6\<close>: the groups still allowed, the bytes read so far, the position of
  the ellipsis if one was read, and the rest of the string.
\<close>

fun v6_groups :: "nat \<Rightarrow> nat list \<Rightarrow> nat option \<Rightarrow> string \<Rightarrow> (nat list \<times> nat option) option" where
  "v6_groups 0 bs ell s = (if s = [] then Some (bs, ell) else None)"
| "v6_groups (Suc n) bs ell s =
     (let hx = takeWhile is_hex s; tl_s = dropWhile is_hex s; bs' = bs @ chunk_bytes hx in
      if hx = [] \<or> 4 < length hx then None
      else case tl_s of
        [] \<Rightarrow> Some (bs', ell)
      | c # s1 \<Rightarrow>
          if c = CHR ''.''
          then (if ell = None \<and> length bs \<noteq> 12 then None
                else if 16 < length bs + 4 then None
                else map_option (\<lambda>f. (bs @ f, ell)) (parse_v4 s))
          else if c \<noteq> CHR '':'' then None
          else (case s1 of
            [] \<Rightarrow> None
          | d # s2 \<Rightarrow>
              if d = CHR '':''
              then (if ell \<noteq> None then None
                    else if s2 = [] then Some (bs', Some (length bs'))
                    else v6_groups n bs' (Some (length bs')) s2)
              else v6_groups n bs' ell s1))"

definition v6_expand :: "nat list \<Rightarrow> nat option \<Rightarrow> nat list option" where
  "v6_expand bs ell =
     (case ell of
        None \<Rightarrow> if length bs < 16 then None else Some bs
      | Some e \<Rightarrow>
          if length bs < 16 then Some (take e bs @ replicate (16 - length bs) 0 @ drop e bs)
          else None)"

definition parse_v6 :: "string \<Rightarrow> nat list option" where
  "parse_v6 s =
     (if take 2 s = ''::''
      then (if length s = 2 then Some (replicate 16 0)
            else Option.bind (v6_groups 8 [] (Some 0) (drop 2 s)) (\<lambda>(bs, ell). v6_expand bs ell))
      else Option.bind (v6_groups 8 [] None s) (\<lambda>(bs, ell). v6_expand bs ell))"

text \<open>
  \<^verbatim>\<open>netip.ParseAddr\<close> for addresses without a zone (\<^verbatim>\<open>ParseIP\<close> and \<^verbatim>\<open>ParseCIDR\<close> refuse a zone): the
  first separator decides the family.
\<close>

definition parse_addr :: "string \<Rightarrow> addr option" where
  "parse_addr s =
     (if CHR ''%'' \<in> set s then None
      else case dropWhile (\<lambda>c. c \<noteq> CHR ''.'' \<and> c \<noteq> CHR '':'') s of
        [] \<Rightarrow> None
      | c # _ \<Rightarrow> if c = CHR ''.'' then map_option V4 (parse_v4 s) else map_option V6 (parse_v6 s))"

definition ParseIP :: "string \<Rightarrow> addr option" where
  "ParseIP s = parse_addr s"

section \<open>Networks\<close>

text \<open>\<open>IPNet a n\<close>: the network number and the length of the mask.\<close>

datatype ipnet = IPNet addr nat

text \<open>The first \<open>n\<close> bits of the bytes, the others cleared.\<close>

fun mask_bytes :: "nat \<Rightarrow> nat list \<Rightarrow> nat list" where
  "mask_bytes n [] = []"
| "mask_bytes n (b # bs) =
     (if 8 \<le> n then b # mask_bytes (n - 8) bs else (b - b mod 2 ^ (8 - n)) # mask_bytes 0 bs)"

fun Mask :: "nat \<Rightarrow> addr \<Rightarrow> addr" where
  "Mask n (V4 bs) = V4 (mask_bytes n bs)"
| "Mask n (V6 bs) = V6 (mask_bytes n bs)"

fun BitLen :: "addr \<Rightarrow> nat" where
  "BitLen (V4 _) = 32"
| "BitLen (V6 _) = 128"

text \<open>\<^verbatim>\<open>dtoi\<close> reads decimal digits, leading zeros included.\<close>

definition ParseCIDR :: "string \<Rightarrow> ipnet option" where
  "ParseCIDR s =
     (case dropWhile (\<lambda>c. c \<noteq> CHR ''/'') s of
        [] \<Rightarrow> None
      | _ # ms \<Rightarrow>
          (case parse_addr (takeWhile (\<lambda>c. c \<noteq> CHR ''/'') s) of
             None \<Rightarrow> None
           | Some a \<Rightarrow>
               if ms = [] then None
               else case digits_val 0 ms of
                 None \<Rightarrow> None
               | Some n \<Rightarrow> if n \<le> BitLen a then Some (IPNet (Mask n a) n) else None))"

section \<open>Printing\<close>

definition v4_String :: "nat list \<Rightarrow> string" where
  "v4_String bs = Join (map nat_Itoa bs) ''.''"

definition hex_char :: "nat \<Rightarrow> char" where
  "hex_char d = (if d < 10 then digit_char d else char_of (d + 87))"

fun nat_hex :: "nat \<Rightarrow> string" where
  "nat_hex n = (if n < 16 then [hex_char n] else nat_hex (n div 16) @ [hex_char (n mod 16)])"

declare nat_hex.simps [simp del]

fun v6_words :: "nat list \<Rightarrow> nat list" where
  "v6_words (h # l # bs) = (256 * h + l) # v6_words bs"
| "v6_words _ = []"

definition zero_run :: "nat list \<Rightarrow> nat" where
  "zero_run ws = length (takeWhile (\<lambda>w. w = 0) ws)"

text \<open>The first longest run of at least two zero words: its start and its length.\<close>

definition longest_zero_run :: "nat list \<Rightarrow> nat \<times> nat" where
  "longest_zero_run ws =
     foldl (\<lambda>(st, len) i. let l = zero_run (drop i ws) in if 2 \<le> l \<and> len < l then (i, l) else (st, len))
       (255, 0) [0..<8]"

definition v6_String :: "nat list \<Rightarrow> string" where
  "v6_String bs =
     (let ws = v6_words bs; (st, len) = longest_zero_run ws in
      if len = 0 then Join (map nat_hex ws) '':''
      else Join (map nat_hex (take st ws)) '':'' @ ''::'' @ Join (map nat_hex (drop (st + len) ws)) '':'')"

definition v4_in_v6 :: "nat list" where
  "v4_in_v6 = [0, 0, 0, 0, 0, 0, 0, 0, 0, 0, 255, 255]"

text \<open>An IPv4-mapped network number is printed as IPv4, with the last four bytes of the mask.\<close>

fun IPNet_String :: "ipnet \<Rightarrow> string" where
  "IPNet_String (IPNet (V4 bs) n) = v4_String bs @ ''/'' @ nat_Itoa n"
| "IPNet_String (IPNet (V6 bs) n) =
     (if take 12 bs = v4_in_v6 then v4_String (drop 12 bs) @ ''/'' @ nat_Itoa (n - 96)
      else v6_String bs @ ''/'' @ nat_Itoa n)"

section \<open>IPv4 networks\<close>

lemma v4_String4: "v4_String [a, b, c, d] =
    nat_Itoa a @ ''.'' @ nat_Itoa b @ ''.'' @ nat_Itoa c @ ''.'' @ nat_Itoa d"
  by (simp add: v4_String_def)

lemma nat_Itoa_no_dot: "CHR ''.'' \<notin> set (nat_Itoa n)"
  by (simp add: nat_Itoa_no_sep)

lemma nat_Itoa_plain:
  "c \<in> set (nat_Itoa n) \<Longrightarrow> c \<noteq> CHR ''.'' \<and> c \<noteq> CHR '':'' \<and> c \<noteq> CHR ''%'' \<and> c \<noteq> CHR ''/''"
  by (drule nat_Itoa_chars, clarify, drule less_10_cases) (auto simp: digit_char_def)

lemma parse_octet_print: "n \<le> 255 \<Longrightarrow> parse_octet (nat_Itoa n) = Some n"
  by (simp add: parse_octet_def digits_val_Itoa)

lemma parse_v4_print:
  "a \<le> 255 \<Longrightarrow> b \<le> 255 \<Longrightarrow> c \<le> 255 \<Longrightarrow> d \<le> 255 \<Longrightarrow>
   parse_v4 (v4_String [a, b, c, d]) = Some [a, b, c, d]"
  by (simp add: parse_v4_def v4_String4 Split_append_sep Split_no_sep nat_Itoa_no_dot
      parse_octet_print)

lemma parse_addr_v4:
  assumes "a \<le> 255" "b \<le> 255" "c \<le> 255" "d \<le> 255"
  shows "parse_addr (v4_String [a, b, c, d]) = Some (V4 [a, b, c, d])"
proof -
  have "CHR ''%'' \<notin> set (v4_String [a, b, c, d])"
    by (auto simp: v4_String4 dest: nat_Itoa_plain)
  moreover have "dropWhile (\<lambda>x. x \<noteq> CHR ''.'' \<and> x \<noteq> CHR '':'') (v4_String [a, b, c, d]) =
      ''.'' @ nat_Itoa b @ ''.'' @ nat_Itoa c @ ''.'' @ nat_Itoa d"
    by (auto simp: v4_String4 dropWhile_append dest: nat_Itoa_plain)
  ultimately show ?thesis using parse_v4_print [OF assms] by (simp add: parse_addr_def)
qed

lemma ParseCIDR_v4:
  assumes "a \<le> 255" "b \<le> 255" "c \<le> 255" "d \<le> 255" "n \<le> 32"
  shows "ParseCIDR (v4_String [a, b, c, d] @ ''/'' @ nat_Itoa n) =
    Some (IPNet (V4 (mask_bytes n [a, b, c, d])) n)"
proof -
  have "CHR ''/'' \<notin> set (v4_String [a, b, c, d])"
    by (auto simp: v4_String4 dest: nat_Itoa_plain)
  then have "dropWhile (\<lambda>x. x \<noteq> CHR ''/'') (v4_String [a, b, c, d] @ ''/'' @ nat_Itoa n) = ''/'' @ nat_Itoa n"
    and "takeWhile (\<lambda>x. x \<noteq> CHR ''/'') (v4_String [a, b, c, d] @ ''/'' @ nat_Itoa n) = v4_String [a, b, c, d]"
    by (auto simp: dropWhile_append takeWhile_append)
  then show ?thesis using parse_addr_v4 [of a b c d] assms
    by (simp add: ParseCIDR_def digits_val_Itoa)
qed

end
