(* ===== verification/Access_Validate.thy ===== *)
theory Access_Validate
  imports Cluster_Spec Go_Net
begin

text \<open>
  \<^verbatim>\<open>api/v1/access_control_validate.go\<close>: the admission check of the \<^verbatim>\<open>accessControl\<close> section. The Go
  validators return \<^verbatim>\<open>(bool, error)\<close>, always \<^verbatim>\<open>(true, nil)\<close> or \<^verbatim>\<open>(false, err)\<close>; here they return
  \<open>Ok ()\<close> or the error. A map used as a set of seen names is the list of the names put into it.
\<close>

section \<open>Scopes, roles and privileges\<close>

datatype PrivilegeScope = Global | NamespaceSet

definition AdminUsername :: string where "AdminUsername = ''admin''"
definition DefaultAdminPassword :: string where "DefaultAdminPassword = ''admin''"

definition roleNameForbiddenChars :: "string list" where
  "roleNameForbiddenChars = ['';'', '':'']"

definition userNameForbiddenChars :: "string list" where
  "userNameForbiddenChars = ['';'', '':'']"

definition PredefinedRoles :: "string list" where
  "PredefinedRoles =
     [''user-admin'', ''sys-admin'', ''data-admin'', ''read'', ''read-write'', ''read-write-udf'',
      ''write'', ''truncate'', ''sindex-admin'', ''udf-admin'', ''masking-admin'', ''read-masked'',
      ''write-masked'']"

definition requiredRoles :: "string list" where
  "requiredRoles = [''sys-admin'', ''user-admin'']"

definition Privileges :: "PrivilegeScope list gomap" where
  "Privileges =
     [(''read'', [Global, NamespaceSet]),
      (''write'', [Global, NamespaceSet]),
      (''read-write'', [Global, NamespaceSet]),
      (''read-write-udf'', [Global, NamespaceSet]),
      (''data-admin'', [Global]),
      (''sys-admin'', [Global]),
      (''user-admin'', [Global]),
      (''truncate'', [Global, NamespaceSet]),
      (''sindex-admin'', [Global]),
      (''udf-admin'', [Global]),
      (''masking-admin'', [Global, NamespaceSet]),
      (''read-masked'', [Global, NamespaceSet]),
      (''write-masked'', [Global, NamespaceSet])]"

datatype ac_error =
    AcConfig conf_error
  | AccessControlMissing
  | DuplicateRole string
  | CannotModifyPredefined string
  | EmptyRoleName
  | RoleNameForbidden string string
  | QuotasDisabled uint32 uint32
  | DuplicatePrivilege string string
  | InvalidPrivilege string
  | PrivilegeNotScoped string
  | PrivilegeNamespace string string
  | PrivilegeSetName string
  | RoleInvalidPrivilege string ac_error
  | DuplicateWhitelist string string
  | InvalidAddress string
  | InvalidCIDR string string
  | RoleInvalidWhitelist string ac_error
  | DuplicateUser string
  | EmptyUserName
  | UserNameForbidden string string
  | DuplicateUserRole string string
  | NonExistentRole string string
  | PKIOnlyWithSecret string
  | FederalNeedsPKI
  | EmptySecretName string
  | NoAdminUser "string list"

section \<open>Names, privileges and addresses\<close>

fun refuse_forbidden :: "(string \<Rightarrow> ac_error) \<Rightarrow> string \<Rightarrow> string list \<Rightarrow> (ac_error, unit) res" where
  "refuse_forbidden e name [] = Ok ()"
| "refuse_forbidden e name (c # cs) =
     (if Contains name c then Err (e c) else refuse_forbidden e name cs)"

definition isRoleNameValid :: "string \<Rightarrow> (ac_error, unit) res" where
  "isRoleNameValid roleName =
     (if is_blank roleName then Err EmptyRoleName
      else refuse_forbidden (RoleNameForbidden roleName) roleName roleNameForbiddenChars)"

definition isUserNameValid :: "string \<Rightarrow> (ac_error, unit) res" where
  "isUserNameValid userName =
     (if is_blank userName then Err EmptyUserName
      else refuse_forbidden (UserNameForbidden userName) userName userNameForbiddenChars)"

fun scopeContains :: "PrivilegeScope list \<Rightarrow> PrivilegeScope \<Rightarrow> bool" where
  "scopeContains [] queryScope = False"
| "scopeContains (scope # scopes) queryScope =
     (if scope = queryScope then True else scopeContains scopes queryScope)"

definition isPrivilegeValid :: "string \<Rightarrow> string list \<Rightarrow> (ac_error, unit) res" where
  "isPrivilegeValid privilege nsNames =
     (let parts = Split (CHR ''.'') privilege; nParts = length parts in
      case gomap_get Privileges (parts ! 0) of
        None \<Rightarrow> Err (InvalidPrivilege privilege)
      | Some scopes \<Rightarrow>
          if 3 < nParts then Err (InvalidPrivilege privilege)
          else if 1 < nParts then
            (if \<not> scopeContains scopes NamespaceSet then Err (PrivilegeNotScoped privilege)
             else if parts ! 1 \<notin> set nsNames then Err (PrivilegeNamespace privilege (parts ! 1))
             else if nParts = 3 \<and> is_blank (parts ! 2) then Err (PrivilegeSetName privilege)
             else Ok ())
          else Ok ())"

definition isNetAddressValid :: "string \<Rightarrow> (ac_error, unit) res" where
  "isNetAddressValid address =
     (case ParseIP address of
        Some ip \<Rightarrow> Ok ()
      | None \<Rightarrow>
          (case ParseCIDR address of
             None \<Rightarrow> Err (InvalidAddress address)
           | Some ipNet \<Rightarrow>
               if IPNet_String ipNet \<noteq> address then Err (InvalidCIDR address (IPNet_String ipNet))
               else Ok ()))"

text \<open>
  \<open>subset\<close> counts the second list and takes one occurrence away for each element of the first.
\<close>

fun count_values :: "string list \<Rightarrow> int gomap \<Rightarrow> int gomap" where
  "count_values [] m = m"
| "count_values (v # vs) m =
     count_values vs (gomap_put v ((case gomap_get m v of None \<Rightarrow> 0 | Some c \<Rightarrow> c) + 1) m)"

fun take_values :: "string list \<Rightarrow> int gomap \<Rightarrow> bool" where
  "take_values [] m = True"
| "take_values (v # vs) m =
     (case gomap_get m v of
        None \<Rightarrow> False
      | Some count \<Rightarrow> if count < 1 then False else take_values vs (gomap_put v (count - 1) m))"

definition subset_slices :: "string list \<Rightarrow> string list \<Rightarrow> bool" where
  "subset_slices first second = take_values first (count_values second [])"

section \<open>Roles\<close>

definition validateRoleQuotaParam ::
  "AerospikeRoleSpec \<Rightarrow> AerospikeConfigSpec \<Rightarrow> (ac_error, unit) res" where
  "validateRoleQuotaParam roleSpec aerospikeConfigSpec =
     (if RoleReadQuota roleSpec > 0 \<or> RoleWriteQuota roleSpec > 0 then
        res_bind (res_map_err AcConfig
            (IsAttributeEnabled (Value aerospikeConfigSpec) ''security'' ''enable-quotas''))
          (\<lambda>enabled. if \<not> enabled
             then Err (QuotasDisabled (RoleReadQuota roleSpec) (RoleWriteQuota roleSpec))
             else Ok ())
      else Ok ())"

fun privileges_loop ::
  "string \<Rightarrow> string list \<Rightarrow> string list \<Rightarrow> unit \<Rightarrow> string list \<Rightarrow> (ac_error, unit) res" where
  "privileges_loop roleName nsNames seenPrivileges acc [] = Ok acc"
| "privileges_loop roleName nsNames seenPrivileges acc (privilege # privileges) =
     (if privilege \<in> set seenPrivileges then Err (DuplicatePrivilege privilege roleName)
      else res_bind (res_map_err (RoleInvalidPrivilege roleName) (isPrivilegeValid privilege nsNames))
             (\<lambda>_. privileges_loop roleName nsNames (privilege # seenPrivileges) acc privileges))"

fun whitelist_loop ::
  "string \<Rightarrow> string list \<Rightarrow> unit \<Rightarrow> string list \<Rightarrow> (ac_error, unit) res" where
  "whitelist_loop roleName seenNetAddresses acc [] = Ok acc"
| "whitelist_loop roleName seenNetAddresses acc (netAddress # addresses) =
     (if netAddress \<in> set seenNetAddresses then Err (DuplicateWhitelist netAddress roleName)
      else res_bind (res_map_err (RoleInvalidWhitelist roleName) (isNetAddressValid netAddress))
             (\<lambda>_. whitelist_loop roleName (netAddress # seenNetAddresses) acc addresses))"

definition role_checks ::
  "AerospikeConfigSpec \<Rightarrow> string list \<Rightarrow> AerospikeRoleSpec \<Rightarrow> (ac_error, unit) res" where
  "role_checks aerospikeConfigSpec nsNames roleSpec =
     (if RoleName roleSpec \<in> set PredefinedRoles then Err (CannotModifyPredefined (RoleName roleSpec))
      else res_bind (isRoleNameValid (RoleName roleSpec)) (\<lambda>_.
           res_bind (validateRoleQuotaParam roleSpec aerospikeConfigSpec) (\<lambda>_.
           res_bind (privileges_loop (RoleName roleSpec) nsNames [] () (RolePrivileges roleSpec)) (\<lambda>_.
             whitelist_loop (RoleName roleSpec) [] () (elems (RoleWhitelist roleSpec))))))"

fun roles_loop ::
  "AerospikeConfigSpec \<Rightarrow> string list \<Rightarrow> string list \<Rightarrow> unit \<Rightarrow> AerospikeRoleSpec list \<Rightarrow>
   (ac_error, unit) res" where
  "roles_loop aerospikeConfigSpec nsNames seenRoles acc [] = Ok acc"
| "roles_loop aerospikeConfigSpec nsNames seenRoles acc (roleSpec # roles) =
     (if RoleName roleSpec \<in> set seenRoles then Err (DuplicateRole (RoleName roleSpec))
      else res_bind (role_checks aerospikeConfigSpec nsNames roleSpec)
             (\<lambda>_. roles_loop aerospikeConfigSpec nsNames (RoleName roleSpec # seenRoles) acc roles))"

definition isRoleSpecValid ::
  "AerospikeRoleSpec list \<Rightarrow> AerospikeConfigSpec \<Rightarrow> string list \<Rightarrow> (ac_error, unit) res" where
  "isRoleSpecValid roles aerospikeConfigSpec nsNames =
     roles_loop aerospikeConfigSpec nsNames [] () roles"

definition GetRolesFromSpec :: "AerospikeClusterSpec \<Rightarrow> AerospikeRoleSpec gomap" where
  "GetRolesFromSpec spec =
     (case SpecAccessControl spec of
        None \<Rightarrow> []
      | Some ac \<Rightarrow> fold (\<lambda>roleSpec. gomap_put (RoleName roleSpec) roleSpec) (Roles ac) [])"

section \<open>Users\<close>

definition GetUsersFromSpec :: "AerospikeClusterSpec \<Rightarrow> AerospikeUserSpec gomap" where
  "GetUsersFromSpec spec =
     (case SpecAccessControl spec of
        None \<Rightarrow> []
      | Some ac \<Rightarrow> fold (\<lambda>userSpec. gomap_put (UserName userSpec) userSpec) (Users ac) [])"

definition GetAdminUserFromSpec :: "AerospikeClusterSpec \<Rightarrow> AerospikeUserSpec option" where
  "GetAdminUserFromSpec spec =
     (case SpecAccessControl spec of
        None \<Rightarrow> None
      | Some ac \<Rightarrow> find (\<lambda>userSpec. UserName userSpec = AdminUsername) (Users ac))"

definition role_known :: "string \<Rightarrow> AerospikeRoleSpec gomap \<Rightarrow> string \<Rightarrow> (ac_error, unit) res" where
  "role_known userName roles roleName =
     (if gomap_get roles roleName = None \<and> roleName \<notin> set PredefinedRoles
      then Err (NonExistentRole userName roleName) else Ok ())"

fun user_roles_loop ::
  "string \<Rightarrow> AerospikeRoleSpec gomap \<Rightarrow> string list \<Rightarrow> unit \<Rightarrow> string list \<Rightarrow> (ac_error, unit) res" where
  "user_roles_loop userName roles seenRoles acc [] = Ok acc"
| "user_roles_loop userName roles seenRoles acc (roleName # roleNames) =
     (if roleName \<in> set seenRoles then Err (DuplicateUserRole roleName userName)
      else res_bind (role_known userName roles roleName)
             (\<lambda>_. user_roles_loop userName roles (roleName # seenRoles) acc roleNames))"

definition user_auth_check :: "bool \<Rightarrow> AerospikeUserSpec \<Rightarrow> (ac_error, unit) res" where
  "user_auth_check isFederal userSpec =
     (let hasSecret = (\<not> is_blank (UserSecretName userSpec)) in
      if UserAuthMode userSpec = AerospikeAuthModePKIOnly then
        (if hasSecret then Err (PKIOnlyWithSecret (UserName userSpec)) else Ok ())
      else if isFederal then Err FederalNeedsPKI
      else if \<not> hasSecret then Err (EmptySecretName (UserName userSpec))
      else Ok ())"

definition user_checks ::
  "bool \<Rightarrow> AerospikeRoleSpec gomap \<Rightarrow> AerospikeUserSpec \<Rightarrow> (ac_error, unit) res" where
  "user_checks isFederal roles userSpec =
     res_bind (isUserNameValid (UserName userSpec)) (\<lambda>_.
     res_bind (user_roles_loop (UserName userSpec) roles [] () (UserRoles userSpec)) (\<lambda>_.
       user_auth_check isFederal userSpec))"

definition found_admin :: "AerospikeUserSpec \<Rightarrow> bool \<Rightarrow> bool" where
  "found_admin userSpec requiredRolesUserFound =
     (if subset_slices requiredRoles (UserRoles userSpec) \<and> UserName userSpec = AdminUsername then True
      else requiredRolesUserFound)"

fun users_loop ::
  "bool \<Rightarrow> AerospikeRoleSpec gomap \<Rightarrow> string list \<Rightarrow> bool \<Rightarrow> AerospikeUserSpec list \<Rightarrow>
   (ac_error, bool) res" where
  "users_loop isFederal roles seenUsers requiredRolesUserFound [] = Ok requiredRolesUserFound"
| "users_loop isFederal roles seenUsers requiredRolesUserFound (userSpec # users) =
     (if UserName userSpec \<in> set seenUsers then Err (DuplicateUser (UserName userSpec))
      else res_bind (user_checks isFederal roles userSpec)
             (\<lambda>_. users_loop isFederal roles (UserName userSpec # seenUsers)
                    (found_admin userSpec requiredRolesUserFound) users))"

definition isUserSpecValid ::
  "string \<Rightarrow> AerospikeUserSpec list \<Rightarrow> AerospikeRoleSpec gomap \<Rightarrow> (ac_error, unit) res" where
  "isUserSpecValid img users roles =
     res_bind (users_loop (IsFederal img) roles [] False users) (\<lambda>requiredRolesUserFound.
       if \<not> requiredRolesUserFound then Err (NoAdminUser requiredRoles) else Ok ())"

section \<open>The whole section\<close>

definition IsAerospikeAccessControlValid :: "AerospikeClusterSpec \<Rightarrow> (ac_error, unit) res" where
  "IsAerospikeAccessControlValid spec =
     res_bind (res_map_err AcConfig (IsSecurityEnabled (Value (SpecAerospikeConfig spec)))) (\<lambda>enabled.
       if \<not> enabled then Ok ()
       else case SpecAccessControl spec of
         None \<Rightarrow> Err AccessControlMissing
       | Some ac \<Rightarrow>
           (let nsNames = GetAllNamespaceNames spec in
            res_bind (isRoleSpecValid (Roles ac) (SpecAerospikeConfig spec) nsNames) (\<lambda>_.
              let roleMap = GetRolesFromSpec spec in
              isUserSpecValid (SpecImage spec) (Users ac) roleMap)))"

section \<open>The loops as duplicate-checked loops\<close>

interpretation pl: dup_checked_loop "privileges_loop roleName nsNames" "\<lambda>p. p"
    "\<lambda>p. DuplicatePrivilege p roleName"
    "\<lambda>p. res_map_err (RoleInvalidPrivilege roleName) (isPrivilegeValid p nsNames)" "\<lambda>p acc. acc"
  for roleName nsNames
  by unfold_locales simp_all

interpretation wl: dup_checked_loop "whitelist_loop roleName" "\<lambda>a. a"
    "\<lambda>a. DuplicateWhitelist a roleName"
    "\<lambda>a. res_map_err (RoleInvalidWhitelist roleName) (isNetAddressValid a)" "\<lambda>a acc. acc"
  for roleName
  by unfold_locales simp_all

interpretation rl: dup_checked_loop "roles_loop conf nsNames" RoleName
    "\<lambda>r. DuplicateRole (RoleName r)" "role_checks conf nsNames" "\<lambda>r acc. acc"
  for conf nsNames
  by unfold_locales simp_all

interpretation url: dup_checked_loop "user_roles_loop userName roles" "\<lambda>r. r"
    "\<lambda>r. DuplicateUserRole r userName" "role_known userName roles" "\<lambda>r acc. acc"
  for userName roles
  by unfold_locales simp_all

interpretation ul: dup_checked_loop "users_loop isFederal roles" UserName
    "\<lambda>u. DuplicateUser (UserName u)" "user_checks isFederal roles" found_admin
  for isFederal roles
  by unfold_locales simp_all

section \<open>What a valid section is\<close>

text \<open>
  The rules the validator is meant to enforce, stated without loops: names, privileges with their
  scopes, whitelists, quotas, references from users to roles, authentication, and the admin user.
\<close>

definition name_ok :: "string \<Rightarrow> bool" where
  "name_ok n \<longleftrightarrow> \<not> is_blank n \<and> CHR '';'' \<notin> set n \<and> CHR '':'' \<notin> set n"

definition privilege_code :: "string \<Rightarrow> bool" where
  "privilege_code c \<longleftrightarrow> gomap_get Privileges c \<noteq> None"

definition namespace_scoped :: "string \<Rightarrow> bool" where
  "namespace_scoped c \<longleftrightarrow> (\<exists>scopes. gomap_get Privileges c = Some scopes \<and> NamespaceSet \<in> set scopes)"

definition privilege_ok :: "string list \<Rightarrow> string \<Rightarrow> bool" where
  "privilege_ok nsNames p \<longleftrightarrow>
     privilege_code p \<or>
     (\<exists>c ns. namespace_scoped c \<and> ns \<in> set nsNames \<and> CHR ''.'' \<notin> set ns \<and>
        (p = c @ ''.'' @ ns \<or>
         (\<exists>s. p = c @ ''.'' @ ns @ ''.'' @ s \<and> CHR ''.'' \<notin> set s \<and> \<not> is_blank s)))"

definition address_ok :: "string \<Rightarrow> bool" where
  "address_ok a \<longleftrightarrow> ParseIP a \<noteq> None \<or> (\<exists>n. ParseCIDR a = Some n \<and> IPNet_String n = a)"

definition role_ok :: "AerospikeConfigSpec \<Rightarrow> string list \<Rightarrow> AerospikeRoleSpec \<Rightarrow> bool" where
  "role_ok conf nsNames r \<longleftrightarrow>
     RoleName r \<notin> set PredefinedRoles \<and> name_ok (RoleName r) \<and>
     (RoleReadQuota r = 0 \<and> RoleWriteQuota r = 0 \<or>
      IsAttributeEnabled (Value conf) ''security'' ''enable-quotas'' = Ok True) \<and>
     distinct (RolePrivileges r) \<and> (\<forall>p\<in>set (RolePrivileges r). privilege_ok nsNames p) \<and>
     distinct (elems (RoleWhitelist r)) \<and> (\<forall>a\<in>set (elems (RoleWhitelist r)). address_ok a)"

definition user_ok :: "string \<Rightarrow> string set \<Rightarrow> AerospikeUserSpec \<Rightarrow> bool" where
  "user_ok img roleNames u \<longleftrightarrow>
     name_ok (UserName u) \<and> distinct (UserRoles u) \<and>
     set (UserRoles u) \<subseteq> roleNames \<union> set PredefinedRoles \<and>
     (if UserAuthMode u = AerospikeAuthModePKIOnly then is_blank (UserSecretName u)
      else \<not> IsFederal img \<and> \<not> is_blank (UserSecretName u))"

definition access_control_ok :: "AerospikeClusterSpec \<Rightarrow> AerospikeAccessControlSpec \<Rightarrow> bool" where
  "access_control_ok spec ac \<longleftrightarrow>
     distinct (map RoleName (Roles ac)) \<and>
     (\<forall>r\<in>set (Roles ac). role_ok (SpecAerospikeConfig spec) (GetAllNamespaceNames spec) r) \<and>
     distinct (map UserName (Users ac)) \<and>
     (\<forall>u\<in>set (Users ac). user_ok (SpecImage spec) (RoleName ` set (Roles ac)) u) \<and>
     (\<exists>u\<in>set (Users ac). UserName u = AdminUsername \<and> set requiredRoles \<subseteq> set (UserRoles u))"

section \<open>The parts of the validator meet the rules\<close>

lemma refuse_forbidden_Ok_iff: "refuse_forbidden e n cs = Ok () \<longleftrightarrow> (\<forall>c\<in>set cs. \<not> Contains n c)"
  by (induction cs) auto

lemma Contains_char: "Contains n [c] \<longleftrightarrow> c \<in> set n"
  by (simp add: Contains_iff in_set_conv_decomp)

lemma isRoleNameValid_iff: "isRoleNameValid n = Ok () \<longleftrightarrow> name_ok n"
  by (auto simp: isRoleNameValid_def name_ok_def refuse_forbidden_Ok_iff Contains_char
      roleNameForbiddenChars_def)

lemma isUserNameValid_iff: "isUserNameValid n = Ok () \<longleftrightarrow> name_ok n"
  by (auto simp: isUserNameValid_def name_ok_def refuse_forbidden_Ok_iff Contains_char
      userNameForbiddenChars_def)

lemma scopeContains_iff: "scopeContains scopes s \<longleftrightarrow> s \<in> set scopes"
  by (induction scopes) auto

lemma privilege_code_plain: "privilege_code c \<Longrightarrow> CHR ''.'' \<notin> set c"
proof -
  assume "privilege_code c"
  then have "c \<in> fst ` set Privileges" by (simp add: privilege_code_def gomap_get_None_iff)
  moreover have "\<forall>c \<in> fst ` set Privileges. CHR ''.'' \<notin> set c" by (simp add: Privileges_def)
  ultimately show ?thesis by blast
qed

lemma namespace_scoped_code: "namespace_scoped c \<Longrightarrow> privilege_code c"
  by (auto simp: namespace_scoped_def privilege_code_def)

lemma Split_parts:
  assumes "Split c s = parts"
  shows "length parts = 1 \<Longrightarrow> s = parts ! 0"
    and "length parts = 2 \<Longrightarrow> s = parts ! 0 @ [c] @ parts ! 1"
    and "length parts = 3 \<Longrightarrow> s = parts ! 0 @ [c] @ parts ! 1 @ [c] @ parts ! 2"
  using Join_Split [of c s] assms
  by (auto simp: length_Suc_conv numeral_2_eq_2 numeral_3_eq_3)

lemma isPrivilegeValid_iff: "isPrivilegeValid p nsNames = Ok () \<longleftrightarrow> privilege_ok nsNames p"
proof
  define parts where "parts = Split (CHR ''.'') p"
  assume ok: "isPrivilegeValid p nsNames = Ok ()"
  then obtain scopes where sc: "gomap_get Privileges (parts ! 0) = Some scopes"
      and le: "length parts \<le> 3"
    by (auto simp: isPrivilegeValid_def parts_def Let_def split: option.splits if_splits)
  have plain: "CHR ''.'' \<notin> set q" if "q \<in> set parts" for q
    using that Split_parts_no_sep by (auto simp: parts_def)
  have "parts \<noteq> []" by (simp add: parts_def)
  with le consider "length parts = 1" | "length parts = 2" | "length parts = 3"
    by (cases parts) (auto simp: le_Suc_eq numeral_3_eq_3)
  then show "privilege_ok nsNames p"
  proof cases
    case 1
    with sc Split_parts(1) [of _ p] show ?thesis
      by (auto simp: privilege_ok_def privilege_code_def parts_def)
  next
    case 2
    then have "namespace_scoped (parts ! 0)" "parts ! 1 \<in> set nsNames" "CHR ''.'' \<notin> set (parts ! 1)"
      using ok sc plain [of "parts ! 1"]
      by (auto simp: isPrivilegeValid_def parts_def [symmetric] Let_def scopeContains_iff
          namespace_scoped_def split: if_splits)
    with 2 Split_parts(2) [of "CHR ''.''" p parts] show ?thesis
      unfolding privilege_ok_def parts_def by auto
  next
    case 3
    then have "namespace_scoped (parts ! 0)" "parts ! 1 \<in> set nsNames" "CHR ''.'' \<notin> set (parts ! 1)"
        "CHR ''.'' \<notin> set (parts ! 2)" "\<not> is_blank (parts ! 2)"
      using ok sc plain [of "parts ! 1"] plain [of "parts ! 2"]
      by (auto simp: isPrivilegeValid_def parts_def [symmetric] Let_def scopeContains_iff
          namespace_scoped_def split: if_splits)
    with 3 Split_parts(3) [of "CHR ''.''" p parts] show ?thesis
      unfolding privilege_ok_def parts_def by auto
  qed
next
  assume "privilege_ok nsNames p"
  then show "isPrivilegeValid p nsNames = Ok ()"
    unfolding privilege_ok_def
  proof (elim disjE exE conjE)
    assume "privilege_code p"
    moreover from this have "Split (CHR ''.'') p = [p]"
      by (simp add: Split_no_sep privilege_code_plain)
    ultimately show ?thesis by (auto simp: isPrivilegeValid_def privilege_code_def)
  next
    fix c ns assume c: "namespace_scoped c" and ns: "ns \<in> set nsNames" "CHR ''.'' \<notin> set ns"
      and p: "p = c @ ''.'' @ ns"
    have "Split (CHR ''.'') p = [c, ns]"
      using privilege_code_plain [OF namespace_scoped_code [OF c]] ns
      by (simp add: p Split_append_sep Split_no_sep)
    with c ns show ?thesis by (auto simp: isPrivilegeValid_def namespace_scoped_def scopeContains_iff)
  next
    fix c ns s assume c: "namespace_scoped c" and ns: "ns \<in> set nsNames" "CHR ''.'' \<notin> set ns"
      and p: "p = c @ ''.'' @ ns @ ''.'' @ s" and s: "CHR ''.'' \<notin> set s" "\<not> is_blank s"
    have "Split (CHR ''.'') p = [c, ns, s]"
      using privilege_code_plain [OF namespace_scoped_code [OF c]] ns s
      by (simp add: p Split_append_sep Split_no_sep)
    with c ns s show ?thesis by (auto simp: isPrivilegeValid_def namespace_scoped_def scopeContains_iff)
  qed
qed

lemma isNetAddressValid_iff: "isNetAddressValid a = Ok () \<longleftrightarrow> address_ok a"
  by (auto simp: isNetAddressValid_def address_ok_def split: option.splits)

definition count_of :: "int gomap \<Rightarrow> string \<Rightarrow> int" where
  "count_of m v = (case gomap_get m v of None \<Rightarrow> 0 | Some c \<Rightarrow> c)"

lemma IsSecurityEnabled_Some: "IsSecurityEnabled (Some conf) = Ok (gomap_get conf ''security'' \<noteq> None)"
  by (auto simp: IsSecurityEnabled_def GetConfigContext_def split: option.splits)

lemma count_of_Nil [simp]: "count_of [] v = 0"
  by (simp add: count_of_def)

lemma count_of_put: "count_of (gomap_put k c m) v = (if v = k then c else count_of m v)"
  by (simp add: count_of_def gomap_get_put)

lemma count_of_count_values: "count_of (count_values vs m) v = count_of m v + int (count_list vs v)"
  by (induction vs m rule: count_values.induct) (auto simp: count_of_put count_of_def [symmetric])

lemma take_values_iff:
  "(\<forall>v. 0 \<le> count_of m v) \<Longrightarrow>
   take_values vs m \<longleftrightarrow> (\<forall>v. int (count_list vs v) \<le> count_of m v)"
proof (induction vs m rule: take_values.induct)
  case (1 m)
  then show ?case by simp
next
  case (2 v vs m)
  show ?case
  proof (cases "1 \<le> count_of m v")
    case False
    then have "\<not> take_values (v # vs) m" by (auto simp: count_of_def split: option.splits)
    moreover have "\<not> int (count_list (v # vs) v) \<le> count_of m v" using False by simp
    ultimately show ?thesis by blast
  next
    case True
    then obtain c where c: "gomap_get m v = Some c" "1 \<le> c" "count_of m v = c"
      by (auto simp: count_of_def split: option.splits)
    have "take_values (v # vs) m \<longleftrightarrow> take_values vs (gomap_put v (c - 1) m)" using c by simp
    also have "\<dots> \<longleftrightarrow> (\<forall>w. int (count_list vs w) \<le> count_of (gomap_put v (c - 1) m) w)"
      using 2 c by (simp add: count_of_put)
    also have "\<dots> \<longleftrightarrow> (\<forall>w. int (count_list (v # vs) w) \<le> count_of m w)"
      using c by (auto simp: count_of_put split: if_splits)
    finally show ?thesis .
  qed
qed

text \<open>\<open>subset_slices\<close> is inclusion with multiplicities, as its comment says.\<close>

lemma subset_slices_iff: "subset_slices xs ys \<longleftrightarrow> (\<forall>v. count_list xs v \<le> count_list ys v)"
  by (simp add: subset_slices_def take_values_iff count_of_count_values)

lemma subset_slices_distinct: "distinct xs \<Longrightarrow> subset_slices xs ys \<longleftrightarrow> set xs \<subseteq> set ys"
proof -
  assume d: "distinct xs"
  have "count_list xs v = (if v \<in> set xs then 1 else 0)" for v
    using d by (induction xs) auto
  then have "subset_slices xs ys \<longleftrightarrow> (\<forall>v\<in>set xs. 0 < count_list ys v)"
    by (auto simp: subset_slices_iff Suc_le_eq)
  also have "\<dots> \<longleftrightarrow> set xs \<subseteq> set ys"
    using count_list_0_iff [of ys] by (auto simp: subset_iff) (metis neq0_conv)+
  finally show ?thesis .
qed

lemma validateRoleQuotaParam_iff:
  "validateRoleQuotaParam r conf = Ok () \<longleftrightarrow>
     RoleReadQuota r = 0 \<and> RoleWriteQuota r = 0 \<or>
     IsAttributeEnabled (Value conf) ''security'' ''enable-quotas'' = Ok True"
  by (auto simp: validateRoleQuotaParam_def res_simps word_gt_0 split: if_splits)

lemma role_checks_iff: "role_checks conf nsNames r = Ok () \<longleftrightarrow> role_ok conf nsNames r"
  by (auto simp: role_checks_def role_ok_def res_simps pl.loop_Ok_iff wl.loop_Ok_iff
      isRoleNameValid_iff isPrivilegeValid_iff isNetAddressValid_iff validateRoleQuotaParam_iff)

lemma isRoleSpecValid_iff:
  "isRoleSpecValid roles conf nsNames = Ok () \<longleftrightarrow>
     distinct (map RoleName roles) \<and> (\<forall>r\<in>set roles. role_ok conf nsNames r)"
  by (simp add: isRoleSpecValid_def rl.loop_Ok_iff role_checks_iff)

lemma user_checks_iff:
  "user_checks (IsFederal img) roles u = Ok () \<longleftrightarrow> user_ok img (fst ` set roles) u"
  by (auto simp: user_checks_def user_ok_def res_simps url.loop_Ok_iff isUserNameValid_iff
      role_known_def gomap_get_None_iff user_auth_check_def Let_def split: if_splits)

lemma found_admin_fold:
  "fold found_admin users b \<longleftrightarrow>
     b \<or> (\<exists>u\<in>set users. UserName u = AdminUsername \<and> set requiredRoles \<subseteq> set (UserRoles u))"
proof (induction users arbitrary: b)
  case Nil
  show ?case by simp
next
  case (Cons u users)
  have "distinct requiredRoles" by (simp add: requiredRoles_def)
  then have "found_admin u b \<longleftrightarrow>
      b \<or> UserName u = AdminUsername \<and> set requiredRoles \<subseteq> set (UserRoles u)"
    by (auto simp: found_admin_def subset_slices_distinct)
  then show ?case by (auto simp: Cons)
qed

lemma isUserSpecValid_iff:
  "isUserSpecValid img users roles = Ok () \<longleftrightarrow>
     distinct (map UserName users) \<and> (\<forall>u\<in>set users. user_ok img (fst ` set roles) u) \<and>
     (\<exists>u\<in>set users. UserName u = AdminUsername \<and> set requiredRoles \<subseteq> set (UserRoles u))"
  by (auto simp: isUserSpecValid_def res_simps ul.loop_Ok_iff user_checks_iff found_admin_fold)

lemma keys_fold_put: "fst ` set (fold (\<lambda>x. gomap_put (f x) x) xs m) = f ` set xs \<union> fst ` set m"
  by (induction xs arbitrary: m) (auto simp: set_keys_put)

lemma keys_GetRolesFromSpec:
  "SpecAccessControl spec = Some ac \<Longrightarrow> fst ` set (GetRolesFromSpec spec) = RoleName ` set (Roles ac)"
  by (simp add: GetRolesFromSpec_def keys_fold_put)

lemma Split_prefix: "c \<notin> set p \<Longrightarrow> \<exists>t qs. Split c (p @ s) = (p @ t) # qs"
proof (induction p)
  case Nil
  then show ?case by (cases "Split c s") auto
next
  case (Cons x p)
  then show ?case by auto
qed

lemma all_some_map_None: "x \<in> set xs \<Longrightarrow> f x = None \<Longrightarrow> all_some (map f xs) = None"
proof (induction xs)
  case Nil
  then show ?case by simp
next
  case (Cons y xs)
  then show ?case by (cases "f y") auto
qed

lemma mask_bytes_length: "length (mask_bytes n bs) = length bs"
  by (induction n bs rule: mask_bytes.induct) auto

lemma mask_bytes_le: "\<forall>x\<in>set bs. x \<le> k \<Longrightarrow> \<forall>x\<in>set (mask_bytes n bs). x \<le> k"
  by (induction n bs rule: mask_bytes.induct) (auto intro: order_trans [OF diff_le_self])

lemma ParseIP_v4_network: "ParseIP (v4_String [a, b, c, d] @ ''/'' @ s) = None"
proof -
  let ?s = "v4_String [a, b, c, d] @ ''/'' @ s"
  have first: "dropWhile (\<lambda>x. x \<noteq> CHR ''.'' \<and> x \<noteq> CHR '':'') ?s =
      ''.'' @ nat_Itoa b @ ''.'' @ nat_Itoa c @ ''.'' @ nat_Itoa d @ ''/'' @ s"
    by (auto simp: v4_String4 dropWhile_append dest: nat_Itoa_plain)
  obtain q qs where q: "Split (CHR ''.'') (nat_Itoa d @ ''/'' @ s) = q # qs"
      and pre: "\<exists>t. q = nat_Itoa d @ ''/'' @ t"
    using Split_prefix [of "CHR ''.''" "nat_Itoa d @ ''/''" s]
    by (auto simp: nat_Itoa_no_dot)
  have "parse_octet (nat_Itoa d @ ''/'' @ t) = None" for t
    by (auto simp: parse_octet_def digits_val_append digits_val_Itoa digit_val_def)
  then have "parse_octet q = None" using pre by auto
  then have "parse_v4 ?s = None"
    using q all_some_map_None [of q "[nat_Itoa a, nat_Itoa b, nat_Itoa c, q]" parse_octet]
    by (auto simp: parse_v4_def v4_String4 Split_append_sep nat_Itoa_no_dot Let_def)
  with first show ?thesis by (auto simp: ParseIP_def parse_addr_def)
qed


lemma accepted_iff:
  "IsAerospikeAccessControlValid spec = Ok () \<longleftrightarrow>
     (\<exists>conf. Value (SpecAerospikeConfig spec) = Some conf \<and>
       (gomap_get conf ''security'' = None \<or>
        (\<exists>ac. SpecAccessControl spec = Some ac \<and> access_control_ok spec ac)))"
proof (cases "Value (SpecAerospikeConfig spec)")
  case None
  then show ?thesis by (simp add: IsAerospikeAccessControlValid_def IsSecurityEnabled_def GetConfigContext_def)
next
  case (Some conf)
  have ac: "res_bind (isRoleSpecValid (Roles ac) (SpecAerospikeConfig spec) (GetAllNamespaceNames spec))
        (\<lambda>_. isUserSpecValid (SpecImage spec) (Users ac) (GetRolesFromSpec spec)) = Ok () \<longleftrightarrow>
      access_control_ok spec ac" if "SpecAccessControl spec = Some ac" for ac
    by (simp add: access_control_ok_def res_simps isRoleSpecValid_iff isUserSpecValid_iff
        keys_GetRolesFromSpec [OF that] conj_assoc)
  show ?thesis
    by (cases "SpecAccessControl spec"; cases "gomap_get conf ''security''")
      (simp_all add: IsAerospikeAccessControlValid_def Some IsSecurityEnabled_Some ac Let_def)
qed

section \<open>Properties\<close>

text \<open>
  Property C15. The access control check of a specification succeeds exactly when its Aerospike
  configuration is present and either has no security section or the access control section is
  present and follows every rule of \<open>access_control_ok\<close>: role and user names are distinct, well
  formed and not predefined, privileges are known, distinct and scoped to configured namespaces,
  whitelists hold distinct addresses or canonical networks, quotas are used only where they are
  enabled, users refer to existing roles and authenticate in the way the edition allows, and there
  is an \<^verbatim>\<open>admin\<close> user with the roles \<^verbatim>\<open>sys-admin\<close> and \<^verbatim>\<open>user-admin\<close>.
\<close>

theorem access_control_accepted_iff:
  "IsAerospikeAccessControlValid spec = Ok () \<longleftrightarrow>
     (\<exists>conf. Value (SpecAerospikeConfig spec) = Some conf \<and>
       (gomap_get conf ''security'' = None \<or>
        (\<exists>ac. SpecAccessControl spec = Some ac \<and> access_control_ok spec ac)))"
  by (rule accepted_iff)

text \<open>
  Fact. The check never panics, whatever the specification holds.
\<close>

theorem access_control_no_panic: "IsAerospikeAccessControlValid spec \<noteq> Panic"
proof -
  have ns: "refuse_forbidden e n cs \<noteq> Panic" for e n cs by (induction cs) auto
  have sec: "IsSecurityEnabled v \<noteq> Panic" "IsAttributeEnabled v c k \<noteq> Panic" for v c k
    by (auto simp: IsSecurityEnabled_def IsAttributeEnabled_def GetConfigContext_def GetBoolConfig_def
        res_simps split: option.splits conf_error.splits)
  have p: "isPrivilegeValid p nsN \<noteq> Panic" "isNetAddressValid a \<noteq> Panic" for p nsN a
    by (auto simp: isPrivilegeValid_def isNetAddressValid_def Let_def split: option.splits)
  have pl: "privileges_loop rn nsN seen acc xs \<noteq> Panic" for rn nsN seen acc xs
    by (induction xs arbitrary: seen) (auto simp: res_simps p)
  have wl: "whitelist_loop rn seen acc xs \<noteq> Panic" for rn seen acc xs
    by (induction xs arbitrary: seen) (auto simp: res_simps p)
  have rl: "roles_loop conf nsN seen acc xs \<noteq> Panic" for conf nsN seen acc xs
    by (induction xs arbitrary: seen)
      (auto simp: res_simps role_checks_def validateRoleQuotaParam_def isRoleNameValid_def pl wl ns sec
        split: if_splits)
  have url: "user_roles_loop un roles seen acc xs \<noteq> Panic" for un roles seen acc xs
    by (induction xs arbitrary: seen) (auto simp: res_simps role_known_def)
  have ul: "users_loop fed roles seen acc xs \<noteq> Panic" for fed roles seen acc xs
    by (induction xs arbitrary: seen acc)
      (auto simp: res_simps user_checks_def isUserNameValid_def user_auth_check_def Let_def ns url
        split: if_splits)
  show ?thesis
    by (auto simp: IsAerospikeAccessControlValid_def isRoleSpecValid_def isUserSpecValid_def res_simps
        rl ul sec Let_def split: if_splits option.splits)
qed

text \<open>
  Fact. A whitelist entry written as an IPv4 network, four octets and a prefix length of at
  most 32, is accepted exactly when every bit behind the prefix is zero.
\<close>

theorem whitelist_network_no_host_bits:
  assumes "a \<le> 255" "b \<le> 255" "c \<le> 255" "d \<le> 255" "n \<le> 32"
  shows "isNetAddressValid (v4_String [a, b, c, d] @ ''/'' @ nat_Itoa n) = Ok () \<longleftrightarrow>
    mask_bytes n [a, b, c, d] = [a, b, c, d]"
proof -
  let ?s = "v4_String [a, b, c, d] @ ''/'' @ nat_Itoa n"
  obtain a' b' c' d' where m: "mask_bytes n [a, b, c, d] = [a', b', c', d']"
    using mask_bytes_length [of n "[a, b, c, d]"] by (auto simp: length_Suc_conv simp del: mask_bytes.simps)
  have le: "a' \<le> 255" "b' \<le> 255" "c' \<le> 255" "d' \<le> 255"
    using mask_bytes_le [of "[a, b, c, d]" 255 n] assms by (auto simp: m simp del: mask_bytes.simps)
  have "v4_String [a', b', c', d'] = v4_String [a, b, c, d] \<longleftrightarrow> [a', b', c', d'] = [a, b, c, d]"
    using parse_v4_print [OF le] parse_v4_print [OF assms(1-4)] by (metis option.inject)
  moreover have "ParseIP ?s = None" using ParseIP_v4_network [of a b c d "nat_Itoa n"] by simp
  ultimately show ?thesis
    using ParseCIDR_v4 [OF assms] by (simp add: isNetAddressValid_iff address_ok_def m del: mask_bytes.simps)
qed

theorem whitelist_network_witness:
  "isNetAddressValid ''10.16.0.0/12'' = Ok () \<and> isNetAddressValid ''10.17.0.0/12'' \<noteq> Ok ()"
proof -
  have "v4_String [10, 16, 0, 0] @ ''/'' @ nat_Itoa 12 = ''10.16.0.0/12''"
    and "v4_String [10, 17, 0, 0] @ ''/'' @ nat_Itoa 12 = ''10.17.0.0/12''"
    and "mask_bytes 12 [10, 16, 0, 0] = [10, 16, 0, 0]"
    and "mask_bytes 12 [10, 17, 0, 0] \<noteq> [10, 17, 0, 0]"
    by code_simp+
  with whitelist_network_no_host_bits [of 10 16 0 0 12] whitelist_network_no_host_bits [of 10 17 0 0 12]
  show ?thesis by (simp del: mask_bytes.simps)
qed

text \<open>A specification with security, one role and two users.\<close>

definition example_spec :: AerospikeClusterSpec where
  "example_spec =
     no_spec\<lparr>SpecImage := ''aerospike/aerospike-server-enterprise:8.0.0.2'',
      SpecAccessControl := Some \<lparr>AdminPolicyTimeout = None,
        Roles = [\<lparr>RoleName = ''profiler'', RolePrivileges = [''read.test'', ''sindex-admin''],
          RoleWhitelist = Some [''10.16.0.0/12''], RoleReadQuota = 0, RoleWriteQuota = 0\<rparr>],
        Users = [\<lparr>UserAuthMode = [], UserName = ''profileUser'', UserSecretName = ''auth-secret'',
            UserRoles = [''profiler'', ''read'']\<rparr>,
          \<lparr>UserAuthMode = ''Internal'', UserName = ''admin'', UserSecretName = ''auth-secret'',
            UserRoles = [''sys-admin'', ''user-admin'']\<rparr>]\<rparr>,
      SpecAerospikeConfig := \<lparr>Value = Some [(''security'', GMap [])]\<rparr>,
      SpecRacks := [\<lparr>RackID = 1, RackRevision = [], RackAerospikeConfig =
        \<lparr>Value = Some [(''namespaces'', GList [GMap [(''name'', GString ''test'')]])]\<rparr>,
        RackStorage = no_storage, RackForceBlockFromRoster = None,
        RackZone = [], RackRegion = [], RackRackLabel = [], RackNodeName = [], RackInputAerospikeConfig = None,
        RackInputStorage = None, RackInputPodSpec = None, RackPodSpec = no_scheduling\<rparr>]\<rparr>"

lemma example_spec_accepted: "IsAerospikeAccessControlValid example_spec = Ok ()"
  by code_simp

lemma find_distinct_key:
  "distinct (map f xs) \<Longrightarrow> x \<in> set xs \<Longrightarrow> find (\<lambda>y. f y = f x) xs = Some x"
  by (induction xs) (auto simp: image_iff)

lemma get_fold_put_distinct:
  "distinct (map f xs) \<Longrightarrow> x \<in> set xs \<Longrightarrow>
   gomap_get (fold (\<lambda>x. gomap_put (f x) x) xs m) (f x) = Some x"
proof (induction xs arbitrary: m)
  case Nil
  then show ?case by simp
next
  case (Cons y ys)
  have other: "gomap_get (fold (\<lambda>x. gomap_put (f x) x) zs m) k = gomap_get m k"
    if "k \<notin> f ` set zs" for k zs m
    using that by (induction zs arbitrary: m) (auto simp: gomap_get_put)
  show ?case using Cons by (auto simp: other gomap_get_put)
qed

text \<open>
  Fact. When an accepted specification enables security, \<open>GetAdminUserFromSpec\<close> finds an
  admin user, it is the one the reconciler's map of users holds, and it has both required roles.
\<close>

theorem accepted_has_admin:
  assumes "IsAerospikeAccessControlValid spec = Ok ()"
    and "IsSecurityEnabled (Value (SpecAerospikeConfig spec)) = Ok True"
  shows "\<exists>u. GetAdminUserFromSpec spec = Some u \<and>
    gomap_get (GetUsersFromSpec spec) AdminUsername = Some u \<and>
    {''sys-admin'', ''user-admin''} \<subseteq> set (UserRoles u)"
proof -
  obtain conf where conf: "Value (SpecAerospikeConfig spec) = Some conf"
      "gomap_get conf ''security'' = None \<or>
        (\<exists>ac. SpecAccessControl spec = Some ac \<and> access_control_ok spec ac)"
    using assms(1) by (auto simp: accepted_iff)
  moreover have "gomap_get conf ''security'' \<noteq> None"
    using assms(2) conf(1) by (simp add: IsSecurityEnabled_Some)
  ultimately obtain ac where ac: "SpecAccessControl spec = Some ac" "access_control_ok spec ac" by auto
  then obtain u where u: "u \<in> set (Users ac)" "UserName u = AdminUsername"
      "set requiredRoles \<subseteq> set (UserRoles u)" and d: "distinct (map UserName (Users ac))"
    by (auto simp: access_control_ok_def)
  have "find (\<lambda>v. UserName v = AdminUsername) (Users ac) = Some u"
    using find_distinct_key [OF d u(1)] u(2) by simp
  moreover have "gomap_get (GetUsersFromSpec spec) AdminUsername = Some u"
    using get_fold_put_distinct [OF d u(1)] u(2) by (simp add: GetUsersFromSpec_def ac)
  ultimately show ?thesis using u(3) by (simp add: GetAdminUserFromSpec_def ac requiredRoles_def)
qed

theorem accepted_has_admin_witness:
  "\<exists>u. GetAdminUserFromSpec example_spec = Some u \<and>
    gomap_get (GetUsersFromSpec example_spec) AdminUsername = Some u \<and>
    {''sys-admin'', ''user-admin''} \<subseteq> set (UserRoles u)"
  by (rule accepted_has_admin [OF example_spec_accepted]) code_simp

end
