(* ===== verification/Access_Reconcile.thy ===== *)
theory Access_Reconcile
  imports Access_Validate
begin

text \<open>
  \<^verbatim>\<open>internal/controller/cluster/access_control.go\<close>: bringing the roles and users of a running
  cluster from what the status records to what the specification asks for. The Aerospike server
  is reached through its client library, which is a parameter: a record of the calls the code
  makes, each acting on a server state of any type. The state of the reconciler is that server
  state and the list of events recorded so far. Log lines are not modelled.
\<close>

section \<open>Privileges of the client library\<close>

datatype as_code =
    as_Read | as_Write | as_ReadWrite | as_ReadWriteUDF | as_DataAdmin | as_SysAdmin | as_UserAdmin
  | as_Truncate | as_SIndexAdmin | as_UDFAdmin | as_MaskingAdmin | as_ReadMasked | as_WriteMasked
  | as_OtherCode string

record as_Privilege =
  PrivCode :: as_code
  PrivNamespace :: string
  PrivSetName :: string

definition privilege_code_of :: "string \<Rightarrow> as_code option" where
  "privilege_code_of privilegeCode =
     (if privilegeCode = ''read'' then Some as_Read
      else if privilegeCode = ''write'' then Some as_Write
      else if privilegeCode = ''read-write'' then Some as_ReadWrite
      else if privilegeCode = ''read-write-udf'' then Some as_ReadWriteUDF
      else if privilegeCode = ''data-admin'' then Some as_DataAdmin
      else if privilegeCode = ''sys-admin'' then Some as_SysAdmin
      else if privilegeCode = ''user-admin'' then Some as_UserAdmin
      else if privilegeCode = ''truncate'' then Some as_Truncate
      else if privilegeCode = ''sindex-admin'' then Some as_SIndexAdmin
      else if privilegeCode = ''udf-admin'' then Some as_UDFAdmin
      else if privilegeCode = ''masking-admin'' then Some as_MaskingAdmin
      else if privilegeCode = ''read-masked'' then Some as_ReadMasked
      else if privilegeCode = ''write-masked'' then Some as_WriteMasked
      else None)"

fun privilege_code_string :: "as_code \<Rightarrow> string option" where
  "privilege_code_string as_Read = Some ''read''"
| "privilege_code_string as_Write = Some ''write''"
| "privilege_code_string as_ReadWrite = Some ''read-write''"
| "privilege_code_string as_ReadWriteUDF = Some ''read-write-udf''"
| "privilege_code_string as_DataAdmin = Some ''data-admin''"
| "privilege_code_string as_SysAdmin = Some ''sys-admin''"
| "privilege_code_string as_UserAdmin = Some ''user-admin''"
| "privilege_code_string as_Truncate = Some ''truncate''"
| "privilege_code_string as_SIndexAdmin = Some ''sindex-admin''"
| "privilege_code_string as_UDFAdmin = Some ''udf-admin''"
| "privilege_code_string as_MaskingAdmin = Some ''masking-admin''"
| "privilege_code_string as_ReadMasked = Some ''read-masked''"
| "privilege_code_string as_WriteMasked = Some ''write-masked''"
| "privilege_code_string (as_OtherCode _) = None"

text \<open>Errors, one constructor per message; the text of a client error is kept.\<close>

datatype rec_error =
    InvalidPrivilegeString string
  | UnknownPrivilege string
  | UnknownPrivilegeCode as_code
  | QueryRoleFailed string string
  | CreateRoleFailed string rec_error
  | UpdateRoleFailed string rec_error
  | RevokePrivilegesFailed string string
  | GrantPrivilegesFailed string string
  | SetWhitelistFailed string string
  | SetQuotasFailed string string
  | DropRoleFailed string string
  | QueryUserFailed string string
  | PasswordNotSpecified string
  | CreateUserFailed string string
  | ChangePasswordFailed string string
  | RevokeRolesFailed string string
  | GrantRolesFailed string string
  | DropUserFailed string string
  | ClientError string
  | AdminMissing string
  | GetSecretFailed string string
  | PasswordKeyMissing string

definition convert_privilege :: "string \<Rightarrow> (rec_error, as_Privilege) res" where
  "convert_privilege privilege =
     (let parts = Split (CHR ''.'') privilege; nParts = length parts in
      if gomap_get Privileges (parts ! 0) = None then Err (InvalidPrivilegeString privilege)
      else case privilege_code_of (parts ! 0) of
        None \<Rightarrow> Err (UnknownPrivilege (parts ! 0))
      | Some code \<Rightarrow>
          Ok \<lparr>PrivCode = code,
              PrivNamespace = (if nParts = 2 \<or> nParts = 3 then parts ! 1 else []),
              PrivSetName = (if nParts = 3 then parts ! 2 else [])\<rparr>)"

fun privilegeStringToAerospikePrivilege ::
  "string list \<Rightarrow> (rec_error, as_Privilege list) res" where
  "privilegeStringToAerospikePrivilege [] = Ok []"
| "privilegeStringToAerospikePrivilege (privilege # privilegeStrings) =
     res_bind (convert_privilege privilege) (\<lambda>p.
       res_bind (privilegeStringToAerospikePrivilege privilegeStrings) (\<lambda>ps. Ok (p # ps)))"

definition print_privilege :: "as_Privilege \<Rightarrow> (rec_error, string) res" where
  "print_privilege p =
     (case privilege_code_string (PrivCode p) of
        None \<Rightarrow> Err (UnknownPrivilegeCode (PrivCode p))
      | Some s \<Rightarrow>
          Ok (s @ (if PrivNamespace p \<noteq> []
                   then ''.'' @ PrivNamespace p @
                        (if PrivSetName p \<noteq> [] then ''.'' @ PrivSetName p else [])
                   else [])))"

fun AerospikePrivilegeToPrivilegeString ::
  "as_Privilege list \<Rightarrow> (rec_error, string list) res" where
  "AerospikePrivilegeToPrivilegeString [] = Ok []"
| "AerospikePrivilegeToPrivilegeString (p # ps) =
     res_bind (print_privilege p) (\<lambda>s.
       res_bind (AerospikePrivilegeToPrivilegeString ps) (\<lambda>ss. Ok (s # ss)))"

fun SliceSubtract :: "string list \<Rightarrow> string list \<Rightarrow> string list" where
  "SliceSubtract [] list2 = []"
| "SliceSubtract (s1 # list1) list2 =
     (if s1 \<in> set list2 then SliceSubtract list1 list2 else s1 # SliceSubtract list1 list2)"

section \<open>The client and the state\<close>

record as_Role =
  RolePrivs :: "as_Privilege list"
  RoleWl :: "string slice"
  RoleRQ :: uint32
  RoleWQ :: uint32

text \<open>
  A query returns the error text or the object. A call that changes the server returns the error
  text, if any, with the server state it leaves behind. \<open>as_AdminPolicy\<close> is the timeout in
  nanoseconds.
\<close>

type_synonym as_AdminPolicy = "64 word"

record 's as_Client =
  QueryRole :: "as_AdminPolicy \<Rightarrow> string \<Rightarrow> 's \<Rightarrow> string + as_Role"
  CreateRole :: "as_AdminPolicy \<Rightarrow> string \<Rightarrow> as_Privilege list \<Rightarrow> string slice \<Rightarrow> uint32 \<Rightarrow> uint32 \<Rightarrow> 's \<Rightarrow> string option \<times> 's"
  RevokePrivileges :: "as_AdminPolicy \<Rightarrow> string \<Rightarrow> as_Privilege list \<Rightarrow> 's \<Rightarrow> string option \<times> 's"
  GrantPrivileges :: "as_AdminPolicy \<Rightarrow> string \<Rightarrow> as_Privilege list \<Rightarrow> 's \<Rightarrow> string option \<times> 's"
  SetWhitelist :: "as_AdminPolicy \<Rightarrow> string \<Rightarrow> string slice \<Rightarrow> 's \<Rightarrow> string option \<times> 's"
  SetQuotas :: "as_AdminPolicy \<Rightarrow> string \<Rightarrow> uint32 \<Rightarrow> uint32 \<Rightarrow> 's \<Rightarrow> string option \<times> 's"
  DropRole :: "as_AdminPolicy \<Rightarrow> string \<Rightarrow> 's \<Rightarrow> string option \<times> 's"
  QueryUser :: "as_AdminPolicy \<Rightarrow> string \<Rightarrow> 's \<Rightarrow> string + string list"
  CreateUser :: "as_AdminPolicy \<Rightarrow> string \<Rightarrow> string \<Rightarrow> string list \<Rightarrow> 's \<Rightarrow> string option \<times> 's"
  ChangePassword :: "as_AdminPolicy \<Rightarrow> string \<Rightarrow> string \<Rightarrow> 's \<Rightarrow> string option \<times> 's"
  RevokeRoles :: "as_AdminPolicy \<Rightarrow> string \<Rightarrow> string list \<Rightarrow> 's \<Rightarrow> string option \<times> 's"
  GrantRoles :: "as_AdminPolicy \<Rightarrow> string \<Rightarrow> string list \<Rightarrow> 's \<Rightarrow> string option \<times> 's"
  DropUser :: "as_AdminPolicy \<Rightarrow> string \<Rightarrow> 's \<Rightarrow> string option \<times> 's"

datatype EventType = EventTypeNormal | EventTypeWarning

record event =
  EvType :: EventType
  EvReason :: string
  EvSubject :: string

record 's ac_state =
  Server :: 's
  Events :: "event list"

type_synonym ('s, 'a) action = "'s ac_state \<Rightarrow> (rec_error, 'a) res \<times> 's ac_state"

definition act_return :: "'a \<Rightarrow> ('s, 'a) action" where
  "act_return a s = (Ok a, s)"

definition act_bind :: "('s, 'a) action \<Rightarrow> ('a \<Rightarrow> ('s, 'b) action) \<Rightarrow> ('s, 'b) action" where
  "act_bind m f s =
     (case m s of
        (Ok a, s') \<Rightarrow> f a s'
      | (Err e, s') \<Rightarrow> (Err e, s')
      | (Panic, s') \<Rightarrow> (Panic, s'))"

definition act_res :: "(rec_error, 'a) res \<Rightarrow> ('s, 'a) action" where
  "act_res r s = (r, s)"

definition act_call :: "(string \<Rightarrow> rec_error) \<Rightarrow> ('s \<Rightarrow> string option \<times> 's) \<Rightarrow> ('s, unit) action" where
  "act_call wrap call s =
     (case call (Server s) of
        (None, srv) \<Rightarrow> (Ok (), s\<lparr>Server := srv\<rparr>)
      | (Some err, srv) \<Rightarrow> (Err (wrap err), s\<lparr>Server := srv\<rparr>))"

definition Eventf :: "EventType \<Rightarrow> string \<Rightarrow> string \<Rightarrow> ('s, unit) action" where
  "Eventf t reason subject s =
     (Ok (), s\<lparr>Events := Events s @ [\<lparr>EvType = t, EvReason = reason, EvSubject = subject\<rparr>]\<rparr>)"

text \<open>\<open>on_error m h\<close>: the error of \<open>m\<close> is returned after \<open>h\<close> has run.\<close>

definition on_error :: "('s, 'a) action \<Rightarrow> ('s, unit) action \<Rightarrow> ('s, 'a) action" where
  "on_error m h s = (case m s of (Err e, s') \<Rightarrow> (Err e, snd (h s')) | r \<Rightarrow> r)"

definition act_when :: "bool \<Rightarrow> ('s, unit) action \<Rightarrow> ('s, unit) action" where
  "act_when b m = (if b then m else act_return ())"

section \<open>Commands\<close>

definition userNotFoundErr :: string where "userNotFoundErr = ''Invalid user''"
definition roleNotFoundErr :: string where "roleNotFoundErr = ''Invalid role''"

record aerospikeRoleCreateUpdate =
  rcName :: string
  rcPrivileges :: "string list"
  rcWhitelist :: "string slice"
  rcReadQuota :: uint32
  rcWriteQuota :: uint32

record aerospikeUserCreateUpdate =
  ucName :: string
  ucPassword :: "string option"
  ucRoles :: "string list"

datatype ac_cmd =
    RoleCreateUpdate aerospikeRoleCreateUpdate
  | RoleDrop string
  | UserCreateUpdate aerospikeUserCreateUpdate
  | UserDrop string

definition createRole ::
  "'s as_Client \<Rightarrow> as_AdminPolicy \<Rightarrow> aerospikeRoleCreateUpdate \<Rightarrow> ('s, unit) action" where
  "createRole client adminPolicy rc =
     act_bind (act_res (res_map_err (CreateRoleFailed (rcName rc))
         (privilegeStringToAerospikePrivilege (rcPrivileges rc)))) (\<lambda>aerospikePrivileges.
     act_bind (act_call (\<lambda>e. CreateRoleFailed (rcName rc) (ClientError e))
         (CreateRole client adminPolicy (rcName rc) aerospikePrivileges (rcWhitelist rc)
            (rcReadQuota rc) (rcWriteQuota rc))) (\<lambda>_.
       Eventf EventTypeNormal ''RoleCreated'' (rcName rc)))"

text \<open>\<^verbatim>\<open>reflect.DeepEqual\<close> tells a nil slice from an empty one, as equality of slices does.\<close>

definition updateRole ::
  "'s as_Client \<Rightarrow> as_AdminPolicy \<Rightarrow> aerospikeRoleCreateUpdate \<Rightarrow> as_Role \<Rightarrow> ('s, unit) action" where
  "updateRole client adminPolicy rc role =
     act_bind (act_res (res_map_err (UpdateRoleFailed (rcName rc))
         (AerospikePrivilegeToPrivilegeString (RolePrivs role)))) (\<lambda>currentPrivileges.
     let desiredPrivileges = rcPrivileges rc;
         privilegesToRevoke = SliceSubtract currentPrivileges desiredPrivileges;
         privilegesToGrant = SliceSubtract desiredPrivileges currentPrivileges in
     act_bind (act_when (privilegesToRevoke \<noteq> [])
       (act_bind (act_res (res_map_err (UpdateRoleFailed (rcName rc))
            (privilegeStringToAerospikePrivilege privilegesToRevoke))) (\<lambda>aerospikePrivileges.
          act_call (RevokePrivilegesFailed (rcName rc))
            (RevokePrivileges client adminPolicy (rcName rc) aerospikePrivileges)))) (\<lambda>_.
     act_bind (act_when (privilegesToGrant \<noteq> [])
       (act_bind (act_res (res_map_err (UpdateRoleFailed (rcName rc))
            (privilegeStringToAerospikePrivilege privilegesToGrant))) (\<lambda>aerospikePrivileges.
          act_call (GrantPrivilegesFailed (rcName rc))
            (GrantPrivileges client adminPolicy (rcName rc) aerospikePrivileges)))) (\<lambda>_.
     act_bind (act_when (RoleWl role \<noteq> rcWhitelist rc)
       (act_call (SetWhitelistFailed (rcName rc))
          (SetWhitelist client adminPolicy (rcName rc) (rcWhitelist rc)))) (\<lambda>_.
     act_bind (act_when (RoleRQ role \<noteq> rcReadQuota rc \<or> RoleWQ role \<noteq> rcWriteQuota rc)
       (act_call (SetQuotasFailed (rcName rc))
          (SetQuotas client adminPolicy (rcName rc) (rcReadQuota rc) (rcWriteQuota rc)))) (\<lambda>_.
       Eventf EventTypeNormal ''RoleUpdated'' (rcName rc))))))"

definition execute_role ::
  "'s as_Client \<Rightarrow> as_AdminPolicy \<Rightarrow> aerospikeRoleCreateUpdate \<Rightarrow> ('s, unit) action" where
  "execute_role client adminPolicy rc s =
     (case QueryRole client adminPolicy (rcName rc) (Server s) of
        Inl err \<Rightarrow>
          if Contains err roleNotFoundErr
          then on_error (createRole client adminPolicy rc)
                 (Eventf EventTypeWarning ''RoleCreateFailed'' (rcName rc)) s
          else (Err (QueryRoleFailed (rcName rc) err), s)
      | Inr role \<Rightarrow>
          on_error (updateRole client adminPolicy rc role)
            (Eventf EventTypeWarning ''RoleUpdateFailed'' (rcName rc)) s)"

definition createUser ::
  "'s as_Client \<Rightarrow> as_AdminPolicy \<Rightarrow> aerospikeUserCreateUpdate \<Rightarrow> ('s, unit) action" where
  "createUser client adminPolicy uc =
     (case ucPassword uc of
        None \<Rightarrow> act_res (Err (PasswordNotSpecified (ucName uc)))
      | Some password \<Rightarrow>
          act_bind (act_call (CreateUserFailed (ucName uc))
              (CreateUser client adminPolicy (ucName uc) password (ucRoles uc))) (\<lambda>_.
            Eventf EventTypeNormal ''UserCreated'' (ucName uc)))"

definition updateUser ::
  "'s as_Client \<Rightarrow> as_AdminPolicy \<Rightarrow> aerospikeUserCreateUpdate \<Rightarrow> string list \<Rightarrow> ('s, unit) action" where
  "updateUser client adminPolicy uc currentRoles =
     act_bind
       (case ucPassword uc of
          None \<Rightarrow> act_return ()
        | Some password \<Rightarrow>
            act_call (ChangePasswordFailed (ucName uc))
              (ChangePassword client adminPolicy (ucName uc) password)) (\<lambda>_.
     let desiredRoles = ucRoles uc;
         rolesToRevoke = SliceSubtract currentRoles desiredRoles;
         rolesToGrant = SliceSubtract desiredRoles currentRoles in
     act_bind (act_when (rolesToRevoke \<noteq> [])
       (act_call (RevokeRolesFailed (ucName uc))
          (RevokeRoles client adminPolicy (ucName uc) rolesToRevoke))) (\<lambda>_.
     act_bind (act_when (rolesToGrant \<noteq> [])
       (act_call (GrantRolesFailed (ucName uc))
          (GrantRoles client adminPolicy (ucName uc) rolesToGrant))) (\<lambda>_.
       Eventf EventTypeNormal ''UserUpdated'' (ucName uc))))"

definition execute_user ::
  "'s as_Client \<Rightarrow> as_AdminPolicy \<Rightarrow> aerospikeUserCreateUpdate \<Rightarrow> ('s, unit) action" where
  "execute_user client adminPolicy uc s =
     (case QueryUser client adminPolicy (ucName uc) (Server s) of
        Inl err \<Rightarrow>
          if Contains err userNotFoundErr
          then on_error (createUser client adminPolicy uc)
                 (Eventf EventTypeWarning ''UserCreateFailed'' (ucName uc)) s
          else (Err (QueryUserFailed (ucName uc) err), s)
      | Inr roles \<Rightarrow>
          on_error (updateUser client adminPolicy uc roles)
            (Eventf EventTypeWarning ''UserUpdateFailed'' (ucName uc)) s)"

text \<open>A drop that fails because the object is not there counts as done.\<close>

definition act_drop ::
  "string \<Rightarrow> (string \<Rightarrow> rec_error) \<Rightarrow> ('s \<Rightarrow> string option \<times> 's) \<Rightarrow> ('s, unit) action" where
  "act_drop notFound wrap call s =
     (case call (Server s) of
        (None, srv) \<Rightarrow> (Ok (), s\<lparr>Server := srv\<rparr>)
      | (Some err, srv) \<Rightarrow>
          ((if Contains err notFound then Ok () else Err (wrap err)), s\<lparr>Server := srv\<rparr>))"

definition execute_role_drop ::
  "'s as_Client \<Rightarrow> as_AdminPolicy \<Rightarrow> string \<Rightarrow> ('s, unit) action" where
  "execute_role_drop client adminPolicy name =
     act_bind (act_drop roleNotFoundErr (DropRoleFailed name) (DropRole client adminPolicy name)) (\<lambda>_.
       Eventf EventTypeNormal ''RoleDeleted'' name)"

definition execute_user_drop ::
  "'s as_Client \<Rightarrow> as_AdminPolicy \<Rightarrow> string \<Rightarrow> ('s, unit) action" where
  "execute_user_drop client adminPolicy name =
     act_bind (act_drop userNotFoundErr (DropUserFailed name) (DropUser client adminPolicy name)) (\<lambda>_.
       Eventf EventTypeNormal ''UserDeleted'' name)"

fun execute_cmd :: "'s as_Client \<Rightarrow> as_AdminPolicy \<Rightarrow> ac_cmd \<Rightarrow> ('s, unit) action" where
  "execute_cmd client adminPolicy (RoleCreateUpdate rc) = execute_role client adminPolicy rc"
| "execute_cmd client adminPolicy (RoleDrop name) = execute_role_drop client adminPolicy name"
| "execute_cmd client adminPolicy (UserCreateUpdate uc) = execute_user client adminPolicy uc"
| "execute_cmd client adminPolicy (UserDrop name) = execute_user_drop client adminPolicy name"

fun execute_all :: "'s as_Client \<Rightarrow> as_AdminPolicy \<Rightarrow> ac_cmd list \<Rightarrow> ('s, unit) action" where
  "execute_all client adminPolicy [] = act_return ()"
| "execute_all client adminPolicy (cmd # cmds) =
     act_bind (execute_cmd client adminPolicy cmd) (\<lambda>_. execute_all client adminPolicy cmds)"

section \<open>Reconciling roles and users\<close>

definition role_cmd :: "string \<Rightarrow> AerospikeRoleSpec \<Rightarrow> ac_cmd" where
  "role_cmd roleName roleSpec =
     RoleCreateUpdate \<lparr>rcName = roleName, rcPrivileges = RolePrivileges roleSpec,
       rcWhitelist = RoleWhitelist roleSpec, rcReadQuota = RoleReadQuota roleSpec,
       rcWriteQuota = RoleWriteQuota roleSpec\<rparr>"

definition roleReconcileCmds ::
  "AerospikeRoleSpec gomap \<Rightarrow> AerospikeRoleSpec gomap \<Rightarrow> ac_cmd list" where
  "roleReconcileCmds desired current =
     (let currentRoleNames = map fst current;
          requiredRoleNames = map fst desired;
          rolesToDrop = SliceSubtract currentRoleNames requiredRoleNames in
      map RoleDrop (filter (\<lambda>n. n \<notin> set PredefinedRoles) rolesToDrop) @
      map (\<lambda>(roleName, roleSpec). role_cmd roleName roleSpec) desired)"

definition reconcileRoles ::
  "AerospikeRoleSpec gomap \<Rightarrow> AerospikeRoleSpec gomap \<Rightarrow> 's as_Client \<Rightarrow> as_AdminPolicy \<Rightarrow>
   ('s, unit) action" where
  "reconcileRoles desired current client adminPolicy =
     execute_all client adminPolicy (roleReconcileCmds desired current)"

record password_provider =
  ppGet :: "string \<Rightarrow> AerospikeUserSpec \<Rightarrow> (rec_error, string) res"
  ppGetDefaultPassword :: "AerospikeClusterSpec \<Rightarrow> string"

text \<open>
  The password a user's command carries: none, the empty password, \<^verbatim>\<open>nopassword\<close> or the password
  from the provider.
\<close>

definition user_password ::
  "password_provider \<Rightarrow> bool \<Rightarrow> string \<Rightarrow> AerospikeUserSpec \<Rightarrow> AerospikeUserSpec option \<Rightarrow>
   (rec_error, string option) res" where
  "user_password provider isFederal userName userSpec currUserSpec =
     (let isAdmin = (userName = AdminUsername) in
      if isFederal then Ok (if currUserSpec = None \<and> \<not> isAdmin then Some [] else None)
      else if IsAuthModeInternal (UserAuthMode userSpec)
      then res_bind (ppGet provider userName userSpec) (\<lambda>pwd. Ok (Some pwd))
      else if (case currUserSpec of None \<Rightarrow> True | Some c \<Rightarrow> IsAuthModeInternal (UserAuthMode c)) \<and>
              UserAuthMode userSpec = AerospikeAuthModePKIOnly
      then Ok (Some ''nopassword'')
      else Ok None)"

text \<open>The loop over the desired users collects the other commands and the admin's command.\<close>

fun user_cmds_loop ::
  "password_provider \<Rightarrow> bool \<Rightarrow> AerospikeUserSpec gomap \<Rightarrow> AerospikeUserSpec gomap \<Rightarrow>
   ac_cmd list \<Rightarrow> ac_cmd option \<Rightarrow> (rec_error, ac_cmd list \<times> ac_cmd option) res" where
  "user_cmds_loop provider isFederal current [] cmds adminUpdateCmd = Ok (cmds, adminUpdateCmd)"
| "user_cmds_loop provider isFederal current ((userName, userSpec) # desired) cmds adminUpdateCmd =
     res_bind (user_password provider isFederal userName userSpec (gomap_get current userName)) (\<lambda>password.
       let cmd = UserCreateUpdate \<lparr>ucName = userName, ucPassword = password, ucRoles = UserRoles userSpec\<rparr> in
       if userName = AdminUsername
       then user_cmds_loop provider isFederal current desired cmds (Some cmd)
       else user_cmds_loop provider isFederal current desired (cmds @ [cmd]) adminUpdateCmd)"

definition userReconcileCmds ::
  "bool \<Rightarrow> AerospikeUserSpec gomap \<Rightarrow> AerospikeUserSpec gomap \<Rightarrow> password_provider \<Rightarrow>
   (rec_error, ac_cmd list) res" where
  "userReconcileCmds isFederal desired current provider =
     (let currentUserNames = map fst current;
          requiredUserNames = map fst desired;
          usersToDrop = SliceSubtract currentUserNames requiredUserNames in
      res_bind (user_cmds_loop provider isFederal current desired (map UserDrop usersToDrop) None)
        (\<lambda>(cmds, adminUpdateCmd).
           Ok (case adminUpdateCmd of None \<Rightarrow> cmds | Some cmd \<Rightarrow> cmds @ [cmd])))"

definition reconcileUsers ::
  "string \<Rightarrow> AerospikeUserSpec gomap \<Rightarrow> AerospikeUserSpec gomap \<Rightarrow> password_provider \<Rightarrow>
   's as_Client \<Rightarrow> as_AdminPolicy \<Rightarrow> ('s, unit) action" where
  "reconcileUsers img desired current provider client adminPolicy =
     act_bind (act_res (userReconcileCmds (IsFederal img) desired current provider))
       (execute_all client adminPolicy)"

text \<open>
  \<^verbatim>\<open>time.Duration(timeout) * time.Millisecond\<close> at 64 bits; \<open>newAdminPolicy\<close> is the default policy of
  the client library.
\<close>

definition GetAdminPolicy :: "as_AdminPolicy \<Rightarrow> AerospikeClusterSpec \<Rightarrow> as_AdminPolicy" where
  "GetAdminPolicy newAdminPolicy clusterSpec =
     (case SpecAccessControl clusterSpec of
        None \<Rightarrow> newAdminPolicy
      | Some ac \<Rightarrow>
          (case AdminPolicyTimeout ac of
             None \<Rightarrow> newAdminPolicy
           | Some timeout \<Rightarrow> of_int timeout * 1000000))"

text \<open>
  \<open>currentState\<close> is the status copied into a specification; \<^verbatim>\<open>CopyStatusToSpec\<close> copies the fields read
  here unchanged and returns no error.
\<close>

definition reconcileAccessControl ::
  "as_AdminPolicy \<Rightarrow> AerospikeClusterSpec \<Rightarrow> AerospikeClusterSpec \<Rightarrow> 's as_Client \<Rightarrow>
   password_provider \<Rightarrow> ('s, unit) action" where
  "reconcileAccessControl newAdminPolicy desired currentState client provider =
     (let adminPolicy = GetAdminPolicy newAdminPolicy desired in
      act_bind (reconcileRoles (GetRolesFromSpec desired) (GetRolesFromSpec currentState)
          client adminPolicy) (\<lambda>_.
        reconcileUsers (SpecImage desired) (GetUsersFromSpec desired) (GetUsersFromSpec currentState)
          provider client adminPolicy))"

section \<open>Credentials\<close>

definition AerospikeAdminCredentials ::
  "AerospikeClusterSpec \<Rightarrow> AerospikeClusterSpec \<Rightarrow> password_provider \<Rightarrow>
   (rec_error, string \<times> string) res" where
  "AerospikeAdminCredentials desiredState currentState provider =
     (if SpecAccessControl desiredState = None then Ok ([], [])
      else if IsFederal (SpecImage desiredState) then Ok ([], [])
      else if SpecAccessControl currentState = None
      then Ok (AdminUsername, ppGetDefaultPassword provider desiredState)
      else case gomap_get (GetUsersFromSpec currentState) AdminUsername of
        None \<Rightarrow> Err (AdminMissing AdminUsername)
      | Some adminUserSpec \<Rightarrow>
          if UserAuthMode adminUserSpec = AerospikeAuthModePKIOnly then Ok ([], [])
          else res_bind (ppGet provider AdminUsername adminUserSpec) (\<lambda>password.
                 Ok (AdminUsername, password)))"

text \<open>
  \<^verbatim>\<open>fromSecretPasswordProvider.Get\<close> of \<^verbatim>\<open>client_policy.go\<close>: \<open>secrets\<close> is the read of a secret from the
  API server, the error text or the secret's data.
\<close>

definition fromSecretPasswordProvider_Get ::
  "(string \<Rightarrow> string \<Rightarrow> string + string gomap) \<Rightarrow> string \<Rightarrow> AerospikeUserSpec \<Rightarrow> (rec_error, string) res" where
  "fromSecretPasswordProvider_Get secrets namespace userSpec =
     (case secrets namespace (UserSecretName userSpec) of
        Inl err \<Rightarrow> Err (GetSecretFailed (UserSecretName userSpec) err)
      | Inr data \<Rightarrow>
          (case gomap_get data ''password'' of
             None \<Rightarrow> Err (PasswordKeyMissing (UserSecretName userSpec))
           | Some passBytes \<Rightarrow> Ok passBytes))"

section \<open>Privilege strings and privileges\<close>

lemma privilege_code_of_known:
  "privilege_code c \<Longrightarrow> \<exists>code. privilege_code_of c = Some code \<and> privilege_code_string code = Some c"
proof -
  assume "privilege_code c"
  then have "c \<in> fst ` set Privileges" by (simp add: privilege_code_def gomap_get_None_iff)
  moreover have "\<forall>c\<in>fst ` set Privileges.
      \<exists>code. privilege_code_of c = Some code \<and> privilege_code_string code = Some c"
    by (simp add: Privileges_def privilege_code_of_def)
  ultimately show ?thesis by blast
qed

lemma privilege_code_string_known:
  "privilege_code_string code = Some c \<Longrightarrow> privilege_code c \<and> privilege_code_of c = Some code"
  by (cases code; clarsimp; code_simp)

text \<open>
  A privilege the way a server grants it: a set is given only together with its namespace, and
  the names hold no dot.
\<close>

definition scoped :: "as_Privilege \<Rightarrow> bool" where
  "scoped p \<longleftrightarrow>
     CHR ''.'' \<notin> set (PrivNamespace p) \<and> CHR ''.'' \<notin> set (PrivSetName p) \<and>
     (PrivNamespace p = [] \<longrightarrow> PrivSetName p = [])"

lemma convert_print:
  assumes "scoped p" "print_privilege p = Ok s"
  shows "convert_privilege s = Ok p"
proof -
  obtain c where c: "privilege_code_string (PrivCode p) = Some c"
    using assms(2) by (auto simp: print_privilege_def split: option.splits)
  have code: "privilege_code c" "privilege_code_of c = Some (PrivCode p)"
    using privilege_code_string_known [OF c] by auto
  have dot: "CHR ''.'' \<notin> set c" by (rule privilege_code_plain [OF code(1)])
  have known: "gomap_get Privileges c \<noteq> None" using code(1) by (simp add: privilege_code_def)
  have s: "s = c @ (if PrivNamespace p \<noteq> [] then ''.'' @ PrivNamespace p @
      (if PrivSetName p \<noteq> [] then ''.'' @ PrivSetName p else []) else [])"
    using assms(2) c by (simp add: print_privilege_def)
  consider "PrivNamespace p = []" "PrivSetName p = []"
    | "PrivNamespace p \<noteq> []" "PrivSetName p = []"
    | "PrivNamespace p \<noteq> []" "PrivSetName p \<noteq> []"
    using assms(1) by (auto simp: scoped_def)
  then show ?thesis
  proof cases
    case 1
    then have "Split (CHR ''.'') s = [c]" by (simp add: s Split_no_sep dot)
    with 1 code known show ?thesis by (auto simp: convert_privilege_def Let_def intro: as_Privilege.equality)
  next
    case 2
    then have "Split (CHR ''.'') s = [c, PrivNamespace p]"
      using assms(1) by (simp add: s Split_no_sep Split_append_sep dot scoped_def)
    with 2 code known show ?thesis by (auto simp: convert_privilege_def Let_def intro: as_Privilege.equality)
  next
    case 3
    then have "Split (CHR ''.'') s = [c, PrivNamespace p, PrivSetName p]"
      using assms(1) by (simp add: s Split_no_sep Split_append_sep dot scoped_def)
    with 3 code known show ?thesis by (auto simp: convert_privilege_def Let_def intro: as_Privilege.equality)
  qed
qed

lemma print_convert:
  assumes "privilege_ok nsNames d" "[] \<notin> set nsNames"
  shows "\<exists>p. convert_privilege d = Ok p \<and> scoped p \<and> print_privilege p = Ok d"
  using assms(1) unfolding privilege_ok_def
proof (elim disjE exE conjE)
  assume c: "privilege_code d"
  then have "Split (CHR ''.'') d = [d]" by (simp add: Split_no_sep privilege_code_plain)
  with privilege_code_of_known [OF c] c show ?thesis
    by (auto simp: convert_privilege_def privilege_code_def print_privilege_def scoped_def)
next
  fix c ns assume c: "namespace_scoped c" and ns: "ns \<in> set nsNames" "CHR ''.'' \<notin> set ns"
    and d: "d = c @ ''.'' @ ns"
  have code: "privilege_code c" by (rule namespace_scoped_code [OF c])
  have "Split (CHR ''.'') d = [c, ns]"
    using privilege_code_plain [OF code] ns by (simp add: d Split_append_sep Split_no_sep)
  moreover have "ns \<noteq> []" using ns assms(2) by auto
  ultimately show ?thesis using privilege_code_of_known [OF code] code ns
    by (auto simp: convert_privilege_def privilege_code_def print_privilege_def d scoped_def)
next
  fix c ns s assume c: "namespace_scoped c" and ns: "ns \<in> set nsNames" "CHR ''.'' \<notin> set ns"
    and d: "d = c @ ''.'' @ ns @ ''.'' @ s" and s: "CHR ''.'' \<notin> set s" "\<not> is_blank s"
  have code: "privilege_code c" by (rule namespace_scoped_code [OF c])
  have "Split (CHR ''.'') d = [c, ns, s]"
    using privilege_code_plain [OF code] ns s by (simp add: d Split_append_sep Split_no_sep)
  moreover have "ns \<noteq> []" "s \<noteq> []" using ns s assms(2) by (auto simp: is_blank.simps [of "[]"])
  ultimately show ?thesis using privilege_code_of_known [OF code] code ns s
    by (auto simp: convert_privilege_def privilege_code_def print_privilege_def d scoped_def)
qed

lemma to_privileges_Ok_iff:
  "privilegeStringToAerospikePrivilege ds = Ok ps \<longleftrightarrow> list_all2 (\<lambda>d p. convert_privilege d = Ok p) ds ps"
  by (induction ds arbitrary: ps) (auto simp: res_simps list_all2_Cons1)

lemma to_strings_Ok_iff:
  "AerospikePrivilegeToPrivilegeString ps = Ok ds \<longleftrightarrow> list_all2 (\<lambda>p d. print_privilege p = Ok d) ps ds"
  by (induction ps arbitrary: ds) (auto simp: res_simps list_all2_Cons1)

lemma list_all2_Ok_set:
  "list_all2 (\<lambda>x y. f x = Ok y) xs ys \<Longrightarrow> set ys = {y. \<exists>x\<in>set xs. f x = Ok y}"
  by (induction xs ys rule: list_all2_induct) auto

lemma SliceSubtract_filter: "SliceSubtract xs ys = filter (\<lambda>x. x \<notin> set ys) xs"
  by (induction xs) auto

lemma no_empty_namespace: "[] \<notin> set (GetAllNamespaceNames spec)"
proof -
  have "n \<noteq> []" if "named_namespace v = Some n" for v n
    using that by (auto simp: named_namespace_def split: option.splits if_splits)
  moreover have "\<exists>v. named_namespace v = Some n" if "n \<in> set (List.map_filter named_namespace vs)" for n vs
    using that by (auto simp: List.map_filter_def)
  ultimately have "[] \<notin> set (List.map_filter named_namespace vs)" for vs by blast
  then have "[] \<notin> set (GetNamespaceNamesFromConfig c)" for c
    by (simp add: GetNamespaceNamesFromConfig_def split: option.splits)
  then show ?thesis by (simp add: GetAllNamespaceNames_def)
qed

text \<open>The privileges a specification asks for.\<close>

definition privileges_of :: "string list \<Rightarrow> as_Privilege set" where
  "privileges_of ds = {p. \<exists>d\<in>set ds. convert_privilege d = Ok p}"

text \<open>Revoking and granting the differences of the strings leaves exactly the desired privileges.\<close>

lemma privilege_difference:
  assumes P: "\<forall>p\<in>set ps. scoped p"
    and cur: "AerospikePrivilegeToPrivilegeString ps = Ok cur"
  shows "(set ps - privileges_of (SliceSubtract cur ds)) \<union> privileges_of (SliceSubtract ds cur) =
    privileges_of ds"
proof -
  have cs: "set cur = {s. \<exists>p\<in>set ps. print_privilege p = Ok s}"
    using cur list_all2_Ok_set [of print_privilege ps cur] by (simp add: to_strings_Ok_iff)
  have inv: "convert_privilege s = Ok p" if "p \<in> set ps" "print_privilege p = Ok s" for p s
    using convert_print P that by blast
  have printed: "\<exists>s. print_privilege p = Ok s" if "p \<in> set ps" for p
    using cur that by (auto simp: to_strings_Ok_iff list_all2_conv_all_nth in_set_conv_nth)
  show ?thesis
  proof (intro set_eqI iffI)
    fix p assume "p \<in> (set ps - privileges_of (SliceSubtract cur ds)) \<union> privileges_of (SliceSubtract ds cur)"
    then show "p \<in> privileges_of ds"
    proof
      assume p: "p \<in> set ps - privileges_of (SliceSubtract cur ds)"
      then obtain s where s: "print_privilege p = Ok s" "convert_privilege s = Ok p"
        using printed inv by blast
      then have "s \<in> set cur" using p cs by auto
      then have "s \<in> set ds" using p s by (auto simp: privileges_of_def SliceSubtract_filter)
      with s show ?thesis by (auto simp: privileges_of_def)
    qed (auto simp: privileges_of_def SliceSubtract_filter)
  next
    fix p assume "p \<in> privileges_of ds"
    then obtain d where d: "d \<in> set ds" "convert_privilege d = Ok p" by (auto simp: privileges_of_def)
    show "p \<in> (set ps - privileges_of (SliceSubtract cur ds)) \<union> privileges_of (SliceSubtract ds cur)"
    proof (cases "d \<in> set cur")
      case False
      with d show ?thesis by (auto simp: privileges_of_def SliceSubtract_filter)
    next
      case True
      then obtain q where q: "q \<in> set ps" "print_privilege q = Ok d" using cs by auto
      then have pq: "q = p" using inv d(2) by fastforce
      have "p \<notin> privileges_of (SliceSubtract cur ds)"
      proof
        assume "p \<in> privileges_of (SliceSubtract cur ds)"
        then obtain e where e: "e \<in> set cur" "e \<notin> set ds" "convert_privilege e = Ok p"
          by (auto simp: privileges_of_def SliceSubtract_filter)
        then obtain q' where "q' \<in> set ps" "print_privilege q' = Ok e" using cs by auto
        then have "print_privilege p = Ok e" using inv e(3) by fastforce
        then show False using q pq e(2) d(1) by simp
      qed
      with q pq show ?thesis by simp
    qed
  qed
qed

end
