(* ===== verification/Access_Converge.thy ===== *)
theory Access_Converge
  imports Access_Reconcile
begin

text \<open>
  What reconciling roles and users achieves, over any server whose administration calls do what
  the client library documents. The hypotheses on the server are the conjuncts of
  \<open>admin_server\<close>; nothing is assumed about a call that fails, except that dropping an absent
  object leaves it absent. A reference server meets them.
\<close>

section \<open>The server's promises\<close>

record role_view =
  VPrivs :: "as_Privilege set"
  VWl :: "string list"
  VRQ :: uint32
  VWQ :: uint32

record user_view =
  VRoles :: "string set"
  VPassword :: string

definition role_shows :: "as_Role \<Rightarrow> role_view \<Rightarrow> bool" where
  "role_shows r v \<longleftrightarrow>
     VPrivs v = set (RolePrivs r) \<and> VWl v = elems (RoleWl r) \<and> VRQ v = RoleRQ r \<and> VWQ v = RoleWQ r \<and>
     (\<forall>p\<in>set (RolePrivs r). scoped p)"

text \<open>A call that reports no error has changed a view of the state by \<open>f\<close>.\<close>

definition call_sets :: "('s \<Rightarrow> string option \<times> 's) \<Rightarrow> ('s \<Rightarrow> 'v) \<Rightarrow> ('v \<Rightarrow> 'v) \<Rightarrow> bool" where
  "call_sets call view f \<longleftrightarrow> (\<forall>s s'. call s = (None, s') \<longrightarrow> view s' = f (view s))"

text \<open>So has a drop, also one that reports that the object does not exist.\<close>

definition drop_sets ::
  "string \<Rightarrow> ('s \<Rightarrow> string option \<times> 's) \<Rightarrow> ('s \<Rightarrow> 'v) \<Rightarrow> ('v \<Rightarrow> 'v) \<Rightarrow> bool" where
  "drop_sets notFound call view f \<longleftrightarrow>
     call_sets call view f \<and>
     (\<forall>s e s'. call s = (Some e, s') \<longrightarrow> Contains e notFound \<longrightarrow> view s' = f (view s))"

definition upd_at :: "string \<Rightarrow> ('v \<Rightarrow> 'v) \<Rightarrow> (string \<Rightarrow> 'v option) \<Rightarrow> string \<Rightarrow> 'v option" where
  "upd_at n f R = R(n := map_option f (R n))"

definition role_server :: "'s as_Client \<Rightarrow> ('s \<Rightarrow> string \<Rightarrow> role_view option) \<Rightarrow> bool" where
  "role_server client rv \<longleftrightarrow>
     (\<forall>pol n s r. QueryRole client pol n s = Inr r \<longrightarrow> (\<exists>v. rv s n = Some v \<and> role_shows r v)) \<and>
     (\<forall>pol n s e. QueryRole client pol n s = Inl e \<longrightarrow> Contains e roleNotFoundErr \<longrightarrow> rv s n = None) \<and>
     (\<forall>pol n ps wl rq wq. call_sets (CreateRole client pol n ps wl rq wq) rv
        (\<lambda>R. R(n \<mapsto> \<lparr>VPrivs = set ps, VWl = elems wl, VRQ = rq, VWQ = wq\<rparr>))) \<and>
     (\<forall>pol n ps. call_sets (RevokePrivileges client pol n ps) rv
        (upd_at n (\<lambda>v. v\<lparr>VPrivs := VPrivs v - set ps\<rparr>))) \<and>
     (\<forall>pol n ps. call_sets (GrantPrivileges client pol n ps) rv
        (upd_at n (\<lambda>v. v\<lparr>VPrivs := VPrivs v \<union> set ps\<rparr>))) \<and>
     (\<forall>pol n wl. call_sets (SetWhitelist client pol n wl) rv (upd_at n (\<lambda>v. v\<lparr>VWl := elems wl\<rparr>))) \<and>
     (\<forall>pol n rq wq. call_sets (SetQuotas client pol n rq wq) rv
        (upd_at n (\<lambda>v. v\<lparr>VRQ := rq, VWQ := wq\<rparr>))) \<and>
     (\<forall>pol n. drop_sets roleNotFoundErr (DropRole client pol n) rv (\<lambda>R. R(n := None)))"

definition user_server :: "'s as_Client \<Rightarrow> ('s \<Rightarrow> string \<Rightarrow> user_view option) \<Rightarrow> bool" where
  "user_server client uv \<longleftrightarrow>
     (\<forall>pol n s rs. QueryUser client pol n s = Inr rs \<longrightarrow> (\<exists>v. uv s n = Some v \<and> VRoles v = set rs)) \<and>
     (\<forall>pol n s e. QueryUser client pol n s = Inl e \<longrightarrow> Contains e userNotFoundErr \<longrightarrow> uv s n = None) \<and>
     (\<forall>pol n pw rs. call_sets (CreateUser client pol n pw rs) uv
        (\<lambda>U. U(n \<mapsto> \<lparr>VRoles = set rs, VPassword = pw\<rparr>))) \<and>
     (\<forall>pol n pw. call_sets (ChangePassword client pol n pw) uv (upd_at n (\<lambda>v. v\<lparr>VPassword := pw\<rparr>))) \<and>
     (\<forall>pol n rs. call_sets (RevokeRoles client pol n rs) uv
        (upd_at n (\<lambda>v. v\<lparr>VRoles := VRoles v - set rs\<rparr>))) \<and>
     (\<forall>pol n rs. call_sets (GrantRoles client pol n rs) uv
        (upd_at n (\<lambda>v. v\<lparr>VRoles := VRoles v \<union> set rs\<rparr>))) \<and>
     (\<forall>pol n. drop_sets userNotFoundErr (DropUser client pol n) uv (\<lambda>U. U(n := None)))"

text \<open>Calls on users leave the roles alone.\<close>

definition user_calls_keep_roles :: "'s as_Client \<Rightarrow> ('s \<Rightarrow> string \<Rightarrow> role_view option) \<Rightarrow> bool" where
  "user_calls_keep_roles client rv \<longleftrightarrow>
     (\<forall>pol n pw rs. call_sets (CreateUser client pol n pw rs) rv (\<lambda>R. R)) \<and>
     (\<forall>pol n pw. call_sets (ChangePassword client pol n pw) rv (\<lambda>R. R)) \<and>
     (\<forall>pol n rs. call_sets (RevokeRoles client pol n rs) rv (\<lambda>R. R)) \<and>
     (\<forall>pol n rs. call_sets (GrantRoles client pol n rs) rv (\<lambda>R. R)) \<and>
     (\<forall>pol n. drop_sets userNotFoundErr (DropUser client pol n) rv (\<lambda>R. R))"

definition admin_server ::
  "'s as_Client \<Rightarrow> ('s \<Rightarrow> string \<Rightarrow> role_view option) \<Rightarrow> ('s \<Rightarrow> string \<Rightarrow> user_view option) \<Rightarrow> bool" where
  "admin_server client rv uv \<longleftrightarrow>
     role_server client rv \<and> user_server client uv \<and> user_calls_keep_roles client rv"

section \<open>Actions\<close>

named_theorems act_simps "inversion of actions that return a value"

lemma act_bind_Ok [act_simps]:
  "act_bind m f s = (Ok b, s') \<longleftrightarrow> (\<exists>a s1. m s = (Ok a, s1) \<and> f a s1 = (Ok b, s'))"
  by (auto simp: act_bind_def split: prod.splits res.splits)

lemma act_return_Ok [act_simps]: "act_return a s = (Ok b, s') \<longleftrightarrow> b = a \<and> s' = s"
  by (auto simp: act_return_def)

lemma act_res_Ok [act_simps]: "act_res r s = (Ok b, s') \<longleftrightarrow> r = Ok b \<and> s' = s"
  by (auto simp: act_res_def)

lemma act_call_Ok [act_simps]:
  "act_call w c s = (Ok u, s') \<longleftrightarrow> (\<exists>srv. c (Server s) = (None, srv) \<and> s' = s\<lparr>Server := srv\<rparr>)"
  by (auto simp: act_call_def split: prod.splits option.splits)

lemma on_error_Ok [act_simps]: "on_error m h s = (Ok a, s') \<longleftrightarrow> m s = (Ok a, s')"
  by (auto simp: on_error_def split: prod.splits res.splits)

lemma Eventf_Ok [act_simps]:
  "Eventf t r n s = (Ok u, s') \<longleftrightarrow>
     s' = s\<lparr>Events := Events s @ [\<lparr>EvType = t, EvReason = r, EvSubject = n\<rparr>]\<rparr>"
  by (auto simp: Eventf_def)

text \<open>The view after a guarded call that returned.\<close>

lemma call_sets_D: "call_sets c view f \<Longrightarrow> c s = (None, s') \<Longrightarrow> view s' = f (view s)"
  by (simp add: call_sets_def)

lemma act_call_view:
  "act_call w c s = (Ok (), s') \<Longrightarrow> call_sets c view f \<Longrightarrow> view (Server s') = f (view (Server s))"
  by (auto simp: act_call_Ok call_sets_def)

lemma act_when_view:
  assumes "act_when b m s = (Ok (), s')"
    and "b \<Longrightarrow> m s = (Ok (), s') \<Longrightarrow> view (Server s') = f (view (Server s))"
    and "\<not> b \<Longrightarrow> f (view (Server s)) = view (Server s)"
  shows "view (Server s') = f (view (Server s))"
  using assms by (auto simp: act_when_def act_return_Ok split: if_splits)

lemma act_drop_view:
  "act_drop nf w c s = (Ok (), s') \<Longrightarrow> drop_sets nf c view f \<Longrightarrow> view (Server s') = f (view (Server s))"
  by (auto simp: act_drop_def drop_sets_def call_sets_def split: prod.splits option.splits if_splits)

lemma execute_all_append_Ok:
  "execute_all client pol (xs @ ys) s = (Ok (), s') \<longleftrightarrow>
     (\<exists>s1. execute_all client pol xs s = (Ok (), s1) \<and> execute_all client pol ys s1 = (Ok (), s'))"
  by (induction xs arbitrary: s) (auto simp: act_simps)

lemma upd_at_simps:
  "upd_at n f R n = map_option f (R n)"
  "k \<noteq> n \<Longrightarrow> upd_at n f R k = R k"
  by (simp_all add: upd_at_def)

section \<open>Roles\<close>

definition wanted_role :: "AerospikeRoleSpec \<Rightarrow> role_view" where
  "wanted_role spec =
     \<lparr>VPrivs = privileges_of (RolePrivileges spec), VWl = elems (RoleWhitelist spec),
      VRQ = RoleReadQuota spec, VWQ = RoleWriteQuota spec\<rparr>"

definition wanted_rc :: "aerospikeRoleCreateUpdate \<Rightarrow> role_view" where
  "wanted_rc rc =
     \<lparr>VPrivs = privileges_of (rcPrivileges rc), VWl = elems (rcWhitelist rc),
      VRQ = rcReadQuota rc, VWQ = rcWriteQuota rc\<rparr>"

lemma set_privileges_of: "privilegeStringToAerospikePrivilege ds = Ok ps \<Longrightarrow> set ps = privileges_of ds"
  by (auto simp: to_privileges_Ok_iff privileges_of_def dest!: list_all2_Ok_set)

lemma privileges_of_Nil [simp]: "privileges_of [] = {}"
  by (simp add: privileges_of_def)

lemma role_server_query:
  "role_server client rv \<Longrightarrow> QueryRole client pol n s = Inr r \<Longrightarrow> \<exists>v. rv s n = Some v \<and> role_shows r v"
  by (simp add: role_server_def)

lemma createRole_view:
  assumes "role_server client rv" "createRole client pol rc s = (Ok (), s')"
  shows "rv (Server s') = (rv (Server s))(rcName rc \<mapsto> wanted_rc rc)"
proof -
  have law: "call_sets (CreateRole client pol (rcName rc) ps (rcWhitelist rc) (rcReadQuota rc) (rcWriteQuota rc)) rv
      (\<lambda>R. R(rcName rc \<mapsto> \<lparr>VPrivs = set ps, VWl = elems (rcWhitelist rc), VRQ = rcReadQuota rc, VWQ = rcWriteQuota rc\<rparr>))" for ps
    using assms(1) by (simp add: role_server_def)
  obtain ps s1 where "privilegeStringToAerospikePrivilege (rcPrivileges rc) = Ok ps"
      "act_call (\<lambda>e. CreateRoleFailed (rcName rc) (ClientError e))
         (CreateRole client pol (rcName rc) ps (rcWhitelist rc) (rcReadQuota rc) (rcWriteQuota rc)) s = (Ok (), s1)"
      "Server s' = Server s1"
    using assms(2) by (auto simp: createRole_def act_bind_Ok act_res_Ok Eventf_Ok res_simps)
  then show ?thesis
    using act_call_view [OF _ law] by (simp add: wanted_rc_def set_privileges_of)
qed

text \<open>The two guarded privilege calls of an update.\<close>

lemma revoke_view:
  assumes "role_server client rv"
    and "act_when (ds \<noteq> []) (act_bind (act_res (res_map_err w (privilegeStringToAerospikePrivilege ds)))
      (\<lambda>ps. act_call w' (RevokePrivileges client pol n ps))) s = (Ok (), s')"
  shows "rv (Server s') = upd_at n (\<lambda>v. v\<lparr>VPrivs := VPrivs v - privileges_of ds\<rparr>) (rv (Server s))"
  using assms(2)
proof (rule act_when_view [where view = rv])
  assume "act_bind (act_res (res_map_err w (privilegeStringToAerospikePrivilege ds)))
      (\<lambda>ps. act_call w' (RevokePrivileges client pol n ps)) s = (Ok (), s')"
  then obtain ps where ps: "privilegeStringToAerospikePrivilege ds = Ok ps"
      "act_call w' (RevokePrivileges client pol n ps) s = (Ok (), s')"
    by (auto simp: act_bind_Ok act_res_Ok res_simps)
  have "call_sets (RevokePrivileges client pol n ps) rv (upd_at n (\<lambda>v. v\<lparr>VPrivs := VPrivs v - set ps\<rparr>))"
    using assms(1) by (simp add: role_server_def)
  from act_call_view [OF ps(2) this]
  show "rv (Server s') = upd_at n (\<lambda>v. v\<lparr>VPrivs := VPrivs v - privileges_of ds\<rparr>) (rv (Server s))"
    by (simp add: set_privileges_of [OF ps(1)])
qed (auto simp: upd_at_def fun_eq_iff map_option_case split: option.splits)

lemma grant_view:
  assumes "role_server client rv"
    and "act_when (ds \<noteq> []) (act_bind (act_res (res_map_err w (privilegeStringToAerospikePrivilege ds)))
      (\<lambda>ps. act_call w' (GrantPrivileges client pol n ps))) s = (Ok (), s')"
  shows "rv (Server s') = upd_at n (\<lambda>v. v\<lparr>VPrivs := VPrivs v \<union> privileges_of ds\<rparr>) (rv (Server s))"
  using assms(2)
proof (rule act_when_view [where view = rv])
  assume "act_bind (act_res (res_map_err w (privilegeStringToAerospikePrivilege ds)))
      (\<lambda>ps. act_call w' (GrantPrivileges client pol n ps)) s = (Ok (), s')"
  then obtain ps where ps: "privilegeStringToAerospikePrivilege ds = Ok ps"
      "act_call w' (GrantPrivileges client pol n ps) s = (Ok (), s')"
    by (auto simp: act_bind_Ok act_res_Ok res_simps)
  have "call_sets (GrantPrivileges client pol n ps) rv (upd_at n (\<lambda>v. v\<lparr>VPrivs := VPrivs v \<union> set ps\<rparr>))"
    using assms(1) by (simp add: role_server_def)
  from act_call_view [OF ps(2) this]
  show "rv (Server s') = upd_at n (\<lambda>v. v\<lparr>VPrivs := VPrivs v \<union> privileges_of ds\<rparr>) (rv (Server s))"
    by (simp add: set_privileges_of [OF ps(1)])
qed (auto simp: upd_at_def fun_eq_iff map_option_case split: option.splits)

lemma updateRole_view:
  assumes law: "role_server client rv" and v: "rv (Server s) (rcName rc) = Some v" "role_shows role v"
    and ok: "updateRole client pol rc role s = (Ok (), s')"
  shows "rv (Server s') = (rv (Server s))(rcName rc \<mapsto> wanted_rc rc)"
proof -
  let ?n = "rcName rc" and ?D = "rcPrivileges rc"
  obtain cur s1 s2 s3 s4 where
      cur: "AerospikePrivilegeToPrivilegeString (RolePrivs role) = Ok cur" and
      r: "act_when (SliceSubtract cur ?D \<noteq> [])
            (act_bind (act_res (res_map_err (UpdateRoleFailed ?n)
               (privilegeStringToAerospikePrivilege (SliceSubtract cur ?D))))
             (\<lambda>ps. act_call (RevokePrivilegesFailed ?n) (RevokePrivileges client pol ?n ps))) s = (Ok (), s1)" and
      g: "act_when (SliceSubtract ?D cur \<noteq> [])
            (act_bind (act_res (res_map_err (UpdateRoleFailed ?n)
               (privilegeStringToAerospikePrivilege (SliceSubtract ?D cur))))
             (\<lambda>ps. act_call (GrantPrivilegesFailed ?n) (GrantPrivileges client pol ?n ps))) s1 = (Ok (), s2)" and
      3: "act_when (RoleWl role \<noteq> rcWhitelist rc) (act_call (SetWhitelistFailed ?n)
            (SetWhitelist client pol ?n (rcWhitelist rc))) s2 = (Ok (), s3)" and
      4: "act_when (RoleRQ role \<noteq> rcReadQuota rc \<or> RoleWQ role \<noteq> rcWriteQuota rc)
            (act_call (SetQuotasFailed ?n) (SetQuotas client pol ?n (rcReadQuota rc) (rcWriteQuota rc))) s3 = (Ok (), s4)" and
      5: "Server s' = Server s4"
    using ok unfolding updateRole_def act_bind_Ok [of "act_res _"] act_res_Ok res_map_err_Ok_iff Let_def
    unfolding act_bind_Ok [of "act_when _ _"] Eventf_Ok by auto
  note 1 = revoke_view [OF law r] and 2 = grant_view [OF law g]
  have P: "VPrivs v = set (RolePrivs role)" "\<forall>p\<in>set (RolePrivs role). scoped p"
      "VWl v = elems (RoleWl role)" "VRQ v = RoleRQ role" "VWQ v = RoleWQ role"
    using v(2) by (auto simp: role_shows_def)
  have s2: "rv (Server s2) = (rv (Server s))(?n \<mapsto> v\<lparr>VPrivs := privileges_of ?D\<rparr>)"
    using privilege_difference [OF P(2) cur, of ?D] P(1) v(1)
    by (simp add: 2 1 upd_at_def)
  have wl: "call_sets (SetWhitelist client pol ?n (rcWhitelist rc)) rv (upd_at ?n (\<lambda>v. v\<lparr>VWl := elems (rcWhitelist rc)\<rparr>))"
    and qs: "call_sets (SetQuotas client pol ?n (rcReadQuota rc) (rcWriteQuota rc)) rv
      (upd_at ?n (\<lambda>v. v\<lparr>VRQ := rcReadQuota rc, VWQ := rcWriteQuota rc\<rparr>))"
    using law by (simp_all add: role_server_def)
  have s3: "rv (Server s3) = upd_at ?n (\<lambda>v. v\<lparr>VWl := elems (rcWhitelist rc)\<rparr>) (rv (Server s2))"
    using 3 by (rule act_when_view [where view = rv])
      (auto simp: act_call_view [OF _ wl] s2 upd_at_def P(3) fun_eq_iff)
  have "rv (Server s4) = upd_at ?n (\<lambda>v. v\<lparr>VRQ := rcReadQuota rc, VWQ := rcWriteQuota rc\<rparr>) (rv (Server s3))"
    using 4 by (rule act_when_view [where view = rv])
      (auto simp: act_call_view [OF _ qs] s3 s2 upd_at_def P(4,5) fun_eq_iff)
  then show ?thesis
    by (cases v) (simp add: 5 s3 s2 upd_at_def wanted_rc_def)
qed

lemma execute_role_view:
  assumes law: "role_server client rv" and ok: "execute_role client pol rc s = (Ok (), s')"
  shows "rv (Server s') = (rv (Server s))(rcName rc \<mapsto> wanted_rc rc)"
proof (cases "QueryRole client pol (rcName rc) (Server s)")
  case (Inl e)
  with ok have "createRole client pol rc s = (Ok (), s')"
    by (auto simp: execute_role_def on_error_Ok split: if_splits)
  then show ?thesis by (rule createRole_view [OF law])
next
  case (Inr role)
  from role_server_query [OF law this]
  obtain v where "rv (Server s) (rcName rc) = Some v" "role_shows role v" by blast
  with ok Inr show ?thesis
    by (auto simp: execute_role_def on_error_Ok intro: updateRole_view [OF law])
qed

lemma execute_role_drop_view:
  assumes "role_server client rv" and "execute_role_drop client pol n s = (Ok (), s')"
  shows "rv (Server s') = (rv (Server s))(n := None)"
proof -
  have "drop_sets roleNotFoundErr (DropRole client pol n) rv (\<lambda>R. R(n := None))"
    using assms(1) by (simp add: role_server_def)
  then show ?thesis
    using assms(2) by (auto simp: execute_role_drop_def act_bind_Ok Eventf_Ok dest: act_drop_view)
qed

lemma role_drops_view:
  assumes "role_server client rv" "execute_all client pol (map RoleDrop ns) s = (Ok (), s')"
  shows "rv (Server s') n = (if n \<in> set ns then None else rv (Server s) n)"
  using assms(2)
  by (induction ns arbitrary: s)
    (auto simp: act_bind_Ok act_return_Ok execute_role_drop_view [OF assms(1)])

lemma role_cmds_view:
  assumes "role_server client rv" "gomap_ok desired"
    "execute_all client pol (map (\<lambda>(n, spec). role_cmd n spec) desired) s = (Ok (), s')"
  shows "rv (Server s') n =
    (case gomap_get desired n of None \<Rightarrow> rv (Server s) n | Some spec \<Rightarrow> Some (wanted_role spec))"
  using assms(2,3)
proof (induction desired arbitrary: s)
  case Nil
  then show ?case by (simp add: act_return_Ok)
next
  case (Cons e desired)
  obtain k spec where e: "e = (k, spec)" by (cases e)
  then obtain s1 where s1: "execute_cmd client pol (role_cmd k spec) s = (Ok (), s1)"
      "execute_all client pol (map (\<lambda>(n, spec). role_cmd n spec) desired) s1 = (Ok (), s')"
    using Cons.prems(2) by (auto simp: act_bind_Ok)
  have "rv (Server s1) = (rv (Server s))(k \<mapsto> wanted_role spec)"
    using s1(1) execute_role_view [OF assms(1)]
    by (fastforce simp: role_cmd_def wanted_rc_def wanted_role_def)
  moreover have "gomap_ok desired" "gomap_get desired k = None"
    using Cons.prems(1) by (auto simp: gomap_ok_def e gomap_get_None_iff)
  ultimately show ?case
    using Cons.IH [OF _ s1(2)] by (auto simp: e gomap_get_Cons split: option.splits)
qed

text \<open>What \<open>reconcileRoles\<close> leaves on the server when it returns without an error.\<close>

lemma reconcileRoles_view:
  assumes "role_server client rv" "gomap_ok desired"
    "reconcileRoles desired current client pol s = (Ok (), s')"
  shows "rv (Server s') n =
    (case gomap_get desired n of
       Some spec \<Rightarrow> Some (wanted_role spec)
     | None \<Rightarrow> if n \<in> fst ` set current \<and> n \<notin> set PredefinedRoles then None else rv (Server s) n)"
proof -
  obtain s1 where
    1: "execute_all client pol (map RoleDrop (filter (\<lambda>n. n \<notin> set PredefinedRoles)
          (SliceSubtract (map fst current) (map fst desired)))) s = (Ok (), s1)" and
    2: "execute_all client pol (map (\<lambda>(n, spec). role_cmd n spec) desired) s1 = (Ok (), s')"
    using assms(3) by (auto simp: reconcileRoles_def roleReconcileCmds_def Let_def execute_all_append_Ok)
  have "gomap_get desired n = None \<longleftrightarrow> n \<notin> fst ` set desired" by (rule gomap_get_None_iff)
  then show ?thesis
    using role_cmds_view [OF assms(1,2) 2, of n] role_drops_view [OF assms(1) 1, of n]
    by (cases "gomap_get desired n") (simp_all add: SliceSubtract_filter conj_commute)
qed

section \<open>Users\<close>

text \<open>What a user command achieves: the roles, and the password if the command carries one.\<close>

definition user_done :: "aerospikeUserCreateUpdate \<Rightarrow> user_view option \<Rightarrow> user_view option \<Rightarrow> bool" where
  "user_done uc old new \<longleftrightarrow>
     (\<exists>v. new = Some v \<and> VRoles v = set (ucRoles uc) \<and>
        (case ucPassword uc of
           Some pw \<Rightarrow> VPassword v = pw
         | None \<Rightarrow> (\<exists>w. old = Some w \<and> VPassword v = VPassword w)))"

lemma createUser_view:
  assumes "user_server client uv" "createUser client pol uc s = (Ok (), s')"
  shows "(\<forall>k. k \<noteq> ucName uc \<longrightarrow> uv (Server s') k = uv (Server s) k) \<and>
    user_done uc (uv (Server s) (ucName uc)) (uv (Server s') (ucName uc))"
proof -
  obtain pw s1 where pw: "ucPassword uc = Some pw"
      "act_call (CreateUserFailed (ucName uc)) (CreateUser client pol (ucName uc) pw (ucRoles uc)) s = (Ok (), s1)"
      "Server s' = Server s1"
    using assms(2) by (auto simp: createUser_def act_bind_Ok act_res_Ok Eventf_Ok split: option.splits)
  have "call_sets (CreateUser client pol (ucName uc) pw (ucRoles uc)) uv
      (\<lambda>U. U(ucName uc \<mapsto> \<lparr>VRoles = set (ucRoles uc), VPassword = pw\<rparr>))"
    using assms(1) by (simp add: user_server_def)
  from act_call_view [OF pw(2) this] show ?thesis by (simp add: pw(1,3) user_done_def)
qed

lemma updateUser_view:
  assumes law: "user_server client uv" and v: "uv (Server s) (ucName uc) = Some v" "VRoles v = set roles"
    and ok: "updateUser client pol uc roles s = (Ok (), s')"
  shows "(\<forall>k. k \<noteq> ucName uc \<longrightarrow> uv (Server s') k = uv (Server s) k) \<and>
    user_done uc (uv (Server s) (ucName uc)) (uv (Server s') (ucName uc))"
proof -
  let ?n = "ucName uc" and ?D = "ucRoles uc"
  obtain s1 s2 s3 where
      p: "(case ucPassword uc of None \<Rightarrow> act_return ()
         | Some pw \<Rightarrow> act_call (ChangePasswordFailed ?n) (ChangePassword client pol ?n pw)) s = (Ok (), s1)" and
      r: "act_when (SliceSubtract roles ?D \<noteq> []) (act_call (RevokeRolesFailed ?n)
            (RevokeRoles client pol ?n (SliceSubtract roles ?D))) s1 = (Ok (), s2)" and
      g: "act_when (SliceSubtract ?D roles \<noteq> []) (act_call (GrantRolesFailed ?n)
            (GrantRoles client pol ?n (SliceSubtract ?D roles))) s2 = (Ok (), s3)" and
      e: "Server s' = Server s3"
    using ok unfolding updateUser_def act_bind_Ok Let_def Eventf_Ok by auto
  have pl: "call_sets (ChangePassword client pol ?n pw) uv (upd_at ?n (\<lambda>v. v\<lparr>VPassword := pw\<rparr>))"
    and rl: "call_sets (RevokeRoles client pol ?n rs) uv (upd_at ?n (\<lambda>v. v\<lparr>VRoles := VRoles v - set rs\<rparr>))"
    and gl: "call_sets (GrantRoles client pol ?n rs) uv (upd_at ?n (\<lambda>v. v\<lparr>VRoles := VRoles v \<union> set rs\<rparr>))"
    for pw rs using law by (simp_all add: user_server_def)
  have 1: "uv (Server s1) = upd_at ?n
      (case ucPassword uc of None \<Rightarrow> (\<lambda>v. v) | Some pw \<Rightarrow> (\<lambda>v. v\<lparr>VPassword := pw\<rparr>)) (uv (Server s))"
    using p v(1) by (auto simp: act_return_Ok act_call_view [OF _ pl] upd_at_def option.map_ident split: option.splits)
  have 2: "uv (Server s2) = upd_at ?n (\<lambda>v. v\<lparr>VRoles := VRoles v - set (SliceSubtract roles ?D)\<rparr>) (uv (Server s1))"
    using r by (rule act_when_view [where view = uv])
      (auto simp: act_call_view [OF _ rl] upd_at_def map_option_case fun_eq_iff split: option.splits)
  have 3: "uv (Server s3) = upd_at ?n (\<lambda>v. v\<lparr>VRoles := VRoles v \<union> set (SliceSubtract ?D roles)\<rparr>) (uv (Server s2))"
    using g by (rule act_when_view [where view = uv])
      (auto simp: act_call_view [OF _ gl] upd_at_def map_option_case fun_eq_iff split: option.splits)
  have "(set roles - set (SliceSubtract roles ?D)) \<union> set (SliceSubtract ?D roles) = set ?D"
    by (auto simp: SliceSubtract_filter)
  then show ?thesis
    using v by (cases "ucPassword uc") (auto simp: e 3 2 1 upd_at_def user_done_def)
qed

lemma user_server_query:
  "user_server client uv \<Longrightarrow> QueryUser client pol n s = Inr rs \<Longrightarrow> \<exists>v. uv s n = Some v \<and> VRoles v = set rs"
  by (simp add: user_server_def)

lemma execute_user_view:
  assumes law: "user_server client uv" and ok: "execute_user client pol uc s = (Ok (), s')"
  shows "(\<forall>k. k \<noteq> ucName uc \<longrightarrow> uv (Server s') k = uv (Server s) k) \<and>
    user_done uc (uv (Server s) (ucName uc)) (uv (Server s') (ucName uc))"
proof (cases "QueryUser client pol (ucName uc) (Server s)")
  case (Inl e)
  with ok have "createUser client pol uc s = (Ok (), s')"
    by (auto simp: execute_user_def on_error_Ok split: if_splits)
  then show ?thesis by (rule createUser_view [OF law])
next
  case (Inr roles)
  from user_server_query [OF law this] obtain v
    where v: "uv (Server s) (ucName uc) = Some v" "VRoles v = set roles" by blast
  have "updateUser client pol uc roles s = (Ok (), s')"
    using ok Inr by (simp add: execute_user_def on_error_Ok)
  then show ?thesis by (rule updateUser_view [OF law v])
qed

lemma execute_user_drop_view:
  assumes "user_server client uv" and "execute_user_drop client pol n s = (Ok (), s')"
  shows "uv (Server s') = (uv (Server s))(n := None)"
proof -
  have "drop_sets userNotFoundErr (DropUser client pol n) uv (\<lambda>U. U(n := None))"
    using assms(1) by (simp add: user_server_def)
  then show ?thesis
    using assms(2) by (auto simp: execute_user_drop_def act_bind_Ok Eventf_Ok dest: act_drop_view)
qed

lemma user_drops_view:
  assumes "user_server client uv" "execute_all client pol (map UserDrop ns) s = (Ok (), s')"
  shows "uv (Server s') n = (if n \<in> set ns then None else uv (Server s) n)"
  using assms(2)
  by (induction ns arbitrary: s)
    (auto simp: act_bind_Ok act_return_Ok execute_user_drop_view [OF assms(1)])

lemma user_cmds_view:
  assumes "user_server client uv" "distinct (map ucName ucs)"
    "execute_all client pol (map UserCreateUpdate ucs) s = (Ok (), s')"
  shows "(\<forall>uc\<in>set ucs. user_done uc (uv (Server s) (ucName uc)) (uv (Server s') (ucName uc))) \<and>
    (\<forall>n. n \<notin> ucName ` set ucs \<longrightarrow> uv (Server s') n = uv (Server s) n)"
  using assms(2,3)
proof (induction ucs arbitrary: s)
  case Nil
  then show ?case by (simp add: act_return_Ok)
next
  case (Cons uc ucs)
  then obtain s1 where s1: "execute_user client pol uc s = (Ok (), s1)"
      "execute_all client pol (map UserCreateUpdate ucs) s1 = (Ok (), s')"
    by (auto simp: act_bind_Ok)
  have h: "(\<forall>k. k \<noteq> ucName uc \<longrightarrow> uv (Server s1) k = uv (Server s) k) \<and>
      user_done uc (uv (Server s) (ucName uc)) (uv (Server s1) (ucName uc))"
    by (rule execute_user_view [OF assms(1) s1(1)])
  have d: "ucName uc \<notin> ucName ` set ucs" "distinct (map ucName ucs)" using Cons.prems(1) by auto
  have t: "(\<forall>uc\<in>set ucs. user_done uc (uv (Server s1) (ucName uc)) (uv (Server s') (ucName uc))) \<and>
      (\<forall>n. n \<notin> ucName ` set ucs \<longrightarrow> uv (Server s') n = uv (Server s1) n)"
    by (rule Cons.IH [OF d(2) s1(2)])
  have "user_done u (uv (Server s) (ucName u)) (uv (Server s') (ucName u))" if "u \<in> set ucs" for u
    using h t that d(1) by (metis image_eqI)
  then show ?case using h t d(1) by auto
qed

section \<open>The commands for the users\<close>

definition wanted_password ::
  "password_provider \<Rightarrow> bool \<Rightarrow> AerospikeUserSpec gomap \<Rightarrow> string \<Rightarrow> AerospikeUserSpec \<Rightarrow> string option" where
  "wanted_password provider isFederal current n spec =
     (case user_password provider isFederal n spec (gomap_get current n) of Ok p \<Rightarrow> p | _ \<Rightarrow> None)"

definition wanted_uc ::
  "password_provider \<Rightarrow> bool \<Rightarrow> AerospikeUserSpec gomap \<Rightarrow> string \<times> AerospikeUserSpec \<Rightarrow>
   aerospikeUserCreateUpdate" where
  "wanted_uc provider isFederal current e =
     \<lparr>ucName = fst e, ucPassword = wanted_password provider isFederal current (fst e) (snd e),
      ucRoles = UserRoles (snd e)\<rparr>"

lemma user_cmds_loop_Ok:
  assumes "user_cmds_loop provider fed current desired cmds adm = Ok (cmds', adm')"
  shows "(\<forall>e\<in>set desired. \<exists>p. user_password provider fed (fst e) (snd e) (gomap_get current (fst e)) = Ok p) \<and>
    cmds' = cmds @ map (\<lambda>e. UserCreateUpdate (wanted_uc provider fed current e))
      (filter (\<lambda>e. fst e \<noteq> AdminUsername) desired) \<and>
    adm' = fold (\<lambda>e _. Some (UserCreateUpdate (wanted_uc provider fed current e)))
      (filter (\<lambda>e. fst e = AdminUsername) desired) adm"
  using assms
proof (induction desired arbitrary: cmds adm)
  case Nil
  then show ?case by simp
next
  case (Cons e desired)
  obtain n spec where e: "e = (n, spec)" by (cases e)
  obtain p where p: "user_password provider fed n spec (gomap_get current n) = Ok p"
    using Cons.prems by (auto simp: e res_simps)
  then have uc: "wanted_uc provider fed current e = \<lparr>ucName = n, ucPassword = p, ucRoles = UserRoles spec\<rparr>"
    by (simp add: wanted_uc_def wanted_password_def e)
  show ?case
  proof (cases "n = AdminUsername")
    case True
    with Cons.IH [of cmds "Some (UserCreateUpdate (wanted_uc provider fed current e))"] Cons.prems p uc
    show ?thesis by (simp add: e)
  next
    case False
    with Cons.IH [of "cmds @ [UserCreateUpdate (wanted_uc provider fed current e)]" adm] Cons.prems p uc
    show ?thesis by (simp add: e)
  qed
qed

text \<open>The desired users with the admin moved to the end.\<close>

definition admin_last :: "AerospikeUserSpec gomap \<Rightarrow> AerospikeUserSpec gomap" where
  "admin_last desired =
     filter (\<lambda>e. fst e \<noteq> AdminUsername) desired @ filter (\<lambda>e. fst e = AdminUsername) desired"

lemma set_admin_last: "set (admin_last desired) = set desired"
  by (auto simp: admin_last_def)

lemma admin_entry:
  "gomap_ok desired \<Longrightarrow>
   filter (\<lambda>e. fst e = k) desired = (case gomap_get desired k of None \<Rightarrow> [] | Some v \<Rightarrow> [(k, v)])"
proof (induction desired)
  case Nil
  then show ?case by simp
next
  case (Cons e desired)
  then have "fst e \<notin> fst ` set desired" "gomap_ok desired" by (auto simp: gomap_ok_def)
  moreover from this have "gomap_get desired (fst e) = None" by (simp add: gomap_get_None_iff)
  ultimately show ?case using Cons.IH by (cases e) (auto simp: gomap_get_Cons split: option.splits)
qed

lemma distinct_admin_last: "gomap_ok desired \<Longrightarrow> distinct (map fst (admin_last desired))"
proof -
  assume "gomap_ok desired"
  then have "distinct (map fst (filter P desired))" for P
    by (simp add: gomap_ok_def distinct_map_filter)
  then show ?thesis by (auto simp: admin_last_def)
qed

lemma userReconcileCmds_Ok:
  assumes "userReconcileCmds fed desired current provider = Ok cmds" "gomap_ok desired"
  shows "(\<forall>e\<in>set desired. \<exists>p. user_password provider fed (fst e) (snd e) (gomap_get current (fst e)) = Ok p) \<and>
    cmds = map UserDrop (SliceSubtract (map fst current) (map fst desired)) @
      map UserCreateUpdate (map (wanted_uc provider fed current) (admin_last desired))"
proof -
  obtain cs adm where loop: "user_cmds_loop provider fed current desired
        (map UserDrop (SliceSubtract (map fst current) (map fst desired))) None = Ok (cs, adm)"
      and cmds: "cmds = (case adm of None \<Rightarrow> cs | Some cmd \<Rightarrow> cs @ [cmd])"
    using assms(1) by (auto simp: userReconcileCmds_def Let_def res_simps)
  show ?thesis
    using user_cmds_loop_Ok [OF loop] admin_entry [OF assms(2), of AdminUsername]
    by (cases "gomap_get desired AdminUsername") (simp_all add: cmds admin_last_def comp_def)
qed

lemma reconcileUsers_view:
  assumes "user_server client uv" "gomap_ok desired"
    and ok: "reconcileUsers img desired current provider client pol s = (Ok (), s')"
  shows "case gomap_get desired n of
      Some spec \<Rightarrow> user_done (wanted_uc provider (IsFederal img) current (n, spec)) (uv (Server s) n) (uv (Server s') n)
    | None \<Rightarrow> uv (Server s') n = (if n \<in> fst ` set current then None else uv (Server s) n)"
proof -
  let ?uc = "wanted_uc provider (IsFederal img) current"
  obtain cmds s1 where "userReconcileCmds (IsFederal img) desired current provider = Ok cmds" and
      ex: "execute_all client pol (map UserDrop (SliceSubtract (map fst current) (map fst desired))) s = (Ok (), s1)"
        "execute_all client pol (map UserCreateUpdate (map ?uc (admin_last desired))) s1 = (Ok (), s')"
    using ok userReconcileCmds_Ok [OF _ assms(2)]
    by (fastforce simp: reconcileUsers_def act_bind_Ok act_res_Ok execute_all_append_Ok)
  have d: "uv (Server s1) n = (if n \<in> fst ` set current \<and> n \<notin> fst ` set desired then None else uv (Server s) n)" for n
    using user_drops_view [OF assms(1) ex(1), of n] by (auto simp: SliceSubtract_filter)
  have name: "ucName (?uc e) = fst e" for e by (simp add: wanted_uc_def)
  have dist: "distinct (map ucName (map ?uc (admin_last desired)))"
    using distinct_admin_last [OF assms(2)] by (simp add: comp_def name)
  have c: "(\<forall>e\<in>set desired. user_done (?uc e) (uv (Server s1) (fst e)) (uv (Server s') (fst e)))"
      "n \<notin> fst ` set desired \<Longrightarrow> uv (Server s') n = uv (Server s1) n"
    using user_cmds_view [OF assms(1) dist ex(2)] by (simp_all add: set_admin_last image_image name)
  show ?thesis
  proof (cases "gomap_get desired n")
    case None
    then have "n \<notin> fst ` set desired" by (simp add: gomap_get_None_iff)
    then show ?thesis using c(2) d [of n] None by simp
  next
    case (Some spec)
    then have "(n, spec) \<in> set desired" by (rule gomap_get_Some_mem)
    moreover from this have "n \<in> fst ` set desired" by force
    then have "uv (Server s1) n = uv (Server s) n" using d [of n] by simp
    ultimately show ?thesis using c(1) Some by fastforce
  qed
qed

section \<open>Both together\<close>

lemma user_call_keeps:
  assumes "user_calls_keep_roles client rv"
  shows "execute_user client pol uc s = (Ok (), s') \<Longrightarrow> rv (Server s') = rv (Server s)"
    and "execute_user_drop client pol n s = (Ok (), s') \<Longrightarrow> rv (Server s') = rv (Server s)"
proof -
  have cs: "call_sets (CreateUser client pol n pw rs) rv (\<lambda>R. R)"
      "call_sets (ChangePassword client pol n pw) rv (\<lambda>R. R)"
      "call_sets (RevokeRoles client pol n rs) rv (\<lambda>R. R)"
      "call_sets (GrantRoles client pol n rs) rv (\<lambda>R. R)"
      "drop_sets userNotFoundErr (DropUser client pol n) rv (\<lambda>R. R)" for n pw rs
    using assms by (simp_all add: user_calls_keep_roles_def)
  note keep = cs(1-4) [THEN act_call_view [rotated]]
  have create: "rv (Server s') = rv (Server s)" if "createUser client pol uc s = (Ok (), s')" for s s'
    using that by (auto simp: createUser_def act_bind_Ok act_res_Ok Eventf_Ok split: option.splits dest: keep)
  have update: "rv (Server s') = rv (Server s)" if "updateUser client pol uc rs s = (Ok (), s')" for rs s s'
  proof -
    have guarded: "rv (Server t') = rv (Server t)"
      if "act_when b (act_call w c) t = (Ok (), t')" "call_sets c rv (\<lambda>R. R)" for b w c t t'
      using that by (auto simp: act_when_def act_return_Ok split: if_splits dest: act_call_view)
    show ?thesis
      using that unfolding updateUser_def act_bind_Ok Let_def Eventf_Ok
      by (auto simp: act_return_Ok split: option.splits dest!: guarded [OF _ cs(3)] guarded [OF _ cs(4)] keep)
  qed
  show "execute_user client pol uc s = (Ok (), s') \<Longrightarrow> rv (Server s') = rv (Server s)"
    by (auto simp: execute_user_def on_error_Ok split: sum.splits if_splits dest: create update)
  show "execute_user_drop client pol n s = (Ok (), s') \<Longrightarrow> rv (Server s') = rv (Server s)"
    using act_drop_view [OF _ cs(5)] by (auto simp: execute_user_drop_def act_bind_Ok Eventf_Ok)
qed

fun is_user_cmd :: "ac_cmd \<Rightarrow> bool" where
  "is_user_cmd (UserCreateUpdate _) = True"
| "is_user_cmd (UserDrop _) = True"
| "is_user_cmd _ = False"

lemma user_cmds_keep_roles:
  assumes "user_calls_keep_roles client rv" "\<forall>c\<in>set cmds. is_user_cmd c"
    "execute_all client pol cmds s = (Ok (), s')"
  shows "rv (Server s') = rv (Server s)"
  using assms(2,3)
proof (induction cmds arbitrary: s)
  case Nil
  then show ?case by (simp add: act_return_Ok)
next
  case (Cons c cmds)
  then obtain s1 where "execute_cmd client pol c s = (Ok (), s1)" "execute_all client pol cmds s1 = (Ok (), s')"
    by (auto simp: act_bind_Ok)
  moreover from this(1) have "rv (Server s1) = rv (Server s)"
    using Cons.prems(1) user_call_keeps [OF assms(1)] by (cases c) auto
  ultimately show ?case using Cons by simp
qed

lemma reconcileUsers_keep_roles:
  assumes "user_calls_keep_roles client rv" "gomap_ok desired"
    "reconcileUsers img desired current provider client pol s = (Ok (), s')"
  shows "rv (Server s') = rv (Server s)"
proof -
  obtain cmds where "userReconcileCmds (IsFederal img) desired current provider = Ok cmds"
      and ex: "execute_all client pol cmds s = (Ok (), s')"
    using assms(3) by (auto simp: reconcileUsers_def act_bind_Ok act_res_Ok)
  then have "\<forall>c\<in>set cmds. is_user_cmd c" using userReconcileCmds_Ok [OF _ assms(2)] by fastforce
  then show ?thesis by (rule user_cmds_keep_roles [OF assms(1) _ ex])
qed

lemma gomap_ok_fold_put: "gomap_ok m \<Longrightarrow> gomap_ok (fold (\<lambda>x. gomap_put (f x) x) xs m)"
  by (induction xs arbitrary: m) (auto simp: gomap_ok_put)

lemma gomap_ok_Nil: "gomap_ok []"
  by (simp add: gomap_ok_def)

lemma gomap_ok_from_spec: "gomap_ok (GetRolesFromSpec spec)" "gomap_ok (GetUsersFromSpec spec)"
  by (simp_all add: GetRolesFromSpec_def GetUsersFromSpec_def gomap_ok_fold_put gomap_ok_Nil
      split: option.splits)

section \<open>A reference server\<close>

text \<open>Roles, and users with their roles and password; it answers as the client library documents.\<close>

record ref_state =
  RefRoles :: "string \<Rightarrow> as_Role option"
  RefUsers :: "string \<Rightarrow> (string list \<times> string) option"

definition ref_role_call ::
  "string \<Rightarrow> (as_Role \<Rightarrow> as_Role) \<Rightarrow> ref_state \<Rightarrow> string option \<times> ref_state" where
  "ref_role_call n f s =
     (case RefRoles s n of
        None \<Rightarrow> (Some ''Invalid role'', s)
      | Some r \<Rightarrow> (None, s\<lparr>RefRoles := (RefRoles s)(n \<mapsto> f r)\<rparr>))"

definition ref_user_call ::
  "string \<Rightarrow> (string list \<times> string \<Rightarrow> string list \<times> string) \<Rightarrow> ref_state \<Rightarrow> string option \<times> ref_state" where
  "ref_user_call n f s =
     (case RefUsers s n of
        None \<Rightarrow> (Some ''Invalid user'', s)
      | Some u \<Rightarrow> (None, s\<lparr>RefUsers := (RefUsers s)(n \<mapsto> f u)\<rparr>))"

definition ref_client :: "ref_state as_Client" where
  "ref_client =
     \<lparr>QueryRole = (\<lambda>_ n s. case RefRoles s n of
          None \<Rightarrow> Inl ''Invalid role''
        | Some r \<Rightarrow> if list_all scoped (RolePrivs r) then Inr r else Inl ''Invalid privilege''),
      CreateRole = (\<lambda>_ n ps wl rq wq s.
        (None, s\<lparr>RefRoles := (RefRoles s)(n \<mapsto> \<lparr>RolePrivs = ps, RoleWl = wl, RoleRQ = rq, RoleWQ = wq\<rparr>)\<rparr>)),
      RevokePrivileges = (\<lambda>_ n ps. ref_role_call n (\<lambda>r. r\<lparr>RolePrivs := filter (\<lambda>p. p \<notin> set ps) (RolePrivs r)\<rparr>)),
      GrantPrivileges = (\<lambda>_ n ps. ref_role_call n (\<lambda>r. r\<lparr>RolePrivs := RolePrivs r @ ps\<rparr>)),
      SetWhitelist = (\<lambda>_ n wl. ref_role_call n (\<lambda>r. r\<lparr>RoleWl := wl\<rparr>)),
      SetQuotas = (\<lambda>_ n rq wq. ref_role_call n (\<lambda>r. r\<lparr>RoleRQ := rq, RoleWQ := wq\<rparr>)),
      DropRole = (\<lambda>_ n s. if RefRoles s n = None then (Some ''Invalid role'', s)
        else (None, s\<lparr>RefRoles := (RefRoles s)(n := None)\<rparr>)),
      QueryUser = (\<lambda>_ n s. case RefUsers s n of None \<Rightarrow> Inl ''Invalid user'' | Some u \<Rightarrow> Inr (fst u)),
      CreateUser = (\<lambda>_ n pw rs s. (None, s\<lparr>RefUsers := (RefUsers s)(n \<mapsto> (rs, pw))\<rparr>)),
      ChangePassword = (\<lambda>_ n pw. ref_user_call n (\<lambda>u. (fst u, pw))),
      RevokeRoles = (\<lambda>_ n rs. ref_user_call n (\<lambda>u. (filter (\<lambda>r. r \<notin> set rs) (fst u), snd u))),
      GrantRoles = (\<lambda>_ n rs. ref_user_call n (\<lambda>u. (fst u @ rs, snd u))),
      DropUser = (\<lambda>_ n s. if RefUsers s n = None then (Some ''Invalid user'', s)
        else (None, s\<lparr>RefUsers := (RefUsers s)(n := None)\<rparr>))\<rparr>"

definition ref_rv :: "ref_state \<Rightarrow> string \<Rightarrow> role_view option" where
  "ref_rv s n = map_option (\<lambda>r. \<lparr>VPrivs = set (RolePrivs r), VWl = elems (RoleWl r),
     VRQ = RoleRQ r, VWQ = RoleWQ r\<rparr>) (RefRoles s n)"

definition ref_uv :: "ref_state \<Rightarrow> string \<Rightarrow> user_view option" where
  "ref_uv s n = map_option (\<lambda>u. \<lparr>VRoles = set (fst u), VPassword = snd u\<rparr>) (RefUsers s n)"

lemma ref_role_call_sets:
  assumes "\<And>r. \<lparr>VPrivs = set (RolePrivs (g r)), VWl = elems (RoleWl (g r)), VRQ = RoleRQ (g r), VWQ = RoleWQ (g r)\<rparr> =
    f \<lparr>VPrivs = set (RolePrivs r), VWl = elems (RoleWl r), VRQ = RoleRQ r, VWQ = RoleWQ r\<rparr>"
  shows "call_sets (ref_role_call n g) ref_rv (upd_at n f)"
  by (auto simp: call_sets_def ref_role_call_def upd_at_def ref_rv_def fun_eq_iff assms split: option.splits)

lemma ref_user_call_sets:
  assumes "\<And>u. \<lparr>VRoles = set (fst (g u)), VPassword = snd (g u)\<rparr> = f \<lparr>VRoles = set (fst u), VPassword = snd u\<rparr>"
  shows "call_sets (ref_user_call n g) ref_uv (upd_at n f)" "call_sets (ref_user_call n g) ref_rv (\<lambda>R. R)"
  by (auto simp: call_sets_def ref_user_call_def upd_at_def ref_uv_def ref_rv_def fun_eq_iff split: option.splits)
    (metis assms fst_conv prod.collapse snd_conv)

lemma ref_server: "admin_server ref_client ref_rv ref_uv"
proof -
  have "role_server ref_client ref_rv"
    unfolding role_server_def
  proof (intro conjI allI impI)
    show "\<exists>v. ref_rv s n = Some v \<and> role_shows r v" if "QueryRole ref_client pol n s = Inr r" for pol n s r
      using that by (auto simp: ref_client_def ref_rv_def role_shows_def list_all_iff split: option.splits if_splits)
    show "ref_rv s n = None" if "QueryRole ref_client pol n s = Inl e" "Contains e roleNotFoundErr" for pol n s e
      using that by (auto simp: ref_client_def ref_rv_def roleNotFoundErr_def HasPrefix_def split: option.splits if_splits)
    show "drop_sets roleNotFoundErr (DropRole ref_client pol n) ref_rv (\<lambda>R. R(n := None))" for pol n
      by (auto simp: drop_sets_def call_sets_def ref_client_def ref_rv_def fun_eq_iff)
    show "call_sets (RevokePrivileges ref_client pol n ps) ref_rv (upd_at n (\<lambda>v. v\<lparr>VPrivs := VPrivs v - set ps\<rparr>))"
      and "call_sets (GrantPrivileges ref_client pol n ps) ref_rv (upd_at n (\<lambda>v. v\<lparr>VPrivs := VPrivs v \<union> set ps\<rparr>))"
      and "call_sets (SetWhitelist ref_client pol n wl) ref_rv (upd_at n (\<lambda>v. v\<lparr>VWl := elems wl\<rparr>))"
      and "call_sets (SetQuotas ref_client pol n rq wq) ref_rv (upd_at n (\<lambda>v. v\<lparr>VRQ := rq, VWQ := wq\<rparr>))"
      for pol n ps wl rq wq
      by (auto simp: ref_client_def intro!: ref_role_call_sets)
  qed (auto simp: ref_client_def call_sets_def ref_rv_def fun_eq_iff)
  moreover have "user_server ref_client ref_uv"
    unfolding user_server_def
  proof (intro conjI allI)
    show "call_sets (ChangePassword ref_client pol n pw) ref_uv (upd_at n (\<lambda>v. v\<lparr>VPassword := pw\<rparr>))"
      and "call_sets (RevokeRoles ref_client pol n rs) ref_uv (upd_at n (\<lambda>v. v\<lparr>VRoles := VRoles v - set rs\<rparr>))"
      and "call_sets (GrantRoles ref_client pol n rs) ref_uv (upd_at n (\<lambda>v. v\<lparr>VRoles := VRoles v \<union> set rs\<rparr>))"
      for pol n pw rs
      by (auto simp: ref_client_def intro!: ref_user_call_sets(1))
  qed (auto simp: ref_client_def call_sets_def drop_sets_def ref_uv_def fun_eq_iff split: option.splits)
  moreover have "user_calls_keep_roles ref_client ref_rv"
    unfolding user_calls_keep_roles_def
    by (auto simp: ref_client_def call_sets_def drop_sets_def ref_rv_def ref_user_call_def fun_eq_iff split: option.splits)
  ultimately show ?thesis by (simp add: admin_server_def)
qed

lemma act_fst_Ok: "fst (m s) = Ok () \<Longrightarrow> m s = (Ok (), snd (m s))"
  by (metis prod.collapse)

lemma reconcileAccessControl_split:
  assumes "reconcileAccessControl pol0 desired cur client provider s = (Ok (), s')"
  shows "\<exists>s1. reconcileRoles (GetRolesFromSpec desired) (GetRolesFromSpec cur) client
      (GetAdminPolicy pol0 desired) s = (Ok (), s1) \<and>
    reconcileUsers (SpecImage desired) (GetUsersFromSpec desired) (GetUsersFromSpec cur) provider client
      (GetAdminPolicy pol0 desired) s1 = (Ok (), s')"
  using assms by (auto simp: reconcileAccessControl_def Let_def act_bind_Ok)

text \<open>An update finds nothing to do on a role that is already as desired.\<close>

lemma no_privilege_change:
  assumes "set ps = privileges_of ds" "\<forall>d\<in>set ds. privilege_ok nsNames d" "[] \<notin> set nsNames"
  shows "\<exists>cur. AerospikePrivilegeToPrivilegeString ps = Ok cur \<and> SliceSubtract cur ds = [] \<and> SliceSubtract ds cur = []"
proof -
  have inv: "\<exists>p. convert_privilege d = Ok p \<and> scoped p \<and> print_privilege p = Ok d" if "d \<in> set ds" for d
    using print_convert assms(2,3) that by blast
  define pr where "pr p = (case print_privilege p of Ok s \<Rightarrow> s | _ \<Rightarrow> [])" for p
  have pp: "print_privilege p = Ok (pr p) \<and> pr p \<in> set ds" if "p \<in> set ps" for p
  proof -
    have "p \<in> privileges_of ds" using that assms(1) by simp
    then obtain d where "d \<in> set ds" "convert_privilege d = Ok p" by (auto simp: privileges_of_def)
    with inv show ?thesis by (fastforce simp: pr_def)
  qed
  have cur: "AerospikePrivilegeToPrivilegeString ps = Ok (map pr ps)"
    using pp by (simp add: to_strings_Ok_iff list_all2_map2 list_all2_same)
  have "d \<in> set (map pr ps)" if d: "d \<in> set ds" for d
  proof -
    obtain p where p: "convert_privilege d = Ok p" "print_privilege p = Ok d" using inv d by blast
    then have "p \<in> set ps" using d assms(1) by (auto simp: privileges_of_def)
    moreover have "pr p = d" using p by (simp add: pr_def)
    ultimately show ?thesis by auto
  qed
  then have "SliceSubtract ds (map pr ps) = []" "SliceSubtract (map pr ps) ds = []"
    using pp by (auto simp: SliceSubtract_filter filter_empty_conv)
  with cur show ?thesis by blast
qed

section \<open>Properties\<close>


definition example_status :: AerospikeClusterSpec where
  "example_status = example_spec
     \<lparr>SpecAccessControl := Some \<lparr>AdminPolicyTimeout = None,
        Roles = [\<lparr>RoleName = ''old'', RolePrivileges = [''read''], RoleWhitelist = None,
          RoleReadQuota = 0, RoleWriteQuota = 0\<rparr>],
        Users = [\<lparr>UserAuthMode = [], UserName = ''admin'', UserSecretName = ''auth-secret'',
          UserRoles = [''sys-admin'', ''user-admin'']\<rparr>]\<rparr>\<rparr>"

definition example_server :: "ref_state ac_state" where
  "example_server =
     \<lparr>Server = \<lparr>RefRoles = [''old'' \<mapsto> \<lparr>RolePrivs = [\<lparr>PrivCode = as_Read, PrivNamespace = [], PrivSetName = []\<rparr>],
          RoleWl = None, RoleRQ = 0, RoleWQ = 0\<rparr>],
        RefUsers = [''admin'' \<mapsto> ([''sys-admin'', ''user-admin''], ''old-password'')]\<rparr>,
      Events = []\<rparr>"

definition example_provider :: password_provider where
  "example_provider = \<lparr>ppGet = (\<lambda>_ _. Ok ''secret''), ppGetDefaultPassword = (\<lambda>_. ''admin'')\<rparr>"

abbreviation "example_run \<equiv>
  reconcileAccessControl 0 example_spec example_status ref_client example_provider example_server"


text \<open>
  Fact. The admin's own command is the last of the user commands: the others are executed
  with the admin's old password still valid, and none of them touches the admin.
\<close>

theorem admin_command_last:
  assumes "userReconcileCmds fed desired current provider = Ok cmds" and "gomap_ok desired"
    and "gomap_get desired AdminUsername = Some spec"
  shows "\<exists>before uc. cmds = before @ [UserCreateUpdate uc] \<and> ucName uc = AdminUsername \<and>
    ucRoles uc = UserRoles spec \<and> UserDrop AdminUsername \<notin> set before \<and>
    (\<forall>u. UserCreateUpdate u \<in> set before \<longrightarrow> ucName u \<noteq> AdminUsername)"
proof -
  let ?uc = "wanted_uc provider fed current"
  have adm: "filter (\<lambda>e. fst e = AdminUsername) desired = [(AdminUsername, spec)]"
    using admin_entry [OF assms(2), of AdminUsername] assms(3) by simp
  have mem: "AdminUsername \<in> fst ` set desired" using assms(3) by (force dest: gomap_get_Some_mem)
  let ?b = "map UserDrop (SliceSubtract (map fst current) (map fst desired)) @
      map UserCreateUpdate (map ?uc (filter (\<lambda>e. fst e \<noteq> AdminUsername) desired))"
  have "cmds = ?b @ [UserCreateUpdate (?uc (AdminUsername, spec))]"
    using userReconcileCmds_Ok [OF assms(1,2)] by (simp add: admin_last_def adm)
  moreover have "UserDrop AdminUsername \<notin> set ?b"
      "\<forall>u. UserCreateUpdate u \<in> set ?b \<longrightarrow> ucName u \<noteq> AdminUsername"
    using mem by (auto simp: wanted_uc_def SliceSubtract_filter)
  moreover have "ucName (?uc (AdminUsername, spec)) = AdminUsername"
      "ucRoles (?uc (AdminUsername, spec)) = UserRoles spec" by (simp_all add: wanted_uc_def)
  ultimately show ?thesis by blast
qed

theorem admin_command_last_witness:
  "\<exists>before uc. userReconcileCmds False (GetUsersFromSpec example_spec) (GetUsersFromSpec example_status)
      example_provider = Ok (before @ [UserCreateUpdate uc]) \<and> ucName uc = AdminUsername"
proof -
  let ?r = "userReconcileCmds False (GetUsersFromSpec example_spec) (GetUsersFromSpec example_status) example_provider"
  have "is_ok ?r" by code_simp
  then obtain cmds where cmds: "?r = Ok cmds" by (auto simp: is_ok_iff)
  have "gomap_get (GetUsersFromSpec example_spec) AdminUsername =
      Some (hd (tl (Users (the (SpecAccessControl example_spec)))))" by code_simp
  from admin_command_last [OF cmds gomap_ok_from_spec(2) this] cmds show ?thesis by blast
qed

text \<open>
  Fact. A role is dropped only if the status records it, the specification no longer has
  it and it is not predefined; and every role of the specification gets a create-or-update command.
\<close>

theorem role_commands_exact:
  "(RoleDrop n \<in> set (roleReconcileCmds desired current) \<longleftrightarrow>
      n \<in> fst ` set current \<and> n \<notin> fst ` set desired \<and> n \<notin> set PredefinedRoles) \<and>
   (RoleCreateUpdate rc \<in> set (roleReconcileCmds desired current) \<longleftrightarrow>
      (\<exists>spec. (rcName rc, spec) \<in> set desired \<and> role_cmd (rcName rc) spec = RoleCreateUpdate rc))"
proof -
  have drop: "RoleDrop n \<notin> (\<lambda>(k, spec). role_cmd k spec) ` set desired"
    and create: "RoleCreateUpdate rc \<notin> RoleDrop ` A" for A
    by (auto simp: role_cmd_def)
  have name: "k = rcName rc" if "role_cmd k spec = RoleCreateUpdate rc" for k spec
    using that by (auto simp: role_cmd_def)
  have "RoleCreateUpdate rc \<in> (\<lambda>(k, spec). role_cmd k spec) ` set desired \<longleftrightarrow>
      (\<exists>spec. (rcName rc, spec) \<in> set desired \<and> role_cmd (rcName rc) spec = RoleCreateUpdate rc)"
    by (force dest: name [OF sym])
  with drop create show ?thesis
    by (auto simp: roleReconcileCmds_def Let_def SliceSubtract_filter)
qed

text \<open>
  Fact. Reconciling a role that already has the desired privileges, whitelist and quotas
  calls the server not once: the update only records its event.
\<close>

theorem updateRole_converged:
  assumes "set (RolePrivs role) = privileges_of (rcPrivileges rc)"
    and "\<forall>d\<in>set (rcPrivileges rc). privilege_ok (GetAllNamespaceNames spec) d"
    and "RoleWl role = rcWhitelist rc" and "RoleRQ role = rcReadQuota rc" and "RoleWQ role = rcWriteQuota rc"
  shows "updateRole client pol rc role s = Eventf EventTypeNormal ''RoleUpdated'' (rcName rc) s"
proof -
  obtain cur where "AerospikePrivilegeToPrivilegeString (RolePrivs role) = Ok cur"
      "SliceSubtract cur (rcPrivileges rc) = []" "SliceSubtract (rcPrivileges rc) cur = []"
    using no_privilege_change [OF assms(1,2) no_empty_namespace] by blast
  with assms(3-5) show ?thesis
    by (simp add: updateRole_def act_bind_def act_res_def act_when_def act_return_def)
qed

definition example_rc :: aerospikeRoleCreateUpdate where
  "example_rc = \<lparr>rcName = ''r'', rcPrivileges = [''read.test'', ''write''], rcWhitelist = None,
     rcReadQuota = 5, rcWriteQuota = 0\<rparr>"

definition example_role :: as_Role where
  "example_role = \<lparr>RolePrivs = [\<lparr>PrivCode = as_Write, PrivNamespace = [], PrivSetName = []\<rparr>,
     \<lparr>PrivCode = as_Read, PrivNamespace = ''test'', PrivSetName = []\<rparr>],
     RoleWl = None, RoleRQ = 5, RoleWQ = 0\<rparr>"

theorem updateRole_converged_witness:
  "updateRole ref_client 0 example_rc example_role example_server =
     Eventf EventTypeNormal ''RoleUpdated'' ''r'' example_server"
proof -
  have "privilegeStringToAerospikePrivilege (rcPrivileges example_rc) = Ok (rev (RolePrivs example_role))"
    by code_simp
  from set_privileges_of [OF this]
  have 1: "set (RolePrivs example_role) = privileges_of (rcPrivileges example_rc)" by simp
  have "list_all (\<lambda>d. isPrivilegeValid d (GetAllNamespaceNames example_spec) = Ok ()) (rcPrivileges example_rc)"
    by code_simp
  then have 2: "\<forall>d\<in>set (rcPrivileges example_rc). privilege_ok (GetAllNamespaceNames example_spec) d"
    by (simp add: list_all_iff isPrivilegeValid_iff)
  show ?thesis
    using updateRole_converged [OF 1 2] by (simp add: example_rc_def example_role_def)
qed

text \<open>
  Fact. Every privilege string the validator accepts converts to a privilege of the client
  library and prints back to the same string, so the comparison of desired and current privileges
  as strings is exact.
\<close>

theorem privilege_string_round_trip:
  assumes "isPrivilegeValid d (GetAllNamespaceNames spec) = Ok ()"
  shows "\<exists>p. privilegeStringToAerospikePrivilege [d] = Ok [p] \<and>
    AerospikePrivilegeToPrivilegeString [p] = Ok [d]"
  using print_convert [OF _ no_empty_namespace] assms by (fastforce simp: isPrivilegeValid_iff)

theorem privilege_string_round_trip_witness:
  "\<exists>p. privilegeStringToAerospikePrivilege [''read.test''] = Ok [p] \<and>
    AerospikePrivilegeToPrivilegeString [p] = Ok [''read.test'']"
  by (rule privilege_string_round_trip [where spec = example_spec]) code_simp

end
