(* ===== verification/Conditions.thy ===== *)
theory Conditions
  imports Go_Strings
begin

text \<open>
  \<^verbatim>\<open>internal/controller/cluster/conditions.go\<close>, \<^verbatim>\<open>internal/controller/common/result.go\<close> and the status
  writes at the end of a reconcile (\<^verbatim>\<open>writeTerminalStatus\<close>, \<^verbatim>\<open>finishReconcile\<close> of \<^verbatim>\<open>reconciler.go\<close>).
  The state of the reconciler holds the cluster's status fields that these functions read and
  write, the claims on operation conditions, the reason recorded for a failure, the phases
  emitted as metrics and a world of any type behind the API server. \<^verbatim>\<open>SetStatusCondition\<close> and
  the status patch belong to the Kubernetes libraries and are parameters.
\<close>

section \<open>Reconcile results\<close>

record ReconcileResult =
  ResErr :: "string option"
  ResRequeueAfter :: int
  ResIsSuccess :: bool

definition ReconcileSuccess :: ReconcileResult where
  "ReconcileSuccess = \<lparr>ResErr = None, ResRequeueAfter = 0, ResIsSuccess = True\<rparr>"

definition ReconcileRequeueAfter :: "int \<Rightarrow> ReconcileResult" where
  "ReconcileRequeueAfter secs = \<lparr>ResErr = None, ResRequeueAfter = secs * 1000000000, ResIsSuccess = False\<rparr>"

definition ReconcileError :: "string \<Rightarrow> ReconcileResult" where
  "ReconcileError e = \<lparr>ResErr = Some e, ResRequeueAfter = 0, ResIsSuccess = False\<rparr>"

definition GetResult :: "ReconcileResult \<Rightarrow> int \<times> string option" where
  "GetResult r = (ResRequeueAfter r, ResErr r)"

text \<open>The log pairs; the printed duration is kept as its number of nanoseconds.\<close>

datatype log_value = LStr string | LDuration int

definition ReconcileExitLogValues :: "int \<Rightarrow> string option \<Rightarrow> log_value list" where
  "ReconcileExitLogValues requeueAfter recErr =
     (if recErr \<noteq> None then [LStr ''result'', LStr ''error'']
      else if requeueAfter > 0
      then [LStr ''result'', LStr ''requeue'', LStr ''requeueAfter'', LDuration requeueAfter]
      else [LStr ''result'', LStr ''success''])"

section \<open>Conditions\<close>

datatype ConditionStatus = ConditionTrue | ConditionFalse | ConditionUnknown

text \<open>\<^verbatim>\<open>metav1.Condition\<close> without the transition time, which the code never reads or sets.\<close>

record Condition =
  CondType :: string
  CondStatus :: ConditionStatus
  CondReason :: string
  CondMessage :: string
  CondObservedGeneration :: int

definition ConditionReady :: string where "ConditionReady = ''Ready''"
definition ConditionPaused :: string where "ConditionPaused = ''Paused''"

definition AerospikeClusterInProgress :: string where "AerospikeClusterInProgress = ''InProgress''"
definition AerospikeClusterCompleted :: string where "AerospikeClusterCompleted = ''Completed''"
definition AerospikeClusterError :: string where "AerospikeClusterError = ''Error''"

definition operationConditions :: "(string \<times> string) list" where
  "operationConditions =
     [(''ScalingUp'', ''NotScalingUp''),
      (''ScalingDown'', ''NotScalingDown''),
      (''Upgrading'', ''NotUpgrading''),
      (''RollingRestart'', ''NotRollingRestart''),
      (''RackRevisionRollingOut'', ''NotRackRevisionRollingOut'')]"

definition opConditionAtRest :: "string \<times> string \<Rightarrow> Condition" where
  "opConditionAtRest opCond =
     \<lparr>CondType = fst opCond, CondStatus = ConditionFalse, CondReason = snd opCond, CondMessage = [],
      CondObservedGeneration = 0\<rparr>"

definition maxConditionMessageLength :: nat where
  "maxConditionMessageLength = 2048"

text \<open>\<^verbatim>\<open>utf8.RuneStart\<close>: the byte is not a continuation byte.\<close>

definition RuneStart :: "char \<Rightarrow> bool" where
  "RuneStart c \<longleftrightarrow> \<not> (128 \<le> (of_char c :: nat) \<and> (of_char c :: nat) < 192)"

fun back_off :: "string \<Rightarrow> nat \<Rightarrow> nat" where
  "back_off msg 0 = 0"
| "back_off msg (Suc cutp) = (if \<not> RuneStart (msg ! Suc cutp) then back_off msg cutp else Suc cutp)"

definition truncated_suffix :: string where
  "truncated_suffix = ''... (truncated)''"

definition truncateConditionMessage :: "string \<Rightarrow> string" where
  "truncateConditionMessage msg =
     (if length msg \<le> maxConditionMessageLength then msg
      else let cutp = back_off msg (maxConditionMessageLength - length truncated_suffix) in
           take cutp msg @ truncated_suffix)"

section \<open>The state\<close>

text \<open>
  \<open>pendingOpReset = None\<close> is the nil set; the set is the list of its elements. \<open>phaseMetrics\<close> lists the
  phases emitted by \<^verbatim>\<open>addClusterPhaseMetric\<close>.
\<close>

record 'w recon =
  Conds :: "Condition list"
  Phase :: string
  Generation :: int
  ResourceVersion :: string
  Deleting :: bool
  Paused :: "bool option"
  pendingOpReset :: "string list option"
  failureReason :: string
  phaseMetrics :: "string list"
  World :: 'w

text \<open>
  \<open>set_cond cs c\<close> is \<^verbatim>\<open>meta.SetStatusCondition\<close>: the new conditions and whether they changed.
  \<open>patch_status\<close> is the merge patch of the status sub-resource: given the old and the new
  conditions and phase it returns an error, or what the API server stored and the new resource
  version.
\<close>

type_synonym set_cond = "Condition list \<Rightarrow> Condition \<Rightarrow> Condition list \<times> bool"

type_synonym 'w patch_status =
  "Condition list \<times> string \<Rightarrow> Condition list \<times> string \<Rightarrow> 'w \<Rightarrow>
   (string + (Condition list \<times> string) \<times> string) \<times> 'w"

record 'w env =
  SetCond :: set_cond
  PatchStatus :: "'w patch_status"

definition initPendingOpConditionReset :: "'w recon \<Rightarrow> 'w recon" where
  "initPendingOpConditionReset r = r\<lparr>pendingOpReset := Some (map fst operationConditions)\<rparr>"

definition pending_has :: "'w recon \<Rightarrow> string \<Rightarrow> bool" where
  "pending_has r t = (case pendingOpReset r of None \<Rightarrow> False | Some ts \<Rightarrow> t \<in> set ts)"

definition opConditionsToClear :: "'w recon \<Rightarrow> Condition list" where
  "opConditionsToClear r =
     map opConditionAtRest (filter (\<lambda>opCond. pending_has r (fst opCond)) operationConditions)"

definition claim :: "Condition \<Rightarrow> 'w recon \<Rightarrow> 'w recon" where
  "claim c r =
     (case pendingOpReset r of
        None \<Rightarrow> r
      | Some ts \<Rightarrow>
          if CondStatus c = ConditionTrue
          then r\<lparr>pendingOpReset := Some (filter (\<lambda>t. t \<noteq> CondType c) ts)\<rparr> else r)"

text \<open>The loop of \<open>mergePatchStatus\<close>: claims, candidate conditions, and whether one changed.\<close>

fun merge_conditions ::
  "set_cond \<Rightarrow> Condition list \<Rightarrow> 'w recon \<Rightarrow> Condition list \<Rightarrow> bool \<Rightarrow> 'w recon \<times> Condition list \<times> bool" where
  "merge_conditions sc [] r candidate condChanged = (r, candidate, condChanged)"
| "merge_conditions sc (c # conditions) r candidate condChanged =
     (let r' = claim c r;
          (candidate', changed) = sc candidate (c\<lparr>CondObservedGeneration := Generation r'\<rparr>) in
      merge_conditions sc conditions r' candidate' (condChanged \<or> changed))"

definition addClusterPhaseMetric :: "'w recon \<Rightarrow> 'w recon" where
  "addClusterPhaseMetric r = r\<lparr>phaseMetrics := phaseMetrics r @ [Phase r]\<rparr>"

definition mergePatchStatus ::
  "'w env \<Rightarrow> string option \<Rightarrow> Condition list \<Rightarrow> 'w recon \<Rightarrow> string option \<times> 'w recon" where
  "mergePatchStatus env phase conditions r0 =
     (let (r, candidate, condChanged) = merge_conditions (SetCond env) conditions r0 (Conds r0) False;
          phaseChanged = (case phase of None \<Rightarrow> False | Some p \<Rightarrow> Phase r \<noteq> p) in
      if \<not> condChanged \<and> \<not> phaseChanged then (None, addClusterPhaseMetric r)
      else let newPhase = (if phaseChanged then the phase else Phase r) in
        case PatchStatus env (Conds r, Phase r) (candidate, newPhase) (World r) of
          (Inl err, w) \<Rightarrow> (Some err, r\<lparr>World := w\<rparr>)
        | (Inr ((cs, p), rv), w) \<Rightarrow>
            (let r' = r\<lparr>Conds := cs, Phase := p, ResourceVersion := rv, World := w\<rparr> in
             (None, if phaseChanged then addClusterPhaseMetric r' else r')))"

definition setConditions ::
  "'w env \<Rightarrow> Condition list \<Rightarrow> 'w recon \<Rightarrow> string option \<times> 'w recon" where
  "setConditions env conditions = mergePatchStatus env None conditions"

definition seed_conditions :: "Condition list" where
  "seed_conditions =
     [\<lparr>CondType = ConditionReady, CondStatus = ConditionUnknown, CondReason = ''Initializing'',
       CondMessage = ''Cluster conditions not yet evaluated'', CondObservedGeneration = 0\<rparr>,
      \<lparr>CondType = ConditionPaused, CondStatus = ConditionFalse, CondReason = ''NotPaused'',
       CondMessage = [], CondObservedGeneration = 0\<rparr>] @
     map opConditionAtRest operationConditions"

definition initializeConditionsIfNeeded ::
  "'w env \<Rightarrow> 'w recon \<Rightarrow> string option \<times> 'w recon" where
  "initializeConditionsIfNeeded env r =
     (if Conds r \<noteq> [] then (None, r) else setConditions env seed_conditions r)"

section \<open>The end of a reconcile\<close>

definition ready_condition :: "ConditionStatus \<Rightarrow> string \<Rightarrow> string \<Rightarrow> Condition" where
  "ready_condition st reason msg =
     \<lparr>CondType = ConditionReady, CondStatus = st, CondReason = reason, CondMessage = msg,
      CondObservedGeneration = 0\<rparr>"

definition writeTerminalStatus ::
  "'w env \<Rightarrow> string option \<Rightarrow> 'w recon \<Rightarrow> string option \<times> 'w recon" where
  "writeTerminalStatus env recErr r =
     (case recErr of
        None \<Rightarrow>
          if Deleting r then (None, r)
          else mergePatchStatus env None (opConditionsToClear r) r
      | Some e \<Rightarrow>
          let reason = (if failureReason r \<noteq> [] then failureReason r else ''ReconcileFailed'') in
          mergePatchStatus env (Some AerospikeClusterError)
            [ready_condition ConditionFalse reason (truncateConditionMessage e)] r)"

text \<open>\<^verbatim>\<open>errors.Join\<close> prints its errors on separate lines.\<close>

definition finishReconcile ::
  "'w env \<Rightarrow> string option \<Rightarrow> 'w recon \<Rightarrow> string option \<times> 'w recon" where
  "finishReconcile env recErr r =
     (let (statusErr, r') = writeTerminalStatus env recErr r in
      (case recErr of
         Some e \<Rightarrow>
           (Some (case statusErr of
              None \<Rightarrow> e
            | Some se \<Rightarrow> e @ [CHR 0x0A] @ ''set AerospikeCluster error status: '' @ se), r')
       | None \<Rightarrow> (map_option (\<lambda>se. ''reset operation conditions: '' @ se) statusErr, r')))"

section \<open>Messages\<close>

text \<open>
  Well-formed UTF-8 (RFC 3629): \<open>rune_len s\<close> is the length of the encoding at the start of \<open>s\<close>, 0 if
  there is none.
\<close>

definition byte_in :: "string \<Rightarrow> nat \<Rightarrow> nat \<Rightarrow> nat \<Rightarrow> bool" where
  "byte_in s i lo hi \<longleftrightarrow> i < length s \<and> lo \<le> (of_char (s ! i) :: nat) \<and> (of_char (s ! i) :: nat) \<le> hi"

definition cont :: "string \<Rightarrow> nat \<Rightarrow> bool" where
  "cont s i \<longleftrightarrow> byte_in s i 0x80 0xBF"

definition lead3 :: "string \<Rightarrow> bool" where
  "lead3 s \<longleftrightarrow>
     byte_in s 0 0xE0 0xE0 \<and> byte_in s 1 0xA0 0xBF \<or> byte_in s 0 0xE1 0xEC \<or>
     byte_in s 0 0xED 0xED \<and> byte_in s 1 0x80 0x9F \<or> byte_in s 0 0xEE 0xEF"

definition lead4 :: "string \<Rightarrow> bool" where
  "lead4 s \<longleftrightarrow>
     byte_in s 0 0xF0 0xF0 \<and> byte_in s 1 0x90 0xBF \<or> byte_in s 0 0xF1 0xF3 \<or>
     byte_in s 0 0xF4 0xF4 \<and> byte_in s 1 0x80 0x8F"

definition rune_len :: "string \<Rightarrow> nat" where
  "rune_len s =
     (if byte_in s 0 0x00 0x7F then 1
      else if byte_in s 0 0xC2 0xDF \<and> cont s 1 then 2
      else if lead3 s \<and> cont s 1 \<and> cont s 2 then 3
      else if lead4 s \<and> cont s 1 \<and> cont s 2 \<and> cont s 3 then 4
      else 0)"

function utf8_valid :: "string \<Rightarrow> bool" where
  "utf8_valid s =
     (if s = [] then True else if rune_len s = 0 then False else utf8_valid (drop (rune_len s) s))"
  by pat_completeness auto
termination
  by (relation "measure length") auto

declare utf8_valid.simps [simp del]

lemma byte_in_length: "byte_in s i lo hi \<Longrightarrow> i < length s"
  by (simp add: byte_in_def)

lemma byte_in_take: "i < n \<Longrightarrow> byte_in (take n s) i lo hi \<longleftrightarrow> byte_in s i lo hi"
  by (auto simp: byte_in_def)

lemma rune_tests_take:
  "0 < n \<Longrightarrow> byte_in (take n s) 0 lo hi \<longleftrightarrow> byte_in s 0 lo hi"
  "i < n \<Longrightarrow> cont (take n s) i \<longleftrightarrow> cont s i"
  "1 < n \<Longrightarrow> lead3 (take n s) \<longleftrightarrow> lead3 s"
  "1 < n \<Longrightarrow> lead4 (take n s) \<longleftrightarrow> lead4 s"
  by (simp_all add: byte_in_take cont_def lead3_def lead4_def)

lemma rune_len_cases:
  obtains "rune_len s = 0"
  | "rune_len s = 1" "byte_in s 0 0 0x7F"
  | "rune_len s = 2" "\<not> byte_in s 0 0 0x7F" "byte_in s 0 0xC2 0xDF" "cont s 1"
  | "rune_len s = 3" "\<not> byte_in s 0 0 0x7F" "\<not> byte_in s 0 0xC2 0xDF \<or> \<not> cont s 1" "lead3 s" "cont s 1" "cont s 2"
  | "rune_len s = 4" "\<not> byte_in s 0 0 0x7F" "\<not> byte_in s 0 0xC2 0xDF \<or> \<not> cont s 1"
      "\<not> (lead3 s \<and> cont s 1 \<and> cont s 2)" "lead4 s" "cont s 1" "cont s 2" "cont s 3"
  unfolding rune_len_def by (cases "byte_in s 0 0 0x7F"; cases "byte_in s 0 0xC2 0xDF \<and> cont s 1";
      cases "lead3 s \<and> cont s 1 \<and> cont s 2"; cases "lead4 s \<and> cont s 1 \<and> cont s 2 \<and> cont s 3") simp_all

lemma cont_length: "cont s i \<Longrightarrow> i < length s"
  by (simp add: cont_def byte_in_def)

lemma rune_len_le: "rune_len s \<le> length s"
  by (cases s rule: rune_len_cases)
    (use byte_in_length [of s 0] cont_length [of s] in \<open>force simp: Suc_le_eq\<close>)+

text \<open>The bytes after the first of an encoding do not start a rune.\<close>

lemma cont_not_start: "cont s i \<Longrightarrow> \<not> RuneStart (s ! i)"
  by (auto simp: RuneStart_def cont_def byte_in_def)

lemma rune_tail: "0 < i \<Longrightarrow> i < rune_len s \<Longrightarrow> \<not> RuneStart (s ! i)"
proof -
  assume i: "0 < i" "i < rune_len s"
  have "cont s i"
  proof (cases s rule: rune_len_cases)
    case 3
    with i have "i = 1" by simp
    with 3 show ?thesis by simp
  next
    case 4
    with i have "i = 1 \<or> i = 2" by arith
    with 4 show ?thesis by auto
  next
    case 5
    with i have "i = 1 \<or> i = 2 \<or> i = 3" by arith
    with 5 show ?thesis by auto
  qed (use i in simp_all)
  then show ?thesis by (rule cont_not_start)
qed

lemma rune_len_take: "rune_len s \<le> n \<Longrightarrow> 0 < rune_len s \<Longrightarrow> rune_len (take n s) = rune_len s"
  by (cases s rule: rune_len_cases) (simp_all add: rune_len_def [of "take n s"] rune_tests_take)

lemma utf8_valid_take:
  "utf8_valid s \<Longrightarrow> n \<le> length s \<Longrightarrow> n = 0 \<or> n = length s \<or> RuneStart (s ! n) \<Longrightarrow> utf8_valid (take n s)"
proof (induction s arbitrary: n rule: utf8_valid.induct)
  case (1 s)
  show ?case
  proof (cases "n = 0 \<or> s = []")
    case True
    then show ?thesis by (auto simp: utf8_valid.simps)
  next
    case False
    let ?k = "rune_len s"
    have k: "0 < ?k" "utf8_valid (drop ?k s)"
      using "1.prems"(1) False by (auto simp: utf8_valid.simps [of s] split: if_splits)
    have kn: "?k \<le> n"
    proof (rule ccontr)
      assume "\<not> ?k \<le> n"
      then have "\<not> RuneStart (s ! n)" using rune_tail [of n s] False by simp
      then show False using "1.prems"(3) False rune_len_le [of s] \<open>\<not> ?k \<le> n\<close> by auto
    qed
    have "utf8_valid (take (n - ?k) (drop ?k s))"
      by (rule "1.IH") (use "1.prems" False k kn rune_len_le [of s] in auto)
    moreover have "drop ?k (take n s) = take (n - ?k) (drop ?k s)" by (simp add: drop_take)
    ultimately show ?thesis
      using k kn False by (simp add: utf8_valid.simps [of "take n s"] rune_len_take)
  qed
qed

lemma rune_len_append: "0 < rune_len s \<Longrightarrow> rune_len (s @ t) = rune_len s"
proof -
  assume pos: "0 < rune_len s"
  define u n where "u = s @ t" and "n = length s"
  have s: "s = take n u" by (simp add: u_def n_def)
  have le: "rune_len s \<le> n" using rune_len_le [of s] by (simp add: n_def)
  have "rune_len u = rune_len s"
  proof (cases s rule: rune_len_cases)
    case 1
    with pos show ?thesis by simp
  qed (use le in \<open>simp_all add: s rune_tests_take rune_len_def [of u]\<close>)
  then show ?thesis by (simp add: u_def)
qed

lemma utf8_valid_append: "utf8_valid s \<Longrightarrow> utf8_valid t \<Longrightarrow> utf8_valid (s @ t)"
proof (induction s rule: utf8_valid.induct)
  case (1 s)
  show ?case
  proof (cases "s = []")
    case True
    with 1 show ?thesis by simp
  next
    case False
    then have k: "0 < rune_len s" "utf8_valid (drop (rune_len s) s)"
      using "1.prems"(1) by (auto simp: utf8_valid.simps [of s] split: if_splits)
    with 1 False have "utf8_valid (drop (rune_len s) s @ t)" by simp
    with k False show ?thesis
      using rune_len_le [of s] by (simp add: utf8_valid.simps [of "s @ t"] rune_len_append)
  qed
qed

lemma back_off_le: "back_off msg c \<le> c"
  by (induction c) (auto intro: le_SucI)

lemma back_off_start: "back_off msg c = 0 \<or> RuneStart (msg ! back_off msg c)"
  by (induction c) auto

section \<open>Properties of messages\<close>

text \<open>
  Fact. A condition message never exceeds the bound of 2048 bytes, and a message within the
  bound is not changed.
\<close>

theorem condition_message_bound:
  "length (truncateConditionMessage msg) \<le> maxConditionMessageLength \<and>
   truncateConditionMessage (truncateConditionMessage msg) = truncateConditionMessage msg"
proof -
  have "length truncated_suffix = 15" by (simp add: truncated_suffix_def)
  then have "length (truncateConditionMessage msg) \<le> maxConditionMessageLength"
    using back_off_le [of msg 2033]
    by (simp add: truncateConditionMessage_def maxConditionMessageLength_def Let_def)
  then show ?thesis by (simp add: truncateConditionMessage_def [of "truncateConditionMessage msg"])
qed

text \<open>
  Property C40. Truncation cuts only between runes: if the message is well-formed UTF-8, so is the
  truncated one.
\<close>

theorem condition_message_utf8:
  assumes "utf8_valid msg"
  shows "utf8_valid (truncateConditionMessage msg)"
proof (cases "length msg \<le> maxConditionMessageLength")
  case True
  with assms show ?thesis by (simp add: truncateConditionMessage_def)
next
  case False
  let ?c = "back_off msg (maxConditionMessageLength - length truncated_suffix)"
  have "utf8_valid (take ?c msg)"
    using assms back_off_start [of msg "maxConditionMessageLength - length truncated_suffix"]
      back_off_le [of msg "maxConditionMessageLength - length truncated_suffix"] False
    by (intro utf8_valid_take) auto
  moreover have "utf8_valid truncated_suffix" by code_simp
  ultimately show ?thesis
    using False by (simp add: truncateConditionMessage_def Let_def utf8_valid_append)
qed

lemma utf8_valid_ascii: "\<forall>c\<in>set s. (of_char c :: nat) < 128 \<Longrightarrow> utf8_valid s"
proof (induction s)
  case Nil
  show ?case by (simp add: utf8_valid.simps)
next
  case (Cons c s)
  then have "rune_len (c # s) = 1" by (simp add: rune_len_def byte_in_def)
  with Cons show ?case by (simp add: utf8_valid.simps [of "c # s"])
qed

theorem condition_message_utf8_witness:
  "utf8_valid (truncateConditionMessage (replicate 3000 (CHR ''e'') @ [CHR 0xC3, CHR 0xA9]))"
proof (rule condition_message_utf8)
  have "utf8_valid (replicate 3000 (CHR ''e''))" by (rule utf8_valid_ascii) simp
  moreover have "utf8_valid [CHR 0xC3, CHR 0xA9]" by code_simp
  ultimately show "utf8_valid (replicate 3000 (CHR ''e'') @ [CHR 0xC3, CHR 0xA9])"
    by (rule utf8_valid_append)
qed

section \<open>Writing conditions\<close>

text \<open>The condition of a type.\<close>

definition cond_of :: "Condition list \<Rightarrow> string \<Rightarrow> Condition option" where
  "cond_of cs t = find (\<lambda>c. CondType c = t) cs"

text \<open>
  What \<^verbatim>\<open>SetStatusCondition\<close> documents: the condition of that type is the new one, the others stay,
  and it reports a change when there is one. What the status patch documents: on success the API
  server has stored what was sent.
\<close>

definition set_cond_laws :: "set_cond \<Rightarrow> bool" where
  "set_cond_laws sc \<longleftrightarrow>
     (\<forall>cs c. cond_of (fst (sc cs c)) (CondType c) = Some c \<and>
       (\<forall>t. t \<noteq> CondType c \<longrightarrow> cond_of (fst (sc cs c)) t = cond_of cs t) \<and>
       (\<not> snd (sc cs c) \<longrightarrow> fst (sc cs c) = cs))"

definition patch_laws :: "'w patch_status \<Rightarrow> bool" where
  "patch_laws patch \<longleftrightarrow>
     (\<forall>old new w stored rv w'. patch old new w = (Inr (stored, rv), w') \<longrightarrow> stored = new)"

definition env_laws :: "'w env \<Rightarrow> bool" where
  "env_laws env \<longleftrightarrow> set_cond_laws (SetCond env) \<and> patch_laws (PatchStatus env)"

lemma set_cond_D:
  assumes "set_cond_laws sc" "sc cs c = (cs', ch)"
  shows "cond_of cs' (CondType c) = Some c" "t \<noteq> CondType c \<Longrightarrow> cond_of cs' t = cond_of cs t"
    "\<not> ch \<Longrightarrow> cs' = cs"
  using assms(1) unfolding set_cond_laws_def
  by (metis assms(2) fst_conv, metis assms(2) fst_conv, metis assms(2) fst_conv snd_conv)

lemma patch_D: "patch_laws patch \<Longrightarrow> patch old new w = (Inr (stored, rv), w') \<Longrightarrow> stored = new"
  unfolding patch_laws_def by blast

lemma claim_fields [simp]:
  "Conds (claim c r) = Conds r" "Phase (claim c r) = Phase r" "Generation (claim c r) = Generation r"
  "World (claim c r) = World r" "ResourceVersion (claim c r) = ResourceVersion r"
  "failureReason (claim c r) = failureReason r" "Deleting (claim c r) = Deleting r"
  "phaseMetrics (claim c r) = phaseMetrics r" "Paused (claim c r) = Paused r"
  by (auto simp: claim_def split: option.splits)

lemma merge_conditions_state:
  "merge_conditions sc cs r cand ch = (r', cand', ch') \<Longrightarrow> r' = fold claim cs r"
  by (induction sc cs r cand ch rule: merge_conditions.induct) (auto simp: Let_def split: prod.splits)

lemma fold_claim_fields [simp]:
  "Conds (fold claim cs r) = Conds r" "Phase (fold claim cs r) = Phase r"
  "Generation (fold claim cs r) = Generation r" "World (fold claim cs r) = World r"
  "failureReason (fold claim cs r) = failureReason r" "Deleting (fold claim cs r) = Deleting r"
  by (induction cs arbitrary: r) auto

lemma merge_conditions_effect:
  assumes "set_cond_laws sc" "merge_conditions sc cs r cand ch = (r', cand', ch')"
    "distinct (map CondType cs)"
  shows "(\<forall>c\<in>set cs. cond_of cand' (CondType c) = Some (c\<lparr>CondObservedGeneration := Generation r\<rparr>)) \<and>
    (\<forall>t. t \<notin> CondType ` set cs \<longrightarrow> cond_of cand' t = cond_of cand t) \<and>
    (\<not> ch' \<longrightarrow> cand' = cand \<and> \<not> ch)"
  using assms(2,3)
proof (induction cs arbitrary: r cand ch)
  case Nil
  then show ?case by simp
next
  case (Cons c cs)
  let ?c = "c\<lparr>CondObservedGeneration := Generation r\<rparr>"
  obtain cand1 ch1 where s: "sc cand ?c = (cand1, ch1)" by (cases "sc cand ?c")
  have m: "merge_conditions sc cs (claim c r) cand1 (ch \<or> ch1) = (r', cand', ch')"
    using Cons.prems(1) s by (simp add: Let_def)
  note l = set_cond_D [OF assms(1) s, simplified]
  have IH: "(\<forall>c\<in>set cs. cond_of cand' (CondType c) = Some (c\<lparr>CondObservedGeneration := Generation r\<rparr>)) \<and>
      (\<forall>t. t \<notin> CondType ` set cs \<longrightarrow> cond_of cand' t = cond_of cand1 t) \<and>
      (\<not> ch' \<longrightarrow> cand' = cand1 \<and> \<not> (ch \<or> ch1))"
    using Cons.IH [OF m] Cons.prems(2) by simp
  have "CondType c \<notin> CondType ` set cs" using Cons.prems(2) by auto
  then show ?case using IH l by auto
qed

lemma mergePatchStatus_effect:
  assumes "env_laws env" "distinct (map CondType cs)" "mergePatchStatus env phase cs r = (None, r')"
  shows "\<forall>c\<in>set cs. cond_of (Conds r') (CondType c) = Some (c\<lparr>CondObservedGeneration := Generation r\<rparr>)"
    and "t \<notin> CondType ` set cs \<Longrightarrow> cond_of (Conds r') t = cond_of (Conds r) t"
    and "Phase r' = (case phase of None \<Rightarrow> Phase r | Some p \<Rightarrow> p)"
proof -
  obtain r1 cand ch where m: "merge_conditions (SetCond env) cs r (Conds r) False = (r1, cand, ch)"
    by (cases "merge_conditions (SetCond env) cs r (Conds r) False")
  have r1: "r1 = fold claim cs r" by (rule merge_conditions_state [OF m])
  have sc: "set_cond_laws (SetCond env)" and pl: "patch_laws (PatchStatus env)"
    using assms(1) by (simp_all add: env_laws_def)
  note e = merge_conditions_effect [OF sc m assms(2)]
  have "Conds r' = cand \<and> Phase r' = (case phase of None \<Rightarrow> Phase r | Some p \<Rightarrow> p)"
  proof (cases "ch \<or> (\<exists>p. phase = Some p \<and> Phase r \<noteq> p)")
    case False
    then show ?thesis using assms(3) e
      by (auto simp: mergePatchStatus_def m r1 addClusterPhaseMetric_def split: option.splits)
  next
    case True
    then show ?thesis using assms(3)
      by (auto simp: mergePatchStatus_def m r1 addClusterPhaseMetric_def Let_def
          split: prod.splits sum.splits option.splits if_splits dest!: patch_D [OF pl])
  qed
  then show "\<forall>c\<in>set cs. cond_of (Conds r') (CondType c) = Some (c\<lparr>CondObservedGeneration := Generation r\<rparr>)"
    and "t \<notin> CondType ` set cs \<Longrightarrow> cond_of (Conds r') t = cond_of (Conds r) t"
    and "Phase r' = (case phase of None \<Rightarrow> Phase r | Some p \<Rightarrow> p)"
    using e by auto
qed

text \<open>Claims are made whatever becomes of the patch.\<close>

lemma mergePatchStatus_claims:
  assumes "mergePatchStatus env phase cs r = (e, r')"
  shows "pendingOpReset r' = pendingOpReset (fold claim cs r)"
proof -
  obtain r1 cand ch where m: "merge_conditions (SetCond env) cs r (Conds r) False = (r1, cand, ch)"
    by (cases "merge_conditions (SetCond env) cs r (Conds r) False")
  with merge_conditions_state [OF m] assms show ?thesis
    by (auto simp: mergePatchStatus_def addClusterPhaseMetric_def Let_def
        split: prod.splits sum.splits if_splits)
qed

lemma pending_claim: "pending_has (claim c r) t \<longleftrightarrow> pending_has r t \<and> \<not> (CondStatus c = ConditionTrue \<and> CondType c = t)"
  by (auto simp: claim_def pending_has_def split: option.splits)

lemma pending_fold_claim:
  "pending_has (fold claim cs r) t \<longleftrightarrow>
     pending_has r t \<and> (\<forall>c\<in>set cs. \<not> (CondStatus c = ConditionTrue \<and> CondType c = t))"
  by (induction cs arbitrary: r) (auto simp: pending_claim)

lemma types_to_clear:
  "t \<in> CondType ` set (opConditionsToClear r) \<longleftrightarrow> pending_has r t \<and> t \<in> fst ` set operationConditions"
  by (force simp: opConditionsToClear_def opConditionAtRest_def)

lemma distinct_to_clear: "distinct (map CondType (opConditionsToClear r))"
proof -
  have "distinct (map fst (filter P operationConditions))" for P
    by (rule distinct_map_filter) (simp add: operationConditions_def)
  then show ?thesis by (simp add: opConditionsToClear_def opConditionAtRest_def comp_def)
qed

lemma exit_status_clears:
  assumes "env_laws env" and "\<not> Deleting r" and "writeTerminalStatus env None r = (None, r')"
  shows "Phase r' = Phase r \<and>
    (\<forall>t. cond_of (Conds r') t =
       (if pending_has r t \<and> t \<in> fst ` set operationConditions
        then Some ((opConditionAtRest (t, the (map_of operationConditions t)))\<lparr>CondObservedGeneration := Generation r\<rparr>)
        else cond_of (Conds r) t))"
proof -
  have m: "mergePatchStatus env None (opConditionsToClear r) r = (None, r')"
    using assms(2,3) by (simp add: writeTerminalStatus_def)
  note eff = mergePatchStatus_effect [OF assms(1) distinct_to_clear m]
  have dist: "distinct (map fst operationConditions)" by (simp add: operationConditions_def)
  have "cond_of (Conds r') t = Some ((opConditionAtRest (t, the (map_of operationConditions t)))\<lparr>CondObservedGeneration := Generation r\<rparr>)"
    if t: "pending_has r t" "t \<in> fst ` set operationConditions" for t
  proof -
    obtain reason where op: "(t, reason) \<in> set operationConditions" using t(2) by auto
    then have "opConditionAtRest (t, reason) \<in> set (opConditionsToClear r)"
      using t(1) by (simp add: opConditionsToClear_def)
    then have "cond_of (Conds r') t = Some ((opConditionAtRest (t, reason))\<lparr>CondObservedGeneration := Generation r\<rparr>)"
      using eff(1) by (force simp: opConditionAtRest_def)
    moreover have "map_of operationConditions t = Some reason" using op dist by simp
    ultimately show ?thesis by simp
  qed
  then show ?thesis using eff(2,3) by (auto simp: types_to_clear)
qed

section \<open>A reference environment\<close>

fun ref_set_cond :: "Condition list \<Rightarrow> Condition \<Rightarrow> Condition list \<times> bool" where
  "ref_set_cond [] c = ([c], True)"
| "ref_set_cond (d # cs) c =
     (if CondType d = CondType c then (c # cs, d \<noteq> c)
      else let (cs', ch) = ref_set_cond cs c in (d # cs', ch))"

definition ref_env :: "nat env" where
  "ref_env = \<lparr>SetCond = ref_set_cond, PatchStatus = (\<lambda>old new w. (Inr (new, ''2''), Suc w))\<rparr>"

lemma ref_set_cond_laws: "set_cond_laws ref_set_cond"
proof -
  have "cond_of (fst (ref_set_cond cs c)) (CondType c) = Some c \<and>
      (\<forall>t. t \<noteq> CondType c \<longrightarrow> cond_of (fst (ref_set_cond cs c)) t = cond_of cs t) \<and>
      (\<not> snd (ref_set_cond cs c) \<longrightarrow> fst (ref_set_cond cs c) = cs)" for cs c
    by (induction cs c rule: ref_set_cond.induct) (auto simp: cond_of_def split: prod.splits)
  then show ?thesis unfolding set_cond_laws_def by blast
qed

lemma ref_env_laws: "env_laws ref_env"
  by (simp add: env_laws_def ref_env_def ref_set_cond_laws patch_laws_def)

definition example_recon :: "nat recon" where
  "example_recon = initPendingOpConditionReset
     \<lparr>Conds = [opConditionAtRest (''ScalingUp'', ''NotScalingUp''),
        (opConditionAtRest (''Upgrading'', ''Upgrading''))\<lparr>CondStatus := ConditionTrue\<rparr>],
      Phase = ''InProgress'', Generation = 4, ResourceVersion = ''1'', Deleting = False, Paused = None,
      pendingOpReset = None, failureReason = ''RackReconcileFailed'', phaseMetrics = [], World = 0\<rparr>"

section \<open>Properties of condition writes\<close>





text \<open>
  Fact. A pass without an error that writes its exit status sets every operation condition
  that it owns and that nothing claimed to False with its resting reason, and changes neither the
  phase nor any other condition.
\<close>

theorem successful_reconcile_clears:
  assumes "env_laws env" and "\<not> Deleting r" and "writeTerminalStatus env None r = (None, r')"
  shows "Phase r' = Phase r \<and>
    (\<forall>t. cond_of (Conds r') t =
       (if pending_has r t \<and> t \<in> fst ` set operationConditions
        then Some ((opConditionAtRest (t, the (map_of operationConditions t)))\<lparr>CondObservedGeneration := Generation r\<rparr>)
        else cond_of (Conds r) t))"
  by (rule exit_status_clears [OF assms])

theorem successful_reconcile_clears_witness:
  "cond_of (Conds (snd (writeTerminalStatus ref_env None example_recon))) ''Upgrading'' =
     Some \<lparr>CondType = ''Upgrading'', CondStatus = ConditionFalse, CondReason = ''NotUpgrading'',
       CondMessage = [], CondObservedGeneration = 4\<rparr>"
proof -
  let ?x = "writeTerminalStatus ref_env None example_recon"
  have "fst ?x = None" by code_simp
  then have x: "?x = (None, snd ?x)" by (metis prod.collapse)
  have "\<not> Deleting example_recon" by (simp add: example_recon_def initPendingOpConditionReset_def)
  note th = conjunct2 [OF successful_reconcile_clears [OF ref_env_laws this x], rule_format, of "''Upgrading''"]
  have "pending_has example_recon ''Upgrading''" "''Upgrading'' \<in> fst ` set operationConditions"
      "map_of operationConditions ''Upgrading'' = Some ''NotUpgrading''" "Generation example_recon = 4"
    by (simp_all add: example_recon_def initPendingOpConditionReset_def pending_has_def operationConditions_def)
  with th show ?thesis by (simp add: opConditionAtRest_def)
qed

end
