(* ===== verification/Reconcile_Driver.thy ===== *)
theory Reconcile_Driver
  imports Conditions
begin

text \<open>
  \<^verbatim>\<open>Reconcile\<close> of \<^verbatim>\<open>internal/controller/cluster/reconciler.go\<close>: the order of the stages of one pass, what
  each failure records and returns, and the status written on every way out. The stages
  themselves (racks, services, access control, info calls) act on the reconciler's state and are
  taken as functions; the status update at the end of a successful pass is modelled here.
\<close>

section \<open>Steps that may return early\<close>

text \<open>A step continues with a value or makes the pass return a delay and an error.\<close>

type_synonym outcome = "int \<times> string option"

type_synonym ('w, 'a) step = "'w recon \<Rightarrow> (outcome + 'a) \<times> 'w recon"

definition step_bind :: "('w, 'a) step \<Rightarrow> ('a \<Rightarrow> ('w, 'b) step) \<Rightarrow> ('w, 'b) step" where
  "step_bind m f r = (case m r of (Inl out, r') \<Rightarrow> (Inl out, r') | (Inr a, r') \<Rightarrow> f a r')"

definition step_return :: "outcome \<Rightarrow> ('w, 'a) step" where
  "step_return out r = (Inl out, r)"

definition step_ok :: "'a \<Rightarrow> ('w, 'a) step" where
  "step_ok a r = (Inr a, r)"

type_synonym 'w err_stage = "'w recon \<Rightarrow> string option \<times> 'w recon"
type_synonym 'w res_stage = "'w recon \<Rightarrow> ReconcileResult \<times> 'w recon"

record 'w stages =
  sEventf :: "string \<Rightarrow> 'w \<Rightarrow> 'w"
  sHandleClusterDeletion :: "'w err_stage"
  sRemovePhaseMetric :: "'w recon \<Rightarrow> 'w recon"
  sAddFinalizer :: "'w err_stage"
  sCheckPreviouslyFailed :: "'w recon \<Rightarrow> (bool \<times> ReconcileResult) \<times> 'w recon"
  sMigrationNeeded :: "'w recon \<Rightarrow> bool"
  sMigrate :: "bool \<Rightarrow> 'w err_stage"
  sHeadlessSvc :: "'w err_stage"
  sRacks :: "'w res_stage"
  sPDB :: "'w err_stage"
  sLoadBalancerSvc :: "'w err_stage"
  sIgnorablePods :: "'w recon \<Rightarrow> (string + string list) \<times> 'w recon"
  sHostConns :: "string list \<Rightarrow> 'w recon \<Rightarrow> (string + string list) \<times> 'w recon"
  sQuiesceUndo :: "string list \<Rightarrow> 'w err_stage"
  sClearQuiesceAnnotations :: "'w err_stage"
  sAccessControl :: "string list \<Rightarrow> 'w err_stage"
  sRevertMFD :: "string list \<Rightarrow> 'w res_stage"
  sReclusterNeeded :: "'w recon \<Rightarrow> bool"
  sRecluster :: "string list \<Rightarrow> 'w err_stage"
  sRoster :: "string list \<Rightarrow> string list \<Rightarrow> 'w res_stage"
  sGetCluster :: "'w \<Rightarrow> string + (int \<times> string \<times> bool \<times> bool option \<times> bool)"
  sReadinessStatus :: "'w \<Rightarrow> string + bool"
  sPatchStatusJSON :: "Condition list \<times> string \<Rightarrow> Condition list \<times> string \<Rightarrow> 'w \<Rightarrow> string option \<times> 'w"
  sRecoverIgnorable :: "string list \<Rightarrow> 'w res_stage"

text \<open>A warning event and the reason of the failing stage; then the pass returns the wrapped error.\<close>

definition event :: "'w stages \<Rightarrow> string \<Rightarrow> 'w recon \<Rightarrow> 'w recon" where
  "event st reason r = r\<lparr>World := sEventf st reason (World r)\<rparr>"

definition fail_with :: "string \<Rightarrow> 'w recon \<Rightarrow> 'w recon" where
  "fail_with reason r = r\<lparr>failureReason := reason\<rparr>"

definition err_step ::
  "('w recon \<Rightarrow> 'w recon) \<Rightarrow> string \<Rightarrow> 'w err_stage \<Rightarrow> ('w, unit) step" where
  "err_step on_fail pfx stage r =
     (case stage r of
        (None, r') \<Rightarrow> (Inr (), r')
      | (Some e, r') \<Rightarrow> (Inl (0, Some (pfx @ e)), on_fail r'))"

definition value_step ::
  "('w recon \<Rightarrow> 'w recon) \<Rightarrow> string \<Rightarrow> ('w recon \<Rightarrow> (string + 'a) \<times> 'w recon) \<Rightarrow> ('w, 'a) step" where
  "value_step on_fail pfx stage r =
     (case stage r of
        (Inr a, r') \<Rightarrow> (Inr a, r')
      | (Inl e, r') \<Rightarrow> (Inl (0, Some (pfx @ e)), on_fail r'))"

text \<open>A stage with a result: an unsuccessful one returns its delay and error as they are.\<close>

definition res_step ::
  "('w recon \<Rightarrow> 'w recon) \<Rightarrow> 'w res_stage \<Rightarrow> ('w, unit) step" where
  "res_step on_fail stage r =
     (case stage r of
        (res, r') \<Rightarrow>
          if ResIsSuccess res then (Inr (), r')
          else (Inl (GetResult res), if ResErr res \<noteq> None then on_fail r' else r'))"

section \<open>The stages written out\<close>

definition handleTerminatingCluster :: "'w env \<Rightarrow> 'w stages \<Rightarrow> 'w err_stage" where
  "handleTerminatingCluster env st r =
     (let r1 = snd (setConditions env [ready_condition ConditionFalse ''Terminating'' ''Cluster is being deleted''] r) in
      case sHandleClusterDeletion st r1 of
        (Some e, r2) \<Rightarrow> (Some e, event st ''DeleteFailed'' r2)
      | (None, r2) \<Rightarrow> (None, event st ''Deleted'' (sRemovePhaseMetric st r2)))"

definition undoQuiesceState :: "'w stages \<Rightarrow> string list \<Rightarrow> 'w err_stage" where
  "undoQuiesceState st allHostConns r =
     (case sQuiesceUndo st allHostConns r of
        (Some e, r1) \<Rightarrow> (Some (''undo quiesce state: '' @ e), fail_with ''QuiesceUndoFailed'' r1)
      | (None, r1) \<Rightarrow>
          (case sClearQuiesceAnnotations st r1 of
             (Some e, r2) \<Rightarrow> (Some (''clear stale quiesce annotations: '' @ e), fail_with ''QuiesceUndoFailed'' r2)
           | (None, r2) \<Rightarrow> (None, r2)))"

definition completed_conditions :: "'w recon \<Rightarrow> Condition list" where
  "completed_conditions r =
     map (\<lambda>c. c\<lparr>CondObservedGeneration := Generation r\<rparr>)
       (ready_condition ConditionTrue ''ReconcileComplete'' ''Cluster reconcile completed successfully'' #
        map opConditionAtRest operationConditions)"

text \<open>
  The object read again supplies the fields that are not copied; the status gets phase
  \<^verbatim>\<open>Completed\<close>, Ready True and every operation condition False in one patch.
\<close>

definition updateStatus :: "'w env \<Rightarrow> 'w stages \<Rightarrow> 'w err_stage" where
  "updateStatus env st r =
     (case sGetCluster st (World r) of
        Inl e \<Rightarrow> (Some e, r)
      | Inr (gen, rv, deleting, paused, readinessEnabled) \<Rightarrow>
          (let cs = fold (\<lambda>c cs. fst (SetCond env cs c)) (completed_conditions r) (Conds r) in
           case (if readinessEnabled then Inr True else sReadinessStatus st (World r)) of
             Inl e \<Rightarrow> (Some (''get cluster readiness status: '' @ e), r)
           | Inr _ \<Rightarrow>
               (case sPatchStatusJSON st (Conds r, Phase r) (cs, AerospikeClusterCompleted) (World r) of
                  (Some e, w) \<Rightarrow> (Some (''update status: '' @ e), r\<lparr>World := w\<rparr>)
                | (None, w) \<Rightarrow>
                    (None, addClusterPhaseMetric (r\<lparr>Conds := cs, Phase := AerospikeClusterCompleted,
                       Generation := gen, ResourceVersion := rv, Deleting := deleting, Paused := paused,
                       World := w\<rparr>)))))"

section \<open>One pass\<close>

definition paused_condition :: "ConditionStatus \<Rightarrow> string \<Rightarrow> string \<Rightarrow> Condition" where
  "paused_condition cst reason msg =
     \<lparr>CondType = ConditionPaused, CondStatus = cst, CondReason = reason, CondMessage = msg,
      CondObservedGeneration = 0\<rparr>"

text \<open>Up to the rack loop.\<close>

definition reconcile_setup :: "'w env \<Rightarrow> 'w stages \<Rightarrow> ('w, unit) step" where
  "reconcile_setup env st =
     step_bind (\<lambda>r. if Deleting r
         then (let (e, r') = handleTerminatingCluster env st r in (Inl (0, e), r'))
         else (Inr (), r)) (\<lambda>_.
     step_bind (err_step (\<lambda>r. r) ''initialize conditions: '' (initializeConditionsIfNeeded env)) (\<lambda>_.
     step_bind (\<lambda>r. if Paused r = Some True
         then (let (e, r') = setConditions env [paused_condition ConditionTrue ''PausedByUser''
                 ''Reconciliation is paused via spec.paused=true''] r in (Inl (0, e), r'))
         else (Inr (), r)) (\<lambda>_.
     step_bind (err_step (\<lambda>r. r) ''reset reconcile paused state: ''
         (mergePatchStatus env None [paused_condition ConditionFalse ''NotPaused'' []])) (\<lambda>_.
     step_bind (\<lambda>r. if Phase r \<noteq> AerospikeClusterError
         then err_step (\<lambda>r. r) ''mark reconcile in progress: ''
           (mergePatchStatus env (Some AerospikeClusterInProgress)
              [ready_condition ConditionFalse ''Reconciling'' ''Reconcile in progress'']) r
         else (Inr (), r)) (\<lambda>_.
     step_bind (err_step (fail_with ''ClusterSetupFailed'') ''add finalizer: '' (sAddFinalizer st)) (\<lambda>_.
     step_bind (\<lambda>r. case sCheckPreviouslyFailed st r of
         ((hasFailed, res), r') \<Rightarrow>
           if \<not> ResIsSuccess res
           then (Inl (GetResult res), if ResErr res \<noteq> None then fail_with ''ClusterSetupFailed'' r' else r')
           else (Inr hasFailed, r')) (\<lambda>hasFailed.
     step_bind (\<lambda>r. if sMigrationNeeded st r then err_step (\<lambda>r. r) [] (sMigrate st hasFailed) r
         else (Inr (), r)) (\<lambda>_.
     step_bind (err_step (\<lambda>r. fail_with ''ServiceReconcileFailed'' (event st ''ServiceCreateFailed'' r))
         ''create or update headless Service: '' (sHeadlessSvc st)) (\<lambda>_ r.
       (Inr (), initPendingOpConditionReset r))))))))))"

text \<open>From the rack loop on.\<close>

definition reconcile_stages :: "'w env \<Rightarrow> 'w stages \<Rightarrow> ('w, unit) step" where
  "reconcile_stages env st =
     step_bind (res_step (\<lambda>r. fail_with ''RackReconcileFailed'' (event st ''UpdateFailed'' r)) (sRacks st)) (\<lambda>_.
     step_bind (err_step (\<lambda>r. fail_with ''PodDisruptionBudgetReconcileFailed''
         (event st ''PodDisruptionBudgetReconcileFailed'' r)) ''reconcile PodDisruptionBudget: '' (sPDB st)) (\<lambda>_.
     step_bind (err_step (\<lambda>r. fail_with ''ServiceReconcileFailed'' (event st ''ServiceCreateFailed'' r))
         ''reconcile LoadBalancer Service: '' (sLoadBalancerSvc st)) (\<lambda>_.
     step_bind (value_step (fail_with ''PodStateFetchFailed'') ''determine ignorable Pods: ''
         (sIgnorablePods st)) (\<lambda>ignorablePodNames.
     step_bind (value_step (fail_with ''PodStateFetchFailed'') ''get host connections for cluster nodes: ''
         (sHostConns st ignorablePodNames)) (\<lambda>allHostConns.
     step_bind (err_step (\<lambda>r. r) [] (undoQuiesceState st allHostConns)) (\<lambda>_.
     step_bind (err_step (\<lambda>r. fail_with ''AccessControlReconcileFailed'' (event st ''ACLUpdateFailed'' r))
         ''reconcile access control: '' (sAccessControl st ignorablePodNames)) (\<lambda>_.
     step_bind (\<lambda>r. case sRevertMFD st ignorablePodNames r of
         (res, r') \<Rightarrow>
           if ResIsSuccess res then (Inr (), r')
           else (case ResErr res of
             Some e \<Rightarrow> (Inl (0, Some (''revert migrate-fill-delay: '' @ e)), fail_with ''MigrateFillDelaySetFailed'' r')
           | None \<Rightarrow> (Inl (0, None), r'))) (\<lambda>_.
     step_bind (\<lambda>r. if sReclusterNeeded st r
         then err_step (fail_with ''ReclusterFailed'') ''run recluster: '' (sRecluster st allHostConns) r
         else (Inr (), r)) (\<lambda>_.
     step_bind (res_step (fail_with ''RosterSetFailed'') (sRoster st allHostConns ignorablePodNames)) (\<lambda>_.
     step_bind (err_step (\<lambda>r. fail_with ''StatusUpdateFailed'' (event st ''StatusUpdateFailed'' r))
         ''update AerospikeCluster status: '' (updateStatus env st)) (\<lambda>_ r.
       if ignorablePodNames \<noteq> [] then res_step (\<lambda>r. r) (sRecoverIgnorable st ignorablePodNames) r
       else (Inr (), r))))))))))))"

definition reconcile_body :: "'w env \<Rightarrow> 'w stages \<Rightarrow> 'w recon \<Rightarrow> outcome \<times> 'w recon" where
  "reconcile_body env st r =
     (case step_bind (reconcile_setup env st) (\<lambda>_. reconcile_stages env st) r of
        (Inl out, r') \<Rightarrow> (out, r')
      | (Inr _, r') \<Rightarrow> ((0, None), r'))"

text \<open>The deferred \<open>finishReconcile\<close> sets the returned error.\<close>

definition Reconcile :: "'w env \<Rightarrow> 'w stages \<Rightarrow> 'w recon \<Rightarrow> outcome \<times> 'w recon" where
  "Reconcile env st r =
     (let ((requeueAfter, recErr), r1) = reconcile_body env st r;
          (recErr', r2) = finishReconcile env recErr r1 in
      ((requeueAfter, recErr'), r2))"

section \<open>Steps\<close>

named_theorems step_simps "inversion of steps"

lemma step_bind_Inr [step_simps]:
  "step_bind m f r = (Inr b, r') \<longleftrightarrow> (\<exists>a r1. m r = (Inr a, r1) \<and> f a r1 = (Inr b, r'))"
  by (auto simp: step_bind_def split: prod.splits sum.splits)

lemma step_bind_Inl [step_simps]:
  "step_bind m f r = (Inl out, r') \<longleftrightarrow>
     m r = (Inl out, r') \<or> (\<exists>a r1. m r = (Inr a, r1) \<and> f a r1 = (Inl out, r'))"
  by (auto simp: step_bind_def split: prod.splits sum.splits)

lemma err_step_Inr [step_simps]: "err_step f p s r = (Inr u, r') \<longleftrightarrow> s r = (None, r')"
  by (auto simp: err_step_def split: prod.splits option.splits)

lemma err_step_Inl: "err_step f p s r = (Inl out, r') \<Longrightarrow> snd out \<noteq> None"
  by (auto simp: err_step_def split: prod.splits option.splits)

lemma value_step_Inl: "value_step f p s r = (Inl out, r') \<Longrightarrow> snd out \<noteq> None"
  by (auto simp: value_step_def split: prod.splits sum.splits)

text \<open>
  An unsuccessful result carries an error or a delay: what the three constructors of results
  build, with a positive delay.
\<close>

definition proper_result :: "ReconcileResult \<Rightarrow> bool" where
  "proper_result res \<longleftrightarrow> ResIsSuccess res \<or> ResErr res \<noteq> None \<or> 0 < ResRequeueAfter res"

lemma proper_results:
  "proper_result ReconcileSuccess" "proper_result (ReconcileError e)"
  "0 < secs \<Longrightarrow> proper_result (ReconcileRequeueAfter secs)"
  by (simp_all add: proper_result_def ReconcileSuccess_def ReconcileError_def ReconcileRequeueAfter_def)

definition proper_stages :: "'w stages \<Rightarrow> bool" where
  "proper_stages st \<longleftrightarrow>
     (\<forall>r. proper_result (snd (fst (sCheckPreviouslyFailed st r)))) \<and>
     (\<forall>r. proper_result (fst (sRacks st r))) \<and>
     (\<forall>p r. ResIsSuccess (fst (sRevertMFD st p r)) \<or> ResErr (fst (sRevertMFD st p r)) \<noteq> None) \<and>
     (\<forall>h p r. proper_result (fst (sRoster st h p r))) \<and>
     (\<forall>p r. proper_result (fst (sRecoverIgnorable st p r)) \<and>
        Conds (snd (sRecoverIgnorable st p r)) = Conds r \<and> Phase (snd (sRecoverIgnorable st p r)) = Phase r)"

lemma mergePatchStatus_keeps:
  assumes "mergePatchStatus env phase cs r = (e, r')"
  shows "Paused r' = Paused r" "Deleting r' = Deleting r" "Generation r' = Generation r"
proof -
  obtain r1 cand ch where m: "merge_conditions (SetCond env) cs r (Conds r) False = (r1, cand, ch)"
    by (cases "merge_conditions (SetCond env) cs r (Conds r) False")
  have "Paused (fold claim cs r) = Paused r" by (induction cs arbitrary: r) auto
  with merge_conditions_state [OF m] m assms
  show "Paused r' = Paused r" "Deleting r' = Deleting r" "Generation r' = Generation r"
    by (auto simp: mergePatchStatus_def addClusterPhaseMetric_def Let_def
        split: prod.splits sum.splits if_splits)
qed

lemma initializeConditions_keeps:
  "initializeConditionsIfNeeded env r = (e, r') \<Longrightarrow> Paused r' = Paused r \<and> Deleting r' = Deleting r"
  by (auto simp: initializeConditionsIfNeeded_def setConditions_def mergePatchStatus_keeps split: if_splits)

text \<open>A step that, when it makes the pass return, returns an error or a delay.\<close>

definition loud_at :: "('w, 'a) step \<Rightarrow> 'w recon \<Rightarrow> bool" where
  "loud_at m r \<longleftrightarrow> (\<forall>out r'. m r = (Inl out, r') \<longrightarrow> out \<noteq> (0, None))"

named_theorems loud_intros "steps that do not return silently"

lemma loud_bind [loud_intros]:
  "loud_at m r \<Longrightarrow> (\<And>a r1. m r = (Inr a, r1) \<Longrightarrow> loud_at (f a) r1) \<Longrightarrow> loud_at (step_bind m f) r"
  by (auto simp: loud_at_def step_bind_Inl)

lemma loud_err [loud_intros]: "loud_at (err_step f p s) r"
  by (auto simp: loud_at_def dest: err_step_Inl)

lemma loud_value [loud_intros]: "loud_at (value_step f p s) r"
  by (auto simp: loud_at_def dest: value_step_Inl)

lemma loud_res [loud_intros]: "proper_result (fst (s r)) \<Longrightarrow> loud_at (res_step f s) r"
  by (auto simp: loud_at_def res_step_def proper_result_def GetResult_def split: prod.splits if_splits)

lemma loud_if [loud_intros]:
  "(b r \<Longrightarrow> loud_at m r) \<Longrightarrow> loud_at (\<lambda>r. if b r then m r else (Inr (), r)) r"
  by (auto simp: loud_at_def)

lemma loud_setup:
  assumes "proper_stages st" "\<not> Deleting r" "Paused r \<noteq> Some True"
  shows "loud_at (reconcile_setup env st) r"
  unfolding reconcile_setup_def
proof (intro loud_intros)
  fix a :: unit and r1
  assume "(if Deleting r then (let (e, r') = handleTerminatingCluster env st r in (Inl (0, e), r')) else (Inr (), r)) =
    (Inr a, r1)"
  then have [simp]: "r1 = r" using assms(2) by simp
  fix b :: unit and r2
  assume "err_step (\<lambda>r. r) ''initialize conditions: '' (initializeConditionsIfNeeded env) r1 = (Inr b, r2)"
  then have "Paused r2 = Paused r"
    using initializeConditions_keeps [of env r None r2] by (simp add: err_step_Inr)
  with assms(3) show "Paused r2 = Some True \<Longrightarrow>
      loud_at (\<lambda>r. let (e, r') = setConditions env [paused_condition ConditionTrue ''PausedByUser''
         ''Reconciliation is paused via spec.paused=true''] r in (Inl (0, e), r')) r2" by simp
next
  show "Deleting r \<Longrightarrow> loud_at (\<lambda>r. let (e, r') = handleTerminatingCluster env st r in (Inl (0, e), r')) r"
    using assms(2) by simp
next
  show "loud_at (\<lambda>r. case sCheckPreviouslyFailed st r of ((hasFailed, res), r') \<Rightarrow>
      if \<not> ResIsSuccess res
      then (Inl (GetResult res), if ResErr res \<noteq> None then fail_with ''ClusterSetupFailed'' r' else r')
      else (Inr hasFailed, r')) r1" for r1
  proof -
    obtain h res r2 where c: "sCheckPreviouslyFailed st r1 = ((h, res), r2)"
      by (metis surj_pair)
    have "proper_result (snd (fst (sCheckPreviouslyFailed st r1)))"
      using assms(1) by (simp add: proper_stages_def)
    then show ?thesis by (auto simp: loud_at_def c proper_result_def GetResult_def)
  qed
qed (auto simp: loud_at_def)

lemma loud_stages:
  assumes "proper_stages st"
  shows "loud_at (reconcile_stages env st) r"
  unfolding reconcile_stages_def
proof (intro loud_intros)
  show "loud_at (\<lambda>r. case sRevertMFD st p r of (res, r') \<Rightarrow>
      if ResIsSuccess res then (Inr (), r')
      else (case ResErr res of
        None \<Rightarrow> (Inl (0, None), r')
      | Some e \<Rightarrow> (Inl (0, Some (''revert migrate-fill-delay: '' @ e)), fail_with ''MigrateFillDelaySetFailed'' r'))) r1" for p r1
  proof -
    have "ResIsSuccess (fst (sRevertMFD st p r1)) \<or> ResErr (fst (sRevertMFD st p r1)) \<noteq> None"
      using assms by (simp add: proper_stages_def)
    then show ?thesis by (auto simp: loud_at_def split: prod.splits option.splits)
  qed
qed (use assms in \<open>auto simp: proper_stages_def\<close>)

section \<open>The end of a successful pass\<close>

lemma stages_completed:
  assumes "reconcile_stages env st r = (Inr u, r')"
  shows "\<exists>r1 r2. updateStatus env st r1 = (None, r2) \<and> (r' = r2 \<or> (\<exists>p. r' = snd (sRecoverIgnorable st p r2)))"
proof -
  obtain p r1 r2 where "updateStatus env st r1 = (None, r2)"
      "(if p \<noteq> [] then res_step (\<lambda>r. r) (sRecoverIgnorable st p) r2 else (Inr (), r2)) = (Inr u, r')"
    using assms unfolding reconcile_stages_def step_bind_Inr err_step_Inr by blast
  moreover from this(2) have "r' = r2 \<or> r' = snd (sRecoverIgnorable st p r2)"
    by (auto simp: res_step_def split: if_splits prod.splits)
  ultimately show ?thesis by blast
qed

lemma fold_set_cond:
  assumes "set_cond_laws sc" "distinct (map CondType cs)"
  shows "(\<forall>c\<in>set cs. cond_of (fold (\<lambda>c cs. fst (sc cs c)) cs base) (CondType c) = Some c) \<and>
    (\<forall>t. t \<notin> CondType ` set cs \<longrightarrow> cond_of (fold (\<lambda>c cs. fst (sc cs c)) cs base) t = cond_of base t)"
  using assms(2)
proof (induction cs arbitrary: base)
  case Nil
  show ?case by simp
next
  case (Cons c cs)
  obtain base' ch where s: "sc base c = (base', ch)" by (cases "sc base c")
  note l = set_cond_D [OF assms(1) s]
  have "CondType c \<notin> CondType ` set cs" "distinct (map CondType cs)" using Cons.prems by auto
  with Cons.IH [of base'] l(1,2) show ?case by (auto simp: s)
qed

text \<open>A completed status: the phase, Ready True, every operation condition at rest.\<close>

definition completed_status :: "'w recon \<Rightarrow> bool" where
  "completed_status r \<longleftrightarrow>
     Phase r = AerospikeClusterCompleted \<and>
     map_option CondStatus (cond_of (Conds r) ConditionReady) = Some ConditionTrue \<and>
     (\<forall>op\<in>set operationConditions.
        map_option (\<lambda>c. (CondStatus c, CondReason c)) (cond_of (Conds r) (fst op)) = Some (ConditionFalse, snd op))"

lemma updateStatus_completed:
  assumes "env_laws env" "updateStatus env st r = (None, r')"
  shows "completed_status r'"
proof -
  let ?cs = "completed_conditions r"
  have sc: "set_cond_laws (SetCond env)" using assms(1) by (simp add: env_laws_def)
  have d: "distinct (map CondType ?cs)"
    by (simp add: completed_conditions_def ready_condition_def opConditionAtRest_def comp_def
        operationConditions_def ConditionReady_def)
  have r': "Conds r' = fold (\<lambda>c cs. fst (SetCond env cs c)) ?cs (Conds r)" "Phase r' = AerospikeClusterCompleted"
    using assms(2) by (auto simp: updateStatus_def Let_def addClusterPhaseMetric_def
        split: sum.splits prod.splits option.splits)
  have c: "cond_of (Conds r') (CondType c) = Some c" if "c \<in> set ?cs" for c
    using fold_set_cond [OF sc d, of "Conds r"] that by (simp add: r'(1))
  have "cond_of (Conds r') ConditionReady = Some (hd ?cs)"
    using c [of "hd ?cs"] by (simp add: completed_conditions_def ready_condition_def)
  moreover have "cond_of (Conds r') (fst op) = Some ((opConditionAtRest op)\<lparr>CondObservedGeneration := Generation r\<rparr>)"
    if "op \<in> set operationConditions" for op
    using c [of "(opConditionAtRest op)\<lparr>CondObservedGeneration := Generation r\<rparr>"] that
    by (simp add: completed_conditions_def opConditionAtRest_def)
  ultimately show ?thesis
    by (simp add: completed_status_def r'(2) completed_conditions_def ready_condition_def opConditionAtRest_def)
qed

lemma finish_keeps_completed:
  assumes "env_laws env" "finishReconcile env None r = (None, r')" "completed_status r"
  shows "completed_status r'"
proof (cases "Deleting r")
  case True
  with assms(2,3) show ?thesis by (simp add: finishReconcile_def writeTerminalStatus_def)
next
  case False
  have "writeTerminalStatus env None r = (None, r')"
    using assms(2) by (auto simp: finishReconcile_def split: prod.splits)
  note e = exit_status_clears [OF assms(1) False this]
  have dist: "distinct (map fst operationConditions)" by (simp add: operationConditions_def)
  have ready: "ConditionReady \<notin> fst ` set operationConditions"
    by (simp add: operationConditions_def ConditionReady_def)
  have "map_option (\<lambda>c. (CondStatus c, CondReason c)) (cond_of (Conds r') (fst op)) = Some (ConditionFalse, snd op)"
    if op: "op \<in> set operationConditions" for op
  proof -
    have "map_of operationConditions (fst op) = Some (snd op)" using op dist by simp
    with e op assms(3) show ?thesis by (auto simp: completed_status_def opConditionAtRest_def)
  qed
  then show ?thesis using e ready assms(3) by (simp add: completed_status_def)
qed

section \<open>Properties\<close>


definition ref_stages :: "nat stages" where
  "ref_stages =
     \<lparr>sEventf = (\<lambda>_ w. w), sHandleClusterDeletion = (\<lambda>r. (None, r)), sRemovePhaseMetric = (\<lambda>r. r),
      sAddFinalizer = (\<lambda>r. (None, r)), sCheckPreviouslyFailed = (\<lambda>r. ((False, ReconcileSuccess), r)),
      sMigrationNeeded = (\<lambda>_. False), sMigrate = (\<lambda>_ r. (None, r)), sHeadlessSvc = (\<lambda>r. (None, r)),
      sRacks = (\<lambda>r. (ReconcileSuccess, r)), sPDB = (\<lambda>r. (None, r)), sLoadBalancerSvc = (\<lambda>r. (None, r)),
      sIgnorablePods = (\<lambda>r. (Inr [], r)), sHostConns = (\<lambda>_ r. (Inr [], r)),
      sQuiesceUndo = (\<lambda>_ r. (None, r)), sClearQuiesceAnnotations = (\<lambda>r. (None, r)),
      sAccessControl = (\<lambda>_ r. (None, r)), sRevertMFD = (\<lambda>_ r. (ReconcileSuccess, r)),
      sReclusterNeeded = (\<lambda>_. True), sRecluster = (\<lambda>_ r. (None, r)), sRoster = (\<lambda>_ _ r. (ReconcileSuccess, r)),
      sGetCluster = (\<lambda>w. Inr (4, ''3'', False, None, True)), sReadinessStatus = (\<lambda>_. Inr True),
      sPatchStatusJSON = (\<lambda>_ _ w. (None, Suc w)), sRecoverIgnorable = (\<lambda>_ r. (ReconcileSuccess, r))\<rparr>"


text \<open>
  Fact. A pass over a paused cluster runs no stage: when it returns without an error, the
  Paused condition is True and the phase and every other condition are what they were.
\<close>

theorem paused_pass_frozen:
  assumes "env_laws env" and "\<not> Deleting r" and "Paused r = Some True" and "Conds r \<noteq> []"
    and "pendingOpReset r = None" and "Reconcile env st r = ((q, None), r')"
  shows "Phase r' = Phase r \<and>
    map_option CondStatus (cond_of (Conds r') ConditionPaused) = Some ConditionTrue \<and>
    (\<forall>t. t = ConditionPaused \<or> cond_of (Conds r') t = cond_of (Conds r) t)"
proof -
  let ?c = "paused_condition ConditionTrue ''PausedByUser'' ''Reconciliation is paused via spec.paused=true''"
  obtain e r1 where m: "mergePatchStatus env None [?c] r = (e, r1)"
    by (cases "mergePatchStatus env None [?c] r")
  have "reconcile_body env st r = ((0, e), r1)"
    using assms(2-4) m
    by (simp add: reconcile_body_def reconcile_setup_def step_bind_def err_step_def
        initializeConditionsIfNeeded_def setConditions_def)
  with assms(6) have e: "e = None" "finishReconcile env None r1 = (None, r')"
    by (cases e; auto simp: Reconcile_def finishReconcile_def Let_def split: prod.splits)+
  have d: "distinct (map CondType [?c])" by simp
  note m1 = mergePatchStatus_effect [OF assms(1) d m [unfolded e(1)]]
  have "pendingOpReset r1 = None"
    using mergePatchStatus_claims [OF m] assms(5) by (simp add: claim_def)
  then have clear: "opConditionsToClear r1 = []" by (simp add: opConditionsToClear_def pending_has_def)
  have "\<not> Deleting r1" using mergePatchStatus_keeps(2) [OF m] assms(2) by simp
  then have "mergePatchStatus env None [] r1 = (None, r')"
    using e(2) clear by (auto simp: finishReconcile_def writeTerminalStatus_def split: prod.splits)
  note m2 = mergePatchStatus_effect [OF assms(1) _ this]
  show ?thesis using m1 m2 by (auto simp: paused_condition_def)
qed

theorem paused_pass_frozen_witness:
  "Phase (snd (Reconcile ref_env ref_stages (example_recon\<lparr>Paused := Some True, pendingOpReset := None\<rparr>))) = ''InProgress''"
proof -
  let ?r = "example_recon\<lparr>Paused := Some True, pendingOpReset := None\<rparr>"
  let ?x = "Reconcile ref_env ref_stages ?r"
  have "fst ?x = (0, None)" by code_simp
  then have x: "?x = ((0, None), snd ?x)" by (metis prod.collapse)
  have "Phase (snd ?x) = Phase ?r"
    by (rule conjunct1 [OF paused_pass_frozen [OF ref_env_laws _ _ _ _ x]])
      (simp_all add: example_recon_def initPendingOpConditionReset_def)
  then show ?thesis by (simp add: example_recon_def initPendingOpConditionReset_def)
qed

end
