(* ===== verification/Naming.thy ===== *)
theory Naming
  imports Cluster_Spec
begin

text \<open>
  Names and labels of the Kubernetes objects of a cluster (\<^verbatim>\<open>pkg/utils/utils.go\<close> and the pod-name
  parser of \<^verbatim>\<open>pkg/utils/pod.go\<close>): how a rack's StatefulSet and pods are named, how rack and
  revision are read back from a name, and the label sets and selectors that address a rack.
\<close>

section \<open>Names\<close>

definition NamespacedName :: "string \<Rightarrow> string \<Rightarrow> string" where
  "NamespacedName namespace name = namespace @ ''/'' @ name"

definition ClusterNamespacedName :: "AerospikeCluster \<Rightarrow> string" where
  "ClusterNamespacedName c = NamespacedName (ClusterNamespace c) (ClusterName c)"

definition NamespacedNames :: "string \<Rightarrow> string list \<Rightarrow> string list" where
  "NamespacedNames namespace names = map (NamespacedName namespace) names"

text \<open>\<^verbatim>\<open>types.NamespacedName\<close>\<close>

record k8s_name =
  ObjNamespace :: string
  ObjName :: string

definition NewNamespacedName :: "string \<Rightarrow> string \<Rightarrow> k8s_name" where
  "NewNamespacedName namespace name = \<lparr>ObjNamespace = namespace, ObjName = name\<rparr>"

definition GetRackIdentifier :: "int \<Rightarrow> string \<Rightarrow> string" where
  "GetRackIdentifier rackID rackRevision =
     (if rackRevision \<noteq> [] then Itoa rackID @ ''-'' @ rackRevision else Itoa rackID)"

definition GetNamespacedNameForSTSOrConfigMap :: "AerospikeCluster \<Rightarrow> string \<Rightarrow> k8s_name" where
  "GetNamespacedNameForSTSOrConfigMap aeroCluster rackIdentifier =
     \<lparr>ObjNamespace = ClusterNamespace aeroCluster,
      ObjName = ClusterName aeroCluster @ ''-'' @ rackIdentifier\<rparr>"

definition GetSTSPodName :: "string \<Rightarrow> int \<Rightarrow> string" where
  "GetSTSPodName stsName ordinal = stsName @ ''-'' @ Itoa ordinal"

datatype name_error = NoRackID string | InvalidPodName string | InvalidRackID string

definition GetRackIDAndRevisionFromSTSName ::
  "string \<Rightarrow> string \<Rightarrow> (name_error, int \<times> string) res" where
  "GetRackIDAndRevisionFromSTSName clusterName statefulSetName =
     (let rackIdentifier = TrimPrefix statefulSetName (clusterName @ ''-'');
          parts = SplitN2 (CHR ''-'') rackIdentifier
      in case Atoi (hd parts) of
           None \<Rightarrow> Err (NoRackID rackIdentifier)
         | Some rackID \<Rightarrow> Ok (rackID, if length parts > 1 then parts ! 1 else []))"

definition GetRackIDAndRevisionFromPodName ::
  "string \<Rightarrow> string \<Rightarrow> (name_error, int \<times> string) res" where
  "GetRackIDAndRevisionFromPodName clusterName podName =
     (let rackAndPodIndexPart = TrimPrefix podName (clusterName @ ''-'');
          parts = Split (CHR ''-'') rackAndPodIndexPart
      in if length parts < 2 then Err (InvalidPodName podName)
         else
           let rackRevision = (if length parts = 2 then []
                               else Join (take (length parts - 2) (drop 1 parts)) ''-'')
           in case Atoi (hd parts) of
                None \<Rightarrow> Err (InvalidRackID podName)
              | Some rackID \<Rightarrow> Ok (rackID, rackRevision))"

section \<open>Labels\<close>

definition AerospikeAppLabel :: string where "AerospikeAppLabel = ''app''"
definition AerospikeAppLabelValue :: string where "AerospikeAppLabelValue = ''aerospike-cluster''"
definition AerospikeCustomResourceLabel :: string where "AerospikeCustomResourceLabel = ''aerospike.com/cr''"
definition AerospikeRackIDLabel :: string where "AerospikeRackIDLabel = ''aerospike.com/rack-id''"
definition AerospikeRackRevisionLabel :: string where
  "AerospikeRackRevisionLabel = ''aerospike.com/rack-revision''"
definition AerospikeBackupServiceKey :: string where
  "AerospikeBackupServiceKey = ''aerospike-backup-service''"

lemmas label_keys =
  AerospikeAppLabel_def AerospikeAppLabelValue_def AerospikeCustomResourceLabel_def
  AerospikeRackIDLabel_def AerospikeRackRevisionLabel_def AerospikeBackupServiceKey_def

definition LabelsForAerospikeCluster :: "string \<Rightarrow> string gomap" where
  "LabelsForAerospikeCluster clName =
     [(AerospikeAppLabel, ''aerospike-cluster''), (AerospikeCustomResourceLabel, clName)]"

definition LabelsForAerospikeClusterRack :: "string \<Rightarrow> int \<Rightarrow> string \<Rightarrow> string gomap" where
  "LabelsForAerospikeClusterRack clName rackID rackRevision =
     (let labels = gomap_put AerospikeRackIDLabel (Itoa rackID) (LabelsForAerospikeCluster clName)
      in if rackRevision \<noteq> [] then gomap_put AerospikeRackRevisionLabel rackRevision labels
         else labels)"

definition LabelsForPodAntiAffinity :: "string \<Rightarrow> string gomap" where
  "LabelsForPodAntiAffinity clName = LabelsForAerospikeCluster clName"

definition LabelsForAerospikeBackupService :: "string \<Rightarrow> string gomap" where
  "LabelsForAerospikeBackupService clName =
     [(AerospikeAppLabel, AerospikeBackupServiceKey), (AerospikeCustomResourceLabel, clName)]"

text \<open>
  A label selector as the operator builds it: \<^verbatim>\<open>SelectorFromSet\<close> requires equality for each label
  of a set, and one \<^verbatim>\<open>DoesNotExist\<close> requirement may be added.
\<close>

datatype requirement = LabelEquals string string | LabelDoesNotExist string

definition GetAerospikeClusterRackLabelSelector ::
  "string \<Rightarrow> int \<Rightarrow> string \<Rightarrow> requirement list" where
  "GetAerospikeClusterRackLabelSelector clName rackID rackRevision =
     map (\<lambda>(k, v). LabelEquals k v) (LabelsForAerospikeClusterRack clName rackID rackRevision) @
     (if rackRevision = [] then [LabelDoesNotExist AerospikeRackRevisionLabel] else [])"

definition MergeLabels :: "string gomap \<Rightarrow> string gomap \<Rightarrow> string gomap" where
  "MergeLabels operatorLabels userLabels =
     gomap_put_all operatorLabels (gomap_put_all userLabels [])"

section \<open>Small helpers of the package\<close>

fun ContainsString :: "string list \<Rightarrow> string \<Rightarrow> bool" where
  "ContainsString [] s = False"
| "ContainsString (item # xs) s = (if item = s then True else ContainsString xs s)"

fun RemoveString :: "string list \<Rightarrow> string \<Rightarrow> string list" where
  "RemoveString [] s = []"
| "RemoveString (item # xs) s = (if item = s then RemoveString xs s else item # RemoveString xs s)"

text \<open>Owner references are given by their UIDs.\<close>

fun IsOwnedBy :: "string list \<Rightarrow> string \<Rightarrow> bool" where
  "IsOwnedBy [] parentUID = False"
| "IsOwnedBy (uid # refs) parentUID = (if uid = parentUID then True else IsOwnedBy refs parentUID)"

section \<open>Facts\<close>

lemma ContainsString_iff [simp]: "ContainsString xs s \<longleftrightarrow> s \<in> set xs"
  by (induction xs) auto

lemma RemoveString_filter: "RemoveString xs s = filter (\<lambda>x. x \<noteq> s) xs"
  by (induction xs) auto

lemma rack_identifier_SplitN2:
  assumes "0 \<le> rackID"
  shows "SplitN2 (CHR ''-'') (GetRackIdentifier rackID rrev) =
    (if rrev = [] then [Itoa rackID] else [Itoa rackID, rrev])"
  using Itoa_nonneg_no_dash [OF assms]
  by (simp add: GetRackIdentifier_def SplitN2_no_sep SplitN2_append_sep)

lemma rack_identifier_Split:
  assumes "0 \<le> rackID"
  shows "Split (CHR ''-'') (GetRackIdentifier rackID rrev) =
    Itoa rackID # (if rrev = [] then [] else Split (CHR ''-'') rrev)"
  using Itoa_nonneg_no_dash [OF assms]
  by (simp add: GetRackIdentifier_def Split_no_sep Split_append_sep)

lemma sts_name_trim:
  "TrimPrefix (ObjName (GetNamespacedNameForSTSOrConfigMap c ident)) (ClusterName c @ ''-'') = ident"
proof -
  have "ObjName (GetNamespacedNameForSTSOrConfigMap c ident) = (ClusterName c @ ''-'') @ ident"
    by (simp add: GetNamespacedNameForSTSOrConfigMap_def)
  then show ?thesis by (metis TrimPrefix_append)
qed

lemma pod_name_trim:
  "TrimPrefix (GetSTSPodName (ObjName (GetNamespacedNameForSTSOrConfigMap c ident)) n)
     (ClusterName c @ ''-'') = ident @ ''-'' @ Itoa n"
proof -
  have "GetSTSPodName (ObjName (GetNamespacedNameForSTSOrConfigMap c ident)) n =
      (ClusterName c @ ''-'') @ (ident @ ''-'' @ Itoa n)"
    by (simp add: GetNamespacedNameForSTSOrConfigMap_def GetSTSPodName_def)
  then show ?thesis by (metis TrimPrefix_append)
qed

lemma sts_name_parse:
  assumes "0 \<le> rackID" and "rackID < 2 ^ 63"
  shows "GetRackIDAndRevisionFromSTSName (ClusterName c)
      (ObjName (GetNamespacedNameForSTSOrConfigMap c (GetRackIdentifier rackID rrev))) = Ok (rackID, rrev)"
proof -
  have "Atoi (Itoa rackID) = Some rackID"
    using assms by (intro Atoi_Itoa) auto
  with assms(1) show ?thesis
    by (simp add: GetRackIDAndRevisionFromSTSName_def sts_name_trim rack_identifier_SplitN2 Let_def)
qed

lemma pod_name_parse:
  assumes "0 \<le> rackID" and "rackID < 2 ^ 63" and "0 \<le> n"
  shows "GetRackIDAndRevisionFromPodName (ClusterName c)
      (GetSTSPodName
         (ObjName (GetNamespacedNameForSTSOrConfigMap c (GetRackIdentifier rackID rrev))) n) =
    Ok (rackID, rrev)"
proof -
  have atoi: "Atoi (Itoa rackID) = Some rackID"
    using assms(1,2) by (intro Atoi_Itoa) auto
  have "Split (CHR ''-'') (GetRackIdentifier rackID rrev @ ''-'' @ Itoa n) =
      Split (CHR ''-'') (GetRackIdentifier rackID rrev) @ [Itoa n]"
    using Split_snoc_sep [OF Itoa_nonneg_no_dash [OF assms(3)]] by simp
  also have "\<dots> = Itoa rackID # (if rrev = [] then [] else Split (CHR ''-'') rrev) @ [Itoa n]"
    using rack_identifier_Split [OF assms(1)] by simp
  finally have parts: "Split (CHR ''-'') (GetRackIdentifier rackID rrev @ ''-'' @ Itoa n) =
      Itoa rackID # (if rrev = [] then [] else Split (CHR ''-'') rrev) @ [Itoa n]" .
  have "0 < length (Split (CHR ''-'') rrev)" by simp
  with atoi parts show ?thesis
    by (auto simp: GetRackIDAndRevisionFromPodName_def pod_name_trim Let_def Join_Split
        simp del: length_greater_0_conv)
qed

lemma gomap_ok_rack_labels: "gomap_ok (LabelsForAerospikeClusterRack cl r rrev)"
  by (auto simp: LabelsForAerospikeClusterRack_def LabelsForAerospikeCluster_def Let_def
      gomap_ok_def label_keys)

lemma rack_labels_get:
  "gomap_get (LabelsForAerospikeClusterRack cl r rrev) k =
     (if k = AerospikeAppLabel then Some ''aerospike-cluster''
      else if k = AerospikeCustomResourceLabel then Some cl
      else if k = AerospikeRackIDLabel then Some (Itoa r)
      else if k = AerospikeRackRevisionLabel \<and> rrev \<noteq> [] then Some rrev else None)"
  by (auto simp: LabelsForAerospikeClusterRack_def LabelsForAerospikeCluster_def Let_def
      gomap_simps label_keys)

lemma Itoa_inj: "0 \<le> i \<Longrightarrow> 0 \<le> j \<Longrightarrow> Itoa i = Itoa j \<Longrightarrow> i = j"
  by (metis Itoa_def digits_val_Itoa nat_eq_iff2 not_less option.inject)

section \<open>Properties\<close>

text \<open>
  Property C35. The rack and revision the operator reads back from a StatefulSet's name and from a
  pod's name are the ones the names were built from, whatever the revision holds (dashes
  included).
\<close>

theorem name_round_trip:
  assumes "0 \<le> rackID" and "rackID < 2 ^ 63" and "0 \<le> n"
  shows "GetRackIDAndRevisionFromSTSName (ClusterName c)
      (ObjName (GetNamespacedNameForSTSOrConfigMap c (GetRackIdentifier rackID rrev))) = Ok (rackID, rrev) \<and>
    GetRackIDAndRevisionFromPodName (ClusterName c)
      (GetSTSPodName
         (ObjName (GetNamespacedNameForSTSOrConfigMap c (GetRackIdentifier rackID rrev))) n) =
    Ok (rackID, rrev)"
  using sts_name_parse [OF assms(1,2)] pod_name_parse [OF assms] by blast

definition example_cluster :: AerospikeCluster where
  "example_cluster = \<lparr>ClusterName = ''aero-1'', ClusterNamespace = ''ns'', ClusterLabels = [],
     ClusterSpec = no_spec\<lparr>SpecImage := ''aerospike/aerospike-server:8.1.0.0''\<rparr>, ClusterStatus = no_status\<rparr>"

theorem name_round_trip_witness:
  "GetSTSPodName (ObjName (GetNamespacedNameForSTSOrConfigMap example_cluster
      (GetRackIdentifier 2 ''v-2''))) 0 = ''aero-1-2-v-2-0'' \<and>
   GetRackIDAndRevisionFromPodName (ClusterName example_cluster) ''aero-1-2-v-2-0'' = Ok (2, ''v-2'')"
proof -
  have "GetSTSPodName (ObjName (GetNamespacedNameForSTSOrConfigMap example_cluster
      (GetRackIdentifier 2 ''v-2''))) 0 = ''aero-1-2-v-2-0''" by code_simp
  with name_round_trip [of 2 0 example_cluster "''v-2''"] show ?thesis by auto
qed

text \<open>Which label sets a selector selects (\<^verbatim>\<open>labels.Selector.Matches\<close>).\<close>

fun satisfies :: "string gomap \<Rightarrow> requirement \<Rightarrow> bool" where
  "satisfies labels (LabelEquals k v) \<longleftrightarrow> gomap_get labels k = Some v"
| "satisfies labels (LabelDoesNotExist k) \<longleftrightarrow> gomap_get labels k = None"

definition selects :: "requirement list \<Rightarrow> string gomap \<Rightarrow> bool" where
  "selects reqs labels \<longleftrightarrow> list_all (satisfies labels) reqs"

lemma selects_rack_iff:
  "selects (GetAerospikeClusterRackLabelSelector cl r rrev) labels \<longleftrightarrow>
     gomap_get labels AerospikeAppLabel = Some ''aerospike-cluster'' \<and>
     gomap_get labels AerospikeCustomResourceLabel = Some cl \<and>
     gomap_get labels AerospikeRackIDLabel = Some (Itoa r) \<and>
     gomap_get labels AerospikeRackRevisionLabel = (if rrev = [] then None else Some rrev)"
  by (auto simp: selects_def GetAerospikeClusterRackLabelSelector_def LabelsForAerospikeClusterRack_def
      LabelsForAerospikeCluster_def Let_def label_keys)

text \<open>
  Fact. The label selector of a rack selects a pod of a cluster exactly when cluster, rack
  and revision are its own, although user labels are merged with the operator's: with an empty
  revision the pods of the rack's revisions are left out.
\<close>

theorem rack_selector_exact:
  assumes "0 \<le> r" and "0 \<le> r'" and "gomap_ok user"
    and "gomap_get user AerospikeRackRevisionLabel = None"
  shows "selects (GetAerospikeClusterRackLabelSelector cl r rrev)
           (MergeLabels (LabelsForAerospikeClusterRack cl' r' rrev') user) \<longleftrightarrow>
         cl = cl' \<and> r = r' \<and> rrev = rrev'"
proof -
  let ?ops = "LabelsForAerospikeClusterRack cl' r' rrev'"
  have "gomap_get (MergeLabels ?ops user) k =
      (case gomap_get ?ops k of Some v \<Rightarrow> Some v | None \<Rightarrow> gomap_get user k)" for k
    using gomap_ok_rack_labels [of cl' r' rrev'] assms(3)
    by (simp add: MergeLabels_def gomap_get_put_all split: option.split)
  then show ?thesis
    using assms(4) Itoa_inj [OF assms(1,2)]
    by (auto simp: selects_rack_iff rack_labels_get label_keys split: if_splits)
qed

theorem rack_selector_witness:
  "selects (GetAerospikeClusterRackLabelSelector ''aero'' 1 [])
     (MergeLabels (LabelsForAerospikeClusterRack ''aero'' 1 []) [(''team'', ''db''), (''app'', ''x'')]) \<and>
   \<not> selects (GetAerospikeClusterRackLabelSelector ''aero'' 1 [])
     (MergeLabels (LabelsForAerospikeClusterRack ''aero'' 1 ''v2'') [(''team'', ''db''), (''app'', ''x'')])"
  using rack_selector_exact [of 1 1 "[(''team'', ''db''), (''app'', ''x'')]" "''aero''" "[]" "''aero''" "[]"]
    rack_selector_exact [of 1 1 "[(''team'', ''db''), (''app'', ''x'')]" "''aero''" "[]" "''aero''" "''v2''"]
  by (simp add: gomap_ok_def gomap_get_def label_keys)

end
