(* ===== verification/Pod_Health.thy ===== *)
theory Pod_Health
  imports Naming
begin

text \<open>
  \<^verbatim>\<open>pkg/utils/pod.go\<close>: what the operator reads off a pod: failure with a grace period, readiness, an
  index-checkpoint park, membership in an Aerospike cluster. A pod is the record of the fields
  read; a point in time is a number of nanoseconds, and the current time and the environment are
  arguments.
\<close>

section \<open>Pods\<close>

record terminated_state =
  TermReason :: string
  TermMessage :: string

record waiting_state =
  WaitReason :: string
  WaitMessage :: string

record ContainerStatus =
  CsName :: string
  CsReady :: bool
  CsContainerID :: string
  CsTerminated :: "terminated_state option"
  CsWaiting :: "waiting_state option"

record PodCondition =
  PcType :: string
  PcStatus :: string
  PcReason :: string
  PcMessage :: string
  PcTransition :: int

text \<open>A container of a pod's specification: name, image, arguments and ports by name.\<close>

record ContainerPort =
  PortName :: string
  PortContainerPort :: int
  PortHostPort :: int

record PodContainer =
  KcName :: string
  KcImage :: string
  KcArgs :: "string list"
  KcPorts :: "ContainerPort list"

record Pod =
  PodName :: string
  PodLabels :: "string gomap"
  PodAnnotations :: "string gomap"
  PodDeletionTimestamp :: "int option"
  PodCreationTimestamp :: int
  PodPhase :: string
  PodReason :: string
  PodMessage :: string
  PodConditions :: "PodCondition list"
  InitContainerStatuses :: "ContainerStatus list"
  ContainerStatuses :: "ContainerStatus list"
  PodNodeName :: string
  PodContainers :: "PodContainer list"
  PodInitContainers :: "PodContainer list"

datatype PodHealthState = PodHealthy | PodFailedInGrace | PodFailed

record PodState =
  PsReason :: string
  PsState :: PodHealthState

section \<open>Failure of containers\<close>

definition isTerminatedWithError :: "string \<Rightarrow> bool" where
  "isTerminatedWithError reason \<longleftrightarrow> reason \<noteq> [] \<and> reason \<noteq> ''Completed'' \<and> reason \<noteq> ''OOMKilled''"

definition isPodImageError :: "string \<Rightarrow> bool" where
  "isPodImageError reason \<longleftrightarrow>
     reason = ''ErrImagePull'' \<or> reason = ''ImageInspectError'' \<or> reason = ''ImagePullBackOff'' \<or>
     reason = ''RegistryUnavailable''"

definition isPodCrashError :: "string \<Rightarrow> bool" where
  "isPodCrashError reason = HasPrefix reason ''Crash''"

definition isPodError :: "string \<Rightarrow> bool" where
  "isPodError reason = HasSuffix reason ''Error''"

definition isWaitingWithError :: "string \<Rightarrow> bool" where
  "isWaitingWithError reason \<longleftrightarrow> isPodImageError reason \<or> isPodCrashError reason \<or> isPodError reason"

definition formatContainerFailureReason :: "string \<Rightarrow> string \<Rightarrow> string \<Rightarrow> string" where
  "formatContainerFailureReason containerName message reason =
     ''pod failed message in container '' @ containerName @ '': '' @ message @ '' reason: '' @ reason"

definition containerFailureReason :: "ContainerStatus \<Rightarrow> string" where
  "containerFailureReason c =
     (case CsTerminated c of
        Some t \<Rightarrow>
          if isTerminatedWithError (TermReason t)
          then formatContainerFailureReason (CsName c) (TermMessage t) (TermReason t)
          else (case CsWaiting c of
                  Some w \<Rightarrow> if isWaitingWithError (WaitReason w)
                    then formatContainerFailureReason (CsName c) (WaitMessage w) (WaitReason w) else []
                | None \<Rightarrow> [])
      | None \<Rightarrow>
          (case CsWaiting c of
             Some w \<Rightarrow> if isWaitingWithError (WaitReason w)
               then formatContainerFailureReason (CsName c) (WaitMessage w) (WaitReason w) else []
           | None \<Rightarrow> []))"

fun first_reason :: "ContainerStatus list \<Rightarrow> string" where
  "first_reason [] = []"
| "first_reason (c # cs) = (if containerFailureReason c \<noteq> [] then containerFailureReason c else first_reason cs)"

definition checkContainerFailures :: "Pod \<Rightarrow> bool \<Rightarrow> string" where
  "checkContainerFailures pod includeSidecarFailures =
     first_reason (InitContainerStatuses pod @
       filter (\<lambda>cs. CsName cs = AerospikeServerContainerName \<or> includeSidecarFailures) (ContainerStatuses pod))"

section \<open>Failure of pods\<close>

definition scheduling_failure :: "PodCondition \<Rightarrow> bool" where
  "scheduling_failure c \<longleftrightarrow>
     PcType c = ''PodScheduled'' \<and> (PcReason c = ''Unschedulable'' \<or> PcReason c = ''SchedulerError'')"

definition IsPodReasonUnschedulable :: "Pod \<Rightarrow> bool \<times> string" where
  "IsPodReasonUnschedulable pod =
     (case find scheduling_failure (PodConditions pod) of
        Some c \<Rightarrow> (True, PcMessage c)
      | None \<Rightarrow> (False, []))"

definition checkPodFailureReason :: "Pod \<Rightarrow> bool \<Rightarrow> string" where
  "checkPodFailureReason pod includeSidecarFailures =
     (if PodPhase pod = ''Failed''
      then ''pod '' @ PodName pod @ '' has failed status with reason: '' @ PodReason pod @
           '' and message: '' @ PodMessage pod
      else if PodPhase pod = ''Pending'' \<and> fst (IsPodReasonUnschedulable pod)
      then ''pod '' @ PodName pod @ '' is in unschedulable state and reason is '' @
           snd (IsPodReasonUnschedulable pod)
      else checkContainerFailures pod includeSidecarFailures)"

definition IsPodTerminating :: "Pod \<Rightarrow> bool" where
  "IsPodTerminating pod \<longleftrightarrow> PodDeletionTimestamp pod \<noteq> None"

definition failure_condition :: "PodCondition \<Rightarrow> bool" where
  "failure_condition c \<longleftrightarrow>
     scheduling_failure c \<or> (PcType c = ''Ready'' \<or> PcType c = ''Initialized'') \<and> PcStatus c = ''False''"

fun earliest_failure :: "PodCondition list \<Rightarrow> int option \<Rightarrow> int option" where
  "earliest_failure [] earliest = earliest"
| "earliest_failure (c # cs) earliest =
     (if failure_condition c
      then earliest_failure cs
             (case earliest of
                None \<Rightarrow> Some (PcTransition c)
              | Some t \<Rightarrow> if PcTransition c < t then Some (PcTransition c) else earliest)
      else earliest_failure cs earliest)"

definition getPodFailureSince :: "Pod \<Rightarrow> int" where
  "getPodFailureSince pod =
     (case earliest_failure (PodConditions pod) None of
        None \<Rightarrow> PodCreationTimestamp pod
      | Some t \<Rightarrow> t)"

text \<open>\<open>env\<close> is the value of \<^verbatim>\<open>FAILED_POD_GRACE_PERIOD_SECONDS\<close>, empty when it is not set.\<close>

definition GetFailedPodGracePeriod :: "string \<Rightarrow> int" where
  "GetFailedPodGracePeriod env =
     (let sec = (if env \<noteq> [] then
                   (case Atoi env of Some parsed \<Rightarrow> if parsed > 0 then parsed else 60 | None \<Rightarrow> 60)
                 else 60) in
      sint (of_int sec * 1000000000 :: 64 word))"

definition checkFailedWithGrace :: "int \<Rightarrow> string \<Rightarrow> Pod \<Rightarrow> bool \<Rightarrow> bool \<Rightarrow> PodState" where
  "checkFailedWithGrace now env pod allowGrace includeSidecarFailures =
     (if IsPodTerminating pod then \<lparr>PsReason = [], PsState = PodHealthy\<rparr>
      else let failureReason = checkPodFailureReason pod includeSidecarFailures in
        if failureReason = [] then \<lparr>PsReason = [], PsState = PodHealthy\<rparr>
        else if allowGrace \<and> now - getPodFailureSince pod < GetFailedPodGracePeriod env
        then \<lparr>PsReason = failureReason, PsState = PodFailedInGrace\<rparr>
        else \<lparr>PsReason = failureReason, PsState = PodFailed\<rparr>)"

definition CheckPodFailedWithGrace :: "int \<Rightarrow> string \<Rightarrow> Pod \<Rightarrow> bool \<Rightarrow> PodState" where
  "CheckPodFailedWithGrace now env pod allowGrace = checkFailedWithGrace now env pod allowGrace True"

definition CheckServerFailedWithGrace :: "int \<Rightarrow> string \<Rightarrow> Pod \<Rightarrow> bool \<Rightarrow> PodState" where
  "CheckServerFailedWithGrace now env pod allowGrace = checkFailedWithGrace now env pod allowGrace False"

definition CheckPodFailed :: "int \<Rightarrow> string \<Rightarrow> Pod \<Rightarrow> string option" where
  "CheckPodFailed now env pod =
     (let podState = CheckPodFailedWithGrace now env pod False in
      if PsState podState = PodFailed then Some (PsReason podState) else None)"

section \<open>Readiness, parking, labels\<close>

definition IsPodReady :: "Pod \<Rightarrow> bool" where
  "IsPodReady pod = list_all CsReady (ContainerStatuses pod)"

definition IsPodRunningAndReady :: "Pod \<Rightarrow> bool" where
  "IsPodRunningAndReady pod \<longleftrightarrow> \<not> IsPodTerminating pod \<and> PodPhase pod = ''Running'' \<and> IsPodReady pod"

definition server_status :: "Pod \<Rightarrow> ContainerStatus option" where
  "server_status pod = find (\<lambda>cs. CsName cs = AerospikeServerContainerName) (ContainerStatuses pod)"

definition IsAerospikeServerReady :: "Pod \<Rightarrow> bool" where
  "IsAerospikeServerReady pod =
     (if IsPodTerminating pod \<or> PodPhase pod \<noteq> ''Running'' then False
      else (case server_status pod of Some cs \<Rightarrow> CsReady cs | None \<Rightarrow> False))"

definition GetAerospikeServerContainerID :: "Pod \<Rightarrow> string" where
  "GetAerospikeServerContainerID pod =
     (case server_status pod of Some cs \<Rightarrow> CsContainerID cs | None \<Rightarrow> [])"

definition EvictionBlockedAnnotation :: string where
  "EvictionBlockedAnnotation = ''aerospike.com/eviction-blocked''"

definition IndexCheckpointParkedAnnotation :: string where
  "IndexCheckpointParkedAnnotation = ''aerospike.com/index-checkpoint-parked''"

definition IsPodCheckpointing :: "Pod \<Rightarrow> bool \<times> bool" where
  "IsPodCheckpointing pod =
     (case gomap_get (PodAnnotations pod) IndexCheckpointParkedAnnotation of
        None \<Rightarrow> (False, False)
      | Some parkedContainerID \<Rightarrow>
          if parkedContainerID = [] then (False, False)
          else if parkedContainerID = GetAerospikeServerContainerID pod then (True, False)
          else (False, True))"

text \<open>A pod without labels has the empty map.\<close>

definition IsAerospikePod :: "Pod \<Rightarrow> bool" where
  "IsAerospikePod pod \<longleftrightarrow>
     gomap_get (PodLabels pod) AerospikeAppLabel = Some AerospikeAppLabelValue \<and>
     gomap_get (PodLabels pod) AerospikeCustomResourceLabel \<noteq> None"

section \<open>Lemmas\<close>

lemma formatted_reason_not_empty: "formatContainerFailureReason n m r \<noteq> []"
  by (simp add: formatContainerFailureReason_def)

definition container_failed :: "ContainerStatus \<Rightarrow> bool" where
  "container_failed c \<longleftrightarrow>
     (\<exists>t. CsTerminated c = Some t \<and> isTerminatedWithError (TermReason t)) \<or>
     (\<exists>w. CsWaiting c = Some w \<and> isWaitingWithError (WaitReason w))"

lemma containerFailureReason_iff: "containerFailureReason c \<noteq> [] \<longleftrightarrow> container_failed c"
  by (auto simp: containerFailureReason_def container_failed_def formatted_reason_not_empty
      split: option.splits)

lemma first_reason_iff: "first_reason cs \<noteq> [] \<longleftrightarrow> (\<exists>c\<in>set cs. container_failed c)"
  by (induction cs) (auto simp: containerFailureReason_iff)

lemma earliest_failure_min:
  "earliest_failure cs e = Some t \<Longrightarrow>
     (\<forall>c\<in>set cs. failure_condition c \<longrightarrow> t \<le> PcTransition c) \<and> (\<forall>t'. e = Some t' \<longrightarrow> t \<le> t') \<and>
     (e = Some t \<or> (\<exists>c\<in>set cs. failure_condition c \<and> PcTransition c = t))"
proof (induction cs e arbitrary: t rule: earliest_failure.induct)
  case (1 e)
  then show ?case by simp
next
  case (2 c cs e)
  show ?case
  proof (cases "failure_condition c")
    case False
    with 2 show ?thesis by auto
  next
    case True
    have "earliest_failure cs (case e of None \<Rightarrow> Some (PcTransition c)
        | Some t \<Rightarrow> if PcTransition c < t then Some (PcTransition c) else e) = Some t"
      using 2(3) True by simp
    from "2.IH"(1) [OF True this] True show ?thesis by (auto split: option.splits if_splits)
  qed
qed

lemma earliest_failure_None: "earliest_failure cs e = None \<longleftrightarrow> e = None \<and> (\<forall>c\<in>set cs. \<not> failure_condition c)"
  by (induction cs e rule: earliest_failure.induct) (auto split: option.splits)

definition server_or_init_failed :: "Pod \<Rightarrow> bool" where
  "server_or_init_failed pod \<longleftrightarrow>
     PodPhase pod = ''Failed'' \<or> PodPhase pod = ''Pending'' \<and> (\<exists>c\<in>set (PodConditions pod). scheduling_failure c) \<or>
     (\<exists>c\<in>set (InitContainerStatuses pod). container_failed c) \<or>
     (\<exists>c\<in>set (ContainerStatuses pod). CsName c = AerospikeServerContainerName \<and> container_failed c)"

lemma unschedulable_iff: "fst (IsPodReasonUnschedulable pod) \<longleftrightarrow> (\<exists>c\<in>set (PodConditions pod). scheduling_failure c)"
  by (auto simp: IsPodReasonUnschedulable_def find_None_iff find_Some_iff split: option.splits)

lemma failure_reason_iff:
  "checkPodFailureReason pod sidecars \<noteq> [] \<longleftrightarrow>
     server_or_init_failed pod \<or> sidecars \<and> (\<exists>c\<in>set (ContainerStatuses pod). container_failed c)"
  by (auto simp: checkPodFailureReason_def server_or_init_failed_def unschedulable_iff
      checkContainerFailures_def first_reason_iff)

section \<open>Properties\<close>

text \<open>
  Fact. The server check calls a pod failed exactly when the pod is not terminating and its
  phase, its scheduling, an init container or the server container has failed, and either no
  grace is allowed or the grace period since the earliest failure condition is over. Sidecars
  never count.
\<close>

theorem server_failed_iff:
  "PsState (CheckServerFailedWithGrace now env pod allowGrace) = PodFailed \<longleftrightarrow>
     \<not> IsPodTerminating pod \<and> server_or_init_failed pod \<and>
     (if allowGrace then GetFailedPodGracePeriod env \<le> now - getPodFailureSince pod else True)"
  using failure_reason_iff [of pod False]
  by (auto simp: CheckServerFailedWithGrace_def checkFailedWithGrace_def Let_def)

text \<open>
  Fact. The failure of a pod is dated by its earliest failure condition, and by its creation
  when it has none.
\<close>

theorem pod_failure_since:
  "getPodFailureSince pod =
     (let ts = map PcTransition (filter failure_condition (PodConditions pod)) in
      if ts = [] then PodCreationTimestamp pod else Min (set ts))"
proof (cases "earliest_failure (PodConditions pod) None")
  case None
  then have "filter failure_condition (PodConditions pod) = []"
    by (simp add: earliest_failure_None filter_empty_conv)
  with None show ?thesis by (simp add: getPodFailureSince_def Let_def)
next
  case (Some t)
  let ?ts = "map PcTransition (filter failure_condition (PodConditions pod))"
  have t: "t \<in> set ?ts" and le: "\<forall>t'\<in>set ?ts. t \<le> t'" using earliest_failure_min [OF Some] by auto
  have "Min (set ?ts) = t" by (rule Min_eqI) (use t le in blast)+
  moreover have "?ts \<noteq> []" using t by (metis empty_iff list.set(1))
  ultimately show ?thesis using Some by (simp add: getPodFailureSince_def Let_def)
qed

text \<open>
  Fact. A pod is parked for a checkpoint exactly when its park annotation is the non-empty ID
  of the running server container, stale exactly when the annotation is a different non-empty ID,
  and never both.
\<close>

theorem checkpoint_parked_or_stale:
  "fst (IsPodCheckpointing pod) = (\<exists>cid. cid \<noteq> [] \<and> cid = GetAerospikeServerContainerID pod \<and>
      gomap_get (PodAnnotations pod) IndexCheckpointParkedAnnotation = Some cid) \<and>
   snd (IsPodCheckpointing pod) = (\<exists>cid. cid \<noteq> [] \<and> cid \<noteq> GetAerospikeServerContainerID pod \<and>
      gomap_get (PodAnnotations pod) IndexCheckpointParkedAnnotation = Some cid) \<and>
   IsPodCheckpointing pod \<noteq> (True, True)"
  by (auto simp: IsPodCheckpointing_def split: option.splits)

end
