(* ===== verification/Eviction.thy ===== *)
theory Eviction
  imports Pod_Health
begin

text \<open>
  \<^verbatim>\<open>internal/webhook/eviction/eviction_webhook.go\<close>: the admission webhook for pod evictions. Decoding
  JSON, reading pods through the cache or the API server and patching a pod are parameters over a
  world of any type; the webhook's own state is that world and its counter of decisions.
\<close>

section \<open>Requests, responses, environment\<close>

datatype api_error = ApiNotFound string | ApiOther string

fun IsNotFound :: "api_error \<Rightarrow> bool" where
  "IsNotFound (ApiNotFound _) = True"
| "IsNotFound (ApiOther _) = False"

fun error_text :: "api_error \<Rightarrow> string" where
  "error_text (ApiNotFound e) = e"
| "error_text (ApiOther e) = e"

text \<open>\<^verbatim>\<open>fmt.Errorf("...: %w", err)\<close> keeps what \<^verbatim>\<open>IsNotFound\<close> says.\<close>

fun wrap_error :: "string \<Rightarrow> api_error \<Rightarrow> api_error" where
  "wrap_error p (ApiNotFound e) = ApiNotFound (p @ '': '' @ e)"
| "wrap_error p (ApiOther e) = ApiOther (p @ '': '' @ e)"

record 'raw AdmissionRequest =
  ReqUID :: string
  ReqNamespace :: string
  ReqDryRun :: "bool option"
  ReqRaw :: 'raw

text \<open>\<open>EvDeleteDryRun\<close> is \<^verbatim>\<open>DeleteOptions.DryRun\<close>, \<open>None\<close> for absent options.\<close>

record EvictionObject =
  EvName :: string
  EvDeleteDryRun :: "string list option"

record ResponseStatus =
  RsMessage :: string
  RsReason :: string
  RsCode :: int

record AdmissionResponse =
  RespUID :: string
  RespAllowed :: bool
  RespResult :: "ResponseStatus option"

datatype http_reply = HttpError int string | ReviewReply AdmissionResponse

record ('req, 'raw, 'w) ev_env =
  DecodeReview :: "'req \<Rightarrow> string + 'raw AdmissionRequest option"
  DecodeEviction :: "'raw \<Rightarrow> string + EvictionObject"
  CacheGet :: "string \<Rightarrow> string \<Rightarrow> 'w \<Rightarrow> api_error + Pod"
  APIReaderGet :: "string \<Rightarrow> string \<Rightarrow> 'w \<Rightarrow> api_error + Pod"
  PatchPod :: "Pod \<Rightarrow> Pod \<Rightarrow> 'w \<Rightarrow> string option \<times> 'w"
  NowRFC3339 :: string
  Enable :: bool

record 'w ev_state =
  EvWorld :: 'w
  EvMetrics :: "(string \<times> string) list"

section \<open>The webhook\<close>

definition webhook_enabled :: "(string \<Rightarrow> string option) \<Rightarrow> bool" where
  "webhook_enabled env =
     (case env ''ENABLE_SAFE_POD_EVICTION'' of None \<Rightarrow> False | Some v \<Rightarrow> EqualFold v ''true'')"

definition getSuccessResponse :: "string \<Rightarrow> AdmissionResponse" where
  "getSuccessResponse requestID = \<lparr>RespUID = requestID, RespAllowed = True, RespResult = None\<rparr>"

definition getFailureResponse :: "string \<Rightarrow> string \<Rightarrow> string \<Rightarrow> int \<Rightarrow> AdmissionResponse" where
  "getFailureResponse requestID message reason code =
     \<lparr>RespUID = requestID, RespAllowed = False,
      RespResult = Some \<lparr>RsMessage = message, RsReason = reason, RsCode = code\<rparr>\<rparr>"

definition setEvictionBlockedAnnotation ::
  "('req, 'raw, 'w) ev_env \<Rightarrow> Pod \<Rightarrow> 'w ev_state \<Rightarrow> string option \<times> 'w ev_state" where
  "setEvictionBlockedAnnotation env pod s =
     (if gomap_get (PodAnnotations pod) EvictionBlockedAnnotation \<noteq> None then (None, s)
      else let pod' = pod\<lparr>PodAnnotations :=
                 gomap_put EvictionBlockedAnnotation (NowRFC3339 env) (PodAnnotations pod)\<rparr>;
               (e, w) = PatchPod env pod pod' (EvWorld s) in
           (e, s\<lparr>EvWorld := w\<rparr>))"

definition recordMetric :: "bool \<Rightarrow> string \<Rightarrow> string \<Rightarrow> bool \<Rightarrow> 'w ev_state \<Rightarrow> 'w ev_state" where
  "recordMetric enabled namespace decision dryRun s =
     (if enabled \<and> \<not> dryRun then s\<lparr>EvMetrics := EvMetrics s @ [(namespace, decision)]\<rparr> else s)"

definition getPodForEviction ::
  "('req, 'raw, 'w) ev_env \<Rightarrow> string \<Rightarrow> string \<Rightarrow> 'w \<Rightarrow> api_error + Pod" where
  "getPodForEviction env namespace name w =
     (case CacheGet env namespace name w of
        Inr pod \<Rightarrow> Inr pod
      | Inl err \<Rightarrow>
          if IsNotFound err then
            (case APIReaderGet env namespace name w of
               Inr pod \<Rightarrow> Inr pod
             | Inl err' \<Rightarrow> Inl (wrap_error (''failed to get pod '' @ NamespacedName namespace name) err'))
          else Inl (wrap_error (''failed to get pod '' @ NamespacedName namespace name @ '' from cache'') err))"

definition is_dry_run :: "'raw AdmissionRequest \<Rightarrow> EvictionObject \<Rightarrow> bool" where
  "is_dry_run request eviction \<longleftrightarrow>
     ReqDryRun request = Some True \<or>
     (case EvDeleteDryRun eviction of None \<Rightarrow> False | Some ds \<Rightarrow> ds \<noteq> [])"

definition processEvictionRequest ::
  "('req, 'raw, 'w) ev_env \<Rightarrow> 'raw AdmissionRequest \<Rightarrow> 'w ev_state \<Rightarrow> AdmissionResponse \<times> 'w ev_state" where
  "processEvictionRequest env request s =
     (case DecodeEviction env (ReqRaw request) of
        Inl err \<Rightarrow>
          (getFailureResponse (ReqUID request)
             (''Failed to parse eviction object: failed to unmarshal eviction object: '' @ err) ''BadRequest'' 400, s)
      | Inr eviction \<Rightarrow>
          (let isDryRun = is_dry_run request eviction;
               podKey = NamespacedName (ReqNamespace request) (EvName eviction) in
           case getPodForEviction env (ReqNamespace request) (EvName eviction) (EvWorld s) of
             Inl err \<Rightarrow>
               if IsNotFound err
               then (getSuccessResponse (ReqUID request),
                     recordMetric (Enable env) (ReqNamespace request) ''allowed'' isDryRun s)
               else (getFailureResponse (ReqUID request) (error_text err) ''InternalError'' 500, s)
           | Inr pod \<Rightarrow>
               if \<not> IsAerospikePod pod
               then (getSuccessResponse (ReqUID request),
                     recordMetric (Enable env) (ReqNamespace request) ''allowed'' isDryRun s)
               else (let (annErr, s') = (if isDryRun then (None, s) else setEvictionBlockedAnnotation env pod s) in
                 case annErr of
                   Some err \<Rightarrow>
                     (getFailureResponse (ReqUID request)
                        (''Failed to set eviction blocked annotation on pod '' @ podKey @ '': '' @ err)
                        ''InternalError'' 500, s')
                 | None \<Rightarrow>
                     (getFailureResponse (ReqUID request)
                        (''Eviction of Aerospike pod '' @ podKey @
                         '' is blocked by admission webhook, Aerospike Operator will handle Aerospike pod eviction safely.'')
                        ''Forbidden'' 403,
                      recordMetric (Enable env) (ReqNamespace request) ''blocked'' isDryRun s'))))"

definition parseAdmissionReview ::
  "('req, 'raw, 'w) ev_env \<Rightarrow> 'req \<Rightarrow> string + 'raw AdmissionRequest" where
  "parseAdmissionReview env req =
     (case DecodeReview env req of
        Inl err \<Rightarrow> Inl (''failed to decode admission review: '' @ err)
      | Inr None \<Rightarrow> Inl ''admission review request is nil''
      | Inr (Some request) \<Rightarrow> Inr request)"

definition Handle :: "('req, 'raw, 'w) ev_env \<Rightarrow> 'req \<Rightarrow> 'w ev_state \<Rightarrow> http_reply \<times> 'w ev_state" where
  "Handle env req s =
     (case parseAdmissionReview env req of
        Inl err \<Rightarrow> (HttpError 400 ''Failed to parse admission review'', s)
      | Inr request \<Rightarrow>
          if \<not> Enable env then (ReviewReply (getSuccessResponse (ReqUID request)), s)
          else (let (response, s') = processEvictionRequest env request s in (ReviewReply response, s')))"

section \<open>Properties\<close>


text \<open>
  Fact. A dry-run eviction changes nothing: neither the pod nor the counters, whether the
  dry run is asked for in the request or in the eviction's delete options.
\<close>

theorem dry_run_changes_nothing:
  assumes "DecodeEviction env (ReqRaw request) = Inr eviction" and "is_dry_run request eviction"
  shows "snd (processEvictionRequest env request s) = s"
  using assms
  by (auto simp: processEvictionRequest_def recordMetric_def Let_def split: sum.splits option.splits prod.splits)

definition example_pod :: Pod where
  "example_pod = \<lparr>PodName = ''cl-1-0'',
     PodLabels = [(''app'', ''aerospike-cluster''), (''aerospike.com/cr'', ''cl'')], PodAnnotations = [],
     PodDeletionTimestamp = None, PodCreationTimestamp = 0, PodPhase = ''Running'', PodReason = [],
     PodMessage = [], PodConditions = [], InitContainerStatuses = [], ContainerStatuses = [],
     PodNodeName = ''node-1'', PodContainers = [], PodInitContainers = []\<rparr>"

definition example_ev_env :: "(unit, unit, nat) ev_env" where
  "example_ev_env = \<lparr>DecodeReview = (\<lambda>_. Inr None),
     DecodeEviction = (\<lambda>_. Inr \<lparr>EvName = ''cl-1-0'', EvDeleteDryRun = Some [''All'']\<rparr>),
     CacheGet = (\<lambda>_ _ _. Inr example_pod), APIReaderGet = (\<lambda>_ _ _. Inr example_pod),
     PatchPod = (\<lambda>_ _ w. (None, Suc w)), NowRFC3339 = ''2024-01-01T00:00:00Z'', Enable = True\<rparr>"

definition example_request :: "unit AdmissionRequest" where
  "example_request = \<lparr>ReqUID = ''u'', ReqNamespace = ''ns'', ReqDryRun = None, ReqRaw = ()\<rparr>"

theorem dry_run_changes_nothing_witness:
  "snd (processEvictionRequest example_ev_env example_request \<lparr>EvWorld = 0, EvMetrics = []\<rparr>) =
     \<lparr>EvWorld = 0, EvMetrics = []\<rparr>"
  by (rule dry_run_changes_nothing [where eviction = "\<lparr>EvName = ''cl-1-0'', EvDeleteDryRun = Some [''All'']\<rparr>"])
    (simp_all add: example_ev_env_def example_request_def is_dry_run_def)

text \<open>
  Fact. When the webhook forbids an eviction that is not a dry run, the pod carries the
  eviction-blocked annotation the operator acts on: it had it before, or the patch that adds it
  succeeded.
\<close>

theorem forbidden_eviction_is_marked:
  assumes "DecodeEviction env (ReqRaw request) = Inr eviction" and "\<not> is_dry_run request eviction"
    and "processEvictionRequest env request s = (response, s')"
    and "map_option RsCode (RespResult response) = Some 403"
  shows "\<exists>pod. getPodForEviction env (ReqNamespace request) (EvName eviction) (EvWorld s) = Inr pod \<and>
    IsAerospikePod pod \<and>
    (gomap_get (PodAnnotations pod) EvictionBlockedAnnotation \<noteq> None \<and> EvWorld s' = EvWorld s \<or>
     (\<exists>pod'. PatchPod env pod pod' (EvWorld s) = (None, EvWorld s') \<and>
        gomap_get (PodAnnotations pod') EvictionBlockedAnnotation = Some (NowRFC3339 env)))"
proof -
  have "\<exists>pod s1. getPodForEviction env (ReqNamespace request) (EvName eviction) (EvWorld s) = Inr pod \<and>
      IsAerospikePod pod \<and> setEvictionBlockedAnnotation env pod s = (None, s1) \<and> EvWorld s' = EvWorld s1"
    using assms
    by (auto simp: processEvictionRequest_def Let_def getFailureResponse_def getSuccessResponse_def
        recordMetric_def split: sum.splits option.splits prod.splits if_splits)
  then obtain pod s1 where
      pod: "getPodForEviction env (ReqNamespace request) (EvName eviction) (EvWorld s) = Inr pod" "IsAerospikePod pod"
      and ann: "setEvictionBlockedAnnotation env pod s = (None, s1)" "EvWorld s' = EvWorld s1"
    by blast
  let ?pod' = "pod\<lparr>PodAnnotations := gomap_put EvictionBlockedAnnotation (NowRFC3339 env) (PodAnnotations pod)\<rparr>"
  have "gomap_get (PodAnnotations pod) EvictionBlockedAnnotation \<noteq> None \<and> EvWorld s' = EvWorld s \<or>
      PatchPod env pod ?pod' (EvWorld s) = (None, EvWorld s')"
    using ann by (auto simp: setEvictionBlockedAnnotation_def Let_def split: if_splits prod.splits)
  moreover have "gomap_get (PodAnnotations ?pod') EvictionBlockedAnnotation = Some (NowRFC3339 env)"
    by (simp add: gomap_get_put)
  ultimately show ?thesis using pod by blast
qed

theorem forbidden_eviction_is_marked_witness:
  "\<exists>pod'. PatchPod (example_ev_env\<lparr>DecodeEviction := (\<lambda>_. Inr \<lparr>EvName = ''cl-1-0'', EvDeleteDryRun = None\<rparr>)\<rparr>)
      example_pod pod' 0 = (None, 1) \<and>
    gomap_get (PodAnnotations pod') EvictionBlockedAnnotation = Some ''2024-01-01T00:00:00Z''"
proof -
  let ?env = "example_ev_env\<lparr>DecodeEviction := (\<lambda>_. Inr \<lparr>EvName = ''cl-1-0'', EvDeleteDryRun = None\<rparr>)\<rparr>"
  let ?s = "\<lparr>EvWorld = 0, EvMetrics = []\<rparr> :: nat ev_state"
  let ?x = "processEvictionRequest ?env example_request ?s"
  have code: "map_option RsCode (RespResult (fst ?x)) = Some 403" "EvWorld (snd ?x) = 1" by code_simp+
  have "DecodeEviction ?env (ReqRaw example_request) = Inr \<lparr>EvName = ''cl-1-0'', EvDeleteDryRun = None\<rparr>"
      "\<not> is_dry_run example_request \<lparr>EvName = ''cl-1-0'', EvDeleteDryRun = None\<rparr>"
    by (simp_all add: example_request_def is_dry_run_def)
  from forbidden_eviction_is_marked [OF this prod.collapse [symmetric] code(1)]
  have "\<exists>pod. getPodForEviction ?env (ReqNamespace example_request) ''cl-1-0'' 0 = Inr pod \<and>
      (gomap_get (PodAnnotations pod) EvictionBlockedAnnotation \<noteq> None \<or>
       (\<exists>pod'. PatchPod ?env pod pod' 0 = (None, 1) \<and>
          gomap_get (PodAnnotations pod') EvictionBlockedAnnotation = Some ''2024-01-01T00:00:00Z''))"
    using code(2) by (auto simp: example_ev_env_def)
  moreover have "getPodForEviction ?env (ReqNamespace example_request) ''cl-1-0'' 0 = Inr example_pod"
    by (simp add: getPodForEviction_def example_ev_env_def)
  moreover have "gomap_get (PodAnnotations example_pod) EvictionBlockedAnnotation = None"
    by (simp add: example_pod_def)
  ultimately show ?thesis by auto
qed

end
