(* ===== verification/Call_Trace.thy ===== *)
theory Call_Trace
  imports Cluster_Spec Conditions Pod_Health
begin

text \<open>
  Operations of the reconciler that call the Kubernetes API, the Aerospike servers or a shell in a pod.
  Such an operation maps a state (the reconciler's copy of the cluster object and a world of any type) to
  an outcome, a new state and the calls it made, each with its success. The calls themselves are the
  functions of a record \<open>api\<close>. The second half is a small logic for the outcome and the trace of an
  operation, with which the components state what they do in which order.
\<close>

named_theorems trace_rules "what an operation returns and which calls it makes"

section \<open>Calls\<close>

text \<open>Hosts are named by their pods. Durations are in seconds.\<close>

datatype call =
    CListPods
  | CGetPod string
  | CGetSTS string
  | CExec string "string list"
  | CPatchDirtyVolumes string "string list"
  | CPatchMigrateFillDelay uint32
  | CListPVCs int string
  | CDeletePVC string
  | CDeletePod string
  | CRecordOperations "string list" "string list"
  | CSetMigrateFillDelay "string list" uint32
  | CIsClusterAndStable "string list"
  | CGetClusterNamespaces "string list"
  | CManageRoster "string list" "string list" "string list" "string list"
  | CValidateSC "string list" "string list"
  | CInfoQuiesce "string list" "string list" "string list"
  | CCheckpointSave string
  | CCheckpointStatus string
  | CSkipCheckpoint string string
  | CMarkParked string string
  | CListRackPods int string
  | CListClusterPVCs
  | CSetReplicas string int
  | CUpdateSTS string int
  | CUpdateInitImage string
  | CCreateSTS string int
  | CDeleteSTS string
  | CGetConfigMap string
  | CConfigMapData int
  | CCreateConfigMap string
  | CUpdateConfigMap string
  | CDeleteConfigMap string
  | CSetCondition string
  | CPodService string
  | CDeletePodService string
  | CTipClear string string int
  | CAlumniReset string
  | CRemovePodStatus "string list"
  | CConfigCmds string
  | CSetConfig string
  | CPatchDynamicStatus string string
  | CAccessControl "string list"
  | CQuiesceUndo "string list" "string list"
  | CQuiesceAnnotation string bool
  | CListSTS
  | CMarkInProgress

record StatefulSet =
  StsName :: string
  StsReplicas :: int
  StsStatusReplicas :: int

record PersistentVolumeClaim =
  PvcName :: string
  PvcStorageClassName :: "string option"
  PvcTerminating :: bool
  PvcAnnotations :: "string gomap"
  PvcVolumeMode :: string

datatype CheckpointSaveVerdict =
    CheckpointSaveRejected | CheckpointSaveAccepted | CheckpointSaveNothingToDo | CheckpointSaveTriggered

datatype get_error = GetNotFound | GetFailed string

fun get_error_text :: "get_error \<Rightarrow> string" where
  "get_error_text GetNotFound = ''not found''"
| "get_error_text (GetFailed e) = e"

record 'w rst =
  CtCluster :: AerospikeCluster
  CtWorld :: 'w

type_synonym ('w, 'a) api_call = "'w \<Rightarrow> (string + 'a) \<times> 'w"

text \<open>
  What the operator calls: the clock and \<^verbatim>\<open>time.Sleep\<close>, the Kubernetes API, commands in a pod, the
  management library and the info port of a server. \<open>ApiDesiredEnv\<close> and \<open>ApiGraceEnv\<close> are environment
  variables.
\<close>

record 'w api =
  ApiNow :: "'w \<Rightarrow> int"
  ApiGraceEnv :: string
  ApiDesiredEnv :: "string \<Rightarrow> string option"
  ApiSleep :: "int \<Rightarrow> 'w \<Rightarrow> 'w"
  ApiListPods :: "('w, Pod list) api_call"
  ApiGetPod :: "string \<Rightarrow> ('w, Pod) api_call"
  ApiGetSTS :: "string \<Rightarrow> 'w \<Rightarrow> (get_error + StatefulSet) \<times> 'w"
  ApiExec :: "string \<Rightarrow> string list \<Rightarrow> ('w, unit) api_call"
  ApiPatchDirtyVolumes :: "string \<Rightarrow> string list \<Rightarrow> ('w, AerospikePodStatus gomap) api_call"
  ApiPatchMigrateFillDelay :: "uint32 \<Rightarrow> ('w, uint32) api_call"
  ApiListPVCs :: "int \<Rightarrow> string \<Rightarrow> ('w, PersistentVolumeClaim list) api_call"
  ApiDeletePVC :: "string \<Rightarrow> 'w \<Rightarrow> (get_error + unit) \<times> 'w"
  ApiDeletePod :: "string \<Rightarrow> ('w, unit) api_call"
  ApiGetCluster :: "'w \<Rightarrow> string + AerospikeCluster"
  ApiPatchStatus :: "AerospikeCluster \<Rightarrow> 'w \<Rightarrow> string option \<times> 'w"
  ApiSetMigrateFillDelay :: "string list \<Rightarrow> uint32 \<Rightarrow> ('w, unit) api_call"
  ApiIsClusterAndStable :: "string list \<Rightarrow> ('w, bool) api_call"
  ApiGetClusterNamespaces :: "string list \<Rightarrow> ('w, string list gomap) api_call"
  ApiManageRoster :: "string list \<Rightarrow> string list \<Rightarrow> string list \<Rightarrow> string list \<Rightarrow> ('w, unit) api_call"
  ApiValidateSC :: "string list \<Rightarrow> string list \<Rightarrow> ('w, unit) api_call"
  ApiInfoQuiesce :: "string list \<Rightarrow> string list \<Rightarrow> string list \<Rightarrow> ('w, unit) api_call"
  ApiParseConf :: "string \<Rightarrow> string + gval gomap"
  ApiCheckpointSave :: "string \<Rightarrow> ('w, CheckpointSaveVerdict) api_call"
  ApiSkipCheckpoint :: "string \<Rightarrow> string \<Rightarrow> ('w, unit) api_call"
  ApiMarkParked :: "string \<Rightarrow> string \<Rightarrow> ('w, unit) api_call"

section \<open>Operations\<close>

type_synonym trace = "(call \<times> bool) list"

type_synonym ('w, 'e, 'a) prog = "'w rst \<Rightarrow> ('e, 'a) res \<times> 'w rst \<times> trace"

definition ret :: "'a \<Rightarrow> ('w, 'e, 'a) prog" where
  "ret a s = (Ok a, s, [])"

definition from_res :: "('e, 'a) res \<Rightarrow> ('w, 'e, 'a) prog" where
  "from_res r s = (r, s, [])"

definition fail :: "'e \<Rightarrow> ('w, 'e, 'a) prog" where
  "fail e s = (Err e, s, [])"

definition bind :: "('w, 'e, 'a) prog \<Rightarrow> ('a \<Rightarrow> ('w, 'e, 'b) prog) \<Rightarrow> ('w, 'e, 'b) prog" where
  "bind m f s =
     (case m s of
        (Ok a, s1, t1) \<Rightarrow> (case f a s1 of (r, s2, t2) \<Rightarrow> (r, s2, t1 @ t2))
      | (Err e, s1, t1) \<Rightarrow> (Err e, s1, t1)
      | (Panic, s1, t1) \<Rightarrow> (Panic, s1, t1))"

text \<open>The outcome with its error as a value, for code that looks at the error and goes on.\<close>

definition attempt :: "('w, 'e, 'a) prog \<Rightarrow> ('w, 'f, 'e + 'a) prog" where
  "attempt m s =
     (case m s of
        (Ok a, s1, t1) \<Rightarrow> (Ok (Inr a), s1, t1)
      | (Err e, s1, t1) \<Rightarrow> (Ok (Inl e), s1, t1)
      | (Panic, s1, t1) \<Rightarrow> (Panic, s1, t1))"

definition wrap_err :: "('e \<Rightarrow> 'f) \<Rightarrow> ('w, 'e, 'a) prog \<Rightarrow> ('w, 'f, 'a) prog" where
  "wrap_err g m s = (case m s of (r, s1, t1) \<Rightarrow> (res_map_err g r, s1, t1))"

definition get_cluster :: "('w, 'e, AerospikeCluster) prog" where
  "get_cluster s = (Ok (CtCluster s), s, [])"

definition set_cluster :: "AerospikeCluster \<Rightarrow> ('w, 'e, unit) prog" where
  "set_cluster c s = (Ok (), s\<lparr>CtCluster := c\<rparr>, [])"

definition read_world :: "('w \<Rightarrow> 'a) \<Rightarrow> ('w, 'e, 'a) prog" where
  "read_world f s = (Ok (f (CtWorld s)), s, [])"

definition change_world :: "('w \<Rightarrow> 'w) \<Rightarrow> ('w, 'e, unit) prog" where
  "change_world f s = (Ok (), s\<lparr>CtWorld := f (CtWorld s)\<rparr>, [])"

definition issue :: "call \<Rightarrow> ('w \<Rightarrow> ('e + 'a) \<times> 'w) \<Rightarrow> ('w, 'e, 'a) prog" where
  "issue c f s =
     (case f (CtWorld s) of
        (Inl e, w) \<Rightarrow> (Err e, s\<lparr>CtWorld := w\<rparr>, [(c, False)])
      | (Inr a, w) \<Rightarrow> (Ok a, s\<lparr>CtWorld := w\<rparr>, [(c, True)]))"

text \<open>A question is logged with its answer; an error counts as no.\<close>

definition ask :: "call \<Rightarrow> ('w \<Rightarrow> ('e + bool) \<times> 'w) \<Rightarrow> ('w, 'e, bool) prog" where
  "ask c f s =
     (case f (CtWorld s) of
        (Inl e, w) \<Rightarrow> (Err e, s\<lparr>CtWorld := w\<rparr>, [(c, False)])
      | (Inr b, w) \<Rightarrow> (Ok b, s\<lparr>CtWorld := w\<rparr>, [(c, b)]))"

fun each :: "('a \<Rightarrow> ('w, 'e, unit) prog) \<Rightarrow> 'a list \<Rightarrow> ('w, 'e, unit) prog" where
  "each f [] = ret ()"
| "each f (x # xs) = bind (f x) (\<lambda>_. each f xs)"

lemma bind_ret [simp]: "bind (ret a) f = f a"
  by (rule ext) (simp add: bind_def ret_def split: prod.splits)

section \<open>Outcomes and traces\<close>

text \<open>Every run of the operation, from any state, ends in an outcome and a trace related by \<open>Q\<close>.\<close>

definition runs :: "('w, 'e, 'a) prog \<Rightarrow> (('e, 'a) res \<Rightarrow> trace \<Rightarrow> bool) \<Rightarrow> bool" where
  "runs m Q \<longleftrightarrow> (\<forall>s. case m s of (r, s', t) \<Rightarrow> Q r t)"

lemma runsD: "runs m Q \<Longrightarrow> m s = (r, s', t) \<Longrightarrow> Q r t"
  by (auto simp: runs_def split: prod.splits)

lemma runs_mono: "runs m P \<Longrightarrow> (\<And>r t. P r t \<Longrightarrow> Q r t) \<Longrightarrow> runs m Q"
  by (fastforce simp: runs_def split: prod.splits)

lemma runs_ret [trace_rules]: "Q (Ok a) [] \<Longrightarrow> runs (ret a) Q"
  by (simp add: runs_def ret_def)

lemma runs_fail [trace_rules]: "Q (Err e) [] \<Longrightarrow> runs (fail e) Q"
  by (simp add: runs_def fail_def)

lemma runs_from_res: "Q r [] \<Longrightarrow> runs (from_res r) Q"
  by (simp add: runs_def from_res_def)

lemma runs_get_cluster: "(\<And>c. Q (Ok c) []) \<Longrightarrow> runs get_cluster Q"
  by (simp add: runs_def get_cluster_def)

lemma runs_set_cluster: "Q (Ok ()) [] \<Longrightarrow> runs (set_cluster c) Q"
  by (simp add: runs_def set_cluster_def)

lemma runs_change_world: "Q (Ok ()) [] \<Longrightarrow> runs (change_world f) Q"
  by (simp add: runs_def change_world_def)

lemma runs_read_world: "(\<And>a. Q (Ok a) []) \<Longrightarrow> runs (read_world f) Q"
  by (simp add: runs_def read_world_def)

lemma runs_issue:
  "(\<And>e. Q (Err e) [(c, False)]) \<Longrightarrow> (\<And>a. Q (Ok a) [(c, True)]) \<Longrightarrow> runs (issue c f) Q"
  by (auto simp: runs_def issue_def split: prod.splits sum.splits)

lemma runs_ask:
  "(\<And>e. Q (Err e) [(c, False)]) \<Longrightarrow> (\<And>b. Q (Ok b) [(c, b)]) \<Longrightarrow> runs (ask c f) Q"
  by (auto simp: runs_def ask_def split: prod.splits sum.splits)

lemma runs_bind:
  assumes "runs m P" and "\<And>a. runs (f a) (R a)"
    and "\<And>e t. P (Err e) t \<Longrightarrow> Q (Err e) t" and "\<And>t. P Panic t \<Longrightarrow> Q Panic t"
    and "\<And>a t r t'. P (Ok a) t \<Longrightarrow> R a r t' \<Longrightarrow> Q r (t @ t')"
  shows "runs (bind m f) Q"
  unfolding runs_def
proof (intro allI)
  fix s
  obtain r s1 t where m: "m s = (r, s1, t)" by (cases "m s") auto
  with assms(1) have P: "P r t" by (rule runsD)
  show "case bind m f s of (r, s', t) \<Rightarrow> Q r t"
  proof (cases r)
    case (Ok a)
    obtain r' s2 t' where f: "f a s1 = (r', s2, t')" by (cases "f a s1") auto
    with assms(2) have "R a r' t'" by (rule runsD)
    with assms(5) P Ok m f show ?thesis by (simp add: bind_def)
  qed (use assms(3,4) P m in \<open>auto simp: bind_def\<close>)
qed

text \<open>Steps without a call leave the trace alone.\<close>

lemma runs_bind_silent:
  assumes "\<And>s. \<exists>r s'. m s = (r, s', [])" and "\<And>s e s' t. m s = (Err e, s', t) \<Longrightarrow> Q (Err e) []"
    and "\<And>s s' t. m s = (Panic, s', t) \<Longrightarrow> Q Panic []"
    and "\<And>s a s' t. m s = (Ok a, s', t) \<Longrightarrow> runs (f a) Q"
  shows "runs (bind m f) Q"
  unfolding runs_def
proof (intro allI)
  fix s
  obtain r s1 where m: "m s = (r, s1, [])" using assms(1) by blast
  show "case bind m f s of (r, s', t) \<Rightarrow> Q r t"
  proof (cases r)
    case (Ok a)
    obtain r' s2 t' where f: "f a s1 = (r', s2, t')" by (cases "f a s1") auto
    have "runs (f a) Q" using assms(4) m Ok by blast
    then have "Q r' t'" using f by (rule runsD)
    with m Ok f show ?thesis by (simp add: bind_def)
  qed (use assms(2,3) m in \<open>auto simp: bind_def\<close>)
qed

lemma runs_get: "(\<And>c. runs (f c) Q) \<Longrightarrow> runs (bind get_cluster f) Q"
  by (rule runs_bind_silent) (auto simp: get_cluster_def)

lemma runs_read: "(\<And>a. runs (f a) Q) \<Longrightarrow> runs (bind (read_world g) f) Q"
  by (rule runs_bind_silent) (auto simp: read_world_def)

lemma runs_change: "runs (f ()) Q \<Longrightarrow> runs (bind (change_world g) f) Q"
  by (rule runs_bind_silent) (auto simp: change_world_def)

lemma runs_res:
  "(\<And>e. r = Err e \<Longrightarrow> Q (Err e) []) \<Longrightarrow> (r = Panic \<Longrightarrow> Q Panic []) \<Longrightarrow> (\<And>a. r = Ok a \<Longrightarrow> runs (f a) Q) \<Longrightarrow>
   runs (bind (from_res r) f) Q"
  by (rule runs_bind_silent) (auto simp: from_res_def)

lemma wrap_err_from_res [simp]: "wrap_err g (from_res r) = from_res (res_map_err g r)"
  by (rule ext) (simp add: wrap_err_def from_res_def)

lemma runs_wrap_err:
  assumes "runs m P" and "\<And>a t. P (Ok a) t \<Longrightarrow> Q (Ok a) t"
    and "\<And>e t. P (Err e) t \<Longrightarrow> Q (Err (g e)) t" and "\<And>t. P Panic t \<Longrightarrow> Q Panic t"
  shows "runs (wrap_err g m) Q"
  unfolding runs_def
proof (intro allI)
  fix s
  obtain r s1 t where m: "m s = (r, s1, t)" by (cases "m s") auto
  with assms(1) have "P r t" by (rule runsD)
  with m assms(2-4) show "case wrap_err g m s of (r, s', t) \<Rightarrow> Q r t"
    by (cases r) (auto simp: wrap_err_def)
qed

lemma runs_attempt:
  assumes "runs m P" and "\<And>a t. P (Ok a) t \<Longrightarrow> Q (Ok (Inr a)) t"
    and "\<And>e t. P (Err e) t \<Longrightarrow> Q (Ok (Inl e)) t" and "\<And>t. P Panic t \<Longrightarrow> Q Panic t"
  shows "runs (attempt m) Q"
  unfolding runs_def
proof (intro allI)
  fix s
  obtain r s1 t where m: "m s = (r, s1, t)" by (cases "m s") auto
  with assms(1) have "P r t" by (rule runsD)
  with m assms(2-4) show "case attempt m s of (r, s', t) \<Rightarrow> Q r t"
    by (cases r) (auto simp: attempt_def)
qed

lemma runs_if: "(b \<Longrightarrow> runs m Q) \<Longrightarrow> (\<not> b \<Longrightarrow> runs n Q) \<Longrightarrow> runs (if b then m else n) Q"
  by simp

section \<open>Operations confined to some calls\<close>

text \<open>
  \<open>only A m\<close>: the operation makes no call outside \<open>A\<close>, whatever its outcome.
\<close>

definition only :: "(call \<times> bool \<Rightarrow> bool) \<Rightarrow> ('w, 'e, 'a) prog \<Rightarrow> bool" where
  "only A m \<longleftrightarrow> runs m (\<lambda>r t. list_all A t)"

lemma only_mono: "only A m \<Longrightarrow> (\<And>x. A x \<Longrightarrow> B x) \<Longrightarrow> only B m"
  unfolding only_def by (erule runs_mono) (auto simp: list_all_iff)

lemma only_basic [trace_rules]:
  "only A (ret a)" "only A (fail e)" "only A (from_res r)" "only A get_cluster" "only A (set_cluster c)"
  "only A (change_world f)" "only A (read_world g)"
  by (simp_all add: only_def runs_def ret_def fail_def from_res_def get_cluster_def set_cluster_def
        change_world_def read_world_def)

lemma only_issue [trace_rules]: "(\<And>b. A (c, b)) \<Longrightarrow> only A (issue c f)"
  unfolding only_def by (rule runs_issue) auto

lemma only_ask [trace_rules]: "(\<And>b. A (c, b)) \<Longrightarrow> only A (ask c f)"
  unfolding only_def by (rule runs_ask) auto

lemma only_bind [trace_rules]: "only A m \<Longrightarrow> (\<And>a. only A (f a)) \<Longrightarrow> only A (bind m f)"
  unfolding only_def
  by (rule runs_bind [where P = "\<lambda>_. list_all A" and R = "\<lambda>_ _. list_all A"]) auto

lemma only_wrap_err [trace_rules]: "only A m \<Longrightarrow> only A (wrap_err g m)"
  unfolding only_def by (erule runs_wrap_err) auto

lemma only_attempt [trace_rules]: "only A m \<Longrightarrow> only A (attempt m)"
  unfolding only_def by (erule runs_attempt) auto

lemma only_if [trace_rules]: "(b \<Longrightarrow> only A m) \<Longrightarrow> (\<not> b \<Longrightarrow> only A n) \<Longrightarrow> only A (if b then m else n)"
  by simp

lemma only_each [trace_rules]: "(\<And>x. x \<in> set xs \<Longrightarrow> only A (f x)) \<Longrightarrow> only A (each f xs)"
  by (induction xs) (auto intro!: trace_rules)

lemma only_case_option [trace_rules]:
  "(x = None \<Longrightarrow> only A m) \<Longrightarrow> (\<And>y. x = Some y \<Longrightarrow> only A (f y)) \<Longrightarrow>
   only A (case x of None \<Rightarrow> m | Some y \<Rightarrow> f y)"
  by (cases x) auto

lemma only_case_sum [trace_rules]:
  "(\<And>y. x = Inl y \<Longrightarrow> only A (f y)) \<Longrightarrow> (\<And>y. x = Inr y \<Longrightarrow> only A (g y)) \<Longrightarrow>
   only A (case x of Inl y \<Rightarrow> f y | Inr y \<Rightarrow> g y)"
  by (cases x) auto

lemma only_case_prod [trace_rules]:
  "(\<And>a b. p = (a, b) \<Longrightarrow> only A (f a b)) \<Longrightarrow> only A (case p of (a, b) \<Rightarrow> f a b)"
  by (cases p) auto

lemma onlyD: "only A m \<Longrightarrow> m s = (r, s', t) \<Longrightarrow> list_all A t"
  unfolding only_def by (rule runsD)

text \<open>The rest of an operation may rely on what its first part returned.\<close>

lemma only_bind_result:
  assumes "runs m (\<lambda>r t. list_all A t \<and> (\<forall>a. r = Ok a \<longrightarrow> P a))" and "\<And>a. P a \<Longrightarrow> only A (f a)"
  shows "only A (bind m f)"
  unfolding only_def runs_def
proof (intro allI)
  fix s
  obtain r s1 t where m: "m s = (r, s1, t)" by (cases "m s") auto
  note first = runsD [OF assms(1) m]
  show "case bind m f s of (r, s', t) \<Rightarrow> list_all A t"
  proof (cases r)
    case (Ok a)
    obtain r' s2 t' where f: "f a s1 = (r', s2, t')" by (cases "f a s1") auto
    have "list_all A t'" using onlyD [OF assms(2) f] first Ok by simp
    with first m f Ok show ?thesis by (simp add: bind_def)
  qed (use first m in \<open>simp_all add: bind_def\<close>)
qed

lemma runs_not_ok: "(\<And>a. runs (f a) (\<lambda>r t. r \<noteq> Ok b)) \<Longrightarrow> runs (bind m f) (\<lambda>r t. r \<noteq> Ok b)"
  by (rule runs_bind [where P = "\<lambda>_ _. True" and R = "\<lambda>_ r _. r \<noteq> Ok b"]) (auto simp: runs_def)

text \<open>A run of two operations in sequence.\<close>

lemma bind_runE:
  assumes "bind m f s = (r, s', t)"
  obtains (Err) e where "m s = (Err e, s', t)" "r = Err e"
  | (Panic) "m s = (Panic, s', t)" "r = Panic"
  | (Ok) a s1 t1 t2 where "m s = (Ok a, s1, t1)" "f a s1 = (r, s', t2)" "t = t1 @ t2"
  using assms by (auto simp: bind_def split: prod.splits res.splits)

text \<open>A call whose answer is looked at.\<close>

lemma runs_attempt_issue:
  assumes "\<And>w e w'. f w = (Inl e, w') \<Longrightarrow> runs (g (Inl e)) (\<lambda>r t. Q r ((c, False) # t))"
    and "\<And>w a w'. f w = (Inr a, w') \<Longrightarrow> runs (g (Inr a)) (\<lambda>r t. Q r ((c, True) # t))"
  shows "runs (bind (attempt (issue c f)) g) Q"
  unfolding runs_def
proof (intro allI)
  fix s :: "'a rst"
  obtain x w' where f: "f (CtWorld s) = (x, w')" by (cases "f (CtWorld s)")
  show "case bind (attempt (issue c f)) g s of (r, s', t) \<Rightarrow> Q r t"
  proof (cases x)
    case (Inl e)
    with runsD [OF assms(1)] f show ?thesis by (auto simp: bind_def attempt_def issue_def split: prod.splits)
  next
    case (Inr a)
    with runsD [OF assms(2)] f show ?thesis by (auto simp: bind_def attempt_def issue_def split: prod.splits)
  qed
qed

lemma runs_and: "runs m P \<Longrightarrow> runs m Q \<Longrightarrow> runs m (\<lambda>r t. P r t \<and> Q r t)"
  by (auto simp: runs_def split: prod.splits)

lemma list_all_False: "list_all (\<lambda>_. False) t \<longleftrightarrow> t = []"
  by (cases t) auto

section \<open>Operations that leave the copy of the cluster alone\<close>

definition keeps_cluster :: "('w, 'e, 'a) prog \<Rightarrow> bool" where
  "keeps_cluster m \<longleftrightarrow> (\<forall>s r s' t. m s = (r, s', t) \<longrightarrow> CtCluster s' = CtCluster s)"

lemma keeps_clusterD: "keeps_cluster m \<Longrightarrow> m s = (r, s', t) \<Longrightarrow> CtCluster s' = CtCluster s"
  by (auto simp: keeps_cluster_def)

lemma keeps_basic [trace_rules]:
  "keeps_cluster (ret a)" "keeps_cluster (fail e)" "keeps_cluster (from_res r)" "keeps_cluster get_cluster"
  "keeps_cluster (change_world f)" "keeps_cluster (read_world g)" "keeps_cluster (issue c h)" "keeps_cluster (ask c k)"
  by (auto simp: keeps_cluster_def ret_def fail_def from_res_def get_cluster_def change_world_def read_world_def issue_def
        ask_def split: prod.splits sum.splits)

lemma keeps_bind [trace_rules]: "keeps_cluster m \<Longrightarrow> (\<And>a. keeps_cluster (f a)) \<Longrightarrow> keeps_cluster (bind m f)"
  unfolding keeps_cluster_def bind_def by (fastforce split: prod.splits res.splits)

lemma keeps_wrap_err [trace_rules]: "keeps_cluster m \<Longrightarrow> keeps_cluster (wrap_err g m)"
  unfolding keeps_cluster_def wrap_err_def by (auto split: prod.splits)

lemma keeps_attempt [trace_rules]: "keeps_cluster m \<Longrightarrow> keeps_cluster (attempt m)"
  unfolding keeps_cluster_def attempt_def by (auto split: prod.splits res.splits)

lemma keeps_each [trace_rules]: "(\<And>x. keeps_cluster (f x)) \<Longrightarrow> keeps_cluster (each f xs)"
  by (induction xs) (auto intro!: keeps_basic keeps_bind)

lemma keeps_if [trace_rules]: "keeps_cluster m \<Longrightarrow> keeps_cluster n \<Longrightarrow> keeps_cluster (if b then m else n)"
  by simp

section \<open>Operations that succeed\<close>

text \<open>
  What an operation that succeeds returns, when it starts with the copy \<open>c\<close> of the cluster.
\<close>

definition yields :: "AerospikeCluster \<Rightarrow> ('w, 'e, 'a) prog \<Rightarrow> ('a \<Rightarrow> bool) \<Rightarrow> bool" where
  "yields c m P \<longleftrightarrow> (\<forall>s a s' t. CtCluster s = c \<longrightarrow> m s = (Ok a, s', t) \<longrightarrow> P a)"

lemma yieldsD: "yields (CtCluster s) m P \<Longrightarrow> m s = (Ok a, s', t) \<Longrightarrow> P a"
  by (auto simp: yields_def)

lemma yields_bind: "keeps_cluster m \<Longrightarrow> yields c m P \<Longrightarrow> (\<And>a. P a \<Longrightarrow> yields c (f a) Q) \<Longrightarrow> yields c (bind m f) Q"
  unfolding yields_def bind_def keeps_cluster_def by (fastforce split: prod.splits res.splits)

lemma yields_rest: "keeps_cluster m \<Longrightarrow> (\<And>a. yields c (f a) Q) \<Longrightarrow> yields c (bind m f) Q"
  by (rule yields_bind [where P = "\<lambda>_. True"]) (simp_all add: yields_def)

lemma yields_first: "yields c m (\<lambda>_. Q) \<Longrightarrow> yields c (bind m f) (\<lambda>_. Q)"
  unfolding yields_def bind_def by (fastforce split: prod.splits res.splits)

lemma yields_last: "(\<And>a c. yields c (f a) Q) \<Longrightarrow> yields c (bind m f) Q"
  unfolding yields_def bind_def by (fastforce split: prod.splits res.splits)

lemma yields_ret: "P x \<Longrightarrow> yields c (ret x) P"
  by (simp add: yields_def ret_def)

lemma yields_fail: "yields c (fail e) P"
  by (simp add: yields_def fail_def)

lemma yields_from_res: "(\<And>a. r = Ok a \<Longrightarrow> P a) \<Longrightarrow> yields c (from_res r) P"
  by (simp add: yields_def from_res_def)

lemma yields_cluster: "yields c get_cluster (\<lambda>a. a = c)"
  by (simp add: yields_def get_cluster_def)

lemmas yields_basic = yields_ret yields_fail yields_from_res

lemma yields_get: "yields c (f c) P \<Longrightarrow> yields c (bind get_cluster f) P"
  by (rule yields_bind [OF _ yields_cluster]) (auto intro: trace_rules)

lemma yields_issue: "(\<And>w a w'. f w = (Inr a, w') \<Longrightarrow> P a) \<Longrightarrow> yields c (issue k f) P"
  by (auto simp: yields_def issue_def split: prod.splits sum.splits)

lemma yields_wrap_err: "yields c m P \<Longrightarrow> yields c (wrap_err g m) P"
  unfolding yields_def wrap_err_def by (auto simp: res_map_err_Ok_iff split: prod.splits)

lemma yields_attempt: "yields c m P \<Longrightarrow> yields c (attempt m) (\<lambda>r. \<forall>a. r = Inr a \<longrightarrow> P a)"
  unfolding yields_def attempt_def by (auto split: prod.splits res.splits)

lemma yields_mono: "yields c m P \<Longrightarrow> (\<And>a. P a \<Longrightarrow> Q a) \<Longrightarrow> yields c m Q"
  by (auto simp: yields_def)

lemma yields_each:
  "(\<And>x. x \<in> set xs \<Longrightarrow> keeps_cluster (f x)) \<Longrightarrow> (\<And>x. x \<in> set xs \<Longrightarrow> yields c (f x) (\<lambda>_. P x)) \<Longrightarrow>
   yields c (each f xs) (\<lambda>_. \<forall>x\<in>set xs. P x)"
proof (induction xs)
  case (Cons x xs)
  then have "keeps_cluster (f x)" "yields c (f x) (\<lambda>_. P x)" "yields c (each f xs) (\<lambda>_. \<forall>x\<in>set xs. P x)" by auto
  then show ?case by (auto intro!: yields_bind elim: yields_mono)
qed (simp add: yields_basic)

lemma bind_okE:
  assumes "bind m f s = (Ok b, s', t)"
  obtains a s1 t1 t2 where "m s = (Ok a, s1, t1)" "f a s1 = (Ok b, s', t2)" "t = t1 @ t2"
  using assms by (cases rule: bind_runE) auto

text \<open>Operations that succeed only by a run of a given last part.\<close>

definition ends_with :: "('w, 'e, 'a) prog \<Rightarrow> ('w, 'e, 'a) prog \<Rightarrow> bool" where
  "ends_with m k \<longleftrightarrow> (\<forall>s b s' t. m s = (Ok b, s', t) \<longrightarrow> (\<exists>s1 t1. k s1 = (Ok b, s', t1)))"

lemma ends_withD: "ends_with m k \<Longrightarrow> m s = (Ok b, s', t) \<Longrightarrow> \<exists>s1 t1. k s1 = (Ok b, s', t1)"
  unfolding ends_with_def by blast

lemma ends_with_self: "ends_with m m"
  by (auto simp: ends_with_def)

lemma ends_with_bind: "(\<And>a. ends_with (f a) k) \<Longrightarrow> ends_with (bind m f) k"
  unfolding ends_with_def by (metis bind_okE)

end
