(* ===== verification/Rack_Plan.thy ===== *)
theory Rack_Plan
  imports Pod_Health "HOL-Library.AList"
begin

text \<open>
  The decisions of \<^verbatim>\<open>internal/controller/cluster/rack.go\<close> and the pod classification of
  \<^verbatim>\<open>pod.go\<close>: which racks are configured, migrating to a new revision or to be deleted, the order in
  which the pods of a rack are taken down, the batches of a rolling restart, and which failed pods a
  pass may ignore. Lists the code reads from the Kubernetes API are arguments, as results that may
  be errors.
\<close>

section \<open>Rack states\<close>

record RackState =
  RsRack :: Rack
  RsSize :: int

record revisionChangedRack =
  RcOldRack :: RackState
  RcNewRack :: RackState

datatype rack_error = RkName name_error | RkAPI string | RkPodList int string

definition sized_racks :: "Rack list \<Rightarrow> int list \<Rightarrow> RackState list" where
  "sized_racks racks topology =
     map (\<lambda>(r, n). \<lparr>RsRack = r, RsSize = n\<rparr>) (filter (\<lambda>(r, n). n \<noteq> 0) (zip racks topology))"

text \<open>Dividing by the number of racks panics when there is none.\<close>

definition getConfiguredRackStateList :: "AerospikeClusterSpec \<Rightarrow> (rack_error, RackState list) res" where
  "getConfiguredRackStateList spec =
     (case DistributeItems (SpecSize spec) (int (length (SpecRacks spec))) of
        Ok topology \<Rightarrow> Ok (sized_racks (SpecRacks spec) topology)
      | Err _ \<Rightarrow> Panic
      | Panic \<Rightarrow> Panic)"

definition getRacksToBeBlockedFromRoster :: "RackState list \<Rightarrow> Rack list" where
  "getRacksToBeBlockedFromRoster rackStateList =
     map RsRack (filter (\<lambda>s. GetBool (RackForceBlockFromRoster (RsRack s))) rackStateList)"

text \<open>
  The racks that exist: those of the status, and one made up from the global settings for each
  StatefulSet whose rack and revision the status does not hold.
\<close>

definition status_has_rack :: "AerospikeCluster \<Rightarrow> int \<Rightarrow> string \<Rightarrow> bool" where
  "status_has_rack c rackID rackRevision =
     list_ex (\<lambda>r. RackID r = rackID \<and> RackRevision r = rackRevision) (StRacks (ClusterStatus c))"

definition dummy_rack :: "AerospikeCluster \<Rightarrow> int \<Rightarrow> string \<Rightarrow> Rack" where
  "dummy_rack c rackID rackRevision =
     \<lparr>RackID = rackID, RackRevision = rackRevision,
      RackAerospikeConfig = SpecAerospikeConfig (ClusterSpec c),
      RackStorage = SpecStorage (ClusterSpec c), RackForceBlockFromRoster = None,
        RackZone = [], RackRegion = [], RackRackLabel = [], RackNodeName = [], RackInputAerospikeConfig = None,
        RackInputStorage = None, RackInputPodSpec = None, RackPodSpec = no_scheduling\<rparr>"

fun dangling_racks :: "AerospikeCluster \<Rightarrow> string list \<Rightarrow> (rack_error, Rack list) res" where
  "dangling_racks c [] = Ok []"
| "dangling_racks c (stsName # names) =
     res_bind (res_map_err RkName (GetRackIDAndRevisionFromSTSName (ClusterName c) stsName))
       (\<lambda>(rackID, rackRevision).
          res_bind (dangling_racks c names) (\<lambda>rest.
            Ok (if status_has_rack c rackID rackRevision then rest
                else dummy_rack c rackID rackRevision # rest)))"

definition getCurrentRackList ::
  "AerospikeCluster \<Rightarrow> (rack_error, string list) res \<Rightarrow> (rack_error, Rack list) res" where
  "getCurrentRackList c clusterSTSList =
     res_bind clusterSTSList (\<lambda>names.
       res_bind (dangling_racks c names) (\<lambda>dummies. Ok (StRacks (ClusterStatus c) @ dummies)))"

definition getRacksToDelete ::
  "AerospikeCluster \<Rightarrow> (rack_error, string list) res \<Rightarrow> RackState list \<Rightarrow> (rack_error, Rack list) res" where
  "getRacksToDelete c clusterSTSList rackStateList =
     res_bind (getCurrentRackList c clusterSTSList) (\<lambda>oldRacks.
       Ok (filter (\<lambda>old. \<not> list_ex (\<lambda>s. RackID old = RackID (RsRack s)) rackStateList) oldRacks))"

text \<open>
  A configured rack migrates when a rack with its ID and another revision exists; the first such
  rack is the outgoing one.
\<close>

definition revision_change :: "Rack list \<Rightarrow> RackState \<Rightarrow> revisionChangedRack option" where
  "revision_change oldRacks state =
     map_option (\<lambda>old. \<lparr>RcOldRack = \<lparr>RsRack = old, RsSize = RsSize state\<rparr>, RcNewRack = state\<rparr>)
       (find (\<lambda>old. RackID (RsRack state) = RackID old \<and> RackRevision (RsRack state) \<noteq> RackRevision old)
          oldRacks)"

fun revision_changes ::
  "Rack list \<Rightarrow> RackState list \<Rightarrow> (int \<times> revisionChangedRack) list \<Rightarrow> (int \<times> revisionChangedRack) list" where
  "revision_changes oldRacks [] m = m"
| "revision_changes oldRacks (state # states) m =
     revision_changes oldRacks states
       (case revision_change oldRacks state of
          None \<Rightarrow> m
        | Some c \<Rightarrow> AList.update (RackID (RsRack state)) c m)"

text \<open>The StatefulSets are listed twice, so the two lists are separate arguments.\<close>

definition categoriseRacks ::
  "AerospikeCluster \<Rightarrow> (rack_error, string list) res \<Rightarrow> (rack_error, string list) res \<Rightarrow>
   (rack_error, RackState list \<times> (int \<times> revisionChangedRack) list \<times> Rack list) res" where
  "categoriseRacks c stsList1 stsList2 =
     res_bind (getConfiguredRackStateList (ClusterSpec c)) (\<lambda>configuredRacks.
     res_bind (getRacksToDelete c stsList1 configuredRacks) (\<lambda>racksToDelete.
     res_bind (getCurrentRackList c stsList2) (\<lambda>oldRacks.
       Ok (configuredRacks, revision_changes oldRacks configuredRacks [], racksToDelete))))"

definition allRackStates ::
  "RackState list \<Rightarrow> (int \<times> revisionChangedRack) list \<Rightarrow> Rack list \<Rightarrow> RackState list" where
  "allRackStates configuredRacks revisionChangedRacks racksToDelete =
     configuredRacks @ map (RcOldRack \<circ> snd) revisionChangedRacks @
     map (\<lambda>r. \<lparr>RsRack = r, RsSize = 0\<rparr>) racksToDelete"

section \<open>Pods of a rack\<close>

definition getRackPodNames :: "AerospikeCluster \<Rightarrow> RackState \<Rightarrow> string list" where
  "getRackPodNames c rackState =
     (let rackIdentifier = GetRackIdentifier (RackID (RsRack rackState)) (RackRevision (RsRack rackState));
          stsName = ObjName (GetNamespacedNameForSTSOrConfigMap c rackIdentifier)
      in map (GetSTSPodName stsName) [0..RsSize rackState - 1])"

text \<open>
  The number \<^verbatim>\<open>strconv.Atoi\<close> returns beside its error, which is ignored: zero for a string that is no
  number, the nearest 64-bit integer for one out of range. The last part of a name split at dashes
  has no minus sign.
\<close>

definition pod_ordinal :: "string \<Rightarrow> int" where
  "pod_ordinal name =
     (let part = last (Split (CHR ''-'') name) in
      case Atoi part of
        Some i \<Rightarrow> i
      | None \<Rightarrow>
          (let digits = (case part of c # cs \<Rightarrow> if c = CHR ''+'' then cs else part | [] \<Rightarrow> []) in
           if digits \<noteq> [] \<and> digits_val 0 digits \<noteq> None then 2 ^ 63 - 1 else 0))"

text \<open>Highest ordinal first. A slot no pod of the list fills stays a nil pointer.\<close>

fun place_pods :: "int \<Rightarrow> string \<Rightarrow> nat \<Rightarrow> Pod list \<Rightarrow> Pod option list \<Rightarrow> (rack_error, Pod option list) res" where
  "place_pods rackID rackRevision n [] sortedList = Ok sortedList"
| "place_pods rackID rackRevision n (pod # pods) sortedList =
     (let indexInt = pod_ordinal (PodName pod) in
      if int n \<le> indexInt then Err (RkPodList rackID rackRevision)
      else if indexInt < 0 then Panic
      else place_pods rackID rackRevision n pods (sortedList[n - 1 - nat indexInt := Some pod]))"

definition getOrderedRackPodList ::
  "int \<Rightarrow> string \<Rightarrow> (rack_error, Pod list) res \<Rightarrow> (rack_error, Pod option list) res" where
  "getOrderedRackPodList rackID rackRevision podList =
     res_bind podList (\<lambda>pods.
       place_pods rackID rackRevision (length pods) pods (replicate (length pods) None))"

text \<open>
  The pods a scale-down removes (\<^verbatim>\<open>parallel_scaledown.go\<close>): all of them for a rack without a
  StatefulSet to scale, otherwise the first \<open>replicas - size\<close> of the ordered list; slicing past
  its end panics.
\<close>

definition getAllScaleDownPods ::
  "(rack_error, Pod list) res \<Rightarrow> int option \<Rightarrow> RackState \<Rightarrow> (rack_error, Pod option list) res" where
  "getAllScaleDownPods podList stsReplicas rackState =
     res_bind (getOrderedRackPodList (RackID (RsRack rackState)) (RackRevision (RsRack rackState)) podList)
       (\<lambda>orderedPods.
          case stsReplicas of
            None \<Rightarrow> Ok orderedPods
          | Some replicas \<Rightarrow>
              (let diffPods = replicas - RsSize rackState in
               if diffPods \<le> 0 then Ok []
               else if int (length orderedPods) < diffPods then Panic
               else Ok (take (nat diffPods) orderedPods)))"

section \<open>Batches\<close>

function chunk_loop :: "nat \<Rightarrow> 'a list \<Rightarrow> 'a list list \<Rightarrow> 'a list list" where
  "chunk_loop chunkSize items chunks =
     (if 0 < chunkSize \<and> chunkSize < length items
      then chunk_loop chunkSize (drop chunkSize items) (chunks @ [take chunkSize items])
      else chunks @ [items])"
  by pat_completeness auto
termination
  by (relation "measure (\<lambda>(n, items, chunks). length items)") auto

declare chunk_loop.simps [simp del]

definition chunkBy :: "'a list \<Rightarrow> int \<Rightarrow> 'a list list" where
  "chunkBy items chunkSize =
     chunk_loop (nat (if chunkSize \<le> 0 then 1 else chunkSize)) items []"

text \<open>\<open>scaled\<close> is \<^verbatim>\<open>intstr.GetScaledValueFromIntOrPercent\<close> rounding down, whose error is ignored.\<close>

definition getPodsBatchList ::
  "(IntOrString option \<Rightarrow> int \<Rightarrow> int) \<Rightarrow> IntOrString option \<Rightarrow> 'a list \<Rightarrow> int \<Rightarrow> 'a list list" where
  "getPodsBatchList scaled batchSize podList rackSize = chunkBy podList (scaled batchSize rackSize)"

section \<open>Classification of pods\<close>

definition getServerFailedAndActivePods ::
  "int \<Rightarrow> string \<Rightarrow> Pod list \<Rightarrow> bool \<Rightarrow> Pod list \<times> Pod list \<times> Pod list" where
  "getServerFailedAndActivePods now env pods withGracePeriod =
     (let st = (\<lambda>pod. PsState (CheckServerFailedWithGrace now env pod withGracePeriod)) in
      (filter (\<lambda>p. st p = PodFailed) pods, filter (\<lambda>p. st p = PodFailedInGrace) pods,
       filter (\<lambda>p. st p = PodHealthy) pods))"

definition hasDefinitiveFailure :: "Pod list \<Rightarrow> bool" where
  "hasDefinitiveFailure pods = list_ex (\<lambda>p. \<not> fst (IsPodReasonUnschedulable p)) pods"

definition getSidecarNotReadyPods :: "Pod list \<Rightarrow> Pod list" where
  "getSidecarNotReadyPods pods =
     filter (\<lambda>pod. \<not> IsPodTerminating pod \<and> IsAerospikeServerReady pod \<and> \<not> IsPodReady pod) pods"

definition getNonIgnorablePods :: "Pod list \<Rightarrow> string list \<Rightarrow> Pod list" where
  "getNonIgnorablePods pods ignorablePodNames =
     filter (\<lambda>pod. PodName pod \<notin> set ignorablePodNames) pods"

definition classifyNotReadyPods :: "int \<Rightarrow> string \<Rightarrow> Pod list \<Rightarrow> Pod list \<times> Pod list" where
  "classifyNotReadyPods now env pods =
     (let notReady = filter (\<lambda>p. \<not> IsPodReady p) pods in
      (filter (\<lambda>p. CheckPodFailed now env p \<noteq> None) notReady,
       filter (\<lambda>p. CheckPodFailed now env p = None) notReady))"

definition podNamesToSet :: "Pod list \<Rightarrow> string list" where
  "podNamesToSet pods = map PodName pods"

section \<open>Pods a pass may ignore\<close>

text \<open>
  Racks that are deleted or blocked from the roster: every pod whose server is not running.
  \<open>rackPods\<close> lists the pods of a rack and revision.
\<close>

fun ignorable_of_racks ::
  "(int \<Rightarrow> string \<Rightarrow> (rack_error, Pod list) res) \<Rightarrow> Rack list \<Rightarrow> (rack_error, string list) res" where
  "ignorable_of_racks rackPods [] = Ok []"
| "ignorable_of_racks rackPods (rack # racks) =
     res_bind (rackPods (RackID rack) (RackRevision rack)) (\<lambda>pods.
       res_bind (ignorable_of_racks rackPods racks) (\<lambda>rest.
         Ok (map PodName (filter (\<lambda>p. \<not> IsAerospikeServerReady p) pods) @ rest)))"

definition pending_pods :: "Pod list \<Rightarrow> Pod list" where
  "pending_pods pods =
     filter (\<lambda>p. \<not> IsPodRunningAndReady p \<and> fst (IsPodReasonUnschedulable p)) pods"

definition failed_pods :: "string \<Rightarrow> bool \<Rightarrow> Pod list \<Rightarrow> Pod list" where
  "failed_pods currentRevision isCurrent pods =
     filter (\<lambda>p. \<not> IsPodRunningAndReady p \<and> \<not> fst (IsPodReasonUnschedulable p) \<and>
        \<not> IsAerospikeServerReady p \<and>
        ((case gomap_get (PodLabels p) AerospikeRackRevisionLabel of None \<Rightarrow> [] | Some v \<Rightarrow> v) =
           currentRevision) = isCurrent) pods"

text \<open>Pending pods use up the allowance first, then failed pods of outgoing revisions.\<close>

definition ignorable_candidates :: "string \<Rightarrow> Pod list \<Rightarrow> string list" where
  "ignorable_candidates currentRevision pods =
     map PodName (pending_pods pods @ failed_pods currentRevision False pods @
       failed_pods currentRevision True pods)"

fun ignorable_of_configured ::
  "(IntOrString option \<Rightarrow> int \<Rightarrow> int) \<Rightarrow> IntOrString option \<Rightarrow> (int \<Rightarrow> (rack_error, Pod list) res) \<Rightarrow>
   int list \<Rightarrow> RackState list \<Rightarrow> (rack_error, string list) res" where
  "ignorable_of_configured scaled maxIgnorable allRevisionPods ignorableRackIDs [] = Ok []"
| "ignorable_of_configured scaled maxIgnorable allRevisionPods ignorableRackIDs (state # states) =
     (let failedAllowed = scaled maxIgnorable (RsSize state) in
      if RackID (RsRack state) \<in> set ignorableRackIDs \<or> failedAllowed = 0
      then ignorable_of_configured scaled maxIgnorable allRevisionPods ignorableRackIDs states
      else res_bind (allRevisionPods (RackID (RsRack state))) (\<lambda>pods.
        res_bind (ignorable_of_configured scaled maxIgnorable allRevisionPods ignorableRackIDs states) (\<lambda>rest.
          Ok (take (nat failedAllowed) (ignorable_candidates (RackRevision (RsRack state)) pods) @ rest))))"

definition getIgnorablePods ::
  "(IntOrString option \<Rightarrow> int \<Rightarrow> int) \<Rightarrow> (int \<Rightarrow> string \<Rightarrow> (rack_error, Pod list) res) \<Rightarrow>
   (int \<Rightarrow> (rack_error, Pod list) res) \<Rightarrow> IntOrString option \<Rightarrow> Rack list \<Rightarrow> RackState list \<Rightarrow>
   (rack_error, string list) res" where
  "getIgnorablePods scaled rackPods allRevisionPods maxIgnorable racksToDelete configuredRacks =
     (let ignorableRacks = racksToDelete @ getRacksToBeBlockedFromRoster configuredRacks in
      res_bind (ignorable_of_racks rackPods ignorableRacks) (\<lambda>names1.
        res_bind (ignorable_of_configured scaled maxIgnorable allRevisionPods (map RackID ignorableRacks)
                    configuredRacks)
          (\<lambda>names2. Ok (names1 @ names2))))"

section \<open>Racks are accounted for\<close>

lemma getConfigured_racks:
  assumes "getConfiguredRackStateList spec = Ok states"
  shows "set (map RsRack states) \<subseteq> set (SpecRacks spec)"
    and "distinct (map RackID (SpecRacks spec)) \<Longrightarrow> distinct (map (RackID \<circ> RsRack) states)"
proof -
  obtain ts where s: "states = sized_racks (SpecRacks spec) ts"
    using assms by (auto simp: getConfiguredRackStateList_def split: res.splits)
  then show "set (map RsRack states) \<subseteq> set (SpecRacks spec)"
    by (auto simp: sized_racks_def dest!: set_zip_leftD)
  have fst_filter: "distinct (map (f \<circ> fst) (filter P (zip xs ys)))"
    if "distinct (map f xs)" for f :: "Rack \<Rightarrow> int" and P and xs and ys :: "int list"
  proof -
    have "distinct (map f (map fst (zip xs ys)))"
      using that by (simp add: map_fst_zip_take distinct_map inj_on_def) (meson in_set_takeD)
    then show ?thesis by (simp add: distinct_map_filter)
  qed
  assume "distinct (map RackID (SpecRacks spec))"
  then show "distinct (map (RackID \<circ> RsRack) states)"
    using fst_filter [of RackID "SpecRacks spec" "\<lambda>(r, n). n \<noteq> 0" ts]
    by (simp add: s sized_racks_def comp_def case_prod_unfold)
qed

lemma revision_changes_map_of:
  "distinct (map (RackID \<circ> RsRack) states) \<Longrightarrow>
   map_of (revision_changes old states m) k =
     (case find (\<lambda>s. RackID (RsRack s) = k) states of
        None \<Rightarrow> map_of m k
      | Some s \<Rightarrow> (case revision_change old s of None \<Rightarrow> map_of m k | Some c \<Rightarrow> Some c))"
proof (induction states arbitrary: m)
  case Nil
  show ?case by simp
next
  case (Cons s states)
  have "find (\<lambda>t. RackID (RsRack t) = RackID (RsRack s)) states = None"
    using Cons.prems by (auto simp: find_None_iff image_iff)
  with Cons show ?case
    by (auto simp: update_conv' split: option.splits)
qed

lemma find_by_id:
  "distinct (map (RackID \<circ> RsRack) states) \<Longrightarrow> s \<in> set states \<Longrightarrow>
   find (\<lambda>t. RackID (RsRack t) = RackID (RsRack s)) states = Some s"
  by (induction states) (auto simp: image_iff)

lemma categoriseRacks_form:
  assumes "categoriseRacks c (Ok names) (Ok names) = Ok (conf, changed, del)"
  obtains cur where "getCurrentRackList c (Ok names) = Ok cur"
    and "getConfiguredRackStateList (ClusterSpec c) = Ok conf"
    and "changed = revision_changes cur conf []"
    and "del = filter (\<lambda>old. \<not> list_ex (\<lambda>s. RackID old = RackID (RsRack s)) conf) cur"
  using assms by (auto simp: categoriseRacks_def getRacksToDelete_def res_simps)

text \<open>
  Property C21. When both listings see the same StatefulSets, every rack that exists is accounted for:
  it is to be deleted exactly when no configured rack has its ID; otherwise it either is of the
  configured revision or its rack is migrating. A migration takes a rack that exists, with another
  revision, over to the configured one, and a rack without such a predecessor does not migrate.
\<close>

theorem racks_accounted_for:
  assumes "distinct (map RackID (SpecRacks (ClusterSpec c)))"
    and "categoriseRacks c (Ok names) (Ok names) = Ok (conf, changed, del)"
    and "getCurrentRackList c (Ok names) = Ok cur"
  shows "(\<forall>old\<in>set cur. (old \<in> set del) = (\<forall>s\<in>set conf. RackID (RsRack s) \<noteq> RackID old)) \<and>
    set del \<subseteq> set cur \<and>
    (\<forall>s\<in>set conf.
       (case map_of changed (RackID (RsRack s)) of
          None \<Rightarrow> \<forall>old\<in>set cur. RackID old = RackID (RsRack s) \<longrightarrow> RackRevision old = RackRevision (RsRack s)
        | Some ch \<Rightarrow> RcNewRack ch = s \<and> RsSize (RcOldRack ch) = RsSize s \<and>
            RsRack (RcOldRack ch) \<in> set cur \<and>
            RackID (RsRack (RcOldRack ch)) = RackID (RsRack s) \<and>
            RackRevision (RsRack (RcOldRack ch)) \<noteq> RackRevision (RsRack s)))"
proof -
  from assms(2) obtain cur' where "getCurrentRackList c (Ok names) = Ok cur'"
    and conf: "getConfiguredRackStateList (ClusterSpec c) = Ok conf"
    and changed: "changed = revision_changes cur' conf []"
    and del: "del = filter (\<lambda>old. \<not> list_ex (\<lambda>s. RackID old = RackID (RsRack s)) conf) cur'"
    by (rule categoriseRacks_form)
  with assms(3) have eq: "cur' = cur" by simp
  have dist: "distinct (map (RackID \<circ> RsRack) conf)"
    using getConfigured_racks(2) [OF conf assms(1)] .
  have "map_of changed (RackID (RsRack s)) = revision_change cur s" if "s \<in> set conf" for s
    using revision_changes_map_of [OF dist, of cur "[]"] find_by_id [OF dist that]
    by (simp add: changed eq split: option.split)
  then show ?thesis
    unfolding del eq
    by (auto simp: list_ex_iff revision_change_def find_Some_iff find_None_iff split: option.splits)
      metis
qed

definition example_racks_cluster :: AerospikeCluster where
  "example_racks_cluster =
     (let rack = (\<lambda>i v. dummy_rack example_cluster i v) in
      example_cluster\<lparr>ClusterSpec := (ClusterSpec example_cluster)
          \<lparr>SpecSize := 3, SpecRacks := [rack 1 ''v2'', rack 2 []]\<rparr>,
        ClusterStatus := no_status\<lparr>StRacks := [rack 1 ''v1'', rack 2 []]\<rparr>\<rparr>)"

definition example_category :: "RackState list \<times> (int \<times> revisionChangedRack) list \<times> Rack list" where
  "example_category =
     (case categoriseRacks example_racks_cluster (Ok [''aero-1-1-v1'', ''aero-1-2'', ''aero-1-3''])
             (Ok [''aero-1-1-v1'', ''aero-1-2'', ''aero-1-3'']) of Ok x \<Rightarrow> x | _ \<Rightarrow> ([], [], []))"

definition example_current :: "Rack list" where
  "example_current =
     (case getCurrentRackList example_racks_cluster (Ok [''aero-1-1-v1'', ''aero-1-2'', ''aero-1-3'']) of
        Ok x \<Rightarrow> x | _ \<Rightarrow> [])"

theorem racks_accounted_for_witness:
  "map RackID (snd (snd example_category)) = [3] \<and> map fst (fst (snd example_category)) = [1] \<and>
   set (snd (snd example_category)) \<subseteq> set example_current"
proof -
  let ?names = "[''aero-1-1-v1'', ''aero-1-2'', ''aero-1-3'']"
  have cat: "categoriseRacks example_racks_cluster (Ok ?names) (Ok ?names) =
      Ok (fst example_category, fst (snd example_category), snd (snd example_category))"
    by code_simp
  have cur: "getCurrentRackList example_racks_cluster (Ok ?names) = Ok example_current" by code_simp
  have dist: "distinct (map RackID (SpecRacks (ClusterSpec example_racks_cluster)))" by code_simp
  have "map RackID (snd (snd example_category)) = [3]" "map fst (fst (snd example_category)) = [1]"
    by code_simp+
  with racks_accounted_for [OF dist cat cur] show ?thesis by blast
qed

section \<open>Batches\<close>

lemma concat_chunk_loop: "concat (chunk_loop n items chunks) = concat chunks @ items"
  by (induction n items chunks rule: chunk_loop.induct) (subst chunk_loop.simps, simp)

lemma chunk_loop_sizes:
  "0 < n \<Longrightarrow> \<exists>full final. chunk_loop n items chunks = chunks @ full @ [final] \<and>
     (\<forall>c\<in>set full. length c = n) \<and> length final \<le> n \<and> (final = [] \<longrightarrow> items = [])"
proof (induction n items chunks rule: chunk_loop.induct)
  case (1 n items chunks)
  show ?case
  proof (cases "n < length items")
    case True
    with 1 obtain full final where
      "chunk_loop n (drop n items) (chunks @ [take n items]) = (chunks @ [take n items]) @ full @ [final]"
      "\<forall>c\<in>set full. length c = n" "length final \<le> n" "final = [] \<longrightarrow> drop n items = []" by blast
    with True 1(2) show ?thesis
      by (subst chunk_loop.simps) (auto intro!: exI [where x = "take n items # full"] exI [where x = final])
  next
    case False
    then show ?thesis by (subst chunk_loop.simps) auto
  qed
qed

text \<open>
  Property C37. A rolling restart takes every pod exactly once and in order: the batches are the list
  cut into pieces of the batch size (at least one), only the last may be shorter, and no batch of a
  non-empty list is empty.
\<close>

theorem batches_partition:
  "concat (getPodsBatchList scaled batchSize pods rackSize) = pods \<and>
   (\<exists>full final. getPodsBatchList scaled batchSize pods rackSize = full @ [final] \<and>
      (\<forall>b\<in>set full. int (length b) = max 1 (scaled batchSize rackSize)) \<and>
      int (length final) \<le> max 1 (scaled batchSize rackSize) \<and> (final = [] \<longrightarrow> pods = []))"
proof -
  define n where "n = nat (if scaled batchSize rackSize \<le> 0 then 1 else scaled batchSize rackSize)"
  have pos: "0 < n" and n: "int n = max 1 (scaled batchSize rackSize)" by (auto simp: n_def)
  from chunk_loop_sizes [OF pos, of pods "[]"] obtain full final where
    cut: "chunk_loop n pods [] = full @ [final]" and full: "\<forall>c\<in>set full. length c = n"
    and final: "length final \<le> n" "final = [] \<longrightarrow> pods = []" by auto
  have eq: "getPodsBatchList scaled batchSize pods rackSize = full @ [final]"
    using cut by (simp add: getPodsBatchList_def chunkBy_def n_def)
  have "concat (full @ [final]) = pods" using concat_chunk_loop [of n pods "[]"] cut by simp
  moreover have "\<forall>b\<in>set full. int (length b) = max 1 (scaled batchSize rackSize)" using full n by simp
  moreover have "int (length final) \<le> max 1 (scaled batchSize rackSize)" using final(1) n by linarith
  ultimately show ?thesis
    unfolding eq using final(2) by (intro conjI exI [where x = full] exI [where x = final]) simp_all
qed

theorem batches_partition_witness:
  "\<exists>full final. getPodsBatchList (\<lambda>_ _. 2) None [''a'', ''b'', ''c''] 3 = full @ [final] \<and>
     (\<forall>b\<in>set full. int (length b) = 2) \<and> int (length final) \<le> 2 \<and> final \<noteq> []"
  using batches_partition [of "\<lambda>_ _. 2" None "[''a'', ''b'', ''c'']" 3] by auto

section \<open>The ordered pods of a rack\<close>

lemma pod_ordinal_sts:
  assumes "int n < 2 ^ 63"
  shows "pod_ordinal (GetSTSPodName sts (int n)) = int n"
proof -
  have "Split (CHR ''-'') (GetSTSPodName sts (int n)) = Split (CHR ''-'') sts @ [Itoa (int n)]"
    unfolding GetSTSPodName_def using Split_snoc_sep [OF Itoa_nonneg_no_dash, of "int n" sts] by simp
  moreover have "Atoi (Itoa (int n)) = Some (int n)"
    by (rule Atoi_Itoa) (use assms in simp_all)
  ultimately show ?thesis by (simp add: pod_ordinal_def)
qed

lemma place_pods_Ok:
  assumes "\<forall>p\<in>set pods. 0 \<le> pod_ordinal (PodName p)"
  shows "place_pods i r n pods slots =
    (if \<forall>p\<in>set pods. pod_ordinal (PodName p) < int n
     then Ok (fold (\<lambda>p s. s[n - 1 - nat (pod_ordinal (PodName p)) := Some p]) pods slots)
     else Err (RkPodList i r))"
  using assms by (induction pods arbitrary: slots) (auto simp: Let_def)

lemma fold_update_nth:
  "distinct (map f xs) \<Longrightarrow> length (fold (\<lambda>x s. s[f x := g x]) xs slots) = length slots \<and>
   (\<forall>x\<in>set xs. f x < length slots \<longrightarrow> fold (\<lambda>x s. s[f x := g x]) xs slots ! f x = g x) \<and>
   (\<forall>j. j \<notin> f ` set xs \<longrightarrow> fold (\<lambda>x s. s[f x := g x]) xs slots ! j = slots ! j)"
proof (induction xs arbitrary: slots)
  case Nil
  then show ?case by simp
next
  case (Cons x xs)
  from Cons.prems have d: "distinct (map f xs)" "f x \<notin> f ` set xs" by auto
  show ?case using Cons.IH [OF d(1), of "slots[f x := g x]"] d(2) by auto
qed

text \<open>
  The pods of one StatefulSet: distinct ordinals, each in the name.
\<close>

definition sts_pods :: "string \<Rightarrow> (Pod \<Rightarrow> nat) \<Rightarrow> Pod list \<Rightarrow> bool" where
  "sts_pods sts ord pods \<longleftrightarrow> distinct (map ord pods) \<and>
     (\<forall>p\<in>set pods. PodName p = GetSTSPodName sts (int (ord p)) \<and> int (ord p) < 2 ^ 63)"

lemma ordinals_complete:
  assumes "distinct (map ord pods)" and "\<forall>p\<in>set pods. ord p < length pods"
  shows "ord ` set pods = {..<length pods}"
proof (rule card_subset_eq)
  show "card (ord ` set pods) = card {..<length pods}"
    using assms(1) by (metis card_lessThan distinct_card length_map list.set_map)
qed (use assms(2) in auto)

lemma find_unique_ord:
  "distinct (map ord pods) \<Longrightarrow> p \<in> set pods \<Longrightarrow> find (\<lambda>q. ord q = ord p) pods = Some p"
  by (induction pods) (auto simp: image_iff)

lemma getOrderedRackPodList_sts:
  assumes "sts_pods sts ord pods"
  shows "getOrderedRackPodList i r (Ok pods) =
    (if \<forall>p\<in>set pods. ord p < length pods
     then Ok (map (\<lambda>j. find (\<lambda>p. ord p = j) pods) (rev [0..<length pods]))
     else Err (RkPodList i r))"
proof -
  let ?n = "length pods"
  have ordinal: "pod_ordinal (PodName p) = int (ord p)" if "p \<in> set pods" for p
    using assms that by (simp add: sts_pods_def pod_ordinal_sts)
  let ?f = "\<lambda>p. ?n - 1 - nat (pod_ordinal (PodName p))"
  have upd: "fold (\<lambda>p s. s[?f p := Some p]) pods (replicate ?n None) =
      map (\<lambda>j. find (\<lambda>p. ord p = j) pods) (rev [0..<?n])" if lt: "\<forall>p\<in>set pods. ord p < ?n"
  proof -
    have f: "?f p = ?n - 1 - ord p" if "p \<in> set pods" for p using ordinal [OF that] by simp
    have "inj_on ?f (set pods)"
    proof (rule inj_onI)
      fix p q assume p: "p \<in> set pods" and q: "q \<in> set pods" and "?f p = ?f q"
      then have "ord p = ord q" using f lt by (metis Suc_diff_1 diff_diff_cancel length_pos_if_in_set less_Suc_eq_le)
      with p q assms show "p = q" by (auto simp: sts_pods_def distinct_map inj_on_def)
    qed
    then have d: "distinct (map ?f pods)" using assms by (simp add: sts_pods_def distinct_map)
    have "fold (\<lambda>p s. s[?f p := Some p]) pods (replicate ?n None) ! j = find (\<lambda>p. ord p = ?n - 1 - j) pods"
      if j: "j < ?n" for j
    proof -
      have "?n - 1 - j \<in> ord ` set pods"
        using ordinals_complete [of ord pods] assms lt j by (auto simp: sts_pods_def)
      then obtain p where p: "p \<in> set pods" "ord p = ?n - 1 - j" by auto
      then have "find (\<lambda>q. ord q = ?n - 1 - j) pods = Some p"
        using find_unique_ord assms by (metis sts_pods_def)
      moreover have "?f p = j" using p f j by simp
      ultimately show ?thesis
        using fold_update_nth [OF d, of Some "replicate ?n None"] p(1) j by auto
    qed
    then show ?thesis
      using fold_update_nth [OF d, of Some "replicate ?n None"]
      by (intro nth_equalityI) (auto simp: rev_nth)
  qed
  show ?thesis
    using place_pods_Ok [of pods i r ?n "replicate ?n None"] ordinal upd
    by (auto simp: getOrderedRackPodList_def)
qed

lemma find_rev_map:
  assumes "distinct (map ord pods)" and "\<forall>p\<in>set pods. ord p < length pods"
  shows "\<exists>ps. map (\<lambda>j. find (\<lambda>p. ord p = j) pods) (rev [0..<length pods]) = map Some ps \<and>
    map ord ps = rev [0..<length pods] \<and> set ps = set pods"
proof -
  let ?g = "\<lambda>j. the (find (\<lambda>p. ord p = j) pods)"
  have found: "\<exists>p\<in>set pods. ord p = j \<and> find (\<lambda>p. ord p = j) pods = Some p" if "j < length pods" for j
  proof -
    have "j \<in> ord ` set pods" using ordinals_complete [OF assms] that by simp
    then obtain p where "p \<in> set pods" "ord p = j" by auto
    with find_unique_ord [OF assms(1)] show ?thesis by blast
  qed
  have "set (map ?g (rev [0..<length pods])) = set pods"
  proof
    show "set pods \<subseteq> set (map ?g (rev [0..<length pods]))"
      using find_unique_ord [OF assms(1)] assms(2) by (force simp: image_iff)
  qed (use found in fastforce)
  moreover have "map ord (map ?g (rev [0..<length pods])) = rev [0..<length pods]"
  proof -
    have "map (\<lambda>j. ord (?g j)) (rev [0..<length pods]) = rev [0..<length pods]"
      by (rule map_idI) (use found in fastforce)
    then show ?thesis by (simp add: comp_def)
  qed
  moreover have "map (\<lambda>j. find (\<lambda>p. ord p = j) pods) (rev [0..<length pods]) =
      map Some (map ?g (rev [0..<length pods]))"
    using found by fastforce
  ultimately show ?thesis by blast
qed

text \<open>
  Fact. The pods of a rack come out complete and from the highest ordinal down, or the list is
  refused: with the pods of one StatefulSet the result has no hole, holds every pod once, and its
  ordinals are \<open>n - 1, \<dots>, 0\<close>; if an ordinal is missing the call fails.
\<close>

theorem ordered_pods_complete:
  assumes "sts_pods sts ord pods"
  shows "(\<forall>slots. getOrderedRackPodList i r (Ok pods) = Ok slots \<longrightarrow>
      (\<exists>ps. slots = map Some ps \<and> map ord ps = rev [0..<length pods] \<and> set ps = set pods)) \<and>
    (getOrderedRackPodList i r (Ok pods) = Err (RkPodList i r) \<longleftrightarrow> ord ` set pods \<noteq> {..<length pods})"
proof -
  have d: "distinct (map ord pods)" using assms by (simp add: sts_pods_def)
  have "(\<forall>p\<in>set pods. ord p < length pods) \<longleftrightarrow> ord ` set pods = {..<length pods}"
    using ordinals_complete [OF d] by blast
  then show ?thesis
    using find_rev_map [OF d] by (auto simp: getOrderedRackPodList_sts [OF assms])
qed

text \<open>A running pod and a pod that cannot be scheduled, for examples.\<close>

definition running_pod :: "string \<Rightarrow> Pod" where
  "running_pod name = \<lparr>PodName = name, PodLabels = [], PodAnnotations = [],
     PodDeletionTimestamp = None, PodCreationTimestamp = 0, PodPhase = ''Running'', PodReason = [],
     PodMessage = [], PodConditions = [], InitContainerStatuses = [],
     ContainerStatuses = [\<lparr>CsName = ''aerospike-server'', CsReady = True, CsContainerID = ''id'',
       CsTerminated = None, CsWaiting = None\<rparr>], PodNodeName = ''node-1'', PodContainers = [], PodInitContainers = []\<rparr>"

definition unschedulable_pod :: "string \<Rightarrow> Pod" where
  "unschedulable_pod name = (running_pod name)\<lparr>PodPhase := ''Pending'', ContainerStatuses := [],
     PodConditions := [\<lparr>PcType = ''PodScheduled'', PcStatus = ''False'', PcReason = ''Unschedulable'',
       PcMessage = ''no node'', PcTransition = 0\<rparr>]\<rparr>"

definition example_sts_pods :: "Pod list" where
  "example_sts_pods = [running_pod ''cl-1-1'', running_pod ''cl-1-0'', running_pod ''cl-1-2'']"

definition example_ord :: "Pod \<Rightarrow> nat" where
  "example_ord p = nat (pod_ordinal (PodName p))"

lemma example_sts_pods_ok: "sts_pods ''cl-1'' example_ord example_sts_pods"
proof -
  have "distinct (map example_ord example_sts_pods)" by code_simp
  moreover have "list_all (\<lambda>p. PodName p = GetSTSPodName ''cl-1'' (int (example_ord p)) \<and> int (example_ord p) < 2 ^ 63)
      example_sts_pods" by code_simp
  ultimately show ?thesis by (simp add: sts_pods_def list_all_iff)
qed

theorem ordered_pods_complete_witness:
  "\<exists>ps. getOrderedRackPodList 1 [] (Ok example_sts_pods) = Ok (map Some ps) \<and> map example_ord ps = [2, 1, 0]"
proof -
  have "is_ok (getOrderedRackPodList 1 [] (Ok example_sts_pods))" by code_simp
  then obtain slots where slots: "getOrderedRackPodList 1 [] (Ok example_sts_pods) = Ok slots"
    by (auto simp: is_ok_iff)
  have "rev [0..<length example_sts_pods] = [2, 1, 0]" by code_simp
  with ordered_pods_complete [OF example_sts_pods_ok, of 1 "[]"] slots show ?thesis by auto
qed

section \<open>Targets of a scale-down\<close>

lemma take_rev_ordinals:
  assumes "map ord ps = rev [0..<n]" and "m \<le> n"
  shows "take (n - m) ps = filter (\<lambda>p. m \<le> ord p) ps"
proof -
  have split: "rev [0..<n] = rev [m..<n] @ rev [0..<m]"
    using assms(2) upt_add_eq_append [of 0 m "n - m"] by simp
  have len: "length ps = n" using arg_cong [OF assms(1), of length] by simp
  have "map ord (take (n - m) ps) = rev [m..<n]" "map ord (drop (n - m) ps) = rev [0..<m]"
    using assms(1) split by (simp_all add: take_map [symmetric] drop_map [symmetric])
  then have "\<forall>x\<in>ord ` set (take (n - m) ps). m \<le> x" "\<forall>x\<in>ord ` set (drop (n - m) ps). x < m"
    by (metis (no_types, lifting) atLeastLessThan_iff list.set_map set_rev set_upt)+
  then have t: "filter (\<lambda>p. m \<le> ord p) (take (n - m) ps) = take (n - m) ps"
    and d: "filter (\<lambda>p. m \<le> ord p) (drop (n - m) ps) = []"
    by (auto simp: filter_id_conv filter_empty_conv not_le)
  have "filter (\<lambda>p. m \<le> ord p) ps =
      filter (\<lambda>p. m \<le> ord p) (take (n - m) ps) @ filter (\<lambda>p. m \<le> ord p) (drop (n - m) ps)"
    by (simp flip: filter_append)
  with t d show ?thesis by simp
qed

text \<open>
  Property C36. When the StatefulSet has as many pods as replicas, the scale-down targets are exactly
  the pods the StatefulSet controller will remove, those with an ordinal from the new size on,
  highest first; none of them is a hole.
\<close>

theorem scale_down_targets_exact:
  assumes "sts_pods sts ord pods" and "0 \<le> RsSize state"
    and "getAllScaleDownPods (Ok pods) (Some (int (length pods))) state = Ok slots"
  shows "\<exists>ps. slots = map Some ps \<and> set ps = {p \<in> set pods. RsSize state \<le> int (ord p)} \<and>
    sorted (rev (map ord ps))"
proof -
  let ?n = "length pods" and ?m = "nat (RsSize state)"
  have m: "RsSize state = int ?m" using assms(2) by simp
  from assms(3) obtain all where all: "getOrderedRackPodList (RackID (RsRack state)) (RackRevision (RsRack state)) (Ok pods) = Ok all"
    and slots: "slots = (if int ?n - RsSize state \<le> 0 then [] else take (nat (int ?n - RsSize state)) all)"
    by (auto simp: getAllScaleDownPods_def res_simps Let_def split: if_splits)
  obtain ps where ps: "all = map Some ps" "map ord ps = rev [0..<?n]" "set ps = set pods"
    using all getOrderedRackPodList_sts [OF assms(1)] find_rev_map [of ord pods] assms(1)
    by (auto simp: sts_pods_def split: if_splits)
  have bound: "ord p < ?n" if "p \<in> set pods" for p
    using arg_cong [OF ps(2), of set] that ps(3) by auto
  show ?thesis
  proof (cases "?n \<le> ?m")
    case True
    then have "slots = []" "{p \<in> set pods. RsSize state \<le> int (ord p)} = {}"
      using slots m bound by (auto, fastforce)
    then show ?thesis by (intro exI [where x = "[]"]) simp
  next
    case False
    let ?t = "filter (\<lambda>p. ?m \<le> ord p) ps"
    have "nat (int ?n - RsSize state) = ?n - ?m" using m by linarith
    then have "slots = map Some (take (?n - ?m) ps)" using slots False m ps(1) by (auto simp: take_map)
    then have "slots = map Some ?t" using take_rev_ordinals [OF ps(2), of ?m] False by simp
    moreover have "set ?t = {p \<in> set pods. RsSize state \<le> int (ord p)}" using m ps(3) by auto
    moreover have "sorted (rev (map ord ?t))"
    proof -
      have "rev (map ord ?t) = filter ((\<le>) ?m) (rev (map ord ps))"
        by (simp add: rev_filter filter_map comp_def rev_map)
      then show ?thesis using ps(2) by (simp add: sorted_wrt_filter)
    qed
    ultimately show ?thesis by blast
  qed
qed

definition example_state :: RackState where
  "example_state = \<lparr>RsRack = dummy_rack example_cluster 1 [], RsSize = 1\<rparr>"

theorem scale_down_targets_witness:
  "\<exists>ps. getAllScaleDownPods (Ok example_sts_pods) (Some 3) example_state = Ok (map Some ps) \<and>
     set ps = {p \<in> set example_sts_pods. 1 \<le> int (example_ord p)}"
proof -
  have "is_ok (getAllScaleDownPods (Ok example_sts_pods) (Some 3) example_state)" by code_simp
  then obtain slots where slots: "getAllScaleDownPods (Ok example_sts_pods) (Some 3) example_state = Ok slots"
    by (auto simp: is_ok_iff)
  have "int (length example_sts_pods) = 3" "RsSize example_state = 1" by code_simp+
  with scale_down_targets_exact [OF example_sts_pods_ok, of example_state slots] slots show ?thesis by auto
qed

text \<open>
  Fact. With fewer pods than replicas, as while a StatefulSet is still creating them, the
  selection goes wrong: the slice can run past the end of the list, which panics, and otherwise it
  names pods that stay.
\<close>

theorem scale_down_targets_missing_pods:
  "getAllScaleDownPods (Ok [running_pod ''cl-1-0'', running_pod ''cl-1-1'']) (Some 5)
     \<lparr>RsRack = dummy_rack example_cluster 1 [], RsSize = 1\<rparr> = Panic \<and>
   getAllScaleDownPods (Ok [running_pod ''cl-1-0'', running_pod ''cl-1-1'']) (Some 5)
     \<lparr>RsRack = dummy_rack example_cluster 1 [], RsSize = 4\<rparr> = Ok [Some (running_pod ''cl-1-1'')]"
  by code_simp

section \<open>Ignorable pods\<close>

lemma serverReady_running: "IsPodRunningAndReady p \<Longrightarrow> \<not> IsPodTerminating p \<and> PodPhase p = ''Running''"
  by (simp add: IsPodRunningAndReady_def)

lemma ignorable_candidates_unready:
  "n \<in> set (ignorable_candidates rrev pods) \<Longrightarrow> \<exists>p\<in>set pods. PodName p = n \<and> \<not> IsPodRunningAndReady p"
  by (auto simp: ignorable_candidates_def pending_pods_def failed_pods_def)

lemma ignorable_of_racks_down:
  "ignorable_of_racks rackPods racks = Ok names \<Longrightarrow> n \<in> set names \<Longrightarrow>
   \<exists>r\<in>set racks. \<exists>pods p. rackPods (RackID r) (RackRevision r) = Ok pods \<and> p \<in> set pods \<and>
     PodName p = n \<and> \<not> IsAerospikeServerReady p"
proof (induction racks arbitrary: names)
  case Nil
  then show ?case by simp
next
  case (Cons r racks)
  then show ?case by (auto simp: res_simps)
qed

text \<open>What one configured rack contributes.\<close>

definition rack_allowance ::
  "(IntOrString option \<Rightarrow> int \<Rightarrow> int) \<Rightarrow> IntOrString option \<Rightarrow> (int \<Rightarrow> (rack_error, Pod list) res) \<Rightarrow>
   int list \<Rightarrow> RackState \<Rightarrow> string list" where
  "rack_allowance scaled maxIgnorable allPods skipped s =
     (if RackID (RsRack s) \<in> set skipped \<or> scaled maxIgnorable (RsSize s) = 0 then []
      else case allPods (RackID (RsRack s)) of
        Ok pods \<Rightarrow> take (nat (scaled maxIgnorable (RsSize s))) (ignorable_candidates (RackRevision (RsRack s)) pods)
      | _ \<Rightarrow> [])"

lemma ignorable_of_configured_concat:
  "ignorable_of_configured scaled mx allPods skipped states = Ok names \<Longrightarrow>
   names = concat (map (rack_allowance scaled mx allPods skipped) states)"
proof (induction states arbitrary: names)
  case Nil
  then show ?case by simp
next
  case (Cons s states)
  then show ?case by (auto simp: rack_allowance_def Let_def res_simps split: if_splits)
qed

lemma rack_allowance_bound:
  "int (length (rack_allowance scaled mx allPods skipped s)) \<le> max 0 (scaled mx (RsSize s))"
  by (auto simp: rack_allowance_def split: res.splits)

text \<open>
  Fact. The pods a pass ignores are bounded and never healthy: each is either a pod of a deleted
  or roster-blocked rack whose server is not running, or one of at most the configured number of pods
  of its rack that are not running and ready.
\<close>

theorem ignorable_pods_bounded:
  assumes "getIgnorablePods scaled rackPods allPods mx racksToDelete configured = Ok names"
  shows "\<exists>blocked rest. names = blocked @ concat (map rest configured) \<and>
    (\<forall>n\<in>set blocked. \<exists>r\<in>set (racksToDelete @ getRacksToBeBlockedFromRoster configured). \<exists>pods p.
       rackPods (RackID r) (RackRevision r) = Ok pods \<and> p \<in> set pods \<and> PodName p = n \<and>
       \<not> IsAerospikeServerReady p) \<and>
    (\<forall>s\<in>set configured. int (length (rest s)) \<le> max 0 (scaled mx (RsSize s)) \<and>
       (\<forall>n\<in>set (rest s). \<exists>pods p. allPods (RackID (RsRack s)) = Ok pods \<and> p \<in> set pods \<and>
          PodName p = n \<and> \<not> IsPodRunningAndReady p))"
proof -
  let ?racks = "racksToDelete @ getRacksToBeBlockedFromRoster configured"
  from assms obtain blocked names2 where b: "ignorable_of_racks rackPods ?racks = Ok blocked"
    and n2: "ignorable_of_configured scaled mx allPods (map RackID ?racks) configured = Ok names2"
    and names: "names = blocked @ names2"
    by (auto simp: getIgnorablePods_def res_simps Let_def)
  let ?rest = "rack_allowance scaled mx allPods (map RackID ?racks)"
  have down: "\<exists>pods p. allPods (RackID (RsRack s)) = Ok pods \<and> p \<in> set pods \<and> PodName p = n \<and>
      \<not> IsPodRunningAndReady p" if "n \<in> set (?rest s)" for n s
    using that ignorable_candidates_unready
    by (auto simp: rack_allowance_def split: if_splits res.splits dest!: in_set_takeD) metis
  show ?thesis
    unfolding names ignorable_of_configured_concat [OF n2]
    using ignorable_of_racks_down [OF b] rack_allowance_bound down
    by (intro exI [where x = blocked] exI [where x = ?rest]) blast
qed

theorem ignorable_pods_witness:
  "getIgnorablePods (\<lambda>_ _. 1) (\<lambda>_ _. Ok []) (\<lambda>_. Ok [running_pod ''cl-1-0'', unschedulable_pod ''cl-1-1'',
       unschedulable_pod ''cl-1-2'']) (Some (IosInt 1)) [] [example_state] = Ok [''cl-1-1''] \<and>
   (\<exists>p\<in>{running_pod ''cl-1-0'', unschedulable_pod ''cl-1-1'', unschedulable_pod ''cl-1-2''}.
      PodName p = ''cl-1-1'' \<and> \<not> IsPodRunningAndReady p)"
proof -
  let ?pods = "[running_pod ''cl-1-0'', unschedulable_pod ''cl-1-1'', unschedulable_pod ''cl-1-2'']"
  have run: "getIgnorablePods (\<lambda>_ _. 1) (\<lambda>_ _. Ok []) (\<lambda>_. Ok ?pods) (Some (IosInt 1)) [] [example_state] =
      Ok [''cl-1-1'']" by code_simp
  have none: "getRacksToBeBlockedFromRoster [example_state] = []" by code_simp
  from ignorable_pods_bounded [OF run] obtain blocked rest where
    names: "[''cl-1-1''] = blocked @ concat (map rest [example_state])"
    and blocked: "\<forall>n\<in>set blocked. \<exists>r\<in>set ([] @ getRacksToBeBlockedFromRoster [example_state]). True"
    and rest: "\<forall>n\<in>set (rest example_state). \<exists>pods p. Ok ?pods = (Ok pods :: (rack_error, Pod list) res) \<and>
      p \<in> set pods \<and> PodName p = n \<and> \<not> IsPodRunningAndReady p"
    by fastforce
  from blocked none have "blocked = []" by (cases blocked) auto
  with names rest have "rest example_state = [''cl-1-1'']"
    and "\<forall>n\<in>set (rest example_state). \<exists>p. p \<in> set ?pods \<and> PodName p = n \<and> \<not> IsPodRunningAndReady p"
    by simp_all
  then have "\<exists>p. p \<in> set ?pods \<and> PodName p = ''cl-1-1'' \<and> \<not> IsPodRunningAndReady p" by simp
  with run show ?thesis by auto
qed

end
