(* ===== verification/Restart_Ops.thy ===== *)
theory Restart_Ops
  imports Rack_Plan
begin

text \<open>
  On-demand operations (\<^verbatim>\<open>podsToRestart\<close>, \<^verbatim>\<open>updateOperationStatus\<close> and their helpers in
  \<^verbatim>\<open>internal/controller/cluster/pod.go\<close>): which pods an operation of the specification, or a blocked
  eviction, asks to restart, and how a batch of restarts is recorded in the status. Sets of pod names
  are lists; only membership is read.
\<close>

section \<open>Pods asked for\<close>

definition getEvictionBlockedPods :: "(rack_error, Pod list) res \<Rightarrow> (rack_error, string list) res" where
  "getEvictionBlockedPods clusterPods =
     res_bind clusterPods (\<lambda>pods.
       Ok (map PodName (filter (\<lambda>p. gomap_get (PodAnnotations p) EvictionBlockedAnnotation \<noteq> None) pods)))"

text \<open>An operation without a pod list is meant for all pods.\<close>

definition op_pods :: "string list \<Rightarrow> OperationSpec \<Rightarrow> string list" where
  "op_pods allPodNames op =
     (if elems (OpPodList op) = [] then allPodNames else elems (OpPodList op))"

definition op_todo :: "string list \<Rightarrow> OperationSpec \<Rightarrow> OperationSpec list \<Rightarrow> string list" where
  "op_todo allPodNames specOp statusOps =
     (case find (\<lambda>o'. OpID o' = OpID specOp) statusOps of
        None \<Rightarrow> op_pods allPodNames specOp
      | Some statusOp \<Rightarrow>
          filter (\<lambda>n. n \<notin> set (op_pods allPodNames statusOp)) (op_pods allPodNames specOp))"

definition podsToRestart ::
  "AerospikeCluster \<Rightarrow> (rack_error, Pod list) res \<Rightarrow> (rack_error, string list \<times> string list) res" where
  "podsToRestart c clusterPods =
     (let specOps = SpecOperations (ClusterSpec c); statusOps = StOperations (ClusterStatus c);
          allPodNames = GetAllPodNames (StPods (ClusterStatus c)) in
      res_bind (getEvictionBlockedPods clusterPods) (\<lambda>evictionBlockedPods.
        if elems specOps = [] \<or> specOps = statusOps then Ok ([], evictionBlockedPods)
        else
          let specOp = hd (elems specOps); todo = op_todo allPodNames specOp (elems statusOps) in
          if OpKind specOp = OperationWarmRestart then Ok (todo, evictionBlockedPods)
          else if OpKind specOp = OperationPodRestart then Ok ([], evictionBlockedPods @ todo)
          else Ok ([], evictionBlockedPods)))"

section \<open>Recording a batch\<close>

definition set_inter :: "string list \<Rightarrow> string list \<Rightarrow> string list" where
  "set_inter xs ys = filter (\<lambda>x. x \<in> set ys) xs"

definition set_union :: "string list \<Rightarrow> string list \<Rightarrow> string list" where
  "set_union xs ys = xs @ filter (\<lambda>y. y \<notin> set xs) ys"

text \<open>
  The operation is in the status. A status without a pod list stays as it is. Both assignments of a
  warm restart start from the pods the status held before.
\<close>

definition record_found ::
  "string list \<Rightarrow> string list \<Rightarrow> string list \<Rightarrow> OperationSpec \<Rightarrow> OperationSpec" where
  "record_found specPods quickRestarts podRestarts statusOp =
     (if elems (OpPodList statusOp) = [] then statusOp
      else
        let statusPods = elems (OpPodList statusOp);
            op1 = (if OpKind statusOp = OperationWarmRestart \<and> quickRestarts \<noteq> []
                   then statusOp\<lparr>OpPodList := Some (set_union statusPods (set_inter quickRestarts specPods))\<rparr>
                   else statusOp);
            op2 = (if OpKind statusOp = OperationWarmRestart \<and> podRestarts \<noteq> []
                   then op1\<lparr>OpPodList := Some (set_union statusPods (set_inter podRestarts specPods))\<rparr>
                   else op1)
        in if OpKind statusOp = OperationPodRestart
           then op2\<lparr>OpPodList := Some (set_union statusPods (set_inter podRestarts specPods))\<rparr>
           else op2)"

definition record_new ::
  "string list \<Rightarrow> string list \<Rightarrow> string list \<Rightarrow> OperationSpec \<Rightarrow> OperationSpec" where
  "record_new specPods quickRestarts podRestarts specOp =
     \<lparr>OpKind = OpKind specOp, OpID = OpID specOp,
      OpPodList =
        (if OpKind specOp = OperationWarmRestart
         then (if quickRestarts = [] \<and> podRestarts = [] then None
               else Some ((if quickRestarts \<noteq> [] then set_inter quickRestarts specPods else []) @
                          (if podRestarts \<noteq> [] then set_inter podRestarts specPods else [])))
         else if OpKind specOp = OperationPodRestart then Some (set_inter podRestarts specPods)
         else None)\<rparr>"

fun record_operation ::
  "string list \<Rightarrow> string list \<Rightarrow> string list \<Rightarrow> OperationSpec \<Rightarrow> OperationSpec list \<Rightarrow> OperationSpec list" where
  "record_operation specPods quickRestarts podRestarts specOp [] =
     [record_new specPods quickRestarts podRestarts specOp]"
| "record_operation specPods quickRestarts podRestarts specOp (statusOp # statusOps) =
     (if OpID statusOp = OpID specOp
      then record_found specPods quickRestarts podRestarts statusOp # statusOps
      else statusOp # record_operation specPods quickRestarts podRestarts specOp statusOps)"

text \<open>\<open>None\<close> when there is nothing to record.\<close>

definition next_operations ::
  "AerospikeCluster \<Rightarrow> string list \<Rightarrow> string list \<Rightarrow> OperationSpec list option" where
  "next_operations c restartedASDPodNames restartedPodNames =
     (if restartedASDPodNames @ restartedPodNames = [] \<or> elems (SpecOperations (ClusterSpec c)) = [] then None
      else
        let specOp = hd (elems (SpecOperations (ClusterSpec c)));
            specPods = op_pods (GetAllPodNames (StPods (ClusterStatus c))) specOp
        in Some (record_operation specPods restartedASDPodNames restartedPodNames specOp
                   (elems (StOperations (ClusterStatus c)))))"

text \<open>
  \<open>getCluster\<close> reads the object again, \<open>patchStatus\<close> writes it with the new operations; both may
  fail.
\<close>

definition updateOperationStatus ::
  "('w \<Rightarrow> string + AerospikeCluster) \<Rightarrow> (AerospikeCluster \<Rightarrow> 'w \<Rightarrow> string option \<times> 'w) \<Rightarrow>
   AerospikeCluster \<Rightarrow> string list \<Rightarrow> string list \<Rightarrow> 'w \<Rightarrow> string option \<times> 'w" where
  "updateOperationStatus getCluster patchStatus c restartedASDPodNames restartedPodNames w =
     (case next_operations c restartedASDPodNames restartedPodNames of
        None \<Rightarrow> (None, w)
      | Some statusOps \<Rightarrow>
          (case getCluster w of
             Inl e \<Rightarrow> (Some e, w)
           | Inr newAeroCluster \<Rightarrow>
               (case patchStatus (newAeroCluster\<lparr>ClusterStatus :=
                        (ClusterStatus newAeroCluster)\<lparr>StOperations := Some statusOps\<rparr>\<rparr>) w of
                  (Some e, w') \<Rightarrow> (Some (''update status: '' @ e), w')
                | (None, w') \<Rightarrow> (None, w'))))"

section \<open>Progress\<close>

lemma set_union_set [simp]: "set (set_union xs ys) = set xs \<union> set ys"
  by (auto simp: set_union_def)

lemma set_inter_set [simp]: "set (set_inter xs ys) = set xs \<inter> set ys"
  by (auto simp: set_inter_def)

lemma find_record_operation:
  "find (\<lambda>o'. OpID o' = OpID specOp) (record_operation specPods q p specOp ops) =
     Some (case find (\<lambda>o'. OpID o' = OpID specOp) ops of
        None \<Rightarrow> record_new specPods q p specOp
      | Some statusOp \<Rightarrow> record_found specPods q p statusOp)"
  by (induction ops) (auto simp: record_found_def record_new_def Let_def)

text \<open>The restarts that count for an operation.\<close>

definition counting :: "OperationSpec \<Rightarrow> string list \<Rightarrow> string list \<Rightarrow> string list" where
  "counting op quickRestarts podRestarts =
     (if OpKind op = OperationWarmRestart then quickRestarts @ podRestarts
      else if OpKind op = OperationPodRestart then podRestarts else [])"

lemma op_kinds_differ [simp]: "OperationWarmRestart \<noteq> OperationPodRestart"
  by (simp add: OperationWarmRestart_def OperationPodRestart_def)

text \<open>
  Property C39. Recording a batch makes an operation progress by exactly the restarts that count for it:
  the pods left to do afterwards are those left before, without the restarted ones. This holds for
  a batch of one kind of restart that restarts a pod of the operation.
\<close>

theorem operation_progress:
  assumes "quickRestarts = [] \<or> podRestarts = []"
    and "OpKind specOp = OperationWarmRestart \<or> OpKind specOp = OperationPodRestart"
    and "\<forall>o'\<in>set statusOps. OpID o' = OpID specOp \<longrightarrow>
      OpKind o' = OpKind specOp \<and> elems (OpPodList o') \<noteq> []"
    and "set (counting specOp quickRestarts podRestarts) \<inter> set (op_pods allPodNames specOp) \<noteq> {}"
  shows "set (op_todo allPodNames specOp
      (record_operation (op_pods allPodNames specOp) quickRestarts podRestarts specOp statusOps)) =
    set (op_todo allPodNames specOp statusOps) - set (counting specOp quickRestarts podRestarts)"
proof (cases "find (\<lambda>o'. OpID o' = OpID specOp) statusOps")
  case None
  have new: "set (elems (OpPodList (record_new (op_pods allPodNames specOp) quickRestarts podRestarts specOp))) =
      set (counting specOp quickRestarts podRestarts) \<inter> set (op_pods allPodNames specOp)"
    using assms(1,2) by (auto simp: record_new_def counting_def elems_def)
  moreover from this assms(4)
  have "elems (OpPodList (record_new (op_pods allPodNames specOp) quickRestarts podRestarts specOp)) \<noteq> []" by auto
  ultimately show ?thesis
    using None by (auto simp: op_todo_def find_record_operation op_pods_def)
next
  case (Some st)
  then have st: "OpKind st = OpKind specOp" "elems (OpPodList st) \<noteq> []"
    using assms(3) by (auto simp: find_Some_iff)
  let ?r = "record_found (op_pods allPodNames specOp) quickRestarts podRestarts st"
  have "set (elems (OpPodList ?r)) = set (elems (OpPodList st)) \<union>
      set (counting specOp quickRestarts podRestarts) \<inter> set (op_pods allPodNames specOp)"
    using assms(1,2) st by (auto simp: record_found_def counting_def elems_def Let_def split: option.splits)
  moreover from this have "elems (OpPodList ?r) \<noteq> []" using st(2) by (metis Un_empty set_empty)
  ultimately show ?thesis
    using Some st(2) by (auto simp: op_todo_def find_record_operation op_pods_def)
qed

theorem operation_progress_witness:
  "set (op_todo [''a'', ''b'', ''c''] \<lparr>OpKind = ''PodRestart'', OpID = ''1'', OpPodList = None\<rparr>
      (record_operation [''a'', ''b'', ''c''] [] [''b''] \<lparr>OpKind = ''PodRestart'', OpID = ''1'', OpPodList = None\<rparr>
         [\<lparr>OpKind = ''PodRestart'', OpID = ''1'', OpPodList = Some [''a'']\<rparr>])) = {''c''}"
proof -
  let ?op = "\<lparr>OpKind = ''PodRestart'', OpID = ''1'', OpPodList = None\<rparr>"
  let ?st = "[\<lparr>OpKind = ''PodRestart'', OpID = ''1'', OpPodList = Some [''a'']\<rparr>]"
  have "op_pods [''a'', ''b'', ''c''] ?op = [''a'', ''b'', ''c'']"
    "counting ?op [] [''b''] = [''b'']" "op_todo [''a'', ''b'', ''c''] ?op ?st = [''b'', ''c'']"
    by code_simp+
  with operation_progress [of "[]" "[''b'']" ?op ?st "[''a'', ''b'', ''c'']"] show ?thesis
    by (auto simp: OperationPodRestart_def elems_def)
qed

section \<open>Restarts that are lost\<close>

text \<open>
  Fact. A batch with warm restarts and pod restarts loses the warm ones: the second assignment
  starts from the pods recorded before the first, so \<open>b\<close>, which was restarted in this batch, is
  still to be restarted afterwards.
\<close>

theorem mixed_batch_loses_warm_restarts:
  "record_operation [''a'', ''b'', ''c''] [''b''] [''c'']
     \<lparr>OpKind = ''WarmRestart'', OpID = ''1'', OpPodList = None\<rparr>
     [\<lparr>OpKind = ''WarmRestart'', OpID = ''1'', OpPodList = Some [''a'']\<rparr>] =
     [\<lparr>OpKind = ''WarmRestart'', OpID = ''1'', OpPodList = Some [''a'', ''c'']\<rparr>] \<and>
   op_todo [''a'', ''b'', ''c''] \<lparr>OpKind = ''WarmRestart'', OpID = ''1'', OpPodList = None\<rparr>
     [\<lparr>OpKind = ''WarmRestart'', OpID = ''1'', OpPodList = Some [''a'', ''c'']\<rparr>] = [''b'']"
  by code_simp

text \<open>
  Fact. An operation that has not started is recorded as complete when a batch restarts only
  pods it is not about: the recorded pod list is empty, which is read as all pods, and no pod of the
  operation is left to restart.
\<close>

theorem foreign_batch_completes_operation:
  assumes "set (counting specOp quickRestarts podRestarts) \<inter> set (elems (OpPodList specOp)) = {}"
    and "elems (OpPodList specOp) \<noteq> []" and "set (elems (OpPodList specOp)) \<subseteq> set allPodNames"
    and "\<forall>o'\<in>set statusOps. OpID o' \<noteq> OpID specOp"
  shows "op_todo allPodNames specOp statusOps = elems (OpPodList specOp) \<and>
    op_todo allPodNames specOp
      (record_operation (op_pods allPodNames specOp) quickRestarts podRestarts specOp statusOps) = []"
proof -
  have none: "find (\<lambda>o'. OpID o' = OpID specOp) statusOps = None"
    using assms(4) by (auto simp: find_None_iff)
  have "elems (OpPodList (record_new (op_pods allPodNames specOp) quickRestarts podRestarts specOp)) = []"
    using assms(1,2)
    by (auto simp: record_new_def counting_def elems_def op_pods_def set_inter_def filter_empty_conv split: if_splits)
  then show ?thesis
    using assms(2,3) none
    by (auto simp: op_todo_def find_record_operation op_pods_def filter_empty_conv)
qed

theorem foreign_batch_witness:
  "op_todo [''a'', ''b''] \<lparr>OpKind = ''PodRestart'', OpID = ''1'', OpPodList = Some [''a'']\<rparr> [] = [''a''] \<and>
   op_todo [''a'', ''b''] \<lparr>OpKind = ''PodRestart'', OpID = ''1'', OpPodList = Some [''a'']\<rparr>
     (record_operation (op_pods [''a'', ''b''] \<lparr>OpKind = ''PodRestart'', OpID = ''1'', OpPodList = Some [''a'']\<rparr>)
        [] [''b''] \<lparr>OpKind = ''PodRestart'', OpID = ''1'', OpPodList = Some [''a'']\<rparr> []) = []"
  using foreign_batch_completes_operation
    [of "\<lparr>OpKind = ''PodRestart'', OpID = ''1'', OpPodList = Some [''a'']\<rparr>" "[]" "[''b'']" "[''a'', ''b'']" "[]"]
  by (simp add: counting_def elems_def)

end
