(* ===== verification/Restart_Type.thy ===== *)
theory Restart_Type
  imports Restart_Ops "HOL-Library.Char_ord" "HOL-Library.List_Lexorder"
begin

text \<open>
  Which kind of restart a pod needs (\<^verbatim>\<open>mergeRestartType\<close>, \<^verbatim>\<open>getRollingRestartTypePod\<close>,
  \<^verbatim>\<open>getRollingRestartTypeMap\<close>, \<^verbatim>\<open>mfdDelayForRestart\<close> and \<^verbatim>\<open>isLocalPVCDeletionRequired\<close> of
  \<^verbatim>\<open>internal/controller/cluster/pod.go\<close>). The restart types are ordered by how much they disturb a
  pod; merging two types takes the larger.
\<close>

section \<open>Restart types\<close>

datatype RestartType = noRestart | noRestartUpdateConf | podRestart | quickRestart

fun disturbance :: "RestartType \<Rightarrow> nat" where
  "disturbance noRestart = 0"
| "disturbance noRestartUpdateConf = 1"
| "disturbance quickRestart = 2"
| "disturbance podRestart = 3"

lemma disturbance_inj: "disturbance a = disturbance b \<longleftrightarrow> a = b"
  by (cases a; cases b) auto

instantiation RestartType :: linorder
begin

definition less_eq_RestartType :: "RestartType \<Rightarrow> RestartType \<Rightarrow> bool" where
  "less_eq_RestartType a b \<longleftrightarrow> disturbance a \<le> disturbance b"

definition less_RestartType :: "RestartType \<Rightarrow> RestartType \<Rightarrow> bool" where
  "less_RestartType a b \<longleftrightarrow> disturbance a < disturbance b"

instance
  by standard (auto simp: less_eq_RestartType_def less_RestartType_def disturbance_inj)

end

definition mergeRestartType :: "RestartType \<Rightarrow> RestartType \<Rightarrow> RestartType" where
  "mergeRestartType current incoming =
     (if current = podRestart \<or> incoming = podRestart then podRestart
      else if current = quickRestart \<or> incoming = quickRestart then quickRestart
      else if current = noRestartUpdateConf \<or> incoming = noRestartUpdateConf then noRestartUpdateConf
      else noRestart)"

lemma mergeRestartType_max: "mergeRestartType a b = max a b"
  by (cases a; cases b) (simp_all add: mergeRestartType_def max_def less_eq_RestartType_def)

section \<open>One pod\<close>

datatype restart_error =
    RtImage image_error | RtCompareVersions string | RtPodSpec string | RtRack rack_error
  | RtConfDiff string | RtAddedDevices string | RtMFD conf_error

text \<open>The hashes of the rack's ConfigMap.\<close>

record conf_hashes =
  HAerospikeConf :: string
  HNetworkPolicy :: string
  HPodSpec :: string

text \<open>A pod the status does not hold reads as the zero value.\<close>

definition no_pod_status :: AerospikePodStatus where
  "no_pod_status = \<lparr>PsInitImage = [], PsDirtyVolumes = [], PsAerospikeConfigHash = [],
     PsNetworkPolicyHash = [], PsPodSpecHash = [], PsDynamicConfigUpdateStatus = [],
     PsRackIDOverridden = False\<rparr>"

definition pod_status :: "AerospikeCluster \<Rightarrow> string \<Rightarrow> AerospikePodStatus" where
  "pod_status c name =
     (case gomap_get (StPods (ClusterStatus c)) name of None \<Rightarrow> no_pod_status | Some s \<Rightarrow> s)"

definition IsStatusEmpty :: "AerospikeCluster \<Rightarrow> bool" where
  "IsStatusEmpty c \<longleftrightarrow> StAerospikeConfig (ClusterStatus c) = None"

definition handleNSOrDeviceAddition :: "AerospikeCluster \<Rightarrow> string list \<Rightarrow> string \<Rightarrow> RestartType" where
  "handleNSOrDeviceAddition c volumes podName =
     (if list_ex (ContainsString (PsDirtyVolumes (pod_status c podName))) volumes
      then podRestart else quickRestart)"

definition getContainer :: "PodContainer list \<Rightarrow> string \<Rightarrow> PodContainer option" where
  "getContainer containers name = find (\<lambda>k. KcName k = name) containers"

text \<open>\<^verbatim>\<open>sets.List\<close> sorts the distinct features bytewise.\<close>

definition previewFeaturesArgs :: "string list \<Rightarrow> string list" where
  "previewFeaturesArgs previewFeatures =
     (if previewFeatures = [] then []
      else [''--preview'', Join (sort (remdups previewFeatures)) '',''])"

definition isPreviewFeaturesUpdated :: "string list \<Rightarrow> Pod \<Rightarrow> bool" where
  "isPreviewFeaturesUpdated desiredArgs pod =
     (case getContainer (PodContainers pod) AerospikeServerContainerName of
        None \<Rightarrow> False
      | Some serverContainer \<Rightarrow> KcArgs serverContainer \<noteq> desiredArgs)"

text \<open>
  The ports of the server container: \<open>desired\<close> are those of the StatefulSet after the update of its
  ports. Ports are compared by name; a removed port matters only if it is the TLS service port.
\<close>

definition ports_by_name :: "ContainerPort list \<Rightarrow> ContainerPort gomap" where
  "ports_by_name ports = fold (\<lambda>p. gomap_put (PortName p) p) ports []"

definition port_changed :: "ContainerPort gomap \<Rightarrow> ContainerPort \<Rightarrow> bool" where
  "port_changed current desiredPort =
     (case gomap_get current (PortName desiredPort) of
        None \<Rightarrow> True
      | Some currentPort \<Rightarrow>
          PortContainerPort desiredPort \<noteq> PortContainerPort currentPort \<or>
          PortHostPort desiredPort \<noteq> 0 \<and> PortHostPort currentPort = 0)"

definition ServiceTLSPortName :: string where "ServiceTLSPortName = ''tls-service''"

definition checkForPortsUpdate ::
  "ContainerPort list option \<Rightarrow> Pod \<Rightarrow> (restart_error, bool) res" where
  "checkForPortsUpdate stsServerPorts pod =
     (case (stsServerPorts, getContainer (PodContainers pod) AerospikeServerContainerName) of
        (Some desired, Some serverContainer) \<Rightarrow>
          (let desiredMap = ports_by_name desired; currentMap = ports_by_name (KcPorts serverContainer) in
           Ok (list_ex (\<lambda>(n, p). port_changed currentMap p) desiredMap \<or>
               gomap_get currentMap ServiceTLSPortName \<noteq> None \<and>
               gomap_get desiredMap ServiceTLSPortName = None))
      | _ \<Rightarrow> Err (RtPodSpec (PodName pod)))"

definition onDemandOperationType :: "string \<Rightarrow> string list \<Rightarrow> string list \<Rightarrow> RestartType" where
  "onDemandOperationType podName onDemandQuickRestarts onDemandPodRestarts =
     (if podName \<in> set onDemandQuickRestarts then quickRestart
      else if podName \<in> set onDemandPodRestarts then podRestart
      else noRestart)"

definition minInitVersionForOverrideRackID :: string where
  "minInitVersionForOverrideRackID = ''2.5.0''"

definition PartiallyFailed :: string where "PartiallyFailed = ''PartiallyFailed''"

text \<open>
  The restart asked for when the rack-ID override of the specification and of the pod differ.
  \<open>CompareVersions\<close> is the version comparison of the management library: negative when the first is
  older.
\<close>

definition rack_id_override_restart ::
  "(string \<Rightarrow> string \<Rightarrow> string + int) \<Rightarrow> AerospikeCluster \<Rightarrow> AerospikePodStatus \<Rightarrow>
   (restart_error, RestartType) res" where
  "rack_id_override_restart CompareVersions c podStatus =
     (if GetBool (SpecEnableRackIDOverride (ClusterSpec c)) = PsRackIDOverridden podStatus then Ok noRestart
      else res_bind (res_map_err RtImage (GetImageVersion (PsInitImage podStatus))) (\<lambda>version.
        case CompareVersions version minInitVersionForOverrideRackID of
          Inl e \<Rightarrow> Err (RtCompareVersions e)
        | Inr val \<Rightarrow> Ok (if val < 0 then podRestart else quickRestart)))"

definition conf_change_restart ::
  "AerospikeCluster \<Rightarrow> string list \<Rightarrow> bool \<Rightarrow> string \<Rightarrow> RestartType" where
  "conf_change_restart c addedNSDevices onlyDynamicConfigChange podName =
     (if addedNSDevices \<noteq> [] then handleNSOrDeviceAddition c addedNSDevices podName
      else if onlyDynamicConfigChange then noRestartUpdateConf
      else quickRestart)"

text \<open>
  \<open>stsServerPorts\<close> is the read of the StatefulSet and the ports of its server container;
  \<open>storageUpdated\<close> says whether the rack's storage differs from the pod's volumes.
\<close>

definition getRollingRestartTypePod ::
  "(string \<Rightarrow> string \<Rightarrow> string + int) \<Rightarrow> (restart_error, ContainerPort list option) res \<Rightarrow> (Pod \<Rightarrow> bool) \<Rightarrow>
   AerospikeCluster \<Rightarrow> Pod \<Rightarrow> conf_hashes \<Rightarrow> string list \<Rightarrow> bool \<Rightarrow> string list \<Rightarrow> string list \<Rightarrow>
   (restart_error, RestartType) res" where
  "getRollingRestartTypePod CompareVersions stsServerPorts storageUpdated c pod confMap addedNSDevices
       onlyDynamicConfigChange onDemandQuickRestarts onDemandPodRestarts =
     (if IsStatusEmpty c then Ok noRestart
      else
        let podStatus = pod_status c (PodName pod);
            t0 = noRestart;
            t1 = (if PsAerospikeConfigHash podStatus \<noteq> HAerospikeConf confMap
                  then mergeRestartType t0
                    (conf_change_restart c addedNSDevices onlyDynamicConfigChange (PodName pod)) else t0);
            t2 = (if PsNetworkPolicyHash podStatus \<noteq> HNetworkPolicy confMap
                  then mergeRestartType t1 quickRestart else t1);
            t3 = (if PsPodSpecHash podStatus \<noteq> HPodSpec confMap
                  then mergeRestartType t2 podRestart else t2)
        in res_bind (res_bind stsServerPorts (\<lambda>ports. checkForPortsUpdate ports pod)) (\<lambda>podSpecUpdated.
          let t4 = (if podSpecUpdated then mergeRestartType t3 podRestart else t3);
              t5 = (if storageUpdated pod then mergeRestartType t4 podRestart else t4);
              t6 = (if isPreviewFeaturesUpdated (previewFeaturesArgs (SpecPreviewFeatures (ClusterSpec c))) pod
                    then mergeRestartType t5 podRestart else t5);
              opType = onDemandOperationType (PodName pod) onDemandQuickRestarts onDemandPodRestarts;
              t7 = (if opType \<noteq> noRestart then mergeRestartType t6 opType else t6)
          in res_bind (rack_id_override_restart CompareVersions c podStatus) (\<lambda>overrideType.
            let t8 = (if GetBool (SpecEnableRackIDOverride (ClusterSpec c)) \<noteq> PsRackIDOverridden podStatus
                      then mergeRestartType t7 overrideType else t7);
                t9 = (if PsDynamicConfigUpdateStatus podStatus = PartiallyFailed
                      then mergeRestartType t8 quickRestart else t8)
            in Ok t9)))"

section \<open>What a restart type means\<close>

text \<open>The reasons to restart a pod, each with the restart it asks for.\<close>

definition because :: "bool \<Rightarrow> RestartType \<Rightarrow> RestartType set" where
  "because reason t = (if reason then {t} else {})"

definition restart_reasons ::
  "bool \<Rightarrow> RestartType \<Rightarrow> (Pod \<Rightarrow> bool) \<Rightarrow> AerospikeCluster \<Rightarrow> Pod \<Rightarrow> conf_hashes \<Rightarrow> string list \<Rightarrow> bool \<Rightarrow>
   string list \<Rightarrow> string list \<Rightarrow> RestartType set" where
  "restart_reasons portsUpdated overrideType storageUpdated c pod confMap addedNSDevices dynamicOnly quick cold =
     (let s = pod_status c (PodName pod) in
      because (PsAerospikeConfigHash s \<noteq> HAerospikeConf confMap)
        (conf_change_restart c addedNSDevices dynamicOnly (PodName pod)) \<union>
      because (PsNetworkPolicyHash s \<noteq> HNetworkPolicy confMap) quickRestart \<union>
      because (PsPodSpecHash s \<noteq> HPodSpec confMap) podRestart \<union>
      because portsUpdated podRestart \<union>
      because (storageUpdated pod) podRestart \<union>
      because (isPreviewFeaturesUpdated (previewFeaturesArgs (SpecPreviewFeatures (ClusterSpec c))) pod)
        podRestart \<union>
      {onDemandOperationType (PodName pod) quick cold} \<union> {overrideType} \<union>
      because (PsDynamicConfigUpdateStatus s = PartiallyFailed) quickRestart)"

text \<open>The most disturbing of some restarts; no restart if there is none.\<close>

definition worst :: "RestartType set \<Rightarrow> RestartType" where
  "worst A = Max (insert noRestart A)"

lemma noRestart_least [simp]: "noRestart \<le> t"
  by (cases t) (simp_all add: less_eq_RestartType_def)

lemma podRestart_greatest [simp]: "t \<le> podRestart"
  by (cases t) (simp_all add: less_eq_RestartType_def)

lemma max_noRestart [simp]: "max noRestart t = t" "max t noRestart = t"
  by (simp_all add: max_def antisym)

lemma max_podRestart [simp]: "max podRestart t = podRestart" "max t podRestart = podRestart"
  by (simp_all add: max_def antisym)

lemma finite_RestartType [simp]: "finite (A :: RestartType set)"
proof (rule finite_subset)
  show "A \<subseteq> {noRestart, noRestartUpdateConf, podRestart, quickRestart}"
    using RestartType.exhaust by auto
qed simp

lemma worst_empty [simp]: "worst {} = noRestart"
  by (simp add: worst_def)

lemma worst_insert [simp]: "worst (insert a A) = max a (worst A)"
proof -
  have "worst (insert a A) = Max (insert a (insert noRestart A))"
    by (simp add: worst_def insert_commute)
  then show ?thesis by (simp add: worst_def)
qed

lemma worst_Un [simp]: "worst (A \<union> B) = max (worst A) (worst B)"
proof -
  have "insert noRestart (A \<union> B) = insert noRestart A \<union> insert noRestart B" by auto
  then show ?thesis unfolding worst_def by (simp add: Max_Un del: Un_insert_left Un_insert_right)
qed

lemma merge_if: "(if reason then mergeRestartType t u else t) = max t (worst (because reason u))"
  by (simp add: because_def mergeRestartType_max)

lemma getRollingRestartTypePod_worst:
  "getRollingRestartTypePod CompareVersions stsServerPorts storageUpdated c pod confMap added dynamicOnly quick cold =
     (if IsStatusEmpty c then Ok noRestart
      else res_bind (res_bind stsServerPorts (\<lambda>ports. checkForPortsUpdate ports pod)) (\<lambda>portsUpdated.
        res_bind (rack_id_override_restart CompareVersions c (pod_status c (PodName pod))) (\<lambda>overrideType.
          Ok (worst (restart_reasons portsUpdated overrideType storageUpdated c pod confMap added dynamicOnly
                       quick cold)))))"
proof -
  define s where "s = pod_status c (PodName pod)"
  have demand: "(if u \<noteq> noRestart then mergeRestartType t u else t) = max t u" for t u
    by (simp add: mergeRestartType_max)
  have override: "res_bind (rack_id_override_restart CompareVersions c s) (\<lambda>ot.
       Ok (max (max t (worst (because
          (GetBool (SpecEnableRackIDOverride (ClusterSpec c)) \<noteq> PsRackIDOverridden s) ot))) u)) =
     res_bind (rack_id_override_restart CompareVersions c s) (\<lambda>ot. Ok (max (max t ot) u))" for t u
    by (simp add: rack_id_override_restart_def because_def)
  show ?thesis
    unfolding getRollingRestartTypePod_def restart_reasons_def Let_def s_def[symmetric] demand
    unfolding merge_if override
    by (simp only: worst_Un worst_insert worst_empty max_noRestart max.assoc)
qed

text \<open>
  Property C23. The restart type of a pod is the most disturbing of the restarts its reasons ask for,
  and no restart if there is no reason; before the status holds a configuration it is no restart. The
  only errors are those of reading the ports of the StatefulSet and of the version of the pod's init
  image, in that order.
\<close>

theorem restart_type_is_worst_reason:
  "getRollingRestartTypePod CompareVersions stsServerPorts storageUpdated c pod confMap added dynamicOnly quick cold =
     (if IsStatusEmpty c then Ok noRestart
      else res_bind (res_bind stsServerPorts (\<lambda>ports. checkForPortsUpdate ports pod)) (\<lambda>portsUpdated.
        res_bind (rack_id_override_restart CompareVersions c (pod_status c (PodName pod))) (\<lambda>overrideType.
          Ok (worst (restart_reasons portsUpdated overrideType storageUpdated c pod confMap added dynamicOnly
                       quick cold)))))"
  by (rule getRollingRestartTypePod_worst)

end
