(* ===== verification/Config_Merge.thy ===== *)
theory Config_Merge
  imports Config_Value
begin

text \<open>
  \<^verbatim>\<open>pkg/merge/merge_aerospikeconfig.go\<close>: a rack's configuration is patched over the global one.
\<close>

datatype merge_error = ShouldBeMap gval | ShouldHaveName "gval gomap"

definition is_prim :: "gval \<Rightarrow> bool" where
  "is_prim v = (case v of
      GString _ \<Rightarrow> True | GFloat64 _ \<Rightarrow> True | GBool _ \<Rightarrow> True
    | GInt _ \<Rightarrow> True | GInt64 _ \<Rightarrow> True | GInt32 _ \<Rightarrow> True | _ \<Rightarrow> False)"

fun isPrimList :: "gval list \<Rightarrow> bool" where
  "isPrimList [] = True"
| "isPrimList (e # es) = (if is_prim e then isPrimList es else False)"

definition isStorageEngineTypeChanged :: "gval \<Rightarrow> gval \<Rightarrow> bool" where
  "isStorageEngineTypeChanged base patch =
     (if as_string base \<noteq> None \<and> as_string patch \<noteq> None then False
      else case (as_map base, as_map patch) of
             (Some baseMap, Some patchMap) \<Rightarrow>
               gomap_get baseMap ''files'' \<noteq> None \<and> gomap_get patchMap ''devices'' \<noteq> None \<or>
               gomap_get baseMap ''devices'' \<noteq> None \<and> gomap_get patchMap ''files'' \<noteq> None
           | _ \<Rightarrow> False)"

text \<open>
  \<^verbatim>\<open>==\<close> on two interface values: different dynamic types are unequal; maps and slices of the
  same type are not comparable, which panics.
\<close>

definition iface_eq :: "gval \<Rightarrow> gval \<Rightarrow> ('e, bool) res" where
  "iface_eq a b =
     (if TypeOf a \<noteq> TypeOf b then Ok False
      else if TypeOf a = TMap \<or> TypeOf a = TList then Panic
      else Ok (a = b))"

text \<open>
  \<open>name_among\<close> is the search of the second loop over the patch list: the name of a patch element
  is compared with the names of the base elements, in order, until one is equal.
\<close>

fun name_among :: "gval \<Rightarrow> gval list \<Rightarrow> (merge_error, bool) res" where
  "name_among pName [] = Ok False"
| "name_among pName (bEleInt # bs) =
     res_bind (must (as_map bEleInt)) (\<lambda>bEle.
       res_bind (iface_eq pName (idx bEle ''name'')) (\<lambda>eq.
         if eq then Ok True else name_among pName bs))"

fun append_new :: "gval list \<Rightarrow> gval list \<Rightarrow> (merge_error, gval list) res" where
  "append_new bs [] = Ok []"
| "append_new bs (pEleInt # ps) =
     res_bind (must (as_map pEleInt)) (\<lambda>pEle.
       res_bind (name_among (idx pEle ''name'') bs) (\<lambda>found.
         res_bind (append_new bs ps) (\<lambda>rest.
           Ok (if found then rest else pEleInt # rest))))"

text \<open>
  \<open>Merge\<close> recurses through \<open>merge_handleValues\<close>; the loops over the patch map, over the base list and
  over the patch list are functions of their own. \<open>match_ele\<close> is the inner loop that looks for
  the patch element with the name of a base element and merges the two.
\<close>

function (sequential)
    Merge :: "gval gomap \<Rightarrow> gval gomap \<Rightarrow> (merge_error, gval gomap) res"
and patch_entries :: "gval gomap \<Rightarrow> gval gomap \<Rightarrow> (merge_error, gval gomap) res"
and merge_handleValues :: "gval \<Rightarrow> gval \<Rightarrow> (merge_error, gval) res"
and base_eles :: "gval list \<Rightarrow> gval list \<Rightarrow> (merge_error, gval list) res"
and match_ele :: "gval gomap \<Rightarrow> gval \<Rightarrow> gval list \<Rightarrow> (merge_error, gval) res"
where
  "Merge base patch =
     (if patch = [] then Ok base
      else res_bind (patch_entries base patch) (\<lambda>r.
             Ok (r @ filter (\<lambda>e. gomap_get patch (fst e) = None) base)))"
| "patch_entries base [] = Ok []"
| "patch_entries base ((key, patchValue) # rest) =
     res_bind
       (case gomap_get base key of
          None \<Rightarrow> Ok patchValue
        | Some baseValue \<Rightarrow>
            if TypeOf baseValue \<noteq> TypeOf patchValue then Ok patchValue
            else if key = ConfKeyStorageEngine \<and> isStorageEngineTypeChanged baseValue patchValue
            then Ok patchValue
            else merge_handleValues baseValue patchValue)
       (\<lambda>v. res_bind (patch_entries base rest) (\<lambda>r. Ok ((key, v) # r)))"
| "merge_handleValues (GMap bvt) patchValue =
     (case patchValue of
        GMap pvt \<Rightarrow> res_bind (Merge bvt pvt) (\<lambda>m. Ok (GMap m))
      | _ \<Rightarrow> Panic)"
| "merge_handleValues (GList bs) patchValue =
     (case patchValue of
        GList ps \<Rightarrow>
          if isPrimList bs \<and> isPrimList ps then Ok patchValue
          else res_bind (base_eles bs ps) (\<lambda>merged.
                 res_bind (append_new bs ps) (\<lambda>new. Ok (GList (merged @ new))))
      | _ \<Rightarrow> Panic)"
| "merge_handleValues GNil patchValue = Panic"
| "merge_handleValues _ patchValue = Ok patchValue"
| "base_eles [] ps = Ok []"
| "base_eles (bEleInt # bs) ps =
     (case as_map bEleInt of
        None \<Rightarrow> Err (ShouldBeMap bEleInt)
      | Some bEle \<Rightarrow>
          (case gomap_get bEle ''name'' of
             None \<Rightarrow> Err (ShouldHaveName bEle)
           | Some bName \<Rightarrow>
               res_bind (match_ele bEle bName ps) (\<lambda>v.
                 res_bind (base_eles bs ps) (\<lambda>vs. Ok (v # vs)))))"
| "match_ele bEle bName [] = Ok (GMap bEle)"
| "match_ele bEle bName (pEleInt # ps) =
     (case pEleInt of
        GMap pEle \<Rightarrow>
          (case gomap_get pEle ''name'' of
             None \<Rightarrow> Err (ShouldHaveName pEle)
           | Some pName \<Rightarrow>
               res_bind (iface_eq pName bName) (\<lambda>eq.
                 if eq then res_bind (Merge bEle pEle) (\<lambda>m. Ok (GMap m))
                 else match_ele bEle bName ps))
      | _ \<Rightarrow> Err (ShouldBeMap pEleInt))"
  by pat_completeness auto

termination
  by (relation "measures [\<lambda>x. case x of
      Inl (Inl (b, p)) \<Rightarrow> 2 * size_list (size_prod (\<lambda>_. 0) size) p + 1
    | Inl (Inr (b, p)) \<Rightarrow> 2 * size_list (size_prod (\<lambda>_. 0) size) p
    | Inr (Inl (b, p)) \<Rightarrow> 2 * size p
    | Inr (Inr (Inl (b, p))) \<Rightarrow> 2 * size_list size p
    | Inr (Inr (Inr (b, n, p))) \<Rightarrow> 2 * size_list size p, \<lambda>x. case x of
      Inr (Inr (Inl (b, p))) \<Rightarrow> Suc (length b) | _ \<Rightarrow> 0]") auto

section \<open>Well-formed patches\<close>

text \<open>
  What the merge relies on in a patch: distinct keys, no nil, lists that hold only primitive
  values or only maps with a string under \<^verbatim>\<open>name\<close>, distinct within the list, and a storage engine
  that is not configured with both files and devices.
\<close>

definition ele_name :: "gval \<Rightarrow> string option" where
  "ele_name v = (case v of
      GMap m \<Rightarrow> (case gomap_get m ''name'' of Some (GString s) \<Rightarrow> Some s | _ \<Rightarrow> None)
    | _ \<Rightarrow> None)"

fun patch_wf :: "gval \<Rightarrow> bool" where
  "patch_wf GNil = False"
| "patch_wf (GList l) =
     ((isPrimList l \<or> list_all (\<lambda>v. ele_name v \<noteq> None) l \<and> distinct (map ele_name l)) \<and>
      list_all patch_wf l)"
| "patch_wf (GMap m) =
     (distinct (map fst m) \<and>
      list_all (\<lambda>e. patch_wf (snd e) \<and>
        (fst e = ConfKeyStorageEngine \<longrightarrow> \<not> isStorageEngineTypeChanged (snd e) (snd e))) m)"
| "patch_wf _ = True"

section \<open>Lookups in a merged map\<close>

text \<open>What the first loop stores under a key of the patch.\<close>

definition merged_value :: "gval gomap \<Rightarrow> string \<Rightarrow> gval \<Rightarrow> (merge_error, gval) res" where
  "merged_value base key patchValue =
     (case gomap_get base key of
        None \<Rightarrow> Ok patchValue
      | Some baseValue \<Rightarrow>
          if TypeOf baseValue \<noteq> TypeOf patchValue then Ok patchValue
          else if key = ConfKeyStorageEngine \<and> isStorageEngineTypeChanged baseValue patchValue
          then Ok patchValue
          else merge_handleValues baseValue patchValue)"

lemma patch_entries_Cons:
  "patch_entries base ((key, patchValue) # rest) =
     res_bind (merged_value base key patchValue)
       (\<lambda>v. res_bind (patch_entries base rest) (\<lambda>r. Ok ((key, v) # r)))"
  by (simp add: merged_value_def)

lemmas merge_del = patch_entries.simps(2) Merge.simps

lemma patch_entries_Ok:
  "patch_entries base p = Ok r \<longleftrightarrow>
     list_all2 (\<lambda>e f. fst e = fst f \<and> merged_value base (fst e) (snd e) = Ok (snd f)) p r"
proof (induction p arbitrary: r)
  case Nil
  show ?case by auto
next
  case (Cons e p)
  obtain k v where e: "e = (k, v)" by (cases e)
  show ?case
    by (cases r) (auto simp: e patch_entries_Cons res_simps Cons.IH simp del: patch_entries.simps)
qed

lemma patch_entries_keys: "patch_entries base p = Ok r \<Longrightarrow> map fst r = map fst p"
  unfolding patch_entries_Ok by (induction rule: list_all2_induct) auto

lemma patch_entries_get:
  assumes "patch_entries base p = Ok r"
  shows "(case gomap_get p k of
            None \<Rightarrow> gomap_get r k = None
          | Some pv \<Rightarrow> \<exists>v. merged_value base k pv = Ok v \<and> gomap_get r k = Some v)"
  using assms unfolding patch_entries_Ok
  by (induction rule: list_all2_induct) (auto simp: gomap_simps split: option.splits prod.splits if_splits)

lemma gomap_get_append:
  "gomap_get (xs @ ys) k = (case gomap_get xs k of None \<Rightarrow> gomap_get ys k | Some v \<Rightarrow> Some v)"
  by (simp add: gomap_get_def map_add_def split: option.split)

lemma gomap_get_filter_key:
  "gomap_get (filter (\<lambda>e. P (fst e)) m) k = (if P k then gomap_get m k else None)"
  by (induction m) (auto simp: gomap_simps)

lemma Merge_Ok_form:
  assumes "Merge base patch = Ok m"
  obtains r where "patch_entries base patch = Ok r"
    and "m = r @ filter (\<lambda>e. gomap_get patch (fst e) = None) base"
  using assms by (auto simp: res_simps split: if_splits)

lemma Merge_Ok_intro:
  "patch_entries base patch = Ok r \<Longrightarrow>
   Merge base patch = Ok (r @ filter (\<lambda>e. gomap_get patch (fst e) = None) base)"
  by (cases "patch = []") simp_all

lemma Merge_get:
  assumes "Merge base patch = Ok m"
  shows "(case gomap_get patch k of
            None \<Rightarrow> gomap_get m k = gomap_get base k
          | Some pv \<Rightarrow> \<exists>v. merged_value base k pv = Ok v \<and> gomap_get m k = Some v)"
proof -
  from assms obtain r where r: "patch_entries base patch = Ok r"
    and m: "m = r @ filter (\<lambda>e. gomap_get patch (fst e) = None) base"
    by (rule Merge_Ok_form)
  show ?thesis
    using patch_entries_get [OF r, of k]
      gomap_get_filter_key [of "\<lambda>k. gomap_get patch k = None" base k]
    by (auto simp: m gomap_get_append split: option.splits)
qed

lemma Merge_keys:
  assumes "Merge base patch = Ok m" and "gomap_ok base" and "gomap_ok patch"
  shows "gomap_ok m \<and> fst ` set m = fst ` set base \<union> fst ` set patch"
proof -
  from assms(1) obtain r where r: "patch_entries base patch = Ok r"
    and m: "m = r @ filter (\<lambda>e. gomap_get patch (fst e) = None) base"
    by (rule Merge_Ok_form)
  have keys: "map fst r = map fst patch" by (rule patch_entries_keys [OF r])
  then have "fst ` set r = fst ` set patch" by (metis list.set_map)
  moreover have "distinct (map fst r)" using keys assms(3) by (simp add: gomap_ok_def)
  ultimately show ?thesis
    using assms(2,3) unfolding m
    by (auto simp: gomap_ok_def gomap_get_None_iff distinct_map_filter image_iff)
qed

section \<open>Named elements\<close>

lemma ele_name_SomeD:
  "ele_name v = Some s \<Longrightarrow> \<exists>m. v = GMap m \<and> gomap_get m ''name'' = Some (GString s)"
  by (auto simp: ele_name_def split: gval.splits option.splits)

lemma ele_name_GMap_iff: "ele_name (GMap m) = Some s \<longleftrightarrow> gomap_get m ''name'' = Some (GString s)"
  by (auto simp: ele_name_def split: gval.splits option.splits)

lemma iface_eq_string: "iface_eq (GString s) v = Ok (v = GString s)"
  by (cases v) (auto simp: iface_eq_def)

lemma isPrimList_iff: "isPrimList l \<longleftrightarrow> (\<forall>v\<in>set l. is_prim v)"
  by (induction l) auto

lemma is_prim_simps [simp]:
  "\<not> is_prim (GMap m)" "\<not> is_prim (GList l)" "\<not> is_prim GNil" "is_prim (GString s)"
  by (auto simp: is_prim_def)

lemma handleValues_prim: "is_prim bv \<Longrightarrow> merge_handleValues bv pv = Ok pv"
  by (cases bv) (auto simp: is_prim_def)

lemma handleValues_prim_type:
  "is_prim pv \<Longrightarrow> TypeOf bv = TypeOf pv \<Longrightarrow> merge_handleValues bv pv = Ok pv"
  by (cases bv; cases pv) (auto simp: is_prim_def)

lemma handleValues_type:
  assumes "merge_handleValues bv pv = Ok v" and "TypeOf bv = TypeOf pv"
  shows "TypeOf v = TypeOf pv"
proof (cases bv)
  case (GList bs)
  with assms show ?thesis
    by (cases pv) (auto simp: res_simps split: if_splits)
next
  case (GMap bm)
  with assms show ?thesis by (cases pv) (auto simp: res_simps)
qed (use assms in auto)

text \<open>The search for the element with a given string name.\<close>

lemma match_ele_hit:
  assumes "list_all (\<lambda>v. ele_name v \<noteq> None) ps" and "distinct (map ele_name ps)"
    and "GMap pEle \<in> set ps" and "gomap_get pEle ''name'' = Some (GString s)"
  shows "match_ele bEle (GString s) ps = res_bind (Merge bEle pEle) (\<lambda>m. Ok (GMap m))"
  using assms
proof (induction ps)
  case Nil
  then show ?case by simp
next
  case (Cons q ps)
  from Cons.prems(1) obtain t where t: "ele_name q = Some t" by auto
  then obtain qm where q: "q = GMap qm" and qn: "gomap_get qm ''name'' = Some (GString t)"
    by (blast dest: ele_name_SomeD)
  show ?case
  proof (cases "q = GMap pEle")
    case True
    with Cons.prems(4) show ?thesis by (simp add: iface_eq_string)
  next
    case False
    with Cons.prems(3) have mem: "GMap pEle \<in> set ps" by auto
    have "ele_name (GMap pEle) = Some s" using Cons.prems(4) by (simp add: ele_name_GMap_iff)
    then have "t \<noteq> s" using Cons.prems(2) mem t by force
    with q qn Cons.IH Cons.prems mem show ?thesis by (simp add: iface_eq_string)
  qed
qed

text \<open>An element none of whose names matches is kept.\<close>

lemma match_ele_miss:
  assumes "list_all (\<lambda>v. ele_name v \<noteq> None) ps"
    and "\<forall>p\<in>set ps. bName \<noteq> GString (the (ele_name p))"
  shows "match_ele bEle bName ps = Ok (GMap bEle)"
  using assms
proof (induction ps)
  case Nil
  then show ?case by simp
next
  case (Cons q ps)
  from Cons.prems(1) obtain t where t: "ele_name q = Some t" by auto
  then obtain qm where "q = GMap qm" "gomap_get qm ''name'' = Some (GString t)"
    by (blast dest: ele_name_SomeD)
  with t Cons show ?case by (simp add: iface_eq_string)
qed

lemma name_among_Ok:
  "\<forall>b\<in>set bs. \<exists>m. b = GMap m \<Longrightarrow>
   name_among (GString s) bs = Ok (\<exists>b\<in>set bs. ele_name b = Some s)"
proof (induction bs)
  case Nil
  then show ?case by simp
next
  case (Cons b bs)
  then obtain m where b: "b = GMap m" by auto
  have "idx m ''name'' = GString s \<longleftrightarrow> ele_name b = Some s"
    by (auto simp: idx_def b ele_name_GMap_iff split: option.splits)
  with Cons b show ?case by (simp add: iface_eq_string)
qed

lemma append_new_Ok:
  assumes "\<forall>b\<in>set bs. \<exists>m. b = GMap m" and "list_all (\<lambda>v. ele_name v \<noteq> None) ps"
  shows "append_new bs ps = Ok (filter (\<lambda>p. \<not> (\<exists>b\<in>set bs. ele_name b = ele_name p)) ps)"
  using assms(2)
proof (induction ps)
  case Nil
  then show ?case by simp
next
  case (Cons p ps)
  from Cons.prems obtain s where s: "ele_name p = Some s" by auto
  then obtain m where p: "p = GMap m" and m: "gomap_get m ''name'' = Some (GString s)"
    by (blast dest: ele_name_SomeD)
  then have "idx m ''name'' = GString s" by (simp add: idx_def)
  with Cons p s name_among_Ok [OF assms(1), of s] show ?case by simp
qed

lemma base_eles_Ok_maps: "base_eles bs ps = Ok vs \<Longrightarrow> \<forall>b\<in>set bs. \<exists>m. b = GMap m"
proof (induction bs arbitrary: vs)
  case Nil
  then show ?case by simp
next
  case (Cons b bs)
  then show ?case by (cases b) (auto simp: res_simps split: option.splits)
qed

lemma base_eles_prim: "base_eles (b # bs) (p # ps) = Ok vs \<Longrightarrow> \<exists>m. p = GMap m"
  by (cases b; cases p) (auto simp: res_simps split: option.splits)

section \<open>A well-formed patch never makes the merge panic\<close>

lemma patch_entries_no_panic:
  assumes "\<And>e bv. e \<in> set p \<Longrightarrow> TypeOf bv = TypeOf (snd e) \<Longrightarrow> merge_handleValues bv (snd e) \<noteq> Panic"
  shows "patch_entries base p \<noteq> Panic"
  using assms
proof (induction p)
  case Nil
  then show ?case by simp
next
  case (Cons e p)
  obtain k v where e: "e = (k, v)" by (cases e)
  have "merged_value base k v \<noteq> Panic"
    using Cons.prems [of e] by (auto simp: merged_value_def e split: option.splits)
  moreover have "patch_entries base p \<noteq> Panic" using Cons by simp
  ultimately show ?case
    by (simp add: e patch_entries_Cons res_simps del: patch_entries.simps)
qed

lemma match_ele_no_panic:
  assumes "list_all (\<lambda>v. ele_name v \<noteq> None) ps"
    and "\<And>pEle. GMap pEle \<in> set ps \<Longrightarrow> Merge bEle pEle \<noteq> Panic"
  shows "match_ele bEle bName ps \<noteq> Panic"
  using assms
proof (induction ps)
  case Nil
  then show ?case by simp
next
  case (Cons q ps)
  from Cons.prems(1) obtain t where t: "ele_name q = Some t" by auto
  then obtain qm where q: "q = GMap qm" "gomap_get qm ''name'' = Some (GString t)"
    by (blast dest: ele_name_SomeD)
  have "Merge bEle qm \<noteq> Panic" using Cons.prems(2) [of qm] q by simp
  moreover have "match_ele bEle bName ps \<noteq> Panic" using Cons by simp
  ultimately show ?case
    by (simp add: q iface_eq_string res_simps del: Merge.simps)
qed

lemma base_eles_no_panic:
  assumes "\<And>bEle bName. match_ele bEle bName ps \<noteq> Panic"
  shows "base_eles bs ps \<noteq> Panic"
  by (induction bs) (auto simp: res_simps assms split: option.splits)

lemma merge_list_no_panic:
  assumes named: "isPrimList ps \<or> list_all (\<lambda>v. ele_name v \<noteq> None) ps"
    and IH: "\<And>bEle pEle. GMap pEle \<in> set ps \<Longrightarrow> Merge bEle pEle \<noteq> Panic"
  shows "merge_handleValues (GList bs) (GList ps) \<noteq> Panic"
proof (cases "list_all (\<lambda>v. ele_name v \<noteq> None) ps")
  case True
  then have "base_eles bs ps \<noteq> Panic"
    using IH by (intro base_eles_no_panic match_ele_no_panic)
  moreover have "append_new bs ps \<noteq> Panic" if "base_eles bs ps = Ok vs" for vs
    using append_new_Ok [OF base_eles_Ok_maps [OF that] True] by simp
  ultimately show ?thesis by (auto simp: res_simps)
next
  case False
  with named obtain p ps' where ps: "ps = p # ps'" and prim: "isPrimList ps"
    by (cases ps) auto
  show ?thesis
  proof (cases bs)
    case Nil
    with prim show ?thesis by simp
  next
    case (Cons b bs')
    have "base_eles bs ps \<noteq> Panic" "\<nexists>vs. base_eles bs ps = Ok vs"
    proof -
      have "is_prim p" using prim ps by (simp split: if_splits)
      then show "\<nexists>vs. base_eles bs ps = Ok vs"
        using base_eles_prim ps Cons by fastforce
      have "match_ele bEle bName ps \<noteq> Panic" for bEle bName
        using \<open>is_prim p\<close> ps by (cases p) auto
      then show "base_eles bs ps \<noteq> Panic" by (rule base_eles_no_panic)
    qed
    then show ?thesis by (auto simp: res_simps)
  qed
qed

lemma handleValues_no_panic:
  "patch_wf pv \<Longrightarrow> TypeOf bv = TypeOf pv \<Longrightarrow> merge_handleValues bv pv \<noteq> Panic"
proof (induction pv arbitrary: bv)
  case (GList ps)
  then obtain bs where bs: "bv = GList bs" by (cases bv) auto
  have "Merge bEle pEle \<noteq> Panic" if "GMap pEle \<in> set ps" for bEle pEle
  proof -
    have "\<forall>x\<in>set ps. patch_wf x" using GList.prems(1) by (simp add: list_all_iff)
    with that have "patch_wf (GMap pEle)" by blast
    then have "merge_handleValues (GMap bEle) (GMap pEle) \<noteq> Panic" by (intro GList.IH that) simp_all
    then show ?thesis by (simp add: res_simps del: Merge.simps)
  qed
  then show ?case
    using GList.prems(1) unfolding bs by (intro merge_list_no_panic) auto
next
  case (GMap pm)
  then obtain bm where bm: "bv = GMap bm" by (cases bv) auto
  have "patch_entries bm pm \<noteq> Panic"
  proof (rule patch_entries_no_panic)
    fix e v
    assume e: "e \<in> set pm" and t: "TypeOf v = TypeOf (snd e)"
    have "patch_wf (snd e)" using GMap.prems(1) e by (auto simp: list_all_iff)
    then show "merge_handleValues v (snd e) \<noteq> Panic"
      using GMap.IH [OF e] t by (cases e) auto
  qed
  then show ?case by (auto simp: bm res_simps)
qed (simp_all add: handleValues_prim_type is_prim_def)

lemma Merge_no_panic:
  assumes "patch_wf (GMap patch)"
  shows "Merge base patch \<noteq> Panic"
  using handleValues_no_panic [OF assms, of "GMap base"] by (simp add: res_simps del: Merge.simps)

section \<open>Merging a patch twice changes nothing\<close>

lemma patch_wf_GMapD:
  assumes "patch_wf (GMap p)" and "(k, v) \<in> set p"
  shows "gomap_get p k = Some v" and "patch_wf v"
    and "k = ConfKeyStorageEngine \<Longrightarrow> \<not> isStorageEngineTypeChanged v v"
proof -
  show "gomap_get p k = Some v" using assms by (simp add: gomap_get_def)
  have "\<forall>e\<in>set p. patch_wf (snd e) \<and>
      (fst e = ConfKeyStorageEngine \<longrightarrow> \<not> isStorageEngineTypeChanged (snd e) (snd e))"
    using assms(1) by (simp add: list_all_iff)
  with assms(2) show "patch_wf v" and
    "k = ConfKeyStorageEngine \<Longrightarrow> \<not> isStorageEngineTypeChanged v v" by fastforce+
qed

lemma patch_wf_GListD:
  assumes "patch_wf (GList l)" and "v \<in> set l"
  shows "patch_wf v"
proof -
  from assms(1) have "\<forall>x\<in>set l. patch_wf x" by (simp add: list_all_iff)
  with assms(2) show ?thesis by blast
qed

lemma patch_entries_refl:
  assumes "\<And>k v. (k, v) \<in> set q \<Longrightarrow> merged_value m k v = Ok v"
  shows "patch_entries m q = Ok q"
  unfolding patch_entries_Ok using assms by (auto intro!: list.rel_refl_strong)

lemma filter_absent_self: "filter (\<lambda>e. gomap_get p (fst e) = None) p = []"
  by (auto simp: filter_empty_conv gomap_get_None_iff)

text \<open>Self-merge of the elements of a list of named maps.\<close>

lemma base_eles_self:
  assumes "list_all (\<lambda>v. ele_name v \<noteq> None) ps" and "distinct (map ele_name ps)"
    and "\<And>pEle. GMap pEle \<in> set ps \<Longrightarrow> Merge pEle pEle = Ok pEle"
    and "set qs \<subseteq> set ps"
  shows "base_eles qs ps = Ok qs"
  using assms(4)
proof (induction qs)
  case Nil
  then show ?case by simp
next
  case (Cons q qs)
  then have mem: "q \<in> set ps" and sub: "set qs \<subseteq> set ps" by auto
  then obtain s where "ele_name q = Some s" using assms(1) by (auto simp: list_all_iff)
  then obtain m where q: "q = GMap m" and n: "gomap_get m ''name'' = Some (GString s)"
    by (blast dest: ele_name_SomeD)
  have "match_ele m (GString s) ps = Ok (GMap m)"
    using match_ele_hit [OF assms(1,2), of m s m] mem assms(3) [of m] q n
    by (simp del: Merge.simps)
  with q n Cons.IH [OF sub] show ?case by simp
qed

lemma handleValues_self: "patch_wf v \<Longrightarrow> merge_handleValues v v = Ok v"
proof (induction v)
  case (GList ps)
  show ?case
  proof (cases "isPrimList ps")
    case True
    then show ?thesis by simp
  next
    case False
    with GList.prems have named: "list_all (\<lambda>v. ele_name v \<noteq> None) ps"
      and dist: "distinct (map ele_name ps)" by auto
    have self: "Merge pEle pEle = Ok pEle" if "GMap pEle \<in> set ps" for pEle
      using GList.IH [OF that] patch_wf_GListD [OF GList.prems that] by (simp add: res_simps del: Merge.simps)
    have "base_eles ps ps = Ok ps" by (rule base_eles_self [OF named dist self]) auto
    moreover have "append_new ps ps = Ok []"
      using append_new_Ok [OF base_eles_Ok_maps [OF calculation] named] by (auto simp: filter_empty_conv)
    ultimately show ?thesis by (simp add: False)
  qed
next
  case (GMap p)
  have "merged_value p k v = Ok v" if "(k, v) \<in> set p" for k v
    using patch_wf_GMapD [OF GMap.prems that] GMap.IH [OF that] by (auto simp: merged_value_def)
  then have "patch_entries p p = Ok p" by (rule patch_entries_refl)
  then have "Merge p p = Ok p" using Merge_Ok_intro filter_absent_self by fastforce
  then show ?case by (simp del: Merge.simps)
qed auto

text \<open>The storage engine keeps its type once merged.\<close>

lemma storage_engine_stable:
  assumes "merge_handleValues bv pv = Ok v" and "TypeOf bv = TypeOf pv"
    and "\<not> isStorageEngineTypeChanged bv pv" and "\<not> isStorageEngineTypeChanged pv pv"
  shows "\<not> isStorageEngineTypeChanged v pv"
proof (cases pv)
  case (GMap pm)
  then obtain bm where bm: "bv = GMap bm" using assms(2) by (cases bv) auto
  then obtain m where m: "v = GMap m" "Merge bm pm = Ok m"
    using assms(1) GMap by (auto simp: res_simps simp del: Merge.simps)
  have "gomap_get m k \<noteq> None \<longleftrightarrow> gomap_get bm k \<noteq> None \<or> gomap_get pm k \<noteq> None" for k
    using Merge_get [OF m(2), of k] by (cases "gomap_get pm k") auto
  then show ?thesis
    using assms(3,4) by (auto simp: isStorageEngineTypeChanged_def GMap bm m(1))
qed (auto simp: isStorageEngineTypeChanged_def split: option.splits)

lemma merged_value_cases:
  "merged_value b k pv = Ok v \<Longrightarrow>
     v = pv \<or> (\<exists>bv. TypeOf bv = TypeOf pv \<and> merge_handleValues bv pv = Ok v \<and>
       (k = ConfKeyStorageEngine \<longrightarrow> \<not> isStorageEngineTypeChanged bv pv))"
  by (auto simp: merged_value_def split: option.splits if_splits)

lemma Merge_idem_step:
  assumes wf: "patch_wf (GMap p)" and m: "Merge b p = Ok m"
    and IH: "\<And>k pv bv v. (k, pv) \<in> set p \<Longrightarrow> TypeOf bv = TypeOf pv \<Longrightarrow>
      merge_handleValues bv pv = Ok v \<Longrightarrow> merge_handleValues v pv = Ok v"
  shows "Merge m p = Ok m"
proof -
  from m obtain r where r: "patch_entries b p = Ok r"
    and mr: "m = r @ filter (\<lambda>e. gomap_get p (fst e) = None) b" by (rule Merge_Ok_form)
  have keys: "map fst r = map fst p" by (rule patch_entries_keys [OF r])
  have "merged_value m k pv = Ok v"
    if mem: "(k, pv) \<in> set p" and v: "merged_value b k pv = Ok v" for k pv v
  proof -
    note wfk = patch_wf_GMapD [OF wf mem]
    from Merge_get [OF m, of k] v wfk(1) have get: "gomap_get m k = Some v" by auto
    consider "v = pv" | bv where "TypeOf bv = TypeOf pv" "merge_handleValues bv pv = Ok v"
      "k = ConfKeyStorageEngine \<longrightarrow> \<not> isStorageEngineTypeChanged bv pv"
      using merged_value_cases [OF v] by blast
    then show ?thesis
    proof cases
      case 1
      then show ?thesis using get handleValues_self [OF wfk(2)] by (simp add: merged_value_def)
    next
      case 2
      then have "merge_handleValues v pv = Ok v" using IH mem by blast
      moreover have "TypeOf v = TypeOf pv" using handleValues_type 2 by blast
      moreover have "k = ConfKeyStorageEngine \<Longrightarrow> \<not> isStorageEngineTypeChanged v pv"
        using storage_engine_stable [OF 2(2,1)] 2(3) wfk(3) by blast
      ultimately show ?thesis using get by (auto simp: merged_value_def)
    qed
  qed
  then have "patch_entries m p = Ok r"
    using r unfolding patch_entries_Ok by (elim list.rel_mono_strong) (metis prod.collapse)
  moreover have "filter (\<lambda>e. gomap_get p (fst e) = None) r = []"
    using arg_cong [OF keys, of set] by (auto simp: filter_empty_conv gomap_get_None_iff)
  ultimately show ?thesis using Merge_Ok_intro [of m p r] by (simp add: mr)
qed

text \<open>Merging the elements of a list of named maps twice.\<close>

lemma match_ele_idem:
  assumes named: "list_all (\<lambda>v. ele_name v \<noteq> None) ps" and dist: "distinct (map ele_name ps)"
    and wf: "\<And>pEle. GMap pEle \<in> set ps \<Longrightarrow> gomap_ok pEle"
    and IH: "\<And>pEle b m. GMap pEle \<in> set ps \<Longrightarrow> Merge b pEle = Ok m \<Longrightarrow> Merge m pEle = Ok m"
    and b: "gomap_get bEle ''name'' = Some bName" and v: "match_ele bEle bName ps = Ok v"
  shows "\<exists>vEle. v = GMap vEle \<and> gomap_get vEle ''name'' = Some bName \<and> match_ele vEle bName ps = Ok v"
proof (cases "\<exists>p\<in>set ps. bName = GString (the (ele_name p))")
  case False
  then have "match_ele bEle bName ps = Ok (GMap bEle)" using named by (intro match_ele_miss) auto
  with b v show ?thesis by auto
next
  case True
  then obtain p s where p: "p \<in> set ps" "ele_name p = Some s" "bName = GString s"
    using named by (auto simp: list_all_iff)
  then obtain pEle where pe: "p = GMap pEle" "gomap_get pEle ''name'' = Some (GString s)"
    by (blast dest: ele_name_SomeD)
  have hit: "match_ele e (GString s) ps = res_bind (Merge e pEle) (\<lambda>m. Ok (GMap m))" for e
    using match_ele_hit [OF named dist] p pe by blast
  then obtain m where m: "Merge bEle pEle = Ok m" "v = GMap m"
    using v p(3) by (auto simp: res_simps simp del: Merge.simps)
  have "merged_value bEle ''name'' (GString s) = Ok (GString s)"
    using b p(3) by (simp add: merged_value_def)
  then have "gomap_get m ''name'' = Some bName"
    using Merge_get [OF m(1), of "''name''"] pe(2) p(3) by auto
  moreover have "Merge m pEle = Ok m" using IH m(1) p(1) pe(1) by blast
  ultimately show ?thesis using hit m(2) p(3) by (simp del: Merge.simps)
qed

lemma base_eles_idem:
  assumes step: "\<And>bEle bName v. gomap_get bEle ''name'' = Some bName \<Longrightarrow> match_ele bEle bName ps = Ok v \<Longrightarrow>
      \<exists>vEle. v = GMap vEle \<and> gomap_get vEle ''name'' = Some bName \<and> match_ele vEle bName ps = Ok v"
    and "base_eles bs ps = Ok vs"
  shows "base_eles vs ps = Ok vs \<and> map ele_name vs = map ele_name bs"
  using assms(2)
proof (induction bs arbitrary: vs)
  case Nil
  then show ?case by simp
next
  case (Cons b bs)
  then obtain bEle bName v ws where b: "b = GMap bEle" "gomap_get bEle ''name'' = Some bName"
    and v: "match_ele bEle bName ps = Ok v" and ws: "base_eles bs ps = Ok ws" and vs: "vs = v # ws"
    by (cases b) (auto simp: res_simps split: option.splits)
  from step [OF b(2) v] obtain vEle where "v = GMap vEle"
    "gomap_get vEle ''name'' = Some bName" "match_ele vEle bName ps = Ok v" by blast
  with Cons.IH [OF ws] b vs show ?case by (simp add: ele_name_def)
qed

lemma base_eles_append:
  "base_eles xs ps = Ok as \<Longrightarrow> base_eles ys ps = Ok bs \<Longrightarrow> base_eles (xs @ ys) ps = Ok (as @ bs)"
proof (induction xs arbitrary: as)
  case Nil
  then show ?case by simp
next
  case (Cons x xs)
  then show ?case by (cases x) (auto simp: res_simps split: option.splits)
qed

lemma merge_list_idem:
  assumes wf: "patch_wf (GList ps)" and v: "merge_handleValues (GList bs) (GList ps) = Ok v"
    and IH: "\<And>pEle b m. GMap pEle \<in> set ps \<Longrightarrow> Merge b pEle = Ok m \<Longrightarrow> Merge m pEle = Ok m"
  shows "merge_handleValues v (GList ps) = Ok v"
proof (cases "isPrimList bs \<and> isPrimList ps")
  case True
  with v show ?thesis by auto
next
  case False
  then obtain vs new where vs: "base_eles bs ps = Ok vs" and new: "append_new bs ps = Ok new"
    and veq: "v = GList (vs @ new)" using v by (auto simp: res_simps)
  note maps = base_eles_Ok_maps [OF vs]
  have "ps = [] \<or> bs = [] \<or> \<not> isPrimList ps"
    using vs base_eles_prim by (cases bs; cases ps) (fastforce split: if_splits)+
  with False have named: "list_all (\<lambda>v. ele_name v \<noteq> None) ps" "distinct (map ele_name ps)"
    using wf by auto
  have ok: "gomap_ok pEle" if "GMap pEle \<in> set ps" for pEle
    using patch_wf_GListD [OF wf that] by (simp add: gomap_ok_def)
  have vs2: "base_eles vs ps = Ok vs" "map ele_name vs = map ele_name bs"
    using base_eles_idem [OF match_ele_idem [OF named ok IH] vs] by auto
  have neweq: "new = filter (\<lambda>p. \<not> (\<exists>b\<in>set bs. ele_name b = ele_name p)) ps"
    using new append_new_Ok [OF maps named(1)] by simp
  have self: "Merge pEle pEle = Ok pEle" if "GMap pEle \<in> set ps" for pEle
    using handleValues_self [OF patch_wf_GListD [OF wf that]] by (simp add: res_simps del: Merge.simps)
  have "base_eles new ps = Ok new" by (rule base_eles_self [OF named self]) (auto simp: neweq)
  then have all: "base_eles (vs @ new) ps = Ok (vs @ new)" using vs2(1) by (intro base_eles_append)
  have "set (map ele_name ps) \<subseteq> set (map ele_name (vs @ new))"
    unfolding map_append vs2(2) by (auto simp: neweq image_iff) metis
  then have "\<exists>b\<in>set (vs @ new). ele_name b = ele_name p" if "p \<in> set ps" for p
    using that by (metis (no_types, lifting) imageE imageI list.set_map subset_iff)
  then have "append_new (vs @ new) ps = Ok []"
    using append_new_Ok [OF base_eles_Ok_maps [OF all] named(1)]
    by (simp add: filter_empty_conv del: set_append)
  moreover have "\<not> (isPrimList (vs @ new) \<and> isPrimList ps) \<or> vs @ new = ps"
    using named(1) base_eles_Ok_maps [OF all]
    by (cases "vs @ new"; cases ps) (auto split: if_splits dest!: ele_name_SomeD)
  ultimately show ?thesis using all by (auto simp: veq)
qed

lemma handleValues_idem:
  "patch_wf pv \<Longrightarrow> TypeOf bv = TypeOf pv \<Longrightarrow> merge_handleValues bv pv = Ok v \<Longrightarrow>
   merge_handleValues v pv = Ok v"
proof (induction pv arbitrary: bv v)
  case (GList ps)
  then obtain bs where bs: "bv = GList bs" by (cases bv) auto
  have "Merge m pEle = Ok m" if "GMap pEle \<in> set ps" "Merge b pEle = Ok m" for pEle b m
    using GList.IH [OF that(1) patch_wf_GListD [OF GList.prems(1) that(1)], of "GMap b" "GMap m"] that(2)
    by (simp add: res_simps del: Merge.simps)
  then show ?case using merge_list_idem GList.prems bs by blast
next
  case (GMap p)
  then obtain b where b: "bv = GMap b" by (cases bv) auto
  then obtain m where m: "v = GMap m" "Merge b p = Ok m"
    using GMap.prems(3) by (auto simp: res_simps simp del: Merge.simps)
  have "Merge m p = Ok m"
  proof (rule Merge_idem_step [OF GMap.prems(1) m(2)])
    fix k pv bv v
    assume "(k, pv) \<in> set p" "TypeOf bv = TypeOf pv" "merge_handleValues bv pv = Ok v"
    then show "merge_handleValues v pv = Ok v"
      using GMap.IH [of "(k, pv)" pv bv v] patch_wf_GMapD(2) [OF GMap.prems(1)] by auto
  qed
  then show ?case by (simp add: m(1) del: Merge.simps)
qed (auto simp: handleValues_prim_type is_prim_def)

lemma Merge_idem: "patch_wf (GMap p) \<Longrightarrow> Merge b p = Ok m \<Longrightarrow> Merge m p = Ok m"
  using handleValues_idem [of "GMap p" "GMap b" "GMap m"] by (simp add: res_simps del: Merge.simps)

section \<open>Properties\<close>


text \<open>Configurations that show the properties of this section.\<close>

definition example_base_conf :: "gval gomap" where
  "example_base_conf =
     [(''service'', GMap [(''proto-fd-max'', GInt 15000), (''migrate-fill-delay'', GInt 10)]),
      (''namespaces'', GList [GMap [(''name'', GString ''test''), (''replication-factor'', GInt 2)]])]"

definition example_patch_conf :: "gval gomap" where
  "example_patch_conf =
     [(''service'', GMap [(''migrate-fill-delay'', GInt 30)]),
      (''namespaces'', GList [GMap [(''name'', GString ''test''), (''replication-factor'', GInt 1)],
                              GMap [(''name'', GString ''bar'')]])]"

definition example_merged_conf :: "gval gomap" where
  "example_merged_conf =
     [(''service'', GMap [(''migrate-fill-delay'', GInt 30), (''proto-fd-max'', GInt 15000)]),
      (''namespaces'', GList [GMap [(''name'', GString ''test''), (''replication-factor'', GInt 1)],
                              GMap [(''name'', GString ''bar'')]])]"

lemma example_merge: "Merge example_base_conf example_patch_conf = Ok example_merged_conf"
  by code_simp


text \<open>
  Property C26. Merging a well-formed patch never panics, and once it has succeeded, merging the
  same patch over its own result changes nothing.
\<close>

theorem Merge_idempotent:
  assumes "patch_wf (GMap p)"
  shows "Merge b p \<noteq> Panic \<and> (\<forall>m. Merge b p = Ok m \<longrightarrow> Merge m p = Ok m)"
  using Merge_no_panic [OF assms] Merge_idem [OF assms] by blast

theorem Merge_idempotent_witness:
  "patch_wf (GMap example_patch_conf) \<and> Merge example_merged_conf example_patch_conf = Ok example_merged_conf"
proof -
  have "patch_wf (GMap example_patch_conf)" by code_simp
  with Merge_idempotent example_merge show ?thesis by blast
qed

text \<open>
  Fact. A null value under one key of both the base and the patch reaches the default branch
  of the type switch, and the merge panics.
\<close>

theorem Merge_null_panics: "Merge [(k, GNil)] [(k, GNil)] = Panic"
  by (simp add: gomap_simps isStorageEngineTypeChanged_def)

end
