(* ===== verification/Namespace_Devices.thy ===== *)
theory Namespace_Devices
  imports Rack_Plan Config_Merge "HOL-Library.Char_ord" "HOL-Library.List_Lexorder"
begin

text \<open>
  Devices, files and index mounts that a change of the configuration adds to or removes from the
  namespaces of a rack (\<^verbatim>\<open>getNSAddedDevices\<close>, \<^verbatim>\<open>handleNSOrDeviceRemoval\<close> and
  \<^verbatim>\<open>getVolumeNameFromDevicePath\<close> of \<^verbatim>\<open>internal/controller/cluster/pod.go\<close>). Both compare the rack of
  the specification with the rack of the status namespace by namespace; every type assertion on the
  unstructured configuration is a possible panic.
\<close>

section \<open>Reading a configuration\<close>

text \<open>\<^verbatim>\<open>strings.Fields\<close>: the maximal runs of bytes outside white-space runes.\<close>

function fields_loop :: "string \<Rightarrow> string \<Rightarrow> string list" where
  "fields_loop w s =
     (if s = [] then (if w = [] then [] else [w])
      else if space_rune_len s = 0 then fields_loop (w @ [hd s]) (tl s)
      else (if w = [] then [] else [w]) @ fields_loop [] (drop (space_rune_len s) s))"
  by pat_completeness auto
termination
  by (relation "measure (\<lambda>(w, s). length s)") auto

declare fields_loop.simps [simp del]

definition Fields :: "string \<Rightarrow> string list" where
  "Fields s = fields_loop [] s"

definition ConfKeyIndexType :: string where "ConfKeyIndexType = ''index-type''"
definition ConfKeyMounts :: string where "ConfKeyMounts = ''mounts''"

definition getVolumeNameFromDevicePath :: "VolumeSpec list \<Rightarrow> string \<Rightarrow> string" where
  "getVolumeNameFromDevicePath volumes s =
     (case find (\<lambda>v. case VolAerospike v of None \<Rightarrow> False | Some a \<Rightarrow> AttPath a = s) volumes of
        None \<Rightarrow> [] | Some v \<Rightarrow> VolName v)"

text \<open>The fields of every string of a list of the configuration; a missing list has none.\<close>

fun string_fields :: "gval list \<Rightarrow> (string, string list) res" where
  "string_fields [] = Ok []"
| "string_fields (v # vs) =
     res_bind (must (as_string v)) (\<lambda>s. res_bind (string_fields vs) (\<lambda>rest. Ok (Fields s @ rest)))"

definition conf_fields :: "gval gomap \<Rightarrow> string \<Rightarrow> (string, string list) res" where
  "conf_fields m key =
     (if idx m key = GNil then Ok [] else res_bind (must (as_list (idx m key))) string_fields)"

definition namespaces_of :: "Rack \<Rightarrow> (string, gval list) res" where
  "namespaces_of rack = must (as_list (idx (conf_map (RackAerospikeConfig rack)) ConfKeyNamespace))"

definition storage_of :: "gval gomap \<Rightarrow> (string, gval gomap) res" where
  "storage_of ns = must (as_map (idx ns ConfKeyStorageEngine))"

text \<open>The first namespace of the list with the name of \<open>ns\<close>.\<close>

fun same_namespace :: "gval \<Rightarrow> gval list \<Rightarrow> (string, gval gomap option) res" where
  "same_namespace ns [] = Ok None"
| "same_namespace ns (other # others) =
     res_bind (must (as_map other)) (\<lambda>otherMap.
     res_bind (must (as_map ns)) (\<lambda>nsMap.
     res_bind (iface_eq (idx otherMap ConfKeyName) (idx nsMap ConfKeyName)) (\<lambda>eq.
       if eq then Ok (Some otherMap) else same_namespace ns others)))"

definition status_rack :: "Rack list \<Rightarrow> Rack \<Rightarrow> Rack option" where
  "status_rack racks rack = find (\<lambda>r. RackID r = RackID rack \<and> RackRevision r = RackRevision rack) racks"

section \<open>Added devices\<close>

definition added_in_namespace :: "VolumeSpec list \<Rightarrow> gval list \<Rightarrow> gval \<Rightarrow> (string, string list) res" where
  "added_in_namespace volumes statusNamespaces specNamespace =
     res_bind (same_namespace specNamespace statusNamespaces) (\<lambda>found.
     res_bind (must (as_map specNamespace)) (\<lambda>specNs.
     res_bind (storage_of specNs) (\<lambda>specStorage.
       case found of
         Some statusNs \<Rightarrow>
           res_bind (storage_of statusNs) (\<lambda>statusStorage.
           res_bind (conf_fields specStorage ''devices'') (\<lambda>specDevices.
           res_bind (conf_fields statusStorage ''devices'') (\<lambda>statusDevices.
             Ok (map (getVolumeNameFromDevicePath volumes)
                   (filter (\<lambda>d. d \<notin> set statusDevices) specDevices)))))
       | None \<Rightarrow>
           if idx specStorage ''type'' = GString ''device''
           then res_bind (conf_fields specStorage ''devices'') (\<lambda>specDevices.
                  Ok (map (getVolumeNameFromDevicePath volumes) specDevices))
           else Ok [])))"

fun added_in_namespaces :: "VolumeSpec list \<Rightarrow> gval list \<Rightarrow> gval list \<Rightarrow> (string, string list) res" where
  "added_in_namespaces volumes statusNamespaces [] = Ok []"
| "added_in_namespaces volumes statusNamespaces (ns # nss) =
     res_bind (added_in_namespace volumes statusNamespaces ns) (\<lambda>here.
     res_bind (added_in_namespaces volumes statusNamespaces nss) (\<lambda>rest. Ok (here @ rest)))"

text \<open>
  \<open>newAeroCluster\<close> is the read of the cluster object. The namespaces of the status are only read when
  the specification has one.
\<close>

definition getNSAddedDevices ::
  "(string, AerospikeCluster) res \<Rightarrow> RackState \<Rightarrow> (string, string list) res" where
  "getNSAddedDevices newAeroCluster rackState =
     res_bind newAeroCluster (\<lambda>c.
       case status_rack (StRacks (ClusterStatus c)) (RsRack rackState) of
         None \<Rightarrow> Ok []
       | Some rackStatus \<Rightarrow>
           res_bind (namespaces_of (RsRack rackState)) (\<lambda>specNamespaces.
             if specNamespaces = [] then Ok []
             else res_bind (namespaces_of rackStatus) (\<lambda>statusNamespaces.
               added_in_namespaces (Volumes (RackStorage (RsRack rackState))) statusNamespaces
                 specNamespaces)))"

section \<open>Removed devices and files\<close>

text \<open>\<^verbatim>\<open>sets.List(a.Difference(b))\<close>\<close>

definition set_difference :: "string list \<Rightarrow> string list \<Rightarrow> string list" where
  "set_difference a b = sort (remdups (filter (\<lambda>x. x \<notin> set b) a))"

definition index_mounts :: "gval gomap \<Rightarrow> (string, string list) res" where
  "index_mounts ns =
     (if idx ns ConfKeyIndexType = GNil then Ok []
      else res_bind (must (as_map (idx ns ConfKeyIndexType))) (\<lambda>index. conf_fields index ConfKeyMounts))"

text \<open>The devices, by volume name, and the file patterns that a namespace no longer uses.\<close>

definition removed_from_namespace ::
  "VolumeSpec list \<Rightarrow> gval gomap \<Rightarrow> gval gomap \<Rightarrow> (string, string list \<times> string list) res" where
  "removed_from_namespace volumes specNs statusNs =
     res_bind (storage_of specNs) (\<lambda>specStorage.
     res_bind (storage_of statusNs) (\<lambda>statusStorage.
     res_bind (conf_fields statusStorage ''devices'') (\<lambda>statusDevices.
     res_bind (conf_fields specStorage ''devices'') (\<lambda>specDevices.
     res_bind (conf_fields statusStorage ''files'') (\<lambda>statusFiles.
     res_bind (conf_fields specStorage ''files'') (\<lambda>specFiles.
     res_bind (index_mounts statusNs) (\<lambda>statusMounts.
     res_bind (index_mounts specNs) (\<lambda>specMounts.
       Ok (map (getVolumeNameFromDevicePath volumes) (set_difference statusDevices specDevices),
           set_difference statusFiles specFiles @
           (if list_ex (\<lambda>m. m \<notin> set specMounts) statusMounts
            then map (\<lambda>m. m @ ''/*'') statusMounts else []))))))))))"

text \<open>
  A deleted namespace. The mounts are read from the storage engine, whose type assertion panics when
  the storage engine has no mounts of its own.
\<close>

definition deleted_namespace ::
  "VolumeSpec list \<Rightarrow> gval gomap \<Rightarrow> (string, string list \<times> string list) res" where
  "deleted_namespace volumes statusNs =
     res_bind (storage_of statusNs) (\<lambda>statusStorage.
     res_bind (conf_fields statusStorage ''devices'') (\<lambda>statusDevices.
     res_bind (conf_fields statusStorage ''files'') (\<lambda>statusFiles.
     res_bind
       (if idx statusNs ConfKeyIndexType = GNil then Ok []
        else res_bind (must (as_map (idx statusNs ConfKeyIndexType))) (\<lambda>statusIndex.
          if idx statusIndex ConfKeyMounts = GNil then Ok []
          else res_bind (must (as_list (idx statusStorage ConfKeyMounts))) string_fields))
       (\<lambda>statusMounts.
         Ok (map (getVolumeNameFromDevicePath volumes) statusDevices,
             statusFiles @ map (\<lambda>m. m @ ''/*'') statusMounts)))))"

definition removed_in_namespace ::
  "VolumeSpec list \<Rightarrow> gval list \<Rightarrow> gval \<Rightarrow> (string, string list \<times> string list) res" where
  "removed_in_namespace volumes specNamespaces statusNamespace =
     res_bind (same_namespace statusNamespace specNamespaces) (\<lambda>found.
     res_bind (must (as_map statusNamespace)) (\<lambda>statusNs.
       case found of
         Some specNs \<Rightarrow> removed_from_namespace volumes specNs statusNs
       | None \<Rightarrow> deleted_namespace volumes statusNs))"

fun removed_in_namespaces ::
  "VolumeSpec list \<Rightarrow> gval list \<Rightarrow> gval list \<Rightarrow> (string, string list \<times> string list) res" where
  "removed_in_namespaces volumes specNamespaces [] = Ok ([], [])"
| "removed_in_namespaces volumes specNamespaces (ns # nss) =
     res_bind (removed_in_namespace volumes specNamespaces ns) (\<lambda>(ds, fs).
     res_bind (removed_in_namespaces volumes specNamespaces nss) (\<lambda>(ds', fs'). Ok (ds @ ds', fs @ fs')))"

text \<open>The changed checkpoint path is cleaned too. \<open>None\<close> when the status has no such rack.\<close>

definition removed_devices_and_files ::
  "Rack list \<Rightarrow> Rack \<Rightarrow> (string, (string list \<times> string list) option) res" where
  "removed_devices_and_files statusRacks rack =
     (case status_rack statusRacks rack of
        None \<Rightarrow> Ok None
      | Some rackStatus \<Rightarrow>
          let statusCkptPath = GetIndexCheckpointPath (conf_map (RackAerospikeConfig rackStatus));
              specCkptPath = GetIndexCheckpointPath (conf_map (RackAerospikeConfig rack));
              ckptFiles = (if statusCkptPath \<noteq> [] \<and> statusCkptPath \<noteq> specCkptPath
                           then [statusCkptPath @ ''/*''] else [])
          in res_bind (namespaces_of rackStatus) (\<lambda>statusNamespaces.
             if statusNamespaces = [] then Ok (Some ([], ckptFiles))
             else res_bind (namespaces_of rack) (\<lambda>specNamespaces.
             res_bind (removed_in_namespaces (Volumes (RackStorage rackStatus)) specNamespaces statusNamespaces)
               (\<lambda>(ds, fs). Ok (Some (ds, ckptFiles @ fs))))))"

section \<open>What is removed\<close>

definition ns_name :: "gval \<Rightarrow> string option" where
  "ns_name ns = (case as_map ns of None \<Rightarrow> None | Some m \<Rightarrow> as_string (idx m ConfKeyName))"

definition ok_list :: "(string, string list) res \<Rightarrow> string list" where
  "ok_list r = (case r of Ok xs \<Rightarrow> xs | _ \<Rightarrow> [])"

definition ns_fields :: "string \<Rightarrow> gval \<Rightarrow> string list" where
  "ns_fields key ns =
     ok_list (res_bind (must (as_map ns)) (\<lambda>m. res_bind (storage_of m) (\<lambda>st. conf_fields st key)))"

definition ns_mounts :: "gval \<Rightarrow> string list" where
  "ns_mounts ns = ok_list (res_bind (must (as_map ns)) index_mounts)"

definition named :: "(gval \<Rightarrow> string list) \<Rightarrow> gval list \<Rightarrow> string option \<Rightarrow> string list" where
  "named f nss n = (case find (\<lambda>ns. ns_name ns = n) nss of None \<Rightarrow> [] | Some ns \<Rightarrow> f ns)"

text \<open>A namespace section the operator can read: a name, a storage engine and lists of strings.\<close>

definition ns_wf :: "gval \<Rightarrow> bool" where
  "ns_wf ns \<longleftrightarrow>
     (case as_map ns of
        None \<Rightarrow> False
      | Some m \<Rightarrow> as_string (idx m ConfKeyName) \<noteq> None \<and> is_ok (index_mounts m) \<and>
          (case storage_of m of
             Ok st \<Rightarrow> is_ok (conf_fields st ''devices'') \<and> is_ok (conf_fields st ''files'')
           | _ \<Rightarrow> False))"

text \<open>The namespace lists mounts for its index.\<close>

definition has_mounts :: "gval \<Rightarrow> bool" where
  "has_mounts ns \<longleftrightarrow>
     (case as_map ns of
        None \<Rightarrow> False
      | Some m \<Rightarrow> (case as_map (idx m ConfKeyIndexType) of
                     None \<Rightarrow> False | Some i \<Rightarrow> idx i ConfKeyMounts \<noteq> GNil))"

lemma as_map_Some [simp]: "as_map v = Some m \<longleftrightarrow> v = GMap m"
  by (cases v) auto

lemma as_string_Some [simp]: "as_string v = Some s \<longleftrightarrow> v = GString s"
  by (cases v) auto

lemma ns_wfE:
  assumes "ns_wf ns"
  obtains m n st where "ns = GMap m" "idx m ConfKeyName = GString n" "ns_name ns = Some n"
    "storage_of m = Ok st" "conf_fields st ''devices'' = Ok (ns_fields ''devices'' ns)"
    "conf_fields st ''files'' = Ok (ns_fields ''files'' ns)" "index_mounts m = Ok (ns_mounts ns)"
  using assms
  by (auto simp: ns_wf_def ns_name_def ns_fields_def ns_mounts_def ok_list_def is_ok_iff
        split: option.splits res.splits)

lemma same_namespace_find:
  assumes "ns_wf ns" and "list_all ns_wf others"
  shows "same_namespace ns others =
    Ok (case find (\<lambda>other. ns_name other = ns_name ns) others of None \<Rightarrow> None | Some other \<Rightarrow> as_map other)"
  using assms(2)
proof (induction others)
  case (Cons other others)
  from assms(1) obtain m n where "ns = GMap m" "idx m ConfKeyName = GString n" "ns_name ns = Some n"
    by (elim ns_wfE)
  moreover from Cons.prems obtain m' n' where "other = GMap m'" "idx m' ConfKeyName = GString n'"
    "ns_name other = Some n'"
    by (auto elim: ns_wfE)
  ultimately show ?case using Cons by (auto simp: iface_eq_def)
qed simp

definition removed_here :: "(gval \<Rightarrow> string list) \<Rightarrow> gval list \<Rightarrow> gval \<Rightarrow> string set" where
  "removed_here f nss ns = set (f ns) - set (named f nss (ns_name ns))"

lemma removed_in_namespace_exact:
  assumes "ns_wf ns" and "list_all ns_wf nss"
    and "has_mounts ns \<Longrightarrow> \<exists>p\<in>set nss. ns_name p = ns_name ns"
  shows "\<exists>ds fs. removed_in_namespace volumes nss ns = Ok (ds, fs) \<and>
    set ds = getVolumeNameFromDevicePath volumes ` removed_here (ns_fields ''devices'') nss ns \<and>
    set fs = removed_here (ns_fields ''files'') nss ns \<union>
      (if removed_here ns_mounts nss ns = {} then {} else (\<lambda>m. m @ ''/*'') ` set (ns_mounts ns))"
proof -
  from assms(1) obtain m n st where ns: "ns = GMap m" "ns_name ns = Some n" "storage_of m = Ok st"
    "conf_fields st ''devices'' = Ok (ns_fields ''devices'' ns)"
    "conf_fields st ''files'' = Ok (ns_fields ''files'' ns)" "index_mounts m = Ok (ns_mounts ns)"
    by (elim ns_wfE)
  show ?thesis
  proof (cases "find (\<lambda>other. ns_name other = ns_name ns) nss")
    case None
    then have "\<not> has_mounts ns" using assms(3) by (auto simp: find_None_iff)
    with ns have "idx m ConfKeyIndexType = GNil \<or>
        (\<exists>i. idx m ConfKeyIndexType = GMap i \<and> idx i ConfKeyMounts = GNil)"
      by (auto simp: has_mounts_def index_mounts_def res_simps split: option.splits if_splits)
    then have "ns_mounts ns = []" "deleted_namespace volumes m =
        Ok (map (getVolumeNameFromDevicePath volumes) (ns_fields ''devices'' ns), ns_fields ''files'' ns)"
      using ns by (auto simp: deleted_namespace_def index_mounts_def conf_fields_def)
    with None ns assms(1,2) show ?thesis
      by (auto simp: removed_in_namespace_def same_namespace_find removed_here_def named_def)
  next
    case (Some p)
    with assms(2) have "ns_wf p" by (auto simp: find_Some_iff list_all_iff)
    then obtain m' st' where p: "p = GMap m'" "storage_of m' = Ok st'"
      "conf_fields st' ''devices'' = Ok (ns_fields ''devices'' p)"
      "conf_fields st' ''files'' = Ok (ns_fields ''files'' p)" "index_mounts m' = Ok (ns_mounts p)"
      by (elim ns_wfE)
    have "removed_in_namespace volumes nss ns = removed_from_namespace volumes m' m"
      using Some ns p assms(1,2) by (simp add: removed_in_namespace_def same_namespace_find)
    with Some ns p show ?thesis
      by (auto simp: removed_from_namespace_def removed_here_def named_def set_difference_def list_ex_iff)
  qed
qed

lemma removed_in_namespaces_exact:
  assumes "list_all ns_wf nss" and "list_all ns_wf stn"
    and "\<And>ns. ns \<in> set stn \<Longrightarrow> has_mounts ns \<Longrightarrow> \<exists>p\<in>set nss. ns_name p = ns_name ns"
  shows "\<exists>ds fs. removed_in_namespaces volumes nss stn = Ok (ds, fs) \<and>
    set ds = (\<Union>ns\<in>set stn. getVolumeNameFromDevicePath volumes ` removed_here (ns_fields ''devices'') nss ns) \<and>
    set fs = (\<Union>ns\<in>set stn. removed_here (ns_fields ''files'') nss ns \<union>
      (if removed_here ns_mounts nss ns = {} then {} else (\<lambda>m. m @ ''/*'') ` set (ns_mounts ns)))"
  using assms(2,3)
proof (induction stn)
  case (Cons ns stn)
  then obtain ds fs where "removed_in_namespaces volumes nss stn = Ok (ds, fs)"
    "set ds = (\<Union>ns\<in>set stn. getVolumeNameFromDevicePath volumes ` removed_here (ns_fields ''devices'') nss ns)"
    "set fs = (\<Union>ns\<in>set stn. removed_here (ns_fields ''files'') nss ns \<union>
      (if removed_here ns_mounts nss ns = {} then {} else (\<lambda>m. m @ ''/*'') ` set (ns_mounts ns)))"
    by fastforce
  moreover obtain ds' fs' where "removed_in_namespace volumes nss ns = Ok (ds', fs')"
    "set ds' = getVolumeNameFromDevicePath volumes ` removed_here (ns_fields ''devices'') nss ns"
    "set fs' = removed_here (ns_fields ''files'') nss ns \<union>
      (if removed_here ns_mounts nss ns = {} then {} else (\<lambda>m. m @ ''/*'') ` set (ns_mounts ns))"
    using removed_in_namespace_exact [of ns nss volumes] Cons.prems assms(1) by auto
  ultimately show ?case by simp
qed simp

definition ckpt_files :: "Rack \<Rightarrow> Rack \<Rightarrow> string set" where
  "ckpt_files rackStatus rack =
     (let old = GetIndexCheckpointPath (conf_map (RackAerospikeConfig rackStatus)) in
      if old \<noteq> [] \<and> old \<noteq> GetIndexCheckpointPath (conf_map (RackAerospikeConfig rack))
      then {old @ ''/*''} else {})"

text \<open>
  Property C38. When every namespace section is readable and every namespace with index mounts is
  kept, the devices reported as removed are the volumes of exactly the devices that a namespace of the
  status lists and the namespace of the same name in the specification (if any) does not; the files to
  delete are exactly the files no longer listed, all index mounts of a namespace that lost one of them,
  and the old checkpoint directory if it moved. Nothing panics.
\<close>

theorem removed_devices_and_files_exact:
  assumes "status_rack racks rack = Some rackStatus"
    and "namespaces_of rackStatus = Ok stn" and "namespaces_of rack = Ok nss"
    and "list_all ns_wf stn" and "list_all ns_wf nss"
    and "\<forall>ns\<in>set stn. has_mounts ns \<longrightarrow> (\<exists>p\<in>set nss. ns_name p = ns_name ns)"
  shows "\<exists>ds fs. removed_devices_and_files racks rack = Ok (Some (ds, fs)) \<and>
    set ds = (\<Union>ns\<in>set stn. getVolumeNameFromDevicePath (Volumes (RackStorage rackStatus)) `
      removed_here (ns_fields ''devices'') nss ns) \<and>
    set fs = ckpt_files rackStatus rack \<union> (\<Union>ns\<in>set stn. removed_here (ns_fields ''files'') nss ns \<union>
      (if removed_here ns_mounts nss ns = {} then {} else (\<lambda>m. m @ ''/*'') ` set (ns_mounts ns)))"
proof -
  obtain ds fs where "removed_in_namespaces (Volumes (RackStorage rackStatus)) nss stn = Ok (ds, fs)"
    "set ds = (\<Union>ns\<in>set stn. getVolumeNameFromDevicePath (Volumes (RackStorage rackStatus)) `
      removed_here (ns_fields ''devices'') nss ns)"
    "set fs = (\<Union>ns\<in>set stn. removed_here (ns_fields ''files'') nss ns \<union>
      (if removed_here ns_mounts nss ns = {} then {} else (\<lambda>m. m @ ''/*'') ` set (ns_mounts ns)))"
    using removed_in_namespaces_exact [of nss stn "Volumes (RackStorage rackStatus)"] assms by auto
  moreover have "set (if old \<noteq> [] \<and> old \<noteq> new then [old @ ''/*''] else []) =
      (if old \<noteq> [] \<and> old \<noteq> new then {old @ ''/*''} else {})" for old new :: string
    by simp
  ultimately show ?thesis
    using assms(1-3) by (auto simp: removed_devices_and_files_def ckpt_files_def Let_def)
qed

definition example_ns :: "string \<Rightarrow> string list \<Rightarrow> gval" where
  "example_ns n devices =
     GMap [(ConfKeyName, GString n),
           (ConfKeyStorageEngine, GMap [(''type'', GString ''device''), (''devices'', GList (map GString devices))])]"

definition example_rack :: "gval list \<Rightarrow> Rack" where
  "example_rack nss =
     \<lparr>RackID = 1, RackRevision = [], RackAerospikeConfig = \<lparr>Value = Some [(ConfKeyNamespace, GList nss)]\<rparr>,
      RackStorage = no_storage, RackForceBlockFromRoster = None,
        RackZone = [], RackRegion = [], RackRackLabel = [], RackNodeName = [], RackInputAerospikeConfig = None,
        RackInputStorage = None, RackInputPodSpec = None, RackPodSpec = no_scheduling\<rparr>"

theorem removed_devices_and_files_witness:
  "\<exists>ds fs. removed_devices_and_files [example_rack [example_ns ''a'' [''/d1 /d2'']]]
       (example_rack [example_ns ''a'' [''/d2'']]) = Ok (Some (ds, fs)) \<and> set ds = {[]} \<and> set fs = {}"
proof -
  let ?st = "example_rack [example_ns ''a'' [''/d1 /d2'']]" and ?sp = "example_rack [example_ns ''a'' [''/d2'']]"
  let ?stn = "[example_ns ''a'' [''/d1 /d2'']]" and ?nss = "[example_ns ''a'' [''/d2'']]"
  have st: "status_rack [?st] ?sp = Some ?st"
    by code_simp
  have n: "namespaces_of ?st = Ok ?stn" "namespaces_of ?sp = Ok ?nss"
    by code_simp+
  have wf: "list_all ns_wf ?stn" "list_all ns_wf ?nss" by code_simp+
  have m: "\<forall>ns\<in>set ?stn. has_mounts ns \<longrightarrow> (\<exists>p\<in>set ?nss. ns_name p = ns_name ns)" by code_simp
  have "removed_here (ns_fields ''devices'') ?nss (hd ?stn) = {''/d1''}"
    "removed_here (ns_fields ''files'') ?nss (hd ?stn) = {}"
    "removed_here ns_mounts ?nss (hd ?stn) = {}"
    by code_simp+
  moreover have "ckpt_files ?st ?sp = {}" "getVolumeNameFromDevicePath (Volumes (RackStorage ?st)) ''/d1'' = []"
    by code_simp+
  ultimately show ?thesis
    using removed_devices_and_files_exact [OF st n wf m] by simp
qed

lemma res_bind_Err_iff: "res_bind m f = Err e \<longleftrightarrow> m = Err e \<or> (\<exists>a. m = Ok a \<and> f a = Err e)"
  by (cases m) auto

lemma must_no_Err [simp]: "must x \<noteq> Err e"
  by (cases x) auto

lemma string_fields_no_Err [simp]: "string_fields vs \<noteq> Err e"
  by (induction vs) (auto simp: res_bind_Err_iff)

lemma same_namespace_no_Err [simp]: "same_namespace ns nss \<noteq> Err e"
  by (induction nss) (auto simp: res_bind_Err_iff iface_eq_def)

lemma removed_in_namespace_no_Err [simp]: "removed_in_namespace volumes nss ns \<noteq> Err e"
  by (auto simp: removed_in_namespace_def removed_from_namespace_def deleted_namespace_def storage_of_def
        index_mounts_def conf_fields_def res_bind_Err_iff split: option.splits if_splits)

lemma removed_in_namespaces_Panic:
  "ns \<in> set stn \<Longrightarrow> removed_in_namespace volumes nss ns = Panic \<Longrightarrow>
   removed_in_namespaces volumes nss stn = Panic"
proof (induction stn)
  case (Cons n stn)
  then show ?case by (cases "removed_in_namespace volumes nss n") (auto split: prod.splits)
qed simp

text \<open>
  Fact. Deleting a namespace whose index is kept on mounts panics: the mounts are asserted to be a
  list of the storage engine, which does not hold them, instead of the index section that does.
\<close>

theorem deleted_namespace_with_index_mounts_panics:
  assumes "status_rack racks rack = Some rackStatus"
    and "namespaces_of rackStatus = Ok stn" and "namespaces_of rack = Ok nss"
    and "list_all ns_wf nss" and "ns \<in> set stn" and "ns_wf ns" and "has_mounts ns"
    and "\<forall>p\<in>set nss. ns_name p \<noteq> ns_name ns"
    and "as_map ns = Some m" and "storage_of m = Ok st" and "idx st ConfKeyMounts = GNil"
  shows "removed_devices_and_files racks rack = Panic"
proof -
  have none: "find (\<lambda>p. ns_name p = ns_name ns) nss = None" using assms(8) by (simp add: find_None_iff)
  from assms(7,9) obtain i where "idx m ConfKeyIndexType = GMap i" "idx i ConfKeyMounts \<noteq> GNil"
    by (auto simp: has_mounts_def split: option.splits)
  moreover have "conf_fields st ''devices'' = Ok (ns_fields ''devices'' ns)"
    "conf_fields st ''files'' = Ok (ns_fields ''files'' ns)"
    using assms(6,9,10) by (auto elim: ns_wfE)
  ultimately have "deleted_namespace volumes m = Panic" for volumes
    using assms(10,11) by (simp add: deleted_namespace_def)
  then have "removed_in_namespace volumes nss ns = Panic" for volumes
    using assms(4,6,9) none by (simp add: removed_in_namespace_def same_namespace_find)
  with removed_in_namespaces_Panic [OF assms(5)] assms(1-3,5) show ?thesis
    by (auto simp: removed_devices_and_files_def Let_def)
qed

definition flash_ns :: gval where
  "flash_ns = GMap [(ConfKeyName, GString ''f''),
     (ConfKeyIndexType, GMap [(''type'', GString ''flash''), (ConfKeyMounts, GList [GString ''/m''])]),
     (ConfKeyStorageEngine, GMap [(''type'', GString ''memory'')])]"

theorem deleted_namespace_panic_witness:
  "removed_devices_and_files [example_rack [example_ns ''a'' [], flash_ns]] (example_rack [example_ns ''a'' []]) =
     Panic"
proof (rule deleted_namespace_with_index_mounts_panics)
  show "status_rack [example_rack [example_ns ''a'' [], flash_ns]] (example_rack [example_ns ''a'' []]) =
      Some (example_rack [example_ns ''a'' [], flash_ns])" by code_simp
  show "namespaces_of (example_rack [example_ns ''a'' [], flash_ns]) = Ok [example_ns ''a'' [], flash_ns]"
    "namespaces_of (example_rack [example_ns ''a'' []]) = Ok [example_ns ''a'' []]"
    by code_simp+
  show "list_all ns_wf [example_ns ''a'' []]" "ns_wf flash_ns" "has_mounts flash_ns"
    "\<forall>p\<in>set [example_ns ''a'' []]. ns_name p \<noteq> ns_name flash_ns" by code_simp+
  show "flash_ns \<in> set [example_ns ''a'' [], flash_ns]" by simp
  show "as_map flash_ns = Some [(ConfKeyName, GString ''f''),
     (ConfKeyIndexType, GMap [(''type'', GString ''flash''), (ConfKeyMounts, GList [GString ''/m''])]),
     (ConfKeyStorageEngine, GMap [(''type'', GString ''memory'')])]" by (simp add: flash_ns_def)
  show "storage_of [(ConfKeyName, GString ''f''),
     (ConfKeyIndexType, GMap [(''type'', GString ''flash''), (ConfKeyMounts, GList [GString ''/m''])]),
     (ConfKeyStorageEngine, GMap [(''type'', GString ''memory'')])] = Ok [(''type'', GString ''memory'')]"
    "idx [(''type'', GString ''memory'')] ConfKeyMounts = GNil" by code_simp+
qed

end
