(* ===== verification/Restart_Map.thy ===== *)
theory Restart_Map
  imports Restart_Type Namespace_Devices
begin

text \<open>
  The restart type of every pod of a rack (\<^verbatim>\<open>getRollingRestartTypeMap\<close> with \<^verbatim>\<open>getConfDiff\<close> and
  \<^verbatim>\<open>isAllDynamicConfig\<close>), the migrate-fill-delay of a batch (\<^verbatim>\<open>mfdDelayForRestart\<close>) and whether a pod's
  local volumes are dropped with it (\<^verbatim>\<open>isLocalPVCDeletionRequired\<close>), all of
  \<^verbatim>\<open>internal/controller/cluster/pod.go\<close>. The configuration parser of the management library is a record
  of functions.
\<close>

section \<open>Differences of configurations\<close>

text \<open>
  The management library: \<open>FlatConf\<close> parses a configuration file and flattens it, \<open>ConfFile\<close> prints a
  structured configuration, \<open>LibConfDiff\<close> compares two flat ones, \<open>LibIsAllDynamicConfig\<close> says whether a
  difference can be applied to a running server.
\<close>

record ('conf, 'd) asconfig =
  FlatConf :: "string \<Rightarrow> string + 'conf"
  ConfFile :: "gval gomap \<Rightarrow> string + string"
  LibConfDiff :: "'conf \<Rightarrow> 'conf \<Rightarrow> string \<Rightarrow> string + 'd gomap"
  LibIsAllDynamicConfig :: "'d gomap \<Rightarrow> string \<Rightarrow> string + bool"

definition AerospikeConfAnnotation :: string where "AerospikeConfAnnotation = ''aerospikeConf''"

definition getConfDiff ::
  "('conf, 'd) asconfig \<Rightarrow> gval gomap \<Rightarrow> string gomap \<Rightarrow> string \<Rightarrow> (restart_error, 'd gomap) res" where
  "getConfDiff lib specConfig podAnnotations version =
     (case gomap_get podAnnotations AerospikeConfAnnotation of
        None \<Rightarrow> Ok []
      | Some statusFromAnnotation \<Rightarrow>
          (case FlatConf lib statusFromAnnotation of
             Inl e \<Rightarrow> Err (RtConfDiff e)
           | Inr asConfStatus \<Rightarrow>
               (case ConfFile lib specConfig of
                  Inl e \<Rightarrow> Err (RtConfDiff e)
                | Inr specConfFile \<Rightarrow>
                    let specConfFile1 = ReplaceAll specConfFile ''$${_DNE}{un}'' ''${un}'';
                        specConfFile2 = ReplaceAll specConfFile1 ''$${_DNE}{dn}'' ''${dn}''
                    in (case FlatConf lib specConfFile2 of
                          Inl e \<Rightarrow> Err (RtConfDiff e)
                        | Inr asConfSpec \<Rightarrow>
                            (case LibConfDiff lib asConfSpec asConfStatus version of
                               Inl e \<Rightarrow> Ok [] | Inr delta \<Rightarrow> Ok delta)))))"

definition isAllDynamicConfig :: "('conf, 'd) asconfig \<Rightarrow> 'd gomap \<Rightarrow> string \<Rightarrow> bool" where
  "isAllDynamicConfig lib specToStatusDiffs version =
     (case LibIsAllDynamicConfig lib specToStatusDiffs version of Inl e \<Rightarrow> False | Inr isDynamic \<Rightarrow> isDynamic)"

section \<open>The restart types of a rack\<close>

text \<open>What the loop over the pods reads.\<close>

record ('conf, 'd) restart_env =
  EnvLib :: "('conf, 'd) asconfig"
  EnvCompareVersions :: "string \<Rightarrow> string \<Rightarrow> string + int"
  EnvServerPorts :: "(restart_error, ContainerPort list option) res"
  EnvStorageUpdated :: "Pod \<Rightarrow> bool"
  EnvNewCluster :: "(string, AerospikeCluster) res"
  EnvQuick :: "string list"
  EnvCold :: "string list"

record 'd restart_state =
  RestartTypeMap :: "RestartType gomap"
  DynamicConfDiffPerPod :: "'d gomap gomap"
  AddedNSDevices :: "string list"

definition restart_type_of :: "RestartType gomap \<Rightarrow> string \<Rightarrow> RestartType" where
  "restart_type_of m name = (case gomap_get m name of None \<Rightarrow> noRestart | Some t \<Rightarrow> t)"

definition data_size_changed :: "'d gomap \<Rightarrow> bool" where
  "data_size_changed delta = list_ex (\<lambda>(key, d). HasSuffix key ''.storage-engine.data-size'') delta"

definition without_rack_ids :: "bool \<Rightarrow> 'd gomap \<Rightarrow> 'd gomap" where
  "without_rack_ids enableRackIDOverride delta =
     (if enableRackIDOverride then filter (\<lambda>(key, d). \<not> HasSuffix key ''.rack-id'') delta else delta)"

text \<open>
  A pod whose configuration differs. \<open>Inl\<close> when a change of an in-memory data size settles the pod
  before its other reasons are looked at; the added devices are read once one pod needs them.
\<close>

definition conf_changed ::
  "('conf, 'd) restart_env \<Rightarrow> AerospikeCluster \<Rightarrow> RackState \<Rightarrow> Pod \<Rightarrow> 'd restart_state \<Rightarrow>
   (restart_error, 'd restart_state + 'd restart_state) res" where
  "conf_changed env c rackState pod s =
     res_bind (must (getContainer (PodContainers pod) AerospikeServerContainerName)) (\<lambda>serverContainer.
     res_bind (res_map_err RtImage (GetImageVersion (KcImage serverContainer))) (\<lambda>version.
     res_bind (getConfDiff (EnvLib env) (conf_map (RackAerospikeConfig (RsRack rackState)))
                 (PodAnnotations pod) version) (\<lambda>specToStatusDiffs.
       if data_size_changed specToStatusDiffs
       then Ok (Inl (s\<lparr>RestartTypeMap := gomap_put (PodName pod)
                        (mergeRestartType (restart_type_of (RestartTypeMap s) (PodName pod)) podRestart)
                        (RestartTypeMap s)\<rparr>))
       else
         let delta = without_rack_ids (GetBool (SpecEnableRackIDOverride (ClusterSpec c))) specToStatusDiffs;
             s1 = (if specToStatusDiffs \<noteq> [] \<and> GetBool (SpecEnableDynamicConfigUpdate (ClusterSpec c)) \<and>
                      PsDynamicConfigUpdateStatus (pod_status c (PodName pod)) \<noteq> PartiallyFailed \<and>
                      isAllDynamicConfig (EnvLib env) delta version
                   then s\<lparr>DynamicConfDiffPerPod := gomap_put (PodName pod) delta (DynamicConfDiffPerPod s)\<rparr>
                   else s)
         in if AddedNSDevices s1 = []
            then res_bind (res_map_err RtAddedDevices (getNSAddedDevices (EnvNewCluster env) rackState))
                   (\<lambda>added. Ok (Inr (s1\<lparr>AddedNSDevices := added\<rparr>)))
            else Ok (Inr s1))))"

definition dynamic_only :: "'d restart_state \<Rightarrow> string \<Rightarrow> bool" where
  "dynamic_only s name =
     (case gomap_get (DynamicConfDiffPerPod s) name of None \<Rightarrow> False | Some delta \<Rightarrow> delta \<noteq> [])"

definition settle_pod ::
  "('conf, 'd) restart_env \<Rightarrow> AerospikeCluster \<Rightarrow> conf_hashes \<Rightarrow> string list \<Rightarrow> Pod \<Rightarrow> 'd restart_state \<Rightarrow>
   (restart_error, 'd restart_state) res" where
  "settle_pod env c confMap serverFailedPodNames pod s =
     res_bind (getRollingRestartTypePod (EnvCompareVersions env) (EnvServerPorts env) (EnvStorageUpdated env) c
                 pod confMap (AddedNSDevices s) (dynamic_only s (PodName pod)) (EnvQuick env) (EnvCold env))
       (\<lambda>restartType.
         let restartType' = (if restartType \<noteq> noRestart \<and> PodName pod \<in> set serverFailedPodNames
                             then podRestart else restartType)
         in Ok (s\<lparr>RestartTypeMap := gomap_put (PodName pod) restartType' (RestartTypeMap s)\<rparr>))"

definition restart_type_step ::
  "('conf, 'd) restart_env \<Rightarrow> AerospikeCluster \<Rightarrow> RackState \<Rightarrow> conf_hashes \<Rightarrow> string list \<Rightarrow> string list \<Rightarrow>
   Pod \<Rightarrow> 'd restart_state \<Rightarrow> (restart_error, 'd restart_state) res" where
  "restart_type_step env c rackState confMap ignorablePodNames serverFailedPodNames pod s =
     (if PodName pod \<in> set ignorablePodNames then Ok s
      else if PodNodeName pod \<in> set (SpecK8sNodeBlockList (ClusterSpec c))
      then Ok (s\<lparr>RestartTypeMap := gomap_put (PodName pod) podRestart (RestartTypeMap s)\<rparr>)
      else if PsAerospikeConfigHash (pod_status c (PodName pod)) \<noteq> HAerospikeConf confMap
      then res_bind (conf_changed env c rackState pod s) (\<lambda>r.
             case r of Inl s1 \<Rightarrow> Ok s1
                     | Inr s1 \<Rightarrow> settle_pod env c confMap serverFailedPodNames pod s1)
      else settle_pod env c confMap serverFailedPodNames pod s)"

fun restart_type_loop ::
  "('conf, 'd) restart_env \<Rightarrow> AerospikeCluster \<Rightarrow> RackState \<Rightarrow> conf_hashes \<Rightarrow> string list \<Rightarrow> string list \<Rightarrow>
   Pod list \<Rightarrow> 'd restart_state \<Rightarrow> (restart_error, 'd restart_state) res" where
  "restart_type_loop env c rackState confMap ignorable failed [] s = Ok s"
| "restart_type_loop env c rackState confMap ignorable failed (pod # pods) s =
     res_bind (restart_type_step env c rackState confMap ignorable failed pod s)
       (restart_type_loop env c rackState confMap ignorable failed pods)"

text \<open>\<open>pods\<close> and \<open>confMap\<close> are the reads of the rack's pods and ConfigMap, \<open>clusterPods\<close> of all pods.\<close>

definition getRollingRestartTypeMap ::
  "('conf, 'd) restart_env \<Rightarrow> AerospikeCluster \<Rightarrow> RackState \<Rightarrow> (rack_error, Pod list) res \<Rightarrow>
   (restart_error, conf_hashes) res \<Rightarrow> (rack_error, Pod list) res \<Rightarrow> string list \<Rightarrow> string list \<Rightarrow>
   (restart_error, RestartType gomap \<times> 'd gomap gomap) res" where
  "getRollingRestartTypeMap env c rackState pods confMap clusterPods ignorablePodNames serverFailedPodNames =
     res_bind (res_map_err RtRack pods) (\<lambda>ps.
     res_bind confMap (\<lambda>cm.
     res_bind (res_map_err RtRack (podsToRestart c clusterPods)) (\<lambda>(quick, cold).
     res_bind (restart_type_loop (env\<lparr>EnvQuick := quick, EnvCold := cold\<rparr>) c rackState cm ignorablePodNames
                 serverFailedPodNames ps
                 \<lparr>RestartTypeMap = [], DynamicConfDiffPerPod = [], AddedNSDevices = []\<rparr>) (\<lambda>s.
       Ok (RestartTypeMap s, DynamicConfDiffPerPod s)))))"

section \<open>The migrate-fill-delay of a batch\<close>

definition GetOverrideMigrateFillDelay :: "AerospikeClusterSpec \<Rightarrow> uint32" where
  "GetOverrideMigrateFillDelay spec =
     (case SpecOverrideMigrateFillDelay spec of None \<Rightarrow> 0 | Some d \<Rightarrow> d)"

text \<open>\<open>None\<close> is the nil map of the upgrade path, where every pod is restarted in full.\<close>

definition mfdDelayForRestart ::
  "AerospikeCluster \<Rightarrow> RackState \<Rightarrow> Pod list \<Rightarrow> RestartType gomap option \<Rightarrow> (conf_error, uint32 \<times> bool) res" where
  "mfdDelayForRestart c rackState batch restartTypeMap =
     (let podRestartNeeded =
            (case restartTypeMap of
               None \<Rightarrow> True
             | Some m \<Rightarrow> list_ex (\<lambda>p. restart_type_of m (PodName p) = podRestart) batch);
          override = GetOverrideMigrateFillDelay (ClusterSpec c)
      in if podRestartNeeded \<and> override > 0 then Ok (override, True)
         else res_bind (GetMigrateFillDelay (Some (RackAerospikeConfig (RsRack rackState)))) (\<lambda>configMFD.
           let delay = of_int configMFD; storage = RackStorage (RsRack rackState) in
           if \<not> podRestartNeeded then Ok (delay, False)
           else if GetBool (DeleteLocalStorageOnRestart storage) \<and>
             list_ex (\<lambda>v. case SrcPersistentVolume (VolSource v) of
                            None \<Rightarrow> False
                          | Some pv \<Rightarrow> PvStorageClass pv \<in> set (LocalStorageClasses storage)) (Volumes storage)
           then Ok (delay, True)
           else Ok (delay, False)))"

definition podsWithRestartType :: "Pod list \<Rightarrow> RestartType gomap \<Rightarrow> RestartType \<Rightarrow> Pod list" where
  "podsWithRestartType pods restartTypeMap restartType =
     filter (\<lambda>p. restart_type_of restartTypeMap (PodName p) = restartType) pods"

section \<open>Local volumes\<close>

definition isLocalPVCDeletionRequired :: "AerospikeCluster \<Rightarrow> RackState \<Rightarrow> Pod \<Rightarrow> bool \<Rightarrow> bool" where
  "isLocalPVCDeletionRequired c rackState pod isFailureRecovery =
     (if isFailureRecovery then GetBool (DeleteLocalStorageOnPodRecovery (RackStorage (RsRack rackState)))
      else if gomap_get (PodAnnotations pod) EvictionBlockedAnnotation \<noteq> None then True
      else if ContainsString (SpecK8sNodeBlockList (ClusterSpec c)) (PodNodeName pod) then True
      else if GetBool (DeleteLocalStorageOnRestart (RackStorage (RsRack rackState))) then True
      else False)"

section \<open>What the map promises\<close>

lemma worst_mem: "worst A = t \<Longrightarrow> t \<noteq> noRestart \<Longrightarrow> t \<in> A"
  using Max_in [of "insert noRestart A"] by (auto simp: worst_def)

lemma override_not_dynamic: "rack_id_override_restart cv c s \<noteq> Ok noRestartUpdateConf"
  by (auto simp: rack_id_override_restart_def res_simps split: sum.splits if_splits)

lemma dynamic_restart_type:
  assumes "getRollingRestartTypePod cv ports su c pod cm added dyn quick cold = Ok noRestartUpdateConf"
  shows "dyn"
proof -
  from assms obtain pu ot where ot: "rack_id_override_restart cv c (pod_status c (PodName pod)) = Ok ot"
    and "noRestartUpdateConf \<in> restart_reasons pu ot su c pod cm added dyn quick cold"
    by (auto simp: getRollingRestartTypePod_worst res_simps split: if_splits dest!: worst_mem)
  moreover from ot override_not_dynamic have "ot \<noteq> noRestartUpdateConf" by metis
  ultimately show ?thesis
    by (auto simp: restart_reasons_def Let_def because_def onDemandOperationType_def conf_change_restart_def
          handleNSOrDeviceAddition_def split: if_splits)
qed

lemma worst_ge: "t \<in> A \<Longrightarrow> t \<le> worst A"
  by (simp add: worst_def)

lemma demanded_restart_type:
  assumes "getRollingRestartTypePod cv ports su c pod cm added dyn quick cold = Ok t"
    and "\<not> IsStatusEmpty c" "PodName pod \<in> set cold" "PodName pod \<notin> set quick"
  shows "t = podRestart"
proof -
  from assms obtain pu ot where t: "t = worst (restart_reasons pu ot su c pod cm added dyn quick cold)"
    by (auto simp: getRollingRestartTypePod_worst res_simps)
  have "podRestart \<in> restart_reasons pu ot su c pod cm added dyn quick cold"
    using assms(3,4) by (simp add: restart_reasons_def Let_def onDemandOperationType_def)
  with t show ?thesis by (metis worst_ge antisym podRestart_greatest)
qed

text \<open>What the restart type \<open>t\<close> of a pod promises, given the dynamic differences of its state.\<close>

definition restart_type_sound ::
  "('conf, 'd) restart_env \<Rightarrow> AerospikeCluster \<Rightarrow> string list \<Rightarrow> 'd restart_state \<Rightarrow> Pod \<Rightarrow> RestartType \<Rightarrow>
   bool" where
  "restart_type_sound env c failed s pod t \<longleftrightarrow>
     (PodNodeName pod \<in> set (SpecK8sNodeBlockList (ClusterSpec c)) \<longrightarrow> t = podRestart) \<and>
     (PodName pod \<in> set failed \<longrightarrow> t = noRestart \<or> t = podRestart) \<and>
     (t = noRestartUpdateConf \<longrightarrow> dynamic_only s (PodName pod)) \<and>
     (\<not> IsStatusEmpty c \<and> PodName pod \<in> set (EnvCold env) \<and> PodName pod \<notin> set (EnvQuick env) \<longrightarrow>
        t = podRestart)"

definition same_elsewhere :: "string \<Rightarrow> 'd restart_state \<Rightarrow> 'd restart_state \<Rightarrow> bool" where
  "same_elsewhere name s s' \<longleftrightarrow> (\<forall>n. n \<noteq> name \<longrightarrow>
     gomap_get (RestartTypeMap s') n = gomap_get (RestartTypeMap s) n \<and>
     gomap_get (DynamicConfDiffPerPod s') n = gomap_get (DynamicConfDiffPerPod s) n)"

lemma settle_pod_sound:
  assumes "settle_pod env c cm failed pod s = Ok s'"
    and "PodNodeName pod \<notin> set (SpecK8sNodeBlockList (ClusterSpec c))"
  shows "\<exists>t. gomap_get (RestartTypeMap s') (PodName pod) = Some t \<and> restart_type_sound env c failed s' pod t \<and>
     same_elsewhere (PodName pod) s s'"
proof -
  from assms(1) obtain t where t: "getRollingRestartTypePod (EnvCompareVersions env) (EnvServerPorts env)
      (EnvStorageUpdated env) c pod cm (AddedNSDevices s) (dynamic_only s (PodName pod)) (EnvQuick env)
      (EnvCold env) = Ok t"
    and s': "s' = s\<lparr>RestartTypeMap := gomap_put (PodName pod)
      (if t \<noteq> noRestart \<and> PodName pod \<in> set failed then podRestart else t) (RestartTypeMap s)\<rparr>"
    by (auto simp: settle_pod_def Let_def res_simps)
  have "dynamic_only s' = dynamic_only s" by (simp add: s' dynamic_only_def fun_eq_iff)
  with t assms(2) dynamic_restart_type demanded_restart_type show ?thesis
    by (auto simp: s' restart_type_sound_def same_elsewhere_def gomap_get_put)
qed

lemma conf_changed_settled:
  assumes "conf_changed env c rackState pod s = Ok (Inl s')"
  shows "gomap_get (RestartTypeMap s') (PodName pod) = Some podRestart \<and> same_elsewhere (PodName pod) s s'"
  using assms
  by (auto simp: conf_changed_def Let_def res_simps same_elsewhere_def gomap_get_put mergeRestartType_max
        split: if_splits)

lemma conf_changed_open:
  assumes "conf_changed env c rackState pod s = Ok (Inr s')"
  shows "same_elsewhere (PodName pod) s s'"
  using assms
  by (auto simp: conf_changed_def Let_def res_simps same_elsewhere_def gomap_get_put split: if_splits)

lemma same_elsewhere_trans [trans]:
  "same_elsewhere n s s' \<Longrightarrow> same_elsewhere n s' s'' \<Longrightarrow> same_elsewhere n s s''"
  by (simp add: same_elsewhere_def)

lemma restart_type_step_sound:
  assumes "restart_type_step env c rackState cm ign failed pod s = Ok s'" and "PodName pod \<notin> set ign"
  shows "\<exists>t. gomap_get (RestartTypeMap s') (PodName pod) = Some t \<and> restart_type_sound env c failed s' pod t \<and>
     same_elsewhere (PodName pod) s s'"
proof (cases "PodNodeName pod \<in> set (SpecK8sNodeBlockList (ClusterSpec c))")
  case True
  with assms show ?thesis
    by (auto simp: restart_type_step_def restart_type_sound_def same_elsewhere_def gomap_get_put)
next
  case False
  note sound = settle_pod_sound [OF _ False]
  show ?thesis
  proof (cases "PsAerospikeConfigHash (pod_status c (PodName pod)) \<noteq> HAerospikeConf cm")
    case True
    with assms False obtain r where r: "conf_changed env c rackState pod s = Ok r"
      and s': "(case r of Inl s1 \<Rightarrow> Ok s1 | Inr s1 \<Rightarrow> settle_pod env c cm failed pod s1) = Ok s'"
      by (auto simp: restart_type_step_def res_simps)
    show ?thesis
    proof (cases r)
      case (Inl s1)
      with r s' conf_changed_settled [of env c rackState pod s s1] False show ?thesis
        by (auto simp: restart_type_sound_def)
    next
      case (Inr s1)
      with r have "same_elsewhere (PodName pod) s s1" by (auto dest: conf_changed_open)
      moreover from Inr s' have "settle_pod env c cm failed pod s1 = Ok s'" by simp
      ultimately show ?thesis using sound by (blast intro: same_elsewhere_trans)
    qed
  qed (use assms False sound in \<open>auto simp: restart_type_step_def\<close>)
qed

lemma restart_type_sound_elsewhere:
  "same_elsewhere name s s' \<Longrightarrow> PodName pod \<noteq> name \<Longrightarrow>
   restart_type_sound env c failed s' pod t = restart_type_sound env c failed s pod t"
  by (simp add: restart_type_sound_def same_elsewhere_def dynamic_only_def)

lemma restart_type_loop_sound:
  assumes "restart_type_loop env c rackState cm ign failed pods s = Ok s'" and "distinct (map PodName pods)"
  shows "(\<forall>p\<in>set pods. PodName p \<notin> set ign \<longrightarrow>
      (\<exists>t. gomap_get (RestartTypeMap s') (PodName p) = Some t \<and> restart_type_sound env c failed s' p t)) \<and>
    (\<forall>n. n \<notin> {PodName p | p. p \<in> set pods \<and> PodName p \<notin> set ign} \<longrightarrow>
      gomap_get (RestartTypeMap s') n = gomap_get (RestartTypeMap s) n \<and>
      gomap_get (DynamicConfDiffPerPod s') n = gomap_get (DynamicConfDiffPerPod s) n)"
  using assms
proof (induction pods arbitrary: s)
  case (Cons pod pods)
  then obtain s1 where s1: "restart_type_step env c rackState cm ign failed pod s = Ok s1"
    and loop: "restart_type_loop env c rackState cm ign failed pods s1 = Ok s'"
    by (auto simp: res_simps)
  note IH = Cons.IH [OF loop]
  show ?case
  proof (cases "PodName pod \<in> set ign")
    case True
    with s1 have "s1 = s" by (simp add: restart_type_step_def)
    with IH Cons.prems(2) True show ?thesis by auto
  next
    case False
    then obtain t where t: "gomap_get (RestartTypeMap s1) (PodName pod) = Some t"
      "restart_type_sound env c failed s1 pod t" "same_elsewhere (PodName pod) s s1"
      using restart_type_step_sound [OF s1] by blast
    have kept: "gomap_get (RestartTypeMap s') (PodName pod) = Some t \<and>
        gomap_get (DynamicConfDiffPerPod s') (PodName pod) = gomap_get (DynamicConfDiffPerPod s1) (PodName pod)"
      using IH Cons.prems(2) t(1) by force
    then have "restart_type_sound env c failed s' pod t"
      using t(2) by (simp add: restart_type_sound_def dynamic_only_def)
    moreover have "gomap_get (RestartTypeMap s') n = gomap_get (RestartTypeMap s) n \<and>
        gomap_get (DynamicConfDiffPerPod s') n = gomap_get (DynamicConfDiffPerPod s) n"
      if "n \<notin> {PodName p | p. p \<in> set (pod # pods) \<and> PodName p \<notin> set ign}" for n
    proof -
      from that False have "n \<noteq> PodName pod" "n \<notin> {PodName p | p. p \<in> set pods \<and> PodName p \<notin> set ign}"
        by auto
      with IH Cons.prems(2) t(3) show ?thesis by (simp add: same_elsewhere_def)
    qed
    ultimately show ?thesis using IH Cons.prems(2) kept by simp
  qed
qed simp

text \<open>
  Property C22. The map gives a restart type to exactly the pods of the rack that are not ignorable. A
  pod on a blocked Kubernetes node gets a full restart, and so does a pod asked for a full restart and not
  for a warm one (once the status holds a configuration); a pod whose server is down gets none or a full
  one, never one that needs the server; and a pod whose configuration is to be updated in place comes with
  a non-empty difference to apply.
\<close>

theorem restart_map_sound:
  assumes "getRollingRestartTypeMap env c rackState (Ok pods) confMap clusterPods ignorable failed = Ok (m, dyn)"
    and "distinct (map PodName pods)" and "podsToRestart c clusterPods = Ok (quick, cold)"
  shows "(\<forall>n. gomap_get m n \<noteq> None \<longleftrightarrow> (\<exists>p\<in>set pods. PodName p = n \<and> n \<notin> set ignorable)) \<and>
    (\<forall>p\<in>set pods. PodName p \<notin> set ignorable \<longrightarrow>
      (PodNodeName p \<in> set (SpecK8sNodeBlockList (ClusterSpec c)) \<longrightarrow> gomap_get m (PodName p) = Some podRestart) \<and>
      (\<not> IsStatusEmpty c \<and> PodName p \<in> set cold - set quick \<longrightarrow> gomap_get m (PodName p) = Some podRestart) \<and>
      (PodName p \<in> set failed \<longrightarrow> gomap_get m (PodName p) \<in> {Some noRestart, Some podRestart}) \<and>
      (gomap_get m (PodName p) = Some noRestartUpdateConf \<longrightarrow>
        (\<exists>delta. gomap_get dyn (PodName p) = Some delta \<and> delta \<noteq> [])))"
proof -
  define env' where "env' = env\<lparr>EnvQuick := quick, EnvCold := cold\<rparr>"
  from assms(1,3) obtain cm s where
    loop: "restart_type_loop env' c rackState cm ignorable failed pods
      \<lparr>RestartTypeMap = [], DynamicConfDiffPerPod = [], AddedNSDevices = []\<rparr> = Ok s"
    and res: "m = RestartTypeMap s" "dyn = DynamicConfDiffPerPod s"
    by (auto simp: getRollingRestartTypeMap_def res_simps env'_def)
  note sound = restart_type_loop_sound [OF loop assms(2)]
  have entry: "\<exists>t. gomap_get m (PodName p) = Some t \<and> restart_type_sound env' c failed s p t"
    if "p \<in> set pods" "PodName p \<notin> set ignorable" for p
    using conjunct1 [OF sound] that by (auto simp: res)
  have other: "gomap_get m n = None"
    if "n \<notin> {PodName p | p. p \<in> set pods \<and> PodName p \<notin> set ignorable}" for n
    using conjunct2 [OF sound] that by (simp add: res)
  have "gomap_get m n \<noteq> None \<longleftrightarrow> (\<exists>p\<in>set pods. PodName p = n \<and> n \<notin> set ignorable)" for n
    using entry other [of n] by fastforce
  moreover have "(PodNodeName p \<in> set (SpecK8sNodeBlockList (ClusterSpec c)) \<longrightarrow>
        gomap_get m (PodName p) = Some podRestart) \<and>
      (\<not> IsStatusEmpty c \<and> PodName p \<in> set cold - set quick \<longrightarrow> gomap_get m (PodName p) = Some podRestart) \<and>
      (PodName p \<in> set failed \<longrightarrow> gomap_get m (PodName p) \<in> {Some noRestart, Some podRestart}) \<and>
      (gomap_get m (PodName p) = Some noRestartUpdateConf \<longrightarrow>
        (\<exists>delta. gomap_get dyn (PodName p) = Some delta \<and> delta \<noteq> []))"
    if "p \<in> set pods" "PodName p \<notin> set ignorable" for p
    using entry [OF that] by (auto simp: restart_type_sound_def env'_def dynamic_only_def res split: option.splits)
  ultimately show ?thesis by blast
qed

definition example_lib :: "(unit, unit) asconfig" where
  "example_lib = \<lparr>FlatConf = (\<lambda>_. Inr ()), ConfFile = (\<lambda>_. Inr []), LibConfDiff = (\<lambda>_ _ _. Inr []),
     LibIsAllDynamicConfig = (\<lambda>_ _. Inr False)\<rparr>"

definition example_restart_env :: "AerospikeCluster \<Rightarrow> (unit, unit) restart_env" where
  "example_restart_env c = \<lparr>EnvLib = example_lib, EnvCompareVersions = (\<lambda>_ _. Inr 0),
     EnvServerPorts = Ok (Some []), EnvStorageUpdated = (\<lambda>_. False), EnvNewCluster = Ok c,
     EnvQuick = [], EnvCold = []\<rparr>"

definition restart_cluster :: AerospikeCluster where
  "restart_cluster = \<lparr>ClusterName = ''cl'', ClusterNamespace = ''ns'', ClusterLabels = [],
     ClusterSpec = no_spec\<lparr>SpecK8sNodeBlockList := [''n9'']\<rparr>,
     ClusterStatus = no_status\<lparr>StAerospikeConfig := Some \<lparr>Value = None\<rparr>\<rparr>\<rparr>"

definition server_pod :: "string \<Rightarrow> string \<Rightarrow> string gomap \<Rightarrow> Pod" where
  "server_pod name node annotations =
     (running_pod name)\<lparr>PodNodeName := node, PodAnnotations := annotations,
        PodContainers := [\<lparr>KcName = AerospikeServerContainerName, KcImage = ''as:8.0.0'', KcArgs = [], KcPorts = []\<rparr>]\<rparr>"

definition restart_pods :: "Pod list" where
  "restart_pods = [server_pod ''cl-1-0'' ''n9'' [], server_pod ''cl-1-1'' ''n1'' [(EvictionBlockedAnnotation, ''t'')],
     server_pod ''cl-1-2'' ''n1'' []]"

lemma restart_pods_map:
  "getRollingRestartTypeMap (example_restart_env restart_cluster) restart_cluster
     \<lparr>RsRack = example_rack [], RsSize = 3\<rparr> (Ok restart_pods)
     (Ok \<lparr>HAerospikeConf = [], HNetworkPolicy = [], HPodSpec = []\<rparr>) (Ok restart_pods) [] [''cl-1-1''] =
   Ok ([(''cl-1-0'', podRestart), (''cl-1-1'', podRestart), (''cl-1-2'', noRestart)], [])"
  by code_simp

theorem restart_map_witness:
  "(\<forall>n. gomap_get [(''cl-1-0'', podRestart), (''cl-1-1'', podRestart), (''cl-1-2'', noRestart)] n \<noteq> None \<longleftrightarrow>
      (\<exists>p\<in>set restart_pods. PodName p = n \<and> n \<notin> set []))"
proof -
  have "distinct (map PodName restart_pods)" by code_simp
  moreover have "podsToRestart restart_cluster (Ok restart_pods) = Ok ([], [''cl-1-1''])" by code_simp
  ultimately show ?thesis using restart_map_sound [OF restart_pods_map] by blast
qed

definition full_restart :: "RestartType gomap option \<Rightarrow> Pod list \<Rightarrow> bool" where
  "full_restart types batch =
     (case types of None \<Rightarrow> True | Some m \<Rightarrow> \<exists>p\<in>set batch. gomap_get m (PodName p) = Some podRestart)"

definition drops_local_storage :: "AerospikeStorageSpec \<Rightarrow> bool" where
  "drops_local_storage storage \<longleftrightarrow> GetBool (DeleteLocalStorageOnRestart storage) \<and>
     (\<exists>v\<in>set (Volumes storage). case SrcPersistentVolume (VolSource v) of
        None \<Rightarrow> False | Some pv \<Rightarrow> PvStorageClass pv \<in> set (LocalStorageClasses storage))"

text \<open>
  Fact. A batch that restarts no pod in full, and a batch of an upgrade or full restarts without an
  override, use the configured migrate-fill-delay modulo the width of the field; a full restart with an
  override uses the override. Migrations are drained first exactly when a full restart raises the delay:
  by the override, or because local storage is dropped on restart and a volume uses a local storage class.
\<close>

theorem migrate_fill_delay_of_batch:
  assumes "GetMigrateFillDelay (Some (RackAerospikeConfig (RsRack rackState))) = Ok mfd"
  shows "\<exists>delay drain. mfdDelayForRestart c rackState batch types = Ok (delay, drain) \<and>
    unat delay = (if full_restart types batch \<and> GetOverrideMigrateFillDelay (ClusterSpec c) \<noteq> 0
                  then unat (GetOverrideMigrateFillDelay (ClusterSpec c)) else nat (mfd mod 2 ^ 32)) \<and>
    (drain \<longleftrightarrow> full_restart types batch \<and>
       (GetOverrideMigrateFillDelay (ClusterSpec c) \<noteq> 0 \<or> drops_local_storage (RackStorage (RsRack rackState))))"
proof -
  have full: "full_restart types batch \<longleftrightarrow> (case types of None \<Rightarrow> True
    | Some m \<Rightarrow> list_ex (\<lambda>p. restart_type_of m (PodName p) = podRestart) batch)"
    by (auto simp: full_restart_def restart_type_of_def list_ex_iff split: option.splits)
  have "unat (of_int mfd :: uint32) = nat (mfd mod 2 ^ 32)"
    by (simp add: unat_eq_nat_uint uint_word_of_int)
  with assms(1) show ?thesis
    by (auto simp: mfdDelayForRestart_def Let_def full [symmetric] drops_local_storage_def list_ex_iff word_gt_0)
qed

definition example_mfd_rack :: RackState where
  "example_mfd_rack = \<lparr>RsRack = (example_rack [])\<lparr>RackAerospikeConfig :=
     \<lparr>Value = Some [(ConfKeyService, GMap [(ConfKeyMigrateFillDelay, GFloat64 (2 ^ 32 + 3))])]\<rparr>\<rparr>, RsSize = 1\<rparr>"

theorem migrate_fill_delay_witness:
  "\<exists>delay drain. mfdDelayForRestart restart_cluster example_mfd_rack [] None = Ok (delay, drain) \<and>
     unat delay = 3 \<and> \<not> drain"
proof -
  have "GetMigrateFillDelay (Some (RackAerospikeConfig (RsRack example_mfd_rack))) = Ok (2 ^ 32 + 3)"
    by code_simp
  moreover have "GetOverrideMigrateFillDelay (ClusterSpec restart_cluster) = 0"
    "drops_local_storage (RackStorage (RsRack example_mfd_rack)) = False" by code_simp+
  ultimately show ?thesis using migrate_fill_delay_of_batch [of example_mfd_rack "2 ^ 32 + 3" restart_cluster "[]" None] by simp
qed

end
