(* ===== verification/Cluster_Info.thy ===== *)
theory Cluster_Info
  imports Call_Trace Restart_Map
begin

text \<open>
  The cluster-wide steps around a restart: connections to the nodes, waiting for servers and for
  stability, the migrate-fill-delay, rosters of strongly consistent namespaces and quiescing, composed to
  \<^verbatim>\<open>waitForMultipleNodesSafeStopReady\<close> (\<^verbatim>\<open>internal/controller/cluster/aero_info_calls.go\<close>,
  \<^verbatim>\<open>strong_consistency.go\<close> and the waits of \<^verbatim>\<open>statefulset.go\<close>). Retry loops count down their
  attempts. The texts of errors are shortened to their fixed parts.
\<close>

section \<open>Connections\<close>

definition conf_res :: "(conf_error, 'a) res \<Rightarrow> (string, 'a) res" where
  "conf_res r = res_map_err (\<lambda>_. ''invalid configuration'') r"

definition getServiceTLSNameAndPortIfConfigured :: "AerospikeCluster \<Rightarrow> (string, string \<times> int option) res" where
  "getServiceTLSNameAndPortIfConfigured c =
     res_bind (conf_res (GetServiceTLSNameAndPort (SpecAerospikeConfig (ClusterSpec c)))) (\<lambda>(tlsName, port).
       case StAerospikeConfig (ClusterStatus c) of
         None \<Rightarrow> Ok (tlsName, port)
       | Some statusConf \<Rightarrow>
           if tlsName = [] then Ok (tlsName, port)
           else res_bind (conf_res (GetServiceTLSNameAndPort statusConf)) (\<lambda>(statusTLSName, _).
                res_bind (conf_res (GetServicePort statusConf)) (\<lambda>statusPort.
                  Ok (if statusTLSName = [] \<and> statusPort \<noteq> None then [] else tlsName, port))))"

text \<open>The port of a connection; a missing one is a nil pointer.\<close>

definition newAsConn :: "AerospikeCluster \<Rightarrow> (string, int) res" where
  "newAsConn c =
     res_bind (getServiceTLSNameAndPortIfConfigured c) (\<lambda>(tlsName, port).
       if tlsName = [] \<or> port = None
       then res_bind (conf_res (GetServicePort (SpecAerospikeConfig (ClusterSpec c)))) must
       else must port)"

fun newPodsHostConnWithOption :: "AerospikeCluster \<Rightarrow> string list \<Rightarrow> Pod list \<Rightarrow> (string, string list) res" where
  "newPodsHostConnWithOption c ignorablePodNames [] = Ok []"
| "newPodsHostConnWithOption c ignorablePodNames (pod # pods) =
     (if IsPodTerminating pod then newPodsHostConnWithOption c ignorablePodNames pods
      else if fst (IsPodCheckpointing pod) then newPodsHostConnWithOption c ignorablePodNames pods
      else if \<not> IsAerospikeServerReady pod
      then (if PodName pod \<in> set ignorablePodNames then newPodsHostConnWithOption c ignorablePodNames pods
            else Err (''server container is not running: '' @ PodName pod))
      else res_bind (newAsConn c) (\<lambda>_.
           res_bind (newPodsHostConnWithOption c ignorablePodNames pods) (\<lambda>hosts. Ok (PodName pod # hosts))))"

definition getClusterPodList :: "'w api \<Rightarrow> ('w, string, Pod list) prog" where
  "getClusterPodList api = issue CListPods (ApiListPods api)"

definition newAllHostConnWithOption :: "'w api \<Rightarrow> string list \<Rightarrow> ('w, string, string list) prog" where
  "newAllHostConnWithOption api ignorablePodNames =
     bind (getClusterPodList api) (\<lambda>pods.
       if pods = [] then fail ''cluster has no pods''
       else bind get_cluster (\<lambda>c. from_res (newPodsHostConnWithOption c ignorablePodNames pods)))"

section \<open>Waiting for servers\<close>

definition sleep :: "'w api \<Rightarrow> int \<Rightarrow> ('w, 'e, unit) prog" where
  "sleep api secs = change_world (ApiSleep api secs)"

fun wait_pod_appears :: "'w api \<Rightarrow> string \<Rightarrow> nat \<Rightarrow> ('w, 'e, unit) prog" where
  "wait_pod_appears api podName 0 = ret ()"
| "wait_pod_appears api podName (Suc n) =
     bind (attempt (issue (CGetPod podName) (ApiGetPod api podName))) (\<lambda>r.
       case r of Inr _ \<Rightarrow> ret ()
               | Inl _ \<Rightarrow> bind (sleep api 2) (\<lambda>_. wait_pod_appears api podName n))"

text \<open>The error of a wait whose retries are used up is \<^verbatim>\<open>ErrStatefulSetNotReady\<close>.\<close>

datatype wait_error = ErrStatefulSetNotReady string | ErrWait string

fun wait_error_text :: "wait_error \<Rightarrow> string" where
  "wait_error_text (ErrStatefulSetNotReady e) = e"
| "wait_error_text (ErrWait e) = e"

fun wait_server_ready :: "'w api \<Rightarrow> string \<Rightarrow> nat \<Rightarrow> ('w, wait_error, unit) prog" where
  "wait_server_ready api podName 0 = fail (ErrStatefulSetNotReady (''server container not ready: '' @ podName))"
| "wait_server_ready api podName (Suc n) =
     bind (wrap_err (\<lambda>e. ErrWait (''get Pod: '' @ e)) (issue (CGetPod podName) (ApiGetPod api podName))) (\<lambda>pod.
     bind (read_world (ApiNow api)) (\<lambda>now.
       if PsState (CheckServerFailedWithGrace now (ApiGraceEnv api) pod False) = PodFailed
       then fail (ErrWait (''server container failed: '' @ podName))
       else if IsAerospikeServerReady pod then ret ()
       else bind (sleep api 10) (\<lambda>_. wait_server_ready api podName n)))"

text \<open>The StatefulSet as it was read last, which the code stores in its argument.\<close>

fun waitForSTSReplicasConverged :: "'w api \<Rightarrow> string \<Rightarrow> nat \<Rightarrow> ('w, wait_error, StatefulSet) prog" where
  "waitForSTSReplicasConverged api name 0 = fail (ErrWait (''replicas did not converge: '' @ name))"
| "waitForSTSReplicasConverged api name (Suc n) =
     bind (wrap_err (\<lambda>e. ErrWait (''get StatefulSet: '' @ get_error_text e)) (issue (CGetSTS name) (ApiGetSTS api name)))
       (\<lambda>st. if StsReplicas st = StsStatusReplicas st then ret st
             else bind (sleep api 2) (\<lambda>_. waitForSTSReplicasConverged api name n))"

definition podStatusMaxRetry :: nat where "podStatusMaxRetry = 18"
definition stsStatusMaxRetry :: nat where "stsStatusMaxRetry = 10"

definition waitForSTSPodsServerReady :: "'w api \<Rightarrow> StatefulSet \<Rightarrow> string list \<Rightarrow> ('w, wait_error, StatefulSet) prog" where
  "waitForSTSPodsServerReady api st ignorablePodNames =
     bind (each (\<lambda>podIndex.
         let podName = GetSTSPodName (StsName st) podIndex in
         if podName \<in> set ignorablePodNames then ret ()
         else bind (wait_pod_appears api podName 5) (\<lambda>_. wait_server_ready api podName podStatusMaxRetry))
       (map int [0..<nat (StsReplicas st)]))
     (\<lambda>_. waitForSTSReplicasConverged api (StsName st) stsStatusMaxRetry)"

text \<open>The same wait for whole pods, sidecars included.\<close>

fun wait_pod_ready :: "'w api \<Rightarrow> string \<Rightarrow> nat \<Rightarrow> ('w, wait_error, unit) prog" where
  "wait_pod_ready api podName 0 = fail (ErrStatefulSetNotReady (''resource not ready: '' @ podName))"
| "wait_pod_ready api podName (Suc n) =
     bind (wrap_err (\<lambda>e. ErrWait (''get StatefulSet pod: '' @ e)) (issue (CGetPod podName) (ApiGetPod api podName))) (\<lambda>pod.
     bind (read_world (ApiNow api)) (\<lambda>now.
       case CheckPodFailed now (ApiGraceEnv api) pod of
         Some err \<Rightarrow> fail (ErrWait (''pod failed: '' @ err))
       | None \<Rightarrow>
           if IsPodRunningAndReady pod then ret ()
           else bind (sleep api 10) (\<lambda>_. wait_pod_ready api podName n)))"

definition waitForSTSToBeReady :: "'w api \<Rightarrow> StatefulSet \<Rightarrow> string list \<Rightarrow> ('w, wait_error, StatefulSet) prog" where
  "waitForSTSToBeReady api st ignorablePodNames =
     bind (each (\<lambda>podIndex.
         let podName = GetSTSPodName (StsName st) podIndex in
         if podName \<in> set ignorablePodNames then ret ()
         else bind (wait_pod_appears api podName 5) (\<lambda>_. wait_pod_ready api podName podStatusMaxRetry))
       (map int [0..<nat (StsReplicas st)]))
     (\<lambda>_. waitForSTSReplicasConverged api (StsName st) stsStatusMaxRetry)"

definition all_rack_identifiers :: "AerospikeCluster \<Rightarrow> string list" where
  "all_rack_identifiers c =
     remdups (map (\<lambda>rack. GetRackIdentifier (RackID rack) (RackRevision rack))
       (StRacks (ClusterStatus c) @ SpecRacks (ClusterSpec c)))"

definition each_sts ::
  "'w api \<Rightarrow> (StatefulSet \<Rightarrow> ('w, wait_error, StatefulSet) prog) \<Rightarrow> ('w, wait_error, unit) prog" where
  "each_sts api f =
     bind get_cluster (\<lambda>c.
       each (\<lambda>rackIdentifier.
         let stsName = ObjName (GetNamespacedNameForSTSOrConfigMap c rackIdentifier) in
         bind (attempt (issue (CGetSTS stsName) (ApiGetSTS api stsName))) (\<lambda>r.
           case r of
             Inl e \<Rightarrow> (case e of GetNotFound \<Rightarrow> ret () | GetFailed err \<Rightarrow> fail (ErrWait err))
           | Inr st \<Rightarrow> bind (f st) (\<lambda>_. ret ())))
       (all_rack_identifiers c))"

definition waitForAllAerospikeServersReady :: "'w api \<Rightarrow> string list \<Rightarrow> ('w, wait_error, unit) prog" where
  "waitForAllAerospikeServersReady api ignorablePodNames =
     each_sts api (\<lambda>st. waitForSTSPodsServerReady api st ignorablePodNames)"

definition waitForAllSTSToBeReady :: "'w api \<Rightarrow> string list \<Rightarrow> ('w, wait_error, unit) prog" where
  "waitForAllSTSToBeReady api ignorablePodNames =
     each_sts api (\<lambda>st. waitForSTSToBeReady api st ignorablePodNames)"

section \<open>Stability and the migrate-fill-delay\<close>

fun wait_stable :: "'w api \<Rightarrow> string list \<Rightarrow> nat \<Rightarrow> ('w, ReconcileResult, unit) prog" where
  "wait_stable api hosts 0 = fail (ReconcileRequeueAfter 60)"
| "wait_stable api hosts (Suc n) =
     bind (sleep api 10) (\<lambda>_.
     bind (wrap_err ReconcileError (ask (CIsClusterAndStable hosts) (ApiIsClusterAndStable api hosts)))
       (\<lambda>isStable. if isStable then ret () else wait_stable api hosts n))"

definition waitForClusterStability :: "'w api \<Rightarrow> string list \<Rightarrow> ('w, ReconcileResult, unit) prog" where
  "waitForClusterStability api allHostConns = wait_stable api allHostConns 6"

definition host_conns_or_error :: "'w api \<Rightarrow> string list \<Rightarrow> ('w, ReconcileResult, string list) prog" where
  "host_conns_or_error api ignorablePodNames =
     wrap_err (\<lambda>e. ReconcileError (''get host connections for cluster nodes: '' @ e))
       (newAllHostConnWithOption api ignorablePodNames)"

definition waitForMigrationToComplete :: "'w api \<Rightarrow> string list \<Rightarrow> ('w, ReconcileResult, unit) prog" where
  "waitForMigrationToComplete api ignorablePodNames =
     bind (host_conns_or_error api ignorablePodNames) (waitForClusterStability api)"

text \<open>\<open>None\<close> asks for the connections to be made here.\<close>

definition setMigrateFillDelay ::
  "'w api \<Rightarrow> uint32 \<Rightarrow> string list \<Rightarrow> string list option \<Rightarrow> bool \<Rightarrow> ('w, ReconcileResult, unit) prog" where
  "setMigrateFillDelay api delay ignorablePodNames hostConns force =
     bind get_cluster (\<lambda>c.
       if \<not> force \<and> delay = StDynamicMigrateFillDelay (ClusterStatus c) then ret ()
       else
         bind (case hostConns of
                 Some hosts \<Rightarrow> ret hosts
               | None \<Rightarrow> host_conns_or_error api ignorablePodNames) (\<lambda>hosts.
         bind (wrap_err ReconcileError
                 (issue (CSetMigrateFillDelay hosts delay) (ApiSetMigrateFillDelay api hosts delay))) (\<lambda>_.
         bind (wrap_err (\<lambda>e. ReconcileError (''persist dynamic migrate-fill-delay in status: '' @ e))
                 (issue (CPatchMigrateFillDelay delay) (ApiPatchMigrateFillDelay api delay))) (\<lambda>written.
           set_cluster (c\<lparr>ClusterStatus := (ClusterStatus c)\<lparr>StDynamicMigrateFillDelay := written\<rparr>\<rparr>)))))"

definition revertMFDToConfig :: "'w api \<Rightarrow> string list \<Rightarrow> bool \<Rightarrow> ('w, ReconcileResult, unit) prog" where
  "revertMFDToConfig api ignorablePodNames force =
     bind get_cluster (\<lambda>c.
       case SpecRacks (ClusterSpec c) of
         [] \<Rightarrow> from_res Panic
       | rack # _ \<Rightarrow>
           bind (wrap_err (\<lambda>e. ReconcileError (''read configMFD for revert: '' @ e))
                   (from_res (conf_res (GetMigrateFillDelay (Some (RackAerospikeConfig rack)))))) (\<lambda>configMFD.
             setMigrateFillDelay api (of_int configMFD) ignorablePodNames None force))"

section \<open>Namespaces and rosters\<close>

fun spec_namespace_names :: "gval list \<Rightarrow> (string, string list) res" where
  "spec_namespace_names [] = Ok []"
| "spec_namespace_names (ns # nss) =
     res_bind (must (as_map ns)) (\<lambda>m.
     res_bind (must (as_string (idx m ConfKeyName))) (\<lambda>n.
     res_bind (spec_namespace_names nss) (\<lambda>rest. Ok (n # rest))))"

fun rack_namespace_names :: "Rack list \<Rightarrow> (string, string list) res" where
  "rack_namespace_names [] = Ok []"
| "rack_namespace_names (rack # racks) =
     res_bind (namespaces_of rack) (\<lambda>nss.
     res_bind (spec_namespace_names nss) (\<lambda>here.
     res_bind (rack_namespace_names racks) (\<lambda>rest. Ok (here @ rest))))"

definition removedNamespaces :: "AerospikeCluster \<Rightarrow> string list gomap \<Rightarrow> (string, string list) res" where
  "removedNamespaces c nodesNamespaces =
     res_bind (rack_namespace_names (SpecRacks (ClusterSpec c))) (\<lambda>specNamespaces.
       Ok (set_difference (concat (map snd nodesNamespaces)) specNamespaces))"

fun sc_namespace_names :: "gval list \<Rightarrow> (string, string list) res" where
  "sc_namespace_names [] = Ok []"
| "sc_namespace_names (ns # nss) =
     res_bind (must (as_map ns)) (\<lambda>m.
     res_bind (conf_res (IsNSSCEnabled m)) (\<lambda>sc.
     res_bind (if sc then res_bind (must (as_string (idx m ConfKeyName))) (\<lambda>n. Ok [n]) else Ok []) (\<lambda>here.
     res_bind (sc_namespace_names nss) (\<lambda>rest. Ok (here @ rest)))))"

definition addedSCNamespaces :: "AerospikeCluster \<Rightarrow> string list gomap \<Rightarrow> (string, string list) res" where
  "addedSCNamespaces c nodesNamespaces =
     (case SpecRacks (ClusterSpec c) of
        [] \<Rightarrow> Panic
      | rack # _ \<Rightarrow>
          res_bind (namespaces_of rack) (\<lambda>nsList.
          res_bind (sc_namespace_names nsList) (\<lambda>specSC.
            Ok (remdups (concat (map (\<lambda>(node, nss). filter (\<lambda>n. n \<notin> set nss) specSC) nodesNamespaces))))))"

definition getIgnorableNamespaces :: "'w api \<Rightarrow> string list \<Rightarrow> ('w, string, string list) prog" where
  "getIgnorableNamespaces api allHostConns =
     bind (issue (CGetClusterNamespaces allHostConns) (ApiGetClusterNamespaces api allHostConns)) (\<lambda>nodesNamespaces.
     bind get_cluster (\<lambda>c.
     bind (from_res (removedNamespaces c nodesNamespaces)) (\<lambda>removed.
     bind (from_res (addedSCNamespaces c nodesNamespaces)) (\<lambda>added.
       ret (remdups (removed @ added))))))"

definition getAndSetRoster :: "'w api \<Rightarrow> string list \<Rightarrow> string list \<Rightarrow> ('w, string, unit) prog" where
  "getAndSetRoster api rosterNodeBlockList ignorablePodNames =
     bind get_cluster (\<lambda>c.
     bind (from_res (res_map_err (\<lambda>_. ''invalid racks'') (getConfiguredRackStateList (ClusterSpec c)))) (\<lambda>rackStateList.
       let blockedRackIDs = map (\<lambda>rack. Itoa (RackID rack)) (getRacksToBeBlockedFromRoster rackStateList) in
     bind (newAllHostConnWithOption api ignorablePodNames) (\<lambda>allHostConns.
     bind (getIgnorableNamespaces api allHostConns) (\<lambda>ignorableNamespaces.
       issue (CManageRoster allHostConns rosterNodeBlockList ignorableNamespaces blockedRackIDs)
         (ApiManageRoster api allHostConns rosterNodeBlockList ignorableNamespaces blockedRackIDs)))))"

definition validateSCClusterState :: "'w api \<Rightarrow> string list \<Rightarrow> ('w, string, unit) prog" where
  "validateSCClusterState api ignorablePodNames =
     bind (newAllHostConnWithOption api ignorablePodNames) (\<lambda>allHostConns.
     bind (getIgnorableNamespaces api allHostConns) (\<lambda>ignorableNamespaces.
       issue (CValidateSC allHostConns ignorableNamespaces) (ApiValidateSC api allHostConns ignorableNamespaces)))"

section \<open>Safe stop\<close>

definition quiescePods ::
  "'w api \<Rightarrow> string list \<Rightarrow> Pod list \<Rightarrow> string list \<Rightarrow> ('w, string, unit) prog" where
  "quiescePods api allHostConns pods ignorablePodNames =
     bind get_cluster (\<lambda>c.
     bind (from_res (newPodsHostConnWithOption c ignorablePodNames pods)) (\<lambda>selectedHostConns.
     bind (issue (CGetClusterNamespaces allHostConns) (ApiGetClusterNamespaces api allHostConns)) (\<lambda>nodesNamespaces.
     bind (from_res (removedNamespaces c nodesNamespaces)) (\<lambda>removed.
       issue (CInfoQuiesce allHostConns selectedHostConns removed)
         (ApiInfoQuiesce api allHostConns selectedHostConns removed)))))"

definition stable_roster :: "'w api \<Rightarrow> string list \<Rightarrow> string list \<Rightarrow> ('w, ReconcileResult, unit) prog" where
  "stable_roster api ignorablePodNames allHostConns =
     bind get_cluster (\<lambda>c.
     bind (wrap_err ReconcileError (from_res (conf_res (IsClusterSCEnabled (ClusterSpec c))))) (\<lambda>sc.
       if sc
       then bind (wrap_err (\<lambda>_. ReconcileRequeueAfter 1)
                    (getAndSetRoster api (SpecRosterNodeBlockList (ClusterSpec c)) ignorablePodNames)) (\<lambda>_.
              waitForClusterStability api allHostConns)
       else ret ()))"

definition waitForMultipleNodesSafeStopReady ::
  "'w api \<Rightarrow> Pod list \<Rightarrow> string list \<Rightarrow> uint32 \<Rightarrow> bool \<Rightarrow> ('w, ReconcileResult, unit) prog" where
  "waitForMultipleNodesSafeStopReady api pods ignorablePodNames migrateFillDelay drainBeforeStability =
     (if pods = [] then ret ()
      else
        bind (wrap_err (\<lambda>e. ReconcileError (''wait for Aerospike server containers: '' @ wait_error_text e))
                (waitForAllAerospikeServersReady api ignorablePodNames)) (\<lambda>_.
        bind (host_conns_or_error api ignorablePodNames) (\<lambda>allHostConns.
        if length allHostConns < 2 \<and> ignorablePodNames \<noteq> []
        then fail (ReconcileError ''cluster is degraded'')
        else
          let preStabilityMFD = (if drainBeforeStability then 0 else migrateFillDelay) in
          bind (setMigrateFillDelay api preStabilityMFD ignorablePodNames (Some allHostConns) False) (\<lambda>_.
          bind (waitForClusterStability api allHostConns) (\<lambda>_.
          bind (stable_roster api ignorablePodNames allHostConns) (\<lambda>_.
          bind (if drainBeforeStability \<and> migrateFillDelay > 0
                then setMigrateFillDelay api migrateFillDelay ignorablePodNames (Some allHostConns) False
                else ret ()) (\<lambda>_.
            wrap_err ReconcileError (quiescePods api allHostConns pods ignorablePodNames))))))))"

section \<open>What a safe stop does\<close>

definition connectable :: "Pod \<Rightarrow> bool" where
  "connectable pod \<longleftrightarrow> \<not> IsPodTerminating pod \<and> \<not> fst (IsPodCheckpointing pod) \<and> IsAerospikeServerReady pod"

lemma newPodsHostConn_names:
  "newPodsHostConnWithOption c ign pods = Ok hosts \<Longrightarrow>
   hosts = map PodName (filter connectable pods)"
  by (induction pods arbitrary: hosts) (auto simp: connectable_def res_simps split: if_splits)

fun is_read :: "call \<times> bool \<Rightarrow> bool" where
  "is_read (CListPods, _) = True"
| "is_read (CGetPod _, _) = True"
| "is_read (CGetSTS _, _) = True"
| "is_read (CGetClusterNamespaces _, _) = True"
| "is_read _ = False"

fun quiesced :: "call \<times> bool \<Rightarrow> bool" where
  "quiesced (CInfoQuiesce _ _ _, b) = b"
| "quiesced _ = False"

lemma read_not_quiesced: "is_read x \<Longrightarrow> \<not> quiesced x"
  by (cases x rule: is_read.cases) auto

lemma only_wait_pod_appears: "only is_read (wait_pod_appears api n k)"
  by (induction k) (auto intro!: trace_rules simp: sleep_def)

lemma only_wait_server_ready: "only is_read (wait_server_ready api n k)"
  by (induction k) (auto intro!: trace_rules simp: sleep_def)

lemma only_replicas_converged: "only is_read (waitForSTSReplicasConverged api n k)"
  by (induction k) (auto intro!: trace_rules simp: sleep_def)

lemma only_wait_pod_ready: "only is_read (wait_pod_ready api n k)"
  by (induction k) (auto intro!: trace_rules simp: sleep_def)

lemmas only_waits = only_wait_pod_appears only_wait_server_ready only_wait_pod_ready only_replicas_converged

lemma only_sts_servers_ready: "only is_read (waitForSTSPodsServerReady api st ign)"
  unfolding waitForSTSPodsServerReady_def Let_def by (intro trace_rules only_waits)

lemma only_sts_ready: "only is_read (waitForSTSToBeReady api st ign)"
  unfolding waitForSTSToBeReady_def Let_def by (intro trace_rules only_waits)

lemma only_each_sts: "(\<And>st. only is_read (f st)) \<Longrightarrow> only is_read (each_sts api f)"
  unfolding each_sts_def Let_def
  by (intro trace_rules) (auto intro!: trace_rules split: get_error.splits)

lemma only_servers_ready: "only is_read (waitForAllAerospikeServersReady api ign)"
  unfolding waitForAllAerospikeServersReady_def by (intro only_each_sts only_sts_servers_ready)

lemma only_all_sts_ready: "only is_read (waitForAllSTSToBeReady api ign)"
  unfolding waitForAllSTSToBeReady_def by (intro only_each_sts only_sts_ready)

lemma only_host_conns: "only is_read (host_conns_or_error api ign)"
  unfolding host_conns_or_error_def newAllHostConnWithOption_def getClusterPodList_def
  by (intro trace_rules) auto

lemma only_set_mfd:
  "only (\<lambda>x. fst x = CSetMigrateFillDelay hosts d \<or> fst x = CPatchMigrateFillDelay d)
     (setMigrateFillDelay api d ign (Some hosts) force)"
  unfolding setMigrateFillDelay_def option.case bind_ret by (auto intro!: trace_rules)

definition calm :: "trace \<Rightarrow> bool" where
  "calm t = list_all (\<lambda>x. \<not> quiesced x) t"

lemma calm_simps [simp]:
  "calm []" "calm (x # t) \<longleftrightarrow> \<not> quiesced x \<and> calm t" "calm (t @ t') \<longleftrightarrow> calm t \<and> calm t'"
  by (simp_all add: calm_def)

lemma runs_calm: "only A m \<Longrightarrow> (\<And>x. A x \<Longrightarrow> \<not> quiesced x) \<Longrightarrow> runs m (\<lambda>r t. calm t)"
  unfolding only_def by (erule runs_mono) (auto simp: calm_def list_all_iff)

text \<open>On success the last call is a positive answer about stability.\<close>

definition ends_stable :: "string list \<Rightarrow> ('e, unit) res \<Rightarrow> trace \<Rightarrow> bool" where
  "ends_stable hosts r t \<longleftrightarrow> calm t \<and> (r = Ok () \<longrightarrow> (\<exists>t0. t = t0 @ [(CIsClusterAndStable hosts, True)]))"

lemma ends_stable_append: "calm t0 \<Longrightarrow> ends_stable hosts r t \<Longrightarrow> ends_stable hosts r (t0 @ t)"
  by (auto simp: ends_stable_def)

lemma runs_stability: "runs (waitForClusterStability api hosts) (ends_stable hosts)"
proof -
  have "runs (wait_stable api hosts n) (ends_stable hosts)" for n
  proof (induction n)
    case 0
    show ?case by (auto simp: ends_stable_def intro: runs_fail)
  next
    case (Suc n)
    have answer: "runs (wrap_err ReconcileError (ask (CIsClusterAndStable hosts) (ApiIsClusterAndStable api hosts)))
        (\<lambda>r t. t = [(CIsClusterAndStable hosts, r = Ok True)])"
      by (rule runs_wrap_err [OF runs_ask [where Q = "\<lambda>r t. t = [(CIsClusterAndStable hosts, r = Ok True)]"]]) simp_all
    have again: "runs (if b then ret () else wait_stable api hosts n)
        (\<lambda>r t. if b then r = Ok () \<and> t = [] else ends_stable hosts r t)" for b
      using Suc by (auto intro: runs_ret)
    have "runs (bind (wrap_err ReconcileError (ask (CIsClusterAndStable hosts) (ApiIsClusterAndStable api hosts)))
        (\<lambda>b. if b then ret () else wait_stable api hosts n)) (ends_stable hosts)"
      by (rule runs_bind [OF answer again])
         (auto simp: ends_stable_def split: if_splits)
    then show ?case unfolding wait_stable.simps sleep_def by (rule runs_change)
  qed
  then show ?thesis by (simp add: waitForClusterStability_def)
qed

lemma runs_roster: "runs (stable_roster api ign hosts) (\<lambda>r t. r = Ok () \<and> t = [] \<or> ends_stable hosts r t)"
proof -
  have roster: "runs (wrap_err (\<lambda>_. ReconcileRequeueAfter 1) (getAndSetRoster api block ign)) (\<lambda>r t. calm t)" for block
    by (rule runs_calm [where A = "\<lambda>x. \<not> quiesced x"])
      (auto simp: getAndSetRoster_def newAllHostConnWithOption_def getClusterPodList_def getIgnorableNamespaces_def
        Let_def intro!: trace_rules)
  have sc: "runs (if sc then bind (wrap_err (\<lambda>_. ReconcileRequeueAfter 1) (getAndSetRoster api block ign))
         (\<lambda>_. waitForClusterStability api hosts) else ret ())
       (\<lambda>r t. r = Ok () \<and> t = [] \<or> ends_stable hosts r t)" for sc block
  proof (rule runs_if)
    show "runs (bind (wrap_err (\<lambda>_. ReconcileRequeueAfter 1) (getAndSetRoster api block ign))
         (\<lambda>_. waitForClusterStability api hosts)) (\<lambda>r t. r = Ok () \<and> t = [] \<or> ends_stable hosts r t)"
      by (rule runs_bind [OF roster runs_stability]) (auto simp: ends_stable_append ends_stable_def)
  qed (simp add: runs_ret)
  show ?thesis
    unfolding stable_roster_def wrap_err_from_res
    by (intro runs_get runs_res sc) (simp_all add: ends_stable_def)
qed


text \<open>The calls allowed between the last positive answer about stability and the quiesce.\<close>

definition settled :: "uint32 \<Rightarrow> bool \<Rightarrow> string list \<Rightarrow> call \<times> bool \<Rightarrow> bool" where
  "settled mfd drain hosts x \<longleftrightarrow> is_read x \<or>
     drain \<and> mfd \<noteq> 0 \<and> (fst x = CSetMigrateFillDelay hosts mfd \<or> fst x = CPatchMigrateFillDelay mfd)"

lemma settled_not_quiesced: "settled mfd drain hosts x \<Longrightarrow> \<not> quiesced x"
  by (cases x) (auto simp: settled_def dest: read_not_quiesced)

lemma list_all_settled_calm: "list_all (settled mfd drain hosts) t \<Longrightarrow> calm t"
  by (auto simp: calm_def list_all_iff dest: settled_not_quiesced)

text \<open>On success, settled calls and then the quiesce of the pods that can be reached.\<close>

definition ends_quiesced :: "uint32 \<Rightarrow> bool \<Rightarrow> string list \<Rightarrow> Pod list \<Rightarrow> ('e, unit) res \<Rightarrow> trace \<Rightarrow> bool" where
  "ends_quiesced mfd drain hosts pods r t \<longleftrightarrow>
     (if r = Ok () then \<exists>t0 removed. list_all (settled mfd drain hosts) t0 \<and>
        t = t0 @ [(CInfoQuiesce hosts (map PodName (filter connectable pods)) removed, True)]
      else calm t)"

lemma ends_quiesced_append:
  assumes "list_all (settled mfd drain hosts) t0" and "ends_quiesced mfd drain hosts pods r t"
  shows "ends_quiesced mfd drain hosts pods r (t0 @ t)"
proof (cases "r = Ok ()")
  case True
  with assms(2) obtain t1 removed where "list_all (settled mfd drain hosts) t1"
    "t = t1 @ [(CInfoQuiesce hosts (map PodName (filter connectable pods)) removed, True)]"
    by (auto simp: ends_quiesced_def)
  with assms(1) True show ?thesis
    by (auto simp: ends_quiesced_def intro!: exI [of _ "t0 @ t1"])
qed (use assms in \<open>auto simp: ends_quiesced_def list_all_settled_calm\<close>)

lemma reads_calm: "list_all is_read t \<Longrightarrow> calm t"
  by (auto simp: calm_def list_all_iff read_not_quiesced)

lemma ends_quiesced_reads:
  "list_all is_read t0 \<Longrightarrow> ends_quiesced mfd drain hosts pods r t \<Longrightarrow> ends_quiesced mfd drain hosts pods r (t0 @ t)"
  by (rule ends_quiesced_append) (auto simp: list_all_iff settled_def)

lemma runs_quiesce: "runs (quiescePods api hosts pods ign) (ends_quiesced mfd drain hosts pods)"
proof -
  have last: "runs (issue (CInfoQuiesce hosts sel removed) (ApiInfoQuiesce api hosts sel removed))
      (ends_quiesced mfd drain hosts pods)" if "sel = map PodName (filter connectable pods)" for sel removed
    by (rule runs_issue) (auto simp: ends_quiesced_def that)
  have namespaces: "runs (issue (CGetClusterNamespaces hosts) (ApiGetClusterNamespaces api hosts))
      (\<lambda>r t. list_all is_read t)"
    by (rule runs_issue) auto
  have rest: "runs (bind (from_res (removedNamespaces c nodesNamespaces)) (\<lambda>removed.
         issue (CInfoQuiesce hosts sel removed) (ApiInfoQuiesce api hosts sel removed)))
       (ends_quiesced mfd drain hosts pods)" if "sel = map PodName (filter connectable pods)" for sel c nodesNamespaces
    by (rule runs_res) (simp_all add: last [OF that], simp_all add: ends_quiesced_def)
  have tail: "runs (bind (issue (CGetClusterNamespaces hosts) (ApiGetClusterNamespaces api hosts)) (\<lambda>nodesNamespaces.
       bind (from_res (removedNamespaces c nodesNamespaces)) (\<lambda>removed.
         issue (CInfoQuiesce hosts sel removed) (ApiInfoQuiesce api hosts sel removed))))
       (ends_quiesced mfd drain hosts pods)" if "sel = map PodName (filter connectable pods)" for sel c
    by (rule runs_bind [OF namespaces rest [OF that]])
       (erule (1) ends_quiesced_reads | simp add: ends_quiesced_def reads_calm)+
  show ?thesis
    unfolding quiescePods_def
    by (intro runs_get runs_res tail) (auto simp: ends_quiesced_def dest: newPodsHostConn_names)
qed


lemma runs_raise_and_quiesce:
  "runs (bind (if drain \<and> mfd > 0 then setMigrateFillDelay api mfd ign (Some hosts) False else ret ())
      (\<lambda>_. wrap_err ReconcileError (quiescePods api hosts pods ign))) (ends_quiesced mfd drain hosts pods)"
proof -
  have "runs (setMigrateFillDelay api mfd ign (Some hosts) False) (\<lambda>r t. list_all (settled mfd drain hosts) t)"
    if "drain \<and> mfd > 0"
    using only_set_mfd [of hosts mfd api ign False] that
    by (auto simp: only_def settled_def word_gt_0 list_all_iff elim!: runs_mono)
  then have raise: "runs (if drain \<and> mfd > 0 then setMigrateFillDelay api mfd ign (Some hosts) False else ret ())
      (\<lambda>r t. list_all (settled mfd drain hosts) t)"
    by (auto intro: runs_ret)
  have quiesce: "runs (wrap_err ReconcileError (quiescePods api hosts pods ign)) (ends_quiesced mfd drain hosts pods)"
    by (rule runs_wrap_err [OF runs_quiesce]) (auto simp: ends_quiesced_def)
  show ?thesis
    by (rule runs_bind [OF raise quiesce])
      (auto simp: ends_quiesced_append list_all_settled_calm ends_quiesced_def)
qed

definition safely_stopped :: "Pod list \<Rightarrow> uint32 \<Rightarrow> bool \<Rightarrow> string list \<Rightarrow> ('e, unit) res \<Rightarrow> trace \<Rightarrow> bool" where
  "safely_stopped pods mfd drain hosts r t \<longleftrightarrow>
     (if r = Ok () then \<exists>before after removed. calm before \<and> list_all (settled mfd drain hosts) after \<and>
        t = before @ (CIsClusterAndStable hosts, True) # after @
          [(CInfoQuiesce hosts (map PodName (filter connectable pods)) removed, True)]
      else calm t)"

lemma safely_stoppedI:
  "calm before \<Longrightarrow> list_all (settled mfd drain hosts) after \<Longrightarrow>
   t = before @ (CIsClusterAndStable hosts, True) # after @
     [(CInfoQuiesce hosts (map PodName (filter connectable pods)) removed, True)] \<Longrightarrow>
   safely_stopped pods mfd drain hosts (Ok ()) t"
  unfolding safely_stopped_def by auto

lemma safely_stoppedE:
  assumes "safely_stopped pods mfd drain hosts (Ok ()) t"
  obtains before after removed where "calm before" "list_all (settled mfd drain hosts) after"
    "t = before @ (CIsClusterAndStable hosts, True) # after @
       [(CInfoQuiesce hosts (map PodName (filter connectable pods)) removed, True)]"
  using assms unfolding safely_stopped_def by auto

lemma safely_stopped_append:
  assumes "calm t0" and "safely_stopped pods mfd drain hosts r t"
  shows "safely_stopped pods mfd drain hosts r (t0 @ t)"
proof (cases "r = Ok ()")
  case True
  with assms(2) obtain before after removed where "calm before" "list_all (settled mfd drain hosts) after"
    "t = before @ (CIsClusterAndStable hosts, True) # after @
       [(CInfoQuiesce hosts (map PodName (filter connectable pods)) removed, True)]"
    by (auto elim: safely_stoppedE)
  with assms(1) True show ?thesis by (auto intro: safely_stoppedI [where before = "t0 @ before"])
qed (use assms in \<open>auto simp: safely_stopped_def\<close>)

lemma stable_then_quiesced:
  assumes "ends_stable hosts (Ok ()) t" and "ends_quiesced mfd drain hosts pods r t'"
  shows "safely_stopped pods mfd drain hosts r (t @ t')"
  using assms unfolding ends_stable_def ends_quiesced_def safely_stopped_def
  by (auto split: if_splits)

lemma runs_stop:
  "runs (bind (waitForClusterStability api hosts) (\<lambda>_.
     bind (stable_roster api ign hosts) (\<lambda>_.
     bind (if drain \<and> mfd > 0 then setMigrateFillDelay api mfd ign (Some hosts) False else ret ())
       (\<lambda>_. wrap_err ReconcileError (quiescePods api hosts pods ign))))) (safely_stopped pods mfd drain hosts)"
proof -
  let ?tail = "\<lambda>_. bind (if drain \<and> mfd > 0 then setMigrateFillDelay api mfd ign (Some hosts) False else ret ())
       (\<lambda>_. wrap_err ReconcileError (quiescePods api hosts pods ign))"
  let ?Q = "\<lambda>r t. ends_quiesced mfd drain hosts pods r t \<or> safely_stopped pods mfd drain hosts r t"
  have step: "?Q r (t @ t')" if "Ok a = Ok () \<and> t = [] \<or> ends_stable hosts (Ok a) t"
    "ends_quiesced mfd drain hosts pods r t'" for a and r :: "(ReconcileResult, unit) res" and t t'
    using that stable_then_quiesced [of hosts t mfd drain pods r t'] by auto
  have rest: "runs (bind (stable_roster api ign hosts) ?tail) ?Q"
    by (rule runs_bind [OF runs_roster runs_raise_and_quiesce])
       (erule (1) step | (auto simp: safely_stopped_def ends_stable_def)[1])+
  have last: "safely_stopped pods mfd drain hosts r (t @ t')" if "ends_stable hosts (Ok a) t" "?Q r t'"
    for a and r :: "(ReconcileResult, unit) res" and t t'
  proof -
    have "calm t" using that(1) by (simp add: ends_stable_def)
    with that(1) that(2) show ?thesis
      using stable_then_quiesced [of hosts t mfd drain pods r t'] safely_stopped_append [of t pods mfd drain hosts r t']
      by auto
  qed
  show ?thesis
    by (rule runs_bind [OF runs_stability rest])
       (erule (1) last | (auto simp: safely_stopped_def ends_stable_def)[1])+
qed

definition safe_stop_trace :: "Pod list \<Rightarrow> string list \<Rightarrow> uint32 \<Rightarrow> bool \<Rightarrow> ('e, unit) res \<Rightarrow> trace \<Rightarrow> bool" where
  "safe_stop_trace pods ign mfd drain r t \<longleftrightarrow>
     (if r = Ok () then \<exists>hosts. (2 \<le> length hosts \<or> ign = []) \<and> safely_stopped pods mfd drain hosts r t
      else calm t)"

lemma safe_stop_trace_append:
  "calm t0 \<Longrightarrow> safe_stop_trace pods ign mfd drain r t \<Longrightarrow> safe_stop_trace pods ign mfd drain r (t0 @ t)"
  by (auto simp: safe_stop_trace_def intro: safely_stopped_append split: if_splits)

lemma safe_stop_trace_stopped:
  "2 \<le> length hosts \<or> ign = [] \<Longrightarrow> safely_stopped pods mfd drain hosts r t \<Longrightarrow>
   safe_stop_trace pods ign mfd drain r t"
  by (auto simp: safe_stop_trace_def safely_stopped_def split: if_splits)

lemma runs_safe_stop:
  assumes "pods \<noteq> []"
  shows "runs (waitForMultipleNodesSafeStopReady api pods ign mfd drain) (safe_stop_trace pods ign mfd drain)"
proof -
  have mfd: "runs (setMigrateFillDelay api d ign (Some hosts) False) (\<lambda>r t. calm t)" for d hosts
    by (rule runs_calm [OF only_set_mfd]) (auto elim!: quiesced.elims)
  have ready: "runs (wrap_err g (waitForAllAerospikeServersReady api ign)) (\<lambda>r t. calm t)"
    for g :: "wait_error \<Rightarrow> ReconcileResult"
    by (rule runs_wrap_err [OF runs_calm [OF only_servers_ready]]) (auto simp: read_not_quiesced)
  have conns: "runs (host_conns_or_error api ign) (\<lambda>r t. calm t)"
    by (rule runs_calm [OF only_host_conns]) (simp add: read_not_quiesced)
  have stop: "runs (bind (setMigrateFillDelay api d ign (Some hosts) False) (\<lambda>_.
     bind (waitForClusterStability api hosts) (\<lambda>_.
     bind (stable_roster api ign hosts) (\<lambda>_.
     bind (if drain \<and> mfd > 0 then setMigrateFillDelay api mfd ign (Some hosts) False else ret ())
       (\<lambda>_. wrap_err ReconcileError (quiescePods api hosts pods ign))))))
     (safely_stopped pods mfd drain hosts)" for d hosts
    by (rule runs_bind [OF mfd runs_stop])
       (erule (1) safely_stopped_append | simp add: safely_stopped_def)+
  have guarded: "runs (if length hosts < 2 \<and> ign \<noteq> [] then fail (ReconcileError e)
      else bind (setMigrateFillDelay api d ign (Some hosts) False) (\<lambda>_.
     bind (waitForClusterStability api hosts) (\<lambda>_.
     bind (stable_roster api ign hosts) (\<lambda>_.
     bind (if drain \<and> mfd > 0 then setMigrateFillDelay api mfd ign (Some hosts) False else ret ())
       (\<lambda>_. wrap_err ReconcileError (quiescePods api hosts pods ign))))))
     (safe_stop_trace pods ign mfd drain)" for d e hosts
  proof (rule runs_if)
    assume "\<not> (length hosts < 2 \<and> ign \<noteq> [])"
    then show "runs (bind (setMigrateFillDelay api d ign (Some hosts) False) (\<lambda>_.
     bind (waitForClusterStability api hosts) (\<lambda>_.
     bind (stable_roster api ign hosts) (\<lambda>_.
     bind (if drain \<and> mfd > 0 then setMigrateFillDelay api mfd ign (Some hosts) False else ret ())
       (\<lambda>_. wrap_err ReconcileError (quiescePods api hosts pods ign))))))
     (safe_stop_trace pods ign mfd drain)"
      by (intro runs_mono [OF stop] safe_stop_trace_stopped) auto
  qed (auto intro: runs_fail simp: safe_stop_trace_def)
  have connected: "runs (bind (host_conns_or_error api ign) (\<lambda>hosts.
      if length hosts < 2 \<and> ign \<noteq> [] then fail (ReconcileError e)
      else bind (setMigrateFillDelay api d ign (Some hosts) False) (\<lambda>_.
     bind (waitForClusterStability api hosts) (\<lambda>_.
     bind (stable_roster api ign hosts) (\<lambda>_.
     bind (if drain \<and> mfd > 0 then setMigrateFillDelay api mfd ign (Some hosts) False else ret ())
       (\<lambda>_. wrap_err ReconcileError (quiescePods api hosts pods ign)))))))
     (safe_stop_trace pods ign mfd drain)" for d e
    by (rule runs_bind [OF conns guarded])
       (erule (1) safe_stop_trace_append | simp add: safe_stop_trace_def)+
  show ?thesis
    unfolding waitForMultipleNodesSafeStopReady_def Let_def if_not_P [OF assms]
    by (rule runs_bind [OF ready connected])
       (erule (1) safe_stop_trace_append | simp add: safe_stop_trace_def)+
qed


text \<open>A cluster of two running pods in one rack, whose API always answers.\<close>

definition info_cluster :: AerospikeCluster where
  "info_cluster = \<lparr>ClusterName = ''cl'', ClusterNamespace = ''ns'', ClusterLabels = [],
     ClusterSpec = no_spec\<lparr>SpecSize := 2,
       SpecAerospikeConfig := \<lparr>Value = Some [(ConfKeyNetwork, GMap [(ConfKeyNetworkService, GMap [(ConfKeyPort, GFloat64 3000)])])]\<rparr>,
       SpecRacks := [example_rack [example_ns ''a'' []]]\<rparr>,
     ClusterStatus = no_status\<lparr>StAerospikeConfig := Some \<lparr>Value = None\<rparr>\<rparr>\<rparr>"

definition info_pods :: "Pod list" where
  "info_pods = [server_pod ''cl-1-0'' ''n1'' [], server_pod ''cl-1-1'' ''n2'' []]"

definition info_api :: "nat api" where
  "info_api = \<lparr>ApiNow = int, ApiGraceEnv = [], ApiDesiredEnv = (\<lambda>_. None), ApiSleep = (\<lambda>d w. w + nat d),
     ApiListPods = (\<lambda>w. (Inr info_pods, w)), ApiGetPod = (\<lambda>n w. (Inr (server_pod n ''n1'' []), w)),
     ApiGetSTS = (\<lambda>n w. (Inr \<lparr>StsName = n, StsReplicas = 2, StsStatusReplicas = 2\<rparr>, w)),
     ApiExec = (\<lambda>_ _ w. (Inr (), w)), ApiPatchDirtyVolumes = (\<lambda>_ _ w. (Inr [], w)),
     ApiPatchMigrateFillDelay = (\<lambda>d w. (Inr d, w)), ApiListPVCs = (\<lambda>_ _ w. (Inr [], w)),
     ApiDeletePVC = (\<lambda>_ w. (Inr (), w)), ApiDeletePod = (\<lambda>_ w. (Inr (), w)),
     ApiGetCluster = (\<lambda>w. Inr info_cluster), ApiPatchStatus = (\<lambda>_ w. (None, w)),
     ApiSetMigrateFillDelay = (\<lambda>_ _ w. (Inr (), w)), ApiIsClusterAndStable = (\<lambda>_ w. (Inr (20 \<le> w), w)),
     ApiGetClusterNamespaces = (\<lambda>_ w. (Inr [], w)), ApiManageRoster = (\<lambda>_ _ _ _ w. (Inr (), w)),
     ApiValidateSC = (\<lambda>_ _ w. (Inr (), w)), ApiInfoQuiesce = (\<lambda>_ _ _ w. (Inr (), w)),
     ApiParseConf = (\<lambda>_. Inr []), ApiCheckpointSave = (\<lambda>_ w. (Inr CheckpointSaveNothingToDo, w)),
     ApiSkipCheckpoint = (\<lambda>_ _ w. (Inr (), w)), ApiMarkParked = (\<lambda>_ _ w. (Inr (), w))\<rparr>"

definition info_state :: "nat rst" where
  "info_state = \<lparr>CtCluster = info_cluster, CtWorld = 0\<rparr>"

lemma info_safe_stop:
  "fst (waitForMultipleNodesSafeStopReady info_api [hd info_pods] [] 30 True info_state) = Ok ()"
  by code_simp


end
