(* ===== verification/Pod_Restart.thy ===== *)
theory Pod_Restart
  imports Cluster_Info
begin

text \<open>
  The restart and the upgrade of a batch of pods (\<^verbatim>\<open>rollingRestartPods\<close>, \<^verbatim>\<open>restartPods\<close>,
  \<^verbatim>\<open>safelyDeletePodsAndEnsureImageUpdated\<close>, \<^verbatim>\<open>deletePodAndEnsureImageUpdated\<close> and what they call in
  \<^verbatim>\<open>internal/controller/cluster/pod.go\<close>, \<^verbatim>\<open>pvc.go\<close>, \<^verbatim>\<open>statefulset.go\<close>, and the index checkpoint of
  \<^verbatim>\<open>aero_info_calls.go\<close>).
\<close>

section \<open>Commands in a pod\<close>

definition exec :: "'w api \<Rightarrow> string \<Rightarrow> string list \<Rightarrow> ('w, string, unit) prog" where
  "exec api podName cmd = issue (CExec podName cmd) (ApiExec api podName cmd)"

definition deleteFileStorage :: "'w api \<Rightarrow> string \<Rightarrow> string \<Rightarrow> ('w, string, unit) prog" where
  "deleteFileStorage api podName fileName =
     wrap_err (\<lambda>e. ''delete file: '' @ e) (exec api podName [''bash'', ''-c'', ''rm -rf '' @ fileName])"

definition initBinary :: string where "initBinary = ''/etc/aerospike/akoinit''"

definition restartASDOrUpdateAerospikeConf :: "'w api \<Rightarrow> string \<Rightarrow> RestartType \<Rightarrow> ('w, string, unit) prog" where
  "restartASDOrUpdateAerospikeConf api podName operation =
     bind get_cluster (\<lambda>c.
     bind (from_res (res_map_err (\<lambda>_. ''get rack ID for Pod '' @ podName)
             (GetRackIDAndRevisionFromPodName (ClusterName c) podName))) (\<lambda>(rackID, rackRevision).
       let cmName = GetNamespacedNameForSTSOrConfigMap c (GetRackIdentifier rackID rackRevision) in
       if operation = noRestart \<or> operation = podRestart then fail ''invalid operation for akoinit''
       else
         let subCommand = (if operation = quickRestart then ''quick-restart'' else ''update-conf'') in
         bind (attempt (exec api podName [initBinary, subCommand, ''--cm-name'', ObjName cmName,
                          ''--cm-namespace'', ObjNamespace cmName])) (\<lambda>r.
           case r of
             Inr _ \<Rightarrow> ret ()
           | Inl err \<Rightarrow>
               if Contains err (initBinary @ '': no such file or directory'')
               then wrap_err (\<lambda>e. ''warm restart: '' @ e)
                      (exec api podName [''bash'', ''/etc/aerospike/refresh-cmap-restart-asd.sh'',
                         ObjNamespace cmName, ObjName cmName])
               else fail (''exec on Pod: '' @ err))))"

definition updateAerospikeConfInPod :: "'w api \<Rightarrow> string \<Rightarrow> ('w, string, unit) prog" where
  "updateAerospikeConfInPod api podName = restartASDOrUpdateAerospikeConf api podName noRestartUpdateConf"

section \<open>Removed devices and files\<close>

definition handleNSOrDeviceRemovalPerPod ::
  "'w api \<Rightarrow> string list \<Rightarrow> string list \<Rightarrow> string \<Rightarrow> ('w, string, unit) prog" where
  "handleNSOrDeviceRemovalPerPod api removedDevices removedFiles podName =
     bind get_cluster (\<lambda>c.
       let podStatus = pod_status c podName in
       bind (each (deleteFileStorage api podName) removedFiles) (\<lambda>_.
         if removedDevices = [] then ret ()
         else
           let dirtyVolumes = sort (remdups (removedDevices @ PsDirtyVolumes podStatus)) in
           bind (wrap_err (\<lambda>e. ''update status: '' @ e)
                   (issue (CPatchDirtyVolumes podName dirtyVolumes) (ApiPatchDirtyVolumes api podName dirtyVolumes)))
             (\<lambda>pods. set_cluster (c\<lparr>ClusterStatus := (ClusterStatus c)\<lparr>StPods := pods\<rparr>\<rparr>))))"

definition handleNSOrDeviceRemoval :: "'w api \<Rightarrow> RackState \<Rightarrow> Pod list \<Rightarrow> ('w, string, unit) prog" where
  "handleNSOrDeviceRemoval api rackState batch =
     bind get_cluster (\<lambda>c.
     bind (from_res (removed_devices_and_files (StRacks (ClusterStatus c)) (RsRack rackState))) (\<lambda>removed.
       case removed of
         None \<Rightarrow> ret ()
       | Some (removedDevices, removedFiles) \<Rightarrow>
           each (\<lambda>pod. handleNSOrDeviceRemovalPerPod api removedDevices removedFiles (PodName pod)) batch))"

section \<open>Index checkpoints\<close>

text \<open>\<open>ApiParseConf\<close> parses the rendered configuration and gives its JSON form.\<close>

definition runningAerospikeConfig :: "'w api \<Rightarrow> Pod \<Rightarrow> (string, gval gomap option) res" where
  "runningAerospikeConfig api pod =
     (case gomap_get (PodAnnotations pod) AerospikeConfAnnotation of
        None \<Rightarrow> Ok None
      | Some confStr \<Rightarrow>
          if confStr = [] then Ok None
          else (case ApiParseConf api confStr of
                  Inl e \<Rightarrow> Err (''parse annotation: '' @ e) | Inr conf \<Rightarrow> Ok (Some conf)))"

definition size_of_ns :: "int gomap \<Rightarrow> string \<Rightarrow> int" where
  "size_of_ns sizes ns = (case gomap_get sizes ns of None \<Rightarrow> 0 | Some n \<Rightarrow> n)"

definition splitCheckpointNamespaces :: "gval gomap \<Rightarrow> gval gomap \<Rightarrow> string list \<times> string list" where
  "splitCheckpointNamespaces runningConf specConf =
     (let runningNSs = GetIndexCheckpointNamespaces runningConf in
      if runningNSs = [] then ([], [])
      else if GetIndexCheckpointPath runningConf \<noteq> GetIndexCheckpointPath specConf then ([], runningNSs)
      else
        let specNSs = GetIndexCheckpointNamespaces specConf;
            oldSizes = GetInMemoryNsDataSizes runningConf;
            newSizes = GetInMemoryNsDataSizes specConf;
            eligible = (\<lambda>ns. ns \<in> set specNSs \<and> size_of_ns oldSizes ns = size_of_ns newSizes ns)
        in (filter eligible runningNSs, filter (\<lambda>ns. \<not> eligible ns) runningNSs))"

definition connect :: "('w, 'e, unit) prog" where
  "connect = bind get_cluster (\<lambda>c. case newAsConn c of Ok _ \<Rightarrow> ret () | _ \<Rightarrow> from_res Panic)"

definition skipCheckpointForNamespaces :: "'w api \<Rightarrow> Pod \<Rightarrow> string list \<Rightarrow> ('w, 'e, unit) prog" where
  "skipCheckpointForNamespaces api pod skippedNSs =
     (if skippedNSs = [] then ret ()
      else bind connect (\<lambda>_. each (\<lambda>ns.
        bind (attempt (issue (CSkipCheckpoint (PodName pod) ns) (ApiSkipCheckpoint api (PodName pod) ns)))
          (\<lambda>_. ret ())) skippedNSs))"

definition markPodCheckpointParked :: "'w api \<Rightarrow> Pod \<Rightarrow> ('w, 'e, unit) prog" where
  "markPodCheckpointParked api pod =
     (let containerID = GetAerospikeServerContainerID pod in
      if containerID = [] then ret ()
      else bind (attempt (issue (CMarkParked (PodName pod) containerID) (ApiMarkParked api (PodName pod) containerID)))
             (\<lambda>_. ret ()))"

text \<open>Whether the server of the pod is now saving its index.\<close>

definition checkpoint_pod :: "'w api \<Rightarrow> RackState \<Rightarrow> Pod \<Rightarrow> ('w, ReconcileResult, bool) prog" where
  "checkpoint_pod api rackState pod =
     bind (from_res (res_map_err ReconcileError (runningAerospikeConfig api pod))) (\<lambda>runningConf.
       case runningConf of
         None \<Rightarrow> ret False
       | Some conf \<Rightarrow>
           let (eligibleNSs, skipNSs) = splitCheckpointNamespaces conf (conf_map (RackAerospikeConfig (RsRack rackState)))
           in if eligibleNSs = [] then ret False
              else
                bind (skipCheckpointForNamespaces api pod skipNSs) (\<lambda>_.
                bind connect (\<lambda>_.
                bind (wrap_err (\<lambda>e. ReconcileError (''checkpoint-save: '' @ e))
                        (issue (CCheckpointSave (PodName pod)) (ApiCheckpointSave api (PodName pod)))) (\<lambda>verdict.
                  case verdict of
                    CheckpointSaveRejected \<Rightarrow> fail (ReconcileError (''checkpoint-save rejected by Pod '' @ PodName pod))
                  | CheckpointSaveAccepted \<Rightarrow> bind (markPodCheckpointParked api pod) (\<lambda>_. ret True)
                  | CheckpointSaveNothingToDo \<Rightarrow> ret False
                  | CheckpointSaveTriggered \<Rightarrow> bind (markPodCheckpointParked api pod) (\<lambda>_. ret True)))))"

fun checkpoint_pods :: "'w api \<Rightarrow> RackState \<Rightarrow> Pod list \<Rightarrow> bool \<Rightarrow> ('w, ReconcileResult, bool) prog" where
  "checkpoint_pods api rackState [] anyParked = ret anyParked"
| "checkpoint_pods api rackState (pod # pods) anyParked =
     bind (checkpoint_pod api rackState pod) (\<lambda>parked. checkpoint_pods api rackState pods (anyParked \<or> parked))"

definition triggerIndexCheckpointSave :: "'w api \<Rightarrow> Pod list \<Rightarrow> RackState \<Rightarrow> ('w, ReconcileResult, unit) prog" where
  "triggerIndexCheckpointSave api pods rackState =
     (if pods = [] then ret ()
      else bind (checkpoint_pods api rackState pods False) (\<lambda>anyParked.
        if anyParked then fail (ReconcileRequeueAfter 1) else ret ()))"

section \<open>Deleting a pod\<close>

definition getPodsPVCList ::
  "'w api \<Rightarrow> string list \<Rightarrow> int \<Rightarrow> string \<Rightarrow> ('w, string, PersistentVolumeClaim list) prog" where
  "getPodsPVCList api podNames rackID rackRevision =
     bind (issue (CListPVCs rackID rackRevision) (ApiListPVCs api rackID rackRevision)) (\<lambda>pvcs.
       ret (concat (map (\<lambda>pvc. map (\<lambda>_. pvc) (filter (HasSuffix (PvcName pvc)) podNames)) pvcs)))"

definition deleteLocalPVCs :: "'w api \<Rightarrow> RackState \<Rightarrow> Pod \<Rightarrow> ('w, string, unit) prog" where
  "deleteLocalPVCs api rackState pod =
     bind (wrap_err (\<lambda>e. ''find PVC for Pod: '' @ e)
             (getPodsPVCList api [PodName pod] (RackID (RsRack rackState)) (RackRevision (RsRack rackState))))
       (each (\<lambda>pvc.
         case PvcStorageClassName pvc of
           None \<Rightarrow> ret ()
         | Some storageClass \<Rightarrow>
             if ContainsString (LocalStorageClasses (RackStorage (RsRack rackState))) storageClass
             then bind (attempt (issue (CDeletePVC (PvcName pvc)) (ApiDeletePVC api (PvcName pvc)))) (\<lambda>r.
                    case r of
                      Inr _ \<Rightarrow> ret ()
                    | Inl e \<Rightarrow> (case e of GetNotFound \<Rightarrow> ret () | GetFailed err \<Rightarrow> fail (''delete PVC: '' @ err)))
             else ret ()))"

definition deletePodWithLocalPVCs :: "'w api \<Rightarrow> RackState \<Rightarrow> Pod \<Rightarrow> bool \<Rightarrow> ('w, string, unit) prog" where
  "deletePodWithLocalPVCs api rackState pod isFailureRecovery =
     bind get_cluster (\<lambda>c.
     bind (if isLocalPVCDeletionRequired c rackState pod isFailureRecovery
           then deleteLocalPVCs api rackState pod else ret ()) (\<lambda>_.
       wrap_err (\<lambda>e. ''delete Pod: '' @ e) (issue (CDeletePod (PodName pod)) (ApiDeletePod api (PodName pod)))))"

section \<open>Waiting for replacements\<close>

fun containers_on_desired_images ::
  "(string \<Rightarrow> string option) \<Rightarrow> AerospikeCluster \<Rightarrow> PodContainer list \<Rightarrow> (string, bool) res" where
  "containers_on_desired_images env c [] = Ok True"
| "containers_on_desired_images env c (container # containers) =
     (case GetDesiredImage env c (KcName container) of
        Err _ \<Rightarrow> containers_on_desired_images env c containers
      | Panic \<Rightarrow> Panic
      | Ok desiredImage \<Rightarrow>
          res_bind (conf_res (IsImageEqual (KcImage container) desiredImage)) (\<lambda>same.
            if \<not> same \<and> KcName container \<noteq> AerospikeInitContainerName then Ok False
            else containers_on_desired_images env c containers))"

definition isPodOnDesiredImage :: "'w api \<Rightarrow> AerospikeCluster \<Rightarrow> Pod \<Rightarrow> (string, bool) res" where
  "isPodOnDesiredImage api c pod =
     res_bind (containers_on_desired_images (ApiDesiredEnv api) c (PodContainers pod)) (\<lambda>ok.
       if ok then containers_on_desired_images (ApiDesiredEnv api) c (PodInitContainers pod) else Ok False)"

definition isPodUpgraded :: "'w api \<Rightarrow> AerospikeCluster \<Rightarrow> Pod \<Rightarrow> (string, bool) res" where
  "isPodUpgraded api c pod = (if IsPodRunningAndReady pod then isPodOnDesiredImage api c pod else Ok False)"

definition ignore_sidecar :: "AerospikeCluster \<Rightarrow> bool" where
  "ignore_sidecar c = GetBool (SpecIgnoreSidecarFailure (ClusterSpec c))"

definition pod_restarted :: "AerospikeCluster \<Rightarrow> Pod \<Rightarrow> (string, bool) res" where
  "pod_restarted c pod = Ok (IsPodRunningAndReady pod \<or> ignore_sidecar c \<and> IsAerospikeServerReady pod)"

definition pod_upgraded :: "'w api \<Rightarrow> AerospikeCluster \<Rightarrow> Pod \<Rightarrow> (string, bool) res" where
  "pod_upgraded api c pod =
     res_bind (isPodUpgraded api c pod) (\<lambda>up.
       if up then Ok True
       else if ignore_sidecar c \<and> IsAerospikeServerReady pod then isPodOnDesiredImage api c pod
       else Ok False)"

text \<open>
  One round over the pods that are not yet done: a failed pod is an error, unless only a sidecar failed
  and such failures are ignored; the first pod that is not done ends the round.
\<close>

fun poll_round ::
  "'w api \<Rightarrow> (AerospikeCluster \<Rightarrow> Pod \<Rightarrow> (string, bool) res) \<Rightarrow> AerospikeCluster \<Rightarrow> Pod list \<Rightarrow> string list \<Rightarrow>
   ('w, ReconcileResult, string list) prog" where
  "poll_round api good c [] names = ret names"
| "poll_round api good c (pod # pods) names =
     (if PodName pod \<in> set names then poll_round api good c pods names
      else
        bind (wrap_err ReconcileError (issue (CGetPod (PodName pod)) (ApiGetPod api (PodName pod)))) (\<lambda>updatedPod.
        bind (read_world (ApiNow api)) (\<lambda>now.
          case CheckPodFailed now (ApiGraceEnv api) updatedPod of
            Some reason \<Rightarrow>
              if ignore_sidecar c \<and> IsAerospikeServerReady updatedPod
              then bind (from_res (res_map_err ReconcileError (good c updatedPod))) (\<lambda>ok.
                     if ok then poll_round api good c pods (names @ [PodName pod]) else ret names)
              else fail (ReconcileError reason)
          | None \<Rightarrow>
              bind (from_res (res_map_err ReconcileError (good c updatedPod))) (\<lambda>ok.
                if ok then poll_round api good c pods (names @ [PodName pod]) else ret names))))"

fun poll_pods ::
  "'w api \<Rightarrow> (AerospikeCluster \<Rightarrow> Pod \<Rightarrow> (string, bool) res) \<Rightarrow> AerospikeCluster \<Rightarrow> Pod list \<Rightarrow> nat \<Rightarrow> string list \<Rightarrow>
   ('w, ReconcileResult, unit) prog" where
  "poll_pods api good c pods 0 names = fail (ReconcileRequeueAfter 10)"
| "poll_pods api good c pods (Suc n) names =
     bind (poll_round api good c pods names) (\<lambda>names'.
       if length names' = length pods then ret ()
       else bind (sleep api 10) (\<lambda>_. poll_pods api good c pods n names'))"

definition ensurePodsRunningAndReady :: "'w api \<Rightarrow> Pod list \<Rightarrow> ('w, ReconcileResult, unit) prog" where
  "ensurePodsRunningAndReady api podsToCheck =
     bind get_cluster (\<lambda>c. poll_pods api pod_restarted c podsToCheck 6 [])"

definition ensurePodsImageUpdated :: "'w api \<Rightarrow> Pod list \<Rightarrow> ('w, ReconcileResult, unit) prog" where
  "ensurePodsImageUpdated api podsToCheck =
     bind get_cluster (\<lambda>c. poll_pods api (pod_upgraded api) c podsToCheck 6 [])"

section \<open>Restarting a batch\<close>

definition record_restarts :: "'w api \<Rightarrow> string list \<Rightarrow> string list \<Rightarrow> ('w, string, unit) prog" where
  "record_restarts api restartedASDPodNames restartedPodNames =
     bind get_cluster (\<lambda>c.
       if next_operations c restartedASDPodNames restartedPodNames = None then ret ()
       else issue (CRecordOperations restartedASDPodNames restartedPodNames) (\<lambda>w.
         case updateOperationStatus (ApiGetCluster api) (ApiPatchStatus api) c restartedASDPodNames
                restartedPodNames w of
           (None, w') \<Rightarrow> (Inr (), w')
         | (Some e, w') \<Rightarrow> (Inl e, w')))"

text \<open>The names of the warm-restarted pods and the deleted pods, in order.\<close>

fun restart_each ::
  "'w api \<Rightarrow> RackState \<Rightarrow> RestartType gomap \<Rightarrow> bool \<Rightarrow> Pod list \<Rightarrow> string list \<Rightarrow> Pod list \<Rightarrow>
   ('w, ReconcileResult, string list \<times> Pod list) prog" where
  "restart_each api rackState types isFailureRecovery [] warm cold = ret (warm, cold)"
| "restart_each api rackState types isFailureRecovery (pod # pods) warm cold =
     (case restart_type_of types (PodName pod) of
        quickRestart \<Rightarrow>
          bind (wrap_err (\<lambda>e. ReconcileError (''warm restart Pod: '' @ e))
                  (restartASDOrUpdateAerospikeConf api (PodName pod) quickRestart)) (\<lambda>_.
            restart_each api rackState types isFailureRecovery pods (warm @ [PodName pod]) cold)
      | podRestart \<Rightarrow>
          bind (wrap_err ReconcileError (deletePodWithLocalPVCs api rackState pod isFailureRecovery)) (\<lambda>_.
            restart_each api rackState types isFailureRecovery pods warm (cold @ [pod]))
      | noRestart \<Rightarrow> restart_each api rackState types isFailureRecovery pods warm cold
      | noRestartUpdateConf \<Rightarrow> restart_each api rackState types isFailureRecovery pods warm cold)"

definition restartPods ::
  "'w api \<Rightarrow> RackState \<Rightarrow> Pod list \<Rightarrow> RestartType gomap \<Rightarrow> bool \<Rightarrow> ('w, ReconcileResult, unit) prog" where
  "restartPods api rackState batch restartTypeMap isFailureRecovery =
     bind (wrap_err ReconcileError (handleNSOrDeviceRemoval api rackState batch)) (\<lambda>_.
     bind (if isFailureRecovery then ret ()
           else triggerIndexCheckpointSave api (podsWithRestartType batch restartTypeMap podRestart) rackState) (\<lambda>_.
     bind (restart_each api rackState restartTypeMap isFailureRecovery batch [] []) (\<lambda>(restartedASDPodNames, restartedPods).
     bind (wrap_err ReconcileError (record_restarts api restartedASDPodNames (map PodName restartedPods))) (\<lambda>_.
       if restartedPods \<noteq> [] then ensurePodsRunningAndReady api restartedPods else ret ()))))"

text \<open>
  Failed pods first, then active ones behind a safe stop; pods that failed only just now are left alone
  and end the batch with a requeue. The clock is read once for the batch.
\<close>

definition rollingRestartPods ::
  "'w api \<Rightarrow> RackState \<Rightarrow> Pod list \<Rightarrow> string list \<Rightarrow> RestartType gomap \<Rightarrow> ('w, ReconcileResult, unit) prog" where
  "rollingRestartPods api rackState batch ignorablePodNames restartTypeMap =
     bind (read_world (ApiNow api)) (\<lambda>now.
       let (failedPods, failedWithinGracePeriodPods, activePods) =
             getServerFailedAndActivePods now (ApiGraceEnv api) batch True in
       bind (if failedPods \<noteq> [] then restartPods api rackState failedPods restartTypeMap True else ret ()) (\<lambda>_.
       bind (if activePods \<noteq> []
             then
               bind get_cluster (\<lambda>c.
               bind (from_res (res_map_err (\<lambda>_. ReconcileError ''resolve migrate-fill-delay'')
                       (mfdDelayForRestart c rackState batch (Some restartTypeMap)))) (\<lambda>(migrateFillDelay, drain).
               bind (waitForMultipleNodesSafeStopReady api activePods ignorablePodNames migrateFillDelay drain) (\<lambda>_.
                 restartPods api rackState activePods restartTypeMap False)))
             else ret ()) (\<lambda>_.
         if failedWithinGracePeriodPods \<noteq> [] then fail (ReconcileRequeueAfter 10) else ret ())))"

section \<open>Upgrading a batch\<close>

definition deletePodAndEnsureImageUpdated ::
  "'w api \<Rightarrow> RackState \<Rightarrow> Pod list \<Rightarrow> bool \<Rightarrow> ('w, ReconcileResult, unit) prog" where
  "deletePodAndEnsureImageUpdated api rackState podsToUpdate isFailureRecovery =
     bind (wrap_err ReconcileError (handleNSOrDeviceRemoval api rackState podsToUpdate)) (\<lambda>_.
     bind (if isFailureRecovery then ret () else triggerIndexCheckpointSave api podsToUpdate rackState) (\<lambda>_.
     bind (wrap_err ReconcileError
             (each (\<lambda>pod. deletePodWithLocalPVCs api rackState pod isFailureRecovery) podsToUpdate)) (\<lambda>_.
       ensurePodsImageUpdated api podsToUpdate)))"

definition safelyDeletePodsAndEnsureImageUpdated ::
  "'w api \<Rightarrow> RackState \<Rightarrow> Pod list \<Rightarrow> string list \<Rightarrow> ('w, ReconcileResult, unit) prog" where
  "safelyDeletePodsAndEnsureImageUpdated api rackState podsToUpdate ignorablePodNames =
     bind (read_world (ApiNow api)) (\<lambda>now.
       let (failedPods, failedWithinGracePeriodPods, activePods) =
             getServerFailedAndActivePods now (ApiGraceEnv api) podsToUpdate True in
       bind (if failedPods \<noteq> [] then deletePodAndEnsureImageUpdated api rackState failedPods True else ret ()) (\<lambda>_.
       bind (if activePods \<noteq> []
             then
               bind get_cluster (\<lambda>c.
               bind (from_res (res_map_err (\<lambda>_. ReconcileError ''invalid migrate-fill-delay'')
                       (mfdDelayForRestart c rackState [] None))) (\<lambda>(migrateFillDelay, drain).
               bind (waitForMultipleNodesSafeStopReady api activePods ignorablePodNames migrateFillDelay drain) (\<lambda>_.
                 deletePodAndEnsureImageUpdated api rackState activePods False)))
             else ret ()) (\<lambda>_.
         if failedWithinGracePeriodPods \<noteq> [] then fail (ReconcileRequeueAfter 10) else ret ())))"

section \<open>Which pods are touched\<close>

fun pod_of :: "call \<Rightarrow> string option" where
  "pod_of (CExec n _) = Some n"
| "pod_of (CPatchDirtyVolumes n _) = Some n"
| "pod_of (CDeletePod n) = Some n"
| "pod_of (CCheckpointSave n) = Some n"
| "pod_of (CSkipCheckpoint n _) = Some n"
| "pod_of (CMarkParked n _) = Some n"
| "pod_of _ = None"

fun deletes_volume :: "call \<Rightarrow> bool" where
  "deletes_volume (CDeletePVC _) = True"
| "deletes_volume _ = False"

text \<open>The call acts on one of the named pods or on none; it deletes volumes only if that is allowed.\<close>

definition confined :: "string set \<Rightarrow> bool \<Rightarrow> call \<times> bool \<Rightarrow> bool" where
  "confined N volumes x \<longleftrightarrow> (\<forall>n. pod_of (fst x) = Some n \<longrightarrow> n \<in> N) \<and> (deletes_volume (fst x) \<longrightarrow> volumes)"

lemma confined_mono: "confined N v x \<Longrightarrow> N \<subseteq> M \<Longrightarrow> (v \<Longrightarrow> w) \<Longrightarrow> confined M w x"
  by (auto simp: confined_def)

lemma confined_read: "is_read x \<Longrightarrow> confined N v x"
  by (cases x rule: is_read.cases) (auto simp: confined_def)

lemma only_exec: "n \<in> N \<Longrightarrow> only (confined N v) (exec api n cmd)"
  unfolding exec_def by (intro trace_rules) (simp add: confined_def)

lemma only_restart_asd: "n \<in> N \<Longrightarrow> only (confined N v) (restartASDOrUpdateAerospikeConf api n op)"
  unfolding restartASDOrUpdateAerospikeConf_def Let_def
  by (intro trace_rules only_exec) (auto simp: confined_def)

lemma only_removal_per_pod: "n \<in> N \<Longrightarrow> only (confined N v) (handleNSOrDeviceRemovalPerPod api ds fs n)"
  unfolding handleNSOrDeviceRemovalPerPod_def deleteFileStorage_def Let_def
  by (intro trace_rules only_exec) (auto simp: confined_def)

lemma only_removal:
  "PodName ` set pods \<subseteq> N \<Longrightarrow> only (confined N v) (handleNSOrDeviceRemoval api rackState pods)"
  unfolding handleNSOrDeviceRemoval_def
  by (intro trace_rules only_removal_per_pod) auto

lemma only_connect: "only A connect"
  unfolding connect_def by (intro trace_rules) (auto intro: trace_rules split: res.splits)

lemma only_checkpoint_pod: "PodName pod \<in> N \<Longrightarrow> only (confined N v) (checkpoint_pod api rackState pod)"
  unfolding checkpoint_pod_def skipCheckpointForNamespaces_def markPodCheckpointParked_def Let_def
  by (intro trace_rules only_connect)
     (auto simp: confined_def intro!: trace_rules only_connect split: CheckpointSaveVerdict.splits)

lemma only_checkpoint_pods: "PodName ` set pods \<subseteq> N \<Longrightarrow> only (confined N v) (checkpoint_pods api rackState pods any)"
  by (induction pods arbitrary: any) (auto intro!: trace_rules only_checkpoint_pod)

lemma only_checkpoint: "PodName ` set pods \<subseteq> N \<Longrightarrow> only (confined N v) (triggerIndexCheckpointSave api pods rackState)"
  unfolding triggerIndexCheckpointSave_def by (intro trace_rules only_checkpoint_pods)

lemma only_delete_local: "only (confined N True) (deleteLocalPVCs api rackState pod)"
  unfolding deleteLocalPVCs_def getPodsPVCList_def
  by (intro trace_rules) (auto simp: confined_def intro!: trace_rules split: get_error.splits)

lemma only_delete_pod:
  assumes "PodName pod \<in> N"
    and "recovery \<Longrightarrow> GetBool (DeleteLocalStorageOnPodRecovery (RackStorage (RsRack rackState))) \<Longrightarrow> v"
    and "\<not> recovery \<Longrightarrow> v"
  shows "only (confined N v) (deletePodWithLocalPVCs api rackState pod recovery)"
proof -
  have "only (confined N v) (deleteLocalPVCs api rackState pod)"
    if "isLocalPVCDeletionRequired c rackState pod recovery" for c
  proof -
    have v using that assms(2,3) by (cases recovery) (auto simp: isLocalPVCDeletionRequired_def)
    then show ?thesis using only_delete_local [of N api rackState pod] by simp
  qed
  with assms(1) show ?thesis
    unfolding deletePodWithLocalPVCs_def by (auto simp: confined_def intro!: trace_rules)
qed

lemma only_poll_round: "only is_read (poll_round api good c pods names)"
  by (induction pods arbitrary: names) (auto intro!: trace_rules)

lemma only_poll_pods: "only is_read (poll_pods api good c pods n names)"
  by (induction n arbitrary: names) (auto intro!: trace_rules only_poll_round simp: sleep_def)

lemma only_ensure:
  "only (confined N v) (ensurePodsRunningAndReady api pods)" "only (confined N v) (ensurePodsImageUpdated api pods)"
  unfolding ensurePodsRunningAndReady_def ensurePodsImageUpdated_def
  by (intro trace_rules only_mono [OF only_poll_pods], simp add: confined_read)+

lemma only_record: "only (confined N v) (record_restarts api warm cold)"
  unfolding record_restarts_def by (intro trace_rules) (simp add: confined_def)

lemma only_restart_each:
  assumes "PodName ` set pods \<subseteq> N"
    and "recovery \<Longrightarrow> GetBool (DeleteLocalStorageOnPodRecovery (RackStorage (RsRack rackState))) \<Longrightarrow> v"
    and "\<not> recovery \<Longrightarrow> v"
  shows "only (confined N v) (restart_each api rackState types recovery pods warm cold)"
  using assms(1)
proof (induction pods arbitrary: warm cold)
  case (Cons pod pods)
  then show ?case
    using only_delete_pod [of pod N recovery rackState v api, OF _ assms(2,3)]
    by (auto intro!: trace_rules only_restart_asd split: RestartType.splits)
qed (auto intro: trace_rules)

lemma only_restartPods:
  assumes "PodName ` set pods \<subseteq> N"
    and "recovery \<Longrightarrow> GetBool (DeleteLocalStorageOnPodRecovery (RackStorage (RsRack rackState))) \<Longrightarrow> v"
    and "\<not> recovery \<Longrightarrow> v"
  shows "only (confined N v) (restartPods api rackState pods types recovery)"
  unfolding restartPods_def
  by (intro trace_rules only_removal only_checkpoint only_restart_each only_record only_ensure)
     (use assms in \<open>auto simp: podsWithRestartType_def\<close>)

lemma only_upgradePods:
  assumes "PodName ` set pods \<subseteq> N"
    and "recovery \<Longrightarrow> GetBool (DeleteLocalStorageOnPodRecovery (RackStorage (RsRack rackState))) \<Longrightarrow> v"
    and "\<not> recovery \<Longrightarrow> v"
  shows "only (confined N v) (deletePodAndEnsureImageUpdated api rackState pods recovery)"
  unfolding deletePodAndEnsureImageUpdated_def
  by (intro trace_rules only_removal only_checkpoint only_delete_pod only_ensure) (use assms in auto)

text \<open>The calls of a safe stop, and of the other steps that change neither pods nor StatefulSets.\<close>

fun is_stop_call :: "call \<times> bool \<Rightarrow> bool" where
  "is_stop_call (CSetMigrateFillDelay _ _, _) = True"
| "is_stop_call (CPatchMigrateFillDelay _, _) = True"
| "is_stop_call (CIsClusterAndStable _, _) = True"
| "is_stop_call (CManageRoster _ _ _ _, _) = True"
| "is_stop_call (CInfoQuiesce _ _ _, _) = True"
| "is_stop_call (CValidateSC _ _, _) = True"
| "is_stop_call (CListRackPods _ _, _) = True"
| "is_stop_call (CSetCondition _, _) = True"
| "is_stop_call x = is_read x"

lemma read_is_stop: "is_read x \<Longrightarrow> is_stop_call x"
  by (cases x rule: is_read.cases) auto

lemma only_stop_reads:
  "only is_stop_call (waitForAllAerospikeServersReady api ign)" "only is_stop_call (host_conns_or_error api ign)"
  "only is_stop_call (waitForSTSPodsServerReady api st ign)" "only is_stop_call (waitForSTSToBeReady api st ign)"
  "only is_stop_call (waitForAllSTSToBeReady api ign)"
  by (rule only_mono [OF only_servers_ready] only_mono [OF only_host_conns] only_mono [OF only_sts_servers_ready]
        only_mono [OF only_sts_ready] only_mono [OF only_all_sts_ready], erule read_is_stop)+

lemma only_stability: "only is_stop_call (waitForClusterStability api hosts)"
proof -
  have "only is_stop_call (wait_stable api hosts n)" for n
    by (induction n) (auto intro!: trace_rules simp: sleep_def)
  then show ?thesis by (simp add: waitForClusterStability_def)
qed

lemma only_safe_stop_calls: "only is_stop_call (waitForMultipleNodesSafeStopReady api pods ign mfd drain)"
proof -
  have mfd: "only is_stop_call (setMigrateFillDelay api d ign (Some hosts) False)" for d hosts
    by (rule only_mono [OF only_set_mfd]) auto
  show ?thesis
    unfolding waitForMultipleNodesSafeStopReady_def stable_roster_def quiescePods_def getAndSetRoster_def
      newAllHostConnWithOption_def getClusterPodList_def getIgnorableNamespaces_def Let_def
    by (intro trace_rules only_stop_reads mfd only_stability) auto
qed

lemma only_safe_stop: "only (confined {} False) (waitForMultipleNodesSafeStopReady api pods ign mfd drain)"
proof (rule only_mono [OF only_safe_stop_calls])
  show "confined {} False x" if "is_stop_call x" for x
    using that by (cases x rule: is_stop_call.cases) (auto simp: confined_def confined_read elim: is_read.elims)
qed

lemma runs_conj: "runs m P \<Longrightarrow> runs m Q \<Longrightarrow> runs m (\<lambda>r t. P r t \<and> Q r t)"
  by (auto simp: runs_def split: prod.splits)

definition quiesce_of :: "Pod list \<Rightarrow> trace \<Rightarrow> bool" where
  "quiesce_of pods t \<longleftrightarrow> (\<exists>before hosts removed.
     t = before @ [(CInfoQuiesce hosts (map PodName (filter connectable pods)) removed, True)])"

text \<open>
  A trace in two parts: the first acts on the pods \<open>F\<close> only, the second on the pods \<open>A\<close> only, and if the
  second is not empty then the first ends with the quiesce of the active pods.
\<close>

definition staged :: "string set \<Rightarrow> bool \<Rightarrow> string set \<Rightarrow> Pod list \<Rightarrow> trace \<Rightarrow> bool" where
  "staged F volumes A active t \<longleftrightarrow> (\<exists>t1 t2. t = t1 @ t2 \<and> list_all (confined F volumes) t1 \<and>
     list_all (confined A True) t2 \<and> (t2 = [] \<or> quiesce_of active t1))"

lemma quiesce_of_append: "quiesce_of pods t \<Longrightarrow> quiesce_of pods (t0 @ t)"
  unfolding quiesce_of_def by (metis append.assoc)

lemma staged_first: "list_all (confined F v) t \<Longrightarrow> staged F v A active t"
  unfolding staged_def by (intro exI [of _ t] exI [of _ "[]"]) simp

lemma staged_append:
  assumes "list_all (confined F v) t0" and "staged F v A active t"
  shows "staged F v A active (t0 @ t)"
proof -
  from assms(2) obtain t1 t2 where "t = t1 @ t2" "list_all (confined F v) t1" "list_all (confined A True) t2"
    "t2 = [] \<or> quiesce_of active t1"
    by (auto simp: staged_def)
  with assms(1) have "t0 @ t = (t0 @ t1) @ t2" "list_all (confined F v) (t0 @ t1)" "list_all (confined A True) t2"
    "t2 = [] \<or> quiesce_of active (t0 @ t1)"
    by (auto intro: quiesce_of_append)
  then show ?thesis unfolding staged_def by blast
qed

lemma safe_stop_then:
  assumes "active \<noteq> []" and "only (confined A True) m"
  shows "runs (bind (waitForMultipleNodesSafeStopReady api active ign mfd drain) (\<lambda>_. m))
    (\<lambda>r t. staged F v A active t)"
proof -
  have stop: "runs (waitForMultipleNodesSafeStopReady api active ign mfd drain)
      (\<lambda>r t. safe_stop_trace active ign mfd drain r t \<and> list_all (confined F v) t)"
    by (rule runs_conj [OF runs_safe_stop [OF assms(1)]])
       (rule only_mono [OF only_safe_stop, unfolded only_def], auto elim: confined_mono)
  have "quiesce_of active t" if "safe_stop_trace active ign mfd drain (Ok a) t" for a t
    using that by (auto simp: safe_stop_trace_def quiesce_of_def elim!: safely_stoppedE)
  then have step: "staged F v A active (t @ t')"
    if "safe_stop_trace active ign mfd drain (Ok a) t \<and> list_all (confined F v) t" "list_all (confined A True) t'" for a t t'
    using that unfolding staged_def by blast
  show ?thesis
    by (rule runs_bind [OF stop assms(2) [unfolded only_def]]) (erule (1) step | simp add: staged_first)+
qed

lemma staged_restart:
  assumes "only (confined F v) m1" and "only (confined A True) m2"
  shows "runs
     (bind (if failed \<noteq> [] then m1 else ret ()) (\<lambda>_.
      bind (if active \<noteq> []
            then bind get_cluster (\<lambda>c. bind (from_res (delay c)) (\<lambda>(mfd, drain).
                   bind (waitForMultipleNodesSafeStopReady api active ign mfd drain) (\<lambda>_. m2)))
            else ret ()) (\<lambda>_.
        if grace \<noteq> [] then fail (ReconcileRequeueAfter 10) else ret ())))
     (\<lambda>r t. staged F v A active t \<and> (r = Ok () \<longrightarrow> grace = []))"
proof -
  have final: "runs (if grace \<noteq> [] then fail (ReconcileRequeueAfter 10) else ret ())
      (\<lambda>r t. t = [] \<and> (r = Ok () \<longrightarrow> grace = []))"
    by (auto intro: runs_fail runs_ret)
  have first: "runs (if failed \<noteq> [] then m1 else ret ()) (\<lambda>r t. list_all (confined F v) t)"
    using assms(1) by (auto simp: only_def intro: runs_ret)
  have second: "runs (if active \<noteq> []
      then bind get_cluster (\<lambda>c. bind (from_res (delay c)) (\<lambda>(mfd, drain).
             bind (waitForMultipleNodesSafeStopReady api active ign mfd drain) (\<lambda>_. m2)))
      else ret ()) (\<lambda>r t. staged F v A active t)"
    by (auto intro!: runs_if runs_get runs_res safe_stop_then assms(2) runs_ret staged_first split: prod.splits)
  have rest: "runs (bind (if active \<noteq> []
      then bind get_cluster (\<lambda>c. bind (from_res (delay c)) (\<lambda>(mfd, drain).
             bind (waitForMultipleNodesSafeStopReady api active ign mfd drain) (\<lambda>_. m2)))
      else ret ()) (\<lambda>_. if grace \<noteq> [] then fail (ReconcileRequeueAfter 10) else ret ()))
      (\<lambda>r t. staged F v A active t \<and> (r = Ok () \<longrightarrow> grace = []))"
    by (rule runs_bind [OF second final]) auto
  show ?thesis
    by (rule runs_bind [OF first rest]) (auto intro: staged_append staged_first)
qed

definition failed_pods_of :: "int \<Rightarrow> string \<Rightarrow> Pod list \<Rightarrow> PodHealthState \<Rightarrow> Pod list" where
  "failed_pods_of now env pods h = filter (\<lambda>p. PsState (CheckServerFailedWithGrace now env p True) = h) pods"

lemma failed_and_active:
  "getServerFailedAndActivePods now env pods True =
     (failed_pods_of now env pods PodFailed, failed_pods_of now env pods PodFailedInGrace,
      failed_pods_of now env pods PodHealthy)"
  by (simp add: getServerFailedAndActivePods_def failed_pods_of_def)

text \<open>Whether a failed pod may lose its local volumes.\<close>

definition recovery_deletes :: "RackState \<Rightarrow> bool" where
  "recovery_deletes rackState = GetBool (DeleteLocalStorageOnPodRecovery (RackStorage (RsRack rackState)))"

lemma bind_read_world: "bind (read_world g) f s = f (g (CtWorld s)) s"
  by (simp add: bind_def read_world_def split: prod.splits)

lemma staged_restart_run:
  assumes "bind (if failed \<noteq> [] then m1 else ret ()) (\<lambda>_.
      bind (if active \<noteq> []
            then bind get_cluster (\<lambda>c. bind (from_res (delay c)) (\<lambda>(mfd, drain).
                   bind (waitForMultipleNodesSafeStopReady api active ign mfd drain) (\<lambda>_. m2)))
            else ret ()) (\<lambda>_.
        if grace \<noteq> [] then fail (ReconcileRequeueAfter 10) else ret ())) s = (r, s', t)"
    and "only (confined F v) m1" and "only (confined A True) m2"
  shows "staged F v A active t \<and> (r = Ok () \<longrightarrow> grace = [])"
  using runsD [OF staged_restart [OF assms(2,3)] assms(1)] by simp

text \<open>
  Property C18. Restarting a batch disturbs an active pod only behind a safe stop. The calls of a run split
  in two: up to the split, only pods whose server has failed are acted on, and their local volumes survive
  unless the rack opts in to deleting them on recovery; behind it, only active pods are acted on, and if
  there is any such call then the first part ends with a successful quiesce of the active pods. Pods that
  failed within the grace period are never acted on, and the batch does not succeed while there are any.
\<close>

theorem rolling_restart_staged:
  assumes "rollingRestartPods api rackState batch ign types s = (r, s', t)"
  defines "health h \<equiv> failed_pods_of (ApiNow api (CtWorld s)) (ApiGraceEnv api) batch h"
  shows "(\<exists>t1 t2. t = t1 @ t2 \<and>
      list_all (confined (PodName ` set (health PodFailed)) (recovery_deletes rackState)) t1 \<and>
      list_all (confined (PodName ` set (health PodHealthy)) True) t2 \<and>
      (t2 = [] \<or> (\<exists>before hosts removed. t1 = before @
        [(CInfoQuiesce hosts (map PodName (filter connectable (health PodHealthy))) removed, True)]))) \<and>
    (r = Ok () \<longrightarrow> health PodFailedInGrace = [])"
proof -
  have "staged (PodName ` set (health PodFailed)) (recovery_deletes rackState) (PodName ` set (health PodHealthy))
      (health PodHealthy) t \<and> (r = Ok () \<longrightarrow> health PodFailedInGrace = [])"
    using assms(1) unfolding rollingRestartPods_def bind_read_world failed_and_active health_def Let_def prod.case
    by (rule staged_restart_run) (auto intro!: only_restartPods simp: recovery_deletes_def)
  then show ?thesis unfolding staged_def quiesce_of_def .
qed

text \<open>Fact. The same holds for the pods a batch of an upgrade deletes to change their images.\<close>

theorem rolling_upgrade_staged:
  assumes "safelyDeletePodsAndEnsureImageUpdated api rackState batch ign s = (r, s', t)"
  defines "health h \<equiv> failed_pods_of (ApiNow api (CtWorld s)) (ApiGraceEnv api) batch h"
  shows "(\<exists>t1 t2. t = t1 @ t2 \<and>
      list_all (confined (PodName ` set (health PodFailed)) (recovery_deletes rackState)) t1 \<and>
      list_all (confined (PodName ` set (health PodHealthy)) True) t2 \<and>
      (t2 = [] \<or> (\<exists>before hosts removed. t1 = before @
        [(CInfoQuiesce hosts (map PodName (filter connectable (health PodHealthy))) removed, True)]))) \<and>
    (r = Ok () \<longrightarrow> health PodFailedInGrace = [])"
proof -
  have "staged (PodName ` set (health PodFailed)) (recovery_deletes rackState) (PodName ` set (health PodHealthy))
      (health PodHealthy) t \<and> (r = Ok () \<longrightarrow> health PodFailedInGrace = [])"
    using assms(1) unfolding safelyDeletePodsAndEnsureImageUpdated_def bind_read_world failed_and_active health_def
      Let_def prod.case
    by (rule staged_restart_run) (auto intro!: only_upgradePods simp: recovery_deletes_def)
  then show ?thesis unfolding staged_def quiesce_of_def .
qed

definition info_rack :: RackState where
  "info_rack = \<lparr>RsRack = example_rack [example_ns ''a'' []], RsSize = 2\<rparr>"

lemma info_batch:
  "map PodName (failed_pods_of 0 [] [hd info_pods] PodFailed) = []"
  "map PodName (failed_pods_of 0 [] [hd info_pods] PodHealthy) = [''cl-1-0'']"
  "map PodName (filter connectable (failed_pods_of 0 [] [hd info_pods] PodHealthy)) = [''cl-1-0'']"
  "ApiNow info_api (CtWorld info_state) = 0" "ApiGraceEnv info_api = []"
  by code_simp+

lemma info_restart:
  "let (r, s', t) = rollingRestartPods info_api info_rack [hd info_pods] [] [(''cl-1-0'', podRestart)] info_state
   in r = Ok () \<and> (CDeletePod ''cl-1-0'', True) \<in> set t"
  by code_simp

theorem rolling_restart_witness:
  "\<exists>t1 t2. snd (snd (rollingRestartPods info_api info_rack [hd info_pods] [] [(''cl-1-0'', podRestart)] info_state)) =
      t1 @ t2 \<and> (CDeletePod ''cl-1-0'', True) \<in> set t2 \<and>
      (\<exists>before hosts removed. t1 = before @ [(CInfoQuiesce hosts [''cl-1-0''] removed, True)])"
proof -
  obtain r s' t where run: "rollingRestartPods info_api info_rack [hd info_pods] [] [(''cl-1-0'', podRestart)] info_state =
      (r, s', t)" by (cases "rollingRestartPods info_api info_rack [hd info_pods] [] [(''cl-1-0'', podRestart)] info_state")
  then have del: "(CDeletePod ''cl-1-0'', True) \<in> set t" using info_restart by simp
  have sets: "PodName ` set (failed_pods_of 0 [] [hd info_pods] PodFailed) = {}"
    using info_batch(1) by simp
  from rolling_restart_staged [OF run] obtain t1 t2 where t: "t = t1 @ t2"
    and t1: "list_all (confined {} (recovery_deletes info_rack)) t1"
    and q: "t2 = [] \<or> (\<exists>before hosts removed. t1 = before @ [(CInfoQuiesce hosts [''cl-1-0''] removed, True)])"
    unfolding info_batch(4,5) sets info_batch(3) by blast
  have "(CDeletePod ''cl-1-0'', True) \<notin> set t1"
    using t1 by (auto simp: list_all_iff confined_def)
  with del t have "(CDeletePod ''cl-1-0'', True) \<in> set t2" by simp
  moreover from this q have "\<exists>before hosts removed. t1 = before @ [(CInfoQuiesce hosts [''cl-1-0''] removed, True)]"
    by auto
  ultimately show ?thesis unfolding run snd_conv t by blast
qed

lemma info_upgrade:
  "let (r, s', t) = safelyDeletePodsAndEnsureImageUpdated info_api info_rack [hd info_pods] [] info_state
   in (CDeletePod ''cl-1-0'', True) \<in> set t"
  by code_simp

theorem rolling_upgrade_witness:
  "\<exists>t1 t2. snd (snd (safelyDeletePodsAndEnsureImageUpdated info_api info_rack [hd info_pods] [] info_state)) =
      t1 @ t2 \<and> (CDeletePod ''cl-1-0'', True) \<in> set t2 \<and>
      (\<exists>before hosts removed. t1 = before @ [(CInfoQuiesce hosts [''cl-1-0''] removed, True)])"
proof -
  obtain r s' t where run: "safelyDeletePodsAndEnsureImageUpdated info_api info_rack [hd info_pods] [] info_state =
      (r, s', t)" by (cases "safelyDeletePodsAndEnsureImageUpdated info_api info_rack [hd info_pods] [] info_state")
  then have del: "(CDeletePod ''cl-1-0'', True) \<in> set t" using info_upgrade by simp
  have sets: "PodName ` set (failed_pods_of 0 [] [hd info_pods] PodFailed) = {}"
    using info_batch(1) by simp
  from rolling_upgrade_staged [OF run] obtain t1 t2 where t: "t = t1 @ t2"
    and t1: "list_all (confined {} (recovery_deletes info_rack)) t1"
    and q: "t2 = [] \<or> (\<exists>before hosts removed. t1 = before @ [(CInfoQuiesce hosts [''cl-1-0''] removed, True)])"
    unfolding info_batch(4,5) sets info_batch(3) by blast
  have "(CDeletePod ''cl-1-0'', True) \<notin> set t1"
    using t1 by (auto simp: list_all_iff confined_def)
  with del t have "(CDeletePod ''cl-1-0'', True) \<in> set t2" by simp
  moreover from this q have "\<exists>before hosts removed. t1 = before @ [(CInfoQuiesce hosts [''cl-1-0''] removed, True)]"
    by auto
  ultimately show ?thesis unfolding run snd_conv t by blast
qed

section \<open>Waiting ends\<close>

text \<open>The pod was read at some moment, and the read object passes the test.\<close>

definition seen :: "'w api \<Rightarrow> (Pod \<Rightarrow> (string, bool) res) \<Rightarrow> string \<Rightarrow> bool" where
  "seen api good name \<longleftrightarrow> (\<exists>w w' pod. ApiGetPod api name w = (Inr pod, w') \<and> good pod = Ok True)"

definition poll_names_ok :: "'w api \<Rightarrow> (Pod \<Rightarrow> (string, bool) res) \<Rightarrow> Pod list \<Rightarrow> string list \<Rightarrow> bool" where
  "poll_names_ok api good pods names \<longleftrightarrow>
     distinct names \<and> set names \<subseteq> PodName ` set pods \<and> (\<forall>n\<in>set names. seen api good n)"

lemma runs_get_pod:
  "runs (wrap_err g (issue (CGetPod n) (ApiGetPod api n)))
     (\<lambda>r t. length t = 1 \<and> (\<forall>pod. r = Ok pod \<longrightarrow> (\<exists>w w'. ApiGetPod api n w = (Inr pod, w'))))"
  by (auto simp: runs_def wrap_err_def issue_def split: prod.splits sum.splits)

lemma poll_round_runs:
  assumes "set pods \<subseteq> set all" and "poll_names_ok api (good c) all names"
  shows "runs (poll_round api good c pods names)
    (\<lambda>r t. length t \<le> length pods \<and> (\<forall>ns. r = Ok ns \<longrightarrow> poll_names_ok api (good c) all ns))"
  using assms
proof (induction pods arbitrary: names)
  case (Cons pod pods)
  show ?case
  proof (cases "PodName pod \<in> set names")
    case True
    with Cons show ?thesis by (auto elim!: runs_mono dest!: Cons.IH)
  next
    case False
    let ?Q = "\<lambda>n r t. length t \<le> n \<and> (\<forall>ns. r = Ok ns \<longrightarrow> poll_names_ok api (good c) all ns)"
    have next': "runs (bind (from_res (res_map_err ReconcileError (good c p))) (\<lambda>ok.
        if ok then poll_round api good c pods (names @ [PodName pod]) else ret names)) (?Q (length pods))"
      if "\<exists>w w'. ApiGetPod api (PodName pod) w = (Inr p, w')" for p
    proof (rule runs_res)
      fix ok assume "res_map_err ReconcileError (good c p) = Ok ok"
      then have good: "good c p = Ok ok" by (simp add: res_simps)
      have "poll_names_ok api (good c) all (names @ [PodName pod])" if ok
        using Cons.prems False good that \<open>\<exists>w w'. ApiGetPod api (PodName pod) w = (Inr p, w')\<close>
        by (auto simp: poll_names_ok_def seen_def)
      with Cons show "runs (if ok then poll_round api good c pods (names @ [PodName pod]) else ret names) (?Q (length pods))"
        by (auto intro!: runs_if runs_ret)
    qed auto
    have rest: "runs (bind (read_world (ApiNow api)) (\<lambda>now.
          case CheckPodFailed now (ApiGraceEnv api) p of
            Some reason \<Rightarrow>
              if ignore_sidecar c \<and> IsAerospikeServerReady p
              then bind (from_res (res_map_err ReconcileError (good c p))) (\<lambda>ok.
                     if ok then poll_round api good c pods (names @ [PodName pod]) else ret names)
              else fail (ReconcileError reason)
          | None \<Rightarrow>
              bind (from_res (res_map_err ReconcileError (good c p))) (\<lambda>ok.
                if ok then poll_round api good c pods (names @ [PodName pod]) else ret names)))
       (\<lambda>r t. (\<exists>w w'. ApiGetPod api (PodName pod) w = (Inr p, w')) \<longrightarrow> ?Q (length pods) r t)" for p
    proof (cases "\<exists>w w'. ApiGetPod api (PodName pod) w = (Inr p, w')")
      case True
      with next' [OF True] show ?thesis
        by (auto intro!: runs_read runs_fail runs_if split: option.splits)
    qed (simp add: runs_def)
    show ?thesis
      using False
      by (simp, intro runs_bind [OF runs_get_pod rest]) auto
  qed
qed (auto intro: runs_ret)

lemma poll_all_seen:
  assumes "poll_names_ok api good pods names" and "length names = length pods" and "p \<in> set pods"
  shows "seen api good (PodName p)"
proof -
  have names: "distinct names" "set names \<subseteq> PodName ` set pods" "\<forall>n\<in>set names. seen api good n"
    using assms(1) by (auto simp: poll_names_ok_def)
  have "card (PodName ` set pods) \<le> length pods"
    by (metis card_length list.set_map length_map)
  then have "card (PodName ` set pods) \<le> card (set names)"
    using names(1) assms(2) by (simp add: distinct_card)
  then have "set names = PodName ` set pods"
    using names(2) by (intro card_seteq) auto
  with assms(3) names(3) show ?thesis by auto
qed

lemma poll_pods_runs:
  assumes "poll_names_ok api (good c) pods names"
  shows "runs (poll_pods api good c pods n names)
    (\<lambda>r t. length t \<le> n * length pods \<and> (r = Ok () \<longrightarrow> (\<forall>p\<in>set pods. seen api (good c) (PodName p))))"
  using assms
proof (induction n arbitrary: names)
  case (Suc n)
  let ?Q = "\<lambda>r t. length t \<le> n * length pods \<and> (r = Ok () \<longrightarrow> (\<forall>p\<in>set pods. seen api (good c) (PodName p)))"
  have rest: "runs (if length ns = length pods then ret () else bind (sleep api 10) (\<lambda>_. poll_pods api good c pods n ns))
      (\<lambda>r t. poll_names_ok api (good c) pods ns \<longrightarrow> ?Q r t)" for ns
  proof (cases "poll_names_ok api (good c) pods ns")
    case True
    then show ?thesis
      using Suc.IH [OF True] poll_all_seen [OF True]
      by (auto intro!: runs_if runs_ret runs_change simp: sleep_def)
  qed (simp add: runs_def)
  show ?case
    unfolding poll_pods.simps
    by (rule runs_bind [OF poll_round_runs [where good = good and c = c, OF subset_refl Suc.prems] rest]) (auto simp: algebra_simps)
qed (auto intro: runs_fail)

definition is_get_of :: "Pod list \<Rightarrow> call \<times> bool \<Rightarrow> bool" where
  "is_get_of pods x \<longleftrightarrow> (\<exists>p\<in>set pods. fst x = CGetPod (PodName p))"

lemma only_gets_round: "set pods \<subseteq> set all \<Longrightarrow> only (is_get_of all) (poll_round api good c pods names)"
  by (induction pods arbitrary: names) (auto simp: is_get_of_def intro!: trace_rules)

lemma only_gets: "only (is_get_of pods) (poll_pods api good c pods n names)"
  by (induction n arbitrary: names) (auto intro!: trace_rules only_gets_round simp: sleep_def)

lemma poll_no_panic:
  assumes "\<And>pod. good c pod \<noteq> Panic"
  shows "runs (poll_round api good c pods names) (\<lambda>r t. r \<noteq> Panic)"
proof (induction pods arbitrary: names)
  case (Cons pod pods)
  have good: "runs (bind (from_res (res_map_err ReconcileError (good c p))) (\<lambda>ok.
      if ok then poll_round api good c pods ns else ret names)) (\<lambda>r t. r \<noteq> Panic)" for p ns
    using assms [of p] by (cases "good c p") (auto intro!: runs_res runs_if Cons runs_ret)
  have rest: "runs (bind (read_world (ApiNow api)) (\<lambda>now.
          case CheckPodFailed now (ApiGraceEnv api) p of
            Some reason \<Rightarrow>
              if ignore_sidecar c \<and> IsAerospikeServerReady p
              then bind (from_res (res_map_err ReconcileError (good c p))) (\<lambda>ok.
                     if ok then poll_round api good c pods (names @ [PodName pod]) else ret names)
              else fail (ReconcileError reason)
          | None \<Rightarrow>
              bind (from_res (res_map_err ReconcileError (good c p))) (\<lambda>ok.
                if ok then poll_round api good c pods (names @ [PodName pod]) else ret names))) (\<lambda>r t. r \<noteq> Panic)" for p
    using good by (auto intro!: runs_read runs_fail split: option.splits)
  have get: "runs (wrap_err ReconcileError (issue (CGetPod (PodName pod)) (ApiGetPod api (PodName pod)))) (\<lambda>r t. r \<noteq> Panic)"
    by (rule runs_wrap_err [OF runs_issue [where Q = "\<lambda>r t. r \<noteq> Panic"]]) auto
  show ?case
    using Cons by (auto intro!: runs_if runs_bind [OF get rest])
qed (auto intro: runs_ret)

lemma poll_pods_no_panic:
  assumes "\<And>pod. good c pod \<noteq> Panic"
  shows "runs (poll_pods api good c pods n names) (\<lambda>r t. r \<noteq> Panic)"
proof (induction n arbitrary: names)
  case (Suc n)
  have "runs (if length ns = length pods then ret () else bind (sleep api 10) (\<lambda>_. poll_pods api good c pods n ns))
      (\<lambda>r t. r \<noteq> Panic)" for ns
    using Suc by (auto intro!: runs_if runs_ret runs_change simp: sleep_def)
  then show ?case
    unfolding poll_pods.simps by (rule runs_bind [OF poll_no_panic [where good = good and c = c, OF assms]]) auto
qed (auto intro: runs_fail)


lemma info_wait: "fst (ensurePodsRunningAndReady info_api info_pods info_state) = Ok ()"
  by code_simp


text \<open>
  A world in which the pods come up: reads succeed and show no failed pod, and after \<open>rank w\<close> sleeps of ten
  seconds every read shows a pod that is running and ready.
\<close>

definition pods_come_up :: "'w api \<Rightarrow> string set \<Rightarrow> ('w \<Rightarrow> nat) \<Rightarrow> bool" where
  "pods_come_up api N rank \<longleftrightarrow>
     (\<forall>n\<in>N. \<forall>w. \<exists>pod w'. ApiGetPod api n w = (Inr pod, w') \<and> rank w' \<le> rank w \<and>
        CheckPodFailed (ApiNow api w') (ApiGraceEnv api) pod = None \<and> (rank w = 0 \<longrightarrow> IsPodRunningAndReady pod)) \<and>
     (\<forall>w. rank (ApiSleep api 10 w) \<le> rank w - 1)"

lemma come_up_get:
  assumes "pods_come_up api N rank" and "n \<in> N"
  obtains pod w' where "ApiGetPod api n w = (Inr pod, w')" "rank w' \<le> rank w"
    "CheckPodFailed (ApiNow api w') (ApiGraceEnv api) pod = None" "rank w = 0 \<longrightarrow> IsPodRunningAndReady pod"
  using assms unfolding pods_come_up_def by metis

lemma come_up_round:
  assumes "pods_come_up api N rank" and "PodName ` set pods \<subseteq> N" and "set names \<subseteq> A" and "distinct names"
  shows "\<exists>ns s' t. poll_round api pod_restarted c pods names s = (Ok ns, s', t) \<and>
    rank (CtWorld s') \<le> rank (CtWorld s) \<and> distinct ns \<and> set ns \<subseteq> A \<union> PodName ` set pods \<and>
    (rank (CtWorld s) = 0 \<longrightarrow> set names \<union> PodName ` set pods \<subseteq> set ns)"
  using assms(2-4)
proof (induction pods arbitrary: names A s)
  case (Cons pod pods)
  show ?case
  proof (cases "PodName pod \<in> set names")
    case True
    have "\<exists>ns s' t. poll_round api pod_restarted c pods names s = (Ok ns, s', t) \<and>
      rank (CtWorld s') \<le> rank (CtWorld s) \<and> distinct ns \<and> set ns \<subseteq> A \<union> PodName ` set pods \<and>
      (rank (CtWorld s) = 0 \<longrightarrow> set names \<union> PodName ` set pods \<subseteq> set ns)"
      using Cons by (intro Cons.IH) auto
    with True show ?thesis by auto
  next
    case False
    obtain p w' where get: "ApiGetPod api (PodName pod) (CtWorld s) = (Inr p, w')" and rank: "rank w' \<le> rank (CtWorld s)"
      and fine: "CheckPodFailed (ApiNow api w') (ApiGraceEnv api) p = None"
      and ready: "rank (CtWorld s) = 0 \<longrightarrow> IsPodRunningAndReady p"
      by (rule come_up_get [OF assms(1), of "PodName pod" "CtWorld s"]) (use Cons.prems(1) in auto)
    define ok where "ok \<longleftrightarrow> IsPodRunningAndReady p \<or> ignore_sidecar c \<and> IsAerospikeServerReady p"
    obtain ns s' t where round: "poll_round api pod_restarted c pods (names @ [PodName pod]) (s\<lparr>CtWorld := w'\<rparr>) = (Ok ns, s', t)"
      "rank (CtWorld s') \<le> rank w'" "distinct ns" "set ns \<subseteq> A \<union> {PodName pod} \<union> PodName ` set pods"
      "rank w' = 0 \<longrightarrow> set (names @ [PodName pod]) \<union> PodName ` set pods \<subseteq> set ns"
    proof -
      have "PodName ` set pods \<subseteq> N" "set (names @ [PodName pod]) \<subseteq> A \<union> {PodName pod}" "distinct (names @ [PodName pod])"
        using Cons.prems False by auto
      from Cons.IH [OF this, of "s\<lparr>CtWorld := w'\<rparr>"] that show thesis by auto
    qed
    have step: "poll_round api pod_restarted c (pod # pods) names s =
        (if ok then (Ok ns, s', (CGetPod (PodName pod), True) # t)
         else (Ok names, s\<lparr>CtWorld := w'\<rparr>, [(CGetPod (PodName pod), True)]))"
      using False get fine round(1)
      by (auto simp: bind_def wrap_err_def issue_def read_world_def pod_restarted_def from_res_def ret_def ok_def)
    have ok if "rank (CtWorld s) = 0" using ready that by (simp add: ok_def)
    with step round(2-5) rank Cons.prems show ?thesis by (cases ok) auto
  qed
qed (auto simp: ret_def)

lemma come_up_polls:
  assumes "pods_come_up api (PodName ` set pods) rank" and "distinct (map PodName pods)"
    and "rank (CtWorld s) < n" and "distinct names" and "set names \<subseteq> PodName ` set pods"
  shows "fst (poll_pods api pod_restarted c pods n names s) = Ok ()"
  using assms(3-5)
proof (induction n arbitrary: names s)
  case (Suc n)
  obtain ns s1 t where round: "poll_round api pod_restarted c pods names s = (Ok ns, s1, t)"
    and rank: "rank (CtWorld s1) \<le> rank (CtWorld s)" and ns: "distinct ns" "set ns \<subseteq> PodName ` set pods"
    and all: "rank (CtWorld s) = 0 \<longrightarrow> PodName ` set pods \<subseteq> set ns"
    using come_up_round [OF assms(1) subset_refl Suc.prems(3,2), of c s] by auto
  show ?case
  proof (cases "length ns = length pods")
    case True
    then show ?thesis using round by (simp add: bind_def ret_def)
  next
    case False
    have "rank (CtWorld s) \<noteq> 0"
    proof
      assume "rank (CtWorld s) = 0"
      with all ns(2) have "set ns = set (map PodName pods)" by auto
      with ns(1) assms(2) have "length ns = length (map PodName pods)" by (metis distinct_card)
      with False show False by simp
    qed
    moreover have "rank (ApiSleep api 10 (CtWorld s1)) \<le> rank (CtWorld s1) - 1"
      using assms(1) by (simp add: pods_come_up_def)
    ultimately have "rank (ApiSleep api 10 (CtWorld s1)) < n" using rank Suc.prems(1) by linarith
    then have "fst (poll_pods api pod_restarted c pods n ns (s1\<lparr>CtWorld := ApiSleep api 10 (CtWorld s1)\<rparr>)) = Ok ()"
      using ns by (intro Suc.IH) auto
    with False round show ?thesis
      by (auto simp: bind_def sleep_def change_world_def split: prod.splits)
  qed
qed simp

text \<open>
  Property C30. If restarted pods come up, the wait for them succeeds: when reads do not fail and show no
  failed pod, and after fewer than six waits of ten seconds all of them show running and ready pods, then
  \<^verbatim>\<open>ensurePodsRunningAndReady\<close> returns success, whatever order the pods come up in.
\<close>

theorem pod_wait_succeeds:
  assumes "pods_come_up api (PodName ` set pods) rank" and "rank (CtWorld s) < 6" and "distinct (map PodName pods)"
  shows "fst (ensurePodsRunningAndReady api pods s) = Ok ()"
  using come_up_polls [OF assms(1,3,2), of "[]" "CtCluster s"]
  by (simp add: ensurePodsRunningAndReady_def bind_def get_cluster_def split: prod.splits)

text \<open>Two pods that are up after 30 seconds; until then the old ones are still terminating.\<close>

definition slow_api :: "nat api" where
  "slow_api = info_api\<lparr>ApiGetPod := (\<lambda>n w.
     (Inr (if w < 30 then (server_pod n ''n1'' [])\<lparr>PodDeletionTimestamp := Some 0\<rparr> else server_pod n ''n1'' []), w))\<rparr>"

definition slow_rank :: "nat \<Rightarrow> nat" where
  "slow_rank w = (39 - w) div 10"

lemma slow_pods:
  "CheckPodFailed now env ((server_pod n ''n1'' [])\<lparr>PodDeletionTimestamp := Some 0\<rparr>) = None"
  "CheckPodFailed now env (server_pod n ''n1'' []) = None" "IsPodRunningAndReady (server_pod n ''n1'' [])"
  by (simp_all add: server_pod_def running_pod_def CheckPodFailed_def CheckPodFailedWithGrace_def checkFailedWithGrace_def
        IsPodTerminating_def checkPodFailureReason_def checkContainerFailures_def IsPodRunningAndReady_def IsPodReady_def
        containerFailureReason_def Let_def)

theorem pod_wait_succeeds_witness: "fst (ensurePodsRunningAndReady slow_api info_pods info_state) = Ok ()"
proof (rule pod_wait_succeeds [where rank = slow_rank])
  show "pods_come_up slow_api (PodName ` set info_pods) slow_rank"
    unfolding pods_come_up_def
    by (auto simp: slow_api_def info_api_def slow_pods slow_rank_def)
  show "slow_rank (CtWorld info_state) < 6" "distinct (map PodName info_pods)" by code_simp+
qed

end
