(* ===== verification/Rack_Scale.thy ===== *)
theory Rack_Scale
  imports Pod_Restart
begin

text \<open>
  Changing the size of a rack: \<^verbatim>\<open>scaleDownRack\<close>, \<^verbatim>\<open>scaleUpRack\<close>, \<^verbatim>\<open>createEmptyRack\<close> and \<^verbatim>\<open>deleteRacks\<close> of
  \<^verbatim>\<open>internal/controller/cluster/rack.go\<close>, and what they call to clean up behind removed pods: volume claims
  (\<^verbatim>\<open>pvc.go\<close>), references in the mesh and the pod status (\<^verbatim>\<open>pod.go\<close>) and pod services (\<^verbatim>\<open>service.go\<close>).
  Events and log lines are left out.
\<close>

section \<open>Calls on racks\<close>

datatype update_error = UpdateConflict string | UpdateFailed string

text \<open>
  The further calls of the rack operations. \<open>RScaled\<close> and \<open>RScaledUp\<close> are
  \<^verbatim>\<open>intstr.GetScaledValueFromIntOrPercent\<close> rounding down and up, with the error ignored. The templates of
  StatefulSets and services and the data of config maps are built behind \<open>RUpdateSTS\<close>, \<open>RUpdateInitImage\<close>,
  \<open>RCreateSTS\<close>, \<open>RPodService\<close> and \<open>RConfigMapData\<close>.
\<close>

record 'w rack_api =
  RBase :: "'w api"
  RScaled :: "IntOrString option \<Rightarrow> int \<Rightarrow> int"
  RScaledUp :: "IntOrString option \<Rightarrow> int \<Rightarrow> int"
  RListRackPods :: "int \<Rightarrow> string \<Rightarrow> ('w, Pod list) api_call"
  RListClusterPVCs :: "('w, PersistentVolumeClaim list) api_call"
  RSetReplicas :: "StatefulSet \<Rightarrow> int \<Rightarrow> 'w \<Rightarrow> (update_error + StatefulSet) \<times> 'w"
  RUpdateSTS :: "StatefulSet \<Rightarrow> RackState \<Rightarrow> 'w \<Rightarrow> (update_error + unit) \<times> 'w"
  RUpdateInitImage :: "StatefulSet \<Rightarrow> ('w, StatefulSet) api_call"
  RCreateSTS :: "string \<Rightarrow> RackState \<Rightarrow> ('w, StatefulSet) api_call"
  RDeleteSTS :: "string \<Rightarrow> ('w, unit) api_call"
  RGetConfigMap :: "string \<Rightarrow> 'w \<Rightarrow> (get_error + string gomap) \<times> 'w"
  RConfigMapData :: "Rack \<Rightarrow> ('w, string gomap) api_call"
  RCreateConfigMap :: "string \<Rightarrow> string gomap \<Rightarrow> ('w, unit) api_call"
  RUpdateConfigMap :: "string \<Rightarrow> string gomap \<Rightarrow> ('w, unit) api_call"
  RDeleteConfigMap :: "string \<Rightarrow> 'w \<Rightarrow> (get_error + unit) \<times> 'w"
  RSetCondition :: "string \<Rightarrow> ('w, unit) api_call"
  RPodService :: "string \<Rightarrow> ('w, unit) api_call"
  RDeleteService :: "string \<Rightarrow> 'w \<Rightarrow> (get_error + unit) \<times> 'w"
  RTipClear :: "string \<Rightarrow> string \<Rightarrow> int \<Rightarrow> ('w, unit) api_call"
  RAlumniReset :: "string \<Rightarrow> ('w, unit) api_call"
  RRemovePodStatus :: "string list \<Rightarrow> ('w, AerospikePodStatus gomap) api_call"

definition rack_sts_name :: "AerospikeCluster \<Rightarrow> Rack \<Rightarrow> string" where
  "rack_sts_name c rack = ObjName (GetNamespacedNameForSTSOrConfigMap c (GetRackIdentifier (RackID rack) (RackRevision rack)))"

definition getSTS :: "'w rack_api \<Rightarrow> RackState \<Rightarrow> ('w, get_error, StatefulSet) prog" where
  "getSTS api rackState =
     bind get_cluster (\<lambda>c.
       let name = rack_sts_name c (RsRack rackState) in issue (CGetSTS name) (ApiGetSTS (RBase api) name))"

text \<open>
  A slot that stays nil is dereferenced by every caller; the model panics where the list is made.
\<close>

definition ordered_rack_pods :: "'w rack_api \<Rightarrow> Rack \<Rightarrow> ('w, string, Pod list) prog" where
  "ordered_rack_pods api rack =
     bind (issue (CListRackPods (RackID rack) (RackRevision rack)) (RListRackPods api (RackID rack) (RackRevision rack))) (\<lambda>pods.
     bind (from_res (res_map_err (\<lambda>_. ''get Pod list'') (getOrderedRackPodList (RackID rack) (RackRevision rack) (Ok pods)))) (\<lambda>slots.
       from_res (must (those slots))))"

definition rack_pods_or_error :: "'w rack_api \<Rightarrow> Rack \<Rightarrow> ('w, ReconcileResult, Pod list) prog" where
  "rack_pods_or_error api rack = wrap_err (\<lambda>e. ReconcileError (''list Pods for rack: '' @ e)) (ordered_rack_pods api rack)"

text \<open>\<^verbatim>\<open>setConditions\<close> with one condition that is true.\<close>

definition claim_condition :: "'w rack_api \<Rightarrow> string \<Rightarrow> ('w, ReconcileResult, unit) prog" where
  "claim_condition api condType = wrap_err ReconcileError (issue (CSetCondition condType) (RSetCondition api condType))"

text \<open>
  The number of replicas is written to the StatefulSet as it is now, again after a conflict, five times at
  most (\<^verbatim>\<open>retry.DefaultRetry\<close>).
\<close>

fun set_replicas :: "'w rack_api \<Rightarrow> RackState \<Rightarrow> int \<Rightarrow> nat \<Rightarrow> ('w, string, StatefulSet) prog" where
  "set_replicas api rackState n 0 = fail ''conflict''"
| "set_replicas api rackState n (Suc k) =
     bind (wrap_err get_error_text (getSTS api rackState)) (\<lambda>current.
     bind (attempt (issue (CSetReplicas (StsName current) n) (RSetReplicas api current n))) (\<lambda>r.
       case r of
         Inr updated \<Rightarrow> ret updated
       | Inl e \<Rightarrow>
           (case e of
              UpdateFailed err \<Rightarrow> fail err
            | UpdateConflict err \<Rightarrow> if k = 0 then fail err else set_replicas api rackState n k)))"

definition retry_steps :: nat where "retry_steps = 5"

section \<open>Volume claims of removed pods\<close>

definition storageVolumeAnnotationKey :: string where "storageVolumeAnnotationKey = ''storage-volume''"
definition storageVolumeLegacyAnnotationKey :: string where "storageVolumeLegacyAnnotationKey = ''storage-path''"

definition pvc_volume_name :: "PersistentVolumeClaim \<Rightarrow> string option" where
  "pvc_volume_name pvc =
     (case gomap_get (PvcAnnotations pvc) storageVolumeAnnotationKey of
        Some v \<Rightarrow> Some v
      | None \<Rightarrow> gomap_get (PvcAnnotations pvc) storageVolumeLegacyAnnotationKey)"

definition getPVCVolumeConfig :: "AerospikeStorageSpec \<Rightarrow> string \<Rightarrow> VolumeSpec option" where
  "getPVCVolumeConfig storage pvcStorageVolName = find (\<lambda>v. pvcStorageVolName = VolName v) (Volumes storage)"

definition pvc_cascade_delete :: "AerospikeStorageSpec \<Rightarrow> PersistentVolumeClaim \<Rightarrow> string \<Rightarrow> bool" where
  "pvc_cascade_delete storage pvc pvcStorageVolName =
     (case getPVCVolumeConfig storage pvcStorageVolName of
        None \<Rightarrow>
          if PvcVolumeMode pvc = PersistentVolumeBlock then CascadeDelete (BlockVolumePolicy storage)
          else CascadeDelete (FileSystemVolumePolicy storage)
      | Some v \<Rightarrow> CascadeDelete (VolPolicy v))"

fun removePVCsAsync ::
  "'w rack_api \<Rightarrow> AerospikeStorageSpec \<Rightarrow> PersistentVolumeClaim list \<Rightarrow> ('w, string, string list) prog" where
  "removePVCsAsync api storage [] = ret []"
| "removePVCsAsync api storage (pvc # pvcs) =
     (if PvcTerminating pvc then removePVCsAsync api storage pvcs
      else case pvc_volume_name pvc of
        None \<Rightarrow> removePVCsAsync api storage pvcs
      | Some volume \<Rightarrow>
          if pvc_cascade_delete storage pvc volume
          then
            bind (wrap_err (\<lambda>e. ''delete PVC: '' @ get_error_text e)
                    (issue (CDeletePVC (PvcName pvc)) (ApiDeletePVC (RBase api) (PvcName pvc)))) (\<lambda>_.
            bind (removePVCsAsync api storage pvcs) (\<lambda>deleted. ret (PvcName pvc # deleted)))
          else removePVCsAsync api storage pvcs)"

fun poll_pvcs :: "'w rack_api \<Rightarrow> string list \<Rightarrow> nat \<Rightarrow> ('w, string, unit) prog" where
  "poll_pvcs api deletedPVCs 0 = fail ''termination timed out for PVCs''"
| "poll_pvcs api deletedPVCs (Suc n) =
     bind (issue CListClusterPVCs (RListClusterPVCs api)) (\<lambda>existing.
       if list_ex (\<lambda>d. d \<in> set (map PvcName existing)) deletedPVCs
       then bind (sleep (RBase api) 20) (\<lambda>_. poll_pvcs api deletedPVCs n)
       else ret ())"

definition waitForPVCTermination :: "'w rack_api \<Rightarrow> string list \<Rightarrow> ('w, string, unit) prog" where
  "waitForPVCTermination api deletedPVCs = (if deletedPVCs = [] then ret () else poll_pvcs api deletedPVCs 15)"

definition removePVCs ::
  "'w rack_api \<Rightarrow> AerospikeStorageSpec \<Rightarrow> PersistentVolumeClaim list \<Rightarrow> ('w, string, unit) prog" where
  "removePVCs api storage pvcItems = bind (removePVCsAsync api storage pvcItems) (waitForPVCTermination api)"

section \<open>References to removed pods\<close>

definition getFQDNForPod :: "AerospikeCluster \<Rightarrow> string \<Rightarrow> string" where
  "getFQDNForPod c host = host @ ''.'' @ ClusterName c @ ''.'' @ ClusterNamespace c"

definition tip_clear_port :: "'w rack_api \<Rightarrow> AerospikeCluster \<Rightarrow> Pod \<Rightarrow> string \<Rightarrow> int option \<Rightarrow> ('w, string, unit) prog" where
  "tip_clear_port api c pod clearPodName port =
     (case port of
        None \<Rightarrow> ret ()
      | Some p \<Rightarrow>
          let host = getFQDNForPod c clearPodName in
          issue (CTipClear (PodName pod) host p) (RTipClear api (PodName pod) host p))"

definition tipClearHostname :: "'w rack_api \<Rightarrow> Pod \<Rightarrow> string \<Rightarrow> ('w, string, unit) prog" where
  "tipClearHostname api pod clearPodName =
     bind connect (\<lambda>_.
     bind get_cluster (\<lambda>c.
       let conf = SpecAerospikeConfig (ClusterSpec c) in
       bind (from_res (conf_res (GetHeartbeatTLSNameAndPort conf))) (\<lambda>(_, heartbeatTLSPort).
       bind (tip_clear_port api c pod clearPodName heartbeatTLSPort) (\<lambda>_.
       bind (from_res (conf_res (GetHeartbeatPort conf))) (\<lambda>heartbeatPort.
         tip_clear_port api c pod clearPodName heartbeatPort)))))"

definition alumniReset :: "'w rack_api \<Rightarrow> Pod \<Rightarrow> ('w, string, unit) prog" where
  "alumniReset api pod = bind connect (\<lambda>_. issue (CAlumniReset (PodName pod)) (RAlumniReset api (PodName pod)))"

definition deletePodService :: "'w rack_api \<Rightarrow> string \<Rightarrow> ('w, string, unit) prog" where
  "deletePodService api podName =
     bind (attempt (issue (CDeletePodService podName) (RDeleteService api podName))) (\<lambda>r.
       case r of
         Inr _ \<Rightarrow> ret ()
       | Inl e \<Rightarrow> (case e of GetNotFound \<Rightarrow> ret () | GetFailed err \<Rightarrow> fail (''delete Service for Pod: '' @ err)))"

definition clear_references :: "'w rack_api \<Rightarrow> string list \<Rightarrow> Pod list \<Rightarrow> string \<Rightarrow> ('w, string, unit) prog" where
  "clear_references api podNames clusterPods podName =
     each (\<lambda>np.
       if \<not> IsPodRunningAndReady np \<or> PodName np \<in> set podNames then ret ()
       else bind (attempt (tipClearHostname api np podName)) (\<lambda>_.
            bind (attempt (alumniReset api np)) (\<lambda>_. ret ()))) clusterPods"

definition removePodStatus :: "'w rack_api \<Rightarrow> string list \<Rightarrow> ('w, string, unit) prog" where
  "removePodStatus api podNames =
     (if podNames = [] then ret ()
      else bind (issue (CRemovePodStatus podNames) (RRemovePodStatus api podNames)) (\<lambda>pods.
           bind get_cluster (\<lambda>c. set_cluster (c\<lparr>ClusterStatus := (ClusterStatus c)\<lparr>StPods := pods\<rparr>\<rparr>))))"

definition cleanupPodMeshAndStatus :: "'w rack_api \<Rightarrow> string list \<Rightarrow> ('w, string, unit) prog" where
  "cleanupPodMeshAndStatus api podNames =
     bind (wrap_err (\<lambda>e. ''clean up Pod PVCs: '' @ e) (getClusterPodList (RBase api))) (\<lambda>clusterPods.
     bind get_cluster (\<lambda>c.
     bind (each (\<lambda>podName.
             bind (clear_references api podNames clusterPods podName) (\<lambda>_.
               if GetBool (MultiPodPerHost (SpecPodSpec (ClusterSpec c))) then deletePodService api podName else ret ()))
           podNames) (\<lambda>_.
       wrap_err (\<lambda>e. ''clean up Pod status: '' @ e)
         (removePodStatus api (filter (\<lambda>n. gomap_get (StPods (ClusterStatus c)) n \<noteq> None) podNames)))))"

definition cleanupPods :: "'w rack_api \<Rightarrow> string list \<Rightarrow> RackState \<Rightarrow> ('w, string, unit) prog" where
  "cleanupPods api podNames rackState =
     (if podNames = [] then ret ()
      else
        bind (wrap_err (\<lambda>e. ''find PVCs for Pods: '' @ e)
                (getPodsPVCList (RBase api) podNames (RackID (RsRack rackState)) (RackRevision (RsRack rackState)))) (\<lambda>pvcItems.
        bind (wrap_err (\<lambda>e. ''clean up PVCs for Pods: '' @ e) (removePVCs api (RackStorage (RsRack rackState)) pvcItems)) (\<lambda>_.
          cleanupPodMeshAndStatus api podNames)))"

definition getSTSPodOrdinal :: "string \<Rightarrow> (string, int) res" where
  "getSTSPodOrdinal podName =
     (case Atoi (last (Split (CHR ''-'') podName)) of
        None \<Rightarrow> Err ''invalid syntax''
      | Some i \<Rightarrow> if - (2 ^ 31) \<le> i \<and> i < 2 ^ 31 then Ok i else Err ''value out of range'')"

text \<open>The pods of the rack in the status whose ordinals its StatefulSet does not have.\<close>

fun dangling_pods :: "string \<Rightarrow> Rack \<Rightarrow> int \<Rightarrow> string list \<Rightarrow> (string, string list) res" where
  "dangling_pods clusterName rack replicas [] = Ok []"
| "dangling_pods clusterName rack replicas (podName # podNames) =
     res_bind (res_map_err (\<lambda>_. ''get rack ID for Pod'') (GetRackIDAndRevisionFromPodName clusterName podName))
       (\<lambda>(rackID, rackRevision).
          if rackID \<noteq> RackID rack \<or> rackRevision \<noteq> RackRevision rack
          then dangling_pods clusterName rack replicas podNames
          else
            res_bind (res_map_err (\<lambda>e. ''invalid Pod name: '' @ e) (getSTSPodOrdinal podName)) (\<lambda>ordinal.
            res_bind (dangling_pods clusterName rack replicas podNames) (\<lambda>rest.
              Ok (if ordinal \<ge> replicas then podName # rest else rest))))"

definition cleanupDanglingPodsRack :: "'w rack_api \<Rightarrow> StatefulSet \<Rightarrow> RackState \<Rightarrow> ('w, string, unit) prog" where
  "cleanupDanglingPodsRack api st rackState =
     bind get_cluster (\<lambda>c.
     bind (from_res (dangling_pods (ClusterName c) (RsRack rackState) (StsReplicas st)
             (map fst (StPods (ClusterStatus c))))) (\<lambda>danglingPods.
       if danglingPods = [] then ret ()
       else wrap_err (\<lambda>e. ''clean up dangling Pods: '' @ e) (cleanupPods api danglingPods rackState)))"

section \<open>Pod services\<close>

definition podServiceNeeded :: "bool option \<Rightarrow> AerospikeNetworkPolicy \<Rightarrow> bool" where
  "podServiceNeeded multiPodPerHost policy \<longleftrightarrow>
     GetBool multiPodPerHost \<and>
     2 < card (set [''pod'', ''customInterface'', AccessType policy, TLSAccessType policy, AlternateAccessType policy,
                    TLSAlternateAccessType policy])"

definition createOrUpdatePodServiceIfNeeded :: "'w rack_api \<Rightarrow> string list \<Rightarrow> ('w, string, unit) prog" where
  "createOrUpdatePodServiceIfNeeded api podNames =
     bind get_cluster (\<lambda>c.
       if \<not> podServiceNeeded (MultiPodPerHost (SpecPodSpec (ClusterSpec c))) (SpecNetworkPolicy (ClusterSpec c)) then ret ()
       else each (\<lambda>podName. issue (CPodService podName) (RPodService api podName)) podNames)"

definition cleanupDanglingPodServices :: "'w rack_api \<Rightarrow> RackState \<Rightarrow> ('w, string, unit) prog" where
  "cleanupDanglingPodServices api rackState =
     bind (issue (CListRackPods (RackID (RsRack rackState)) (RackRevision (RsRack rackState)))
             (RListRackPods api (RackID (RsRack rackState)) (RackRevision (RsRack rackState))))
       (each (\<lambda>pod. deletePodService api (PodName pod)))"

definition reconcilePodService :: "'w rack_api \<Rightarrow> RackState \<Rightarrow> ('w, string, unit) prog" where
  "reconcilePodService api rackState =
     bind get_cluster (\<lambda>c.
       if \<not> GetBool (MultiPodPerHost (SpecPodSpec (ClusterSpec c))) then ret ()
       else if \<not> podServiceNeeded (MultiPodPerHost (SpecPodSpec (ClusterSpec c))) (SpecNetworkPolicy (ClusterSpec c))
       then cleanupDanglingPodServices api rackState
       else createOrUpdatePodServiceIfNeeded api (getRackPodNames c rackState))"

section \<open>Scaling down\<close>

text \<open>
  The running pods of the batch, and the pods to ignore with those added that never joined the cluster. Any
  other pod that is not running stops the scale-down.
\<close>

fun scale_down_scan :: "AerospikeCluster \<Rightarrow> string list \<Rightarrow> Pod list \<Rightarrow> (string, Pod list \<times> string list) res" where
  "scale_down_scan c ignorable [] = Ok ([], ignorable)"
| "scale_down_scan c ignorable (pod # pods) =
     (if IsAerospikeServerReady pod
      then res_bind (scale_down_scan c ignorable pods) (\<lambda>(running, ign). Ok (pod # running, ign))
      else if PodName pod \<in> set ignorable then scale_down_scan c ignorable pods
      else if gomap_get (StPods (ClusterStatus c)) (PodName pod) = None then scale_down_scan c (ignorable @ [PodName pod]) pods
      else Err (''not ready; waiting for recovery before scale-down: '' @ PodName pod))"

definition prefix_err :: "string \<Rightarrow> ReconcileResult \<Rightarrow> ReconcileResult" where
  "prefix_err what res = res\<lparr>ResErr := map_option (\<lambda>e. what @ e) (ResErr res)\<rparr>"

text \<open>
  After the replicas are lowered: the servers that stay are waited for and the strongly consistent namespaces
  are validated; if that fails the replicas are raised again.
\<close>

definition settle_scale_down ::
  "'w rack_api \<Rightarrow> RackState \<Rightarrow> StatefulSet \<Rightarrow> string list \<Rightarrow> int \<Rightarrow> ('w, ReconcileResult, unit) prog" where
  "settle_scale_down api rackState found ignorablePodNames batchLen =
     bind (wrap_err (\<lambda>_. ReconcileRequeueAfter 1) (waitForSTSPodsServerReady (RBase api) found ignorablePodNames)) (\<lambda>found.
     bind (attempt (validateSCClusterState (RBase api) ignorablePodNames)) (\<lambda>valid.
       case valid of
         Inr _ \<Rightarrow> ret ()
       | Inl _ \<Rightarrow>
           bind (wrap_err (\<lambda>e. ReconcileError (''scale StatefulSet: '' @ e))
                   (set_replicas api rackState (StsReplicas found + batchLen) retry_steps)) (\<lambda>found.
           bind (attempt (waitForSTSPodsServerReady (RBase api) found ignorablePodNames)) (\<lambda>_.
             fail (ReconcileRequeueAfter 1)))))"

text \<open>\<open>migrating\<close> are the racks that move to a new revision (\<^verbatim>\<open>computedState.revisionChangedRackIDs\<close>).\<close>

definition claim_scaling :: "'w rack_api \<Rightarrow> int list \<Rightarrow> RackState \<Rightarrow> string \<Rightarrow> ('w, ReconcileResult, unit) prog" where
  "claim_scaling api migrating rackState condType =
     (if RackID (RsRack rackState) \<in> set migrating then ret () else claim_condition api condType)"

definition remove_batch ::
  "'w rack_api \<Rightarrow> StatefulSet \<Rightarrow> RackState \<Rightarrow> string list \<Rightarrow> Pod list \<Rightarrow> Pod list \<Rightarrow> ('w, ReconcileResult, StatefulSet) prog" where
  "remove_batch api found rackState ignorablePodNames runningPods podsBatch =
     (let batchLen = int (length podsBatch) in
      bind (wrap_err (\<lambda>e. ReconcileError (''scale StatefulSet: '' @ e))
              (set_replicas api rackState (StsReplicas found - batchLen) retry_steps)) (\<lambda>found.
      bind (if runningPods \<noteq> [] then settle_scale_down api rackState found ignorablePodNames batchLen else ret ()) (\<lambda>_.
      bind (wrap_err (\<lambda>e. ReconcileError (''get StatefulSet: '' @ get_error_text e)) (getSTS api rackState)) (\<lambda>_.
      bind (wrap_err (\<lambda>e. ReconcileError (''clean up Pods: '' @ e))
              (cleanupPods api (map PodName podsBatch) rackState)) (\<lambda>_.
        fail (ReconcileRequeueAfter 1))))))"

definition scale_down_pods ::
  "'w rack_api \<Rightarrow> StatefulSet \<Rightarrow> RackState \<Rightarrow> string list \<Rightarrow> IntOrString option \<Rightarrow> Pod list \<Rightarrow>
   ('w, ReconcileResult, StatefulSet) prog" where
  "scale_down_pods api found rackState ignorablePodNames customBatchSize oldPodList =
     bind get_cluster (\<lambda>c.
       let diffPods = nat (StsReplicas found - RsSize rackState);
           batchSize = (case customBatchSize of None \<Rightarrow> SpecScaleDownBatchSize (ClusterSpec c) | Some b \<Rightarrow> Some b) in
       if length oldPodList < diffPods then from_res Panic
       else
         let podsBatch = hd (getPodsBatchList (RScaled api) batchSize (take diffPods oldPodList) (int (length oldPodList))) in
         bind (from_res (res_map_err ReconcileError (scale_down_scan c ignorablePodNames podsBatch))) (\<lambda>(runningPods, ignorable).
         bind (if runningPods \<noteq> []
               then waitForMultipleNodesSafeStopReady (RBase api) runningPods ignorable 0 True else ret ()) (\<lambda>_.
         bind (wrap_err (prefix_err ''wait for migrations to complete: '') (waitForMigrationToComplete (RBase api) ignorable)) (\<lambda>_.
           remove_batch api found rackState ignorable runningPods podsBatch))))"

definition scaleDownRack ::
  "'w rack_api \<Rightarrow> int list \<Rightarrow> StatefulSet \<Rightarrow> RackState \<Rightarrow> string list \<Rightarrow> IntOrString option \<Rightarrow>
   ('w, ReconcileResult, StatefulSet) prog" where
  "scaleDownRack api migrating found rackState ignorablePodNames customBatchSize =
     (if StsReplicas found \<le> RsSize rackState then ret found
      else
        bind (claim_scaling api migrating rackState ''ScalingDown'') (\<lambda>_.
        bind (rack_pods_or_error api (RsRack rackState))
          (scale_down_pods api found rackState ignorablePodNames customBatchSize)))"

section \<open>Scaling up\<close>

definition scaleUpRack ::
  "'w rack_api \<Rightarrow> int list \<Rightarrow> StatefulSet \<Rightarrow> RackState \<Rightarrow> ('w, ReconcileResult, StatefulSet) prog" where
  "scaleUpRack api migrating found rackState =
     bind (claim_scaling api migrating rackState ''ScalingUp'') (\<lambda>_.
     bind (rack_pods_or_error api (RsRack rackState)) (\<lambda>podList.
       let newPodNames = map (GetSTSPodName (StsName found)) [StsReplicas found..RsSize rackState - 1] in
       if list_ex (\<lambda>n. n \<in> set (map PodName podList)) newPodNames
       then fail (ReconcileError ''pending Pod yet to be launched is still present'')
       else
         bind (wrap_err (\<lambda>e. ReconcileError (''run scale-up pre-check: '' @ e)) (cleanupDanglingPodsRack api found rackState)) (\<lambda>_.
         bind (wrap_err ReconcileError (createOrUpdatePodServiceIfNeeded api newPodNames)) (\<lambda>_.
         bind (wrap_err ReconcileError (set_replicas api rackState (RsSize rackState) retry_steps)) (\<lambda>_.
           wrap_err (ReconcileError \<circ> get_error_text) (getSTS api rackState))))))"

section \<open>Creating and deleting racks\<close>

definition same_data :: "string gomap \<Rightarrow> string gomap \<Rightarrow> bool" where
  "same_data a b = list_all (\<lambda>k. gomap_get a k = gomap_get b k) (map fst (a @ b))"

definition createSTSConfigMap :: "'w rack_api \<Rightarrow> string \<Rightarrow> Rack \<Rightarrow> ('w, string, unit) prog" where
  "createSTSConfigMap api name rack =
     bind (attempt (issue (CGetConfigMap name) (RGetConfigMap api name))) (\<lambda>r.
       case r of
         Inl e \<Rightarrow>
           (case e of
              GetNotFound \<Rightarrow>
                bind (wrap_err (\<lambda>e. ''build dotConfig from map: '' @ e) (issue (CConfigMapData (RackID rack)) (RConfigMapData api rack))) (\<lambda>configMapData.
                  wrap_err (\<lambda>e. ''create ConfigMap: '' @ e)
                    (issue (CCreateConfigMap name) (RCreateConfigMap api name configMapData)))
            | GetFailed err \<Rightarrow> fail err)
       | Inr old \<Rightarrow>
           bind (wrap_err (\<lambda>e. ''build ConfigMap data: '' @ e) (issue (CConfigMapData (RackID rack)) (RConfigMapData api rack))) (\<lambda>configMapData.
             if same_data old configMapData then ret ()
             else wrap_err (\<lambda>e. ''update ConfigMap: '' @ e)
                    (issue (CUpdateConfigMap name) (RUpdateConfigMap api name configMapData))))"

text \<open>Keys that are not made from the specification stay.\<close>

definition updateSTSConfigMap :: "'w rack_api \<Rightarrow> string \<Rightarrow> Rack \<Rightarrow> ('w, string, unit) prog" where
  "updateSTSConfigMap api name rack =
     bind (wrap_err get_error_text (issue (CGetConfigMap name) (RGetConfigMap api name))) (\<lambda>old.
     bind (wrap_err (\<lambda>e. ''build dotConfig from map: '' @ e) (issue (CConfigMapData (RackID rack)) (RConfigMapData api rack))) (\<lambda>configMapData.
       wrap_err (\<lambda>e. ''update ConfigMap: '' @ e)
         (issue (CUpdateConfigMap name)
            (RUpdateConfigMap api name (fold (\<lambda>(k, v). gomap_put k v) configMapData old)))))"

text \<open>A failed creation carries the StatefulSet if it exists by then.\<close>

definition createSTS :: "'w rack_api \<Rightarrow> string \<Rightarrow> RackState \<Rightarrow> ('w, StatefulSet option \<times> string, StatefulSet) prog" where
  "createSTS api name rackState =
     bind (wrap_err (\<lambda>e. (None, ''create StatefulSet: '' @ e))
             (issue (CCreateSTS name (RsSize rackState)) (RCreateSTS api name rackState))) (\<lambda>st.
     bind (wrap_err (\<lambda>e. (Some st, ''wait for StatefulSet to be ready: '' @ wait_error_text e))
             (waitForSTSToBeReady (RBase api) st [])) (\<lambda>_.
       wrap_err (\<lambda>e. (None, get_error_text e)) (getSTS api rackState)))"

definition deleteSTS :: "'w rack_api \<Rightarrow> StatefulSet \<Rightarrow> ('w, string, unit) prog" where
  "deleteSTS api st = issue (CDeleteSTS (StsName st)) (RDeleteSTS api (StsName st))"

definition createEmptyRack :: "'w rack_api \<Rightarrow> RackState \<Rightarrow> ('w, ReconcileResult, StatefulSet) prog" where
  "createEmptyRack api rackState =
     bind get_cluster (\<lambda>c.
       let name = rack_sts_name c (RsRack rackState) in
       bind (wrap_err (\<lambda>e. ReconcileError (''create ConfigMap for rack: '' @ e)) (createSTSConfigMap api name (RsRack rackState))) (\<lambda>_.
       bind (attempt (createSTS api name rackState)) (\<lambda>r.
         case r of
           Inr found \<Rightarrow> ret found
         | Inl (found, err) \<Rightarrow>
             bind (case found of
                     None \<Rightarrow> ret ()
                   | Some st \<Rightarrow> bind (attempt (deleteSTS api st)) (\<lambda>_. ret ())) (\<lambda>_.
               fail (ReconcileError (''create StatefulSet for rack: '' @ err))))))"

definition deleteRackConfigMap :: "'w rack_api \<Rightarrow> string \<Rightarrow> ('w, string, unit) prog" where
  "deleteRackConfigMap api name =
     bind (attempt (issue (CDeleteConfigMap name) (RDeleteConfigMap api name))) (\<lambda>r.
       case r of
         Inr _ \<Rightarrow> ret ()
       | Inl e \<Rightarrow> (case e of GetNotFound \<Rightarrow> ret () | GetFailed err \<Rightarrow> fail (''delete rack ConfigMap: '' @ err)))"

definition delete_rack :: "'w rack_api \<Rightarrow> int list \<Rightarrow> string list \<Rightarrow> Rack \<Rightarrow> ('w, ReconcileResult, unit) prog" where
  "delete_rack api migrating ignorablePodNames rack =
     bind get_cluster (\<lambda>c.
       let name = rack_sts_name c rack; rackState = \<lparr>RsRack = rack, RsSize = 0\<rparr> in
       bind (attempt (issue (CGetSTS name) (ApiGetSTS (RBase api) name))) (\<lambda>r.
         case r of
           Inl e \<Rightarrow> (case e of GetNotFound \<Rightarrow> ret () | GetFailed err \<Rightarrow> fail (ReconcileError err))
         | Inr found \<Rightarrow>
             bind (scaleDownRack api migrating found rackState ignorablePodNames None) (\<lambda>found.
             bind (wrap_err ReconcileError (deleteSTS api found)) (\<lambda>_.
             bind (wrap_err ReconcileError (deleteRackConfigMap api name)) (\<lambda>_.
               wrap_err ReconcileError (cleanupDanglingPodsRack api found rackState))))))"

definition deleteRacks ::
  "'w rack_api \<Rightarrow> int list \<Rightarrow> Rack list \<Rightarrow> string list \<Rightarrow> ('w, ReconcileResult, unit) prog" where
  "deleteRacks api migrating racksToDelete ignorablePodNames =
     each (delete_rack api migrating ignorablePodNames) racksToDelete"

section \<open>Which calls an operation makes\<close>

lemma only_scale_reads:
  "only is_stop_call (waitForMigrationToComplete base ign)" "only is_stop_call (validateSCClusterState base ign)"
  "only is_stop_call (rack_pods_or_error api rack)" "only is_stop_call (getSTS api rackState)"
  unfolding waitForMigrationToComplete_def validateSCClusterState_def newAllHostConnWithOption_def getClusterPodList_def
    getIgnorableNamespaces_def rack_pods_or_error_def ordered_rack_pods_def getSTS_def Let_def
  by (intro trace_rules only_stop_reads only_stability; simp)+

lemma only_claim: "only is_stop_call (claim_scaling api migrating rackState cond)"
  unfolding claim_scaling_def claim_condition_def by (intro trace_rules) simp

text \<open>The calls of a cleanup behind removed pods.\<close>

fun cleans :: "string list \<Rightarrow> call \<Rightarrow> bool" where
  "cleans names (CDeletePVC n) = list_ex (HasSuffix n) names"
| "cleans names (CDeletePodService n) = (n \<in> set names)"
| "cleans names (CRemovePodStatus ns) = (set ns \<subseteq> set names)"
| "cleans names (CTipClear n _ _) = (n \<notin> set names)"
| "cleans names (CAlumniReset n) = (n \<notin> set names)"
| "cleans names CListPods = True"
| "cleans names (CListPVCs _ _) = True"
| "cleans names CListClusterPVCs = True"
| "cleans names _ = False"

lemma only_remove_pvcs:
  assumes "\<And>pvc. pvc \<in> set pvcs \<Longrightarrow> list_ex (HasSuffix (PvcName pvc)) names"
  shows "only (\<lambda>x. cleans names (fst x)) (removePVCs api storage pvcs)"
proof -
  have async: "only (\<lambda>x. cleans names (fst x)) (removePVCsAsync api storage pvcs)"
    using assms by (induction pvcs) (auto intro!: trace_rules split: option.split)
  have "only (\<lambda>x. cleans names (fst x)) (poll_pvcs api deleted n)" for deleted n
    by (induction n) (auto intro!: trace_rules simp: sleep_def)
  with async show ?thesis unfolding removePVCs_def waitForPVCTermination_def by (auto intro!: trace_rules)
qed

lemma only_delete_service: "n \<in> set names \<Longrightarrow> only (\<lambda>x. cleans names (fst x)) (deletePodService api n)"
  unfolding deletePodService_def by (auto intro!: trace_rules split: get_error.split)

lemma only_clear_references: "only (\<lambda>x. cleans names (fst x)) (clear_references api names pods n)"
  unfolding clear_references_def tipClearHostname_def tip_clear_port_def alumniReset_def Let_def
  by (intro trace_rules only_connect) auto

lemma runs_pods_pvcs:
  "runs (wrap_err g (getPodsPVCList base names i v)) (\<lambda>r t. list_all (\<lambda>x. cleans names (fst x)) t \<and>
     (\<forall>pvcs. r = Ok pvcs \<longrightarrow> (\<forall>pvc\<in>set pvcs. list_ex (HasSuffix (PvcName pvc)) names)))"
  unfolding runs_def getPodsPVCList_def bind_def wrap_err_def issue_def ret_def
  by (auto simp: list_ex_iff split: prod.splits sum.splits)

lemma only_cleanup: "only (\<lambda>x. cleans names (fst x)) (cleanupPods api names rackState)"
proof -
  have mesh: "only (\<lambda>x. cleans names (fst x)) (cleanupPodMeshAndStatus api names)"
    unfolding cleanupPodMeshAndStatus_def getClusterPodList_def removePodStatus_def
    by (intro trace_rules only_clear_references only_delete_service) auto
  show ?thesis
    unfolding cleanupPods_def
    by (intro only_if only_bind_result [OF runs_pods_pvcs] trace_rules only_remove_pvcs mesh) auto
qed


section \<open>Order of a scale-down\<close>

fun sets_replicas :: "(int \<Rightarrow> bool) \<Rightarrow> call \<Rightarrow> bool" where
  "sets_replicas P (CSetReplicas n m) = P m"
| "sets_replicas P _ = False"

lemma only_set_replicas:
  "only (\<lambda>x. is_stop_call x \<or> sets_replicas (\<lambda>m. m = n) (fst x)) (set_replicas api rackState n k)"
proof (induction k)
  case (Suc k)
  have "only (\<lambda>x. is_stop_call x \<or> sets_replicas (\<lambda>m. m = n) (fst x)) (getSTS api rackState)"
    by (rule only_mono [OF only_scale_reads(4)]) simp
  then show ?case using Suc by (auto intro!: trace_rules split: update_error.split)
qed (auto intro: trace_rules)

definition validated :: "trace \<Rightarrow> bool" where
  "validated t \<longleftrightarrow> (\<exists>hosts ns. (CValidateSC hosts ns, True) \<in> set t)"

definition writes_replicas :: "call \<times> bool \<Rightarrow> bool" where
  "writes_replicas x \<longleftrightarrow> is_stop_call x \<or> sets_replicas (\<lambda>_. True) (fst x)"

lemma sets_replicas_mono: "sets_replicas P c \<Longrightarrow> sets_replicas (\<lambda>_. True) c"
  by (cases c) auto

lemma runs_validate:
  "runs (validateSCClusterState base ign) (\<lambda>r t. list_all is_stop_call t \<and> (r = Ok () \<longrightarrow> validated t))"
proof (rule runs_conj [OF only_scale_reads(2) [unfolded only_def]])
  have conns: "runs (newAllHostConnWithOption base ign) (\<lambda>r t. True)" "runs (getIgnorableNamespaces base hosts) (\<lambda>r t. True)" for hosts
    by (simp_all add: runs_def)
  have "runs (issue (CValidateSC hosts ns) (ApiValidateSC base hosts ns)) (\<lambda>r t. r = Ok () \<longrightarrow> validated t)" for hosts ns
    by (rule runs_issue) (auto simp: validated_def)
  then have "runs (bind (getIgnorableNamespaces base hosts) (\<lambda>ns.
      issue (CValidateSC hosts ns) (ApiValidateSC base hosts ns))) (\<lambda>r t. r = Ok () \<longrightarrow> validated t)" for hosts
    by (rule runs_bind [OF conns(2)]) (auto simp: validated_def)
  then show "runs (validateSCClusterState base ign) (\<lambda>r t. r = Ok () \<longrightarrow> validated t)"
    unfolding validateSCClusterState_def by (rule runs_bind [OF conns(1)]) (auto simp: validated_def)
qed

lemma runs_settle:
  "runs (settle_scale_down api rackState found ign len) (\<lambda>r t. list_all writes_replicas t \<and>
     (r = Ok () \<longrightarrow> list_all is_stop_call t \<and> validated t))"
proof -
  let ?rollback = "\<lambda>found. bind (wrap_err (\<lambda>e. ReconcileError (''scale StatefulSet: '' @ e))
      (set_replicas api rackState (StsReplicas found + len) retry_steps)) (\<lambda>found.
    bind (attempt (waitForSTSPodsServerReady (RBase api) found ign)) (\<lambda>_. fail (ReconcileRequeueAfter 1)))"
  have set: "only writes_replicas (set_replicas api rackState n k)" for n k
    by (rule only_mono [OF only_set_replicas]) (auto simp: writes_replicas_def dest: sets_replicas_mono)
  have wait: "only writes_replicas (waitForSTSPodsServerReady (RBase api) st ign)" for st
    by (rule only_mono [OF only_stop_reads(3)]) (simp add: writes_replicas_def)
  have "only writes_replicas (?rollback st)" for st by (intro trace_rules set wait)
  moreover have "runs (?rollback st) (\<lambda>r t. r \<noteq> Ok ())" for st
    by (intro runs_not_ok) (auto intro: runs_fail)
  ultimately have rollback: "runs (?rollback st) (\<lambda>r t. list_all writes_replicas t \<and> r \<noteq> Ok ())" for st
    unfolding only_def by (rule runs_conj)
  have valid: "runs (attempt (validateSCClusterState (RBase api) ign))
      (\<lambda>r t. list_all is_stop_call t \<and> (\<forall>v. r = Ok v \<longrightarrow> \<not> isl v \<longrightarrow> validated t))"
    by (rule runs_attempt [OF runs_validate]) auto
  have after: "runs (bind (attempt (validateSCClusterState (RBase api) ign)) (\<lambda>valid.
      case valid of Inr _ \<Rightarrow> ret () | Inl _ \<Rightarrow> ?rollback st)) (\<lambda>r t. list_all writes_replicas t \<and>
      (r = Ok () \<longrightarrow> list_all is_stop_call t \<and> validated t))" for st
  proof (rule runs_bind [OF valid, where R = "\<lambda>v r t. if isl v then list_all writes_replicas t \<and> r \<noteq> Ok () else t = []"])
    show "runs (case v of Inl _ \<Rightarrow> ?rollback st | Inr _ \<Rightarrow> ret ())
        (\<lambda>r t. if isl v then list_all writes_replicas t \<and> r \<noteq> Ok () else t = [])" for v :: "string + unit"
      using rollback by (cases v) (auto intro: runs_ret)
  qed (auto simp: writes_replicas_def list_all_iff split: if_splits sum.splits)
  have first: "runs (wrap_err (\<lambda>_. ReconcileRequeueAfter 1) (waitForSTSPodsServerReady (RBase api) found ign))
      (\<lambda>r t. list_all is_stop_call t)"
    using only_wrap_err [OF only_stop_reads(3)] unfolding only_def .
  show ?thesis
    unfolding settle_scale_down_def
    by (rule runs_bind [OF first after]) (auto simp: writes_replicas_def list_all_iff validated_def)
qed


text \<open>
  What follows a successful write of the replicas: the rest of the rack settles, which may write the replicas
  again, and then the removed pods are cleaned up behind. There is no cleanup behind a second write, and
  where a pod of the batch was running there is none before the strongly consistent namespaces were validated.
\<close>

definition settled_and_cleaned :: "Pod list \<Rightarrow> string list \<Rightarrow> trace \<Rightarrow> bool" where
  "settled_and_cleaned running names t \<longleftrightarrow> (\<exists>settle clean. t = settle @ clean \<and>
     list_all writes_replicas settle \<and> list_all (\<lambda>x. cleans names (fst x)) clean \<and>
     (running = [] \<or> clean \<noteq> [] \<longrightarrow> list_all is_stop_call settle) \<and> (clean \<noteq> [] \<longrightarrow> running \<noteq> [] \<longrightarrow> validated settle))"

lemma settled_and_cleanedI:
  assumes "list_all writes_replicas t" and "running = [] \<longrightarrow> t = []"
  shows "settled_and_cleaned running names t"
  unfolding settled_and_cleaned_def using assms by (intro exI [of _ t] exI [of _ "[]"]) auto

definition removed_in_order :: "Pod list \<Rightarrow> int \<Rightarrow> string list \<Rightarrow> trace \<Rightarrow> bool" where
  "removed_in_order running target names t \<longleftrightarrow> (\<exists>lower rest. t = lower @ rest \<and>
     list_all (\<lambda>x. is_stop_call x \<or> sets_replicas (\<lambda>m. m = target) (fst x)) lower \<and>
     (rest \<noteq> [] \<longrightarrow> (\<exists>t0 n. lower = t0 @ [(CSetReplicas n target, True)])) \<and> settled_and_cleaned running names rest)"

lemma runs_settle_and_clean:
  "runs (bind (if running \<noteq> [] then settle_scale_down api rackState st ign len else ret ()) (\<lambda>_.
      bind (wrap_err g (getSTS api rackState)) (\<lambda>_. bind (wrap_err h (cleanupPods api names rackState))
      (\<lambda>_. fail (ReconcileRequeueAfter 1) :: ('w, ReconcileResult, StatefulSet) prog))))
    (\<lambda>r t. settled_and_cleaned running names t)"
proof -
  have clean: "runs (bind (wrap_err h (cleanupPods api names rackState)) (\<lambda>_. fail (ReconcileRequeueAfter 1)))
      (\<lambda>r t. list_all (\<lambda>x. cleans names (fst x)) t)"
    unfolding only_def [symmetric] by (intro trace_rules only_cleanup)
  have get: "runs (wrap_err g (getSTS api rackState)) (\<lambda>r t. list_all is_stop_call t)"
    unfolding only_def [symmetric] by (intro trace_rules only_scale_reads)
  have tail: "runs (bind (wrap_err g (getSTS api rackState)) (\<lambda>_. bind (wrap_err h (cleanupPods api names rackState))
      (\<lambda>_. fail (ReconcileRequeueAfter 1) :: ('w, ReconcileResult, StatefulSet) prog)))
      (\<lambda>r t. \<exists>t1 t2. t = t1 @ t2 \<and> list_all is_stop_call t1 \<and> list_all (\<lambda>x. cleans names (fst x)) t2)"
    by (rule runs_bind [OF get clean]) (metis append_Nil2 list.pred_inject(1), metis append_Nil2 list.pred_inject(1), blast)
  have settle: "runs (if running \<noteq> [] then settle_scale_down api rackState st ign len else ret ())
      (\<lambda>r t. list_all writes_replicas t \<and> (r = Ok () \<longrightarrow> list_all is_stop_call t \<and> (running \<noteq> [] \<longrightarrow> validated t)) \<and>
        (running = [] \<longrightarrow> t = []))"
    by (cases "running = []") (auto intro: runs_ret runs_mono [OF runs_settle])
  show ?thesis
  proof (rule runs_bind [OF settle tail])
    fix a t and r :: "(ReconcileResult, StatefulSet) res" and t'
    assume "list_all writes_replicas t \<and> (Ok a = Ok () \<longrightarrow> list_all is_stop_call t \<and> (running \<noteq> [] \<longrightarrow> validated t)) \<and> (running = [] \<longrightarrow> t = [])"
      and "\<exists>t1 t2. t' = t1 @ t2 \<and> list_all is_stop_call t1 \<and> list_all (\<lambda>x. cleans names (fst x)) t2"
    then obtain t1 t2 where "t' = t1 @ t2" "list_all is_stop_call t1" "list_all (\<lambda>x. cleans names (fst x)) t2"
      "list_all is_stop_call t" "running \<noteq> [] \<longrightarrow> validated t" by auto
    then show "settled_and_cleaned running names (t @ t')" unfolding settled_and_cleaned_def
      by (intro exI [of _ "t @ t1"] exI [of _ t2]) (auto simp: validated_def writes_replicas_def list_all_iff)
  qed (auto intro: settled_and_cleanedI)
qed

lemma runs_set_replicas:
  "runs (set_replicas api rackState n k) (\<lambda>r t. list_all (\<lambda>x. is_stop_call x \<or> sets_replicas (\<lambda>m. m = n) (fst x)) t \<and>
     (\<forall>st. r = Ok st \<longrightarrow> (\<exists>t0 name. t = t0 @ [(CSetReplicas name n, True)])))"
proof (rule runs_conj [OF only_set_replicas [unfolded only_def]], induction k)
  case (Suc k)
  let ?Q = "\<lambda>r t. \<forall>st. r = Ok st \<longrightarrow> (\<exists>t0 name. t = t0 @ [(CSetReplicas name n, True)])"
  have wrote: "runs (attempt (issue (CSetReplicas (StsName cur) n) (RSetReplicas api cur n)))
      (\<lambda>r t. \<forall>v. r = Ok v \<longrightarrow> \<not> isl v \<longrightarrow> t = [(CSetReplicas (StsName cur) n, True)])" for cur
    by (rule runs_attempt [OF runs_issue [where Q = "\<lambda>r t. \<forall>v. r = Ok v \<longrightarrow> t = [(CSetReplicas (StsName cur) n, True)]"]]) auto
  have again: "runs (case v of Inr updated \<Rightarrow> ret updated
       | Inl e \<Rightarrow> (case e of UpdateFailed err \<Rightarrow> fail err
            | UpdateConflict err \<Rightarrow> if k = 0 then fail err else set_replicas api rackState n k))
      (\<lambda>r t. if isl v then ?Q r t else t = [])" for v
    using Suc by (auto intro: runs_ret runs_fail split: sum.split update_error.split)
  have "runs (bind (attempt (issue (CSetReplicas (StsName cur) n) (RSetReplicas api cur n))) (\<lambda>r.
       case r of Inr updated \<Rightarrow> ret updated
       | Inl e \<Rightarrow> (case e of UpdateFailed err \<Rightarrow> fail err
            | UpdateConflict err \<Rightarrow> if k = 0 then fail err else set_replicas api rackState n k))) ?Q" for cur
    by (rule runs_bind [OF wrote again]) (auto split: if_splits)
  then show ?case
    unfolding set_replicas.simps
    by (rule runs_bind [where P = "\<lambda>_ _. True", rotated]) (auto simp: runs_def)
qed (auto intro: runs_fail)

lemma runs_remove_batch:
  "runs (remove_batch api found rackState ign running batch)
     (\<lambda>r t. removed_in_order running (StsReplicas found - int (length batch)) (map PodName batch) t \<and> (\<forall>st. r \<noteq> Ok st))"
proof (rule runs_conj)
  let ?names = "map PodName batch" and ?target = "StsReplicas found - int (length batch)"
  have lower: "runs (wrap_err g (set_replicas api rackState ?target retry_steps))
      (\<lambda>r t. list_all (\<lambda>x. is_stop_call x \<or> sets_replicas (\<lambda>m. m = ?target) (fst x)) t \<and>
        (\<forall>st. r = Ok st \<longrightarrow> (\<exists>t0 name. t = t0 @ [(CSetReplicas name ?target, True)])))" for g :: "string \<Rightarrow> ReconcileResult"
    by (rule runs_wrap_err [OF runs_set_replicas]) auto
  have stop: "removed_in_order running ?target ?names t"
    if "list_all (\<lambda>x. is_stop_call x \<or> sets_replicas (\<lambda>m. m = ?target) (fst x)) t" for t
    unfolding removed_in_order_def using that settled_and_cleanedI [of "[]"] by (intro exI [of _ t] exI [of _ "[]"]) auto
  show "runs (remove_batch api found rackState ign running batch) (\<lambda>r t. removed_in_order running ?target ?names t)"
    unfolding remove_batch_def Let_def
    by (rule runs_bind [OF lower runs_settle_and_clean]) (use stop in \<open>auto simp: removed_in_order_def\<close>)
  have "runs (remove_batch api found rackState ign running batch) (\<lambda>r t. r \<noteq> Ok st)" for st
    unfolding remove_batch_def Let_def by (intro runs_not_ok) (auto intro: runs_fail)
  then show "runs (remove_batch api found rackState ign running batch) (\<lambda>r t. \<forall>st. r \<noteq> Ok st)"
    by (simp add: runs_def case_prod_beta)
qed

lemma keeps_claim: "keeps_cluster (claim_scaling api migrating rackState cond)"
  by (auto simp: keeps_cluster_def claim_scaling_def claim_condition_def wrap_err_def issue_def ret_def
        split: prod.splits sum.splits if_splits)

lemma keeps_rack_pods: "keeps_cluster (rack_pods_or_error api rack)"
  by (auto simp: keeps_cluster_def rack_pods_or_error_def ordered_rack_pods_def wrap_err_def issue_def bind_def from_res_def
        split: prod.splits sum.splits res.splits)

lemma those_map_Some: "those xs = Some ys \<Longrightarrow> xs = map Some ys"
  by (induction xs arbitrary: ys) (auto split: option.splits)

text \<open>The pods a run works on are a list the API server gave, ordered.\<close>

lemma rack_pods_listed:
  assumes "rack_pods_or_error api rack s = (Ok pods, s', t)"
  shows "\<exists>w w' listed. RListRackPods api (RackID rack) (RackRevision rack) w = (Inr listed, w') \<and>
    getOrderedRackPodList (RackID rack) (RackRevision rack) (Ok listed) = Ok (map Some pods)"
  using assms
  by (auto simp: rack_pods_or_error_def ordered_rack_pods_def wrap_err_def issue_def bind_def from_res_def res_simps
        split: prod.splits sum.splits res.splits dest!: those_map_Some elim!: must.elims)

lemma first_batch:
  assumes "pods \<noteq> []"
  obtains more where "pods = hd (getPodsBatchList scaled batchSize pods n) @ more" "hd (getPodsBatchList scaled batchSize pods n) \<noteq> []"
proof -
  define k where "k = nat (if scaled batchSize n \<le> 0 then 1 else scaled batchSize n)"
  have k: "0 < k" by (simp add: k_def)
  obtain full final where cut: "chunk_loop k pods [] = full @ [final]" and full: "\<forall>c\<in>set full. length c = k"
    using chunk_loop_sizes [OF k, of pods "[]"] by auto
  have cat: "concat (full @ [final]) = pods" using concat_chunk_loop [of k pods "[]"] cut by simp
  have batch: "getPodsBatchList scaled batchSize pods n = full @ [final]"
    using cut by (simp add: getPodsBatchList_def chunkBy_def k_def)
  show thesis
  proof (cases full)
    case Nil
    with that [of "[]"] batch cat assms show thesis by simp
  next
    case (Cons b bs)
    with that [of "concat (bs @ [final])"] batch cat full k show thesis by auto
  qed
qed

lemma scan_running:
  "scale_down_scan c ign pods = Ok (running, ign') \<Longrightarrow>
   running = filter IsAerospikeServerReady pods \<and>
   (\<forall>p\<in>set pods. IsAerospikeServerReady p \<or> PodName p \<in> set ign \<or> gomap_get (StPods (ClusterStatus c)) (PodName p) = None)"
  by (induction pods arbitrary: ign running ign') (fastforce simp: res_simps split: if_splits)+


lemma scale_down_stop:
  assumes "scale_down_scan c ign batch = Ok (running, ign')"
  shows "runs (bind (if running \<noteq> [] then waitForMultipleNodesSafeStopReady (RBase api) running ign' 0 True else ret ()) (\<lambda>_.
      bind (wrap_err g (waitForMigrationToComplete (RBase api) ign')) (\<lambda>_. remove_batch api found rackState ign' running batch)))
    (\<lambda>r t. (\<forall>st. r \<noteq> Ok st) \<and> (\<exists>before rest. t = before @ rest \<and> list_all is_stop_call before \<and>
       removed_in_order running (StsReplicas found - int (length batch)) (map PodName batch) rest \<and>
       (rest \<noteq> [] \<longrightarrow> (running \<noteq> [] \<longrightarrow> (\<exists>t0 t1. before = t0 @ t1 \<and> quiesce_of running t0)) \<and>
          (\<exists>hosts. last before = (CIsClusterAndStable hosts, True) \<and> before \<noteq> []))))"
proof -
  let ?removed = "removed_in_order running (StsReplicas found - int (length batch)) (map PodName batch)"
  have none: "?removed []" using settled_and_cleanedI [of "[]"] by (auto simp: removed_in_order_def)
  have stop: "runs (if running \<noteq> [] then waitForMultipleNodesSafeStopReady (RBase api) running ign' 0 True else ret ())
      (\<lambda>r t. list_all is_stop_call t \<and> (r = Ok () \<longrightarrow> running \<noteq> [] \<longrightarrow> quiesce_of running t))"
  proof (cases "running = []")
    case False
    have "runs (waitForMultipleNodesSafeStopReady (RBase api) running ign' 0 True) (\<lambda>r t. r = Ok () \<longrightarrow> quiesce_of running t)"
      by (rule runs_mono [OF runs_safe_stop [OF False]])
         (auto simp: safe_stop_trace_def quiesce_of_def elim!: safely_stoppedE)
    with False show ?thesis by (auto intro!: runs_conj only_safe_stop_calls [unfolded only_def])
  qed (simp add: runs_ret)
  have migrate: "runs (wrap_err g (waitForMigrationToComplete (RBase api) ign')) (\<lambda>r t. list_all is_stop_call t \<and>
      (r = Ok () \<longrightarrow> (\<exists>hosts t0. t = t0 @ [(CIsClusterAndStable hosts, True)])))"
  proof (rule runs_conj)
    have "runs (waitForMigrationToComplete (RBase api) ign') (\<lambda>r t. r = Ok () \<longrightarrow> (\<exists>hosts t0. t = t0 @ [(CIsClusterAndStable hosts, True)]))"
      unfolding waitForMigrationToComplete_def
      by (rule runs_bind [where P = "\<lambda>_ _. True", OF _ runs_stability]) (auto simp: runs_def ends_stable_def)
    then show "runs (wrap_err g (waitForMigrationToComplete (RBase api) ign'))
        (\<lambda>r t. r = Ok () \<longrightarrow> (\<exists>hosts t0. t = t0 @ [(CIsClusterAndStable hosts, True)]))"
      by (rule runs_wrap_err) auto
  qed (use only_wrap_err [OF only_scale_reads(1)] in \<open>simp add: only_def\<close>)
  let ?tail = "\<lambda>r t. (\<forall>st. r \<noteq> Ok st) \<and> (\<exists>before rest. t = before @ rest \<and> list_all is_stop_call before \<and> ?removed rest \<and>
     (rest \<noteq> [] \<longrightarrow> (\<exists>hosts t0. before = t0 @ [(CIsClusterAndStable hosts, True)])))"
  have stopped: "\<exists>before rest. t = before @ rest \<and> list_all is_stop_call before \<and> ?removed rest \<and> (rest \<noteq> [] \<longrightarrow> P before)"
    if "list_all is_stop_call t" for t P
    using that none by (intro exI [of _ t] exI [of _ "[]"]) auto
  have tail: "runs (bind (wrap_err g (waitForMigrationToComplete (RBase api) ign')) (\<lambda>_. remove_batch api found rackState ign' running batch)) ?tail"
    by (rule runs_bind [OF migrate runs_remove_batch]) (use stopped in auto)
  show ?thesis
  proof (rule runs_bind [OF stop tail])
    fix a t and r :: "(ReconcileResult, StatefulSet) res" and t'
    assume s: "list_all is_stop_call t \<and> (Ok a = Ok () \<longrightarrow> running \<noteq> [] \<longrightarrow> quiesce_of running t)" and tl: "?tail r t'"
    from tl obtain before rest where b: "t' = before @ rest" "list_all is_stop_call before" "?removed rest"
      "rest \<noteq> [] \<longrightarrow> (\<exists>hosts t0. before = t0 @ [(CIsClusterAndStable hosts, True)])" by blast
    have "rest \<noteq> [] \<longrightarrow> (running \<noteq> [] \<longrightarrow> (\<exists>t0 t1. t @ before = t0 @ t1 \<and> quiesce_of running t0)) \<and>
        (\<exists>hosts. last (t @ before) = (CIsClusterAndStable hosts, True) \<and> t @ before \<noteq> [])"
      using s b(4) by auto
    moreover have "t @ t' = (t @ before) @ rest" "list_all is_stop_call (t @ before)" using s b by auto
    ultimately show "(\<forall>st. r \<noteq> Ok st) \<and> (\<exists>before rest. t @ t' = before @ rest \<and> list_all is_stop_call before \<and> ?removed rest \<and>
       (rest \<noteq> [] \<longrightarrow> (running \<noteq> [] \<longrightarrow> (\<exists>t0 t1. before = t0 @ t1 \<and> quiesce_of running t0)) \<and>
          (\<exists>hosts. last before = (CIsClusterAndStable hosts, True) \<and> before \<noteq> [])))"
      using tl b(3) by blast
  qed (use stopped in auto)
qed


lemma quiet_split:
  "list_all is_stop_call t \<Longrightarrow>
   \<exists>before rest. t = before @ rest \<and> list_all is_stop_call before \<and> (rest \<noteq> [] \<longrightarrow> P before rest)"
  by (intro exI [of _ t] exI [of _ "[]"]) simp

definition batch_removed :: "AerospikeCluster \<Rightarrow> StatefulSet \<Rightarrow> RackState \<Rightarrow> string list \<Rightarrow> Pod list \<Rightarrow> trace \<Rightarrow> trace \<Rightarrow> bool" where
  "batch_removed c found rackState ign pods before rest \<longleftrightarrow> (\<exists>batch more.
     take (nat (StsReplicas found - RsSize rackState)) pods = batch @ more \<and> batch \<noteq> [] \<and>
     (\<forall>p\<in>set batch. IsAerospikeServerReady p \<or> PodName p \<in> set ign \<or>
        gomap_get (StPods (ClusterStatus c)) (PodName p) = None) \<and>
     (let running = filter IsAerospikeServerReady batch in
      (running \<noteq> [] \<longrightarrow> (\<exists>t0 t1. before = t0 @ t1 \<and> quiesce_of running t0)) \<and>
      removed_in_order running (StsReplicas found - int (length batch)) (map PodName batch) rest) \<and>
     before \<noteq> [] \<and> (\<exists>hosts. last before = (CIsClusterAndStable hosts, True)))"

lemma batch_removed_append: "batch_removed c found rackState ign pods before rest \<Longrightarrow> batch_removed c found rackState ign pods (t @ before) rest"
  unfolding batch_removed_def Let_def by (metis append.assoc append_is_Nil_conv last_appendR quiesce_of_append)

lemma scale_down_pods_run:
  assumes "\<not> StsReplicas found \<le> RsSize rackState" and "scale_down_pods api found rackState ign custom pods s = (r, s', t)"
  shows "(\<forall>st. r \<noteq> Ok st) \<and> (\<exists>before rest. t = before @ rest \<and> list_all is_stop_call before \<and>
    (rest \<noteq> [] \<longrightarrow> batch_removed (CtCluster s) found rackState ign pods before rest))"
proof -
  let ?n = "nat (StsReplicas found - RsSize rackState)"
  define size where "size = (case custom of None \<Rightarrow> SpecScaleDownBatchSize (ClusterSpec (CtCluster s)) | Some b \<Rightarrow> Some b)"
  define batch where "batch = hd (getPodsBatchList (RScaled api) size (take ?n pods) (int (length pods)))"
  show ?thesis
  proof (cases "length pods < ?n")
    case True
    with assms(2) show ?thesis
      by (auto simp: scale_down_pods_def bind_def get_cluster_def from_res_def)
  next
    case False
    then have "take ?n pods \<noteq> []" using assms(1) by auto
    then obtain more where batch: "take ?n pods = batch @ more" "batch \<noteq> []"
      unfolding batch_def by (rule first_batch)
    let ?go = "\<lambda>(running, ign'). bind (if running \<noteq> [] then waitForMultipleNodesSafeStopReady (RBase api) running ign' 0 True else ret ()) (\<lambda>_.
      bind (wrap_err (prefix_err ''wait for migrations to complete: '') (waitForMigrationToComplete (RBase api) ign'))
        (\<lambda>_. remove_batch api found rackState ign' running batch))"
    have run: "bind (from_res (res_map_err ReconcileError (scale_down_scan (CtCluster s) ign batch))) ?go s = (r, s', t)"
      using assms(2) False
      by (simp add: scale_down_pods_def bind_def [of get_cluster] get_cluster_def size_def batch_def Let_def split: prod.splits)
    show ?thesis
    proof (cases "scale_down_scan (CtCluster s) ign batch")
      case (Ok p)
      obtain running ign' where scan: "scale_down_scan (CtCluster s) ign batch = Ok (running, ign')" using Ok by (cases p) auto
      have "?go (running, ign') s = (r, s', t)"
        using run scan by (auto simp: bind_def [of "from_res _"] from_res_def split: prod.splits)
      then have "bind (if running \<noteq> [] then waitForMultipleNodesSafeStopReady (RBase api) running ign' 0 True else ret ()) (\<lambda>_.
        bind (wrap_err (prefix_err ''wait for migrations to complete: '') (waitForMigrationToComplete (RBase api) ign'))
          (\<lambda>_. remove_batch api found rackState ign' running batch)) s = (r, s', t)" by simp
      from runsD [OF scale_down_stop [OF scan] this] obtain before rest where b: "\<forall>st. r \<noteq> Ok st" "t = before @ rest"
        "list_all is_stop_call before" "removed_in_order running (StsReplicas found - int (length batch)) (map PodName batch) rest"
        "rest \<noteq> [] \<longrightarrow> (running \<noteq> [] \<longrightarrow> (\<exists>t0 t1. before = t0 @ t1 \<and> quiesce_of running t0)) \<and>
          (\<exists>hosts. last before = (CIsClusterAndStable hosts, True) \<and> before \<noteq> [])"
        by blast
      have running: "filter IsAerospikeServerReady batch = running" using scan_running [OF scan] by simp
      have "batch_removed (CtCluster s) found rackState ign pods before rest" if "rest \<noteq> []"
        unfolding batch_removed_def Let_def
        by (rule exI [of _ batch], rule exI [of _ more], unfold running, intro conjI)
           (use batch b(4,5) that scan_running [OF scan] in auto)
      with b show ?thesis by blast
    qed (use run in \<open>auto simp: bind_def from_res_def intro: quiet_split\<close>)
  qed
qed

lemma scale_down_run:
  assumes "\<not> StsReplicas found \<le> RsSize rackState"
    and "scaleDownRack api migrating found rackState ign custom s = (r, s', t)"
  shows "(\<forall>st. r \<noteq> Ok st) \<and> (\<exists>before rest. t = before @ rest \<and> list_all is_stop_call before \<and> (rest \<noteq> [] \<longrightarrow>
      (\<exists>w w' listed pods.
         RListRackPods api (RackID (RsRack rackState)) (RackRevision (RsRack rackState)) w = (Inr listed, w') \<and>
         getOrderedRackPodList (RackID (RsRack rackState)) (RackRevision (RsRack rackState)) (Ok listed) = Ok (map Some pods) \<and>
         batch_removed (CtCluster s) found rackState ign pods before rest)))" (is "?R r \<and> ?T t")
proof -
  let ?list = "bind (rack_pods_or_error api (RsRack rackState)) (scale_down_pods api found rackState ign custom)"
  have quiet: "?T t" if "list_all is_stop_call t" for t using that by (rule quiet_split)
  from assms have "bind (claim_scaling api migrating rackState ''ScalingDown'') (\<lambda>_. ?list) s = (r, s', t)"
    by (simp add: scaleDownRack_def)
  then show ?thesis
  proof (cases rule: bind_runE)
    case (Err e)
    then show ?thesis using quiet onlyD [OF only_claim Err(1)] by simp
  next
    case Panic
    then show ?thesis using quiet onlyD [OF only_claim Panic(1)] by simp
  next
    case (Ok a s1 t1 t2)
    note claim = onlyD [OF only_claim Ok(1)] keeps_clusterD [OF keeps_claim Ok(1)] and t = Ok(3)
    from Ok(2) show ?thesis
    proof (cases rule: bind_runE)
      case (Err e)
      then show ?thesis using quiet [of t] claim t onlyD [OF only_scale_reads(3) Err(1)] by simp
    next
      case Panic
      then show ?thesis using quiet [of t] claim t onlyD [OF only_scale_reads(3) Panic(1)] by simp
    next
      case (Ok pods s2 t3 t4)
      note list = onlyD [OF only_scale_reads(3) Ok(1)] keeps_clusterD [OF keeps_rack_pods Ok(1)]
      from scale_down_pods_run [OF assms(1) Ok(2)] list(2) claim(2) obtain before rest where b: "?R r" "t4 = before @ rest"
        "list_all is_stop_call before" "rest \<noteq> [] \<longrightarrow> batch_removed (CtCluster s) found rackState ign pods before rest" by auto
      have "t = ((t1 @ t3) @ before) @ rest" "list_all is_stop_call ((t1 @ t3) @ before)"
        using b claim list Ok t by auto
      moreover have "rest \<noteq> [] \<longrightarrow> batch_removed (CtCluster s) found rackState ign pods ((t1 @ t3) @ before) rest"
        using b(4) batch_removed_append by blast
      ultimately show ?thesis using b(1) rack_pods_listed [OF Ok(1)] by blast
    qed
  qed
qed

text \<open>
  Property C6. Scaling a rack down is staged. A run that is not needed returns at once and is the only one that
  succeeds. In any other run the calls split in two. The first part neither changes the StatefulSet nor deletes
  anything. If there is a second part, then a batch was chosen from the end of the rack's ordered pods; every
  pod of it has a running server, may be ignored, or never joined the cluster; the pods with running servers were quiesced
  behind a safe stop; and the last call of the first part is a positive answer about the stability of the
  cluster. The second part lowers the replicas by the size of the batch, and only afterwards, and if the
  servers that stay passed validation where a pod of the batch was running, cleans up behind the pods of the
  batch and no other; replicas are set to another number only in a run that cleans nothing up.
\<close>

theorem scale_down_staged:
  assumes "scaleDownRack api migrating found rackState ign custom s = (r, s', t)"
  shows "if StsReplicas found \<le> RsSize rackState then r = Ok found \<and> t = []
    else (\<forall>st. r \<noteq> Ok st) \<and> (\<exists>before rest. t = before @ rest \<and> list_all is_stop_call before \<and> (rest \<noteq> [] \<longrightarrow>
      (\<exists>w w' listed pods batch more.
         RListRackPods api (RackID (RsRack rackState)) (RackRevision (RsRack rackState)) w = (Inr listed, w') \<and>
         getOrderedRackPodList (RackID (RsRack rackState)) (RackRevision (RsRack rackState)) (Ok listed) = Ok (map Some pods) \<and>
         take (nat (StsReplicas found - RsSize rackState)) pods = batch @ more \<and> batch \<noteq> [] \<and>
         (\<forall>p\<in>set batch. IsAerospikeServerReady p \<or> PodName p \<in> set ign \<or>
            gomap_get (StPods (ClusterStatus (CtCluster s))) (PodName p) = None) \<and>
         (let running = filter IsAerospikeServerReady batch in
          (running \<noteq> [] \<longrightarrow> (\<exists>t0 t1. before = t0 @ t1 \<and> quiesce_of running t0)) \<and>
          removed_in_order running (StsReplicas found - int (length batch)) (map PodName batch) rest) \<and>
         before \<noteq> [] \<and> (\<exists>hosts. last before = (CIsClusterAndStable hosts, True)))))"
proof (cases "StsReplicas found \<le> RsSize rackState")
  case True
  with assms show ?thesis by (simp add: scaleDownRack_def ret_def)
next
  case False
  from scale_down_run [OF False assms] show ?thesis
    unfolding batch_removed_def if_not_P [OF False] by metis
qed


text \<open>A rack of two pods that is scaled down to one; the volume claim of the second pod is deleted with it.\<close>

definition scale_storage :: AerospikeStorageSpec where
  "scale_storage = no_storage\<lparr>BlockVolumePolicy := no_policy\<lparr>CascadeDelete := True\<rparr>\<rparr>"

definition scale_rack :: RackState where
  "scale_rack = \<lparr>RsRack = (example_rack [example_ns ''a'' []])\<lparr>RackStorage := scale_storage\<rparr>, RsSize = 1\<rparr>"

definition scale_sts :: StatefulSet where
  "scale_sts = \<lparr>StsName = ''cl-1'', StsReplicas = 2, StsStatusReplicas = 2\<rparr>"

definition scale_api :: "nat rack_api" where
  "scale_api = \<lparr>RBase = info_api\<lparr>ApiListPVCs := (\<lambda>_ _ w. (Inr [\<lparr>PvcName = ''ns-cl-1-1'', PvcStorageClassName = None,
       PvcTerminating = False, PvcAnnotations = [(''storage-volume'', ''ns'')], PvcVolumeMode = ''Block''\<rparr>], w))\<rparr>,
     RScaled = (\<lambda>_ _. 1), RScaledUp = (\<lambda>_ _. 1), RListRackPods = (\<lambda>_ _ w. (Inr info_pods, w)),
     RListClusterPVCs = (\<lambda>w. (Inr [], w)), RSetReplicas = (\<lambda>st n w. (Inr (st\<lparr>StsReplicas := n\<rparr>), w)),
     RUpdateSTS = (\<lambda>_ _ w. (Inr (), w)), RUpdateInitImage = (\<lambda>st w. (Inr st, w)),
     RCreateSTS = (\<lambda>name rs w. (Inr \<lparr>StsName = name, StsReplicas = RsSize rs, StsStatusReplicas = RsSize rs\<rparr>, w)),
     RDeleteSTS = (\<lambda>_ w. (Inr (), w)), RGetConfigMap = (\<lambda>_ w. (Inr [], w)), RConfigMapData = (\<lambda>_ w. (Inr [], w)),
     RCreateConfigMap = (\<lambda>_ _ w. (Inr (), w)), RUpdateConfigMap = (\<lambda>_ _ w. (Inr (), w)),
     RDeleteConfigMap = (\<lambda>_ w. (Inr (), w)), RSetCondition = (\<lambda>_ w. (Inr (), w)), RPodService = (\<lambda>_ w. (Inr (), w)),
     RDeleteService = (\<lambda>_ w. (Inr (), w)), RTipClear = (\<lambda>_ _ _ w. (Inr (), w)), RAlumniReset = (\<lambda>_ w. (Inr (), w)),
     RRemovePodStatus = (\<lambda>_ w. (Inr [], w))\<rparr>"

lemma scale_run:
  "let (r, s', t) = scaleDownRack scale_api [] scale_sts scale_rack [] None info_state
   in (CSetReplicas ''cl-1'' 1, True) \<in> set t \<and> (CDeletePVC ''ns-cl-1-1'', True) \<in> set t"
  by code_simp

theorem scale_down_witness:
  "\<exists>before rest hosts. snd (snd (scaleDownRack scale_api [] scale_sts scale_rack [] None info_state)) = before @ rest \<and>
     (CSetReplicas ''cl-1'' 1, True) \<in> set rest \<and> (CDeletePVC ''ns-cl-1-1'', True) \<in> set rest \<and>
     last before = (CIsClusterAndStable hosts, True)"
proof -
  obtain r s' t where run: "scaleDownRack scale_api [] scale_sts scale_rack [] None info_state = (r, s', t)"
    by (cases "scaleDownRack scale_api [] scale_sts scale_rack [] None info_state")
  then have calls: "(CSetReplicas ''cl-1'' 1, True) \<in> set t" "(CDeletePVC ''ns-cl-1-1'', True) \<in> set t" using scale_run by auto
  have needed: "\<not> StsReplicas scale_sts \<le> RsSize scale_rack" by (simp add: scale_sts_def scale_rack_def)
  from scale_down_staged [OF run, unfolded if_not_P [OF needed]] obtain before rest where
    t: "t = before @ rest" "list_all is_stop_call before" and rest: "rest \<noteq> [] \<longrightarrow> (\<exists>hosts. last before = (CIsClusterAndStable hosts, True))"
    by metis
  have "(CSetReplicas ''cl-1'' 1, True) \<in> set rest" "(CDeletePVC ''ns-cl-1-1'', True) \<in> set rest"
    using calls t by (force simp: list_all_iff)+
  with rest t run show ?thesis by (metis empty_iff empty_set snd_conv)
qed

end
