(* ===== verification/Rack_Ops.thy ===== *)
theory Rack_Ops
  imports Rack_Scale
begin

text \<open>
  The operations on a rack of \<^verbatim>\<open>internal/controller/cluster/rack.go\<close>: upgrades, rolling restarts, dynamic
  configuration, pods on blocked nodes, and their composition \<^verbatim>\<open>reconcileRack\<close>; the handling of failed pods
  and the migration of a rack to a new revision. Events and log lines are left out.
\<close>

section \<open>Calls\<close>

text \<open>
  \<open>OEnv\<close> is what the choice of restart types reads besides the pods and the config map, \<open>OConfigCmds\<close> and
  \<open>OSetConfig\<close> are \<^verbatim>\<open>CreateSetConfigCmdList\<close> and \<^verbatim>\<open>SetConfigCommandsOnHosts\<close> of the management library (the
  latter gives the commands that succeeded with its error), \<open>OAccessControl\<close> is
  \<^verbatim>\<open>validateAndReconcileAccessControl\<close>.
\<close>

record ('w, 'conf, 'd) ops_api =
  ORack :: "'w rack_api"
  OEnv :: "RackState \<Rightarrow> 'w \<Rightarrow> ('conf, 'd) restart_env"
  OConfigCmds :: "'d gomap \<Rightarrow> string \<Rightarrow> ('w, string list) api_call"
  OSetConfig :: "string list \<Rightarrow> string \<Rightarrow> string list \<Rightarrow> 'w \<Rightarrow> ((string list \<times> string) + unit) \<times> 'w"
  OPatchDynamicStatus :: "string \<Rightarrow> string \<Rightarrow> ('w, AerospikePodStatus gomap) api_call"
  OAccessControl :: "Pod list \<Rightarrow> string list \<Rightarrow> ('w, unit) api_call"

abbreviation obase :: "('w, 'conf, 'd) ops_api \<Rightarrow> 'w api" where
  "obase api \<equiv> RBase (ORack api)"

text \<open>The pods that triggered a recovery, and whether their servers failed or only their sidecars.\<close>

record failedPodsInfo =
  FpPods :: "Pod list"
  FpIsServerFailed :: bool

definition pods_or_failed ::
  "('w, 'conf, 'd) ops_api \<Rightarrow> RackState \<Rightarrow> failedPodsInfo option \<Rightarrow> ('w, ReconcileResult, Pod list) prog" where
  "pods_or_failed api rackState podFailure =
     (case podFailure of
        Some f \<Rightarrow> if FpPods f \<noteq> [] then ret (FpPods f) else rack_pods_or_error (ORack api) (RsRack rackState)
      | None \<Rightarrow> rack_pods_or_error (ORack api) (RsRack rackState))"

text \<open>The template of the StatefulSet is replaced with its replicas as they were read, again after a conflict.\<close>

fun save_sts :: "'w rack_api \<Rightarrow> StatefulSet \<Rightarrow> RackState \<Rightarrow> nat \<Rightarrow> ('w, string, unit) prog" where
  "save_sts api st rackState 0 = fail ''conflict''"
| "save_sts api st rackState (Suc k) =
     bind (wrap_err get_error_text (getSTS api rackState)) (\<lambda>found.
     bind (attempt (issue (CUpdateSTS (StsName found) (StsReplicas st)) (RUpdateSTS api st rackState))) (\<lambda>r.
       case r of
         Inr _ \<Rightarrow> ret ()
       | Inl e \<Rightarrow>
           (case e of
              UpdateFailed err \<Rightarrow> fail err
            | UpdateConflict err \<Rightarrow> if k = 0 then fail err else save_sts api st rackState k)))"

definition updateSTS :: "'w rack_api \<Rightarrow> StatefulSet \<Rightarrow> RackState \<Rightarrow> ('w, string, unit) prog" where
  "updateSTS api st rackState = wrap_err (\<lambda>e. ''update StatefulSet: '' @ e) (save_sts api st rackState retry_steps)"

section \<open>Upgrades\<close>

fun any_pod_outdated :: "'w api \<Rightarrow> AerospikeCluster \<Rightarrow> string list \<Rightarrow> Pod list \<Rightarrow> (string, bool) res" where
  "any_pod_outdated api c ignorable [] = Ok False"
| "any_pod_outdated api c ignorable (pod # pods) =
     (if PodName pod \<in> set ignorable then any_pod_outdated api c ignorable pods
      else res_bind (isPodOnDesiredImage api c pod) (\<lambda>ok.
        if ok then any_pod_outdated api c ignorable pods else Ok True))"

definition isRackUpgradeNeeded :: "('w, 'conf, 'd) ops_api \<Rightarrow> Rack \<Rightarrow> string list \<Rightarrow> ('w, string, bool) prog" where
  "isRackUpgradeNeeded api rack ignorablePodNames =
     bind (wrap_err (\<lambda>e. ''list Pods for rack: '' @ e)
             (issue (CListRackPods (RackID rack) (RackRevision rack))
                (RListRackPods (ORack api) (RackID rack) (RackRevision rack)))) (\<lambda>podList.
     bind get_cluster (\<lambda>c. from_res (any_pod_outdated (obase api) c ignorablePodNames podList)))"

fun pods_to_upgrade :: "'w api \<Rightarrow> AerospikeCluster \<Rightarrow> string list \<Rightarrow> Pod list \<Rightarrow> (string, Pod list) res" where
  "pods_to_upgrade api c ignorable [] = Ok []"
| "pods_to_upgrade api c ignorable (pod # pods) =
     (if PodName pod \<in> set ignorable then pods_to_upgrade api c ignorable pods
      else res_bind (isPodOnDesiredImage api c pod) (\<lambda>ok.
           res_bind (pods_to_upgrade api c ignorable pods) (\<lambda>rest. Ok (if ok then rest else pod # rest))))"

text \<open>One batch, then a requeue if there are more; behind the last one the StatefulSet is read again.\<close>

definition one_batch ::
  "('w, 'conf, 'd) ops_api \<Rightarrow> RackState \<Rightarrow> (Pod list \<Rightarrow> ('w, ReconcileResult, unit) prog) \<Rightarrow> Pod list \<Rightarrow> int \<Rightarrow>
   ('w, ReconcileResult, StatefulSet) prog" where
  "one_batch api rackState handle pods rackSize =
     bind get_cluster (\<lambda>c.
       let podsBatchList = getPodsBatchList (RScaled (ORack api)) (SpecRollingUpdateBatchSize (ClusterSpec c)) pods rackSize;
           podsBatch = hd podsBatchList in
       bind (wrap_err ReconcileError (createOrUpdatePodServiceIfNeeded (ORack api) (map PodName podsBatch))) (\<lambda>_.
       bind (handle podsBatch) (\<lambda>_.
         if 1 < length podsBatchList then fail (ReconcileRequeueAfter 1)
         else wrap_err (ReconcileError \<circ> get_error_text) (getSTS (ORack api) rackState))))"

definition upgradeRack ::
  "('w, 'conf, 'd) ops_api \<Rightarrow> StatefulSet \<Rightarrow> RackState \<Rightarrow> string list \<Rightarrow> failedPodsInfo option \<Rightarrow>
   ('w, ReconcileResult, StatefulSet) prog" where
  "upgradeRack api st rackState ignorablePodNames podFailure =
     bind (claim_condition (ORack api) ''Upgrading'') (\<lambda>_.
     bind (pods_or_failed api rackState podFailure) (\<lambda>podList.
     bind (wrap_err (\<lambda>e. ReconcileError (''update StatefulSet spec for rack: '' @ e)) (updateSTS (ORack api) st rackState)) (\<lambda>_.
     bind get_cluster (\<lambda>c.
     bind (from_res (res_map_err ReconcileError (pods_to_upgrade (obase api) c ignorablePodNames podList))) (\<lambda>podsToUpgrade.
       one_batch api rackState (\<lambda>batch. safelyDeletePodsAndEnsureImageUpdated (obase api) rackState batch ignorablePodNames)
         podsToUpgrade (int (length podList)))))))"

section \<open>Rolling restarts\<close>

definition needs_rolling_restart :: "RestartType \<Rightarrow> bool" where
  "needs_rolling_restart t \<longleftrightarrow> t = podRestart \<or> t = quickRestart"

definition rollingRestartRack ::
  "('w, 'conf, 'd) ops_api \<Rightarrow> StatefulSet \<Rightarrow> RackState \<Rightarrow> string list \<Rightarrow> RestartType gomap \<Rightarrow> failedPodsInfo option \<Rightarrow>
   ('w, ReconcileResult, StatefulSet) prog" where
  "rollingRestartRack api found rackState ignorablePodNames restartTypeMap podFailure =
     bind (pods_or_failed api rackState podFailure) (\<lambda>podList.
     bind (wrap_err (\<lambda>e. ReconcileError (''update StatefulSet during rolling restart: '' @ e)) (updateSTS (ORack api) found rackState)) (\<lambda>_.
       let podsToRestart = filter (\<lambda>pod. PodName pod \<notin> set ignorablePodNames \<and>
             needs_rolling_restart (restart_type_of restartTypeMap (PodName pod))) podList in
       one_batch api rackState (\<lambda>batch. rollingRestartPods (obase api) rackState batch ignorablePodNames restartTypeMap)
         podsToRestart (int (length podList))))"

text \<open>Pods on blocked nodes; pods that may be ignored are not left out.\<close>

definition handleK8sNodeBlockListPods ::
  "('w, 'conf, 'd) ops_api \<Rightarrow> StatefulSet \<Rightarrow> RackState \<Rightarrow> string list \<Rightarrow> failedPodsInfo option \<Rightarrow>
   ('w, ReconcileResult, unit) prog" where
  "handleK8sNodeBlockListPods api st rackState ignorablePodNames podFailure =
     bind (wrap_err (\<lambda>e. ReconcileError (''process k8s node block list: '' @ e)) (updateSTS (ORack api) st rackState)) (\<lambda>_.
     bind (pods_or_failed api rackState podFailure) (\<lambda>podList.
     bind get_cluster (\<lambda>c.
       let podsToRestart = filter (\<lambda>pod. PodNodeName pod \<in> set (SpecK8sNodeBlockList (ClusterSpec c))) podList;
           restartTypeMap = map (\<lambda>pod. (PodName pod, podRestart)) podsToRestart;
           podsBatchList = getPodsBatchList (RScaled (ORack api)) (SpecRollingUpdateBatchSize (ClusterSpec c)) podsToRestart
             (int (length podList));
           podsBatch = hd podsBatchList in
       bind (if podsBatch \<noteq> [] then claim_condition (ORack api) ''RollingRestart'' else ret ()) (\<lambda>_.
       bind (rollingRestartPods (obase api) rackState podsBatch ignorablePodNames restartTypeMap) (\<lambda>_.
         if 1 < length podsBatchList then fail (ReconcileRequeueAfter 1) else ret ())))))"

record 'd rollingRestartInfo =
  RiTypes :: "RestartType gomap"
  RiDynamic :: "'d gomap gomap"
  RiNeedRestart :: bool
  RiNeedUpdateConf :: bool

definition conf_hashes_of :: "string gomap \<Rightarrow> conf_hashes" where
  "conf_hashes_of confData =
     (let get = (\<lambda>k. case gomap_get confData k of None \<Rightarrow> [] | Some v \<Rightarrow> v) in
      \<lparr>HAerospikeConf = get ''aerospikeConfHash'', HNetworkPolicy = get ''networkPolicyHash'', HPodSpec = get ''podSpecHash''\<rparr>)"

definition rack_conf_map :: "('w, 'conf, 'd) ops_api \<Rightarrow> Rack \<Rightarrow> ('w, string, conf_hashes) prog" where
  "rack_conf_map api rack =
     bind get_cluster (\<lambda>c.
       let name = rack_sts_name c rack in
       bind (wrap_err get_error_text (issue (CGetConfigMap name) (RGetConfigMap (ORack api) name)))
         (\<lambda>confData. ret (conf_hashes_of confData)))"

definition restart_type_map ::
  "('w, 'conf, 'd) ops_api \<Rightarrow> RackState \<Rightarrow> string list \<Rightarrow> string list \<Rightarrow> ('w, string, RestartType gomap \<times> 'd gomap gomap) prog" where
  "restart_type_map api rackState ignorablePodNames serverFailedPodsNames =
     bind (wrap_err (\<lambda>e. ''list Pods for rack: '' @ e) (ordered_rack_pods (ORack api) (RsRack rackState))) (\<lambda>pods.
     bind (rack_conf_map api (RsRack rackState)) (\<lambda>confMap.
     bind (getClusterPodList (obase api)) (\<lambda>clusterPods.
     bind get_cluster (\<lambda>c.
     bind (read_world (OEnv api rackState)) (\<lambda>env.
       from_res (res_map_err (\<lambda>_. ''restart types'')
         (getRollingRestartTypeMap env c rackState (Ok pods) (Ok confMap) (Ok clusterPods) ignorablePodNames
            serverFailedPodsNames)))))))"

definition getRollingRestartInfo ::
  "('w, 'conf, 'd) ops_api \<Rightarrow> RackState \<Rightarrow> string list \<Rightarrow> string list \<Rightarrow> ('w, string, 'd rollingRestartInfo) prog" where
  "getRollingRestartInfo api rackState ignorablePodNames serverFailedPodsNames =
     bind (restart_type_map api rackState ignorablePodNames serverFailedPodsNames) (\<lambda>(types, dynamic).
       ret \<lparr>RiTypes = types,
            RiDynamic = (if serverFailedPodsNames \<noteq> [] then [] else dynamic),
            RiNeedRestart = list_ex (\<lambda>(_, t). needs_rolling_restart t) types,
            RiNeedUpdateConf = (serverFailedPodsNames = [] \<and> list_ex (\<lambda>(_, t). t = noRestartUpdateConf) types)\<rparr>)"

section \<open>Dynamic configuration\<close>

definition Failed :: string where "Failed = ''Failed''"

definition set_config_on_pod ::
  "('w, 'conf, 'd) ops_api \<Rightarrow> string list \<Rightarrow> 'd gomap gomap \<Rightarrow> string \<Rightarrow> ('w, ReconcileResult, unit) prog" where
  "set_config_on_pod api allHostConns dynamic podName =
     (let delta = (case gomap_get dynamic podName of None \<Rightarrow> [] | Some d \<Rightarrow> d) in
      bind (wrap_err ReconcileError (issue (CConfigCmds podName) (OConfigCmds api delta podName))) (\<lambda>asConfCmds.
      bind (attempt (issue (CSetConfig podName) (OSetConfig api allHostConns podName asConfCmds))) (\<lambda>r.
        case r of
          Inr _ \<Rightarrow> wrap_err ReconcileError (updateAerospikeConfInPod (obase api) podName)
        | Inl (succeededCmds, err) \<Rightarrow>
            let errorStatus = (if succeededCmds \<noteq> [] then PartiallyFailed else Failed) in
            bind (wrap_err (\<lambda>e. ReconcileError (''update status: '' @ e @ '' apply dynamic config: '' @ err))
                    (issue (CPatchDynamicStatus podName errorStatus) (OPatchDynamicStatus api podName errorStatus))) (\<lambda>pods.
            bind get_cluster (\<lambda>c.
            bind (set_cluster (c\<lparr>ClusterStatus := (ClusterStatus c)\<lparr>StPods := pods\<rparr>\<rparr>)) (\<lambda>_.
              fail (ReconcileError err)))))))"

definition setDynamicConfig ::
  "('w, 'conf, 'd) ops_api \<Rightarrow> 'd gomap gomap \<Rightarrow> Pod list \<Rightarrow> string list \<Rightarrow> ('w, ReconcileResult, unit) prog" where
  "setDynamicConfig api dynamic pods ignorablePodNames =
     bind (host_conns_or_error (obase api) ignorablePodNames) (\<lambda>allHostConns.
     bind get_cluster (\<lambda>c.
     bind (wrap_err (\<lambda>e. ReconcileError (''get host connections for cluster nodes: '' @ e))
             (from_res (newPodsHostConnWithOption c ignorablePodNames pods))) (\<lambda>selectedHostConns.
       each (set_config_on_pod api allHostConns dynamic) selectedHostConns)))"

definition updateDynamicConfig ::
  "('w, 'conf, 'd) ops_api \<Rightarrow> RackState \<Rightarrow> string list \<Rightarrow> RestartType gomap \<Rightarrow> 'd gomap gomap \<Rightarrow>
   ('w, ReconcileResult, unit) prog" where
  "updateDynamicConfig api rackState ignorablePodNames restartTypeMap dynamic =
     bind (rack_pods_or_error (ORack api) (RsRack rackState)) (\<lambda>podList.
       setDynamicConfig api dynamic
         (filter (\<lambda>pod. restart_type_of restartTypeMap (PodName pod) = noRestartUpdateConf) podList) ignorablePodNames)"


section \<open>Security, ignorable and failed pods\<close>

definition enablingSecurity :: "AerospikeCluster \<Rightarrow> bool" where
  "enablingSecurity c \<longleftrightarrow> SpecAccessControl (ClusterSpec c) \<noteq> None \<and> StAccessControl (ClusterStatus c) = None"

definition getPodsWithUpdatedConfigForRack :: "('w, 'conf, 'd) ops_api \<Rightarrow> RackState \<Rightarrow> ('w, string, Pod list) prog" where
  "getPodsWithUpdatedConfigForRack api rackState =
     bind (wrap_err (\<lambda>e. ''list Pods for rack: '' @ e) (ordered_rack_pods (ORack api) (RsRack rackState))) (\<lambda>pods.
       if pods = [] then ret []
       else
         bind (rack_conf_map api (RsRack rackState)) (\<lambda>confMap.
         bind get_cluster (\<lambda>c.
           ret (filter (\<lambda>pod. PsAerospikeConfigHash (pod_status c (PodName pod)) = HAerospikeConf confMap) pods))))"

definition handleEnableSecurity :: "('w, 'conf, 'd) ops_api \<Rightarrow> RackState \<Rightarrow> string list \<Rightarrow> ('w, string, unit) prog" where
  "handleEnableSecurity api rackState ignorablePodNames =
     bind get_cluster (\<lambda>c.
       if \<not> enablingSecurity c then ret ()
       else bind (getPodsWithUpdatedConfigForRack api rackState) (\<lambda>securityEnabledPods.
         if securityEnabledPods = [] then ret ()
         else wrap_err (\<lambda>e. ''reconcile access control: '' @ e)
                (issue (CAccessControl (map PodName securityEnabledPods))
                   (OAccessControl api securityEnabledPods ignorablePodNames))))"

definition handleNSOrDeviceRemovalForIgnorablePods ::
  "('w, 'conf, 'd) ops_api \<Rightarrow> RackState \<Rightarrow> string list \<Rightarrow> ('w, ReconcileResult, unit) prog" where
  "handleNSOrDeviceRemovalForIgnorablePods api rackState ignorablePodNames =
     bind (rack_pods_or_error (ORack api) (RsRack rackState)) (\<lambda>podList.
     bind get_cluster (\<lambda>c.
       let ignoredPod = filter (\<lambda>pod. gomap_get (StPods (ClusterStatus c)) (PodName pod) \<noteq> None \<and>
             PodName pod \<in> set ignorablePodNames) podList in
       if ignoredPod = [] then ret ()
       else wrap_err ReconcileError (handleNSOrDeviceRemoval (obase api) rackState ignoredPod)))"

text \<open>Neither success nor an error nor a requeue: scale-up is put off.\<close>

definition put_off :: ReconcileResult where
  "put_off = \<lparr>ResErr = None, ResRequeueAfter = 0, ResIsSuccess = False\<rparr>"

definition checkPodsFailedAfterRackOp ::
  "('w, 'conf, 'd) ops_api \<Rightarrow> RackState \<Rightarrow> string list \<Rightarrow> ('w, ReconcileResult, unit) prog" where
  "checkPodsFailedAfterRackOp api rackState ignorablePodNames =
     bind (rack_pods_or_error (ORack api) (RsRack rackState)) (\<lambda>podList.
     bind get_cluster (\<lambda>c.
     bind (read_world (ApiNow (obase api))) (\<lambda>now.
       let check = (if ignore_sidecar c then CheckServerFailedWithGrace else CheckPodFailedWithGrace) in
       if list_ex (\<lambda>pod. PodName pod \<notin> set ignorablePodNames \<and>
            PsState (check now (ApiGraceEnv (obase api)) pod False) = PodFailed) podList
       then fail put_off else ret ())))"

section \<open>A rack\<close>

text \<open>The second component says whether pods were restarted or reconfigured.\<close>

definition restart_or_reconfigure ::
  "('w, 'conf, 'd) ops_api \<Rightarrow> StatefulSet \<Rightarrow> RackState \<Rightarrow> string list \<Rightarrow> failedPodsInfo option \<Rightarrow>
   ('w, ReconcileResult, StatefulSet \<times> bool) prog" where
  "restart_or_reconfigure api found rackState ignorablePodNames podFailure =
     (let serverFailedPodsNames = (case podFailure of
            None \<Rightarrow> [] | Some f \<Rightarrow> if FpIsServerFailed f then map PodName (FpPods f) else []) in
      bind (wrap_err ReconcileError (getRollingRestartInfo api rackState ignorablePodNames serverFailedPodsNames)) (\<lambda>info.
      bind (if RiNeedRestart info
            then bind (claim_condition (ORack api) ''RollingRestart'') (\<lambda>_.
                 bind (wrap_err (prefix_err ''rolling restart rack: '')
                         (rollingRestartRack api found rackState ignorablePodNames (RiTypes info) podFailure)) (\<lambda>found.
                   ret (found, True)))
            else ret (found, False)) (\<lambda>(found, restarted).
        if RiNeedUpdateConf info
        then bind (wrap_err (prefix_err ''apply dynamic configuration update: '')
                     (updateDynamicConfig api rackState ignorablePodNames (RiTypes info) (RiDynamic info))) (\<lambda>_.
               ret (found, True))
        else ret (found, restarted))))"

definition upgradeOrRollingRestartRack ::
  "('w, 'conf, 'd) ops_api \<Rightarrow> int list \<Rightarrow> StatefulSet \<Rightarrow> RackState \<Rightarrow> string list \<Rightarrow> failedPodsInfo option \<Rightarrow>
   ('w, ReconcileResult, StatefulSet) prog" where
  "upgradeOrRollingRestartRack api migrating found rackState ignorablePodNames podFailure =
     bind get_cluster (\<lambda>c0.
     bind (wrap_err (\<lambda>e. ReconcileError (''update ConfigMap for rack: '' @ e))
             (updateSTSConfigMap (ORack api) (rack_sts_name c0 (RsRack rackState)) (RsRack rackState))) (\<lambda>_.
     bind (wrap_err ReconcileError (handleEnableSecurity api rackState ignorablePodNames)) (\<lambda>_.
     bind (wrap_err ReconcileError (isRackUpgradeNeeded api (RsRack rackState) ignorablePodNames)) (\<lambda>upgradeNeeded.
     bind (if upgradeNeeded
           then bind (wrap_err (prefix_err ''upgrade rack: '') (upgradeRack api found rackState ignorablePodNames podFailure))
                  (\<lambda>found. ret (found, True))
           else restart_or_reconfigure api found rackState ignorablePodNames podFailure) (\<lambda>(found, podOpPerformed).
     bind get_cluster (\<lambda>c.
     bind (if SpecMaxIgnorablePods (ClusterSpec c) \<noteq> None
           then handleNSOrDeviceRemovalForIgnorablePods api rackState ignorablePodNames else ret ()) (\<lambda>_.
     bind (if SpecK8sNodeBlockList (ClusterSpec c) \<noteq> StK8sNodeBlockList (ClusterStatus c)
           then handleK8sNodeBlockListPods api found rackState ignorablePodNames podFailure else ret ()) (\<lambda>_.
     bind (if podFailure \<noteq> None \<and> (podOpPerformed \<or> RackID (RsRack rackState) \<in> set migrating)
           then checkPodsFailedAfterRackOp api rackState ignorablePodNames else ret ()) (\<lambda>_.
       ret found)))))))))"

definition reconcileRack ::
  "('w, 'conf, 'd) ops_api \<Rightarrow> int list \<Rightarrow> StatefulSet \<Rightarrow> RackState \<Rightarrow> string list \<Rightarrow> failedPodsInfo option \<Rightarrow>
   ('w, ReconcileResult, unit) prog" where
  "reconcileRack api migrating found rackState ignorablePodNames podFailure =
     bind (if StsReplicas found > RsSize rackState
           then wrap_err (prefix_err ''scale down StatefulSet: '')
                  (scaleDownRack (ORack api) migrating found rackState ignorablePodNames None)
           else ret found) (\<lambda>found.
     bind (wrap_err (\<lambda>e. ReconcileError (''update init container image: '' @ e))
             (issue (CUpdateInitImage (StsName found)) (RUpdateInitImage (ORack api) found))) (\<lambda>found.
     bind (upgradeOrRollingRestartRack api migrating found rackState ignorablePodNames podFailure) (\<lambda>found.
     bind (if StsReplicas found < RsSize rackState
           then wrap_err (prefix_err ''scale up StatefulSet: '') (scaleUpRack (ORack api) migrating found rackState)
           else ret found) (\<lambda>found.
     bind (wrap_err ReconcileError (cleanupDanglingPodsRack (ORack api) found rackState)) (\<lambda>_.
       wrap_err ReconcileError (reconcilePodService (ORack api) rackState))))))"

section \<open>Failed pods\<close>

definition server_failed_pods :: "'w api \<Rightarrow> 'w \<Rightarrow> string list \<Rightarrow> Pod list \<Rightarrow> Pod list" where
  "server_failed_pods api w ignorablePodNames pods =
     getNonIgnorablePods (fst (getServerFailedAndActivePods (ApiNow api w) (ApiGraceEnv api) pods False)) ignorablePodNames"

definition checkRackPodsHealthy ::
  "('w, 'conf, 'd) ops_api \<Rightarrow> Rack \<Rightarrow> string list \<Rightarrow> ('w, ReconcileResult, unit) prog" where
  "checkRackPodsHealthy api rack ignorablePodNames =
     bind (rack_pods_or_error (ORack api) rack) (\<lambda>podList.
     bind get_cluster (\<lambda>c.
     bind (read_world (ApiNow (obase api))) (\<lambda>now.
       let nonIgnorablePods = getNonIgnorablePods podList ignorablePodNames;
           (serverFailedPods, _, _) = getServerFailedAndActivePods now (ApiGraceEnv (obase api)) nonIgnorablePods False;
           sidecarNotReadyPods = getSidecarNotReadyPods nonIgnorablePods in
       if serverFailedPods \<noteq> [] then fail (ReconcileError ''rack has server-failed pods'')
       else if ignore_sidecar c \<or> sidecarNotReadyPods = [] then ret ()
       else if fst (classifyNotReadyPods now (ApiGraceEnv (obase api)) sidecarNotReadyPods) \<noteq> []
       then fail (ReconcileError ''rack has sidecar-crashed pods'')
       else fail (ReconcileRequeueAfter 60))))"

text \<open>A result that only puts scale-up off lets the handling of failed pods go on.\<close>

definition unless_put_off :: "('w, ReconcileResult, unit) prog \<Rightarrow> ('w, ReconcileResult, unit) prog" where
  "unless_put_off m =
     bind (attempt m) (\<lambda>r.
       case r of
         Inr _ \<Rightarrow> ret ()
       | Inl res \<Rightarrow> if ResErr res \<noteq> None \<or> 0 < ResRequeueAfter res then fail res else ret ())"

definition recover_server_failed ::
  "('w, 'conf, 'd) ops_api \<Rightarrow> int list \<Rightarrow> StatefulSet \<Rightarrow> RackState \<Rightarrow> string list \<Rightarrow> Pod list \<Rightarrow> ('w, ReconcileResult, unit) prog" where
  "recover_server_failed api migrating found rackState ignorablePodNames serverFailedPods =
     bind get_cluster (\<lambda>c.
     bind (if 0 < GetOverrideMigrateFillDelay (ClusterSpec c) \<and> hasDefinitiveFailure serverFailedPods
           then revertMFDToConfig (obase api) (ignorablePodNames @ podNamesToSet serverFailedPods) False
           else ret ()) (\<lambda>_.
     bind (unless_put_off (reconcileRack api migrating found rackState ignorablePodNames
             (Some \<lparr>FpPods = serverFailedPods, FpIsServerFailed = True\<rparr>))) (\<lambda>_.
     bind (rack_pods_or_error (ORack api) (RsRack rackState)) (\<lambda>podList.
     bind (read_world (\<lambda>w. server_failed_pods (obase api) w ignorablePodNames podList)) (\<lambda>stillFailed.
     bind (if stillFailed = [] then ret ()
           else bind (rollingRestartRack api found rackState ignorablePodNames
                        (map (\<lambda>pod. (PodName pod, podRestart)) stillFailed)
                        (Some \<lparr>FpPods = stillFailed, FpIsServerFailed = True\<rparr>)) (\<lambda>_. ret ())) (\<lambda>_.
       fail (ReconcileRequeueAfter 1)))))))"

definition reconcile_sidecar_failed ::
  "('w, 'conf, 'd) ops_api \<Rightarrow> int list \<Rightarrow> StatefulSet \<Rightarrow> RackState \<Rightarrow> string list \<Rightarrow> Pod list \<Rightarrow> ('w, ReconcileResult, unit) prog" where
  "reconcile_sidecar_failed api migrating found rackState ignorablePodNames sidecarNotReadyPods =
     bind (unless_put_off (reconcileRack api migrating found rackState ignorablePodNames
             (Some \<lparr>FpPods = sidecarNotReadyPods, FpIsServerFailed = False\<rparr>))) (\<lambda>_.
     bind (rack_pods_or_error (ORack api) (RsRack rackState)) (\<lambda>podList.
     bind (read_world (ApiNow (obase api))) (\<lambda>now.
       let (crashedPods, stillNotReadyPods) =
             classifyNotReadyPods now (ApiGraceEnv (obase api)) (getNonIgnorablePods podList ignorablePodNames) in
       if crashedPods \<noteq> [] then fail (ReconcileError ''pods still crashing after sidecar reconcile'')
       else if stillNotReadyPods \<noteq> [] then fail (ReconcileRequeueAfter 60)
       else ret ())))"

definition handleFailedPodsInRack ::
  "('w, 'conf, 'd) ops_api \<Rightarrow> int list \<Rightarrow> StatefulSet \<Rightarrow> RackState \<Rightarrow> string list \<Rightarrow> ('w, ReconcileResult, unit) prog" where
  "handleFailedPodsInRack api migrating found rackState ignorablePodNames =
     bind (rack_pods_or_error (ORack api) (RsRack rackState)) (\<lambda>podList.
     bind (read_world (\<lambda>w. server_failed_pods (obase api) w ignorablePodNames podList)) (\<lambda>serverFailedPods.
       if serverFailedPods \<noteq> []
       then recover_server_failed api migrating found rackState ignorablePodNames serverFailedPods
       else bind get_cluster (\<lambda>c.
         if ignore_sidecar c \<or> getSidecarNotReadyPods podList = [] then ret ()
         else reconcile_sidecar_failed api migrating found rackState ignorablePodNames (getSidecarNotReadyPods podList))))"

end
