(* ===== verification/Rack_Migrate.thy ===== *)
theory Rack_Migrate
  imports Rack_Ops
begin

text \<open>
  The migration of a rack to a new revision (\<^verbatim>\<open>reconcileRevisionChangedRacks\<close> of
  \<^verbatim>\<open>internal/controller/cluster/rack.go\<close>): over many passes, the StatefulSet of the new revision grows while
  the one of the old revision shrinks. The sizes of the two are also followed as a transition system.
\<close>

section \<open>A pass\<close>

text \<open>What a pass does, from the sizes it read.\<close>

datatype migration_decision = DeleteOld | ShrinkNew | GrowNew int | ShrinkOld int | Migrated

definition decide_migration :: "int \<Rightarrow> int \<Rightarrow> int \<Rightarrow> int \<Rightarrow> migration_decision" where
  "decide_migration targetSize batchSize oldReplicas newReplicas =
     (if oldReplicas = 0 \<and> newReplicas = targetSize then DeleteOld
      else if newReplicas > targetSize then ShrinkNew
      else if oldReplicas + newReplicas < targetSize \<and> newReplicas < targetSize
      then GrowNew (min batchSize (targetSize - (oldReplicas + newReplicas)))
      else if oldReplicas > 0 then ShrinkOld (min batchSize oldReplicas)
      else Migrated)"

definition migration_batch :: "'w rack_api \<Rightarrow> AerospikeCluster \<Rightarrow> int \<Rightarrow> int" where
  "migration_batch api c targetSize = max 1 (RScaledUp api (SpecRollingUpdateBatchSize (ClusterSpec c)) targetSize)"

definition wait_for_migration :: "('w, 'conf, 'd) ops_api \<Rightarrow> string list \<Rightarrow> ('w, ReconcileResult, unit) prog" where
  "wait_for_migration api ignorablePodNames =
     bind get_cluster (\<lambda>c.
       wrap_err (\<lambda>e. case e of ErrStatefulSetNotReady _ \<Rightarrow> ReconcileRequeueAfter 1 | ErrWait err \<Rightarrow> ReconcileError err)
         (if ignore_sidecar c then waitForAllAerospikeServersReady (obase api) ignorablePodNames
          else waitForAllSTSToBeReady (obase api) ignorablePodNames))"

text \<open>Completed and oversized migrations are dealt with before the wait for the pods.\<close>

definition migrate_rack ::
  "('w, 'conf, 'd) ops_api \<Rightarrow> int list \<Rightarrow> RackState \<Rightarrow> RackState \<Rightarrow> StatefulSet \<Rightarrow> StatefulSet \<Rightarrow> string list \<Rightarrow>
   ('w, ReconcileResult, unit) prog" where
  "migrate_rack api migrating oldRack newRack oldSts newSts ignorablePodNames =
     bind get_cluster (\<lambda>c.
       let targetSize = RsSize newRack in
       case decide_migration targetSize (migration_batch (ORack api) c targetSize) (StsReplicas oldSts) (StsReplicas newSts) of
         DeleteOld \<Rightarrow> deleteRacks (ORack api) migrating [RsRack oldRack] ignorablePodNames
       | ShrinkNew \<Rightarrow>
           bind (scaleDownRack (ORack api) migrating newSts (newRack\<lparr>RsSize := targetSize\<rparr>) ignorablePodNames None) (\<lambda>_. ret ())
       | GrowNew n \<Rightarrow>
           bind (wait_for_migration api ignorablePodNames) (\<lambda>_.
           bind (reconcileRack api migrating newSts (newRack\<lparr>RsSize := StsReplicas newSts + n\<rparr>) ignorablePodNames None) (\<lambda>_.
             fail (ReconcileRequeueAfter 1)))
       | ShrinkOld n \<Rightarrow>
           bind (wait_for_migration api ignorablePodNames) (\<lambda>_.
           bind (scaleDownRack (ORack api) migrating oldSts (oldRack\<lparr>RsSize := StsReplicas oldSts - n\<rparr>) ignorablePodNames
                   (SpecRollingUpdateBatchSize (ClusterSpec c))) (\<lambda>_. ret ()))
       | Migrated \<Rightarrow> wait_for_migration api ignorablePodNames)"

definition reconcileRevisionChangedRacks ::
  "('w, 'conf, 'd) ops_api \<Rightarrow> int list \<Rightarrow> revisionChangedRack \<Rightarrow> string list \<Rightarrow> ('w, ReconcileResult, unit) prog" where
  "reconcileRevisionChangedRacks api migrating info ignorablePodNames =
     (let oldRack = RcOldRack info; newRack = RcNewRack info in
      bind (attempt (getSTS (ORack api) newRack)) (\<lambda>new.
      bind (case new of
              Inr st \<Rightarrow> ret st
            | Inl e \<Rightarrow>
                (case e of
                   GetNotFound \<Rightarrow> createEmptyRack (ORack api) (newRack\<lparr>RsSize := 0\<rparr>)
                 | GetFailed err \<Rightarrow> fail (ReconcileError err))) (\<lambda>newSts.
      bind (claim_condition (ORack api) ''RackRevisionRollingOut'') (\<lambda>_.
      bind (attempt (getSTS (ORack api) oldRack)) (\<lambda>old.
        case old of
          Inr oldSts \<Rightarrow> migrate_rack api migrating oldRack newRack oldSts newSts ignorablePodNames
        | Inl e \<Rightarrow>
            (case e of
               GetNotFound \<Rightarrow> reconcileRack api migrating newSts newRack ignorablePodNames None
             | GetFailed err \<Rightarrow> fail (ReconcileError err)))))))"

section \<open>The sizes of the two revisions\<close>

text \<open>
  One pass as a step on the sizes of the old and the new revision: growth is exact, a scale-down removes one
  batch of at least one and at most as many pods as were asked for.
\<close>

inductive migrates :: "int \<Rightarrow> int \<Rightarrow> int \<times> int \<Rightarrow> int \<times> int \<Rightarrow> bool" for target batch where
  grow: "decide_migration target batch old new = GrowNew n \<Longrightarrow> migrates target batch (old, new) (old, new + n)"
| shrink: "decide_migration target batch old new = ShrinkOld n \<Longrightarrow> 1 \<le> j \<Longrightarrow> j \<le> n \<Longrightarrow>
    migrates target batch (old, new) (old - j, new)"
| cut_back: "decide_migration target batch old new = ShrinkNew \<Longrightarrow> 1 \<le> j \<Longrightarrow> j \<le> new - target \<Longrightarrow>
    migrates target batch (old, new) (old, new - j)"

inductive_cases migratesE: "migrates target batch (old, new) p"

lemmas decide_simps = decide_migration_def if_split_eq1

text \<open>Every step brings the sizes nearer to the target, the old size first.\<close>

definition distance :: "int \<Rightarrow> int \<times> int \<Rightarrow> nat \<times> nat" where
  "distance target p = (nat (fst p), nat \<bar>snd p - target\<bar>)"

lemma migrates_distance:
  assumes "migrates target batch p q" and "1 \<le> batch" and "0 \<le> fst p"
  shows "(distance target q, distance target p) \<in> less_than <*lex*> less_than"
  using assms by (cases rule: migrates.cases) (auto simp: distance_def decide_migration_def split: if_splits)

lemma migrates_nonneg:
  assumes "migrates target batch p q" and "0 \<le> fst p" and "0 \<le> snd p" and "0 \<le> target" and "1 \<le> batch"
  shows "0 \<le> fst q \<and> 0 \<le> snd q"
  using assms by (cases rule: migrates.cases) (auto simp: decide_migration_def split: if_splits)

lemma migrates_progress:
  assumes "1 \<le> batch" and "0 \<le> old" and "0 \<le> new" and "(old, new) \<noteq> (0, target)"
  shows "\<exists>q. migrates target batch (old, new) q"
proof (cases "decide_migration target batch old new")
  case ShrinkNew
  then show ?thesis
    by (intro exI [of _ "(old, new - 1)"] migrates.cut_back) (auto simp: decide_migration_def split: if_splits)
next
  case (ShrinkOld n)
  then show ?thesis
    using assms(1) by (intro exI [of _ "(old - 1, new)"] migrates.shrink [OF ShrinkOld]) (auto simp: decide_migration_def split: if_splits)
next
  case (GrowNew n)
  from migrates.grow [OF this] show ?thesis by blast
qed (use assms in \<open>auto simp: decide_migration_def split: if_splits\<close>)

text \<open>The number of pods stays within bounds on the way.\<close>

lemma migrates_bounds:
  assumes "migrates target batch p q" and "0 \<le> fst p" and "1 \<le> batch"
    and "low \<le> fst p + snd p" and "low \<le> target - batch" and "fst p + snd p \<le> high" and "target \<le> high"
  shows "low \<le> fst q + snd q \<and> fst q + snd q \<le> high"
  using assms by (cases rule: migrates.cases) (auto simp: decide_migration_def split: if_splits)

definition migration_ok :: "int \<Rightarrow> int \<Rightarrow> int \<times> int \<Rightarrow> bool" where
  "migration_ok low high p \<longleftrightarrow> 0 \<le> fst p \<and> 0 \<le> snd p \<and> low \<le> fst p + snd p \<and> fst p + snd p \<le> high"

lemma migration_invariant:
  assumes "(migrates target batch)\<^sup>*\<^sup>* p q" and "1 \<le> batch" and "0 \<le> target" and "migration_ok low high p"
    and "low \<le> target - batch" and "target \<le> high"
  shows "migration_ok low high q"
  using assms(1)
proof (induction rule: rtranclp_induct)
  case (step q r)
  then show ?case
    using migrates_nonneg [OF step(2)] migrates_bounds [OF step(2), of low high] assms(2-6) by (auto simp: migration_ok_def)
qed (rule assms(4))

text \<open>
  Property C7. The migration of a rack to a new revision completes, and keeps the rack's pods on the way. Follow
  the sizes of the two revisions through passes that each make one step. There is no endless migration; the
  number of pods never falls more than one batch below the target, or below what it was at the start if that is
  less, and never exceeds the target and what it was at the start; and the only sizes from which no pass makes
  a step are no pod of the old and all pods of the new revision.
\<close>

theorem migration_completes:
  assumes "1 \<le> batch" and "0 \<le> old" and "0 \<le> new" and "0 \<le> target"
  shows "(\<nexists>f. f 0 = (old, new) \<and> (\<forall>i. migrates target batch (f i) (f (Suc i)))) \<and>
    (\<forall>old' new'. (migrates target batch)\<^sup>*\<^sup>* (old, new) (old', new') \<longrightarrow>
       min (old + new) (target - batch) \<le> old' + new' \<and> old' + new' \<le> max (old + new) target \<and>
       ((\<nexists>p. migrates target batch (old', new') p) \<longrightarrow> (old', new') = (0, target)))"
proof (intro conjI allI impI)
  have start: "migration_ok (min (old + new) (target - batch)) (max (old + new) target) (old, new)"
    using assms by (auto simp: migration_ok_def)
  note inv = migration_invariant [OF _ assms(1,4) start]
  show "\<nexists>f. f 0 = (old, new) \<and> (\<forall>i. migrates target batch (f i) (f (Suc i)))"
  proof (rule notI, elim exE conjE)
    fix f assume f: "f 0 = (old, new)" "\<forall>i. migrates target batch (f i) (f (Suc i))"
    have "(migrates target batch)\<^sup>*\<^sup>* (old, new) (f i)" for i
      by (induction i) (use f in \<open>auto intro: rtranclp.rtrancl_into_rtrancl\<close>)
    then have "0 \<le> fst (f i)" for i using inv [of "f i"] by (simp add: migration_ok_def)
    then have "(distance target (f (Suc i)), distance target (f i)) \<in> less_than <*lex*> less_than" for i
      using migrates_distance [OF f(2) [rule_format]] assms(1) by blast
    then have "\<exists>g. \<forall>i. (g (Suc i), g i) \<in> less_than <*lex*> less_than"
      by (intro exI [of _ "\<lambda>i. distance target (f i)"]) blast
    then show False
      using wf_iff_no_infinite_down_chain [of "less_than <*lex*> less_than"] wf_lex_prod [OF wf_less_than wf_less_than] by blast
  qed
  fix old' new' assume reach: "(migrates target batch)\<^sup>*\<^sup>* (old, new) (old', new')"
  have ok: "migration_ok (min (old + new) (target - batch)) (max (old + new) target) (old', new')"
    by (rule inv [OF reach]) auto
  then show "min (old + new) (target - batch) \<le> old' + new'" "old' + new' \<le> max (old + new) target"
    by (auto simp: migration_ok_def)
  assume "\<nexists>p. migrates target batch (old', new') p"
  then show "(old', new') = (0, target)"
    using migrates_progress [OF assms(1), of old' new' target] ok by (auto simp: migration_ok_def)
qed

section \<open>Which operations resize\<close>

definition resizes_only :: "(int \<Rightarrow> bool) \<Rightarrow> call \<times> bool \<Rightarrow> bool" where
  "resizes_only P x \<longleftrightarrow> (\<forall>n m. fst x = CSetReplicas n m \<longrightarrow> P m)"

lemma resizes_only_iff: "resizes_only P (c, b) \<longleftrightarrow> (\<forall>n m. c = CSetReplicas n m \<longrightarrow> P m)"
  by (simp add: resizes_only_def)

lemma stop_resizes: "is_stop_call x \<Longrightarrow> resizes_only P x"
  by (cases x rule: is_stop_call.cases) (auto simp: resizes_only_def)

lemma cleans_resizes: "cleans names (fst x) \<Longrightarrow> resizes_only P x"
  by (auto simp: resizes_only_def)

lemma only_stop_resizes: "only is_stop_call m \<Longrightarrow> only (resizes_only P) m"
  by (erule only_mono) (rule stop_resizes)

lemma only_pod_resizes:
  "only (resizes_only P) (handleNSOrDeviceRemoval base rackState pods)"
  "only (resizes_only P) (triggerIndexCheckpointSave base pods rackState)"
  "only (resizes_only P) (deletePodWithLocalPVCs base rackState pod recovery)"
  "only (resizes_only P) (restartASDOrUpdateAerospikeConf base n op)"
  "only (resizes_only P) (record_restarts base warm cold)"
  "only (resizes_only P) (ensurePodsRunningAndReady base pods)" "only (resizes_only P) (ensurePodsImageUpdated base pods)"
proof -
  show "only (resizes_only P) (handleNSOrDeviceRemoval base rackState pods)"
    unfolding handleNSOrDeviceRemoval_def handleNSOrDeviceRemovalPerPod_def deleteFileStorage_def exec_def Let_def
    by (intro trace_rules) (auto simp: resizes_only_def)
  have "only (resizes_only P) (checkpoint_pods base rackState pods anyParked)" for anyParked
  proof (induction pods arbitrary: anyParked)
    case (Cons pod pods)
    have "only (resizes_only P) (checkpoint_pod base rackState pod)"
      unfolding checkpoint_pod_def skipCheckpointForNamespaces_def markPodCheckpointParked_def Let_def
      by (intro trace_rules only_connect)
         (auto simp: resizes_only_def intro!: trace_rules only_connect split: CheckpointSaveVerdict.splits)
    with Cons show ?case by (auto intro!: trace_rules)
  qed (auto intro: trace_rules)
  then show "only (resizes_only P) (triggerIndexCheckpointSave base pods rackState)"
    unfolding triggerIndexCheckpointSave_def by (intro trace_rules)
  show "only (resizes_only P) (deletePodWithLocalPVCs base rackState pod recovery)"
    unfolding deletePodWithLocalPVCs_def deleteLocalPVCs_def getPodsPVCList_def
    by (intro trace_rules) (auto simp: resizes_only_def intro!: trace_rules split: get_error.splits)
  show "only (resizes_only P) (restartASDOrUpdateAerospikeConf base n op)"
    unfolding restartASDOrUpdateAerospikeConf_def exec_def Let_def by (intro trace_rules) (auto simp: resizes_only_def)
  show "only (resizes_only P) (record_restarts base warm cold)"
    unfolding record_restarts_def by (intro trace_rules) (simp add: resizes_only_def)
  have "resizes_only P x" if "is_read x" for x using that by (intro stop_resizes read_is_stop)
  then show "only (resizes_only P) (ensurePodsRunningAndReady base pods)" "only (resizes_only P) (ensurePodsImageUpdated base pods)"
    unfolding ensurePodsRunningAndReady_def ensurePodsImageUpdated_def
    by (auto intro!: trace_rules intro: only_mono [OF only_poll_pods])
qed

lemma only_batch_resizes:
  "only (resizes_only P) (rollingRestartPods base rackState batch ign types)"
  "only (resizes_only P) (safelyDeletePodsAndEnsureImageUpdated base rackState batch ign)"
proof -
  have each: "only (resizes_only P) (restart_each base rackState types recovery pods warm cold)" for recovery pods warm cold
    by (induction pods arbitrary: warm cold)
       (auto intro!: trace_rules only_pod_resizes split: RestartType.splits)
  note stop = only_stop_resizes [OF only_safe_stop_calls]
  show "only (resizes_only P) (rollingRestartPods base rackState batch ign types)"
    unfolding rollingRestartPods_def restartPods_def Let_def
    by (intro trace_rules only_pod_resizes each stop)
  show "only (resizes_only P) (safelyDeletePodsAndEnsureImageUpdated base rackState batch ign)"
    unfolding safelyDeletePodsAndEnsureImageUpdated_def deletePodAndEnsureImageUpdated_def Let_def
    by (intro trace_rules only_pod_resizes stop)
qed

lemma only_stops_resize:
  "only (resizes_only P) (rack_pods_or_error ra rack)" "only (resizes_only P) (getSTS ra rackState)"
  "only (resizes_only P) (claim_scaling ra migrating rackState cond)" "only (resizes_only P) (host_conns_or_error base ign)"
  by (rule only_stop_resizes, intro only_scale_reads only_claim only_stop_reads)+

lemma only_rack_reads_resize:
  "only (resizes_only P) (ordered_rack_pods ra rack)" "only (resizes_only P) (claim_condition ra cond)"
  "only (resizes_only P) (createOrUpdatePodServiceIfNeeded ra names)"
  "only (resizes_only P) (pods_or_failed api rackState pf)" "only (resizes_only P) (rack_conf_map api rack)"
  "only (resizes_only P) (getClusterPodList base)"
  unfolding claim_condition_def createOrUpdatePodServiceIfNeeded_def pods_or_failed_def rack_conf_map_def
    ordered_rack_pods_def Let_def getClusterPodList_def
  by (intro trace_rules only_stops_resize; simp add: resizes_only_iff)+

lemma only_updateSTS_resizes: "only (resizes_only P) (updateSTS ra st rackState)"
proof -
  have "only (resizes_only P) (save_sts ra st rackState k)" for k
    by (induction k) (auto intro!: trace_rules only_stops_resize simp: resizes_only_iff split: update_error.split)
  then show ?thesis unfolding updateSTS_def by (intro trace_rules)
qed


lemma only_cleanup_resizes:
  "only (resizes_only P) (cleanupDanglingPodsRack ra st rackState)" "only (resizes_only P) (reconcilePodService ra rackState)"
proof -
  have "only (resizes_only P) (cleanupPods ra names rackState)" for names
    by (rule only_mono [OF only_cleanup]) (rule cleans_resizes)
  then show "only (resizes_only P) (cleanupDanglingPodsRack ra st rackState)"
    unfolding cleanupDanglingPodsRack_def by (intro trace_rules)
  show "only (resizes_only P) (reconcilePodService ra rackState)"
    unfolding reconcilePodService_def cleanupDanglingPodServices_def deletePodService_def
    by (intro trace_rules only_rack_reads_resize) (auto simp: resizes_only_iff intro!: trace_rules split: get_error.split)
qed

lemma only_ops_resize:
  "only (resizes_only P) (upgradeRack api st rackState ign pf)"
  "only (resizes_only P) (rollingRestartRack api st rackState ign types pf)"
  "only (resizes_only P) (handleK8sNodeBlockListPods api st rackState ign pf)"
  unfolding upgradeRack_def rollingRestartRack_def handleK8sNodeBlockListPods_def one_batch_def Let_def
  by (intro trace_rules only_stops_resize only_rack_reads_resize only_batch_resizes only_updateSTS_resizes)+

lemma only_dynamic_resize: "only (resizes_only P) (updateDynamicConfig api rackState ign types dynamic)"
  unfolding updateDynamicConfig_def setDynamicConfig_def set_config_on_pod_def updateAerospikeConfInPod_def Let_def
  by (intro trace_rules only_stops_resize only_pod_resizes; simp add: resizes_only_iff)

lemma only_info_resize:
  "only (resizes_only P) (getRollingRestartInfo api rackState ign failed)"
  "only (resizes_only P) (isRackUpgradeNeeded api rack ign)" "only (resizes_only P) (handleEnableSecurity api rackState ign)"
  "only (resizes_only P) (updateSTSConfigMap ra name rack)"
  "only (resizes_only P) (handleNSOrDeviceRemovalForIgnorablePods api rackState ign)"
  "only (resizes_only P) (checkPodsFailedAfterRackOp api rackState ign)"
  unfolding getRollingRestartInfo_def restart_type_map_def isRackUpgradeNeeded_def handleEnableSecurity_def
    getPodsWithUpdatedConfigForRack_def updateSTSConfigMap_def handleNSOrDeviceRemovalForIgnorablePods_def
    checkPodsFailedAfterRackOp_def Let_def
  by (intro trace_rules only_stops_resize only_rack_reads_resize only_pod_resizes; simp add: resizes_only_iff)+

lemma only_upgrade_resizes: "only (resizes_only P) (upgradeOrRollingRestartRack api migrating st rackState ign pf)"
  unfolding upgradeOrRollingRestartRack_def restart_or_reconfigure_def Let_def
  by (intro trace_rules only_info_resize only_ops_resize only_dynamic_resize only_rack_reads_resize)

lemma only_scale_up_resizes: "only (resizes_only (\<lambda>m. m = RsSize rackState)) (scaleUpRack ra migrating st rackState)"
proof -
  have "only (resizes_only (\<lambda>m. m = RsSize rackState)) (set_replicas ra rackState (RsSize rackState) retry_steps)"
    by (rule only_mono [OF only_set_replicas]) (auto simp: stop_resizes resizes_only_def)
  then show ?thesis
    unfolding scaleUpRack_def Let_def
    by (intro trace_rules only_stops_resize only_rack_reads_resize only_cleanup_resizes)
qed

text \<open>A rack that is not to shrink is resized to its desired size or not at all.\<close>

lemma only_reconcile_resizes:
  assumes "StsReplicas st \<le> RsSize rackState"
  shows "only (resizes_only (\<lambda>m. m = RsSize rackState)) (reconcileRack api migrating st rackState ign pf)"
  using assms unfolding reconcileRack_def
  by (intro trace_rules only_upgrade_resizes only_scale_up_resizes only_cleanup_resizes; simp add: resizes_only_iff)


section \<open>A pass is a step\<close>

text \<open>The first resize of a run: nothing before it writes replicas.\<close>

definition first_resize :: "trace \<Rightarrow> int \<Rightarrow> bool" where
  "first_resize t m \<longleftrightarrow> (\<exists>t1 n b t2. t = t1 @ (CSetReplicas n m, b) # t2 \<and> list_all (resizes_only (\<lambda>_. False)) t1)"

lemma first_resizeI: "list_all (resizes_only (\<lambda>_. False)) t1 \<Longrightarrow> first_resize (t1 @ (CSetReplicas n m, b) # t2) m"
  unfolding first_resize_def by blast

lemma first_resize_append:
  assumes "first_resize (a @ b) m"
  shows "first_resize a m \<or> list_all (resizes_only (\<lambda>_. False)) a \<and> first_resize b m"
proof -
  from assms obtain t1 n k t2 where t: "a @ b = t1 @ (CSetReplicas n m, k) # t2" "list_all (resizes_only (\<lambda>_. False)) t1"
    unfolding first_resize_def by blast
  then consider u where "a = t1 @ (CSetReplicas n m, k) # u" | u where "t1 = a @ u" "b = u @ (CSetReplicas n m, k) # t2"
    by (auto simp: append_eq_append_conv2 append_eq_Cons_conv)
  then show ?thesis
    by cases (use t(2) first_resizeI in auto)
qed

lemma first_resize_only: "first_resize t m \<Longrightarrow> list_all (resizes_only P) t \<Longrightarrow> P m"
  by (auto simp: first_resize_def resizes_only_def)

lemma not_resized: "list_all is_stop_call t \<Longrightarrow> \<not> first_resize t m"
  using first_resize_only [of t m "\<lambda>_. False"] by (auto simp: list_all_iff stop_resizes)

fun first_written :: "trace \<Rightarrow> int option" where
  "first_written [] = None"
| "first_written ((c, b) # t) = (case c of CSetReplicas n m \<Rightarrow> Some m | _ \<Rightarrow> first_written t)"

lemma first_written_resize: "first_resize t m \<longleftrightarrow> first_written t = Some m"
proof (induction t rule: first_written.induct)
  case (2 c b t)
  show ?case
  proof (cases "\<exists>n k. c = CSetReplicas n k")
    case True
    then obtain n k where c: "c = CSetReplicas n k" by blast
    have "first_resize (([] @ [(c, b)]) @ t) k" unfolding c using first_resizeI [of "[]"] by simp
    moreover have "m = k" if "first_resize ((c, b) # t) m"
      using that by (auto simp: c first_resize_def resizes_only_def Cons_eq_append_conv)
    ultimately show ?thesis by (auto simp: c)
  next
    case False
    then have other: "list_all (resizes_only (\<lambda>_. False)) [(c, b)]" by (auto simp: resizes_only_def)
    have "first_resize t m" if "first_resize ((c, b) # t) m"
      using first_resize_append [of "[(c, b)]" t m] that first_resize_only [OF _ other] by auto
    moreover have "first_resize ((c, b) # t) m" if "first_resize t m"
      using that other first_resizeI [of "(c, b) # t1" for t1] by (auto simp: first_resize_def)
    ultimately have "first_resize ((c, b) # t) m \<longleftrightarrow> first_resize t m" by blast
    with 2 False show ?thesis by (auto split: call.splits)
  qed
qed (simp add: first_resize_def)

lemma scale_down_first_resize:
  assumes "scaleDownRack ra migrating found rackState ign custom s = (r, s', t)" and "first_resize t m"
  shows "\<exists>j. 1 \<le> j \<and> j \<le> StsReplicas found - RsSize rackState \<and> m = StsReplicas found - j"
proof -
  have needed: "\<not> StsReplicas found \<le> RsSize rackState"
  proof
    assume "StsReplicas found \<le> RsSize rackState"
    with assms have "first_resize [] m" by (simp add: scaleDownRack_def ret_def)
    then show False by (simp add: first_resize_def)
  qed
  obtain before rest where t: "t = before @ rest" "list_all is_stop_call before"
    and removed: "rest \<noteq> [] \<longrightarrow> (\<exists>pods. batch_removed (CtCluster s) found rackState ign pods before rest)"
    using scale_down_run [OF needed assms(1)] by blast
  have rest: "first_resize rest m"
    using first_resize_append assms(2) t not_resized by blast
  then have "rest \<noteq> []" by (auto simp: first_resize_def)
  with removed obtain pods where "batch_removed (CtCluster s) found rackState ign pods before rest" by blast
  then obtain batch more where batch: "take (nat (StsReplicas found - RsSize rackState)) pods = batch @ more" "batch \<noteq> []"
    and order: "removed_in_order (filter IsAerospikeServerReady batch) (StsReplicas found - int (length batch)) (map PodName batch) rest"
    unfolding batch_removed_def Let_def by (elim exE conjE) (rule that)
  from order obtain lower after where low: "rest = lower @ after"
    "list_all (\<lambda>x. is_stop_call x \<or> sets_replicas (\<lambda>m. m = StsReplicas found - int (length batch)) (fst x)) lower"
    "after \<noteq> [] \<longrightarrow> (\<exists>t0 n. lower = t0 @ [(CSetReplicas n (StsReplicas found - int (length batch)), True)])"
    unfolding removed_in_order_def by (elim exE conjE) (rule that)
  have "first_resize lower m"
  proof (rule ccontr)
    assume "\<not> first_resize lower m"
    with first_resize_append rest low(1) have "list_all (resizes_only (\<lambda>_. False)) lower" "first_resize after m" by blast+
    with low(3) show False by (auto simp: first_resize_def resizes_only_def)
  qed
  moreover have "list_all (resizes_only (\<lambda>m. m = StsReplicas found - int (length batch))) lower"
    using low(2) by (auto simp: list_all_iff resizes_only_def dest!: bspec)
  ultimately have "m = StsReplicas found - int (length batch)" by (rule first_resize_only)
  moreover have "length batch \<le> nat (StsReplicas found - RsSize rackState)"
    using arg_cong [OF batch(1), of length] by simp
  moreover have "1 \<le> length batch" using batch(2) by (cases batch) auto
  ultimately show ?thesis using needed by (intro exI [of _ "int (length batch)"]) auto
qed


text \<open>An operation whose result is dropped makes the same calls.\<close>

lemma bind_ret_trace: "bind m (\<lambda>_. ret ()) s = (r, s', t) \<Longrightarrow> \<exists>r1. m s = (r1, s', t)"
  by (auto simp: bind_def ret_def split: prod.splits res.splits)

lemma first_resize_bind:
  assumes "bind m f s = (r, s', t)" and "first_resize t k" and "only (resizes_only (\<lambda>_. False)) m"
  obtains a s1 t1 where "f a s1 = (r, s', t1)" "first_resize t1 k"
  using assms(1)
proof (cases rule: bind_runE)
  case (Err e)
  with assms(2) onlyD [OF assms(3)] show thesis using first_resize_only by blast
next
  case Panic
  with assms(2) onlyD [OF assms(3)] show thesis using first_resize_only by blast
next
  case (Ok a s1 t1 t2)
  have "\<not> first_resize t1 k" using onlyD [OF assms(3) Ok(1)] first_resize_only by blast
  with first_resize_append assms(2) Ok(3) have "first_resize t2 k" by blast
  with that Ok(2) show thesis by blast
qed

lemma only_wait_resizes: "only (resizes_only P) (wait_for_migration api ign)"
  unfolding wait_for_migration_def
  by (intro trace_rules only_stop_resizes only_stop_reads)


text \<open>Three pods that move to a new revision, and a rack of two pods whose old revision loses its first pod.\<close>

theorem migration_completes_witness:
  "(\<nexists>f. f 0 = (3, 0) \<and> (\<forall>i. migrates 3 1 (f i) (f (Suc i)))) \<and> migrates 3 1 (3, 0) (2, 0) \<and>
   min (3 + 0) (3 - 1) \<le> (2 :: int) + 0 \<and> (\<exists>p. migrates 3 1 (2, 0) p)"
proof -
  have step: "migrates 3 1 (3, 0) (2, 0)"
    using migrates.shrink [of 3 1 3 0 1 1] by (simp add: decide_migration_def)
  note all = migration_completes [of 1 3 0 3, simplified]
  have "\<exists>p. migrates 3 1 (2, 0) p"
    using all r_into_rtranclp [of "migrates 3 1", OF step] by (metis Pair_inject zero_neq_numeral)
  with all step show ?thesis by simp
qed

definition ops_example :: "(nat, unit, unit) ops_api" where
  "ops_example = \<lparr>ORack = scale_api, OEnv = (\<lambda>_ _. example_restart_env info_cluster), OConfigCmds = (\<lambda>_ _ w. (Inr [], w)),
     OSetConfig = (\<lambda>_ _ _ w. (Inr (), w)), OPatchDynamicStatus = (\<lambda>_ _ w. (Inr [], w)),
     OAccessControl = (\<lambda>_ _ w. (Inr (), w))\<rparr>"

definition migration_example :: "(ReconcileResult, unit) res \<times> nat rst \<times> trace" where
  "migration_example = migrate_rack ops_example [] (scale_rack\<lparr>RsSize := 2\<rparr>) (scale_rack\<lparr>RsSize := 2\<rparr>) scale_sts
     (scale_sts\<lparr>StsName := ''cl-1-b'', StsReplicas := 0\<rparr>) [] info_state"

lemma migration_example_resize: "first_written (snd (snd migration_example)) = Some 1"
  by code_simp


end
