(* ===== verification/Rack_Pass.thy ===== *)
theory Rack_Pass
  imports Rack_Migrate
begin

text \<open>
  A pass over all racks: \<^verbatim>\<open>reconcileRacks\<close> of \<^verbatim>\<open>internal/controller/cluster/rack.go\<close> with the completion of
  index checkpoints in flight (\<^verbatim>\<open>reconcileCheckpointingPods\<close> of \<^verbatim>\<open>aero_info_calls.go\<close>), the failed pods of all
  racks, the quiescing of pods across racks (\<^verbatim>\<open>parallel_scaledown.go\<close>) and the final wait. Events and log lines
  are left out.
\<close>

section \<open>Calls of a pass\<close>

text \<open>
  A status of the checkpoint of a namespace is given by the verdicts of the management library: whether its
  state is terminal, and whether it is the state of a failed save.
\<close>

record checkpoint_ns_status =
  CsTerminal :: bool
  CsFailed :: bool

record CheckpointResponse =
  CrNamespaces :: "checkpoint_ns_status gomap"
  CrIsParked :: bool

datatype checkpoint_error = ErrCheckpointNotConfigured | ErrCheckpointStatus string

text \<open>
  \<open>PRackPods\<close> and \<open>PRevisionPods\<close> are the lists of pods by rack and revision, and by rack alone, that the choice
  of ignorable pods reads; they are taken from one state of the world.
\<close>

record ('w, 'conf, 'd) pass_api =
  POps :: "('w, 'conf, 'd) ops_api"
  PListSTS :: "('w, string list) api_call"
  PRackPods :: "'w \<Rightarrow> int \<Rightarrow> string \<Rightarrow> (rack_error, Pod list) res"
  PRevisionPods :: "'w \<Rightarrow> int \<Rightarrow> (rack_error, Pod list) res"
  PCheckpointStatus :: "string \<Rightarrow> 'w \<Rightarrow> (checkpoint_error + CheckpointResponse) \<times> 'w"
  PMarkInProgress :: "('w, unit) api_call"
  PQuiesceUndo :: "string list \<Rightarrow> string list \<Rightarrow> ('w, unit) api_call"
  PQuiesceAnnotation :: "string \<Rightarrow> bool \<Rightarrow> ('w, unit) api_call"

abbreviation prack :: "('w, 'conf, 'd) pass_api \<Rightarrow> 'w rack_api" where
  "prack api \<equiv> ORack (POps api)"

abbreviation pbase :: "('w, 'conf, 'd) pass_api \<Rightarrow> 'w api" where
  "pbase api \<equiv> obase (POps api)"

fun rack_error_text :: "rack_error \<Rightarrow> string" where
  "rack_error_text (RkName _) = ''rack of a StatefulSet''"
| "rack_error_text (RkAPI e) = e"
| "rack_error_text (RkPodList _ e) = e"

section \<open>Index checkpoints in flight\<close>

definition rackStateForPod :: "RackState list \<Rightarrow> Pod \<Rightarrow> RackState option" where
  "rackStateForPod rackStates pod =
     (let label = (\<lambda>k. case gomap_get (PodLabels pod) k of None \<Rightarrow> [] | Some v \<Rightarrow> v) in
      find (\<lambda>rs. Itoa (RackID (RsRack rs)) = label AerospikeRackIDLabel \<and>
                 RackRevision (RsRack rs) = label AerospikeRackRevisionLabel) rackStates)"

definition checkpointDone :: "CheckpointResponse \<Rightarrow> bool \<times> string list" where
  "checkpointDone resp =
     (if list_ex (\<lambda>(ns, status). \<not> CsTerminal status) (CrNamespaces resp) then (False, [])
      else (True, sort (remdups (map fst (filter (\<lambda>(ns, status). CsFailed status) (CrNamespaces resp))))))"

text \<open>
  One round over the parked pods: the pods that are still saving, the pods deleted so far, and the error that
  ended the round. A pod whose server answers that nothing is configured, or that it neither saves nor is
  parked, is let go.
\<close>

fun poll_parked ::
  "('w, 'conf, 'd) pass_api \<Rightarrow> (Pod \<times> RackState) list \<Rightarrow> (Pod \<times> RackState) list \<Rightarrow> Pod list \<Rightarrow>
   ('w, 'e, (Pod \<times> RackState) list \<times> Pod list \<times> string option) prog" where
  "poll_parked api [] stillPending deleted = ret (stillPending, deleted, None)"
| "poll_parked api ((pod, rackState) # pending) stillPending deleted =
     bind connect (\<lambda>_.
     bind (attempt (issue (CCheckpointStatus (PodName pod)) (PCheckpointStatus api (PodName pod)))) (\<lambda>r.
       case r of
         Inl ErrCheckpointNotConfigured \<Rightarrow> poll_parked api pending stillPending deleted
       | Inl (ErrCheckpointStatus _) \<Rightarrow> poll_parked api pending (stillPending @ [(pod, rackState)]) deleted
       | Inr resp \<Rightarrow>
           if CrNamespaces resp = [] \<and> \<not> CrIsParked resp then poll_parked api pending stillPending deleted
           else if \<not> fst (checkpointDone resp) then poll_parked api pending (stillPending @ [(pod, rackState)]) deleted
           else bind (attempt (deletePodWithLocalPVCs (pbase api) rackState pod False)) (\<lambda>d.
             case d of
               Inl e \<Rightarrow> ret (stillPending, deleted, Some e)
             | Inr _ \<Rightarrow> poll_parked api pending stillPending (deleted @ [pod]))))"

fun poll_rounds ::
  "('w, 'conf, 'd) pass_api \<Rightarrow> nat \<Rightarrow> (Pod \<times> RackState) list \<Rightarrow> Pod list \<Rightarrow>
   ('w, 'e, Pod list \<times> (ReconcileResult, unit) res) prog" where
  "poll_rounds api 0 pending deleted =
     ret (deleted, if pending \<noteq> [] then Err (ReconcileRequeueAfter 10) else Ok ())"
| "poll_rounds api (Suc k) pending deleted =
     (if pending = [] then ret (deleted, Ok ())
      else bind (sleep (pbase api) 10) (\<lambda>_.
        bind (poll_parked api pending [] deleted) (\<lambda>(stillPending, deleted', err).
          case err of
            Some e \<Rightarrow> ret (deleted', Err (ReconcileError e))
          | None \<Rightarrow> poll_rounds api k stillPending deleted')))"

definition pollAndDeleteParkedPods ::
  "('w, 'conf, 'd) pass_api \<Rightarrow> (Pod \<times> RackState) list \<Rightarrow> ('w, 'e, Pod list \<times> (ReconcileResult, unit) res) prog" where
  "pollAndDeleteParkedPods api parked = poll_rounds api 6 parked []"

definition parked_pods :: "RackState list \<Rightarrow> Pod list \<Rightarrow> (Pod \<times> RackState) list" where
  "parked_pods rackStates pods =
     List.map_filter (\<lambda>pod. if fst (IsPodCheckpointing pod) then map_option (Pair pod) (rackStateForPod rackStates pod) else None)
       pods"

definition reconcileCheckpointingPods ::
  "('w, 'conf, 'd) pass_api \<Rightarrow> RackState list \<Rightarrow> ('w, ReconcileResult, unit) prog" where
  "reconcileCheckpointingPods api rackStates =
     bind (wrap_err ReconcileError (getClusterPodList (pbase api))) (\<lambda>pods.
       let parked = parked_pods rackStates pods in
       if parked = [] then ret ()
       else bind (pollAndDeleteParkedPods api parked) (\<lambda>(deleted, res).
         bind (wrap_err ReconcileError (record_restarts (pbase api) [] (map PodName deleted))) (\<lambda>_.
         bind (from_res res) (\<lambda>_.
         bind (ensurePodsRunningAndReady (pbase api) deleted) (\<lambda>_. fail (ReconcileRequeueAfter 1))))))"

section \<open>Quiescing across racks\<close>

definition QuiesceAnnotation :: string where "QuiesceAnnotation = ''aerospike.com/quiesced''"

definition QuiesceAnnotationValue :: string where "QuiesceAnnotationValue = ''true''"

definition is_quiesced :: "Pod \<Rightarrow> bool" where
  "is_quiesced pod \<longleftrightarrow> gomap_get (PodAnnotations pod) QuiesceAnnotation = Some QuiesceAnnotationValue"

definition setPodQuiesceAnnotation ::
  "('w, 'conf, 'd) pass_api \<Rightarrow> Pod \<Rightarrow> bool \<Rightarrow> ('w, string, unit) prog" where
  "setPodQuiesceAnnotation api pod add =
     (if is_quiesced pod = add then ret ()
      else wrap_err (\<lambda>e. ''patch pod '' @ PodName pod @ '' quiesce annotation: '' @ e)
             (issue (CQuiesceAnnotation (PodName pod) add) (PQuiesceAnnotation api (PodName pod) add)))"

definition clearStaleQuiesceAnnotations :: "('w, 'conf, 'd) pass_api \<Rightarrow> ('w, string, unit) prog" where
  "clearStaleQuiesceAnnotations api =
     bind (wrap_err (\<lambda>e. ''list pods to clear stale quiesce annotations: '' @ e) (getClusterPodList (pbase api))) (\<lambda>pods.
       each (\<lambda>pod. setPodQuiesceAnnotation api pod False) (filter is_quiesced pods))"

text \<open>The failure of a patch is logged; the next pass tries again.\<close>

definition mark_pods :: "('w, 'conf, 'd) pass_api \<Rightarrow> bool \<Rightarrow> Pod list \<Rightarrow> ('w, ReconcileResult, unit) prog" where
  "mark_pods api add pods = each (\<lambda>pod. bind (attempt (setPodQuiesceAnnotation api pod add)) (\<lambda>_. ret ())) pods"

definition scale_down_targets ::
  "('w, 'conf, 'd) pass_api \<Rightarrow> StatefulSet option \<Rightarrow> RackState \<Rightarrow> ('w, ReconcileResult, Pod list) prog" where
  "scale_down_targets api st rackState =
     wrap_err (\<lambda>e. ReconcileError (''get scale-down pods for rack: '' @ e))
       (let rack = RsRack rackState in
        bind (issue (CListRackPods (RackID rack) (RackRevision rack)) (RListRackPods (prack api) (RackID rack) (RackRevision rack)))
          (\<lambda>pods.
        bind (from_res (res_map_err rack_error_text (getAllScaleDownPods (Ok pods) (map_option StsReplicas st) rackState)))
          (\<lambda>slots. from_res (must (those slots)))))"

fun all_targets ::
  "('w, 'conf, 'd) pass_api \<Rightarrow> (StatefulSet option \<times> RackState) list \<Rightarrow> ('w, ReconcileResult, Pod list) prog" where
  "all_targets api [] = ret []"
| "all_targets api ((st, rackState) # racks) =
     bind (scale_down_targets api st rackState) (\<lambda>pods. bind (all_targets api racks) (\<lambda>rest. ret (pods @ rest)))"

definition buildScaleDownTargets ::
  "('w, 'conf, 'd) pass_api \<Rightarrow> (StatefulSet \<times> RackState) list \<Rightarrow> Rack list \<Rightarrow> ('w, ReconcileResult, Pod list) prog" where
  "buildScaleDownTargets api scaledDownRacks racksToDelete =
     all_targets api (map (\<lambda>(st, rs). (Some st, rs)) scaledDownRacks @
       map (\<lambda>rack. (None, \<lparr>RsRack = rack, RsSize = 0\<rparr>)) racksToDelete)"

definition reconcileQuiesceUndo ::
  "('w, 'conf, 'd) pass_api \<Rightarrow> Pod list \<Rightarrow> string list \<Rightarrow> ('w, ReconcileResult, unit) prog" where
  "reconcileQuiesceUndo api allTargets ignorablePodNames =
     bind (wrap_err (\<lambda>e. ReconcileError (''list cluster pods for quiesce-undo: '' @ e)) (getClusterPodList (pbase api))) (\<lambda>pods.
       let annotatedNonTargets = filter (\<lambda>pod. PodName pod \<notin> set (podNamesToSet allTargets) \<and> is_quiesced pod) pods in
       if annotatedNonTargets = [] then ret ()
       else
         bind get_cluster (\<lambda>c.
         bind (from_res (res_map_err (\<lambda>e. ReconcileError (''build all-host connections for quiesce-undo: '' @ e))
                 (newPodsHostConnWithOption c ignorablePodNames pods))) (\<lambda>allHostConns.
           if allHostConns = [] then ret ()
           else
             bind (from_res (res_map_err (\<lambda>e. ReconcileError (''build host connections for quiesce-undo pods: '' @ e))
                     (newPodsHostConnWithOption c ignorablePodNames annotatedNonTargets))) (\<lambda>nonTargetHostConns.
             bind (wrap_err (\<lambda>e. ReconcileError (''send quiesce-undo to scale-down-reverted pods: '' @ e))
                     (issue (CQuiesceUndo allHostConns nonTargetHostConns) (PQuiesceUndo api allHostConns nonTargetHostConns))) (\<lambda>_.
               mark_pods api False annotatedNonTargets)))))"

definition reconcileParallelScaleDownQuiesce ::
  "('w, 'conf, 'd) pass_api \<Rightarrow> Pod list \<Rightarrow> string list \<Rightarrow> ('w, ReconcileResult, unit) prog" where
  "reconcileParallelScaleDownQuiesce api allTargets ignorablePodNames =
     (let effectiveTargets = filter (\<lambda>pod. PodName pod \<notin> set ignorablePodNames) allTargets in
      if list_all is_quiesced effectiveTargets then ret ()
      else
        bind (claim_condition (prack api) ''ScalingDown'') (\<lambda>_.
        bind (waitForMultipleNodesSafeStopReady (pbase api) effectiveTargets ignorablePodNames 0 True) (\<lambda>_.
          mark_pods api True (filter (\<lambda>pod. \<not> is_quiesced pod) effectiveTargets))))"

section \<open>The pass\<close>

definition sts_or_new_rack :: "('w, 'conf, 'd) pass_api \<Rightarrow> RackState \<Rightarrow> ('w, ReconcileResult, StatefulSet) prog" where
  "sts_or_new_rack api state =
     bind (attempt (getSTS (prack api) state)) (\<lambda>r.
       case r of
         Inr found \<Rightarrow> ret found
       | Inl GetNotFound \<Rightarrow> createEmptyRack (prack api) (state\<lparr>RsSize := 0\<rparr>)
       | Inl (GetFailed err) \<Rightarrow> fail (ReconcileError err))"

definition handle_failed_rack ::
  "('w, 'conf, 'd) pass_api \<Rightarrow> (int \<times> revisionChangedRack) list \<Rightarrow> string list \<Rightarrow> RackState \<Rightarrow> ('w, ReconcileResult, unit) prog" where
  "handle_failed_rack api revisionChangedRacks ignorablePodNames state =
     bind (case map_of revisionChangedRacks (RackID (RsRack state)) of
             None \<Rightarrow> ret ()
           | Some info \<Rightarrow> checkRackPodsHealthy (POps api) (RsRack (RcOldRack info)) ignorablePodNames) (\<lambda>_.
     bind (attempt (getSTS (prack api) state)) (\<lambda>r.
       case r of
         Inr found \<Rightarrow> handleFailedPodsInRack (POps api) (map fst revisionChangedRacks) found state ignorablePodNames
       | Inl GetNotFound \<Rightarrow> ret ()
       | Inl (GetFailed err) \<Rightarrow> fail (ReconcileError err)))"

definition handleFailedPodsForAllRacks ::
  "('w, 'conf, 'd) pass_api \<Rightarrow> RackState list \<Rightarrow> (int \<times> revisionChangedRack) list \<Rightarrow> string list \<Rightarrow>
   ('w, ReconcileResult, unit) prog" where
  "handleFailedPodsForAllRacks api configuredRacks revisionChangedRacks ignorablePodNames =
     each (handle_failed_rack api revisionChangedRacks ignorablePodNames) configuredRacks"

definition rack_ready ::
  "('w, 'conf, 'd) pass_api \<Rightarrow> string list \<Rightarrow> RackState \<Rightarrow> ('w, ReconcileResult, unit) prog" where
  "rack_ready api ignorablePodNames state =
     bind (sts_or_new_rack api state) (\<lambda>found.
     bind get_cluster (\<lambda>c.
     bind (wrap_err (\<lambda>e. case e of ErrStatefulSetNotReady _ \<Rightarrow> ReconcileRequeueAfter 1 | ErrWait err \<Rightarrow> ReconcileError err)
             (if ignore_sidecar c \<and> \<not> IsStatusEmpty c then waitForSTSPodsServerReady (pbase api) found ignorablePodNames
              else waitForSTSToBeReady (pbase api) found ignorablePodNames)) (\<lambda>_. ret ())))"

definition waitForAllRacksReady ::
  "('w, 'conf, 'd) pass_api \<Rightarrow> RackState list \<Rightarrow> string list \<Rightarrow> ('w, ReconcileResult, unit) prog" where
  "waitForAllRacksReady api configuredRacks ignorablePodNames = each (rack_ready api ignorablePodNames) configuredRacks"

text \<open>
  The racks that shrink and the other racks, each with its StatefulSet; a rack that migrates to a new revision
  is dealt with on the way.
\<close>

fun classify_racks ::
  "('w, 'conf, 'd) pass_api \<Rightarrow> (int \<times> revisionChangedRack) list \<Rightarrow> string list \<Rightarrow> RackState list \<Rightarrow>
   ('w, ReconcileResult, (StatefulSet \<times> RackState) list \<times> (StatefulSet \<times> RackState) list) prog" where
  "classify_racks api revisionChangedRacks ignorablePodNames [] = ret ([], [])"
| "classify_racks api revisionChangedRacks ignorablePodNames (state # states) =
     (case map_of revisionChangedRacks (RackID (RsRack state)) of
        Some info \<Rightarrow>
          bind (reconcileRevisionChangedRacks (POps api) (map fst revisionChangedRacks) info ignorablePodNames) (\<lambda>_.
            classify_racks api revisionChangedRacks ignorablePodNames states)
      | None \<Rightarrow>
          bind (sts_or_new_rack api state) (\<lambda>found.
          bind (classify_racks api revisionChangedRacks ignorablePodNames states) (\<lambda>(scaledDown, others).
            if StsReplicas found > RsSize state then ret ((found, state) # scaledDown, others)
            else ret (scaledDown, (found, state) # others))))"

text \<open>\<^verbatim>\<open>categoriseRacks\<close> lists the StatefulSets of the cluster twice.\<close>

definition read_racks ::
  "('w, 'conf, 'd) pass_api \<Rightarrow> ('w, ReconcileResult, RackState list \<times> (int \<times> revisionChangedRack) list \<times> Rack list) prog" where
  "read_racks api =
     wrap_err (\<lambda>e. ReconcileError (rack_error_text e))
       (bind get_cluster (\<lambda>c.
        bind (from_res (getConfiguredRackStateList (ClusterSpec c))) (\<lambda>configured.
        bind (wrap_err RkAPI (issue CListSTS (PListSTS api))) (\<lambda>stsList1.
        bind (from_res (getRacksToDelete c (Ok stsList1) configured)) (\<lambda>_.
        bind (wrap_err RkAPI (issue CListSTS (PListSTS api))) (\<lambda>stsList2.
          from_res (categoriseRacks c (Ok stsList1) (Ok stsList2))))))))"

definition read_ignorable ::
  "('w, 'conf, 'd) pass_api \<Rightarrow> Rack list \<Rightarrow> RackState list \<Rightarrow> ('w, ReconcileResult, string list) prog" where
  "read_ignorable api racksToDelete configuredRacks =
     bind get_cluster (\<lambda>c.
     bind (read_world (\<lambda>w. getIgnorablePods (RScaled (prack api)) (PRackPods api w) (PRevisionPods api w)
             (SpecMaxIgnorablePods (ClusterSpec c)) racksToDelete configuredRacks)) (\<lambda>r.
       from_res (res_map_err (\<lambda>e. ReconcileError (rack_error_text e)) r)))"

definition reconcile_all ::
  "('w, 'conf, 'd) pass_api \<Rightarrow> int list \<Rightarrow> string list \<Rightarrow> (StatefulSet \<times> RackState) list \<Rightarrow> ('w, ReconcileResult, unit) prog" where
  "reconcile_all api migrating ignorablePodNames racks =
     each (\<lambda>(found, state). reconcileRack (POps api) migrating found state ignorablePodNames None) racks"

text \<open>The second half of a pass, after the racks were found healthy.\<close>

definition settle_racks ::
  "('w, 'conf, 'd) pass_api \<Rightarrow> RackState list \<Rightarrow> (int \<times> revisionChangedRack) list \<Rightarrow> Rack list \<Rightarrow> string list \<Rightarrow>
   ('w, ReconcileResult, unit) prog" where
  "settle_racks api configuredRacks revisionChangedRacks racksToDelete ign =
     (let migrating = map fst revisionChangedRacks in
      bind (classify_racks api revisionChangedRacks ign configuredRacks) (\<lambda>(scaledDown, others).
      bind get_cluster (\<lambda>c.
      let parallel = GetBool (SpecEnableParallelScaleDown (ClusterSpec c)) in
      bind (if parallel
            then bind (buildScaleDownTargets api scaledDown racksToDelete) (\<lambda>allTargets.
                   bind (reconcileQuiesceUndo api allTargets ign) (\<lambda>_. ret allTargets))
            else ret []) (\<lambda>allTargets.
      bind (reconcile_all api migrating ign others) (\<lambda>_.
      bind (if parallel then reconcileParallelScaleDownQuiesce api allTargets ign else ret ()) (\<lambda>_.
      bind (reconcile_all api migrating ign scaledDown) (\<lambda>_.
      bind get_cluster (\<lambda>c'.
      bind (if StRacks (ClusterStatus c') \<noteq> []
            then wrap_err (prefix_err ''delete removed racks: '') (deleteRacks (prack api) migrating racksToDelete ign)
            else ret ()) (\<lambda>_.
        waitForAllRacksReady api configuredRacks ign)))))))))"

definition reconcileRacks :: "('w, 'conf, 'd) pass_api \<Rightarrow> ('w, ReconcileResult, unit) prog" where
  "reconcileRacks api =
     bind (read_racks api) (\<lambda>(configuredRacks, revisionChangedRacks, racksToDelete).
     bind (read_ignorable api racksToDelete configuredRacks) (\<lambda>ign.
     bind (reconcileCheckpointingPods api (allRackStates configuredRacks revisionChangedRacks racksToDelete)) (\<lambda>_.
     bind (handleFailedPodsForAllRacks api configuredRacks revisionChangedRacks ign) (\<lambda>_.
     bind (wrap_err (\<lambda>e. ReconcileError (''mark reconcile in progress: '' @ e)) (issue CMarkInProgress (PMarkInProgress api))) (\<lambda>_.
       settle_racks api configuredRacks revisionChangedRacks racksToDelete ign)))))"

section \<open>Parked pods\<close>

text \<open>The answer that lets a parked pod be deleted.\<close>

definition save_done :: "CheckpointResponse \<Rightarrow> bool" where
  "save_done resp \<longleftrightarrow> list_all (\<lambda>(ns, status). CsTerminal status) (CrNamespaces resp) \<and> (CrNamespaces resp = [] \<longrightarrow> CrIsParked resp)"

lemma checkpointDone_iff: "fst (checkpointDone resp) \<longleftrightarrow> list_all (\<lambda>(ns, status). CsTerminal status) (CrNamespaces resp)"
  by (auto simp: checkpointDone_def list_ex_iff list_all_iff)

definition discharged :: "('w, 'conf, 'd) pass_api \<Rightarrow> string set \<Rightarrow> trace \<Rightarrow> bool" where
  "discharged api names t \<longleftrightarrow> (\<forall>t1 n b t2. t = t1 @ (CDeletePod n, b) # t2 \<longrightarrow> n \<in> names \<and>
     (CCheckpointStatus n, True) \<in> set t1 \<and> (\<exists>w w' resp. PCheckpointStatus api n w = (Inr resp, w') \<and> save_done resp))"

lemma dischargedD:
  "discharged api N t \<Longrightarrow> t = t1 @ (CDeletePod n, b) # t2 \<Longrightarrow> n \<in> N \<and> (CCheckpointStatus n, True) \<in> set t1 \<and>
     (\<exists>w w' resp. PCheckpointStatus api n w = (Inr resp, w') \<and> save_done resp)"
  unfolding discharged_def by blast

lemma discharged_append:
  assumes "discharged api N t" and "discharged api N t'"
  shows "discharged api N (t @ t')"
  unfolding discharged_def
proof (intro allI impI)
  fix t1 n b t2
  assume "t @ t' = t1 @ (CDeletePod n, b) # t2"
  then consider u where "t = t1 @ (CDeletePod n, b) # u" | u where "t1 = t @ u" "t' = u @ (CDeletePod n, b) # t2"
    by (auto simp: append_eq_append_conv2 append_eq_Cons_conv)
  then show "n \<in> N \<and> (CCheckpointStatus n, True) \<in> set t1 \<and> (\<exists>w w' resp. PCheckpointStatus api n w = (Inr resp, w') \<and> save_done resp)"
  proof cases
    case 1
    from dischargedD [OF assms(1) this] show ?thesis .
  next
    case 2
    from dischargedD [OF assms(2) 2(2)] 2(1) show ?thesis by simp
  qed
qed

lemma discharged_calm: "list_all (\<lambda>x. \<forall>n. fst x \<noteq> CDeletePod n) t \<Longrightarrow> discharged api N t"
  by (auto simp: discharged_def)

lemma discharged_deletes:
  assumes "PCheckpointStatus api n w = (Inr resp, w')" and "save_done resp" and "n \<in> N"
    and "list_all (confined {n} v) t"
  shows "discharged api N ((CCheckpointStatus n, True) # t)"
  unfolding discharged_def
proof (intro allI impI)
  fix t1 m b t2
  assume "(CCheckpointStatus n, True) # t = t1 @ (CDeletePod m, b) # t2"
  then obtain u where u: "t1 = (CCheckpointStatus n, True) # u" "t = u @ (CDeletePod m, b) # t2"
    by (auto simp: Cons_eq_append_conv)
  with assms(4) have "m = n" by (auto simp: confined_def)
  with assms(1-3) u show "m \<in> N \<and> (CCheckpointStatus m, True) \<in> set t1 \<and> (\<exists>w w' resp. PCheckpointStatus api m w = (Inr resp, w') \<and> save_done resp)"
    by auto
qed

lemma discharged_mono: "discharged api M t \<Longrightarrow> M \<subseteq> N \<Longrightarrow> discharged api N t"
  unfolding discharged_def by blast

lemma runs_poll_parked:
  "PodName ` fst ` set pending \<subseteq> N \<Longrightarrow>
   runs (poll_parked api pending still deleted :: ('w, 'e, _) prog)
     (\<lambda>r t. discharged api N t \<and> (\<forall>p d e. r = Ok (p, d, e) \<longrightarrow> set p \<subseteq> set still \<union> set pending))"
  (is "_ \<Longrightarrow> runs _ (?Q still pending)")
proof (induction pending arbitrary: still deleted)
  case Nil
  then show ?case by (auto intro!: runs_ret discharged_calm)
next
  case (Cons x pending)
  obtain pod rs where x: "x = (pod, rs)" by (cases x)
  have more: "runs (poll_parked api pending still deleted :: ('w, 'e, _) prog) (?Q still (x # pending))"
    "runs (poll_parked api pending (still @ [(pod, rs)]) deleted :: ('w, 'e, _) prog) (?Q still (x # pending))" for still deleted
    using Cons x by (auto intro!: runs_mono [OF Cons.IH])
  let ?n = "PodName pod" and ?D = "bind (attempt (deletePodWithLocalPVCs (pbase api) rs pod False)) (\<lambda>d. case d of
      Inl e \<Rightarrow> ret (still, deleted, Some e) | Inr _ \<Rightarrow> poll_parked api pending still (deleted @ [pod])) :: ('w, 'e, _) prog"
  have N: "?n \<in> N" using Cons.prems x by simp
  have delete: "runs ?D (\<lambda>r t. discharged api N ((CCheckpointStatus ?n, True) # t) \<and>
      (\<forall>p d e. r = Ok (p, d, e) \<longrightarrow> set p \<subseteq> set still \<union> set (x # pending)))"
    if "PCheckpointStatus api ?n w = (Inr resp, w')" "save_done resp" for w w' resp
  proof (rule runs_bind)
    note fin = discharged_deletes [OF that N]
    show "runs (attempt (deletePodWithLocalPVCs (pbase api) rs pod False) :: ('w, 'e, _) prog) (\<lambda>r. list_all (confined {?n} True))"
      using only_attempt [OF only_delete_pod [of pod "{?n}" False rs True "pbase api"]] by (simp add: only_def)
    show "runs ((case d of Inl e \<Rightarrow> ret (still, deleted, Some e) | Inr _ \<Rightarrow> poll_parked api pending still (deleted @ [pod])) :: ('w, 'e, _) prog)
        (?Q still (x # pending))" for d
      using more(1) by (cases d) (auto intro!: runs_ret discharged_calm)
    show "discharged api N ((CCheckpointStatus ?n, True) # t @ t') \<and> (\<forall>p d e. r = Ok (p, d, e) \<longrightarrow> set p \<subseteq> set still \<union> set (x # pending))"
      if "list_all (confined {?n} True) t" "?Q still (x # pending) r t'" for t t' r
      using discharged_append [OF fin [OF that(1)], of t'] that(2) by simp
    show "discharged api N ((CCheckpointStatus ?n, True) # t) \<and> (\<forall>p d e'. Panic = Ok (p, d, e') \<longrightarrow> set p \<subseteq> set still \<union> set (x # pending))"
      if "list_all (confined {?n} True) t" for t
      using fin [OF that] by simp
    show "discharged api N ((CCheckpointStatus ?n, True) # t) \<and> (\<forall>p d e'. Err e = Ok (p, d, e') \<longrightarrow> set p \<subseteq> set still \<union> set (x # pending))"
      if "list_all (confined {?n} True) t" for t e
      using fin [OF that] by simp
  qed
  have calm: "runs m (\<lambda>r t. ?Q still (x # pending) r ((CCheckpointStatus ?n, b) # t))" if "runs m (?Q still (x # pending))"
    for b and m :: "('w, 'e, (Pod \<times> RackState) list \<times> Pod list \<times> string option) prog"
    by (rule runs_mono [OF that])
       (use discharged_append [OF discharged_calm [of "[(CCheckpointStatus ?n, b)]"]] in auto)
  show ?case
    unfolding x poll_parked.simps
  proof (rule runs_bind [where P = "\<lambda>r t. t = []"])
    show "runs connect (\<lambda>r t. t = [])"
      by (rule runs_mono [OF only_connect [of "\<lambda>_. False", unfolded only_def]]) (simp add: list_all_False)
    show "runs (bind (attempt (issue (CCheckpointStatus ?n) (PCheckpointStatus api ?n))) (\<lambda>r.
       case r of
         Inl ErrCheckpointNotConfigured \<Rightarrow> poll_parked api pending still deleted
       | Inl (ErrCheckpointStatus _) \<Rightarrow> poll_parked api pending (still @ [(pod, rs)]) deleted
       | Inr resp \<Rightarrow>
           if CrNamespaces resp = [] \<and> \<not> CrIsParked resp then poll_parked api pending still deleted
           else if \<not> fst (checkpointDone resp) then poll_parked api pending (still @ [(pod, rs)]) deleted
           else ?D)) (?Q still (x # pending))" for u :: unit
      using calm [OF more(1)] calm [OF more(2)] delete
      by (intro runs_attempt_issue) (auto simp: checkpointDone_iff save_done_def split: checkpoint_error.splits)
  qed (auto simp: discharged_calm x)
qed


lemma runs_poll_rounds:
  "PodName ` fst ` set pending \<subseteq> N \<Longrightarrow> runs (poll_rounds api k pending deleted :: ('w, 'e, _) prog) (\<lambda>r t. discharged api N t)"
proof (induction k arbitrary: pending deleted)
  case 0
  then show ?case by (auto intro!: runs_ret discharged_calm)
next
  case (Suc k)
  have "runs (bind (poll_parked api pending [] deleted) (\<lambda>(stillPending, deleted', err).
          case err of
            Some e \<Rightarrow> ret (deleted', Err (ReconcileError e))
          | None \<Rightarrow> poll_rounds api k stillPending deleted') :: ('w, 'e, _) prog) (\<lambda>r t. discharged api N t)"
    (is "runs (bind ?m ?f :: ('w, 'e, _) prog) _")
    unfolding runs_def
  proof (intro allI)
    fix s
    obtain r s' t where run: "bind ?m ?f s = (r, s', t)" by (cases "bind ?m ?f s")
    then show "case bind ?m ?f s of (r, s', t) \<Rightarrow> discharged api N t"
    proof (cases rule: bind_runE)
      case (Ok a s1 t1 t2)
      obtain p d e where a: "a = (p, d, e)" by (cases a)
      note first = runsD [OF runs_poll_parked [OF Suc.prems] Ok(1)]
      then have "PodName ` fst ` set p \<subseteq> N" using Suc.prems a by auto
      from runsD [OF Suc.IH [OF this]] Ok(2) a have "discharged api N t2"
        by (auto simp: ret_def split: option.splits intro: discharged_calm)
      with first Ok(3) run show ?thesis by (simp add: discharged_append)
    next
      case (Err e)
      with runsD [OF runs_poll_parked [OF Suc.prems] Err(1)] run show ?thesis by simp
    next
      case Panic
      with runsD [OF runs_poll_parked [OF Suc.prems] Panic(1)] run show ?thesis by simp
    qed
  qed
  then show ?case
    unfolding poll_rounds.simps sleep_def
    by (auto intro!: runs_if runs_ret runs_change discharged_calm)
qed

lemma runs_discharge_end:
  "runs (bind (wrap_err ReconcileError (record_restarts (pbase api) [] names)) (\<lambda>_.
     bind (from_res res) (\<lambda>_. bind (ensurePodsRunningAndReady (pbase api) deleted) (\<lambda>_. fail (ReconcileRequeueAfter 1)))))
     (\<lambda>r t. discharged api N t \<and> r \<noteq> Ok ())"
proof (rule runs_and)
  have "only (confined {} False) (bind (wrap_err ReconcileError (record_restarts (pbase api) [] names)) (\<lambda>_.
     bind (from_res res) (\<lambda>_. bind (ensurePodsRunningAndReady (pbase api) deleted) (\<lambda>_. fail (ReconcileRequeueAfter 1)))))"
    by (intro trace_rules only_record only_ensure)
  then show "runs (bind (wrap_err ReconcileError (record_restarts (pbase api) [] names)) (\<lambda>_.
     bind (from_res res) (\<lambda>_. bind (ensurePodsRunningAndReady (pbase api) deleted) (\<lambda>_. fail (ReconcileRequeueAfter 1)))))
     (\<lambda>r t. discharged api N t)"
    unfolding only_def by (rule runs_mono) (fastforce intro!: discharged_calm simp: list_all_iff confined_def)
qed (intro runs_not_ok runs_fail, simp)


lemma runs_case_prod_end:
  "runs (case p of (deleted, res) \<Rightarrow> bind (wrap_err ReconcileError (record_restarts (pbase api) [] (map PodName deleted))) (\<lambda>_.
     bind (from_res res) (\<lambda>_. bind (ensurePodsRunningAndReady (pbase api) deleted) (\<lambda>_. fail (ReconcileRequeueAfter 1)))))
     (\<lambda>r t. discharged api N t \<and> r \<noteq> Ok ())"
  by (cases p) (simp add: runs_discharge_end)

lemma parked_pods_checkpointing:
  "p \<in> set (parked_pods states pods) \<Longrightarrow> fst p \<in> set pods \<and> fst (IsPodCheckpointing (fst p)) \<and> rackStateForPod states (fst p) = Some (snd p)"
  by (auto simp: parked_pods_def List.map_filter_def split: if_splits)

text \<open>The pods that the first list of a run returns.\<close>

definition listed_pods :: "'w api \<Rightarrow> 'w rst \<Rightarrow> Pod list" where
  "listed_pods base s = (case fst (ApiListPods base (CtWorld s)) of Inl _ \<Rightarrow> [] | Inr pods \<Rightarrow> pods)"

text \<open>
  Property C19. Index checkpoints in flight are completed before the racks are touched, and no sooner than they are
  done. The step succeeds only if it listed the pods of the cluster, found none of a known rack that is parked,
  and did nothing else. In any run, a pod is deleted only if it is parked, belongs to a known rack, and its
  server was asked before and answered that the save of every namespace has ended, where an answer without
  namespaces counts only from a parked server.
\<close>

theorem checkpoints_discharged:
  assumes "reconcileCheckpointingPods api states s = (r, s', t)"
  shows "(r = Ok () \<longrightarrow> t = [(CListPods, True)] \<and> parked_pods states (listed_pods (pbase api) s) = []) \<and>
    (\<forall>t1 n b t2. t = t1 @ (CDeletePod n, b) # t2 \<longrightarrow>
       (\<exists>pod rs. pod \<in> set (listed_pods (pbase api) s) \<and> PodName pod = n \<and> fst (IsPodCheckpointing pod) \<and> rackStateForPod states pod = Some rs) \<and>
       (CCheckpointStatus n, True) \<in> set t1 \<and>
       (\<exists>w w' resp. PCheckpointStatus api n w = (Inr resp, w') \<and> save_done resp))"
proof -
  obtain x w where list: "ApiListPods (pbase api) (CtWorld s) = (x, w)" by (cases "ApiListPods (pbase api) (CtWorld s)")
  show ?thesis
  proof (cases x)
    case (Inl e)
    with assms list show ?thesis
      by (auto simp: reconcileCheckpointingPods_def getClusterPodList_def bind_def wrap_err_def issue_def Cons_eq_append_conv)
  next
    case (Inr pods)
    let ?parked = "parked_pods states pods" and ?s = "s\<lparr>CtWorld := w\<rparr>"
    let ?rest = "bind (pollAndDeleteParkedPods api ?parked) (\<lambda>(deleted, res).
         bind (wrap_err ReconcileError (record_restarts (pbase api) [] (map PodName deleted))) (\<lambda>_.
         bind (from_res res) (\<lambda>_.
         bind (ensurePodsRunningAndReady (pbase api) deleted) (\<lambda>_. fail (ReconcileRequeueAfter 1)))))"
    have pods: "listed_pods (pbase api) s = pods" using list Inr by (simp add: listed_pods_def)
    have run: "bind (wrap_err ReconcileError (getClusterPodList (pbase api)))
        (\<lambda>_. if ?parked = [] then ret () else ?rest) s = (r, s', t)"
      using assms list Inr
      by (simp add: reconcileCheckpointingPods_def getClusterPodList_def bind_def [of "wrap_err _ _"] wrap_err_def issue_def Let_def)
    have "runs ?rest (\<lambda>r t. discharged api (PodName ` fst ` set ?parked) t \<and> r \<noteq> Ok ())"
      unfolding pollAndDeleteParkedPods_def
      by (rule runs_bind [OF runs_poll_rounds [of ?parked "PodName ` fst ` set ?parked"] runs_case_prod_end])
         (auto intro: discharged_append)
    then have rest: "discharged api (PodName ` fst ` set ?parked) t' \<and> r' \<noteq> Ok ()" if "?rest ?s = (r', s'', t')" for r' s'' t'
      using that by (rule runsD)
    show ?thesis
    proof (cases "?parked = []")
      case True
      with run list Inr pods show ?thesis
        by (auto simp: getClusterPodList_def bind_def wrap_err_def issue_def ret_def Cons_eq_append_conv)
    next
      case False
      obtain t' where t': "?rest ?s = (r, s', t')" "t = (CListPods, True) # t'"
        using run False list Inr
        by (auto simp: getClusterPodList_def bind_def [of "wrap_err _ _"] wrap_err_def issue_def split: prod.splits)
      have "discharged api (PodName ` fst ` set ?parked) t"
        using discharged_append [OF discharged_calm [of "[(CListPods, True)]"] conjunct1 [OF rest [OF t'(1)]]] t'(2) by simp
      note each = dischargedD [OF this]
      have parked: "\<exists>pod rs. pod \<in> set pods \<and> PodName pod = n \<and> fst (IsPodCheckpointing pod) \<and> rackStateForPod states pod = Some rs"
        if "n \<in> PodName ` fst ` set ?parked" for n
      proof -
        from that obtain p where "p \<in> set ?parked" "n = PodName (fst p)" by blast
        with parked_pods_checkpointing [OF this(1)] show ?thesis by (intro exI [of _ "fst p"] exI [of _ "snd p"]) simp
      qed
      show ?thesis
        unfolding pods using rest [OF t'(1)] parked [OF conjunct1 [OF each]] conjunct2 [OF each] by simp
    qed
  qed
qed

text \<open>A pod that is parked, whose server has saved its index.\<close>

definition parked_pod :: Pod where
  "parked_pod = (server_pod ''cl-1-1'' ''n2'' [(IndexCheckpointParkedAnnotation, ''id'')])\<lparr>
     PodLabels := [(AerospikeRackIDLabel, ''1'')]\<rparr>"

definition pass_example :: "(nat, unit, unit) pass_api" where
  "pass_example = \<lparr>POps = ops_example\<lparr>ORack := scale_api\<lparr>RBase := info_api\<lparr>ApiListPods := (\<lambda>w. (Inr [parked_pod], w))\<rparr>\<rparr>\<rparr>,
     PListSTS = (\<lambda>w. (Inr [''cl-1''], w)), PRackPods = (\<lambda>_ _ _. Ok info_pods), PRevisionPods = (\<lambda>_ _. Ok info_pods),
     PCheckpointStatus = (\<lambda>_ w. (Inr \<lparr>CrNamespaces = [(''a'', \<lparr>CsTerminal = 30 \<le> w, CsFailed = False\<rparr>)], CrIsParked = True\<rparr>, w)),
     PMarkInProgress = (\<lambda>w. (Inr (), w)), PQuiesceUndo = (\<lambda>_ _ w. (Inr (), w)), PQuiesceAnnotation = (\<lambda>_ _ w. (Inr (), w))\<rparr>"

lemma pass_example_parked:
  "(CDeletePod ''cl-1-1'', True) \<in> set (snd (snd (reconcileCheckpointingPods pass_example [scale_rack] info_state)))"
  by code_simp


theorem checkpoints_discharged_witness:
  "\<exists>t1 t2. snd (snd (reconcileCheckpointingPods pass_example [scale_rack] info_state)) = t1 @ (CDeletePod ''cl-1-1'', True) # t2 \<and>
     (CCheckpointStatus ''cl-1-1'', True) \<in> set t1 \<and>
     (\<exists>w w' resp. PCheckpointStatus pass_example ''cl-1-1'' w = (Inr resp, w') \<and> save_done resp)"
proof -
  obtain r s' t where run: "reconcileCheckpointingPods pass_example [scale_rack] info_state = (r, s', t)"
    by (cases "reconcileCheckpointingPods pass_example [scale_rack] info_state")
  obtain t1 t2 where t: "t = t1 @ (CDeletePod ''cl-1-1'', True) # t2"
    using pass_example_parked unfolding run by (auto dest: split_list)
  from conjunct2 [OF checkpoints_discharged [OF run], rule_format, OF t] t show ?thesis
    unfolding run by (intro exI [of _ t1] exI [of _ t2]) simp
qed

section \<open>What the success of a pass means\<close>

text \<open>A pod that was read and found in a given condition.\<close>

definition pod_seen :: "'w api \<Rightarrow> (Pod \<Rightarrow> bool) \<Rightarrow> string \<Rightarrow> bool" where
  "pod_seen api P n \<longleftrightarrow> (\<exists>w w' pod. ApiGetPod api n w = (Inr pod, w') \<and> P pod)"

lemma pod_seenI: "ApiGetPod api n w = (Inr pod, w') \<Longrightarrow> P pod \<Longrightarrow> pod_seen api P n"
  unfolding pod_seen_def by blast

lemma keeps_waits [trace_rules]:
  "keeps_cluster (wait_pod_ready api n k)" "keeps_cluster (wait_server_ready api n k)"
  "keeps_cluster (wait_pod_appears api n k)" "keeps_cluster (waitForSTSReplicasConverged api n k)" "keeps_cluster (sleep api d)"
proof -
  show "keeps_cluster (sleep api d)" for d unfolding sleep_def by (rule trace_rules)
  note sleep = this
  show "keeps_cluster (wait_pod_ready api n k)" "keeps_cluster (wait_server_ready api n k)"
    "keeps_cluster (wait_pod_appears api n k)" "keeps_cluster (waitForSTSReplicasConverged api n k)"
    by (induction k) (auto intro!: keeps_basic keeps_bind keeps_wrap_err keeps_attempt sleep split: option.splits sum.splits)
qed

lemma keeps_sts_waits [trace_rules]:
  "keeps_cluster (waitForSTSToBeReady api st ign)" "keeps_cluster (waitForSTSPodsServerReady api st ign)"
  unfolding waitForSTSToBeReady_def waitForSTSPodsServerReady_def Let_def by (intro trace_rules)+

lemma yields_pod_read:
  "yields c (wrap_err g (issue (CGetPod n) (ApiGetPod api n))) (\<lambda>pod. \<exists>w w'. ApiGetPod api n w = (Inr pod, w'))"
  by (rule yields_wrap_err [OF yields_issue]) blast

lemma yields_wait:
  "yields c (wait_pod_ready api n k) (\<lambda>_. pod_seen api IsPodRunningAndReady n)"
  "yields c (wait_server_ready api n k) (\<lambda>_. pod_seen api IsAerospikeServerReady n)"
proof (induction k)
  case (Suc k)
  {
    case 1
    show ?case
      unfolding wait_pod_ready.simps
      by (rule yields_bind [OF _ yields_pod_read])
         (auto intro!: trace_rules yields_rest yields_basic Suc pod_seenI split: option.splits)
  next
    case 2
    show ?case
      unfolding wait_server_ready.simps
      by (rule yields_bind [OF _ yields_pod_read])
         (auto intro!: trace_rules yields_rest yields_basic Suc pod_seenI)
  }
qed (simp_all add: yields_basic)

text \<open>The pods of a StatefulSet, up to those that may be ignored.\<close>

definition sts_seen :: "'w api \<Rightarrow> (Pod \<Rightarrow> bool) \<Rightarrow> string list \<Rightarrow> StatefulSet \<Rightarrow> bool" where
  "sts_seen api P ign st \<longleftrightarrow>
     (\<forall>i\<in>{0..<StsReplicas st}. GetSTSPodName (StsName st) i \<in> set ign \<or> pod_seen api P (GetSTSPodName (StsName st) i))"

lemma sts_seenI:
  assumes "\<forall>i\<in>set (map int [0..<nat (StsReplicas st)]).
    GetSTSPodName (StsName st) i \<in> set ign \<or> pod_seen api P (GetSTSPodName (StsName st) i)"
  shows "sts_seen api P ign st"
  unfolding sts_seen_def
proof
  fix i assume "i \<in> {0..<StsReplicas st}"
  then have "i \<in> set (map int [0..<nat (StsReplicas st)])" by (auto intro!: image_eqI [of _ _ "nat i"])
  with assms show "GetSTSPodName (StsName st) i \<in> set ign \<or> pod_seen api P (GetSTSPodName (StsName st) i)" by blast
qed

lemma yields_pods_wait:
  assumes "\<And>n. yields c (wait n) (\<lambda>_. pod_seen api P n)" and "\<And>n. keeps_cluster (wait n)"
  shows "yields c (bind (each (\<lambda>i. if GetSTSPodName (StsName st) i \<in> set ign then ret ()
       else bind (wait_pod_appears api (GetSTSPodName (StsName st) i) 5) (\<lambda>_. wait (GetSTSPodName (StsName st) i)))
       (map int [0..<nat (StsReplicas st)])) m) (\<lambda>_. sts_seen api P ign st)"
  by (rule yields_first, rule yields_mono [OF yields_each [where P = "\<lambda>i. GetSTSPodName (StsName st) i \<in> set ign \<or>
        pod_seen api P (GetSTSPodName (StsName st) i)"]])
     (auto intro!: trace_rules assms(2) yields_basic yields_rest yields_mono [OF assms(1)] sts_seenI)

lemma yields_sts_wait:
  "yields c (waitForSTSToBeReady api st ign) (\<lambda>_. sts_seen api IsPodRunningAndReady ign st)"
  "yields c (waitForSTSPodsServerReady api st ign) (\<lambda>_. sts_seen api IsAerospikeServerReady ign st)"
  unfolding waitForSTSToBeReady_def waitForSTSPodsServerReady_def Let_def
  by (intro yields_pods_wait yields_wait keeps_waits)+


lemma keeps_get_sts [trace_rules]: "keeps_cluster (getSTS rapi state)"
  unfolding getSTS_def Let_def by (intro trace_rules)

lemma keeps_create_sts [trace_rules]:
  "keeps_cluster (createSTS rapi name state)" "keeps_cluster (createSTSConfigMap rapi name rack)"
  unfolding createSTS_def createSTSConfigMap_def
  by (auto intro!: trace_rules split: sum.splits get_error.splits)

lemma keeps_empty_rack [trace_rules]: "keeps_cluster (createEmptyRack rapi state)"
  unfolding createEmptyRack_def deleteSTS_def Let_def
  by (auto intro!: trace_rules split: sum.splits option.splits)

lemma keeps_sts_or_new [trace_rules]: "keeps_cluster (sts_or_new_rack api state)"
  unfolding sts_or_new_rack_def by (auto intro!: trace_rules split: sum.splits get_error.splits)

definition sts_read :: "'w api \<Rightarrow> AerospikeCluster \<Rightarrow> Rack \<Rightarrow> StatefulSet \<Rightarrow> bool" where
  "sts_read api c rack st \<longleftrightarrow> (\<exists>w w'. ApiGetSTS api (rack_sts_name c rack) w = (Inr st, w'))"

lemma yields_get_sts: "yields c (getSTS rapi state) (sts_read (RBase rapi) c (RsRack state))"
  unfolding getSTS_def Let_def by (intro yields_get yields_issue) (auto simp: sts_read_def)

lemma yields_new_rack: "yields c (createEmptyRack rapi state) (sts_read (RBase rapi) c (RsRack state))"
proof -
  have made: "yields c (createSTS rapi name state) (sts_read (RBase rapi) c (RsRack state))" for name
    unfolding createSTS_def by (intro yields_rest yields_wrap_err yields_get_sts trace_rules)
  have answer: "yields c (case r of Inr found \<Rightarrow> ret found | Inl (found, err) \<Rightarrow>
      bind (case found of None \<Rightarrow> ret () | Some st \<Rightarrow> bind (attempt (deleteSTS rapi st)) (\<lambda>_. ret ())) (\<lambda>_.
        fail (ReconcileError (''create StatefulSet for rack: '' @ err)))) (sts_read (RBase rapi) c (RsRack state))"
    if "\<forall>found. r = Inr found \<longrightarrow> sts_read (RBase rapi) c (RsRack state) found" for r
    using that by (auto intro!: yields_ret yields_rest yields_fail trace_rules split: sum.splits option.splits simp: deleteSTS_def)
  show ?thesis
    unfolding createEmptyRack_def Let_def
    by (rule yields_get, rule yields_rest [OF keeps_wrap_err [OF keeps_create_sts(2)]],
        rule yields_bind [OF keeps_attempt [OF keeps_create_sts(1)] yields_attempt [OF made] answer])
qed

lemma yields_sts_or_new: "yields c (sts_or_new_rack api state) (sts_read (pbase api) c (RsRack state))"
  unfolding sts_or_new_rack_def
  by (rule yields_bind [OF _ yields_attempt [OF yields_get_sts]])
     (auto intro!: trace_rules yields_ret yields_fail yields_mono [OF yields_new_rack] split: sum.splits get_error.splits)

text \<open>A rack whose pods were all seen ready, or its servers where failures of sidecars are ignored.\<close>

definition rack_seen_ready :: "'w api \<Rightarrow> AerospikeCluster \<Rightarrow> string list \<Rightarrow> Rack \<Rightarrow> bool" where
  "rack_seen_ready api c ign rack \<longleftrightarrow> (\<exists>st. sts_read api c rack st \<and>
     sts_seen api (if ignore_sidecar c \<and> \<not> IsStatusEmpty c then IsAerospikeServerReady else IsPodRunningAndReady) ign st)"

lemma keeps_rack_ready: "keeps_cluster (rack_ready api ign state)"
  unfolding rack_ready_def by (intro trace_rules)

lemma yields_rack_ready: "yields c (rack_ready api ign state) (\<lambda>_. rack_seen_ready (pbase api) c ign (RsRack state))"
proof -
  have "yields c (bind get_cluster (\<lambda>c. bind (wrap_err (\<lambda>e. case e of ErrStatefulSetNotReady _ \<Rightarrow> ReconcileRequeueAfter 1 | ErrWait err \<Rightarrow> ReconcileError err)
             (if ignore_sidecar c \<and> \<not> IsStatusEmpty c then waitForSTSPodsServerReady (pbase api) found ign
              else waitForSTSToBeReady (pbase api) found ign)) (\<lambda>_. ret ())))
      (\<lambda>_. rack_seen_ready (pbase api) c ign (RsRack state))"
    if "sts_read (pbase api) c (RsRack state) found" for found
    by (intro yields_get yields_first yields_wrap_err)
       (use that in \<open>auto simp: rack_seen_ready_def intro!: yields_mono [OF yields_sts_wait(1)] yields_mono [OF yields_sts_wait(2)]\<close>)
  then show ?thesis
    unfolding rack_ready_def by (rule yields_bind [OF keeps_sts_or_new yields_sts_or_new])
qed

lemma racks_ready:
  assumes "waitForAllRacksReady api states ign s = (Ok (), s', t)"
  shows "\<forall>state\<in>set states. rack_seen_ready (pbase api) (CtCluster s') ign (RsRack state)"
proof -
  have ready: "yields (CtCluster s) (waitForAllRacksReady api states ign) (\<lambda>_. \<forall>state\<in>set states. rack_seen_ready (pbase api) (CtCluster s) ign (RsRack state))"
    unfolding waitForAllRacksReady_def by (intro yields_each keeps_rack_ready yields_rack_ready)
  have keeps: "keeps_cluster (waitForAllRacksReady api states ign)"
    unfolding waitForAllRacksReady_def by (intro keeps_each keeps_rack_ready)
  show ?thesis using yieldsD [OF ready assms] keeps_clusterD [OF keeps assms] by simp
qed


lemma read_racks_of:
  assumes "read_racks api s = (Ok (configured, changed, gone), s', t)"
  shows "getConfiguredRackStateList (ClusterSpec (CtCluster s)) = Ok configured \<and>
    (\<exists>l1 l2. categoriseRacks (CtCluster s) (Ok l1) (Ok l2) = Ok (configured, changed, gone)) \<and> CtCluster s' = CtCluster s"
proof -
  have keeps: "keeps_cluster (read_racks api)" unfolding read_racks_def by (intro trace_rules)
  have "yields (CtCluster s) (read_racks api) (\<lambda>r. \<exists>l1 l2. categoriseRacks (CtCluster s) (Ok l1) (Ok l2) = Ok r)"
    unfolding read_racks_def
    by (intro yields_wrap_err yields_get yields_rest yields_from_res trace_rules) blast
  from yieldsD [OF this assms] keeps_clusterD [OF keeps assms] show ?thesis
    by (auto simp: categoriseRacks_def res_simps)
qed

lemma read_ignorable_of:
  assumes "read_ignorable api gone configured s = (Ok ign, s', t)"
  shows "\<exists>w. getIgnorablePods (RScaled (prack api)) (PRackPods api w) (PRevisionPods api w)
    (SpecMaxIgnorablePods (ClusterSpec (CtCluster s))) gone configured = Ok ign"
  using assms by (auto simp: read_ignorable_def bind_def get_cluster_def read_world_def from_res_def res_map_err_Ok_iff)

lemma settle_ends: "ends_with (settle_racks api configured changed gone ign) (waitForAllRacksReady api configured ign)"
  unfolding settle_racks_def Let_def
  by (auto intro!: ends_with_bind ends_with_self simp: case_prod_beta)

lemma no_parked_left:
  assumes "reconcileCheckpointingPods api states s = (Ok u, s', t)"
  shows "\<exists>w w' pods. ApiListPods (pbase api) w = (Inr pods, w') \<and> parked_pods states pods = []"
proof -
  have listed: "yields c (wrap_err ReconcileError (getClusterPodList (pbase api))) (\<lambda>pods. \<exists>w w'. ApiListPods (pbase api) w = (Inr pods, w'))" for c
    unfolding getClusterPodList_def by (intro yields_wrap_err yields_issue) blast
  have keeps: "keeps_cluster (wrap_err ReconcileError (getClusterPodList (pbase api)))"
    unfolding getClusterPodList_def by (intro trace_rules)
  have "yields (CtCluster s) (reconcileCheckpointingPods api states)
      (\<lambda>_. \<exists>w w' pods. ApiListPods (pbase api) w = (Inr pods, w') \<and> parked_pods states pods = [])"
    unfolding reconcileCheckpointingPods_def Let_def
    by (rule yields_bind [OF keeps listed]) (auto intro!: yields_ret yields_last yields_fail)
  from yieldsD [OF this assms] show ?thesis .
qed



text \<open>A cluster of one rack with two pods on which a pass has nothing left to do.\<close>

definition pass_quiet :: "(nat, unit, unit) pass_api" where
  "pass_quiet = pass_example\<lparr>POps := ops_example\<rparr>"

definition quiet_state :: "nat rst" where
  "quiet_state = info_state\<lparr>CtCluster := info_cluster\<lparr>ClusterSpec := (ClusterSpec info_cluster)\<lparr>SpecImage := ''as:8.0.0''\<rparr>\<rparr>\<rparr>"

lemma pass_quiet_run: "fst (reconcileRacks pass_quiet quiet_state) = Ok ()"
  by code_simp

lemma quiet_racks:
  "getConfiguredRackStateList (ClusterSpec (CtCluster quiet_state)) = Ok [\<lparr>RsRack = example_rack [example_ns ''a'' []], RsSize = 2\<rparr>]"
  by code_simp


section \<open>Quiescing before a scale-down\<close>

lemma runs_mark_pods:
  "runs (mark_pods api add pods) (\<lambda>r t. r = Ok () \<and> map fst t = map (\<lambda>pod. CQuiesceAnnotation (PodName pod) add) (filter (\<lambda>pod. is_quiesced pod \<noteq> add) pods))"
proof (induction pods)
  case Nil
  then show ?case by (simp add: mark_pods_def runs_ret)
next
  case (Cons pod pods)
  have "runs (bind (attempt (setPodQuiesceAnnotation api pod add)) (\<lambda>_. ret ()))
      (\<lambda>r t. r = Ok () \<and> map fst t = (if is_quiesced pod = add then [] else [CQuiesceAnnotation (PodName pod) add]))"
    by (auto simp: runs_def setPodQuiesceAnnotation_def bind_def attempt_def wrap_err_def issue_def ret_def split: prod.splits sum.splits)
  from this Cons show ?case
    unfolding mark_pods_def each.simps by (rule runs_bind) auto
qed


lemma quiesce_run: "fst (reconcileParallelScaleDownQuiesce pass_quiet [hd info_pods] [] quiet_state) = Ok ()"
  by code_simp


end
