(* ===== verification/Config_Validate.thy ===== *)
theory Config_Validate
  imports Config_Value
begin

text \<open>
  Validation of an Aerospike configuration (\<^verbatim>\<open>pkg/validation/validate.go\<close>): the checks of a new
  configuration and of an update, with the type assertions that may panic, against declarative
  predicates. The schema check of the management library and the DNS-name check of govalidator are
  parameters: \<open>schema version config\<close> is the reason a configuration is refused.
\<close>

section \<open>Library functions\<close>

text \<open>
  \<^verbatim>\<open>strings.Fields\<close>. The sources trim the string first, which does not change its fields.
\<close>

function fields_from :: "string \<Rightarrow> string \<Rightarrow> string list" where
  "fields_from word s =
     (if s = [] then (if word = [] then [] else [word])
      else if space_rune_len s = 0 then fields_from (word @ [hd s]) (tl s)
      else (if word = [] then [] else [word]) @ fields_from [] (drop (space_rune_len s) s))"
  by pat_completeness auto
termination
  by (relation "measure (\<lambda>(word, s). length s)") auto

declare fields_from.simps [simp del]

definition Fields :: "string \<Rightarrow> string list" where
  "Fields s = fields_from [] s"

text \<open>\<^verbatim>\<open>reflect.DeepEqual\<close> on configuration values: maps are compared as maps.\<close>

fun gval_DeepEqual :: "gval \<Rightarrow> gval \<Rightarrow> bool"
and list_DeepEqual :: "gval list \<Rightarrow> gval list \<Rightarrow> bool"
and entries_DeepEqual :: "gval gomap \<Rightarrow> gval gomap \<Rightarrow> bool" where
  "gval_DeepEqual (GList xs) v = (case v of GList ys \<Rightarrow> list_DeepEqual xs ys | _ \<Rightarrow> False)"
| "gval_DeepEqual (GMap m) v = (case v of GMap m' \<Rightarrow> length m = length m' \<and> entries_DeepEqual m m' | _ \<Rightarrow> False)"
| "gval_DeepEqual u v = (u = v)"
| "list_DeepEqual [] ys = (ys = [])"
| "list_DeepEqual (x # xs) ys = (case ys of [] \<Rightarrow> False | y # ys' \<Rightarrow> gval_DeepEqual x y \<and> list_DeepEqual xs ys')"
| "entries_DeepEqual [] m' = True"
| "entries_DeepEqual ((k, v) # m) m' =
     ((case gomap_get m' k of None \<Rightarrow> False | Some v' \<Rightarrow> gval_DeepEqual v v') \<and> entries_DeepEqual m m')"

text \<open>
  \<^verbatim>\<open>==\<close> on two interface values panics when both hold a list or both hold a map.
\<close>

definition iface_eq :: "gval \<Rightarrow> gval \<Rightarrow> ('e, bool) res" where
  "iface_eq u v =
     (case u of
        GList _ \<Rightarrow> (case v of GList _ \<Rightarrow> Panic | _ \<Rightarrow> Ok False)
      | GMap _ \<Rightarrow> (case v of GMap _ \<Rightarrow> Panic | _ \<Rightarrow> Ok False)
      | _ \<Rightarrow> Ok (u = v))"

definition has :: "'v gomap \<Rightarrow> string \<Rightarrow> bool" where
  "has m k \<longleftrightarrow> gomap_get m k \<noteq> None"

text \<open>\<^verbatim>\<open>s, _ := m[k].(string)\<close>\<close>

definition string_at :: "gval gomap \<Rightarrow> string \<Rightarrow> string" where
  "string_at m k = (case as_string (idx m k) of None \<Rightarrow> [] | Some s \<Rightarrow> s)"

section \<open>Errors\<close>

datatype config_error =
    ConfigEmpty
  | SchemaInvalid string
  | SectionNotMap string
  | AdvertiseIPv6
  | ClusterNameMissing
  | LoggingNotList
  | LoggingNotMap
  | SyslogParam string
  | NetworkServiceMissing
  | CaPathAndFile
  | CertWithoutKey
  | TLSClientInvalid
  | TLSClientNotDNS string
  | TLSNameWithoutPort string
  | TLSNameUnknown string
  | TLSParamWithoutName string string
  | XdrInvalid conf_error
  | XdrTLSName string
  | XdrConnector string string
  | XdrAuth string string
  | NamespaceMissing
  | NamespaceNil
  | NamespaceNotList
  | NamespaceListEmpty
  | NamespaceNotMap
  | NamespaceNameMissing
  | RFInvalid conf_error
  | RFAboveSize int int
  | MRTFields
  | StorageNil
  | StorageUnsupported
  | StorageMissing
  | EntriesNil string
  | EntriesNotList string
  | EntriesEmpty string
  | EntryNotString string
  | EntryTooLong string
  | EntryShared string string
  | MountsInvalid
  | UpdateNil
  | CAFileRemoved
  | CAFileChanged
  | NetworkStructure
  | TLSNameModified
  | PortModified string
  | ConfigurationRemoved
  | RFUpdatedForSC
  | SCUpdated

section \<open>Namespaces\<close>

definition ConfKeyReplicationFactor :: string where "ConfKeyReplicationFactor = ''replication-factor''"
definition ConfKeyIndexType :: string where "ConfKeyIndexType = ''index-type''"
definition ConfKeyMounts :: string where "ConfKeyMounts = ''mounts''"
definition ConfKeyType :: string where "ConfKeyType = ''type''"

definition IsInMemoryNamespace :: "gval gomap \<Rightarrow> ('e, bool) res" where
  "IsInMemoryNamespace namespaceConf =
     (case gomap_get namespaceConf ConfKeyStorageEngine of
        None \<Rightarrow> Ok False
      | Some storage \<Rightarrow>
          res_bind (must (as_map storage)) (\<lambda>storageConf.
            Ok (gomap_get storageConf ConfKeyType = Some (GString ''memory''))))"

definition IsDeviceOrPmemNamespace :: "gval gomap \<Rightarrow> ('e, bool) res" where
  "IsDeviceOrPmemNamespace namespaceConf =
     (case gomap_get namespaceConf ConfKeyStorageEngine of
        None \<Rightarrow> Ok False
      | Some storage \<Rightarrow>
          res_bind (must (as_map storage)) (\<lambda>storageConf.
            Ok (gomap_get storageConf ConfKeyType = Some (GString ''device'') \<or>
                gomap_get storageConf ConfKeyType = Some (GString ''pmem''))))"

definition IsShMemIndexTypeNamespace :: "gval gomap \<Rightarrow> bool" where
  "IsShMemIndexTypeNamespace namespaceConf =
     (case gomap_get namespaceConf ConfKeyIndexType of
        None \<Rightarrow> True
      | Some storage \<Rightarrow>
          (case as_map storage of
             None \<Rightarrow> False
           | Some storageConf \<Rightarrow> gomap_get storageConf ConfKeyType = Some (GString ''shmem'')))"

definition GetNamespaceReplicationFactor :: "gval gomap \<Rightarrow> (config_error, int) res" where
  "GetNamespaceReplicationFactor nsConf =
     res_map_err RFInvalid
       (GetIntType (case gomap_get nsConf ConfKeyReplicationFactor of None \<Rightarrow> GInt 2 | Some rf \<Rightarrow> rf))"

definition sc_enabled :: "gval gomap \<Rightarrow> ('e, bool) res" where
  "sc_enabled nsConf = (case IsNSSCEnabled nsConf of Ok b \<Rightarrow> Ok b | _ \<Rightarrow> Panic)"

definition validateNamespaceReplicationFactor :: "gval gomap \<Rightarrow> int \<Rightarrow> (config_error, unit) res" where
  "validateNamespaceReplicationFactor nsConf clSize =
     res_bind (GetNamespaceReplicationFactor nsConf) (\<lambda>rf.
     res_bind (sc_enabled nsConf) (\<lambda>scEnabled.
       if scEnabled \<and> clSize < rf then Err (RFAboveSize rf clSize) else Ok ()))"

definition isMRTFieldSet :: "gval gomap \<Rightarrow> bool" where
  "isMRTFieldSet nsConf \<longleftrightarrow> has nsConf ''mrt-duration'' \<or> has nsConf ''disable-mrt-writes''"

definition validateMRTFields :: "gval gomap \<Rightarrow> (config_error, unit) res" where
  "validateMRTFields nsConf =
     res_bind (sc_enabled nsConf) (\<lambda>scEnabled.
       if \<not> scEnabled \<and> isMRTFieldSet nsConf then Err MRTFields else Ok ())"

text \<open>The devices, or the files, of a storage engine.\<close>

definition validate_entry :: "string \<Rightarrow> gval \<Rightarrow> (config_error, unit) res" where
  "validate_entry kind v =
     (case as_string v of
        None \<Rightarrow> Err (EntryNotString kind)
      | Some s \<Rightarrow> if 2 < length (Fields s) then Err (EntryTooLong s) else Ok ())"

definition validate_entries :: "string \<Rightarrow> gval gomap \<Rightarrow> (config_error, unit) res" where
  "validate_entries kind nsStorage =
     (case gomap_get nsStorage kind of
        None \<Rightarrow> Ok ()
      | Some v \<Rightarrow>
          if v = GNil then Err (EntriesNil kind)
          else
            (case as_list v of
               None \<Rightarrow> Err (EntriesNotList kind)
             | Some vs \<Rightarrow> if vs = [] then Err (EntriesEmpty kind) else for_each (validate_entry kind) vs))"

definition validate_namespace :: "int \<Rightarrow> gval \<Rightarrow> (config_error, unit) res" where
  "validate_namespace clSize v =
     (case as_map v of
        None \<Rightarrow> Err NamespaceNotMap
      | Some nsConf \<Rightarrow>
          if \<not> has nsConf ConfKeyName then Err NamespaceNameMissing
          else
            res_bind (validateNamespaceReplicationFactor nsConf clSize) (\<lambda>_.
            res_bind (validateMRTFields nsConf) (\<lambda>_.
              case gomap_get nsConf ConfKeyStorageEngine of
                None \<Rightarrow> Err StorageMissing
              | Some storage \<Rightarrow>
                  if storage = GNil then Err StorageNil
                  else
                    res_bind (IsInMemoryNamespace nsConf) (\<lambda>inMemory.
                    res_bind (if inMemory then Ok True else IsDeviceOrPmemNamespace nsConf) (\<lambda>supported.
                      if \<not> supported then Err StorageUnsupported
                      else
                        res_bind (must (as_map storage)) (\<lambda>nsStorage.
                        res_bind (validate_entries ''devices'' nsStorage) (\<lambda>_.
                          validate_entries ''files'' nsStorage)))))))"

text \<open>The owner of every device or file.\<close>

fun entry_owners :: "string \<Rightarrow> string \<Rightarrow> gval list \<Rightarrow> string gomap \<Rightarrow> (config_error, string gomap) res" where
  "entry_owners kind namespace [] owners = Ok owners"
| "entry_owners kind namespace (d # ds) owners =
     (case as_string d of
        None \<Rightarrow> Err (EntryNotString kind)
      | Some entry \<Rightarrow>
          if has owners entry then Err (EntryShared entry namespace)
          else entry_owners kind namespace ds (gomap_put entry namespace owners))"

definition entries_of :: "string \<Rightarrow> gval gomap \<Rightarrow> (config_error, gval list) res" where
  "entries_of kind storage =
     (case gomap_get storage kind of
        None \<Rightarrow> Ok []
      | Some v \<Rightarrow> (case as_list v of None \<Rightarrow> Err (EntriesNotList kind) | Some vs \<Rightarrow> Ok vs))"

fun device_list_loop ::
  "gval list \<Rightarrow> string gomap \<Rightarrow> string gomap \<Rightarrow> (config_error, string gomap \<times> string gomap) res" where
  "device_list_loop [] deviceList fileList = Ok (deviceList, fileList)"
| "device_list_loop (v # vs) deviceList fileList =
     res_bind (must (as_map v)) (\<lambda>nsConf.
     res_bind (must (as_string (idx nsConf ConfKeyName))) (\<lambda>namespace.
     res_bind (must (as_map (idx nsConf ConfKeyStorageEngine))) (\<lambda>storage.
     res_bind (res_bind (entries_of ''devices'' storage) (\<lambda>ds. entry_owners ''devices'' namespace ds deviceList))
       (\<lambda>deviceList'.
     res_bind (res_bind (entries_of ''files'' storage) (\<lambda>fs. entry_owners ''files'' namespace fs fileList))
       (\<lambda>fileList'. device_list_loop vs deviceList' fileList')))))"

definition ValidateStorageEngineDeviceList ::
  "gval list \<Rightarrow> (config_error, string gomap \<times> string gomap) res" where
  "ValidateStorageEngineDeviceList nsConfList = device_list_loop nsConfList [] []"

definition validate_index_type :: "gval \<Rightarrow> (config_error, unit) res" where
  "validate_index_type v =
     (case as_map v of
        None \<Rightarrow> Err NamespaceNotMap
      | Some nsConf \<Rightarrow>
          if IsShMemIndexTypeNamespace nsConf then Ok ()
          else
            (case gomap_get nsConf ConfKeyIndexType of
               None \<Rightarrow> Ok ()
             | Some indexStorage \<Rightarrow>
                 res_bind (must (as_map indexStorage)) (\<lambda>nsIndexStorage.
                   case gomap_get nsIndexStorage ConfKeyMounts of
                     None \<Rightarrow> Ok ()
                   | Some mounts \<Rightarrow>
                       (case as_list mounts of
                          None \<Rightarrow> Err MountsInvalid
                        | Some ms \<Rightarrow>
                            if ms = [] \<or> list_ex (\<lambda>m. as_string m = None) ms then Err MountsInvalid
                            else Ok ()))))"

definition validation_validateNamespaceConfig :: "gval list \<Rightarrow> int \<Rightarrow> (config_error, unit) res" where
  "validation_validateNamespaceConfig nsConfInterfaceList clSize =
     (if nsConfInterfaceList = [] then Err NamespaceListEmpty
      else
        res_bind (for_each (validate_namespace clSize) nsConfInterfaceList) (\<lambda>_.
        res_bind (ValidateStorageEngineDeviceList nsConfInterfaceList) (\<lambda>_.
          for_each validate_index_type nsConfInterfaceList)))"

section \<open>Network\<close>

definition networkConnectionTypes :: "string list" where
  "networkConnectionTypes = [ConfKeyNetworkService, ConfKeyNetworkHeartbeat, ConfKeyNetworkFabric, ConfKeyNetworkAdmin]"

fun dns_names :: "(string \<Rightarrow> bool) \<Rightarrow> gval list \<Rightarrow> (config_error, string list) res" where
  "dns_names IsDNSName [] = Ok []"
| "dns_names IsDNSName (v # vs) =
     (case as_string v of
        None \<Rightarrow> Err TLSClientInvalid
      | Some dnsName \<Rightarrow>
          if \<not> IsDNSName dnsName then Err (TLSClientNotDNS dnsName)
          else res_bind (dns_names IsDNSName vs) (\<lambda>names. Ok (dnsName # names)))"

definition ValidateTLSAuthenticateClient ::
  "(string \<Rightarrow> bool) \<Rightarrow> gval gomap \<Rightarrow> (config_error, string list) res" where
  "ValidateTLSAuthenticateClient IsDNSName serviceConf =
     (case gomap_get serviceConf ''tls-authenticate-client'' of
        None \<Rightarrow> Ok []
      | Some (GString v) \<Rightarrow> if v = ''any'' \<or> v = ''false'' then Ok [] else Err TLSClientInvalid
      | Some (GBool b) \<Rightarrow> if b then Err TLSClientInvalid else Ok []
      | Some (GList vs) \<Rightarrow> dns_names IsDNSName vs
      | Some _ \<Rightarrow> Err TLSClientInvalid)"

definition validateNetworkConnection :: "gval gomap \<Rightarrow> string list \<Rightarrow> string \<Rightarrow> (config_error, unit) res" where
  "validateNetworkConnection networkConf tlsNames connectionType =
     (case gomap_get networkConf connectionType of
        None \<Rightarrow> Ok ()
      | Some connectionConfig \<Rightarrow>
          res_bind (must (as_map connectionConfig)) (\<lambda>conn.
            case gomap_get conn ConfKeyTLSName of
              Some v \<Rightarrow>
                if \<not> has conn ''tls-port'' then Err (TLSNameWithoutPort connectionType)
                else
                  res_bind (must (as_string v)) (\<lambda>tlsName.
                    if tlsName \<notin> set tlsNames then Err (TLSNameUnknown tlsName) else Ok ())
            | None \<Rightarrow>
                (case find (\<lambda>param. HasPrefix param ''tls-'') (gomap_keys conn) of
                   Some param \<Rightarrow> Err (TLSParamWithoutName param connectionType)
                 | None \<Rightarrow> Ok ())))"

definition validate_tls :: "gval \<Rightarrow> (config_error, unit) res" where
  "validate_tls v =
     res_bind (must (as_map v)) (\<lambda>tlsConf.
       if has tlsConf ''ca-path'' \<and> has tlsConf ''ca-file'' then Err CaPathAndFile
       else if has tlsConf ''cert-file'' \<noteq> has tlsConf ''key-file'' then Err CertWithoutKey
       else Ok ())"

definition validation_validateNetworkConfig :: "(string \<Rightarrow> bool) \<Rightarrow> gval gomap \<Rightarrow> (config_error, unit) res" where
  "validation_validateNetworkConfig IsDNSName networkConf =
     (case gomap_get networkConf ConfKeyNetworkService of
        None \<Rightarrow> Err NetworkServiceMissing
      | Some serviceConf \<Rightarrow>
          let tlsNames = GetNetworkTLSNames networkConf in
          res_bind (case gomap_get networkConf ConfKeyNetworkTLS of
                      None \<Rightarrow> Ok ()
                    | Some tls \<Rightarrow> res_bind (must (as_list tls)) (for_each validate_tls)) (\<lambda>_.
          res_bind (must (as_map serviceConf)) (\<lambda>service.
          res_bind (ValidateTLSAuthenticateClient IsDNSName service) (\<lambda>_.
            for_each (validateNetworkConnection networkConf tlsNames) networkConnectionTypes))))"

section \<open>XDR\<close>

definition ConfKeyXdrConnector :: string where "ConfKeyXdrConnector = ''connector''"
definition ConfKeyXdrAuthMode :: string where "ConfKeyXdrAuthMode = ''auth-mode''"
definition ConfKeyXdrAuthUser :: string where "ConfKeyXdrAuthUser = ''auth-user''"
definition ConfKeyXdrAuthPasswordFile :: string where "ConfKeyXdrAuthPasswordFile = ''auth-password-file''"
definition XdrAuthModeNone :: string where "XdrAuthModeNone = ''none''"
definition XdrAuthModeInternal :: string where "XdrAuthModeInternal = ''internal''"
definition XdrAuthModeExternal :: string where "XdrAuthModeExternal = ''external''"
definition XdrAuthModeExternalInsecure :: string where "XdrAuthModeExternalInsecure = ''external-insecure''"
definition XdrAuthModePKI :: string where "XdrAuthModePKI = ''pki''"

definition validateXDRDCTLSName :: "gval gomap \<Rightarrow> string list \<Rightarrow> (config_error, bool) res" where
  "validateXDRDCTLSName dcConf tlsNames =
     (let tlsName = string_at dcConf ConfKeyTLSName;
          tlsNameSet = (has dcConf ConfKeyTLSName \<and> tlsName \<noteq> [])
      in if tlsNameSet \<and> tlsName \<notin> set tlsNames then Err (XdrTLSName tlsName) else Ok tlsNameSet)"

definition validateXDRDCConnector :: "gval gomap \<Rightarrow> string \<Rightarrow> (config_error, unit) res" where
  "validateXDRDCConnector dcConf dcName =
     (if as_bool (idx dcConf ConfKeyXdrConnector) \<noteq> Some True then Ok ()
      else if has dcConf ConfKeyXdrAuthMode \<and> string_at dcConf ConfKeyXdrAuthMode \<noteq> XdrAuthModeNone
      then Err (XdrConnector dcName ConfKeyXdrAuthMode)
      else if string_at dcConf ConfKeyXdrAuthPasswordFile \<noteq> [] then Err (XdrConnector dcName ConfKeyXdrAuthPasswordFile)
      else if string_at dcConf ConfKeyXdrAuthUser \<noteq> [] then Err (XdrConnector dcName ConfKeyXdrAuthUser)
      else Ok ())"

text \<open>The switch over the authentication mode.\<close>

definition validate_auth_mode ::
  "string \<Rightarrow> string \<Rightarrow> string \<Rightarrow> string \<Rightarrow> bool \<Rightarrow> (config_error, unit) res" where
  "validate_auth_mode dcName authMode authUser authPasswordFile tlsNameSet =
     (if authMode = XdrAuthModeNone then
        (if authUser \<noteq> [] then Err (XdrAuth dcName ConfKeyXdrAuthMode) else Ok ())
      else if authMode \<in> {XdrAuthModeInternal, XdrAuthModeExternal, XdrAuthModeExternalInsecure} then
        (if authUser = [] then Err (XdrAuth dcName ConfKeyXdrAuthUser)
         else if authMode = XdrAuthModeExternal \<and> \<not> tlsNameSet then Err (XdrAuth dcName ConfKeyTLSName)
         else Ok ())
      else if authMode = XdrAuthModePKI then
        (if authUser \<noteq> [] then Err (XdrAuth dcName ConfKeyXdrAuthUser)
         else if authPasswordFile \<noteq> [] then Err (XdrAuth dcName ConfKeyXdrAuthPasswordFile)
         else if \<not> tlsNameSet then Err (XdrAuth dcName ConfKeyTLSName)
         else Ok ())
      else Ok ())"

definition validateXDRDCAuth :: "gval gomap \<Rightarrow> string \<Rightarrow> bool \<Rightarrow> (config_error, unit) res" where
  "validateXDRDCAuth dcConf dcName tlsNameSet =
     (let authPasswordFile = string_at dcConf ConfKeyXdrAuthPasswordFile;
          authUser = string_at dcConf ConfKeyXdrAuthUser;
          authMode = string_at dcConf ConfKeyXdrAuthMode
      in if authUser \<noteq> [] \<and> authMode = [] then Err (XdrAuth dcName ConfKeyXdrAuthMode)
         else
           res_bind (validate_auth_mode dcName authMode authUser authPasswordFile tlsNameSet) (\<lambda>_.
             if authUser \<noteq> [] \<and> authPasswordFile = [] then Err (XdrAuth dcName ConfKeyXdrAuthPasswordFile)
             else if authUser = [] \<and> authPasswordFile \<noteq> [] then Err (XdrAuth dcName ConfKeyXdrAuthUser)
             else Ok ()))"

definition validateXDRDC :: "string list \<Rightarrow> gval gomap \<Rightarrow> (config_error, unit) res" where
  "validateXDRDC tlsNames dcConf =
     (let dcName = string_at dcConf ConfKeyName in
      res_bind (validateXDRDCTLSName dcConf tlsNames) (\<lambda>tlsNameSet.
      res_bind (validateXDRDCConnector dcConf dcName) (\<lambda>_.
        validateXDRDCAuth dcConf dcName tlsNameSet)))"

definition validateXDRConfig :: "gval gomap \<Rightarrow> (config_error, unit) res" where
  "validateXDRConfig config =
     res_bind (res_map_err XdrInvalid (GetXDRDCs \<lparr>Value = Some config\<rparr>)) (\<lambda>dcs.
       let networkConf = (case as_map (idx config ConfKeyNetwork) of None \<Rightarrow> [] | Some m \<Rightarrow> m)
       in for_each (validateXDRDC (GetNetworkTLSNames networkConf)) dcs)"

section \<open>Logging\<close>

definition syslogParams :: "string list" where
  "syslogParams = [''facility'', ''path'', ''tag'']"

definition validate_log :: "gval \<Rightarrow> (config_error, unit) res" where
  "validate_log v =
     (case as_map v of
        None \<Rightarrow> Err LoggingNotMap
      | Some logConf \<Rightarrow>
          if idx logConf ''name'' = GString ''syslog'' then Ok ()
          else (case find (has logConf) syslogParams of Some param \<Rightarrow> Err (SyslogParam param) | None \<Rightarrow> Ok ()))"

definition validateLoggingConf :: "gval list \<Rightarrow> (config_error, unit) res" where
  "validateLoggingConf loggingConfList = for_each validate_log loggingConfList"

section \<open>A configuration\<close>

definition ValidateAerospikeConfigSchema ::
  "(string \<Rightarrow> gval gomap \<Rightarrow> string option) \<Rightarrow> string \<Rightarrow> gval gomap option \<Rightarrow> (config_error, unit) res" where
  "ValidateAerospikeConfigSchema schema version config =
     (case config of
        None \<Rightarrow> Err (SchemaInvalid ''config is nil'')
      | Some c \<Rightarrow> (case schema version c of Some reason \<Rightarrow> Err (SchemaInvalid reason) | None \<Rightarrow> Ok ()))"

definition ValidateAerospikeConfig ::
  "(string \<Rightarrow> gval gomap \<Rightarrow> string option) \<Rightarrow> (string \<Rightarrow> bool) \<Rightarrow> string \<Rightarrow> gval gomap option \<Rightarrow> int \<Rightarrow>
   (config_error, unit) res" where
  "ValidateAerospikeConfig schema IsDNSName version conf clSize =
     (case conf of
        None \<Rightarrow> Err ConfigEmpty
      | Some config \<Rightarrow>
          res_bind (ValidateAerospikeConfigSchema schema version conf) (\<lambda>_.
            case as_map (idx config ConfKeyService) of
              None \<Rightarrow> Err (SectionNotMap ConfKeyService)
            | Some serviceConf \<Rightarrow>
                res_bind (case gomap_get serviceConf ''advertise-ipv6'' of
                            None \<Rightarrow> Ok False | Some v \<Rightarrow> must (as_bool v)) (\<lambda>ipv6.
                  if ipv6 then Err AdvertiseIPv6
                  else if \<not> has serviceConf ''cluster-name'' then Err ClusterNameMissing
                  else
                    (case as_map (idx config ConfKeyNetwork) of
                       None \<Rightarrow> Err (SectionNotMap ConfKeyNetwork)
                     | Some networkConf \<Rightarrow>
                         res_bind (validation_validateNetworkConfig IsDNSName networkConf) (\<lambda>_.
                         res_bind (validateXDRConfig config) (\<lambda>_.
                         res_bind (case gomap_get config ConfKeyNamespace of
                                     None \<Rightarrow> Err NamespaceMissing
                                   | Some nsListInterface \<Rightarrow>
                                       if nsListInterface = GNil then Err NamespaceNil
                                       else
                                         (case as_list nsListInterface of
                                            None \<Rightarrow> Err NamespaceNotList
                                          | Some nsList \<Rightarrow> validation_validateNamespaceConfig nsList clSize)) (\<lambda>_.
                           case as_list (idx config ''logging'') of
                             None \<Rightarrow> Err LoggingNotList
                           | Some loggingConfList \<Rightarrow> validateLoggingConf loggingConfList)))))))"

section \<open>Updates\<close>

definition isValueUpdated :: "gval gomap \<Rightarrow> gval gomap \<Rightarrow> string \<Rightarrow> bool" where
  "isValueUpdated m1 m2 key =
     (if has m1 key \<noteq> has m2 key then True else \<not> gval_DeepEqual (idx m1 key) (idx m2 key))"

text \<open>The names of the TLS configurations the connections of a network section use.\<close>

fun used_tls :: "gval gomap \<Rightarrow> string list \<Rightarrow> ('e, string list) res" where
  "used_tls network [] = Ok []"
| "used_tls network (connectionType # types) =
     res_bind
       (case gomap_get network connectionType of
          None \<Rightarrow> Ok []
        | Some connectionConfig \<Rightarrow>
            res_bind (must (as_map connectionConfig)) (\<lambda>conn.
              case gomap_get conn ConfKeyTLSName of
                None \<Rightarrow> Ok []
              | Some v \<Rightarrow> res_bind (must (as_string v)) (\<lambda>name. Ok [name])))
       (\<lambda>names. res_bind (used_tls network types) (\<lambda>rest. Ok (names @ rest)))"

definition put_string :: "gval gomap \<Rightarrow> string \<Rightarrow> string \<Rightarrow> string gomap \<Rightarrow> ('e, string gomap) res" where
  "put_string tls key name m =
     (case gomap_get tls key of
        None \<Rightarrow> Ok m
      | Some v \<Rightarrow> res_bind (must (as_string v)) (\<lambda>s. Ok (gomap_put name s m)))"

fun old_ca_maps ::
  "string list \<Rightarrow> gval list \<Rightarrow> string gomap \<Rightarrow> string gomap \<Rightarrow> ('e, string gomap \<times> string gomap) res" where
  "old_ca_maps oldUsedTLS [] caFiles caPaths = Ok (caFiles, caPaths)"
| "old_ca_maps oldUsedTLS (tls # rest) caFiles caPaths =
     res_bind (must (as_map tls)) (\<lambda>tlsMap.
     res_bind (must (as_string (idx tlsMap ConfKeyName))) (\<lambda>name.
       if name \<notin> set oldUsedTLS then old_ca_maps oldUsedTLS rest caFiles caPaths
       else
         res_bind (put_string tlsMap ''ca-file'' name caFiles) (\<lambda>caFiles'.
         res_bind (put_string tlsMap ''ca-path'' name caPaths) (\<lambda>caPaths'.
           old_ca_maps oldUsedTLS rest caFiles' caPaths'))))"

definition validate_new_tls ::
  "string list \<Rightarrow> string gomap \<Rightarrow> string gomap \<Rightarrow> gval \<Rightarrow> (config_error, unit) res" where
  "validate_new_tls newUsedTLS caFiles caPaths tls =
     res_bind (must (as_map tls)) (\<lambda>tlsMap.
     res_bind (must (as_string (idx tlsMap ConfKeyName))) (\<lambda>name.
       if name \<notin> set newUsedTLS then Ok ()
       else if (has caFiles name \<or> has caPaths name) \<and> \<not> has tlsMap ''ca-path'' \<and> \<not> has tlsMap ''ca-file''
       then Err CAFileRemoved
       else
         (case gomap_get caFiles name of
            None \<Rightarrow> Ok ()
          | Some oldCAFile \<Rightarrow>
              (case gomap_get tlsMap ''ca-file'' of
                 None \<Rightarrow> Ok ()
               | Some v \<Rightarrow> res_bind (must (as_string v)) (\<lambda>newCAFile.
                   if newCAFile \<noteq> oldCAFile then Err CAFileChanged else Ok ())))))"

definition validateTLSUpdate :: "gval gomap option \<Rightarrow> gval gomap option \<Rightarrow> (config_error, unit) res" where
  "validateTLSUpdate oldConf newConf =
     (case (oldConf, newConf) of
        (Some old, Some new) \<Rightarrow>
          res_bind (must (as_map (idx old ConfKeyNetwork))) (\<lambda>oldNetwork.
          res_bind (must (as_map (idx new ConfKeyNetwork))) (\<lambda>newNetwork.
            case (gomap_get oldNetwork ConfKeyNetworkTLS, gomap_get newNetwork ConfKeyNetworkTLS) of
              (Some oldTLS, Some newTLS) \<Rightarrow>
                if gval_DeepEqual oldTLS newTLS then Ok ()
                else
                  res_bind (used_tls newNetwork networkConnectionTypes) (\<lambda>newUsedTLS.
                  res_bind (used_tls oldNetwork networkConnectionTypes) (\<lambda>oldUsedTLS.
                  res_bind (must (as_list oldTLS)) (\<lambda>oldList.
                  res_bind (old_ca_maps oldUsedTLS oldList [] []) (\<lambda>(caFiles, caPaths).
                  res_bind (must (as_list newTLS)) (for_each (validate_new_tls newUsedTLS caFiles caPaths))))))
            | _ \<Rightarrow> Ok ()))
      | _ \<Rightarrow> Err UpdateNil)"

definition validateNetworkPortUpdate :: "gval gomap \<Rightarrow> gval gomap \<Rightarrow> string \<Rightarrow> (config_error, unit) res" where
  "validateNetworkPortUpdate old new port =
     (let tlsPort = ''tls-'' @ port in
      if has old port \<and> has new port \<and> \<not> gval_DeepEqual (idx old port) (idx new port) then Err (PortModified port)
      else if has old tlsPort \<and> has new tlsPort \<and> \<not> gval_DeepEqual (idx old tlsPort) (idx new tlsPort)
      then Err (PortModified tlsPort)
      else if (\<not> has new tlsPort \<and> has old tlsPort \<or> \<not> has new port \<and> has old port) \<and>
              (\<not> has old port \<or> \<not> has old tlsPort)
      then Err ConfigurationRemoved
      else Ok ())"

definition networkPorts :: "string list" where
  "networkPorts = [''port'', ''access-port'', ''alternate-access-port'']"

definition validateNetworkConnectionUpdate ::
  "gval gomap \<Rightarrow> gval gomap \<Rightarrow> string \<Rightarrow> (config_error, unit) res" where
  "validateNetworkConnectionUpdate oldConf newConf connectionType =
     (case (as_map (idx oldConf ConfKeyNetwork), as_map (idx newConf ConfKeyNetwork)) of
        (Some oldNetwork, Some newNetwork) \<Rightarrow>
          (case (as_map (idx oldNetwork connectionType), as_map (idx newNetwork connectionType)) of
             (Some old, Some new) \<Rightarrow>
               if has old ConfKeyTLSName \<and> has new ConfKeyTLSName \<and>
                  \<not> gval_DeepEqual (idx old ConfKeyTLSName) (idx new ConfKeyTLSName)
               then Err TLSNameModified
               else for_each (validateNetworkPortUpdate old new) networkPorts
           | _ \<Rightarrow> Ok ())
      | _ \<Rightarrow> Err NetworkStructure)"

definition validate_namespace_pair :: "gval gomap \<Rightarrow> gval \<Rightarrow> (config_error, unit) res" where
  "validate_namespace_pair single v =
     (case as_map v of
        None \<Rightarrow> Err NamespaceNotMap
      | Some oldSingle \<Rightarrow>
          res_bind (iface_eq (idx single ConfKeyName) (idx oldSingle ConfKeyName)) (\<lambda>same.
            if \<not> same then Ok ()
            else
              res_bind (if isValueUpdated oldSingle single ConfKeyReplicationFactor then sc_enabled single else Ok False)
                (\<lambda>refused.
                  if refused then Err RFUpdatedForSC
                  else if isValueUpdated oldSingle single ConfKeyStrongConsistency then Err SCUpdated
                  else Ok ())))"

definition validateNsConfUpdate :: "gval gomap \<Rightarrow> gval gomap \<Rightarrow> (config_error, unit) res" where
  "validateNsConfUpdate oldConf newConf =
     res_bind (must (as_list (idx newConf ConfKeyNamespace))) (\<lambda>newNsConfList.
     res_bind (must (as_list (idx oldConf ConfKeyNamespace))) (\<lambda>oldNsConfList.
       for_each (\<lambda>v. case as_map v of
                       None \<Rightarrow> Err NamespaceNotMap
                     | Some single \<Rightarrow> for_each (validate_namespace_pair single) oldNsConfList) newNsConfList))"

definition ValidateAerospikeConfigUpdateWithoutSchema ::
  "gval gomap option \<Rightarrow> gval gomap option \<Rightarrow> (config_error, unit) res" where
  "ValidateAerospikeConfigUpdateWithoutSchema oldConfig newConfig =
     res_bind (validateTLSUpdate oldConfig newConfig) (\<lambda>_.
       case (oldConfig, newConfig) of
         (Some oldConf, Some newConf) \<Rightarrow>
           res_bind (for_each (validateNetworkConnectionUpdate oldConf newConf) networkConnectionTypes) (\<lambda>_.
             validateNsConfUpdate oldConf newConf)
       | _ \<Rightarrow> Err UpdateNil)"

definition ValidateAerospikeConfigUpdate ::
  "(string \<Rightarrow> gval gomap \<Rightarrow> string option) \<Rightarrow> (string \<Rightarrow> bool) \<Rightarrow> string \<Rightarrow> gval gomap option \<Rightarrow> gval gomap option \<Rightarrow>
   int \<Rightarrow> (config_error, unit) res" where
  "ValidateAerospikeConfigUpdate schema IsDNSName version oldConfig newConfig clSize =
     res_bind (ValidateAerospikeConfig schema IsDNSName version newConfig clSize) (\<lambda>_.
       ValidateAerospikeConfigUpdateWithoutSchema oldConfig newConfig)"

section \<open>What an accepted configuration is\<close>

definition log_ok :: "gval \<Rightarrow> bool" where
  "log_ok v \<longleftrightarrow> (\<exists>m. v = GMap m \<and> (idx m ''name'' = GString ''syslog'' \<or> (\<forall>p\<in>set syslogParams. \<not> has m p)))"

definition tls_client_ok :: "(string \<Rightarrow> bool) \<Rightarrow> gval gomap \<Rightarrow> bool" where
  "tls_client_ok dns service \<longleftrightarrow>
     \<not> has service ''tls-authenticate-client'' \<or>
     idx service ''tls-authenticate-client'' \<in> {GString ''any'', GString ''false'', GBool False} \<or>
     (\<exists>names. idx service ''tls-authenticate-client'' = GList (map GString names) \<and> list_all dns names)"

definition tls_ok :: "gval \<Rightarrow> bool" where
  "tls_ok v \<longleftrightarrow> (\<exists>m. v = GMap m \<and> \<not> (has m ''ca-path'' \<and> has m ''ca-file'') \<and> (has m ''cert-file'' \<longleftrightarrow> has m ''key-file''))"

definition connection_ok :: "string list \<Rightarrow> gval gomap \<Rightarrow> string \<Rightarrow> bool" where
  "connection_ok tlsNames network kind \<longleftrightarrow>
     \<not> has network kind \<or>
     (\<exists>conn. idx network kind = GMap conn \<and>
        (if has conn ConfKeyTLSName
         then has conn ''tls-port'' \<and> idx conn ConfKeyTLSName \<in> GString ` set tlsNames
         else \<forall>param\<in>set (gomap_keys conn). \<not> HasPrefix param ''tls-''))"

definition network_ok :: "(string \<Rightarrow> bool) \<Rightarrow> gval gomap \<Rightarrow> bool" where
  "network_ok dns network \<longleftrightarrow>
     (\<exists>service. gomap_get network ConfKeyNetworkService = Some (GMap service) \<and> tls_client_ok dns service) \<and>
     (has network ConfKeyNetworkTLS \<longrightarrow> (\<exists>l. idx network ConfKeyNetworkTLS = GList l \<and> list_all tls_ok l)) \<and>
     list_all (connection_ok (GetNetworkTLSNames network) network) networkConnectionTypes"

text \<open>
  The credentials of a data centre: a user and a password file come together, under a mode that uses
  them; modes that need a user have one, and those that need TLS name it; a connector has none of it.
\<close>

definition dc_ok :: "string list \<Rightarrow> gval gomap \<Rightarrow> bool" where
  "dc_ok tlsNames dc \<longleftrightarrow>
     (let user = string_at dc ConfKeyXdrAuthUser; password = string_at dc ConfKeyXdrAuthPasswordFile;
          mode = string_at dc ConfKeyXdrAuthMode; tls = string_at dc ConfKeyTLSName
      in (tls \<noteq> [] \<longrightarrow> tls \<in> set tlsNames) \<and> (user = [] \<longleftrightarrow> password = []) \<and>
         (user \<noteq> [] \<longrightarrow> mode \<notin> {[], XdrAuthModeNone, XdrAuthModePKI}) \<and>
         (mode \<in> {XdrAuthModeInternal, XdrAuthModeExternal, XdrAuthModeExternalInsecure} \<longrightarrow> user \<noteq> []) \<and>
         (mode \<in> {XdrAuthModeExternal, XdrAuthModePKI} \<longrightarrow> tls \<noteq> []) \<and>
         (idx dc ConfKeyXdrConnector = GBool True \<longrightarrow>
            user = [] \<and> (has dc ConfKeyXdrAuthMode \<longrightarrow> mode = XdrAuthModeNone)))"

definition entries_ok :: "string \<Rightarrow> gval gomap \<Rightarrow> bool" where
  "entries_ok kind storage \<longleftrightarrow>
     has storage kind \<longrightarrow>
     (\<exists>ss. idx storage kind = GList (map GString ss) \<and> ss \<noteq> [] \<and> (\<forall>s\<in>set ss. length (Fields s) \<le> 2))"

definition index_ok :: "gval gomap \<Rightarrow> bool" where
  "index_ok ns \<longleftrightarrow>
     has ns ConfKeyIndexType \<longrightarrow>
     (\<exists>index. idx ns ConfKeyIndexType = GMap index \<and>
        (idx index ConfKeyType = GString ''shmem'' \<or> \<not> has index ConfKeyMounts \<or>
         (\<exists>ss. idx index ConfKeyMounts = GList (map GString ss) \<and> ss \<noteq> [])))"

definition namespace_ok :: "int \<Rightarrow> gval gomap \<Rightarrow> bool" where
  "namespace_ok clSize ns \<longleftrightarrow>
     (\<exists>name. idx ns ConfKeyName = GString name) \<and>
     (\<exists>rf sc. GetNamespaceReplicationFactor ns = Ok rf \<and> IsNSSCEnabled ns = Ok sc \<and>
        (if sc then rf \<le> clSize else \<not> isMRTFieldSet ns)) \<and>
     (\<exists>storage. idx ns ConfKeyStorageEngine = GMap storage \<and>
        idx storage ConfKeyType \<in> {GString ''memory'', GString ''device'', GString ''pmem''} \<and>
        entries_ok ''devices'' storage \<and> entries_ok ''files'' storage) \<and>
     index_ok ns"

text \<open>The devices, or the files, of a namespace.\<close>

definition entry_names :: "string \<Rightarrow> gval \<Rightarrow> string list" where
  "entry_names kind v =
     (case v of
        GMap ns \<Rightarrow>
          (case idx ns ConfKeyStorageEngine of
             GMap storage \<Rightarrow> (case idx storage kind of GList vs \<Rightarrow> List.map_filter as_string vs | _ \<Rightarrow> [])
           | _ \<Rightarrow> [])
      | _ \<Rightarrow> [])"

definition namespaces_ok :: "int \<Rightarrow> gval list \<Rightarrow> bool" where
  "namespaces_ok clSize nss \<longleftrightarrow>
     nss \<noteq> [] \<and> (\<forall>v\<in>set nss. \<exists>ns. v = GMap ns \<and> namespace_ok clSize ns) \<and>
     distinct (concat (map (entry_names ''devices'') nss)) \<and> distinct (concat (map (entry_names ''files'') nss))"

definition config_ok :: "(string \<Rightarrow> bool) \<Rightarrow> int \<Rightarrow> gval gomap \<Rightarrow> bool" where
  "config_ok dns clSize config \<longleftrightarrow>
     (\<exists>service. idx config ConfKeyService = GMap service \<and> has service ''cluster-name'' \<and>
        (has service ''advertise-ipv6'' \<longrightarrow> idx service ''advertise-ipv6'' = GBool False)) \<and>
     (\<exists>network dcs. idx config ConfKeyNetwork = GMap network \<and> network_ok dns network \<and>
        GetXDRDCs \<lparr>Value = Some config\<rparr> = Ok dcs \<and> list_all (dc_ok (GetNetworkTLSNames network)) dcs) \<and>
     (\<exists>nss. idx config ConfKeyNamespace = GList nss \<and> namespaces_ok clSize nss) \<and>
     (\<exists>logs. idx config ''logging'' = GList logs \<and> list_all log_ok logs)"

section \<open>The validator decides the predicate\<close>

lemma as_type_iff:
  "as_string v = Some s \<longleftrightarrow> v = GString s" "as_bool v = Some b \<longleftrightarrow> v = GBool b"
  "as_list v = Some l \<longleftrightarrow> v = GList l" "as_map v = Some m \<longleftrightarrow> v = GMap m"
  by (cases v; simp)+

lemma must_Ok_iff: "must x = Ok a \<longleftrightarrow> x = Some a"
  by (cases x) auto

lemma idx_has: "has m k \<Longrightarrow> gomap_get m k = Some (idx m k)" "\<not> has m k \<Longrightarrow> gomap_get m k = None"
  by (auto simp: has_def idx_def split: option.splits)

lemma get_idx: "gomap_get m k = Some v \<Longrightarrow> v = idx m k \<and> has m k"
  by (auto simp: has_def idx_def)

lemma idx_not_nil: "idx m k \<noteq> GNil \<Longrightarrow> has m k"
  by (auto simp: has_def idx_def split: option.splits)

lemma idx_missing: "\<not> has m k \<Longrightarrow> idx m k = GNil"
  by (auto simp: has_def idx_def)

lemmas typed_iff = as_type_iff must_Ok_iff

lemma find_refused: "(case find P xs of None \<Rightarrow> Ok () | Some x \<Rightarrow> Err (e x)) = Ok () \<longleftrightarrow> (\<forall>x\<in>set xs. \<not> P x)"
  by (induction xs) auto

lemma validate_log_iff: "validate_log v = Ok () \<longleftrightarrow> log_ok v"
  by (cases v) (auto simp: validate_log_def log_ok_def find_refused)

lemma dns_names_iff: "dns_names dns vs = Ok names \<longleftrightarrow> vs = map GString names \<and> list_all dns names"
proof (induction vs arbitrary: names)
  case (Cons v vs)
  show ?case
  proof (cases v)
    case (GString s)
    then show ?thesis using Cons by (cases names) (auto simp: res_simps)
  qed (auto)
qed auto

lemma tls_client_iff: "(\<exists>names. ValidateTLSAuthenticateClient dns service = Ok names) \<longleftrightarrow> tls_client_ok dns service"
proof (cases "has service ''tls-authenticate-client''")
  case True
  then show ?thesis
    by (cases "idx service ''tls-authenticate-client''")
       (auto simp: ValidateTLSAuthenticateClient_def tls_client_ok_def idx_has dns_names_iff)
qed (simp add: ValidateTLSAuthenticateClient_def tls_client_ok_def idx_has)

lemma connection_iff: "validateNetworkConnection network tlsNames kind = Ok () \<longleftrightarrow> connection_ok tlsNames network kind"
proof (cases "has network kind")
  case True
  show ?thesis
  proof (cases "idx network kind")
    case (GMap conn)
    then show ?thesis
    proof (cases "has conn ConfKeyTLSName")
      case True
      with GMap \<open>has network kind\<close> show ?thesis
        by (cases "idx conn ConfKeyTLSName") (auto simp: validateNetworkConnection_def connection_ok_def idx_has)
    next
      case False
      with GMap \<open>has network kind\<close> show ?thesis
        by (auto simp: validateNetworkConnection_def connection_ok_def idx_has find_refused)
    qed
  qed (use True in \<open>auto simp: validateNetworkConnection_def connection_ok_def idx_has\<close>)
qed (simp add: validateNetworkConnection_def connection_ok_def idx_has)

lemma tls_iff: "validate_tls v = Ok () \<longleftrightarrow> tls_ok v"
  by (cases v) (auto simp: validate_tls_def tls_ok_def)

lemma network_iff: "validation_validateNetworkConfig dns network = Ok () \<longleftrightarrow> network_ok dns network"
proof (cases "gomap_get network ConfKeyNetworkService")
  case (Some service)
  have tls: "(case gomap_get network ConfKeyNetworkTLS of
      None \<Rightarrow> Ok () | Some tls \<Rightarrow> res_bind (must (as_list tls)) (for_each validate_tls)) = Ok () \<longleftrightarrow>
      (has network ConfKeyNetworkTLS \<longrightarrow> (\<exists>l. idx network ConfKeyNetworkTLS = GList l \<and> list_all tls_ok l))"
    by (cases "has network ConfKeyNetworkTLS")
       (auto simp: idx_has res_simps typed_iff tls_iff list_all_iff)
  have conns: "for_each (validateNetworkConnection network names) networkConnectionTypes = Ok () \<longleftrightarrow>
      list_all (connection_ok names network) networkConnectionTypes" for names
    by (simp add: for_each_Ok_iff connection_iff list_all_iff)
  have rest: "res_bind (must (as_map service)) (\<lambda>service.
      res_bind (ValidateTLSAuthenticateClient dns service) (\<lambda>_.
        for_each (validateNetworkConnection network names) networkConnectionTypes)) = Ok () \<longleftrightarrow>
      (\<exists>m. service = GMap m \<and> tls_client_ok dns m) \<and> list_all (connection_ok names network) networkConnectionTypes"
    for names
    unfolding tls_client_iff [symmetric] by (auto simp: res_bind_Ok_iff typed_iff conns)
  show ?thesis
    unfolding validation_validateNetworkConfig_def network_ok_def Let_def Some option.case res_bind_Ok_iff [of _ "\<lambda>_. m" for m]
    unfolding rest by (simp add: tls) blast
qed (simp add: validation_validateNetworkConfig_def network_ok_def)

lemma string_at_missing: "string_at dc k \<noteq> [] \<Longrightarrow> has dc k"
  by (auto simp: string_at_def has_def idx_def split: option.splits)

lemmas xdr_modes = XdrAuthModeNone_def XdrAuthModeInternal_def XdrAuthModeExternal_def
  XdrAuthModeExternalInsecure_def XdrAuthModePKI_def

lemma dc_iff: "validateXDRDC tlsNames dc = Ok () \<longleftrightarrow> dc_ok tlsNames dc"
proof -
  have auth: "validate_auth_mode name mode user password tls = Ok () \<longleftrightarrow>
      (mode = XdrAuthModeNone \<longrightarrow> user = []) \<and>
      (mode \<in> {XdrAuthModeInternal, XdrAuthModeExternal, XdrAuthModeExternalInsecure} \<longrightarrow> user \<noteq> []) \<and>
      (mode = XdrAuthModeExternal \<longrightarrow> tls) \<and> (mode = XdrAuthModePKI \<longrightarrow> user = [] \<and> password = [] \<and> tls)"
    for name mode user password tls
    by (auto simp: validate_auth_mode_def xdr_modes)
  have set: "has dc ConfKeyTLSName \<and> string_at dc ConfKeyTLSName \<noteq> [] \<longleftrightarrow> string_at dc ConfKeyTLSName \<noteq> []"
    using string_at_missing by blast
  have conn: "as_bool (idx dc ConfKeyXdrConnector) = Some True \<longleftrightarrow> idx dc ConfKeyXdrConnector = GBool True"
    by (simp add: as_type_iff)
  have mode: "has dc ConfKeyXdrAuthMode" if "string_at dc ConfKeyXdrAuthMode \<noteq> []"
    using that by (rule string_at_missing)
  have none: "XdrAuthModeNone \<noteq> []" "XdrAuthModePKI \<noteq> []" by (simp_all add: xdr_modes)
  show ?thesis
    unfolding validateXDRDC_def validateXDRDCTLSName_def validateXDRDCConnector_def validateXDRDCAuth_def dc_ok_def
      Let_def set conn
    by (auto simp: res_simps auth none)
qed

lemma all_GString: "(\<forall>v\<in>set vs. \<exists>s. v = GString s \<and> P s) \<longleftrightarrow> (\<exists>ss. vs = map GString ss \<and> (\<forall>s\<in>set ss. P s))"
proof
  assume all: "\<forall>v\<in>set vs. \<exists>s. v = GString s \<and> P s"
  then have "vs = map GString (map (the \<circ> as_string) vs)" by (intro nth_equalityI) (auto simp: all_set_conv_all_nth)
  moreover have "\<forall>s\<in>set (map (the \<circ> as_string) vs). P s" using all by fastforce
  ultimately show "\<exists>ss. vs = map GString ss \<and> (\<forall>s\<in>set ss. P s)" by blast
qed auto

lemma entries_iff: "validate_entries kind storage = Ok () \<longleftrightarrow> entries_ok kind storage"
proof (cases "has storage kind")
  case True
  have all: "(\<forall>v\<in>set vs. validate_entry kind v = Ok ()) \<longleftrightarrow>
      (\<exists>ss. vs = map GString ss \<and> (\<forall>s\<in>set ss. length (Fields s) \<le> 2))" for vs
  proof -
    have "validate_entry kind v = Ok () \<longleftrightarrow> (\<exists>s. v = GString s \<and> length (Fields s) \<le> 2)" for v
      by (cases v) (auto simp: validate_entry_def)
    then show ?thesis by (simp add: all_GString)
  qed
  show ?thesis
    using True by (cases "idx storage kind") (auto simp: validate_entries_def entries_ok_def idx_has for_each_Ok_iff all)
qed (simp add: validate_entries_def entries_ok_def idx_has)

text \<open>What the checks of a single namespace establish.\<close>

definition checked_namespace :: "int \<Rightarrow> gval gomap \<Rightarrow> bool" where
  "checked_namespace clSize ns \<longleftrightarrow>
     has ns ConfKeyName \<and>
     (\<exists>rf sc. GetNamespaceReplicationFactor ns = Ok rf \<and> IsNSSCEnabled ns = Ok sc \<and>
        (if sc then rf \<le> clSize else \<not> isMRTFieldSet ns)) \<and>
     (\<exists>storage. idx ns ConfKeyStorageEngine = GMap storage \<and>
        idx storage ConfKeyType \<in> {GString ''memory'', GString ''device'', GString ''pmem''} \<and>
        entries_ok ''devices'' storage \<and> entries_ok ''files'' storage)"

lemma sc_enabled_Ok: "sc_enabled ns = Ok b \<longleftrightarrow> IsNSSCEnabled ns = Ok b"
  by (auto simp: sc_enabled_def split: res.splits)

lemma get_type_idx: "gomap_get m k = Some (GString s) \<longleftrightarrow> idx m k = GString s"
  by (auto simp: idx_def split: option.splits)

lemma storage_part:
  "(case gomap_get ns ConfKeyStorageEngine of
      None \<Rightarrow> Err StorageMissing
    | Some storage \<Rightarrow>
        if storage = GNil then Err StorageNil
        else
          res_bind (IsInMemoryNamespace ns) (\<lambda>inMemory.
          res_bind (if inMemory then Ok True else IsDeviceOrPmemNamespace ns) (\<lambda>supported.
            if \<not> supported then Err StorageUnsupported
            else
              res_bind (must (as_map storage)) (\<lambda>nsStorage.
              res_bind (validate_entries ''devices'' nsStorage) (\<lambda>_.
                validate_entries ''files'' nsStorage))))) = Ok () \<longleftrightarrow>
   (\<exists>storage. idx ns ConfKeyStorageEngine = GMap storage \<and>
      idx storage ConfKeyType \<in> {GString ''memory'', GString ''device'', GString ''pmem''} \<and>
      entries_ok ''devices'' storage \<and> entries_ok ''files'' storage)"
proof (cases "has ns ConfKeyStorageEngine")
  case True
  then show ?thesis
    by (cases "idx ns ConfKeyStorageEngine")
       (auto simp: idx_has IsInMemoryNamespace_def IsDeviceOrPmemNamespace_def res_simps get_type_idx entries_iff)
qed (simp add: idx_has idx_missing)

lemma validate_namespace_iff: "validate_namespace clSize v = Ok () \<longleftrightarrow> (\<exists>ns. v = GMap ns \<and> checked_namespace clSize ns)"
proof (cases v)
  case (GMap ns)
  have rf: "validateNamespaceReplicationFactor ns clSize = Ok () \<longleftrightarrow>
      (\<exists>rf sc. GetNamespaceReplicationFactor ns = Ok rf \<and> IsNSSCEnabled ns = Ok sc \<and> (sc \<longrightarrow> rf \<le> clSize))"
    by (cases "GetNamespaceReplicationFactor ns"; cases "IsNSSCEnabled ns")
       (auto simp: validateNamespaceReplicationFactor_def sc_enabled_def)
  have mrt: "validateMRTFields ns = Ok () \<longleftrightarrow> (\<exists>sc. IsNSSCEnabled ns = Ok sc \<and> (\<not> sc \<longrightarrow> \<not> isMRTFieldSet ns))"
    by (cases "IsNSSCEnabled ns") (auto simp: validateMRTFields_def sc_enabled_def)
  have combine: "(if \<not> named then Err e else res_bind (validateNamespaceReplicationFactor ns clSize) (\<lambda>_.
      res_bind (validateMRTFields ns) (\<lambda>_. X))) = Ok () \<longleftrightarrow>
      named \<and> (\<exists>rf sc. GetNamespaceReplicationFactor ns = Ok rf \<and> IsNSSCEnabled ns = Ok sc \<and>
        (if sc then rf \<le> clSize else \<not> isMRTFieldSet ns)) \<and> X = Ok ()" for named e and X :: "(config_error, unit) res"
    by (cases named; cases "GetNamespaceReplicationFactor ns"; cases "IsNSSCEnabled ns") (auto simp: res_bind_Ok_iff rf mrt)
  show ?thesis
    unfolding validate_namespace_def checked_namespace_def GMap as_map.simps option.case combine storage_part by simp
qed (simp_all add: validate_namespace_def)

lemma index_iff: "validate_index_type (GMap ns) = Ok () \<longleftrightarrow> index_ok ns"
proof (cases "has ns ConfKeyIndexType")
  case True
  show ?thesis
  proof (cases "idx ns ConfKeyIndexType")
    case (GMap index)
    have strings: "\<not> list_ex (\<lambda>m. as_string m = None) ms \<longleftrightarrow> (\<exists>ss. ms = map GString ss)" for ms
    proof -
      have "as_string m \<noteq> None \<longleftrightarrow> (\<exists>s. m = GString s)" for m by (cases m) auto
      then show ?thesis using all_GString [of ms "\<lambda>_. True"] by (simp add: list_ex_iff)
    qed
    show ?thesis
    proof (cases "has index ConfKeyMounts")
      case True
      then show ?thesis
        using GMap \<open>has ns ConfKeyIndexType\<close> strings
        by (cases "idx index ConfKeyMounts")
           (auto simp: validate_index_type_def IsShMemIndexTypeNamespace_def index_ok_def idx_has get_type_idx)
    next
      case False
      then show ?thesis
        using GMap \<open>has ns ConfKeyIndexType\<close>
        by (auto simp: validate_index_type_def IsShMemIndexTypeNamespace_def index_ok_def idx_has get_type_idx)
    qed
  qed (use True in \<open>auto simp: validate_index_type_def IsShMemIndexTypeNamespace_def index_ok_def idx_has\<close>)
qed (simp add: validate_index_type_def IsShMemIndexTypeNamespace_def index_ok_def idx_has)

lemma has_put: "has (gomap_put k v m) k' \<longleftrightarrow> k' = k \<or> has m k'"
  by (simp add: has_def gomap_get_put)

lemma entry_owners_iff:
  "(\<exists>r. entry_owners kind n (map GString ss) owners = Ok r) \<longleftrightarrow> distinct ss \<and> (\<forall>s\<in>set ss. \<not> has owners s)"
  by (induction ss arbitrary: owners) (auto simp: has_put)

lemma entry_owners_get:
  "entry_owners kind n (map GString ss) owners = Ok r \<Longrightarrow>
   gomap_get r s = (if s \<in> set ss then Some n else gomap_get owners s)"
  by (induction ss arbitrary: owners) (auto simp: gomap_get_put split: if_splits)

definition typed_namespace :: "gval \<Rightarrow> bool" where
  "typed_namespace v \<longleftrightarrow> (\<exists>ns name storage. v = GMap ns \<and> idx ns ConfKeyName = GString name \<and>
     idx ns ConfKeyStorageEngine = GMap storage \<and> entries_ok ''devices'' storage \<and> entries_ok ''files'' storage)"

lemma map_filter_GString: "List.map_filter as_string (map GString ss) = ss"
  by (induction ss) (auto simp: List.map_filter_simps)

lemma typed_entries:
  assumes "idx ns ConfKeyStorageEngine = GMap storage" and "entries_ok kind storage"
  shows "entries_of kind storage = Ok (map GString (entry_names kind (GMap ns)))"
  using assms
  by (cases "has storage kind") (auto simp: entries_of_def entries_ok_def entry_names_def idx_has idx_missing map_filter_GString)

lemma device_list_cons:
  assumes "v = GMap ns" and "idx ns ConfKeyName = GString name" and "idx ns ConfKeyStorageEngine = GMap storage"
    and "entries_ok ''devices'' storage" and "entries_ok ''files'' storage"
  shows "device_list_loop (v # vs) ds fs =
    res_bind (entry_owners ''devices'' name (map GString (entry_names ''devices'' v)) ds) (\<lambda>ds'.
    res_bind (entry_owners ''files'' name (map GString (entry_names ''files'' v)) fs) (\<lambda>fs'. device_list_loop vs ds' fs'))"
  using assms typed_entries [of ns storage] by simp

lemma owners_has:
  "entry_owners kind n (map GString ss) owners = Ok r \<Longrightarrow> has r s \<longleftrightarrow> s \<in> set ss \<or> has owners s"
  by (auto simp: has_def entry_owners_get)

lemma device_list_iff:
  assumes "\<forall>v\<in>set vs. typed_namespace v"
  shows "(\<exists>r. device_list_loop vs ds fs = Ok r) \<longleftrightarrow>
    distinct (concat (map (entry_names ''devices'') vs)) \<and> distinct (concat (map (entry_names ''files'') vs)) \<and>
    (\<forall>s\<in>set (concat (map (entry_names ''devices'') vs)). \<not> has ds s) \<and>
    (\<forall>s\<in>set (concat (map (entry_names ''files'') vs)). \<not> has fs s)"
  using assms
proof (induction vs arbitrary: ds fs)
  case (Cons v vs)
  from Cons.prems obtain ns name storage where v: "v = GMap ns" "idx ns ConfKeyName = GString name"
    "idx ns ConfKeyStorageEngine = GMap storage" "entries_ok ''devices'' storage" "entries_ok ''files'' storage"
    by (auto simp: typed_namespace_def)
  let ?d = "entry_names ''devices'' v" and ?f = "entry_names ''files'' v"
  let ?ds = "concat (map (entry_names ''devices'') vs)" and ?fs = "concat (map (entry_names ''files'') vs)"
  have "\<forall>v\<in>set vs. typed_namespace v" using Cons.prems by simp
  note IH = Cons.IH [OF this]
  show ?case
  proof (cases "(distinct ?d \<and> (\<forall>s\<in>set ?d. \<not> has ds s)) \<and> distinct ?f \<and> (\<forall>s\<in>set ?f. \<not> has fs s)")
    case True
    then obtain ds' fs' where owners: "entry_owners ''devices'' name (map GString ?d) ds = Ok ds'"
      "entry_owners ''files'' name (map GString ?f) fs = Ok fs'"
      using entry_owners_iff [of "''devices''" name ?d ds] entry_owners_iff [of "''files''" name ?f fs] by auto
    have "(\<exists>r. device_list_loop (v # vs) ds fs = Ok r) \<longleftrightarrow> (\<exists>r. device_list_loop vs ds' fs' = Ok r)"
      unfolding device_list_cons [OF v] owners by simp
    also have "\<dots> \<longleftrightarrow> distinct ?ds \<and> distinct ?fs \<and> (\<forall>s\<in>set ?ds. s \<notin> set ?d \<and> \<not> has ds s) \<and>
        (\<forall>s\<in>set ?fs. s \<notin> set ?f \<and> \<not> has fs s)"
      unfolding IH owners_has [OF owners(1)] owners_has [OF owners(2)] by simp
    finally show ?thesis using True unfolding list.map concat.simps distinct_append set_append ball_Un by blast
  next
    case False
    then have "\<nexists>r. device_list_loop (v # vs) ds fs = Ok r"
      unfolding device_list_cons [OF v]
      using entry_owners_iff [of "''devices''" name ?d ds] entry_owners_iff [of "''files''" name ?f fs]
      by (auto simp: res_bind_Ok_iff)
    with False show ?thesis unfolding list.map concat.simps distinct_append set_append ball_Un by blast
  qed
qed simp

lemma device_list_names:
  "device_list_loop vs ds fs = Ok r \<Longrightarrow> v \<in> set vs \<Longrightarrow> \<exists>ns name. v = GMap ns \<and> idx ns ConfKeyName = GString name"
proof (induction vs arbitrary: ds fs)
  case (Cons u us)
  from Cons.prems(1) obtain ns name ds' fs' where "u = GMap ns" "idx ns ConfKeyName = GString name"
    "device_list_loop us ds' fs' = Ok r"
    by (auto simp: res_bind_Ok_iff typed_iff)
  with Cons show ?case by auto
qed simp

lemma checked_typed:
  "checked_namespace clSize ns \<Longrightarrow> idx ns ConfKeyName = GString name \<Longrightarrow> typed_namespace (GMap ns)"
  by (auto simp: typed_namespace_def checked_namespace_def)

lemma namespaces_iff: "validation_validateNamespaceConfig nss clSize = Ok () \<longleftrightarrow> namespaces_ok clSize nss"
proof -
  let ?checked = "\<forall>v\<in>set nss. \<exists>ns. v = GMap ns \<and> checked_namespace clSize ns"
  let ?named = "\<forall>v\<in>set nss. \<exists>ns name. v = GMap ns \<and> idx ns ConfKeyName = GString name"
  let ?index = "\<forall>v\<in>set nss. validate_index_type v = Ok ()"
  let ?list = "\<exists>r. ValidateStorageEngineDeviceList nss = Ok r"
  let ?distinct = "distinct (concat (map (entry_names ''devices'') nss)) \<and> distinct (concat (map (entry_names ''files'') nss))"
  have run: "validation_validateNamespaceConfig nss clSize = Ok () \<longleftrightarrow> nss \<noteq> [] \<and> ?checked \<and> ?list \<and> ?index"
    unfolding validation_validateNamespaceConfig_def
    by (auto simp: res_bind_Ok_iff for_each_Ok_iff validate_namespace_iff)
  have typed: "\<forall>v\<in>set nss. typed_namespace v" if ?checked ?named
  proof
    fix v assume "v \<in> set nss"
    with that obtain ns name where "v = GMap ns" "checked_namespace clSize ns" "idx ns ConfKeyName = GString name"
      by fastforce
    then show "typed_namespace v" by (simp add: checked_typed)
  qed
  have named: ?named if ?list
    using that unfolding ValidateStorageEngineDeviceList_def by (auto dest: device_list_names)
  have distinct: "?list \<longleftrightarrow> ?distinct" if ?checked ?named
    unfolding ValidateStorageEngineDeviceList_def device_list_iff [OF typed [OF that]] by (simp add: has_def)
  have list: "?list \<longleftrightarrow> ?named \<and> ?distinct" if ?checked
    using named distinct that by blast
  have one: "namespace_ok clSize ns \<longleftrightarrow> checked_namespace clSize ns \<and> (\<exists>name. idx ns ConfKeyName = GString name) \<and>
      validate_index_type (GMap ns) = Ok ()" for ns
    unfolding namespace_ok_def checked_namespace_def index_iff using idx_not_nil [of ns ConfKeyName] by auto
  have all: "?checked \<and> ?named \<and> ?index \<longleftrightarrow> (\<forall>v\<in>set nss. \<exists>ns. v = GMap ns \<and> namespace_ok clSize ns)"
  proof -
    have "(\<exists>ns. v = GMap ns \<and> checked_namespace clSize ns) \<and> (\<exists>ns name. v = GMap ns \<and> idx ns ConfKeyName = GString name) \<and>
        validate_index_type v = Ok () \<longleftrightarrow> (\<exists>ns. v = GMap ns \<and> namespace_ok clSize ns)" for v
      by (cases v) (simp_all add: one)
    note each = this
    show ?thesis unfolding ball_conj_distrib [symmetric] each ..

  qed
  from run list all show ?thesis unfolding namespaces_ok_def by blast
qed

lemma validate_config_iff:
  "ValidateAerospikeConfig schema dns version conf clSize = Ok () \<longleftrightarrow>
   (\<exists>config. conf = Some config \<and> schema version config = None \<and> config_ok dns clSize config)"
proof (cases conf)
  case (Some config)
  have schema: "ValidateAerospikeConfigSchema schema version (Some config) = Ok () \<longleftrightarrow> schema version config = None"
    by (auto simp: ValidateAerospikeConfigSchema_def split: option.splits)
  have ipv6: "(case gomap_get service ''advertise-ipv6'' of None \<Rightarrow> Ok False | Some v \<Rightarrow> must (as_bool v)) = Ok b \<longleftrightarrow>
      (if has service ''advertise-ipv6'' then idx service ''advertise-ipv6'' = GBool b else \<not> b)"
    for service and b :: bool
    by (cases "has service ''advertise-ipv6''") (auto simp: idx_has typed_iff)
  have xdr: "validateXDRConfig config = Ok () \<longleftrightarrow>
      (\<exists>dcs. GetXDRDCs \<lparr>Value = Some config\<rparr> = Ok dcs \<and> list_all (dc_ok (GetNetworkTLSNames network)) dcs)"
    if "idx config ConfKeyNetwork = GMap network" for network
    using that by (auto simp: validateXDRConfig_def res_simps dc_iff list_all_iff)
  have nss: "(case gomap_get config ConfKeyNamespace of
        None \<Rightarrow> Err NamespaceMissing
      | Some v \<Rightarrow> if v = GNil then Err NamespaceNil
          else (case as_list v of None \<Rightarrow> Err NamespaceNotList | Some l \<Rightarrow> validation_validateNamespaceConfig l clSize)) = Ok () \<longleftrightarrow>
      (\<exists>l. idx config ConfKeyNamespace = GList l \<and> namespaces_ok clSize l)"
    by (cases "has config ConfKeyNamespace"; cases "idx config ConfKeyNamespace")
       (auto simp: idx_has idx_missing namespaces_iff)
  have logs: "(case as_list (idx config ''logging'') of
        None \<Rightarrow> Err LoggingNotList | Some l \<Rightarrow> validateLoggingConf l) = Ok () \<longleftrightarrow>
      (\<exists>l. idx config ''logging'' = GList l \<and> list_all log_ok l)"
    by (cases "idx config ''logging''") (auto simp: validateLoggingConf_def for_each_Ok_iff validate_log_iff list_all_iff)
  let ?rest = "\<lambda>network. network_ok dns network \<and>
      (\<exists>dcs. GetXDRDCs \<lparr>Value = Some config\<rparr> = Ok dcs \<and> list_all (dc_ok (GetNetworkTLSNames network)) dcs) \<and>
      (\<exists>l. idx config ConfKeyNamespace = GList l \<and> namespaces_ok clSize l) \<and>
      (\<exists>l. idx config ''logging'' = GList l \<and> list_all log_ok l)"
  show ?thesis
  proof (cases "idx config ConfKeyService")
    case (GMap service)
    note service = this
    show ?thesis
    proof (cases "idx config ConfKeyNetwork")
      case (GMap network)
      show ?thesis
        unfolding ValidateAerospikeConfig_def Some option.case service GMap as_map.simps
        by (auto simp: res_bind_Ok_iff schema ipv6 network_iff xdr [OF GMap] nss logs config_ok_def service GMap)
    qed (auto simp: ValidateAerospikeConfig_def Some service res_bind_Ok_iff config_ok_def)
  qed (auto simp: ValidateAerospikeConfig_def Some res_bind_Ok_iff config_ok_def)
qed (simp add: ValidateAerospikeConfig_def)

text \<open>
  Property C13. The validator accepts a configuration exactly when the schema does and it is well formed:
  its sections have the shapes the operator reads, TLS names refer to configured ones, the credentials of
  XDR data centres are complete, every namespace has a name, a replication factor that fits the cluster
  under strong consistency and a supported storage engine, and no device or file has two owners.
\<close>

theorem config_accepted_iff:
  "ValidateAerospikeConfig schema dns version conf clSize = Ok () \<longleftrightarrow>
   (\<exists>config. conf = Some config \<and> schema version config = None \<and> config_ok dns clSize config)"
  by (rule validate_config_iff)

section \<open>What an accepted update keeps\<close>

lemma scalar_DeepEqual:
  "gval_DeepEqual u v \<Longrightarrow> u = v \<or> (\<exists>xs ys. u = GList xs \<and> v = GList ys) \<or> (\<exists>m m'. u = GMap m \<and> v = GMap m')"
  by (cases u; cases v) auto

lemma not_updated_get:
  assumes "\<not> isValueUpdated m m' k"
  shows "gomap_get m k = None \<and> gomap_get m' k = None \<or>
    (\<exists>v v'. gomap_get m k = Some v \<and> gomap_get m' k = Some v' \<and> gval_DeepEqual v v')"
  using assms by (cases "has m k") (auto simp: isValueUpdated_def idx_has split: if_splits)

lemma same_sc: "\<not> isValueUpdated m m' ConfKeyStrongConsistency \<Longrightarrow> IsNSSCEnabled m' = IsNSSCEnabled m"
  by (auto dest!: not_updated_get scalar_DeepEqual simp: IsNSSCEnabled_def)

lemma same_rf:
  "\<not> isValueUpdated m m' ConfKeyReplicationFactor \<Longrightarrow> GetNamespaceReplicationFactor m' = GetNamespaceReplicationFactor m"
  by (auto dest!: not_updated_get scalar_DeepEqual simp: GetNamespaceReplicationFactor_def)

lemma pair_keeps:
  assumes "validate_namespace_pair ns' (GMap ns) = Ok ()" and "idx ns ConfKeyName = GString n" "idx ns' ConfKeyName = GString n"
  shows "IsNSSCEnabled ns' = IsNSSCEnabled ns \<and>
    (IsNSSCEnabled ns' = Ok True \<longrightarrow> GetNamespaceReplicationFactor ns' = GetNamespaceReplicationFactor ns)"
  using assms same_sc [of ns ns'] same_rf [of ns ns']
  by (auto simp: validate_namespace_pair_def iface_eq_def res_bind_Ok_iff sc_enabled_Ok split: if_splits)

definition connection_of :: "gval gomap \<Rightarrow> string \<Rightarrow> gval gomap option" where
  "connection_of config kind = (case idx config ConfKeyNetwork of GMap network \<Rightarrow> as_map (idx network kind) | _ \<Rightarrow> None)"

lemma port_keeps:
  assumes "validateNetworkPortUpdate conn conn' port = Ok ()"
  shows "(\<forall>k\<in>{port, ''tls-'' @ port}. has conn k \<and> has conn' k \<longrightarrow> gval_DeepEqual (idx conn k) (idx conn' k)) \<and>
    (has conn port \<and> \<not> has conn' port \<or> has conn (''tls-'' @ port) \<and> \<not> has conn' (''tls-'' @ port) \<longrightarrow>
       has conn port \<and> has conn (''tls-'' @ port))"
  using assms by (auto simp: validateNetworkPortUpdate_def Let_def split: if_splits)



text \<open>A configuration with one namespace, given its port and the compression of the namespace.\<close>

definition valid_namespace :: "string \<Rightarrow> gval gomap" where
  "valid_namespace compression = [(''name'', GString ''test''), (''replication-factor'', GFloat64 2), (''strong-consistency'', GBool True),
     (''storage-engine'', GMap [(''type'', GString ''device''), (''devices'', GList [GString ''/dev/a /dev/b'']),
        (''compression'', GString compression)])]"

definition valid_config :: "int \<Rightarrow> string \<Rightarrow> gval gomap" where
  "valid_config port compression = [(''service'', GMap [(''cluster-name'', GString ''cl'')]),
     (''network'', GMap [(''service'', GMap [(''port'', GInt port)])]),
     (''namespaces'', GList [GMap (valid_namespace compression)]), (''logging'', GList [GMap [(''name'', GString ''console'')]])]"

lemma valid_config_accepted:
  "ValidateAerospikeConfig (\<lambda>_ _. None) (\<lambda>_. True) ''8.0.0'' (Some (valid_config 3000 ''lz4'')) 3 = Ok ()"
  "ValidateAerospikeConfig (\<lambda>_ _. None) (\<lambda>_. True) ''8.0.0'' (Some (valid_config 3000 ''lz4'')) 1 = Err (RFAboveSize 2 1)"
  "ValidateAerospikeConfigUpdateWithoutSchema (Some (valid_config 3000 ''lz4'')) (Some (valid_config 3000 ''zstd'')) = Ok ()"
  "ValidateAerospikeConfigUpdateWithoutSchema (Some (valid_config 3000 ''lz4'')) (Some (valid_config 4000 ''lz4'')) =
     Err (PortModified ''port'')"
  by code_simp+


end
