(* ===== verification/Storage.thy ===== *)
theory Storage
  imports Cluster_Spec
begin

text \<open>
  \<^verbatim>\<open>internal/webhook/v1/storage.go\<close>: the defaults of the storage specification, its validation, and
  which changes of it are allowed. The DNS label check of the Kubernetes validation package is
  the argument \<open>IsDNS1123Label\<close>: the errors it reports for a name.
\<close>

datatype storage_error =
    LocalClassesEmptyOnRestart
  | LocalClassesEmptyOnRecovery
  | InvalidVolumeName string "string list"
  | NoVolumeSource
  | TooManySources
  | InvalidBlockInitMethod string
  | InvalidBlockWipeMethod string string
  | InvalidFilesystemInitMethod string
  | InvalidFilesystemWipeMethod string string
  | InvalidVolumeSource storage_error string
  | NotAttached string
  | VolumePathNotAbsolute string
  | ReservedVolumePath string
  | DuplicateVolumePath string
  | CannotAttachToInit
  | UseStorageAerospike string
  | DuplicateContainer string
  | ContainerNotFound string
  | SidecarMountFailed storage_error
  | InitContainerMountFailed storage_error
  | DuplicateAttachmentPath string string
  | HostPathNotReadOnly string string
  | CannotChangeVolume string
  | CannotAddPersistentVolume string
  | CannotRemovePersistentVolume string
  | InvalidVolumeMode string

section \<open>Changes\<close>

text \<open>The old volume with the name of a new one: the first in the list.\<close>

definition volume_named :: "VolumeSpec list \<Rightarrow> string \<Rightarrow> VolumeSpec option" where
  "volume_named vols name = find (\<lambda>v. VolName v = name) vols"

definition isSafeChange :: "VolumeSpec \<Rightarrow> VolumeSpec \<Rightarrow> bool" where
  "isSafeChange oldVolume newVolume =
     (case (SrcPersistentVolume (VolSource oldVolume), SrcPersistentVolume (VolSource newVolume)) of
        (None, None) \<Rightarrow> True
      | (Some oldPV, Some newPV) \<Rightarrow> pv_DeepEqual oldPV newPV
      | _ \<Rightarrow> False)"

fun added_volumes :: "VolumeSpec list \<Rightarrow> VolumeSpec list \<Rightarrow> (storage_error, VolumeSpec list) res" where
  "added_volumes old [] = Ok []"
| "added_volumes old (newVolume # vols) =
     (if volume_named old (VolName newVolume) \<noteq> None then added_volumes old vols
      else if SrcPersistentVolume (VolSource newVolume) \<noteq> None
      then Err (CannotAddPersistentVolume (VolName newVolume))
      else res_bind (added_volumes old vols) (\<lambda>added. Ok (newVolume # added)))"

fun removed_volumes :: "VolumeSpec list \<Rightarrow> VolumeSpec list \<Rightarrow> (storage_error, VolumeSpec list) res" where
  "removed_volumes new [] = Ok []"
| "removed_volumes new (oldVolume # vols) =
     (if volume_named new (VolName oldVolume) \<noteq> None then removed_volumes new vols
      else if SrcPersistentVolume (VolSource oldVolume) \<noteq> None
      then Err (CannotRemovePersistentVolume (VolName oldVolume))
      else res_bind (removed_volumes new vols) (\<lambda>removed. Ok (oldVolume # removed)))"

definition validateAddedOrRemovedVolumes ::
  "AerospikeStorageSpec \<Rightarrow> AerospikeStorageSpec \<Rightarrow> (storage_error, VolumeSpec list \<times> VolumeSpec list) res" where
  "validateAddedOrRemovedVolumes oldStorage newStorage =
     res_bind (added_volumes (Volumes oldStorage) (Volumes newStorage)) (\<lambda>added.
       res_bind (removed_volumes (Volumes newStorage) (Volumes oldStorage)) (\<lambda>removed.
         Ok (added, removed)))"

fun changed_volumes :: "VolumeSpec list \<Rightarrow> VolumeSpec list \<Rightarrow> (storage_error, unit) res" where
  "changed_volumes old [] = Ok ()"
| "changed_volumes old (newVolume # vols) =
     (case volume_named old (VolName newVolume) of
        None \<Rightarrow> changed_volumes old vols
      | Some oldVolume \<Rightarrow>
          if isSafeChange oldVolume newVolume then changed_volumes old vols
          else Err (CannotChangeVolume (VolName newVolume)))"

definition validateStorageSpecChange ::
  "AerospikeStorageSpec \<Rightarrow> AerospikeStorageSpec \<Rightarrow> (storage_error, unit) res" where
  "validateStorageSpecChange oldStorage newStorage =
     res_bind (changed_volumes (Volumes oldStorage) (Volumes newStorage)) (\<lambda>_.
       res_bind (validateAddedOrRemovedVolumes oldStorage newStorage) (\<lambda>_. Ok ()))"

section \<open>Defaults\<close>

definition setAerospikePersistentVolumePolicyDefaults ::
  "AerospikePersistentVolumePolicySpec \<Rightarrow> AerospikePersistentVolumePolicySpec \<Rightarrow>
   AerospikePersistentVolumePolicySpec" where
  "setAerospikePersistentVolumePolicyDefaults pvPolicy defaultPolicy =
     pvPolicy\<lparr>
       InitMethod := (case InputInitMethod pvPolicy of
          None \<Rightarrow> InitMethod defaultPolicy | Some m \<Rightarrow> m),
       WipeMethod := (case InputWipeMethod pvPolicy of
          None \<Rightarrow> WipeMethod defaultPolicy | Some m \<Rightarrow> m),
       CascadeDelete := (case InputCascadeDelete pvPolicy of
          None \<Rightarrow> CascadeDelete defaultPolicy | Some c \<Rightarrow> c)\<rparr>"

definition volume_defaults ::
  "AerospikePersistentVolumePolicySpec \<Rightarrow> AerospikePersistentVolumePolicySpec \<Rightarrow> VolumeSpec \<Rightarrow> VolumeSpec" where
  "volume_defaults fsPolicy blockPolicy v =
     (case SrcPersistentVolume (VolSource v) of
        None \<Rightarrow> v\<lparr>VolPolicy := setAerospikePersistentVolumePolicyDefaults (VolPolicy v) fsPolicy\<rparr>
      | Some pv \<Rightarrow>
          if PvVolumeMode pv = PersistentVolumeBlock
          then v\<lparr>VolPolicy := setAerospikePersistentVolumePolicyDefaults (VolPolicy v) blockPolicy\<rparr>
          else if PvVolumeMode pv = PersistentVolumeFilesystem
          then v\<lparr>VolPolicy := setAerospikePersistentVolumePolicyDefaults (VolPolicy v) fsPolicy\<rparr>
          else v)"

definition setStorageDefaults :: "AerospikeStorageSpec \<Rightarrow> AerospikeStorageSpec" where
  "setStorageDefaults storage =
     (let fs = setAerospikePersistentVolumePolicyDefaults (FileSystemVolumePolicy storage)
            (no_policy\<lparr>InitMethod := AerospikeVolumeMethodNone,
               WipeMethod := AerospikeVolumeMethodDeleteFiles, CascadeDelete := False\<rparr>);
          block = setAerospikePersistentVolumePolicyDefaults (BlockVolumePolicy storage)
            (no_policy\<lparr>InitMethod := AerospikeVolumeMethodNone,
               WipeMethod := AerospikeVolumeMethodDD, CascadeDelete := False\<rparr>)
      in storage\<lparr>FileSystemVolumePolicy := fs, BlockVolumePolicy := block,
           Volumes := map (volume_defaults fs block) (Volumes storage)\<rparr>)"

section \<open>Volumes by source\<close>

definition GetPVsVolumesFromStorage :: "AerospikeStorageSpec \<Rightarrow> VolumeSpec list" where
  "GetPVsVolumesFromStorage storage =
     filter (\<lambda>v. SrcPersistentVolume (VolSource v) \<noteq> None) (Volumes storage)"

definition GetNonPVsVolumesFromStorage :: "AerospikeStorageSpec \<Rightarrow> VolumeSpec list" where
  "GetNonPVsVolumesFromStorage storage =
     filter (\<lambda>v. SrcPersistentVolume (VolSource v) = None) (Volumes storage)"

text \<open>The device paths and the file paths of the volumes attached to the server container.\<close>

fun storage_paths :: "bool \<Rightarrow> VolumeSpec list \<Rightarrow> (storage_error, string list \<times> string list) res" where
  "storage_paths onlyPV [] = Ok ([], [])"
| "storage_paths onlyPV (volume # vols) =
     (case VolAerospike volume of
        None \<Rightarrow> storage_paths onlyPV vols
      | Some att \<Rightarrow>
          (case SrcPersistentVolume (VolSource volume) of
             None \<Rightarrow>
               res_bind (storage_paths onlyPV vols) (\<lambda>(devices, files).
                 Ok (devices, if onlyPV then files else AttPath att # files))
           | Some pv \<Rightarrow>
               if PvVolumeMode pv = PersistentVolumeBlock
               then res_bind (storage_paths onlyPV vols) (\<lambda>(devices, files). Ok (AttPath att # devices, files))
               else if PvVolumeMode pv = PersistentVolumeFilesystem
               then res_bind (storage_paths onlyPV vols) (\<lambda>(devices, files). Ok (devices, AttPath att # files))
               else Err (InvalidVolumeMode (PvVolumeMode pv))))"

definition getAerospikeStorageList ::
  "AerospikeStorageSpec \<Rightarrow> bool \<Rightarrow> (storage_error, string list \<times> string list) res" where
  "getAerospikeStorageList storage onlyPV = storage_paths onlyPV (Volumes storage)"

section \<open>Validation\<close>

text \<open>\<^verbatim>\<open>filepath.IsAbs\<close> on the operator's platform.\<close>

definition IsAbs :: "string \<Rightarrow> bool" where
  "IsAbs path = HasPrefix path ''/''"

definition source_count :: "VolumeSource \<Rightarrow> nat" where
  "source_count s =
     (if SrcEmptyDir s \<noteq> None then 1 else 0) + (if SrcSecret s \<noteq> None then 1 else 0) +
     (if SrcConfigMap s \<noteq> None then 1 else 0) + (if SrcPersistentVolume s \<noteq> None then 1 else 0) +
     (if SrcHostPath s \<noteq> None then 1 else 0)"

definition validateStorageVolumeSource :: "VolumeSpec \<Rightarrow> (storage_error, unit) res" where
  "validateStorageVolumeSource volume =
     (let source = VolSource volume; policy = VolPolicy volume in
      if source_count source = 0 then Err NoVolumeSource
      else if source_count source > 1 then Err TooManySources
      else case SrcPersistentVolume source of
        None \<Rightarrow> Ok ()
      | Some pv \<Rightarrow>
          if PvVolumeMode pv = PersistentVolumeBlock
          then (if InitMethod policy \<notin> {AerospikeVolumeMethodDD, AerospikeVolumeMethodHeaderCleanup,
                     AerospikeVolumeMethodBlkdiscard, AerospikeVolumeMethodNone,
                     AerospikeVolumeMethodBlkdiscardWithHeaderCleanup}
                then Err (InvalidBlockInitMethod (InitMethod policy))
                else if WipeMethod policy \<notin> {AerospikeVolumeMethodBlkdiscard, AerospikeVolumeMethodDD}
                then Err (InvalidBlockWipeMethod (WipeMethod policy) (VolName volume))
                else Ok ())
          else if InitMethod policy \<notin> {AerospikeVolumeMethodNone, AerospikeVolumeMethodDeleteFiles}
          then Err (InvalidFilesystemInitMethod (InitMethod policy))
          else if WipeMethod policy \<notin> {AerospikeVolumeMethodDeleteFiles}
          then Err (InvalidFilesystemWipeMethod (WipeMethod policy) (VolName volume))
          else Ok ())"

fun attachment_loop ::
  "string list \<Rightarrow> string list \<Rightarrow> VolumeAttachment list \<Rightarrow> (storage_error, unit) res" where
  "attachment_loop containerNames attachmentContainers [] = Ok ()"
| "attachment_loop containerNames attachmentContainers (attachment # rest) =
     (if VaContainerName attachment = AerospikeInitContainerName then Err CannotAttachToInit
      else if VaContainerName attachment = AerospikeServerContainerName
      then Err (UseStorageAerospike (VaPath attachment))
      else if \<not> IsAbs (VaPath attachment) then Err (VolumePathNotAbsolute (VaPath attachment))
      else if VaContainerName attachment \<in> set attachmentContainers
      then Err (DuplicateContainer (VaContainerName attachment))
      else if VaContainerName attachment \<notin> set containerNames
      then Err (ContainerNotFound (VaContainerName attachment))
      else attachment_loop containerNames (VaContainerName attachment # attachmentContainers) rest)"

definition validateAttachment ::
  "VolumeAttachment list \<Rightarrow> string list \<Rightarrow> (storage_error, unit) res" where
  "validateAttachment volumeAttachments containerNames =
     attachment_loop containerNames [] volumeAttachments"

text \<open>The paths seen so far, by container; the inner map's keys are kept as a list.\<close>

fun validateContainerAttachmentPaths ::
  "VolumeAttachment list \<Rightarrow> string list gomap \<Rightarrow> (storage_error, string list gomap) res" where
  "validateContainerAttachmentPaths [] paths = Ok paths"
| "validateContainerAttachmentPaths (attachment # rest) paths =
     (case gomap_get paths (VaContainerName attachment) of
        None \<Rightarrow>
          validateContainerAttachmentPaths rest
            (gomap_put (VaContainerName attachment) [VaPath attachment] paths)
      | Some seen \<Rightarrow>
          if VaPath attachment \<in> set seen
          then Err (DuplicateAttachmentPath (VaPath attachment) (VaContainerName attachment))
          else validateContainerAttachmentPaths rest
            (gomap_put (VaContainerName attachment) (VaPath attachment # seen) paths))"

fun attachments_read_only :: "string \<Rightarrow> VolumeAttachment list \<Rightarrow> (storage_error, unit) res" where
  "attachments_read_only volName [] = Ok ()"
| "attachments_read_only volName (a # as) =
     (if \<not> GetBool (MoReadOnly (VaMountOptions a))
      then Err (HostPathNotReadOnly volName (VaContainerName a))
      else attachments_read_only volName as)"

definition validateHostPathVolumeReadOnly :: "VolumeSpec \<Rightarrow> (storage_error, unit) res" where
  "validateHostPathVolumeReadOnly volume =
     (if SrcHostPath (VolSource volume) = None then Ok ()
      else res_bind (attachments_read_only (VolName volume) (VolSidecars volume @ VolInitContainers volume))
        (\<lambda>_. case VolAerospike volume of
             None \<Rightarrow> Ok ()
           | Some att \<Rightarrow>
               if \<not> GetBool (MoReadOnly (AttMountOptions att))
               then Err (HostPathNotReadOnly (VolName volume) ''server'') else Ok ()))"

definition reservedPaths :: "string list" where
  "reservedPaths = [''/etc/aerospike'', ''/configs'']"

record storage_state =
  SsStoragePaths :: "string list"
  SsSidecarPaths :: "string list gomap"
  SsInitContainerPaths :: "string list gomap"

text \<open>The checks of one volume before the warning on its mount options, and those after it.\<close>

definition volume_source_checks :: "(string \<Rightarrow> string list) \<Rightarrow> VolumeSpec \<Rightarrow> (storage_error, unit) res" where
  "volume_source_checks IsDNS1123Label volume =
     (if IsDNS1123Label (VolName volume) \<noteq> []
      then Err (InvalidVolumeName (VolName volume) (IsDNS1123Label (VolName volume)))
      else res_bind (res_map_err (\<lambda>e. InvalidVolumeSource e (VolName volume)) (validateStorageVolumeSource volume))
        (\<lambda>_. if VolAerospike volume = None \<and> VolSidecars volume = [] \<and> VolInitContainers volume = []
             then Err (NotAttached (VolName volume)) else Ok ()))"

definition mount_warnings :: "VolumeSpec \<Rightarrow> string list" where
  "mount_warnings volume =
     (case VolAerospike volume of
        Some att \<Rightarrow>
          if SrcHostPath (VolSource volume) = None \<and> AttMountOptions att \<noteq> no_mount_options
          then [''Mount options for volume '' @ VolName volume @ '' will be ignored''] else []
      | None \<Rightarrow> [])"

definition server_path_check :: "VolumeSpec \<Rightarrow> string list \<Rightarrow> (storage_error, string list) res" where
  "server_path_check volume storagePaths =
     (case VolAerospike volume of
        None \<Rightarrow> Ok storagePaths
      | Some att \<Rightarrow>
          if \<not> IsAbs (AttPath att) then Err (VolumePathNotAbsolute (AttPath att))
          else if AttPath att \<in> set reservedPaths then Err (ReservedVolumePath (AttPath att))
          else if AttPath att \<in> set storagePaths then Err (DuplicateVolumePath (AttPath att))
          else Ok (AttPath att # storagePaths))"

definition sidecar_names :: "AerospikePodSpec \<Rightarrow> string list" where
  "sidecar_names podSpec = map ContainerName (Sidecars podSpec)"

definition init_container_names :: "AerospikePodSpec \<Rightarrow> string list" where
  "init_container_names podSpec =
     filter (\<lambda>n. n \<noteq> AerospikeInitContainerName) (map ContainerName (InitContainers podSpec))"

definition volume_attachment_checks ::
  "AerospikePodSpec \<Rightarrow> VolumeSpec \<Rightarrow> storage_state \<Rightarrow> (storage_error, storage_state) res" where
  "volume_attachment_checks podSpec volume st =
     res_bind (server_path_check volume (SsStoragePaths st)) (\<lambda>storagePaths.
     res_bind (res_map_err SidecarMountFailed
        (validateAttachment (VolSidecars volume) (sidecar_names podSpec))) (\<lambda>_.
     res_bind (res_map_err InitContainerMountFailed
        (validateAttachment (VolInitContainers volume) (init_container_names podSpec))) (\<lambda>_.
     res_bind (validateContainerAttachmentPaths (VolSidecars volume) (SsSidecarPaths st)) (\<lambda>sidecarPaths.
     res_bind (validateContainerAttachmentPaths (VolInitContainers volume) (SsInitContainerPaths st)) (\<lambda>initPaths.
     res_bind (validateHostPathVolumeReadOnly volume) (\<lambda>_.
       Ok \<lparr>SsStoragePaths = storagePaths, SsSidecarPaths = sidecarPaths,
           SsInitContainerPaths = initPaths\<rparr>))))))"

fun volumes_loop ::
  "(string \<Rightarrow> string list) \<Rightarrow> AerospikePodSpec \<Rightarrow> string list \<Rightarrow> storage_state \<Rightarrow> VolumeSpec list \<Rightarrow>
   string list \<times> (storage_error, unit) res" where
  "volumes_loop IsDNS1123Label podSpec warnings st [] = (warnings, Ok ())"
| "volumes_loop IsDNS1123Label podSpec warnings st (volume # vols) =
     (case volume_source_checks IsDNS1123Label volume of
        Ok _ \<Rightarrow>
          (let warnings' = warnings @ mount_warnings volume in
           case volume_attachment_checks podSpec volume st of
             Ok st' \<Rightarrow> volumes_loop IsDNS1123Label podSpec warnings' st' vols
           | Err e \<Rightarrow> (warnings', Err e)
           | Panic \<Rightarrow> (warnings', Panic))
      | Err e \<Rightarrow> (warnings, Err e)
      | Panic \<Rightarrow> (warnings, Panic))"

definition validateStorage ::
  "(string \<Rightarrow> string list) \<Rightarrow> AerospikeStorageSpec \<Rightarrow> AerospikePodSpec \<Rightarrow>
   string list \<times> (storage_error, unit) res" where
  "validateStorage IsDNS1123Label storage podSpec =
     (if GetBool (DeleteLocalStorageOnRestart storage) \<and> LocalStorageClasses storage = []
      then ([], Err LocalClassesEmptyOnRestart)
      else if GetBool (DeleteLocalStorageOnPodRecovery storage) \<and> LocalStorageClasses storage = []
      then ([], Err LocalClassesEmptyOnRecovery)
      else volumes_loop IsDNS1123Label podSpec []
        \<lparr>SsStoragePaths = [], SsSidecarPaths = [], SsInitContainerPaths = []\<rparr> (Volumes storage))"

section \<open>What is accepted\<close>

definition source_ok :: "VolumeSpec \<Rightarrow> bool" where
  "source_ok v \<longleftrightarrow> source_count (VolSource v) = 1 \<and>
     (\<forall>pv. SrcPersistentVolume (VolSource v) = Some pv \<longrightarrow>
        (if PvVolumeMode pv = PersistentVolumeBlock
         then InitMethod (VolPolicy v) \<in> {AerospikeVolumeMethodDD, AerospikeVolumeMethodHeaderCleanup,
                AerospikeVolumeMethodBlkdiscard, AerospikeVolumeMethodNone,
                AerospikeVolumeMethodBlkdiscardWithHeaderCleanup} \<and>
              WipeMethod (VolPolicy v) \<in> {AerospikeVolumeMethodBlkdiscard, AerospikeVolumeMethodDD}
         else InitMethod (VolPolicy v) \<in> {AerospikeVolumeMethodNone, AerospikeVolumeMethodDeleteFiles} \<and>
              WipeMethod (VolPolicy v) = AerospikeVolumeMethodDeleteFiles))"

definition attachments_ok :: "string list \<Rightarrow> VolumeAttachment list \<Rightarrow> bool" where
  "attachments_ok names as \<longleftrightarrow>
     distinct (map VaContainerName as) \<and>
     (\<forall>a\<in>set as. VaContainerName a \<in> set names \<and> IsAbs (VaPath a) \<and>
        VaContainerName a \<noteq> AerospikeInitContainerName \<and> VaContainerName a \<noteq> AerospikeServerContainerName)"

definition host_path_ok :: "VolumeSpec \<Rightarrow> bool" where
  "host_path_ok v \<longleftrightarrow> (SrcHostPath (VolSource v) \<noteq> None \<longrightarrow>
     (\<forall>a\<in>set (VolSidecars v @ VolInitContainers v). GetBool (MoReadOnly (VaMountOptions a))) \<and>
     (\<forall>att. VolAerospike v = Some att \<longrightarrow> GetBool (MoReadOnly (AttMountOptions att))))"

definition server_path :: "VolumeSpec \<Rightarrow> string list" where
  "server_path v = (case VolAerospike v of None \<Rightarrow> [] | Some att \<Rightarrow> [AttPath att])"

definition mount_point :: "VolumeAttachment \<Rightarrow> string \<times> string" where
  "mount_point a = (VaContainerName a, VaPath a)"

definition volume_ok :: "(string \<Rightarrow> string list) \<Rightarrow> AerospikePodSpec \<Rightarrow> VolumeSpec \<Rightarrow> bool" where
  "volume_ok dns podSpec v \<longleftrightarrow>
     dns (VolName v) = [] \<and> source_ok v \<and>
     (VolAerospike v \<noteq> None \<or> VolSidecars v \<noteq> [] \<or> VolInitContainers v \<noteq> []) \<and>
     (\<forall>p\<in>set (server_path v). IsAbs p \<and> p \<notin> set reservedPaths) \<and>
     attachments_ok (sidecar_names podSpec) (VolSidecars v) \<and>
     attachments_ok (init_container_names podSpec) (VolInitContainers v) \<and> host_path_ok v"

text \<open>
  An accepted storage: local storage classes where they are needed, every volume well formed, no
  path of the server container and no path of a sidecar or init container mounted twice.
\<close>

definition storage_ok :: "(string \<Rightarrow> string list) \<Rightarrow> AerospikeStorageSpec \<Rightarrow> AerospikePodSpec \<Rightarrow> bool" where
  "storage_ok dns storage podSpec \<longleftrightarrow>
     (GetBool (DeleteLocalStorageOnRestart storage) \<or> GetBool (DeleteLocalStorageOnPodRecovery storage)
        \<longrightarrow> LocalStorageClasses storage \<noteq> []) \<and>
     (\<forall>v\<in>set (Volumes storage). volume_ok dns podSpec v) \<and>
     distinct (concat (map server_path (Volumes storage))) \<and>
     distinct (map mount_point (concat (map VolSidecars (Volumes storage)))) \<and>
     distinct (map mount_point (concat (map VolInitContainers (Volumes storage))))"

lemma validateStorageVolumeSource_iff: "validateStorageVolumeSource v = Ok () \<longleftrightarrow> source_ok v"
  by (cases "SrcPersistentVolume (VolSource v)")
    (auto simp: validateStorageVolumeSource_def source_ok_def Let_def split: if_splits)

lemma attachment_loop_iff:
  "attachment_loop names seen as = Ok () \<longleftrightarrow>
     attachments_ok names as \<and> (\<forall>a\<in>set as. VaContainerName a \<notin> set seen)"
  by (induction as arbitrary: seen) (auto simp: attachments_ok_def image_iff)

lemma attachments_read_only_iff:
  "attachments_read_only n as = Ok () \<longleftrightarrow> (\<forall>a\<in>set as. GetBool (MoReadOnly (VaMountOptions a)))"
  by (induction as) auto

lemma validateHostPath_iff: "validateHostPathVolumeReadOnly v = Ok () \<longleftrightarrow> host_path_ok v"
  by (auto simp: validateHostPathVolumeReadOnly_def host_path_ok_def attachments_read_only_iff res_simps
      split: option.splits)

definition paths_seen :: "string list gomap \<Rightarrow> (string \<times> string) set" where
  "paths_seen paths = {(c, p). \<exists>l. gomap_get paths c = Some l \<and> p \<in> set l}"

lemma paths_seen_put:
  "paths_seen (gomap_put c (p # l) paths) =
     insert (c, p) (paths_seen paths)"
  if "gomap_get paths c = Some l \<or> gomap_get paths c = None \<and> l = []"
  using that by (auto simp: paths_seen_def gomap_simps split: if_splits)

lemma container_paths_step:
  "validateContainerAttachmentPaths (a # as) paths =
     (if mount_point a \<in> paths_seen paths
      then Err (DuplicateAttachmentPath (VaPath a) (VaContainerName a))
      else validateContainerAttachmentPaths as
        (gomap_put (VaContainerName a)
           (VaPath a # (case gomap_get paths (VaContainerName a) of None \<Rightarrow> [] | Some l \<Rightarrow> l)) paths))"
  by (auto simp: mount_point_def paths_seen_def split: option.splits)

lemma container_paths_iff:
  "(\<exists>q. validateContainerAttachmentPaths as paths = Ok q) \<longleftrightarrow>
     distinct (map mount_point as) \<and> mount_point ` set as \<inter> paths_seen paths = {}"
proof (induction as arbitrary: paths)
  case Nil
  show ?case by simp
next
  case (Cons a as)
  show ?case
    by (simp only: container_paths_step Cons.IH)
      (auto simp: paths_seen_put Cons.IH mount_point_def [symmetric] split: option.splits)
qed

lemma container_paths_seen:
  "validateContainerAttachmentPaths as paths = Ok q \<Longrightarrow>
     paths_seen q = mount_point ` set as \<union> paths_seen paths"
proof (induction as arbitrary: paths)
  case Nil
  then show ?case by simp
next
  case (Cons a as)
  let ?l = "case gomap_get paths (VaContainerName a) of None \<Rightarrow> [] | Some l \<Rightarrow> l"
  have "validateContainerAttachmentPaths as (gomap_put (VaContainerName a) (VaPath a # ?l) paths) = Ok q"
    using Cons.prems by (simp only: container_paths_step split: if_splits) simp_all
  from Cons.IH [OF this] show ?case
    using paths_seen_put [of paths "VaContainerName a" ?l "VaPath a"]
    by (auto simp: mount_point_def split: option.splits)
qed

lemma server_path_check_iff:
  "server_path_check v paths = Ok q \<longleftrightarrow>
     (\<forall>p\<in>set (server_path v). IsAbs p \<and> p \<notin> set reservedPaths \<and> p \<notin> set paths) \<and> q = server_path v @ paths"
  by (auto simp: server_path_check_def server_path_def split: option.splits)

lemma volume_checks_Ok_iff:
  "(\<exists>st'. volume_source_checks dns v = Ok () \<and> volume_attachment_checks podSpec v st = Ok st') \<longleftrightarrow>
     volume_ok dns podSpec v \<and> set (server_path v) \<inter> set (SsStoragePaths st) = {} \<and>
     (\<exists>q. validateContainerAttachmentPaths (VolSidecars v) (SsSidecarPaths st) = Ok q) \<and>
     (\<exists>q. validateContainerAttachmentPaths (VolInitContainers v) (SsInitContainerPaths st) = Ok q)"
  by (auto simp: volume_source_checks_def volume_attachment_checks_def volume_ok_def res_simps
      validateStorageVolumeSource_iff validateHostPath_iff server_path_check_iff
      validateAttachment_def attachment_loop_iff)

lemma volume_checks_state:
  assumes "volume_attachment_checks podSpec v st = Ok st'"
  shows "set (SsStoragePaths st') = set (server_path v) \<union> set (SsStoragePaths st)"
    and "paths_seen (SsSidecarPaths st') = mount_point ` set (VolSidecars v) \<union> paths_seen (SsSidecarPaths st)"
    and "paths_seen (SsInitContainerPaths st') =
      mount_point ` set (VolInitContainers v) \<union> paths_seen (SsInitContainerPaths st)"
  using assms
  by (auto simp: volume_attachment_checks_def res_simps server_path_check_iff dest!: container_paths_seen)

lemma volumes_loop_Cons_iff:
  "snd (volumes_loop dns podSpec w st (v # vs)) = Ok () \<longleftrightarrow>
     (\<exists>st'. volume_source_checks dns v = Ok () \<and> volume_attachment_checks podSpec v st = Ok st' \<and>
        snd (volumes_loop dns podSpec (w @ mount_warnings v) st' vs) = Ok ())"
  by (auto simp: Let_def split: res.splits)

text \<open>Elements that are pairwise distinct and not among those already seen.\<close>

definition fresh :: "'a set \<Rightarrow> 'a list \<Rightarrow> bool" where
  "fresh seen xs \<longleftrightarrow> distinct xs \<and> set xs \<inter> seen = {}"

lemma fresh_append: "fresh seen (xs @ ys) \<longleftrightarrow> fresh seen xs \<and> fresh (set xs \<union> seen) ys"
  by (auto simp: fresh_def)

lemma fresh_empty [simp]: "fresh {} xs \<longleftrightarrow> distinct xs"
  by (simp add: fresh_def)

definition loop_accepts :: "(string \<Rightarrow> string list) \<Rightarrow> AerospikePodSpec \<Rightarrow> storage_state \<Rightarrow> VolumeSpec list \<Rightarrow> bool" where
  "loop_accepts dns podSpec st vs \<longleftrightarrow>
     (\<forall>v\<in>set vs. volume_ok dns podSpec v) \<and>
     fresh (set (SsStoragePaths st)) (concat (map server_path vs)) \<and>
     fresh (paths_seen (SsSidecarPaths st)) (map mount_point (concat (map VolSidecars vs))) \<and>
     fresh (paths_seen (SsInitContainerPaths st)) (map mount_point (concat (map VolInitContainers vs)))"

lemma server_path_fresh: "fresh seen (server_path v) \<longleftrightarrow> set (server_path v) \<inter> seen = {}"
  by (simp add: fresh_def server_path_def split: option.split)

lemma volume_checks_fresh:
  "(\<exists>st'. volume_source_checks dns v = Ok () \<and> volume_attachment_checks podSpec v st = Ok st') \<longleftrightarrow>
     volume_ok dns podSpec v \<and> fresh (set (SsStoragePaths st)) (server_path v) \<and>
     fresh (paths_seen (SsSidecarPaths st)) (map mount_point (VolSidecars v)) \<and>
     fresh (paths_seen (SsInitContainerPaths st)) (map mount_point (VolInitContainers v))"
  unfolding volume_checks_Ok_iff container_paths_iff server_path_fresh by (simp add: fresh_def)

lemma loop_accepts_Cons:
  "loop_accepts dns podSpec st (v # vs) \<longleftrightarrow>
     (\<exists>st'. volume_source_checks dns v = Ok () \<and> volume_attachment_checks podSpec v st = Ok st' \<and>
        loop_accepts dns podSpec st' vs)" (is "?l \<longleftrightarrow> ?r")
proof (cases "\<exists>st'. volume_source_checks dns v = Ok () \<and> volume_attachment_checks podSpec v st = Ok st'")
  case True
  then obtain st' where st': "volume_source_checks dns v = Ok ()" "volume_attachment_checks podSpec v st = Ok st'"
    by blast
  from True have "?l \<longleftrightarrow> loop_accepts dns podSpec st' vs"
    unfolding volume_checks_fresh loop_accepts_def
    by (simp add: fresh_append volume_checks_state [OF st'(2)])
  with st' show ?thesis by simp
next
  case False
  then have "\<not> ?l" unfolding volume_checks_fresh by (auto simp: loop_accepts_def fresh_append)
  with False show ?thesis by blast
qed

lemma volumes_loop_iff:
  "snd (volumes_loop dns podSpec w st vs) = Ok () \<longleftrightarrow> loop_accepts dns podSpec st vs"
proof (induction vs arbitrary: w st)
  case Nil
  show ?case by (simp add: loop_accepts_def fresh_def)
next
  case (Cons v vs)
  show ?case unfolding volumes_loop_Cons_iff loop_accepts_Cons by (simp only: Cons.IH)
qed

lemma validateStorage_iff:
  "snd (validateStorage dns storage podSpec) = Ok () \<longleftrightarrow> storage_ok dns storage podSpec"
  by (auto simp: validateStorage_def storage_ok_def volumes_loop_iff loop_accepts_def paths_seen_def)

text \<open>
  Property C24. The storage validator accepts exactly the well-formed storages: every volume has one
  source with methods that fit its mode, is attached somewhere, and no path of any container is
  mounted twice.
\<close>

theorem storage_accepted_iff:
  "snd (validateStorage dns storage podSpec) = Ok () \<longleftrightarrow> storage_ok dns storage podSpec"
  by (rule validateStorage_iff)

section \<open>Changes that are accepted\<close>

definition pv_named :: "VolumeSpec list \<Rightarrow> string \<Rightarrow> PersistentVolumeSpec option" where
  "pv_named vols name =
     (case volume_named vols name of None \<Rightarrow> None | Some v \<Rightarrow> SrcPersistentVolume (VolSource v))"

lemma volume_named_mem:
  "distinct (map VolName vols) \<Longrightarrow> v \<in> set vols \<Longrightarrow> volume_named vols (VolName v) = Some v"
  by (induction vols) (auto simp: volume_named_def image_iff)

lemma volume_named_SomeD: "volume_named vols n = Some v \<Longrightarrow> v \<in> set vols \<and> VolName v = n"
  by (auto simp: volume_named_def find_Some_iff)

lemma isSafeChange_iff:
  "isSafeChange oldV v \<longleftrightarrow>
     rel_option pv_DeepEqual (SrcPersistentVolume (VolSource oldV)) (SrcPersistentVolume (VolSource v))"
  by (simp add: isSafeChange_def split: option.split)

lemma changed_volumes_iff:
  "changed_volumes old new = Ok () \<longleftrightarrow>
     (\<forall>v\<in>set new. \<forall>oldV. volume_named old (VolName v) = Some oldV \<longrightarrow> isSafeChange oldV v)"
  by (induction new) (auto split: option.splits)

lemma added_volumes_iff:
  "(\<exists>r. added_volumes old new = Ok r) \<longleftrightarrow>
     (\<forall>v\<in>set new. volume_named old (VolName v) = None \<longrightarrow> SrcPersistentVolume (VolSource v) = None)"
  by (induction new) (auto simp: res_simps)

lemma removed_volumes_iff:
  "(\<exists>r. removed_volumes new old = Ok r) \<longleftrightarrow>
     (\<forall>v\<in>set old. volume_named new (VolName v) = None \<longrightarrow> SrcPersistentVolume (VolSource v) = None)"
  by (induction old) (auto simp: res_simps)

lemma validateStorageSpecChange_iff:
  "validateStorageSpecChange s t = Ok () \<longleftrightarrow>
     changed_volumes (Volumes s) (Volumes t) = Ok () \<and>
     (\<exists>r. added_volumes (Volumes s) (Volumes t) = Ok r) \<and>
     (\<exists>r. removed_volumes (Volumes t) (Volumes s) = Ok r)"
  by (auto simp: validateStorageSpecChange_def validateAddedOrRemovedVolumes_def res_simps)

lemma volumes_rel_by_name:
  assumes "distinct (map VolName old)" and "distinct (map VolName new)"
  shows "changed_volumes old new = Ok () \<and> (\<exists>r. added_volumes old new = Ok r) \<and>
      (\<exists>r. removed_volumes new old = Ok r) \<longleftrightarrow>
    (\<forall>n. rel_option pv_DeepEqual (pv_named old n) (pv_named new n))" (is "?l \<longleftrightarrow> ?r")
proof
  assume l: ?l
  show ?r
  proof
    fix n
    show "rel_option pv_DeepEqual (pv_named old n) (pv_named new n)"
    proof (cases "volume_named new n")
      case None
      with l show ?thesis
        unfolding removed_volumes_iff
        by (auto simp: pv_named_def split: option.splits dest!: volume_named_SomeD)
    next
      case (Some v)
      note v = this volume_named_SomeD [OF this]
      with l show ?thesis
        unfolding changed_volumes_iff added_volumes_iff
        by (cases "volume_named old n")
          (auto simp: pv_named_def isSafeChange_iff)
    qed
  qed
next
  assume r: ?r
  have "isSafeChange oldV v" if "v \<in> set new" "volume_named old (VolName v) = Some oldV" for v oldV
    using r [rule_format, of "VolName v"] that volume_named_mem [OF assms(2)]
    by (auto simp: pv_named_def isSafeChange_iff)
  moreover have "SrcPersistentVolume (VolSource v) = None" if "v \<in> set new" "volume_named old (VolName v) = None" for v
    using r [rule_format, of "VolName v"] that volume_named_mem [OF assms(2)] by (auto simp: pv_named_def)
  moreover have "SrcPersistentVolume (VolSource v) = None" if "v \<in> set old" "volume_named new (VolName v) = None" for v
    using r [rule_format, of "VolName v"] that volume_named_mem [OF assms(1)] by (auto simp: pv_named_def)
  ultimately show ?l
    unfolding changed_volumes_iff added_volumes_iff removed_volumes_iff by blast
qed


definition example_volume :: VolumeSpec where
  "example_volume = \<lparr>VolPolicy = no_policy, VolName = ''workdir'',
     VolSource = no_source\<lparr>SrcPersistentVolume := Some \<lparr>PvLabels = None, PvAnnotations = None,
       PvStorageClass = ''ssd'', PvVolumeMode = ''Filesystem'', PvSize = ''1Gi'', PvAccessModes = None,
       PvSelector = None\<rparr>\<rparr>,
     VolAerospike = Some \<lparr>AttPath = ''/opt/aerospike'', AttMountOptions = no_mount_options\<rparr>,
     VolSidecars = [], VolInitContainers = []\<rparr>"

definition example_secret_volume :: VolumeSpec where
  "example_secret_volume = example_volume\<lparr>VolName := ''certs'',
     VolSource := no_source\<lparr>SrcSecret := Some (GMap [])\<rparr>,
     VolAerospike := Some \<lparr>AttPath = ''/etc/certs'', AttMountOptions = no_mount_options\<rparr>\<rparr>"


section \<open>Defaults\<close>

lemma policy_defaults_idem:
  "setAerospikePersistentVolumePolicyDefaults (setAerospikePersistentVolumePolicyDefaults p d) d =
   setAerospikePersistentVolumePolicyDefaults p d"
  by (simp add: setAerospikePersistentVolumePolicyDefaults_def split: option.split)

lemma volume_defaults_idem:
  "volume_defaults fs blk (volume_defaults fs blk v) = volume_defaults fs blk v"
  by (auto simp: volume_defaults_def policy_defaults_idem split: option.splits)

lemma volume_defaults_frame [simp]:
  "VolName (volume_defaults fs blk v) = VolName v" "VolSource (volume_defaults fs blk v) = VolSource v"
  by (auto simp: volume_defaults_def split: option.split)

lemma volume_named_map:
  "(\<And>v. VolName (f v) = VolName v) \<Longrightarrow> volume_named (map f vols) n = map_option f (volume_named vols n)"
  by (induction vols) (auto simp: volume_named_def)

text \<open>
  Fact. Applying the storage defaults twice is applying them once, so re-admitting a defaulted
  object changes nothing, and defaulting is never refused as a change of the storage.
\<close>

theorem storage_defaults_stable:
  assumes "distinct (map VolName (Volumes s))"
  shows "setStorageDefaults (setStorageDefaults s) = setStorageDefaults s \<and>
    validateStorageSpecChange s (setStorageDefaults s) = Ok ()"
proof
  show "setStorageDefaults (setStorageDefaults s) = setStorageDefaults s"
    by (simp add: setStorageDefaults_def Let_def policy_defaults_idem volume_defaults_idem)
next
  have names: "map VolName (Volumes (setStorageDefaults s)) = map VolName (Volumes s)"
    by (simp add: setStorageDefaults_def Let_def)
  have "pv_named (Volumes (setStorageDefaults s)) n = pv_named (Volumes s) n" for n
    by (simp add: setStorageDefaults_def Let_def pv_named_def volume_named_map split: option.split)
  then show "validateStorageSpecChange s (setStorageDefaults s) = Ok ()"
    unfolding validateStorageSpecChange_iff
    using volumes_rel_by_name [OF assms, of "Volumes (setStorageDefaults s)"] assms names
    by (simp add: option.rel_refl)
qed

theorem storage_defaults_witness:
  "setStorageDefaults (setStorageDefaults (no_storage\<lparr>Volumes := [example_volume]\<rparr>)) =
     setStorageDefaults (no_storage\<lparr>Volumes := [example_volume]\<rparr>) \<and>
   WipeMethod (VolPolicy (hd (Volumes (setStorageDefaults (no_storage\<lparr>Volumes := [example_volume]\<rparr>))))) =
     ''deleteFiles''"
proof -
  have "WipeMethod (VolPolicy (hd (Volumes (setStorageDefaults (no_storage\<lparr>Volumes := [example_volume]\<rparr>))))) =
     ''deleteFiles''" by code_simp
  with storage_defaults_stable [of "no_storage\<lparr>Volumes := [example_volume]\<rparr>"] show ?thesis by simp
qed

end
