(* ===== verification/Go_Path.thy ===== *)
theory Go_Path
  imports Go_Strings
begin

text \<open>
  The lexical path functions of Go's \<^verbatim>\<open>path/filepath\<close> on a Unix system that the code calls, and
  \<^verbatim>\<open>IsPathParentOrSame\<close> of \<^verbatim>\<open>api/v1/utils.go\<close>.
\<close>

text \<open>
  The components of a cleaned path: empty ones and \<^verbatim>\<open>.\<close> are dropped, \<^verbatim>\<open>..\<close> takes back the component
  before it; at the start it stays in a relative path and is dropped in a rooted one.
\<close>

fun clean_parts :: "bool \<Rightarrow> string list \<Rightarrow> string list \<Rightarrow> string list" where
  "clean_parts rooted acc [] = acc"
| "clean_parts rooted acc (c # cs) =
     (if c = [] \<or> c = ''.'' then clean_parts rooted acc cs
      else if c = ''..'' then
        (if acc \<noteq> [] \<and> last acc \<noteq> ''..'' then clean_parts rooted (butlast acc) cs
         else if rooted then clean_parts rooted acc cs
         else clean_parts rooted (acc @ [''..'']) cs)
      else clean_parts rooted (acc @ [c]) cs)"

definition rooted :: "string \<Rightarrow> bool" where
  "rooted p \<longleftrightarrow> HasPrefix p ''/''"

definition path_parts :: "string \<Rightarrow> string list" where
  "path_parts p = clean_parts (rooted p) [] (Split (CHR ''/'') p)"

text \<open>\<^verbatim>\<open>filepath.Clean\<close>\<close>

definition Clean :: "string \<Rightarrow> string" where
  "Clean p =
     (if rooted p then CHR ''/'' # Join (path_parts p) ''/''
      else if path_parts p = [] then ''.'' else Join (path_parts p) ''/'')"

text \<open>\<^verbatim>\<open>filepath.Dir\<close>: what stands up to the last separator, cleaned.\<close>

definition path_dir :: "string \<Rightarrow> string" where
  "path_dir p = Clean (rev (dropWhile (\<lambda>c. c \<noteq> CHR ''/'') (rev p)))"

fun drop_common :: "string list \<Rightarrow> string list \<Rightarrow> string list \<times> string list" where
  "drop_common (b # bs) (t # ts) = (if b = t then drop_common bs ts else (b # bs, t # ts))"
| "drop_common bs ts = (bs, ts)"

text \<open>\<^verbatim>\<open>filepath.Rel\<close>; \<open>None\<close> is its error.\<close>

definition Rel :: "string \<Rightarrow> string \<Rightarrow> string option" where
  "Rel base targ =
     (if Clean targ = Clean base then Some ''.''
      else if rooted base \<noteq> rooted targ then None
      else
        let (up, down) = drop_common (path_parts base) (path_parts targ) in
        if up \<noteq> [] \<and> hd up = ''..'' then None
        else Some (Join (map (\<lambda>_. ''..'') up @ down) ''/''))"

definition IsPathParentOrSame :: "string \<Rightarrow> string \<Rightarrow> bool" where
  "IsPathParentOrSame dir1 dir2 =
     (case Rel dir1 dir2 of None \<Rightarrow> False | Some relPath \<Rightarrow> \<not> HasPrefix relPath ''..'')"

text \<open>\<^verbatim>\<open>strings.TrimSpace\<close>\<close>

function trim_left :: "string \<Rightarrow> string" where
  "trim_left s = (if s = [] \<or> space_rune_len s = 0 then s else trim_left (drop (space_rune_len s) s))"
  by pat_completeness auto
termination
  by (relation "measure length") auto

declare trim_left.simps [simp del]

fun trim_right :: "string \<Rightarrow> string" where
  "trim_right [] = []"
| "trim_right (c # s) = (if is_blank (c # s) then [] else c # trim_right s)"

definition TrimSpace :: "string \<Rightarrow> string" where
  "TrimSpace s = trim_right (trim_left s)"

text \<open>The order of strings by bytes.\<close>

fun string_less :: "string \<Rightarrow> string \<Rightarrow> bool" where
  "string_less [] t = (t \<noteq> [])"
| "string_less (c # s) t =
     (case t of
        [] \<Rightarrow> False
      | d # t' \<Rightarrow> (of_char c :: nat) < of_char d \<or> c = d \<and> string_less s t')"

section \<open>Trimming again changes nothing\<close>

lemma three_bytes:
  obtains "s = []" | a where "s = [a]" | a b where "s = [a, b]" | a b c u where "s = a # b # c # u"
  by (metis list.exhaust)

lemma space_rune_len_append: "space_rune_len s \<noteq> 0 \<Longrightarrow> space_rune_len (s @ t) = space_rune_len s"
  by (cases s rule: three_bytes) (auto simp: space_rune_len_def split: if_splits)

lemma space_rune_len_le: "space_rune_len s \<le> length s"
  by (cases s rule: three_bytes) (simp_all add: space_rune_len_def)

lemma is_blank_append: "is_blank s \<Longrightarrow> is_blank t \<Longrightarrow> is_blank (s @ t)"
proof (induction s rule: is_blank.induct)
  case (1 s)
  show ?case
  proof (cases "s = []")
    case False
    then have n: "space_rune_len s \<noteq> 0" "is_blank (drop (space_rune_len s) s)"
      using 1(2) by (auto simp: is_blank.simps [of s] split: if_splits)
    have "is_blank (drop (space_rune_len s) s @ t)" by (rule 1(1) [OF False n(1) n(2) 1(3)])
    with n(1) space_rune_len_le [of s] False show ?thesis
      by (subst is_blank.simps) (simp add: space_rune_len_append)
  qed (use 1 in simp)
qed

lemma trim_right_blank: "\<exists>w. s = trim_right s @ w \<and> is_blank w"
proof (induction s)
  case (Cons c s)
  then obtain w where "s = trim_right s @ w" "is_blank w" by blast
  then show ?case by (cases "is_blank (c # s)") auto
qed (simp add: is_blank.simps)

lemma trim_right_idem: "trim_right (trim_right s) = trim_right s"
proof (induction s)
  case (Cons c s)
  show ?case
  proof (cases "is_blank (c # s)")
    case False
    obtain w where "s = trim_right s @ w" "is_blank w" using trim_right_blank by blast
    then have "\<not> is_blank (c # trim_right s)" using False is_blank_append [of "c # trim_right s" w] by auto
    with False Cons show ?thesis by simp
  qed simp
qed simp

lemma trim_left_no_space: "space_rune_len (trim_left s) = 0"
  by (induction s rule: trim_left.induct) (simp add: trim_left.simps)

lemma TrimSpace_no_space: "space_rune_len (TrimSpace s) = 0"
proof -
  obtain w where "trim_left s = TrimSpace s @ w" unfolding TrimSpace_def using trim_right_blank by blast
  then show ?thesis using space_rune_len_append [of "TrimSpace s" w] trim_left_no_space [of s] by metis
qed

lemma TrimSpace_fixed: "space_rune_len s = 0 \<Longrightarrow> trim_right s = s \<Longrightarrow> TrimSpace s = s"
  by (simp add: TrimSpace_def trim_left.simps)

lemma TrimSpace_idem: "TrimSpace (TrimSpace s) = TrimSpace s"
  by (rule TrimSpace_fixed [OF TrimSpace_no_space]) (simp add: TrimSpace_def trim_right_idem)

lemma space_rune_len_slash: "space_rune_len (s @ CHR ''/'' # t) = space_rune_len s"
proof (cases s rule: three_bytes)
  case 1
  then show ?thesis by (cases t rule: three_bytes) (simp_all add: space_rune_len_def)
next
  case (2 a)
  then show ?thesis by (cases t rule: three_bytes) (simp_all add: space_rune_len_def)
qed (simp_all add: space_rune_len_def)

lemma blank_no_slash: "is_blank s \<Longrightarrow> CHR ''/'' \<notin> set s"
proof (induction s rule: is_blank.induct)
  case (1 s)
  show ?case
  proof
    assume "CHR ''/'' \<in> set s"
    then obtain a b where s: "s = a @ CHR ''/'' # b" by (auto dest: split_list)
    have n: "space_rune_len s \<noteq> 0" "is_blank (drop (space_rune_len s) s)" "s \<noteq> []"
      using 1(2) s unfolding is_blank.simps [of s] by (simp_all split: if_splits)
    have "space_rune_len s \<le> length a" using space_rune_len_slash [of a b] space_rune_len_le [of a] s by simp
    then have "CHR ''/'' \<in> set (drop (space_rune_len s) s)" using s by simp
    with 1(1) [OF n(3,1,2)] show False by simp
  qed
qed

lemma trim_right_slash: "trim_right t = t \<Longrightarrow> trim_right (s @ CHR ''/'' # t) = s @ CHR ''/'' # t"
  using blank_no_slash by (induction s) fastforce+

lemma Split_slash: "length (Split c s) = 1 \<longleftrightarrow> c \<notin> set s"
  by (induction s) (auto split: list.splits)

end
