(* ===== verification/Cluster_Validate.thy ===== *)
theory Cluster_Validate
  imports Config_Validate Storage Access_Validate Naming Go_Path Pod_Health
begin

text \<open>
  The validating webhook of a cluster, as far as it looks at one specification
  (\<^verbatim>\<open>internal/webhook/v1/aerospikecluster_validating_webhook.go\<close>: \<^verbatim>\<open>validate\<close>, \<^verbatim>\<open>ValidateCreate\<close> and
  what they call). A verdict is a list of warnings and an outcome. Error texts are shortened to the
  field they are about.
\<close>

section \<open>Verdicts\<close>

datatype cluster_error =
    VConfig config_error
  | VStorage storage_error
  | VAccess ac_error
  | VConf conf_error
  | VImage image_error
  | VLib string
  | V string

type_synonym 'a verdict = "string list \<times> (cluster_error, 'a) res"

definition vbind :: "'a verdict \<Rightarrow> ('a \<Rightarrow> 'b verdict) \<Rightarrow> 'b verdict" where
  "vbind v f =
     (case v of
        (ws, Ok a) \<Rightarrow> (case f a of (ws', r) \<Rightarrow> (ws @ ws', r))
      | (ws, Err e) \<Rightarrow> (ws, Err e)
      | (ws, Panic) \<Rightarrow> (ws, Panic))"

definition check :: "(cluster_error, 'a) res \<Rightarrow> 'a verdict" where
  "check r = ([], r)"

definition warn :: "string list \<Rightarrow> unit verdict" where
  "warn ws = (ws, Ok ())"

lemma snd_vbind [res_simps]: "snd (vbind v f) = res_bind (snd v) (\<lambda>a. snd (f a))"
  by (auto simp: vbind_def split: prod.splits res.splits)

lemma snd_check [res_simps, simp]: "snd (check r) = r"
  by (simp add: check_def)

lemma snd_warn [res_simps, simp]: "snd (warn ws) = Ok ()"
  by (simp add: warn_def)

text \<open>
  Functions of libraries: versions and schemas of the management library, label checks and scaled values of
  the Kubernetes libraries, and the names in the certificate at a path.
\<close>

record validate_env =
  CompareVersions :: "string \<Rightarrow> string \<Rightarrow> (string, int) res"
  BaseVersion :: "string \<Rightarrow> (string, string) res"
  IsValidUpgrade :: "string \<Rightarrow> string \<Rightarrow> string option"
  Schema :: "string \<Rightarrow> gval gomap \<Rightarrow> string option"
  IsDNSName :: "string \<Rightarrow> bool"
  IsDNS1123Label :: "string \<Rightarrow> string list"
  IsDNS1035Label :: "string \<Rightarrow> string list"
  ScaledValue :: "IntOrString option \<Rightarrow> int \<Rightarrow> bool \<Rightarrow> (string, int) res"
  IntValue :: "IntOrString \<Rightarrow> int"
  InitImageEnv :: "string \<Rightarrow> string option"
  CertificateNames :: "string \<Rightarrow> (string, string list) res"

definition baseVersion :: string where "baseVersion = ''6.0.0.0''"
definition minInitVersionForDynamicConf :: string where "minInitVersionForDynamicConf = ''2.2.0''"
definition minVersionForEnterprisePKIOnlyAuthMode :: string where
  "minVersionForEnterprisePKIOnlyAuthMode = ''8.1.0.0''"
definition minVersionForCgroupMemTracking :: string where "minVersionForCgroupMemTracking = ''8.1.2.0''"

definition older :: "validate_env \<Rightarrow> string \<Rightarrow> string \<Rightarrow> (cluster_error, bool) res" where
  "older env version bound =
     res_bind (res_map_err VLib (CompareVersions env version bound)) (\<lambda>val. Ok (val < 0))"

section \<open>Names, image, operations\<close>

definition DNS1123LabelMaxLength :: int where "DNS1123LabelMaxLength = 63"
definition MaxRackID :: int where "MaxRackID = 1000000"
definition minRevisionReservation :: int where "minRevisionReservation = 3"
definition k8sControllerRevisionHashLabelValueMaxRunes :: int where
  "k8sControllerRevisionHashLabelValueMaxRunes = 10"

definition validateNamingConstraints :: "validate_env \<Rightarrow> AerospikeCluster \<Rightarrow> (cluster_error, unit) res" where
  "validateNamingConstraints env cluster =
     (if IsDNS1035Label env (ClusterName cluster) \<noteq> [] then Err (V ''cluster name'')
      else
        let aerospikeMaxPlaceholderLen =
              fold (\<lambda>rack l. max l (int (length (RackRevision rack)))) (SpecRacks (ClusterSpec cluster))
                minRevisionReservation;
            aerospikeFixedOverhead = 3 + int (length (Itoa MaxRackID));
            totalRuneCount = int (length (ClusterName cluster)) + aerospikeFixedOverhead +
              aerospikeMaxPlaceholderLen + k8sControllerRevisionHashLabelValueMaxRunes
        in if totalRuneCount > DNS1123LabelMaxLength then Err (V ''label length'') else Ok ())"

definition isEnterprise :: "string \<Rightarrow> bool" where
  "isEnterprise img = Contains (ToLower img) ''enterprise''"

definition validateImage :: "AerospikeClusterSpec \<Rightarrow> (cluster_error, unit) res" where
  "validateImage spec =
     (if SpecImage spec = [] then Err (V ''image empty'')
      else if \<not> isEnterprise (SpecImage spec) \<and> \<not> IsFederal (SpecImage spec) then Err (V ''image edition'')
      else Ok ())"

definition validateOperation :: "AerospikeCluster \<Rightarrow> (cluster_error, unit) res" where
  "validateOperation cluster =
     (if elems (SpecOperations (ClusterSpec cluster)) = [] then Ok ()
      else if StAerospikeConfig (ClusterStatus cluster) = None then Err (V ''operation on creation'')
      else Ok ())"

definition hasPKIOnlyUser :: "AerospikeClusterSpec \<Rightarrow> bool" where
  "hasPKIOnlyUser spec =
     (case SpecAccessControl spec of
        None \<Rightarrow> False
      | Some ac \<Rightarrow> list_ex (\<lambda>user. UserAuthMode user = AerospikeAuthModePKIOnly) (Users ac))"

definition image_version :: "string \<Rightarrow> (cluster_error, string) res" where
  "image_version img = res_map_err VImage (GetImageVersion img)"

definition validatePKIAuthSupportForEE :: "validate_env \<Rightarrow> AerospikeClusterSpec \<Rightarrow> (cluster_error, unit) res" where
  "validatePKIAuthSupportForEE env spec =
     (if \<not> isEnterprise (SpecImage spec) \<or> \<not> hasPKIOnlyUser spec then Ok ()
      else
        res_bind (image_version (SpecImage spec)) (\<lambda>version.
        res_bind (older env version minVersionForEnterprisePKIOnlyAuthMode) (\<lambda>old.
          if old then Err (V ''PKIOnly version'') else Ok ())))"

definition validateAccessControl :: "validate_env \<Rightarrow> AerospikeCluster \<Rightarrow> (cluster_error, unit) res" where
  "validateAccessControl env cluster =
     res_bind (res_map_err VAccess (IsAerospikeAccessControlValid (ClusterSpec cluster))) (\<lambda>_.
       validatePKIAuthSupportForEE env (ClusterSpec cluster))"

definition validateAccessControlCreate :: "AerospikeClusterSpec \<Rightarrow> (cluster_error, unit) res" where
  "validateAccessControlCreate spec =
     res_bind (res_map_err VConf (IsSecurityEnabled (Value (SpecAerospikeConfig spec)))) (\<lambda>enabled.
       if \<not> enabled \<and> SpecAccessControl spec \<noteq> None then Err (V ''security disabled'') else Ok ())"

section \<open>Pod specification\<close>

definition validateResourceAndLimits :: "ResourceRequirements option \<Rightarrow> bool \<Rightarrow> (cluster_error, unit) res" where
  "validateResourceAndLimits resources checkResourcesLimits =
     (case resources of
        None \<Rightarrow> if checkResourcesLimits then Err (V ''init container limits'') else Ok ()
      | Some res \<Rightarrow>
          if checkResourcesLimits \<and> ResLimits res = None then Err (V ''init container limits'')
          else
            (case (ResLimits res, ResRequests res) of
               (Some limits, Some requests) \<Rightarrow>
                 if ResCpu limits < ResCpu requests \<or> ResMemory limits < ResMemory requests
                 then Err (V ''limits below requests'') else Ok ()
             | _ \<Rightarrow> Ok ()))"

definition validatePodSpecResourceAndLimits :: "AerospikeCluster \<Rightarrow> (cluster_error, unit) res" where
  "validatePodSpecResourceAndLimits cluster =
     (let podSpec = SpecPodSpec (ClusterSpec cluster) in
      res_bind (validateResourceAndLimits (ContainerResources podSpec) False) (\<lambda>_.
        let checkResourcesLimits =
              list_ex (\<lambda>rack. CleanupThreads (RackStorage rack) \<noteq> 1) (SpecRacks (ClusterSpec cluster))
        in case InitContainerSpec podSpec of
             None \<Rightarrow> if checkResourcesLimits then Err (V ''init container limits'') else Ok ()
           | Some init \<Rightarrow> validateResourceAndLimits (InitResources init) checkResourcesLimits))"

fun validatePodSpecContainer :: "string list \<Rightarrow> Container list \<Rightarrow> (cluster_error, unit) res" where
  "validatePodSpecContainer seen [] = Ok ()"
| "validatePodSpecContainer seen (container # containers) =
     (if ContainerName container = AerospikeServerContainerName then Err (V ''reserved container name'')
      else if ContainerName container \<in> set seen then Err (V ''duplicate container name'')
      else validatePodSpecContainer (ContainerName container # seen) containers)"

definition ValidateAerospikeObjectMeta :: "AerospikePodSpec \<Rightarrow> (cluster_error, unit) res" where
  "ValidateAerospikeObjectMeta podSpec =
     (if list_ex (\<lambda>label. label \<in> {AerospikeAppLabel, AerospikeRackIDLabel, AerospikeCustomResourceLabel})
           (gomap_keys (ObjectLabels podSpec))
      then Err (V ''reserved label'')
      else if list_ex (\<lambda>annotation. annotation = EvictionBlockedAnnotation) (gomap_keys (ObjectAnnotations podSpec))
      then Err (V ''reserved annotation'')
      else Ok ())"

definition validateDNS :: "string \<Rightarrow> string option \<Rightarrow> (cluster_error, unit) res" where
  "validateDNS dnsPolicy dnsConfig =
     (if dnsPolicy = ''Default'' then Err (V ''dnsPolicy Default'')
      else if dnsPolicy = ''None'' \<and> dnsConfig = None then Err (V ''dnsConfig required'')
      else Ok ())"

definition validatePodSpec :: "AerospikeCluster \<Rightarrow> (cluster_error, unit) res" where
  "validatePodSpec cluster =
     (let podSpec = SpecPodSpec (ClusterSpec cluster) in
      if HostNetwork podSpec \<and> GetBool (MultiPodPerHost podSpec) then Err (V ''hostNetwork with multiPodPerHost'')
      else
        res_bind (validateDNS (DNSPolicy podSpec) (DNSConfig podSpec)) (\<lambda>_.
        res_bind (ValidateAerospikeObjectMeta podSpec) (\<lambda>_.
          validatePodSpecContainer [] (Sidecars podSpec @ InitContainers podSpec))))"

section \<open>Client certificates and deprecated fields\<close>

definition IsClientCertConfigured :: "AerospikeOperatorClientCertSpec \<Rightarrow> bool" where
  "IsClientCertConfigured certSpec \<longleftrightarrow>
     (case SecretCertSource certSpec of None \<Rightarrow> False | Some src \<Rightarrow> ClientCertFilename src \<noteq> []) \<or>
     (case CertPathInOperator certSpec of None \<Rightarrow> False | Some src \<Rightarrow> ClientCertPath src \<noteq> [])"

definition validateOperatorClientCert :: "AerospikeOperatorClientCertSpec \<Rightarrow> (cluster_error, unit) res" where
  "validateOperatorClientCert clientCert =
     (if (SecretCertSource clientCert = None) = (CertPathInOperator clientCert = None)
      then Err (V ''either secretCertSource or certPathInOperator'')
      else
        res_bind
          (case SecretCertSource clientCert of
             None \<Rightarrow> Ok ()
           | Some src \<Rightarrow>
               if (ClientCertFilename src = []) \<noteq> (ClientKeyFilename src = []) then Err (V ''certificate and key'')
               else if CaCertsFilename src \<noteq> [] \<and> CertCaCertsSource src \<noteq> None then Err (V ''CA certificates twice'')
               else Ok ()) (\<lambda>_.
        res_bind
          (case CertPathInOperator clientCert of
             None \<Rightarrow> Ok ()
           | Some src \<Rightarrow>
               if (ClientCertPath src = []) \<noteq> (ClientKeyPath src = []) then Err (V ''certificate and key'') else Ok ()) (\<lambda>_.
          if \<not> IsClientCertConfigured clientCert then Err (V ''client certificate missing'') else Ok ())))"

definition warnOperatorClientCertSecretNamespace :: "AerospikeOperatorClientCertSpec option \<Rightarrow> string list" where
  "warnOperatorClientCertSecretNamespace spec =
     (case Option.bind spec SecretCertSource of
        None \<Rightarrow> []
      | Some src \<Rightarrow>
          (if CertSecretNamespace src \<noteq> [] then [''secretNamespace is deprecated''] else []) @
          (case CertCaCertsSource src of
             None \<Rightarrow> []
           | Some ca \<Rightarrow> if CaSecretNamespace ca \<noteq> [] then [''caCertsSource.secretNamespace is deprecated''] else []))"

definition warnValidationPolicySkipXdrDlogFileValidate :: "ValidationPolicySpec option \<Rightarrow> string list" where
  "warnValidationPolicySkipXdrDlogFileValidate policy =
     (case policy of
        None \<Rightarrow> []
      | Some p \<Rightarrow> if SkipXdrDlogFileValidate p then [''skipXdrDlogFileValidate is deprecated''] else [])"

definition validateDeprecatedFields :: "AerospikeCluster \<Rightarrow> string list" where
  "validateDeprecatedFields cluster =
     warnOperatorClientCertSecretNamespace (SpecOperatorClientCert (ClusterSpec cluster)) @
     warnValidationPolicySkipXdrDlogFileValidate (SpecValidationPolicy (ClusterSpec cluster))"

text \<open>The switch over \<^verbatim>\<open>tls-authenticate-client\<close>.\<close>

definition validate_client_auth ::
  "gval \<Rightarrow> bool \<Rightarrow> AerospikeOperatorClientCertSpec option \<Rightarrow> (cluster_error, unit) res" where
  "validate_client_auth tlsAuthenticateClient isPKIOnlyEnabled clientCert =
     (if tlsAuthenticateClient = GString ''false'' then
        (if isPKIOnlyEnabled then Err (V ''tls-authenticate-client false with PKIOnly'') else Ok ())
      else
        (case clientCert of
           None \<Rightarrow> Err (V ''operator client cert missing'')
         | Some cert \<Rightarrow>
             if tlsAuthenticateClient = GString ''any'' then validateOperatorClientCert cert
             else if TLSClientName cert = [] then Err (V ''TLSClientName missing'')
             else if isPKIOnlyEnabled \<and> TLSClientName cert \<noteq> AdminUsername then Err (V ''TLSClientName not admin'')
             else validateOperatorClientCert cert))"

definition validateClientCertSpec :: "AerospikeCluster \<Rightarrow> (cluster_error, unit) res" where
  "validateClientCertSpec cluster =
     (case gomap_get (conf_map (SpecAerospikeConfig (ClusterSpec cluster))) ConfKeyNetwork of
        None \<Rightarrow> Err (V ''network nil'')
      | Some networkConf \<Rightarrow>
          res_bind (must (as_map networkConf)) (\<lambda>network.
            case gomap_get network ConfKeyNetworkService of
              None \<Rightarrow> Err (V ''network.service nil'')
            | Some serviceConf \<Rightarrow>
                res_bind (must (as_map serviceConf)) (\<lambda>serviceConfMap.
                  let isPKIOnlyEnabled = hasPKIOnlyUser (ClusterSpec cluster) in
                  if isPKIOnlyEnabled \<and> \<not> has serviceConfMap ConfKeyTLSName then Err (V ''PKIOnly needs mTLS'')
                  else
                    (case gomap_get serviceConfMap ''tls-authenticate-client'' of
                       None \<Rightarrow> Ok ()
                     | Some v \<Rightarrow> validate_client_auth v isPKIOnlyEnabled (SpecOperatorClientCert (ClusterSpec cluster))))))"

definition validateTLSClientNames ::
  "validate_env \<Rightarrow> gval gomap \<Rightarrow> AerospikeOperatorClientCertSpec option \<Rightarrow> (cluster_error, unit) res" where
  "validateTLSClientNames env serviceConf clientCertSpec =
     res_bind (res_map_err VConfig (ValidateTLSAuthenticateClient (IsDNSName env) serviceConf)) (\<lambda>dnsNames.
       if dnsNames = [] then Ok ()
       else
         let path = (case Option.bind clientCertSpec CertPathInOperator of None \<Rightarrow> [] | Some src \<Rightarrow> ClientCertPath src) in
         res_bind (if path = [] then Ok [] else res_map_err VLib (CertificateNames env path)) (\<lambda>localCertNames.
           if \<not> list_ex (\<lambda>n. n \<in> set localCertNames) dnsNames \<and> localCertNames \<noteq> []
           then Err (V ''tls-authenticate-client'') else Ok ()))"

definition webhook_validateNetworkConfig ::
  "validate_env \<Rightarrow> gval gomap \<Rightarrow> AerospikeOperatorClientCertSpec option \<Rightarrow> (cluster_error, unit) res" where
  "webhook_validateNetworkConfig env config operatorClientCert =
     res_bind (must (as_map (idx config ConfKeyNetwork))) (\<lambda>networkConf.
     res_bind (must (as_map (idx networkConf ConfKeyNetworkService))) (\<lambda>serviceConf.
       validateTLSClientNames env serviceConf operatorClientCert))"

section \<open>Network policy\<close>

definition AerospikeNetworkTypeCustomInterface :: string where
  "AerospikeNetworkTypeCustomInterface = ''customInterface''"

definition setNamespaceDefault :: "string \<Rightarrow> string \<Rightarrow> string" where
  "setNamespaceDefault namespace network =
     (let netName = TrimSpace network in
      if length (Split (CHR ''/'') netName) = 1 then namespace @ ''/'' @ netName else netName)"

definition validate_network_list ::
  "AerospikePodSpec \<Rightarrow> string list \<Rightarrow> string \<times> string slice \<Rightarrow> (cluster_error, unit) res" where
  "validate_network_list podSpec networkSet entry =
     (case entry of (networkType, netList) \<Rightarrow>
       if networkType \<noteq> AerospikeNetworkTypeCustomInterface then Ok ()
       else if netList = None then Err (V ''custom network names required'')
       else if HostNetwork podSpec then Err (V ''hostNetwork with customInterface'')
       else if \<not> list_all (\<lambda>n. n \<in> set networkSet) (elems netList) then Err (V ''networks not in annotation'')
       else Ok ())"

definition validateNetworkPolicy :: "AerospikeCluster \<Rightarrow> (cluster_error, unit) res" where
  "validateNetworkPolicy cluster =
     (let policy = SpecNetworkPolicy (ClusterSpec cluster);
          podSpec = SpecPodSpec (ClusterSpec cluster);
          networks = (case gomap_get (ObjectAnnotations podSpec) ''k8s.v1.cni.cncf.io/networks'' of
                        None \<Rightarrow> [] | Some s \<Rightarrow> s);
          networkSet = map (setNamespaceDefault (ClusterNamespace cluster)) (Split (CHR '','') networks)
      in for_each (validate_network_list podSpec networkSet)
           [(AccessType policy, CustomAccessNetworkNames policy),
            (AlternateAccessType policy, CustomAlternateAccessNetworkNames policy),
            (TLSAccessType policy, CustomTLSAccessNetworkNames policy),
            (TLSAlternateAccessType policy, CustomTLSAlternateAccessNetworkNames policy),
            (FabricType policy, CustomFabricNetworkNames policy),
            (TLSFabricType policy, CustomTLSFabricNetworkNames policy)])"

section \<open>Preview features and versions\<close>

definition PreviewFeatureIndexCheckpoint :: string where "PreviewFeatureIndexCheckpoint = ''index-checkpoint''"

record PreviewFeatureInfo =
  MinVersion :: string
  GAVersion :: string

definition PreviewFeatureVersions :: "PreviewFeatureInfo gomap" where
  "PreviewFeatureVersions = [(PreviewFeatureIndexCheckpoint, \<lparr>MinVersion = ''8.2.0.0'', GAVersion = []\<rparr>)]"

definition indexCheckpointNamespaceKeys :: "string list" where
  "indexCheckpointNamespaceKeys = [''index-checkpoint-threads'', ''index-checkpoint-compression'', ConfKeySkipCheckpoint]"

definition validateNoIndexCheckpointKeys :: "gval gomap \<Rightarrow> (cluster_error, unit) res" where
  "validateNoIndexCheckpointKeys config =
     (if (case as_map (idx config ConfKeyService) of
            None \<Rightarrow> False | Some serviceConf \<Rightarrow> has serviceConf ConfKeyServiceIndexCheckpointPath)
      then Err (V ''index-checkpoint not enabled'')
      else
        (case as_list (idx config ConfKeyNamespace) of
           None \<Rightarrow> Ok ()
         | Some nsList \<Rightarrow>
             if list_ex (\<lambda>v. case as_map v of
                               None \<Rightarrow> False
                             | Some nsConf \<Rightarrow> list_ex (has nsConf) indexCheckpointNamespaceKeys) nsList
             then Err (V ''index-checkpoint not enabled'') else Ok ()))"

fun preview_features :: "validate_env \<Rightarrow> string \<Rightarrow> string list \<Rightarrow> unit verdict" where
  "preview_features env version [] = warn []"
| "preview_features env version (name # names) =
     (case gomap_get PreviewFeatureVersions name of
        None \<Rightarrow> check (Err (V ''unknown preview feature''))
      | Some info \<Rightarrow>
          vbind (check (older env version (MinVersion info))) (\<lambda>old.
            if old then check (Err (V ''preview feature version''))
            else
              vbind
                (if GAVersion info = [] then warn []
                 else vbind (check (older env version (GAVersion info))) (\<lambda>before.
                        if before then warn [] else warn [''preview feature graduated''])) (\<lambda>_.
                preview_features env version names)))"

definition validatePreviewFeatures :: "validate_env \<Rightarrow> AerospikeCluster \<Rightarrow> string \<Rightarrow> unit verdict" where
  "validatePreviewFeatures env cluster version =
     vbind (preview_features env version (SpecPreviewFeatures (ClusterSpec cluster))) (\<lambda>_.
       if PreviewFeatureIndexCheckpoint \<in> set (SpecPreviewFeatures (ClusterSpec cluster)) then warn []
       else check (for_each (\<lambda>rack. validateNoIndexCheckpointKeys (conf_map (RackAerospikeConfig rack)))
                     (SpecRacks (ClusterSpec cluster))))"

definition allowUnsafeLuaMinByBaseVersion :: "string gomap" where
  "allowUnsafeLuaMinByBaseVersion =
     [(''7.1.0'', ''7.1.0.25''), (''7.2.0'', ''7.2.0.19''), (''8.0.0'', ''8.0.0.17''), (''8.1.2'', ''8.1.2.2'')]"

definition validateAllowUnsafeLua :: "validate_env \<Rightarrow> string \<Rightarrow> gval gomap option \<Rightarrow> (cluster_error, unit) res" where
  "validateAllowUnsafeLua env version conf =
     (case conf of
        None \<Rightarrow> Ok ()
      | Some config \<Rightarrow>
          (case as_map (idx config ''mod-lua'') of
             None \<Rightarrow> Ok ()
           | Some modLua \<Rightarrow>
               if \<not> has modLua ''allow-unsafe-lua'' then Ok ()
               else
                 res_bind (res_map_err VLib (BaseVersion env version)) (\<lambda>base.
                   case gomap_get allowUnsafeLuaMinByBaseVersion base of
                     None \<Rightarrow> Ok ()
                   | Some minVersion \<Rightarrow>
                       res_bind (older env version minVersion) (\<lambda>old.
                         if old then Err (V ''allow-unsafe-lua'') else Ok ()))))"

definition cgroupMemTrackingWarning :: "validate_env \<Rightarrow> string \<Rightarrow> gval gomap \<Rightarrow> string list" where
  "cgroupMemTrackingWarning env version conf =
     (case CompareVersions env version minVersionForCgroupMemTracking of
        Ok cmp \<Rightarrow>
          if cmp < 0 then []
          else
            (case as_map (idx conf ConfKeyService) of
               None \<Rightarrow> []
             | Some serviceConf \<Rightarrow>
                 if idx serviceConf ''cgroup-mem-tracking'' = GBool True then [] else [''cgroup-mem-tracking''])
      | _ \<Rightarrow> [])"

section \<open>Configuration against storage\<close>

definition isFileStorageConfiguredForDir :: "string list \<Rightarrow> string \<Rightarrow> bool" where
  "isFileStorageConfiguredForDir fileStorageList dir = list_ex (\<lambda>mount. IsPathParentOrSame mount dir) fileStorageList"

fun matched_volume :: "string \<Rightarrow> VolumeSpec list \<Rightarrow> (VolumeSpec \<times> string) option \<Rightarrow> VolumeSpec option" where
  "matched_volume path [] matched = map_option fst matched"
| "matched_volume path (volume # vols) matched =
     (case VolAerospike volume of
        None \<Rightarrow> matched_volume path vols matched
      | Some att \<Rightarrow>
          if IsPathParentOrSame (AttPath att) path \<and>
             (case matched of None \<Rightarrow> True | Some (_, best) \<Rightarrow> string_less best (AttPath att))
          then matched_volume path vols (Some (volume, AttPath att))
          else matched_volume path vols matched)"

definition GetVolumeForAerospikePath :: "AerospikeStorageSpec \<Rightarrow> string \<Rightarrow> VolumeSpec option" where
  "GetVolumeForAerospikePath storage path = matched_volume path (Volumes storage) None"

definition device_configured :: "string list \<Rightarrow> string list \<Rightarrow> gval \<Rightarrow> (cluster_error, unit) res" where
  "device_configured devices files v =
     (case as_string v of
        None \<Rightarrow> Err (V ''device not a string'')
      | Some dev \<Rightarrow>
          for_each (\<lambda>d. if ContainsString devices d then Ok ()
                        else if ContainsString files d then Err (V ''device on a filesystem volume'')
                        else Err (V ''device not in storage'')) (Fields dev))"

definition file_configured :: "string list \<Rightarrow> gval \<Rightarrow> (cluster_error, unit) res" where
  "file_configured files v =
     (case as_string v of
        None \<Rightarrow> Err (V ''file not a string'')
      | Some f \<Rightarrow>
          for_each (\<lambda>fp. if isFileStorageConfiguredForDir files (path_dir fp) then Ok ()
                         else Err (V ''file not in storage'')) (Fields f))"

definition storage_entries ::
  "string \<Rightarrow> (gval \<Rightarrow> (cluster_error, unit) res) \<Rightarrow> gval gomap \<Rightarrow> (cluster_error, unit) res" where
  "storage_entries kind f storage =
     (case gomap_get storage kind of
        None \<Rightarrow> Ok ()
      | Some v \<Rightarrow> (case as_list v of None \<Rightarrow> Err (V ''not a list'') | Some vs \<Rightarrow> for_each f vs))"

definition namespace_storage :: "string list \<Rightarrow> string list \<Rightarrow> gval \<Rightarrow> (cluster_error, unit) res" where
  "namespace_storage devices files v =
     res_bind (must (as_map v)) (\<lambda>nsConf.
       case gomap_get nsConf ConfKeyStorageEngine of
         None \<Rightarrow> Err (V ''storage-engine required'')
       | Some nsStorage \<Rightarrow>
           res_bind (IsInMemoryNamespace nsConf) (\<lambda>inMemory.
           res_bind (if inMemory then Ok True else IsDeviceOrPmemNamespace nsConf) (\<lambda>supported.
             if \<not> supported then Err (V ''storage-engine not supported'')
             else
               res_bind (must (as_map nsStorage)) (\<lambda>storage.
               res_bind (storage_entries ''devices'' (device_configured devices files) storage) (\<lambda>_.
                 storage_entries ''files'' (file_configured files) storage)))))"

definition namespace_mounts :: "string list \<Rightarrow> gval \<Rightarrow> (cluster_error, unit) res" where
  "namespace_mounts files v =
     res_bind (must (as_map v)) (\<lambda>nsConf.
       if IsShMemIndexTypeNamespace nsConf then Ok ()
       else
         (case gomap_get nsConf ConfKeyIndexType of
            None \<Rightarrow> Ok ()
          | Some nsIndexStorage \<Rightarrow>
              res_bind (must (as_map nsIndexStorage)) (\<lambda>index.
                case gomap_get index ConfKeyMounts of
                  None \<Rightarrow> Ok ()
                | Some mounts \<Rightarrow>
                    res_bind (must (as_list mounts)) (for_each (\<lambda>mount.
                      res_bind (must (as_string mount)) (\<lambda>m.
                        if ContainsString files m then Ok () else Err (V ''mount not in storage'')))))))"

definition webhook_validateNamespaceConfig ::
  "gval gomap \<Rightarrow> AerospikeStorageSpec \<Rightarrow> (cluster_error, unit) res" where
  "webhook_validateNamespaceConfig config storage =
     res_bind (must (as_list (idx config ConfKeyNamespace))) (\<lambda>nsConfInterfaceList.
     res_bind (res_map_err VStorage (getAerospikeStorageList storage True)) (\<lambda>(devices, files).
     res_bind (for_each (namespace_storage devices files) nsConfInterfaceList) (\<lambda>_.
       for_each (namespace_mounts files) nsConfInterfaceList)))"

definition validateIndexCheckpointVolume :: "AerospikeStorageSpec \<Rightarrow> string \<Rightarrow> (cluster_error, unit) res" where
  "validateIndexCheckpointVolume storage cpPath =
     (case GetVolumeForAerospikePath storage cpPath of
        None \<Rightarrow> Err (V ''checkpoint path without volume'')
      | Some volume \<Rightarrow>
          (case SrcPersistentVolume (VolSource volume) of
             None \<Rightarrow> Err (V ''checkpoint path not persistent'')
           | Some pv \<Rightarrow>
               if PvVolumeMode pv \<noteq> PersistentVolumeFilesystem then Err (V ''checkpoint path not a filesystem'')
               else Ok ()))"

definition validateIndexCheckpointConfig ::
  "gval gomap \<Rightarrow> AerospikeStorageSpec \<Rightarrow> (cluster_error, unit) res" where
  "validateIndexCheckpointConfig config storage =
     (let cpPath = GetIndexCheckpointPath config in
      if cpPath = [] then Ok ()
      else
        res_bind (validateIndexCheckpointVolume storage cpPath) (\<lambda>_.
          for_each (\<lambda>name. if IsCheckpointUsableNamespaceName name then Ok () else Err (V ''namespace name''))
            (GetNamespaceNamesFromConfig config)))"

definition validateAerospikeConfig ::
  "validate_env \<Rightarrow> string \<Rightarrow> AerospikeConfigSpec \<Rightarrow> AerospikeStorageSpec \<Rightarrow> int \<Rightarrow>
   AerospikeOperatorClientCertSpec option \<Rightarrow> unit verdict" where
  "validateAerospikeConfig env version configSpec storage clSize clientCert =
     vbind (check (validateAllowUnsafeLua env version (Value configSpec))) (\<lambda>_.
     vbind (check (res_map_err VConfig
             (ValidateAerospikeConfig (Schema env) (IsDNSName env) version (Value configSpec) clSize))) (\<lambda>_.
     vbind (check (webhook_validateNetworkConfig env (conf_map configSpec) clientCert)) (\<lambda>_.
     vbind (check (webhook_validateNamespaceConfig (conf_map configSpec) storage)) (\<lambda>_.
     vbind (check (validateIndexCheckpointConfig (conf_map configSpec) storage)) (\<lambda>_.
       warn (cgroupMemTrackingWarning env version (conf_map configSpec)))))))"

definition validateWorkDir :: "string \<Rightarrow> string list \<Rightarrow> (cluster_error, unit) res" where
  "validateWorkDir workDirPath fileStorageList =
     (if \<not> IsAbs workDirPath then Err (V ''work directory not absolute'')
      else if \<not> isFileStorageConfiguredForDir fileStorageList workDirPath then Err (V ''work directory not in storage'')
      else Ok ())"

text \<open>\<open>None\<close>: the policy is a nil pointer, and reading it panics.\<close>

definition validateRequiredFileStorageForMetadata ::
  "AerospikeConfigSpec \<Rightarrow> AerospikeStorageSpec \<Rightarrow> ValidationPolicySpec option \<Rightarrow> (cluster_error, unit) res" where
  "validateRequiredFileStorageForMetadata configSpec storage validationPolicy =
     res_bind (res_map_err VStorage (getAerospikeStorageList storage True)) (\<lambda>(_, onlyPVFiles).
     res_bind (must validationPolicy) (\<lambda>policy.
       if \<not> SkipWorkDirValidate policy
       then res_bind (res_map_err VConf (GetWorkDirectory configSpec)) (\<lambda>dir. validateWorkDir dir onlyPVFiles)
       else
         res_bind (res_map_err VConf (GetConfiguredWorkDirectory configSpec)) (\<lambda>dir.
           if dir = [] then Ok ()
           else res_bind (res_map_err VStorage (getAerospikeStorageList storage False)) (\<lambda>(_, allFiles).
             validateWorkDir dir allFiles))))"

definition isSecretManagerPath :: "string \<Rightarrow> bool" where
  "isSecretManagerPath path \<longleftrightarrow> HasPrefix path ''secrets:'' \<or> HasPrefix path ''vault:''"

fun must_strings :: "gval list \<Rightarrow> ('e, string list) res" where
  "must_strings [] = Ok []"
| "must_strings (v # vs) =
     res_bind (must (as_string v)) (\<lambda>s. res_bind (must_strings vs) (\<lambda>ss. Ok (s # ss)))"

definition getFeatureKeyFilePaths :: "AerospikeConfigSpec \<Rightarrow> ('e, string list) res" where
  "getFeatureKeyFilePaths configSpec =
     (case gomap_get (conf_map configSpec) ConfKeyService of
        None \<Rightarrow> Ok []
      | Some v \<Rightarrow>
          res_bind (must (as_map v)) (\<lambda>svc.
            case gomap_get svc ''feature-key-file'' of
              Some path \<Rightarrow> res_bind (must (as_string path)) (\<lambda>p. Ok [p])
            | None \<Rightarrow>
                (case as_list (idx svc ''feature-key-files'') of
                   None \<Rightarrow> Ok [] | Some paths \<Rightarrow> must_strings paths)))"

definition getXDRAuthPasswordFilePaths :: "AerospikeConfigSpec \<Rightarrow> ('e, string list) res" where
  "getXDRAuthPasswordFilePaths configSpec =
     (case GetXDRDCs configSpec of
        Err _ \<Rightarrow> Ok []
      | Panic \<Rightarrow> Panic
      | Ok dcs \<Rightarrow> Ok (filter (\<lambda>p. p \<noteq> []) (map (\<lambda>dc. string_at dc ConfKeyXdrAuthPasswordFile) dcs)))"

definition path_at :: "gval gomap \<Rightarrow> string \<Rightarrow> ('e, string list) res" where
  "path_at m k = (case gomap_get m k of None \<Rightarrow> Ok [] | Some v \<Rightarrow> res_bind (must (as_string v)) (\<lambda>s. Ok [s]))"

fun tls_file_paths :: "gval list \<Rightarrow> ('e, string list \<times> string list) res" where
  "tls_file_paths [] = Ok ([], [])"
| "tls_file_paths (v # vs) =
     res_bind (must (as_map v)) (\<lambda>tls.
     res_bind (path_at tls ''cert-file'') (\<lambda>cert.
     res_bind (path_at tls ''key-file'') (\<lambda>key.
     res_bind (path_at tls ''ca-file'') (\<lambda>caFile.
     res_bind (path_at tls ''ca-path'') (\<lambda>caPath.
     res_bind (tls_file_paths vs) (\<lambda>(nonCA, ca).
       Ok (cert @ key @ nonCA, caFile @ map (\<lambda>p. p @ ''/'') caPath @ ca)))))))"

definition getTLSFilePaths :: "AerospikeConfigSpec \<Rightarrow> ('e, string list \<times> string list) res" where
  "getTLSFilePaths configSpec =
     (case gomap_get (conf_map configSpec) ConfKeyNetwork of
        None \<Rightarrow> Ok ([], [])
      | Some v \<Rightarrow>
          res_bind (must (as_map v)) (\<lambda>network.
            case as_list (idx network ConfKeyNetworkTLS) of
              None \<Rightarrow> Ok ([], []) | Some tlsList \<Rightarrow> tls_file_paths tlsList))"

definition path_mounted :: "AerospikeStorageSpec \<Rightarrow> string option \<Rightarrow> string \<Rightarrow> (cluster_error, unit) res" where
  "path_mounted storage defaultPassFilePath path =
     (case GetVolumeForAerospikePath storage (path_dir path) of
        None \<Rightarrow> Err (V ''path not mounted'')
      | Some volume \<Rightarrow>
          if defaultPassFilePath = Some path \<and> SrcSecret (VolSource volume) = None
          then Err (V ''default-password-file not a secret'') else Ok ())"

definition validateRequiredFileStorageForAerospikeConfig ::
  "AerospikeConfigSpec \<Rightarrow> AerospikeStorageSpec \<Rightarrow> (cluster_error, unit) res" where
  "validateRequiredFileStorageForAerospikeConfig configSpec storage =
     res_bind (getFeatureKeyFilePaths configSpec) (\<lambda>featureKeyFilePaths.
     res_bind (getXDRAuthPasswordFilePaths configSpec) (\<lambda>xdrAuthPasswordFilePaths.
     res_bind (getTLSFilePaths configSpec) (\<lambda>(nonCAPaths, caPaths).
     res_bind (res_map_err VConf (GetDefaultPasswordFilePath configSpec)) (\<lambda>defaultPassFilePath.
       let plain = filter (\<lambda>p. \<not> isSecretManagerPath p)
             (featureKeyFilePaths @ xdrAuthPasswordFilePaths @ nonCAPaths)
       in res_bind
            (case defaultPassFilePath of
               None \<Rightarrow> Ok []
             | Some p \<Rightarrow> if isSecretManagerPath p then Err (V ''default-password-file in secret manager'') else Ok [p])
            (\<lambda>password. for_each (path_mounted storage defaultPassFilePath) (plain @ password @ caPaths))))))"

section \<open>Racks and batches\<close>

text \<open>\<^verbatim>\<open>nsConf\<close>: in how many racks a namespace is, and its settings in the last of them.\<close>

record nsConf =
  noOfRacksForNamespaces :: int
  replicationFactor :: int
  scEnabled :: bool

text \<open>An error of the replication factor is ignored and leaves zero.\<close>

definition rf_or_zero :: "gval gomap \<Rightarrow> int" where
  "rf_or_zero ns = (case GetNamespaceReplicationFactor ns of Ok rf \<Rightarrow> rf | _ \<Rightarrow> 0)"

fun ns_confs_of :: "gval list \<Rightarrow> nsConf gomap \<Rightarrow> ('e, nsConf gomap) res" where
  "ns_confs_of [] nsConfs = Ok nsConfs"
| "ns_confs_of (v # vs) nsConfs =
     res_bind (must (as_map v)) (\<lambda>ns.
     res_bind (must (as_string (idx ns ConfKeyName))) (\<lambda>nsName.
     res_bind (sc_enabled ns) (\<lambda>sc.
       let count = (case gomap_get nsConfs nsName of None \<Rightarrow> 1 | Some c \<Rightarrow> noOfRacksForNamespaces c + 1)
       in ns_confs_of vs (gomap_put nsName
            \<lparr>noOfRacksForNamespaces = count, replicationFactor = rf_or_zero ns, scEnabled = sc\<rparr> nsConfs))))"

fun getNsConfForNamespaces :: "Rack list \<Rightarrow> nsConf gomap \<Rightarrow> ('e, nsConf gomap) res" where
  "getNsConfForNamespaces [] nsConfs = Ok nsConfs"
| "getNsConfForNamespaces (rack # racks) nsConfs =
     res_bind (must (as_list (idx (conf_map (RackAerospikeConfig rack)) ConfKeyNamespace))) (\<lambda>nsList.
     res_bind (ns_confs_of nsList nsConfs) (\<lambda>nsConfs'. getNsConfForNamespaces racks nsConfs'))"

definition validateIntOrStringField :: "validate_env \<Rightarrow> IntOrString option \<Rightarrow> (cluster_error, unit) res" where
  "validateIntOrStringField env val =
     res_bind (res_map_err VLib (ScaledValue env val 100 False)) (\<lambda>count.
       if count < 0 then Err (V ''negative value'')
       else if (case val of Some (IosString _) \<Rightarrow> count > 100 | _ \<Rightarrow> False) then Err (V ''more than 100 percent'')
       else Ok ())"

definition validate_ns_for_batch :: "bool \<Rightarrow> string list \<Rightarrow> string \<times> nsConf \<Rightarrow> (cluster_error, unit) res" where
  "validate_ns_for_batch rollingUpdateBatch namespaces entry =
     (case entry of (ns, conf) \<Rightarrow>
       if ns \<notin> set namespaces then Err (V ''batch with a non-rack namespace'')
       else if noOfRacksForNamespaces conf \<le> 1 then Err (V ''batch with a namespace in one rack'')
       else if replicationFactor conf \<le> 1 then Err (V ''batch with replication-factor 1'')
       else if \<not> rollingUpdateBatch \<and> scEnabled conf then Err (V ''scale-down batch with strong consistency'')
       else Ok ())"

definition validate_racks_for_batch :: "bool \<Rightarrow> Rack list \<Rightarrow> string list \<Rightarrow> (cluster_error, unit) res" where
  "validate_racks_for_batch rollingUpdateBatch racks namespaces =
     (if length racks < 2 then Err (V ''batch with one rack'')
      else
        res_bind (getNsConfForNamespaces racks []) (\<lambda>confs.
          for_each (validate_ns_for_batch rollingUpdateBatch namespaces) confs))"

definition validateBatchSize ::
  "validate_env \<Rightarrow> IntOrString option \<Rightarrow> bool \<Rightarrow> AerospikeCluster \<Rightarrow> (cluster_error, unit) res" where
  "validateBatchSize env batchSize rollingUpdateBatch cluster =
     (if batchSize = None then Ok ()
      else
        res_bind (validateIntOrStringField env batchSize) (\<lambda>_.
        res_bind (validate_racks_for_batch rollingUpdateBatch (SpecRacks (ClusterSpec cluster))
                    (SpecRackNamespaces (ClusterSpec cluster))) (\<lambda>_.
          if StAerospikeConfig (ClusterStatus cluster) = None then Ok ()
          else validate_racks_for_batch rollingUpdateBatch (StRacks (ClusterStatus cluster))
                 (StRackNamespaces (ClusterStatus cluster)))))"

definition validateRackCountConstraints :: "int \<Rightarrow> AerospikeClusterSpec \<Rightarrow> (cluster_error, unit) res" where
  "validateRackCountConstraints remainingRacks spec =
     (if remainingRacks \<le> 0 then Err (V ''all racks blocked'')
      else if remainingRacks = 1 \<and> (SpecRollingUpdateBatchSize spec \<noteq> None \<or> SpecScaleDownBatchSize spec \<noteq> None)
      then Err (V ''batch with one rack in roster'')
      else Ok ())"

definition validateRackBlockedFromRoster :: "int \<Rightarrow> AerospikeCluster \<Rightarrow> (cluster_error, unit) res" where
  "validateRackBlockedFromRoster racksBlockedFromRoster cluster =
     (let spec = ClusterSpec cluster in
      if racksBlockedFromRoster \<le> 0 then Ok ()
      else if SpecMaxIgnorablePods spec \<noteq> None then Err (V ''forceBlockFromRoster with maxIgnorablePods'')
      else if SpecRosterNodeBlockList spec \<noteq> [] then Err (V ''forceBlockFromRoster with rosterNodeBlockList'')
      else validateRackCountConstraints (int (length (SpecRacks spec)) - racksBlockedFromRoster) spec)"

fun rf_consistent :: "int \<Rightarrow> gval list \<Rightarrow> int gomap \<Rightarrow> (cluster_error, int gomap) res" where
  "rf_consistent rackID [] nsRFMap = Ok nsRFMap"
| "rf_consistent rackID (v # vs) nsRFMap =
     (case as_map v of
        None \<Rightarrow> rf_consistent rackID vs nsRFMap
      | Some ns \<Rightarrow>
          (case as_string (idx ns ConfKeyName) of
             None \<Rightarrow> rf_consistent rackID vs nsRFMap
           | Some nsName \<Rightarrow>
               res_bind (res_map_err VConfig (GetNamespaceReplicationFactor ns)) (\<lambda>currentRF.
                 case gomap_get nsRFMap nsName of
                   None \<Rightarrow> rf_consistent rackID vs (gomap_put nsName currentRF nsRFMap)
                 | Some existingRF \<Rightarrow>
                     if existingRF \<noteq> currentRF then Err (V ''replication-factor differs across racks'')
                     else rf_consistent rackID vs nsRFMap)))"

fun rf_consistent_racks :: "Rack list \<Rightarrow> int gomap \<Rightarrow> (cluster_error, unit) res" where
  "rf_consistent_racks [] nsRFMap = Ok ()"
| "rf_consistent_racks (rack # racks) nsRFMap =
     (case as_list (idx (conf_map (RackAerospikeConfig rack)) ConfKeyNamespace) of
        None \<Rightarrow> rf_consistent_racks racks nsRFMap
      | Some nsList \<Rightarrow>
          res_bind (rf_consistent (RackID rack) nsList nsRFMap) (\<lambda>nsRFMap'. rf_consistent_racks racks nsRFMap'))"

definition validateReplicationFactorConsistencyAcrossRacks :: "Rack list \<Rightarrow> (cluster_error, unit) res" where
  "validateReplicationFactorConsistencyAcrossRacks racks = rf_consistent_racks racks []"

text \<open>The checks of one rack; the result is its migrate-fill-delay.\<close>

definition validate_rack :: "validate_env \<Rightarrow> AerospikeClusterSpec \<Rightarrow> string \<Rightarrow> Rack \<Rightarrow> uint32 verdict" where
  "validate_rack env spec version rack =
     (if RackRevision rack \<noteq> [] \<and> IsDNS1123Label env (RackRevision rack) \<noteq> [] then check (Err (V ''rack revision''))
      else if (case RackInputAerospikeConfig rack of
                 None \<Rightarrow> False | Some c \<Rightarrow> has (conf_map c) ''network'' \<or> has (conf_map c) ''security'')
      then check (Err (V ''network or security in a rack''))
      else
        vbind (case validateStorage (IsDNS1123Label env) (RackStorage rack) (SpecPodSpec spec) of
                 (ws, r) \<Rightarrow> (ws, res_map_err VStorage r)) (\<lambda>_.
        vbind (validateAerospikeConfig env version (RackAerospikeConfig rack) (RackStorage rack) (SpecSize spec)
                 (SpecOperatorClientCert spec)) (\<lambda>_.
        vbind (check (validateRequiredFileStorageForMetadata (RackAerospikeConfig rack) (RackStorage rack)
                 (SpecValidationPolicy spec))) (\<lambda>_.
        vbind (check (validateRequiredFileStorageForAerospikeConfig (RackAerospikeConfig rack) (RackStorage rack))) (\<lambda>_.
        vbind (check (res_map_err VConf (GetMigrateFillDelay (Some (RackAerospikeConfig rack))))) (\<lambda>migrateFillDelay.
          check (Ok (of_int migrateFillDelay))))))))"

fun racks_checked ::
  "validate_env \<Rightarrow> AerospikeClusterSpec \<Rightarrow> string \<Rightarrow> int list \<Rightarrow> uint32 list \<Rightarrow> Rack list \<Rightarrow> uint32 list verdict" where
  "racks_checked env spec version rackIDs delays [] = check (Ok delays)"
| "racks_checked env spec version rackIDs delays (rack # racks) =
     (if RackID rack \<in> set rackIDs then check (Err (V ''duplicate rackID''))
      else
        vbind (validate_rack env spec version rack) (\<lambda>delay.
          racks_checked env spec version (RackID rack # rackIDs) (delay # delays) racks))"

definition validateRackConfig :: "validate_env \<Rightarrow> AerospikeCluster \<Rightarrow> string \<Rightarrow> unit verdict" where
  "validateRackConfig env cluster version =
     (let spec = ClusterSpec cluster; racks = SpecRacks spec in
      vbind (if \<not> GetBool (SpecEnableRackIDOverride spec) then warn []
             else if 1 < length racks then check (Err (V ''enableRackIDOverride with racks''))
             else if SpecRackNamespaces spec = [] then warn [''enableRackIDOverride without namespaces'']
             else warn []) (\<lambda>_.
      vbind (check (for_each (\<lambda>nsName. if Contains nsName '' '' then Err (V ''namespace name'') else Ok ())
                      (SpecRackNamespaces spec))) (\<lambda>_.
      vbind (racks_checked env spec version [] [] racks) (\<lambda>delays.
      vbind (check (validateRackBlockedFromRoster
               (int (length (filter (\<lambda>r. GetBool (RackForceBlockFromRoster r)) racks))) cluster)) (\<lambda>_.
      vbind (check (if 1 < length (remdups delays) then Err (V ''migrate-fill-delay differs'') else Ok ())) (\<lambda>_.
      vbind (check (validateBatchSize env (SpecRollingUpdateBatchSize spec) True cluster)) (\<lambda>_.
      vbind (check (validateBatchSize env (SpecScaleDownBatchSize spec) False cluster)) (\<lambda>_.
      vbind (check (if SpecMaxIgnorablePods spec = None then Ok ()
                    else validateIntOrStringField env (SpecMaxIgnorablePods spec))) (\<lambda>_.
        check (validateReplicationFactorConsistencyAcrossRacks racks))))))))))"

section \<open>Disruption budget\<close>

text \<open>
  The smallest replication factor, of those other than 1; a namespace without one sets the bound to two.
\<close>

fun safe_unavailable :: "gval list \<Rightarrow> int \<Rightarrow> (cluster_error, int) res" where
  "safe_unavailable [] safe = Ok safe"
| "safe_unavailable (v # vs) safe =
     res_bind (must (as_map v)) (\<lambda>ns.
       case gomap_get ns ConfKeyReplicationFactor of
         None \<Rightarrow> safe_unavailable vs 2
       | Some rfInterface \<Rightarrow>
           res_bind (res_map_err VConf (GetIntType rfInterface)) (\<lambda>rf.
             if rf = 1 then safe_unavailable vs safe else safe_unavailable vs (min rf safe)))"

fun safe_unavailable_racks :: "Rack list \<Rightarrow> int \<Rightarrow> (cluster_error, int) res" where
  "safe_unavailable_racks [] safe = Ok safe"
| "safe_unavailable_racks (rack # racks) safe =
     res_bind (must (as_list (idx (conf_map (RackAerospikeConfig rack)) ConfKeyNamespace))) (\<lambda>nsList.
     res_bind (safe_unavailable nsList safe) (\<lambda>safe'. safe_unavailable_racks racks safe'))"

definition validateMaxUnavailable :: "validate_env \<Rightarrow> AerospikeCluster \<Rightarrow> unit verdict" where
  "validateMaxUnavailable env cluster =
     (let spec = ClusterSpec cluster in
      if GetBool (SpecDisablePDB spec) then warn [''maxUnavailable omitted'']
      else
        vbind (check (validateIntOrStringField env (SpecMaxUnavailable spec))) (\<lambda>_.
          if SpecSize spec = 1 then warn []
          else
            vbind (check (safe_unavailable_racks (SpecRacks spec) (SpecSize spec))) (\<lambda>safeMaxUnavailable.
            vbind (check (must (SpecMaxUnavailable spec))) (\<lambda>maxUnavailable.
              if IntValue env maxUnavailable \<ge> safeMaxUnavailable then check (Err (V ''maxUnavailable''))
              else warn []))))"

section \<open>Strong consistency\<close>

definition validateSCInMemoryNamespace :: "gval gomap \<Rightarrow> gval gomap \<Rightarrow> (cluster_error, unit) res" where
  "validateSCInMemoryNamespace ns aerospikeConfig =
     (let storageConf = (case as_map (idx ns ConfKeyStorageEngine) of None \<Rightarrow> [] | Some m \<Rightarrow> m) in
      if has storageConf ''devices'' \<or> has storageConf ''files'' then Ok ()
      else if GetIndexCheckpointPath aerospikeConfig = [] then Err (V ''in-memory strong consistency without checkpoint'')
      else if IsCheckpointSkipped ns then Err (V ''skip-checkpoint under strong consistency'')
      else Ok ())"

fun sc_namespaces_of :: "gval gomap \<Rightarrow> gval list \<Rightarrow> (cluster_error, string list) res" where
  "sc_namespaces_of config [] = Ok []"
| "sc_namespaces_of config (v # vs) =
     res_bind (must (as_map v)) (\<lambda>ns.
     res_bind (sc_enabled ns) (\<lambda>isEnabled.
       if \<not> isEnabled then sc_namespaces_of config vs
       else
         res_bind (must (as_string (idx ns ConfKeyName))) (\<lambda>name.
         res_bind (IsInMemoryNamespace ns) (\<lambda>inMemory.
         res_bind (if inMemory then validateSCInMemoryNamespace ns config else Ok ()) (\<lambda>_.
         res_bind (sc_namespaces_of config vs) (\<lambda>names. Ok (name # names)))))))"

fun sc_namespaces_same :: "string list option \<Rightarrow> Rack list \<Rightarrow> (cluster_error, unit) res" where
  "sc_namespaces_same scNamespaces [] = Ok ()"
| "sc_namespaces_same scNamespaces (rack # racks) =
     (let config = conf_map (RackAerospikeConfig rack) in
      res_bind (must (as_list (idx config ConfKeyNamespace))) (\<lambda>nsList.
      res_bind (sc_namespaces_of config nsList) (\<lambda>names.
        case scNamespaces of
          None \<Rightarrow> sc_namespaces_same (Some names) racks
        | Some first \<Rightarrow>
            if set first \<noteq> set names then Err (V ''SC namespaces differ across racks'')
            else sc_namespaces_same scNamespaces racks)))"

definition validateSCNamespaces :: "AerospikeCluster \<Rightarrow> (cluster_error, unit) res" where
  "validateSCNamespaces cluster = sc_namespaces_same None (SpecRacks (ClusterSpec cluster))"

section \<open>A specification\<close>

definition webhook_validate :: "validate_env \<Rightarrow> AerospikeCluster \<Rightarrow> unit verdict" where
  "webhook_validate env cluster =
     vbind (check (validateImage (ClusterSpec cluster))) (\<lambda>_.
     vbind (check (image_version (SpecImage (ClusterSpec cluster)))) (\<lambda>version.
     vbind (check (older env version baseVersion)) (\<lambda>old.
     vbind (check (if old then Err (V ''image version'') else Ok ())) (\<lambda>_.
     vbind (check (image_version (GetAerospikeInitContainerImage (InitImageEnv env) cluster))) (\<lambda>initVersion.
     vbind (check (if GetBool (SpecEnableDynamicConfigUpdate (ClusterSpec cluster))
                   then res_bind (older env initVersion minInitVersionForDynamicConf) (\<lambda>old.
                          if old then Err (V ''enableDynamicConfigUpdate'') else Ok ())
                   else Ok ())) (\<lambda>_.
     vbind (check (validateOperation cluster)) (\<lambda>_.
     vbind (validatePreviewFeatures env cluster version) (\<lambda>_.
     vbind (validateRackConfig env cluster version) (\<lambda>_.
     vbind (validateMaxUnavailable env cluster) (\<lambda>_.
     vbind (check (validatePodSpecResourceAndLimits cluster)) (\<lambda>_.
     vbind (check (validateAccessControl env cluster)) (\<lambda>_.
     vbind (check (validateClientCertSpec cluster)) (\<lambda>_.
     vbind (warn (validateDeprecatedFields cluster)) (\<lambda>_.
     vbind (check (validateNetworkPolicy cluster)) (\<lambda>_.
     vbind (check (validatePodSpec cluster)) (\<lambda>_.
       check (validateSCNamespaces cluster)))))))))))))))))"

definition ValidateCreate :: "validate_env \<Rightarrow> AerospikeCluster \<Rightarrow> unit verdict" where
  "ValidateCreate env cluster =
     vbind (webhook_validate env cluster) (\<lambda>_.
     vbind (check (validateNamingConstraints env cluster)) (\<lambda>_.
       check (validateAccessControlCreate (ClusterSpec cluster))))"

section \<open>What acceptance guarantees\<close>

text \<open>The namespaces of a rack's configuration.\<close>

definition rack_namespaces :: "Rack \<Rightarrow> gval list" where
  "rack_namespaces rack = (case idx (conf_map (RackAerospikeConfig rack)) ConfKeyNamespace of GList nss \<Rightarrow> nss | _ \<Rightarrow> [])"

definition namespace_in :: "Rack \<Rightarrow> gval gomap \<Rightarrow> bool" where
  "namespace_in rack ns \<longleftrightarrow> GMap ns \<in> set (rack_namespaces rack)"

lemma accepted_config:
  assumes "snd (validateAerospikeConfig env version spec storage clSize cert) = Ok ()"
  shows "config_ok (IsDNSName env) clSize (conf_map spec)"
proof -
  have "ValidateAerospikeConfig (Schema env) (IsDNSName env) version (Value spec) clSize = Ok ()"
    using assms unfolding validateAerospikeConfig_def by (auto simp: res_simps)
  then show ?thesis by (auto simp: validate_config_iff conf_map_def)
qed

lemma snd_storage_verdict:
  "snd (case v of (ws, r) \<Rightarrow> (ws, res_map_err VStorage r)) = res_map_err VStorage (snd v)"
  by (cases v) simp

lemma accepted_rack:
  assumes "snd (validate_rack env spec version rack) = Ok delay"
  shows "storage_ok (IsDNS1123Label env) (RackStorage rack) (SpecPodSpec spec) \<and>
    config_ok (IsDNSName env) (SpecSize spec) (conf_map (RackAerospikeConfig rack))"
proof -
  have "snd (validateStorage (IsDNS1123Label env) (RackStorage rack) (SpecPodSpec spec)) = Ok ()"
    "snd (validateAerospikeConfig env version (RackAerospikeConfig rack) (RackStorage rack) (SpecSize spec)
                 (SpecOperatorClientCert spec)) = Ok ()"
    using assms unfolding validate_rack_def by (auto simp: res_simps snd_storage_verdict split: if_splits)
  then show ?thesis by (simp add: validateStorage_iff accepted_config)
qed

lemma racks_checked_Ok:
  "snd (racks_checked env spec version ids delays racks) = Ok ds \<Longrightarrow>
   distinct (map RackID racks) \<and> (\<forall>r\<in>set racks. RackID r \<notin> set ids \<and> (\<exists>d. snd (validate_rack env spec version r) = Ok d))"
proof (induction racks arbitrary: ids delays)
  case (Cons rack racks)
  from Cons.prems obtain d where step: "RackID rack \<notin> set ids" "snd (validate_rack env spec version rack) = Ok d"
    "snd (racks_checked env spec version (RackID rack # ids) (d # delays) racks) = Ok ds"
    by (auto simp: res_simps split: if_splits)
  from Cons.IH [OF step(3)] step(1,2) show ?case by auto
qed simp

lemma accepted_racks:
  assumes "snd (validateRackConfig env cluster version) = Ok ()"
  shows "distinct (map RackID (SpecRacks (ClusterSpec cluster)))"
    and "rack \<in> set (SpecRacks (ClusterSpec cluster)) \<Longrightarrow>
      storage_ok (IsDNS1123Label env) (RackStorage rack) (SpecPodSpec (ClusterSpec cluster)) \<and>
      config_ok (IsDNSName env) (SpecSize (ClusterSpec cluster)) (conf_map (RackAerospikeConfig rack))"
    and "validateReplicationFactorConsistencyAcrossRacks (SpecRacks (ClusterSpec cluster)) = Ok ()"
proof -
  obtain ds where racks: "snd (racks_checked env (ClusterSpec cluster) version [] [] (SpecRacks (ClusterSpec cluster))) = Ok ds"
    and rf: "validateReplicationFactorConsistencyAcrossRacks (SpecRacks (ClusterSpec cluster)) = Ok ()"
    using assms unfolding validateRackConfig_def Let_def by (auto simp: res_simps)
  from racks_checked_Ok [OF racks] show "distinct (map RackID (SpecRacks (ClusterSpec cluster)))" by simp
  show "storage_ok (IsDNS1123Label env) (RackStorage rack) (SpecPodSpec (ClusterSpec cluster)) \<and>
      config_ok (IsDNSName env) (SpecSize (ClusterSpec cluster)) (conf_map (RackAerospikeConfig rack))"
    if "rack \<in> set (SpecRacks (ClusterSpec cluster))"
    using racks_checked_Ok [OF racks] that accepted_rack by blast
  show "validateReplicationFactorConsistencyAcrossRacks (SpecRacks (ClusterSpec cluster)) = Ok ()" by (rule rf)
qed

text \<open>What the shapes of an accepted configuration give the code that reads namespaces.\<close>

lemma config_ok_namespaces:
  assumes "config_ok dns clSize (conf_map (RackAerospikeConfig rack))"
  shows "idx (conf_map (RackAerospikeConfig rack)) ConfKeyNamespace = GList (rack_namespaces rack)"
    and "v \<in> set (rack_namespaces rack) \<Longrightarrow> \<exists>ns. v = GMap ns \<and> namespace_ok clSize ns"
  using assms by (auto simp: config_ok_def namespaces_ok_def rack_namespaces_def)

definition rf_extends :: "int gomap \<Rightarrow> int gomap \<Rightarrow> bool" where
  "rf_extends m m' \<longleftrightarrow> (\<forall>n rf. gomap_get m n = Some rf \<longrightarrow> gomap_get m' n = Some rf)"

definition rf_recorded :: "gval list \<Rightarrow> int gomap \<Rightarrow> bool" where
  "rf_recorded vs m \<longleftrightarrow> (\<forall>ns n rf. GMap ns \<in> set vs \<longrightarrow> idx ns ConfKeyName = GString n \<longrightarrow>
     GetNamespaceReplicationFactor ns = Ok rf \<longrightarrow> gomap_get m n = Some rf)"

lemma rf_recorded_mono: "rf_recorded vs m \<Longrightarrow> rf_extends m m' \<Longrightarrow> rf_recorded vs m'"
  unfolding rf_recorded_def rf_extends_def by blast

lemma rf_extends_trans: "rf_extends m m1 \<Longrightarrow> rf_extends m1 m' \<Longrightarrow> rf_extends m m'"
  unfolding rf_extends_def by blast

lemma rf_consistent_Ok: "rf_consistent rackID vs m = Ok m' \<Longrightarrow> rf_extends m m' \<and> rf_recorded vs m'"
proof (induction vs arbitrary: m)
  case (Cons v vs)
  show ?case
  proof (cases "\<exists>ns n. v = GMap ns \<and> idx ns ConfKeyName = GString n")
    case True
    then obtain ns n where v: "v = GMap ns" and n: "idx ns ConfKeyName = GString n" by blast
    with Cons.prems obtain rf m1 where rf: "GetNamespaceReplicationFactor ns = Ok rf"
      and m1: "rf_consistent rackID vs m1 = Ok m'" "rf_extends m m1" "gomap_get m1 n = Some rf"
      by (cases "gomap_get m n")
         (auto simp: res_simps rf_extends_def gomap_get_put split: if_splits)
    from Cons.IH [OF m1(1)] m1(2,3) v n rf show ?thesis
      by (auto simp: rf_recorded_def intro: rf_extends_trans) (simp_all add: rf_extends_def)
  next
    case False
    then have "rf_consistent rackID (v # vs) m = rf_consistent rackID vs m"
      by (cases v) (auto split: option.splits simp: as_type_iff)
    with Cons False show ?thesis by (auto simp: rf_recorded_def)
  qed
qed (simp add: rf_extends_def rf_recorded_def)

lemma rf_racks_Ok:
  "rf_consistent_racks racks m = Ok () \<Longrightarrow>
   \<exists>m'. rf_extends m m' \<and> (\<forall>rack\<in>set racks. rf_recorded (rack_namespaces rack) m')"
proof (induction racks arbitrary: m)
  case (Cons rack racks)
  show ?case
  proof (cases "idx (conf_map (RackAerospikeConfig rack)) ConfKeyNamespace")
    case (GList nss)
    with Cons.prems obtain m1 where m1: "rf_consistent (RackID rack) nss m = Ok m1" and rest: "rf_consistent_racks racks m1 = Ok ()"
      by (auto simp: res_simps)
    from Cons.IH [OF rest] obtain m' where m': "rf_extends m1 m'" "\<forall>rack\<in>set racks. rf_recorded (rack_namespaces rack) m'"
      by blast
    with rf_consistent_Ok [OF m1] GList have "rf_extends m m'" "rf_recorded (rack_namespaces rack) m'"
      by (auto simp: rack_namespaces_def intro: rf_extends_trans rf_recorded_mono)
    with m' show ?thesis by auto
  qed (use Cons in \<open>auto simp: rack_namespaces_def rf_recorded_def\<close>)
qed (auto simp: rf_extends_def)

definition sc_names :: "Rack \<Rightarrow> string set" where
  "sc_names rack = {n. \<exists>ns. namespace_in rack ns \<and> IsNSSCEnabled ns = Ok True \<and> idx ns ConfKeyName = GString n}"

lemma sc_of_Ok:
  "sc_namespaces_of config vs = Ok names \<Longrightarrow>
   set names = {n. \<exists>ns. GMap ns \<in> set vs \<and> IsNSSCEnabled ns = Ok True \<and> idx ns ConfKeyName = GString n}"
proof (induction vs arbitrary: names)
  case (Cons v vs)
  from Cons.prems obtain ns b where v: "v = GMap ns" "IsNSSCEnabled ns = Ok b"
    by (auto simp: res_simps typed_iff sc_enabled_Ok)
  show ?case
  proof (cases b)
    case True
    with Cons.prems v obtain n rest where "names = n # rest" "idx ns ConfKeyName = GString n" "sc_namespaces_of config vs = Ok rest"
      by (auto simp: res_simps typed_iff sc_enabled_Ok)
    with Cons.IH [of rest] v True show ?thesis by auto
  next
    case False
    with Cons.prems v have "sc_namespaces_of config vs = Ok names" by (auto simp: sc_enabled_def)
    with Cons.IH [of names] v False show ?thesis by auto
  qed
qed simp

lemma sc_same_Ok:
  "sc_namespaces_same first racks = Ok () \<Longrightarrow>
   \<exists>S. (\<forall>names. first = Some names \<longrightarrow> S = set names) \<and> (\<forall>rack\<in>set racks. sc_names rack = S)"
proof (induction racks arbitrary: first)
  case (Cons rack racks)
  from Cons.prems obtain nss names where nss: "idx (conf_map (RackAerospikeConfig rack)) ConfKeyNamespace = GList nss"
    and names: "sc_namespaces_of (conf_map (RackAerospikeConfig rack)) nss = Ok names"
    and rest: "sc_namespaces_same (case first of None \<Rightarrow> Some names | Some _ \<Rightarrow> first) racks = Ok ()"
    and same: "\<forall>f. first = Some f \<longrightarrow> set f = set names"
    by (cases first) (auto simp: res_simps typed_iff Let_def split: if_splits)
  have "sc_names rack = set names"
    using sc_of_Ok [OF names] nss by (simp add: sc_names_def namespace_in_def rack_namespaces_def)
  with Cons.IH [OF rest] same show ?case by (auto split: option.splits)
next
  case Nil
  show ?case by (rule exI [of _ "set (the first)"]) auto
qed

lemma accepted_spec_facts:
  assumes "snd (webhook_validate env cluster) = Ok ()"
  defines "spec \<equiv> ClusterSpec cluster"
  shows "distinct (map RackID (SpecRacks spec)) \<and>
    (\<forall>rack\<in>set (SpecRacks spec). storage_ok (IsDNS1123Label env) (RackStorage rack) (SpecPodSpec spec) \<and>
       config_ok (IsDNSName env) (SpecSize spec) (conf_map (RackAerospikeConfig rack))) \<and>
    (\<forall>rack\<in>set (SpecRacks spec). \<forall>rack'\<in>set (SpecRacks spec). sc_names rack = sc_names rack' \<and>
       (\<forall>ns ns' n. namespace_in rack ns \<and> namespace_in rack' ns' \<and> idx ns ConfKeyName = GString n \<and>
          idx ns' ConfKeyName = GString n \<longrightarrow> GetNamespaceReplicationFactor ns = GetNamespaceReplicationFactor ns'))"
proof -
  obtain version where racks: "snd (validateRackConfig env cluster version) = Ok ()" and sc: "validateSCNamespaces cluster = Ok ()"
    using assms(1) unfolding webhook_validate_def by (auto simp: res_simps)
  note rack_facts = accepted_racks [OF racks, folded spec_def]
  from sc_same_Ok [OF sc [unfolded validateSCNamespaces_def]] have "sc_names rack = sc_names rack'"
    if "rack \<in> set (SpecRacks spec)" "rack' \<in> set (SpecRacks spec)" for rack rack'
    using that unfolding spec_def by metis
  moreover have "GetNamespaceReplicationFactor ns = GetNamespaceReplicationFactor ns'"
    if "rack \<in> set (SpecRacks spec)" "rack' \<in> set (SpecRacks spec)" "namespace_in rack ns" "namespace_in rack' ns'"
      "idx ns ConfKeyName = GString n" "idx ns' ConfKeyName = GString n" for rack rack' ns ns' n
  proof -
    from rf_racks_Ok [OF rack_facts(3) [unfolded validateReplicationFactorConsistencyAcrossRacks_def]]
    obtain m where all: "\<forall>rack\<in>set (SpecRacks spec). rf_recorded (rack_namespaces rack) m" by blast
    then have m: "rf_recorded (rack_namespaces rack) m" "rf_recorded (rack_namespaces rack') m" using that(1,2) by blast+
    have "namespace_ok (SpecSize spec) ns" "namespace_ok (SpecSize spec) ns'"
      using config_ok_namespaces(2) rack_facts(2) that(1-4) unfolding namespace_in_def by fastforce+
    then obtain rf rf' where "GetNamespaceReplicationFactor ns = Ok rf" "GetNamespaceReplicationFactor ns' = Ok rf'"
      by (auto simp: namespace_ok_def)
    with m that(3-6) show ?thesis by (auto simp: rf_recorded_def namespace_in_def)
  qed
  ultimately show ?thesis using rack_facts(1,2) by blast
qed

text \<open>
  Property C3. What every accepted specification guarantees the controller: rack IDs are unique, the storage
  and the configuration of every rack are well formed, a namespace has one replication factor wherever it
  appears, and every rack has the same strong-consistency namespaces.
\<close>

theorem accepted_spec_sound:
  assumes "snd (webhook_validate env cluster) = Ok ()"
  defines "spec \<equiv> ClusterSpec cluster"
  shows "distinct (map RackID (SpecRacks spec)) \<and>
    (\<forall>rack\<in>set (SpecRacks spec). storage_ok (IsDNS1123Label env) (RackStorage rack) (SpecPodSpec spec) \<and>
       config_ok (IsDNSName env) (SpecSize spec) (conf_map (RackAerospikeConfig rack))) \<and>
    (\<forall>rack\<in>set (SpecRacks spec). \<forall>rack'\<in>set (SpecRacks spec). sc_names rack = sc_names rack' \<and>
       (\<forall>ns ns' n. namespace_in rack ns \<and> namespace_in rack' ns' \<and> idx ns ConfKeyName = GString n \<and>
          idx ns' ConfKeyName = GString n \<longrightarrow> GetNamespaceReplicationFactor ns = GetNamespaceReplicationFactor ns'))"
  unfolding spec_def by (rule accepted_spec_facts [OF assms(1)])

section \<open>Disruption budget\<close>

lemma safe_unavailable_bound:
  "safe_unavailable vs safe = Ok s \<Longrightarrow> (b \<ge> 2 \<longrightarrow> safe \<le> b \<longrightarrow> s \<le> b) \<and>
   (\<forall>ns rf. GMap ns \<in> set vs \<longrightarrow> GetNamespaceReplicationFactor ns = Ok rf \<longrightarrow> 2 \<le> rf \<longrightarrow> s \<le> rf)"
proof (induction vs arbitrary: safe b)
  case (Cons v vs)
  from Cons.prems obtain ns where v: "v = GMap ns" by (auto simp: res_simps typed_iff)
  show ?case
  proof (cases "gomap_get ns ConfKeyReplicationFactor")
    case None
    with Cons.prems v have rest: "safe_unavailable vs 2 = Ok s" by simp
    have rf: "GetNamespaceReplicationFactor ns = Ok 2" by (simp add: GetNamespaceReplicationFactor_def None)
    from Cons.IH [OF rest, of b] Cons.IH [OF rest, of 2] v rf show ?thesis by auto
  next
    case (Some r)
    with Cons.prems v obtain rf where rf: "GetIntType r = Ok rf"
      and rest: "safe_unavailable vs (if rf = 1 then safe else min rf safe) = Ok s"
      by (auto simp: res_simps split: if_splits)
    have get: "GetNamespaceReplicationFactor ns = Ok rf" by (simp add: GetNamespaceReplicationFactor_def Some rf)
    from Cons.IH [OF rest, of b] Cons.IH [OF rest, of rf] v get show ?thesis by (auto split: if_splits)
  qed
qed simp

lemma safe_racks_bound:
  "safe_unavailable_racks racks safe = Ok s \<Longrightarrow> (b \<ge> 2 \<longrightarrow> safe \<le> b \<longrightarrow> s \<le> b) \<and>
   (\<forall>rack ns rf. rack \<in> set racks \<longrightarrow> namespace_in rack ns \<longrightarrow> GetNamespaceReplicationFactor ns = Ok rf \<longrightarrow> 2 \<le> rf \<longrightarrow> s \<le> rf)"
proof (induction racks arbitrary: safe b)
  case (Cons rack racks)
  from Cons.prems obtain nss safe' where nss: "idx (conf_map (RackAerospikeConfig rack)) ConfKeyNamespace = GList nss"
    and first: "safe_unavailable nss safe = Ok safe'" and rest: "safe_unavailable_racks racks safe' = Ok s"
    by (auto simp: res_simps typed_iff)
  have here: "s \<le> rf" if "namespace_in rack ns" "GetNamespaceReplicationFactor ns = Ok rf" "2 \<le> rf" for ns rf
    using safe_unavailable_bound [OF first, of rf] Cons.IH [OF rest, of rf] that nss
    by (auto simp: namespace_in_def rack_namespaces_def)
  from safe_unavailable_bound [OF first, of b] Cons.IH [OF rest, of b] here show ?case by auto
qed simp


section \<open>An accepted cluster\<close>

text \<open>The documented behaviour of the values of the Kubernetes libraries.\<close>

fun example_scaled :: "IntOrString option \<Rightarrow> int \<Rightarrow> bool \<Rightarrow> (string, int) res" where
  "example_scaled None whole up = Err ''nil value''"
| "example_scaled (Some (IosInt n)) whole up = Ok n"
| "example_scaled (Some (IosString s)) whole up =
     (if s \<noteq> [] \<and> last s = CHR ''%''
      then (case Atoi (butlast s) of
              None \<Rightarrow> Err ''invalid value''
            | Some n \<Rightarrow> Ok (if up then - ((- n * whole) div 100) else n * whole div 100))
      else Err ''not a percentage'')"

fun example_IntValue :: "IntOrString \<Rightarrow> int" where
  "example_IntValue (IosInt n) = n"
| "example_IntValue (IosString s) = (case Atoi s of None \<Rightarrow> 0 | Some n \<Rightarrow> n)"

definition example_env :: validate_env where
  "example_env = \<lparr>CompareVersions = (\<lambda>_ _. Ok 1), BaseVersion = (\<lambda>_. Ok ''8.0.0''), IsValidUpgrade = (\<lambda>_ _. None),
     Schema = (\<lambda>_ _. None), IsDNSName = (\<lambda>_. True), IsDNS1123Label = (\<lambda>_. []), IsDNS1035Label = (\<lambda>_. []),
     ScaledValue = example_scaled, IntValue = example_IntValue, InitImageEnv = (\<lambda>_. None),
     CertificateNames = (\<lambda>_. Ok [])\<rparr>"

definition block_volume :: "string \<Rightarrow> string \<Rightarrow> VolumeSpec" where
  "block_volume name path = example_volume\<lparr>VolName := name,
     VolSource := no_source\<lparr>SrcPersistentVolume := Some \<lparr>PvLabels = None, PvAnnotations = None,
       PvStorageClass = ''ssd'', PvVolumeMode = ''Block'', PvSize = ''1Gi'', PvAccessModes = None, PvSelector = None\<rparr>\<rparr>,
     VolPolicy := no_policy\<lparr>InitMethod := AerospikeVolumeMethodDD, WipeMethod := AerospikeVolumeMethodDD\<rparr>,
     VolAerospike := Some \<lparr>AttPath = path, AttMountOptions = no_mount_options\<rparr>\<rparr>"

definition webhook_rack :: "int \<Rightarrow> Rack" where
  "webhook_rack i = \<lparr>RackID = i, RackRevision = [], RackAerospikeConfig = \<lparr>Value = Some (valid_config 3000 ''lz4'')\<rparr>,
     RackStorage = no_storage\<lparr>CleanupThreads := 1, Volumes := [block_volume ''va'' ''/dev/a'', block_volume ''vb'' ''/dev/b'']\<rparr>,
     RackForceBlockFromRoster = None, RackZone = [], RackRegion = [], RackRackLabel = [], RackNodeName = [],
     RackInputAerospikeConfig = None,
        RackInputStorage = None, RackInputPodSpec = None, RackPodSpec = no_scheduling\<rparr>"

definition webhook_cluster :: "IntOrString \<Rightarrow> AerospikeCluster" where
  "webhook_cluster budget = \<lparr>ClusterName = ''cl'', ClusterNamespace = ''ns'', ClusterLabels = [],
     ClusterSpec = no_spec\<lparr>SpecSize := 4, SpecImage := ''aerospike/aerospike-server-enterprise:8.0.0.0'',
       SpecAerospikeConfig := \<lparr>Value = Some (valid_config 3000 ''lz4'')\<rparr>, SpecRacks := [webhook_rack 1, webhook_rack 2],
       SpecValidationPolicy := Some \<lparr>SkipWorkDirValidate = True, SkipXdrDlogFileValidate = False\<rparr>,
       SpecMaxUnavailable := Some budget\<rparr>,
     ClusterStatus = no_status\<rparr>"


lemma example_accepted: "snd (webhook_validate example_env (webhook_cluster (IosInt 1))) = Ok ()"
  by code_simp

lemma example_budget_accepted: "snd (validateMaxUnavailable example_env (webhook_cluster (IosInt 1))) = Ok ()"
  by code_simp

lemma accepted_spec_sound_witness:
  "snd (webhook_validate example_env (webhook_cluster (IosInt 1))) = Ok () \<and>
   distinct (map RackID (SpecRacks (ClusterSpec (webhook_cluster (IosInt 1))))) \<and>
   sc_names (webhook_rack 1) = sc_names (webhook_rack 2)"
proof -
  have "webhook_rack 1 \<in> set (SpecRacks (ClusterSpec (webhook_cluster (IosInt 1))))"
    "webhook_rack 2 \<in> set (SpecRacks (ClusterSpec (webhook_cluster (IosInt 1))))"
    by (simp_all add: webhook_cluster_def)
  with accepted_spec_sound [OF example_accepted] example_accepted show ?thesis by blast
qed


text \<open>
  Fact. A percentage passes the comparison with the replication factor unread: the library reads
  a string that is no decimal number as 0, so a budget of every pod of the cluster is accepted where the same
  budget as a number is refused.
\<close>

theorem percentage_budget_accepted:
  "snd (webhook_validate example_env (webhook_cluster (IosString ''100%''))) = Ok () \<and>
   example_scaled (Some (IosString ''100%'')) (SpecSize (ClusterSpec (webhook_cluster (IosString ''100%'')))) False = Ok 4 \<and>
   snd (webhook_validate example_env (webhook_cluster (IosInt 4))) = Err (V ''maxUnavailable'') \<and>
   snd (webhook_validate example_env (webhook_cluster (IosInt 2))) = Err (V ''maxUnavailable'')"
  by code_simp

end
