(* ===== verification/Cluster_Update.thy ===== *)
theory Cluster_Update
  imports Cluster_Validate Json_Patch
begin

text \<open>
  The validating webhook for an updated cluster
  (\<^verbatim>\<open>internal/webhook/v1/aerospikecluster_validating_webhook.go\<close>: \<^verbatim>\<open>ValidateUpdate\<close> and what it calls): which
  changes of a specification are allowed, given the previous specification and the status.
\<close>

section \<open>Parameters\<close>

text \<open>
  \<^verbatim>\<open>reflect.DeepEqual\<close> and \<^verbatim>\<open>json.Marshal\<close> see every field of the Go structures, of which the records of the model
  keep those the code reads; they are parameters on the records. \<open>UnmarshalDocument\<close> is the reader of \<open>CreatePatch\<close>.
\<close>

record update_env =
  BaseEnv :: validate_env
  EqualAccessControl :: "AerospikeAccessControlSpec option \<Rightarrow> AerospikeAccessControlSpec option \<Rightarrow> bool"
  EqualRackConfig :: "AerospikeClusterSpec \<Rightarrow> AerospikeClusterSpec \<Rightarrow> bool"
  EqualSpec :: "AerospikeClusterSpec \<Rightarrow> AerospikeClusterSpec \<Rightarrow> bool"
  MarshalSpec :: "AerospikeClusterSpec \<Rightarrow> (string, string) res"
  UnmarshalDocument :: "string \<Rightarrow> gval gomap option"

section \<open>Names of pods\<close>

definition sts_name :: "AerospikeCluster \<Rightarrow> Rack \<Rightarrow> string" where
  "sts_name cluster rack =
     ObjName (GetNamespacedNameForSTSOrConfigMap cluster (GetRackIdentifier (RackID rack) (RackRevision rack)))"

fun longest_sts_name :: "AerospikeCluster \<Rightarrow> (Rack \<times> int) list \<Rightarrow> string \<Rightarrow> string" where
  "longest_sts_name cluster [] longestSTSName = longestSTSName"
| "longest_sts_name cluster ((rack, rackSize) # racks) longestSTSName =
     longest_sts_name cluster racks
       (if rackSize = 0 then longestSTSName
        else if length longestSTSName < length (sts_name cluster rack) then sts_name cluster rack
        else longestSTSName)"

definition validateActualPodNames :: "AerospikeCluster \<Rightarrow> (cluster_error, unit) res" where
  "validateActualPodNames cluster =
     (let racks = SpecRacks (ClusterSpec cluster) in
      if racks = [] then Ok ()
      else
        res_bind (res_map_err VConf (DistributeItems (SpecSize (ClusterSpec cluster)) (int (length racks)))) (\<lambda>topology.
          let longestSTSName = longest_sts_name cluster (zip racks topology) [];
              maxSTSNameLengthAllowed = DNS1123LabelMaxLength - 1 - k8sControllerRevisionHashLabelValueMaxRunes
          in if maxSTSNameLengthAllowed < int (length longestSTSName) then Err (V ''label length'') else Ok ()))"

section \<open>Warnings about index checkpoints\<close>

text \<open>The last rack of an ID is the one the map keeps.\<close>

definition buildRackConfigMap :: "AerospikeCluster \<Rightarrow> int \<Rightarrow> gval gomap option" where
  "buildRackConfigMap cluster rackID =
     map_of (rev (map (\<lambda>rack. (RackID rack, conf_map (RackAerospikeConfig rack))) (SpecRacks (ClusterSpec cluster)))) rackID"

fun namespaces_by_name :: "gval list \<Rightarrow> gval gomap gomap \<Rightarrow> gval gomap gomap" where
  "namespaces_by_name [] acc = acc"
| "namespaces_by_name (v # vs) acc =
     namespaces_by_name vs
       (case as_map v of
          None \<Rightarrow> acc
        | Some nsConf \<Rightarrow>
            (case as_string (idx nsConf ConfKeyName) of
               None \<Rightarrow> acc
             | Some name \<Rightarrow> if name \<noteq> [] then gomap_put name nsConf acc else acc))"

definition buildNamespaceMap :: "gval gomap \<Rightarrow> gval gomap gomap" where
  "buildNamespaceMap aerospikeConfig =
     (case as_list (idx aerospikeConfig ConfKeyNamespace) of None \<Rightarrow> [] | Some nsList \<Rightarrow> namespaces_by_name nsList [])"

definition data_size :: "gval gomap \<Rightarrow> int" where
  "data_size ns = (case GetNamespaceDataSize ns of None \<Rightarrow> 0 | Some n \<Rightarrow> n)"

definition data_size_changed :: "string list \<Rightarrow> gval gomap gomap \<Rightarrow> gval \<Rightarrow> bool" where
  "data_size_changed oldCheckpointedNS newNSMap v =
     (case as_map v of
        None \<Rightarrow> False
      | Some nsConf \<Rightarrow>
          (let name = (case as_string (idx nsConf ConfKeyName) of None \<Rightarrow> [] | Some n \<Rightarrow> n) in
           name \<in> set oldCheckpointedNS \<and>
           (case gomap_get newNSMap name of
              None \<Rightarrow> False
            | Some newNS \<Rightarrow> data_size nsConf \<noteq> data_size newNS)))"

definition rack_checkpoint_warning :: "gval gomap \<Rightarrow> gval gomap \<Rightarrow> ('e, string list) res" where
  "rack_checkpoint_warning oldCfg newCfg =
     (if GetIndexCheckpointPath oldCfg = [] then Ok []
      else if GetIndexCheckpointPath newCfg \<noteq> GetIndexCheckpointPath oldCfg then Ok [''index-checkpoint-path changed'']
      else
        let oldCheckpointedNS = GetIndexCheckpointNamespaces oldCfg in
        if oldCheckpointedNS = [] then Ok []
        else
          res_bind (must (as_list (idx oldCfg ConfKeyNamespace))) (\<lambda>nsList.
            Ok (if list_ex (data_size_changed oldCheckpointedNS (buildNamespaceMap newCfg)) nsList
                then [''data-size changed''] else [])))"

fun checkpoint_warnings :: "(int \<Rightarrow> gval gomap option) \<Rightarrow> Rack list \<Rightarrow> ('e, string list) res" where
  "checkpoint_warnings oldRackMap [] = Ok []"
| "checkpoint_warnings oldRackMap (newRack # racks) =
     (case oldRackMap (RackID newRack) of
        None \<Rightarrow> checkpoint_warnings oldRackMap racks
      | Some oldCfg \<Rightarrow>
          res_bind (rack_checkpoint_warning oldCfg (conf_map (RackAerospikeConfig newRack))) (\<lambda>ws.
            if ws \<noteq> [] then Ok ws else checkpoint_warnings oldRackMap racks))"

definition warnCheckpointChanges :: "AerospikeCluster \<Rightarrow> AerospikeCluster \<Rightarrow> ('e, string list) res" where
  "warnCheckpointChanges oldCluster newCluster =
     checkpoint_warnings (buildRackConfigMap oldCluster) (SpecRacks (ClusterSpec newCluster))"

section \<open>Access control, image, operations\<close>

definition user_named :: "AerospikeUserSpec list \<Rightarrow> string \<Rightarrow> AerospikeUserSpec option" where
  "user_named users name = map_of (rev (map (\<lambda>u. (UserName u, u)) users)) name"

definition validateUsersAuthModeUpdate ::
  "AerospikeUserSpec list \<Rightarrow> AerospikeUserSpec list \<Rightarrow> (cluster_error, unit) res" where
  "validateUsersAuthModeUpdate oldUsers newUsers =
     (if oldUsers = [] then Ok ()
      else
        for_each (\<lambda>userSpec.
          case user_named oldUsers (UserName userSpec) of
            None \<Rightarrow> Ok ()
          | Some oldUserSpec \<Rightarrow>
              if UserAuthMode oldUserSpec = AerospikeAuthModePKIOnly \<and> IsAuthModeInternal (UserAuthMode userSpec)
              then Err (V ''authMode from PKI to Internal'') else Ok ()) newUsers)"

definition spec_users :: "AerospikeClusterSpec \<Rightarrow> AerospikeUserSpec list" where
  "spec_users spec = (case SpecAccessControl spec of None \<Rightarrow> [] | Some ac \<Rightarrow> Users ac)"

definition validateAccessControlUpdate ::
  "update_env \<Rightarrow> AerospikeClusterSpec \<Rightarrow> AerospikeClusterSpec \<Rightarrow> (cluster_error, unit) res" where
  "validateAccessControlUpdate env oldSpec newSpec =
     (if EqualAccessControl env (SpecAccessControl oldSpec) (SpecAccessControl newSpec) then Ok ()
      else if SpecAccessControl newSpec = None \<and> SpecAccessControl oldSpec \<noteq> None
      then Err (V ''aerospikeAccessControl removed'')
      else
        res_bind (res_map_err VConf (IsSecurityEnabled (Value (SpecAerospikeConfig newSpec)))) (\<lambda>desiredSecurityEnabled.
          if \<not> desiredSecurityEnabled then Err (V ''security disabled'')
          else validateUsersAuthModeUpdate (spec_users oldSpec) (spec_users newSpec)))"

definition validateImageUpdate :: "string \<Rightarrow> string \<Rightarrow> (cluster_error, unit) res" where
  "validateImageUpdate oldImage newImage =
     (if isEnterprise oldImage \<and> IsFederal newImage then Err (V ''enterprise to federal'')
      else if IsFederal oldImage \<and> isEnterprise newImage then Err (V ''federal to enterprise'')
      else Ok ())"

definition baseInitVersion :: string where "baseInitVersion = ''1.0.0''"

fun min_init_version :: "validate_env \<Rightarrow> AerospikePodStatus gomap \<Rightarrow> string \<Rightarrow> (cluster_error, string) res" where
  "min_init_version env [] minVersion = Ok minVersion"
| "min_init_version env ((name, pod) # pods) minVersion =
     (if PsInitImage pod = [] then Ok baseInitVersion
      else
        res_bind (image_version (PsInitImage pod)) (\<lambda>version.
          if minVersion = [] then min_init_version env pods version
          else
            res_bind (older env version minVersion) (\<lambda>old.
              min_init_version env pods (if old then version else minVersion))))"

definition getMinRunningInitVersion :: "validate_env \<Rightarrow> AerospikePodStatus gomap \<Rightarrow> (cluster_error, string) res" where
  "getMinRunningInitVersion env pods = min_init_version env pods []"

definition validateEnableDynamicConfigUpdate :: "validate_env \<Rightarrow> AerospikeCluster \<Rightarrow> (cluster_error, unit) res" where
  "validateEnableDynamicConfigUpdate env cluster =
     (if \<not> GetBool (SpecEnableDynamicConfigUpdate (ClusterSpec cluster)) then Ok ()
      else if StPods (ClusterStatus cluster) = [] then Ok ()
      else
        res_bind (getMinRunningInitVersion env (StPods (ClusterStatus cluster))) (\<lambda>minInitVersion.
        res_bind (older env minInitVersion minInitVersionForDynamicConf) (\<lambda>old.
          if old then Err (V ''enableDynamicConfigUpdate'') else Ok ())))"

definition validateOperationUpdate ::
  "AerospikeClusterSpec \<Rightarrow> AerospikeClusterSpec \<Rightarrow> AerospikeClusterStatus \<Rightarrow> (cluster_error, unit) res" where
  "validateOperationUpdate oldSpec newSpec status =
     (case elems (SpecOperations newSpec) of
        [] \<Rightarrow> Ok ()
      | newOp # _ \<Rightarrow>
          if (case elems (SpecOperations oldSpec) of
                [] \<Rightarrow> False
              | oldOp # _ \<Rightarrow> OpID oldOp = OpID newOp \<and> oldOp \<noteq> newOp)
          then Err (V ''operation updated'')
          else if \<not> set (elems (OpPodList newOp)) \<subseteq> set (GetAllPodNames (StPods status))
          then Err (V ''pod names in operation'')
          else if SpecOperations newSpec = StOperations status then Ok ()
          else if StSize status < SpecSize newSpec then Err (V ''operations with scale-up'')
          else if length (SpecRacks newSpec) \<noteq> length (StRacks status) \<or>
                  length (SpecRacks newSpec) \<noteq> length (SpecRacks oldSpec)
          then Err (V ''operations with rack change'')
          else if SpecImage newSpec \<noteq> StImage status \<or> SpecImage newSpec \<noteq> SpecImage oldSpec
          then Err (V ''operations with image update'')
          else Ok ())"

definition service_tls_name :: "AerospikeConfigSpec \<Rightarrow> (cluster_error, string) res" where
  "service_tls_name c = res_bind (res_map_err VConf (GetServiceTLSNameAndPort c)) (\<lambda>(tlsName, _). Ok tlsName)"

definition validateTLSAndPKIOnlyUpdate ::
  "AerospikeClusterSpec \<Rightarrow> AerospikeClusterSpec \<Rightarrow> AerospikeClusterStatus \<Rightarrow> (cluster_error, unit) res" where
  "validateTLSAndPKIOnlyUpdate oldSpec newSpec status =
     res_bind (service_tls_name (SpecAerospikeConfig oldSpec)) (\<lambda>oldTLSName.
     res_bind (service_tls_name (SpecAerospikeConfig newSpec)) (\<lambda>newTLSName.
       if oldTLSName = [] \<and> newTLSName \<noteq> [] \<and> hasPKIOnlyUser newSpec then Err (V ''TLS and PKIOnly in one update'')
       else
         (case StAerospikeConfig status of
            None \<Rightarrow> Ok ()
          | Some statusConfig \<Rightarrow>
              if \<not> hasPKIOnlyUser newSpec then Ok ()
              else
                res_bind (service_tls_name statusConfig) (\<lambda>statusTLSName.
                  if newTLSName \<noteq> [] \<and> statusTLSName = [] then Err (V ''PKIOnly during TLS rollout'')
                  else Ok ()))))"

definition validateNetworkPolicyUpdate ::
  "AerospikeNetworkPolicy \<Rightarrow> AerospikeNetworkPolicy \<Rightarrow> (cluster_error, unit) res" where
  "validateNetworkPolicyUpdate oldPolicy newPolicy =
     (if FabricType oldPolicy \<noteq> FabricType newPolicy then Err (V ''fabric type'')
      else if TLSFabricType oldPolicy \<noteq> TLSFabricType newPolicy then Err (V ''tlsFabric type'')
      else if FabricType newPolicy = AerospikeNetworkTypeCustomInterface \<and>
              CustomFabricNetworkNames oldPolicy \<noteq> CustomFabricNetworkNames newPolicy
      then Err (V ''customFabricNetworkNames'')
      else if TLSFabricType newPolicy = AerospikeNetworkTypeCustomInterface \<and>
              CustomTLSFabricNetworkNames oldPolicy \<noteq> CustomTLSFabricNetworkNames newPolicy
      then Err (V ''customTLSFabricNetworkNames'')
      else Ok ())"

section \<open>Devices, racks, revisions\<close>

text \<open>A device or file of the status may not serve another namespace.\<close>

definition entry_kept :: "string gomap \<Rightarrow> string \<Rightarrow> string \<Rightarrow> gval \<Rightarrow> (cluster_error, unit) res" where
  "entry_kept owners kind namespace d =
     (case as_string d of
        None \<Rightarrow> Err (VConfig (EntryNotString kind))
      | Some entry \<Rightarrow>
          (let owner = (case gomap_get owners entry of None \<Rightarrow> [] | Some n \<Rightarrow> n) in
           if owner \<noteq> [] \<and> owner \<noteq> namespace then Err (V ''entry moved to another namespace'') else Ok ()))"

definition namespace_entries_kept :: "string gomap \<Rightarrow> string gomap \<Rightarrow> gval \<Rightarrow> (cluster_error, unit) res" where
  "namespace_entries_kept deviceList fileList v =
     res_bind (must (as_map v)) (\<lambda>nsConf.
     res_bind (must (as_string (idx nsConf ConfKeyName))) (\<lambda>namespace.
     res_bind (must (as_map (idx nsConf ConfKeyStorageEngine))) (\<lambda>storage.
     res_bind (res_map_err VConfig (entries_of ''devices'' storage)) (\<lambda>devices.
     res_bind (for_each (entry_kept deviceList ''devices'' namespace) devices) (\<lambda>_.
     res_bind (res_map_err VConfig (entries_of ''files'' storage)) (\<lambda>files.
       for_each (entry_kept fileList ''files'' namespace) files))))))"

definition validateStorageEngineDeviceListUpdate :: "gval list \<Rightarrow> gval list \<Rightarrow> (cluster_error, unit) res" where
  "validateStorageEngineDeviceListUpdate nsConfList statusNsConfList =
     res_bind (res_map_err VConfig (ValidateStorageEngineDeviceList nsConfList)) (\<lambda>(deviceList, fileList).
       for_each (namespace_entries_kept deviceList fileList) statusNsConfList)"

definition validateNsConfUpdateFromStatus ::
  "AerospikeConfigSpec \<Rightarrow> AerospikeConfigSpec option \<Rightarrow> (cluster_error, unit) res" where
  "validateNsConfUpdateFromStatus newConfSpec currentStatus =
     res_bind (case currentStatus of
                 None \<Rightarrow> Ok []
               | Some c \<Rightarrow> if conf_map c = [] then Ok [] else must (as_list (idx (conf_map c) ConfKeyNamespace)))
       (\<lambda>statusNsConfList.
     res_bind (must (as_list (idx (conf_map newConfSpec) ConfKeyNamespace))) (\<lambda>newNsConfList.
       validateStorageEngineDeviceListUpdate newNsConfList statusNsConfList))"

definition validateAerospikeConfigUpdate ::
  "AerospikeConfigSpec \<Rightarrow> AerospikeConfigSpec \<Rightarrow> AerospikeConfigSpec option \<Rightarrow> (cluster_error, unit) res" where
  "validateAerospikeConfigUpdate incomingSpec outgoingSpec currentStatus =
     res_bind (res_map_err VConfig
                 (ValidateAerospikeConfigUpdateWithoutSchema (Value outgoingSpec) (Value incomingSpec))) (\<lambda>_.
       validateNsConfUpdateFromStatus incomingSpec currentStatus)"

definition blocked_racks :: "Rack list \<Rightarrow> int list" where
  "blocked_racks racks = remdups (map RackID (filter (\<lambda>rack. GetBool (RackForceBlockFromRoster rack)) racks))"

definition validateForceBlockFromRosterUpdate :: "AerospikeCluster \<Rightarrow> (cluster_error, unit) res" where
  "validateForceBlockFromRosterUpdate newObj =
     (if StAerospikeConfig (ClusterStatus newObj) = None then Err (V ''status not updated'')
      else
        let inSpec = blocked_racks (SpecRacks (ClusterSpec newObj));
            inStatus = blocked_racks (StRacks (ClusterStatus newObj));
            remainingRacks = int (length (StRacks (ClusterStatus newObj))) - int (length inSpec)
        in res_bind (validateRackCountConstraints remainingRacks (ClusterSpec newObj)) (\<lambda>_.
             if 1 < length (filter (\<lambda>i. i \<notin> set inStatus) inSpec) then Err (V ''forceBlockFromRoster on several racks'')
             else Ok ()))"

definition rack_status_config :: "AerospikeCluster \<Rightarrow> Rack \<Rightarrow> AerospikeConfigSpec option" where
  "rack_status_config obj rack =
     map_option RackAerospikeConfig (find (\<lambda>st. RackID st = RackID rack) (StRacks (ClusterStatus obj)))"

definition rack_storage_update :: "AerospikeCluster \<Rightarrow> Rack \<Rightarrow> Rack \<Rightarrow> (cluster_error, unit) res" where
  "rack_storage_update oldObj oldRack newRack =
     (if Volumes (RackStorage oldRack) = [] \<and> Volumes (RackStorage newRack) = [] then Ok ()
      else if RackRevision oldRack = RackRevision newRack
      then res_map_err VStorage (validateStorageSpecChange (RackStorage oldRack) (RackStorage newRack))
      else
        (case find (\<lambda>st. RackID st = RackID newRack \<and> RackRevision st = RackRevision newRack)
                (StRacks (ClusterStatus oldObj)) of
           None \<Rightarrow> Ok ()
         | Some st \<Rightarrow> res_map_err VStorage (validateStorageSpecChange (RackStorage st) (RackStorage newRack))))"

text \<open>
  The two racks of one ID. The flags that block a rack from the roster are compared as pointers of two
  separately decoded objects, which are equal only when both are nil.
\<close>

definition rack_pair_update ::
  "AerospikeCluster \<Rightarrow> AerospikeCluster \<Rightarrow> Rack \<Rightarrow> Rack \<Rightarrow> (cluster_error, bool) res" where
  "rack_pair_update oldObj newObj oldRack newRack =
     (if RackNodeName oldRack \<noteq> RackNodeName newRack \<or> RackRackLabel oldRack \<noteq> RackRackLabel newRack \<or>
         RackRegion oldRack \<noteq> RackRegion newRack \<or> RackZone oldRack \<noteq> RackZone newRack
      then Err (V ''rack placement'')
      else
        res_bind (if conf_map (RackAerospikeConfig oldRack) = [] \<and> conf_map (RackAerospikeConfig newRack) = [] then Ok ()
                  else validateAerospikeConfigUpdate (RackAerospikeConfig newRack) (RackAerospikeConfig oldRack)
                         (rack_status_config newObj newRack)) (\<lambda>_.
        res_bind (rack_storage_update oldObj oldRack newRack) (\<lambda>_.
          Ok (RackForceBlockFromRoster oldRack \<noteq> None \<or> RackForceBlockFromRoster newRack \<noteq> None))))"

fun rack_updates :: "AerospikeCluster \<Rightarrow> AerospikeCluster \<Rightarrow> Rack list \<Rightarrow> (cluster_error, bool) res" where
  "rack_updates oldObj newObj [] = Ok False"
| "rack_updates oldObj newObj (oldRack # racks) =
     (case find (\<lambda>newRack. RackID oldRack = RackID newRack) (SpecRacks (ClusterSpec newObj)) of
        None \<Rightarrow> rack_updates oldObj newObj racks
      | Some newRack \<Rightarrow>
          res_bind (rack_pair_update oldObj newObj oldRack newRack) (\<lambda>changed.
          res_bind (rack_updates oldObj newObj racks) (\<lambda>rest. Ok (changed \<or> rest))))"

definition validateRackUpdate :: "update_env \<Rightarrow> AerospikeCluster \<Rightarrow> AerospikeCluster \<Rightarrow> (cluster_error, unit) res" where
  "validateRackUpdate env oldObj newObj =
     (if EqualRackConfig env (ClusterSpec newObj) (ClusterSpec oldObj) then Ok ()
      else
        res_bind (rack_updates oldObj newObj (SpecRacks (ClusterSpec oldObj))) (\<lambda>forceBlockFromRosterChanged.
          if forceBlockFromRosterChanged then validateForceBlockFromRosterUpdate newObj else Ok ()))"

definition scaleDownInFlight :: "AerospikeCluster \<Rightarrow> (cluster_error, bool) res" where
  "scaleDownInFlight obj =
     (let specRacks = SpecRacks (ClusterSpec obj); statusRacks = StRacks (ClusterStatus obj) in
      if statusRacks = [] then Ok False
      else
        res_bind (res_map_err VConf (DistributeItems (SpecSize (ClusterSpec obj)) (int (length specRacks)))) (\<lambda>specTopology.
        res_bind (res_map_err VConf (DistributeItems (StSize (ClusterStatus obj)) (int (length statusRacks)))) (\<lambda>statusTopology.
          let specSizeByID = map_of (rev (zip (map RackID specRacks) specTopology)) in
          Ok (list_ex (\<lambda>(st, statusSize).
                case specSizeByID (RackID st) of None \<Rightarrow> True | Some specSize \<Rightarrow> specSize < statusSize)
                (zip statusRacks statusTopology)))))"

definition validateParallelScaleDownToggle :: "AerospikeCluster \<Rightarrow> AerospikeCluster \<Rightarrow> (cluster_error, unit) res" where
  "validateParallelScaleDownToggle oldObj newObj =
     (let oldEnabled = GetBool (SpecEnableParallelScaleDown (ClusterSpec oldObj));
          newEnabled = GetBool (SpecEnableParallelScaleDown (ClusterSpec newObj))
      in if \<not> oldEnabled \<or> newEnabled then Ok ()
         else
           res_bind (scaleDownInFlight oldObj) (\<lambda>inFlight.
             if inFlight then Err (V ''scale-down in progress'') else Ok ()))"

definition rack_revisions :: "Rack list \<Rightarrow> int \<Rightarrow> string list" where
  "rack_revisions racks rackID = remdups (map RackRevision (filter (\<lambda>rack. RackID rack = rackID) racks))"

definition validateConcurrentRackRevisions :: "AerospikeCluster \<Rightarrow> AerospikeCluster \<Rightarrow> (cluster_error, unit) res" where
  "validateConcurrentRackRevisions oldObj newObj =
     (let racks = StRacks (ClusterStatus oldObj) @ SpecRacks (ClusterSpec oldObj) @ SpecRacks (ClusterSpec newObj) in
      for_each (\<lambda>rackID. if 2 < length (rack_revisions racks rackID) then Err (V ''concurrent revisions'') else Ok ())
        (map RackID racks))"

definition revisionsByRackID :: "Rack list \<Rightarrow> int \<Rightarrow> string option" where
  "revisionsByRackID racks rackID = map_of (rev (map (\<lambda>rack. (RackID rack, RackRevision rack)) racks)) rackID"

definition revision_differs :: "string option \<Rightarrow> string \<Rightarrow> bool" where
  "revision_differs old new = (case old of None \<Rightarrow> False | Some r \<Rightarrow> r \<noteq> new)"

definition hasRackRevisionChange :: "Rack list \<Rightarrow> Rack list \<Rightarrow> Rack list \<Rightarrow> bool" where
  "hasRackRevisionChange statusRacks oldSpecRacks newSpecRacks =
     list_ex (\<lambda>rack. revision_differs (revisionsByRackID oldSpecRacks (RackID rack)) (RackRevision rack) \<or>
                     revision_differs (revisionsByRackID statusRacks (RackID rack)) (RackRevision rack)) newSpecRacks"

text \<open>The error of the scaled value is dropped; the library returns 0 with it.\<close>

definition clampedBatch :: "validate_env \<Rightarrow> IntOrString option \<Rightarrow> int \<Rightarrow> int" where
  "clampedBatch env batch base =
     (let v = (case ScaledValue env batch base True of Ok n \<Rightarrow> n | _ \<Rightarrow> 0) in
      if base \<le> v then base else if v < 1 then 1 else v)"

definition podsLeavingFirstRack :: "validate_env \<Rightarrow> AerospikeClusterSpec \<Rightarrow> int" where
  "podsLeavingFirstRack env spec =
     (let racks = max (int (length (SpecRacks spec))) 1;
          firstRackSize = SpecSize spec sdiv racks + (if SpecSize spec smod racks \<noteq> 0 then 1 else 0)
      in clampedBatch env (SpecRollingUpdateBatchSize spec) firstRackSize)"

definition namespace_survives :: "AerospikeClusterSpec \<Rightarrow> int \<Rightarrow> nsConf \<Rightarrow> (cluster_error, unit) res" where
  "namespace_survives spec survivors conf =
     (if replicationFactor conf \<le> 1 then Err (V ''revision change without replicas'')
      else if \<not> scEnabled conf then Ok ()
      else if survivors < replicationFactor conf then Err (V ''revision change below replication-factor'')
      else if survivors \<le> SpecSize spec sdiv 2 then Err (V ''revision change below majority'')
      else Ok ())"

definition validateRackRevisionChange :: "update_env \<Rightarrow> AerospikeCluster \<Rightarrow> AerospikeCluster \<Rightarrow> (cluster_error, unit) res" where
  "validateRackRevisionChange env oldObj newObj =
     (let spec = ClusterSpec newObj in
      if EqualSpec env (ClusterSpec oldObj) spec then Ok ()
      else if \<not> hasRackRevisionChange (StRacks (ClusterStatus oldObj)) (SpecRacks (ClusterSpec oldObj)) (SpecRacks spec)
      then Ok ()
      else if SpecSize spec = 1 then Err (V ''revision change of a single node'')
      else
        let leaving = podsLeavingFirstRack (BaseEnv env) spec; survivors = SpecSize spec - leaving in
        res_bind (getNsConfForNamespaces (SpecRacks spec) []) (\<lambda>nsConfs.
          for_each (\<lambda>(nsName, conf). namespace_survives spec survivors conf) nsConfs))"

section \<open>Replication factors\<close>

fun namespace_factors :: "int \<Rightarrow> gval list \<Rightarrow> int gomap \<Rightarrow> int gomap" where
  "namespace_factors rackID [] nsRFMap = nsRFMap"
| "namespace_factors rackID (v # vs) nsRFMap =
     namespace_factors rackID vs
       (case as_map v of
          None \<Rightarrow> nsRFMap
        | Some ns \<Rightarrow>
            (case as_string (idx ns ConfKeyName) of
               None \<Rightarrow> nsRFMap
             | Some name \<Rightarrow>
                 gomap_put (name @ ''@'' @ Itoa rackID)
                   (case GetNamespaceReplicationFactor ns of Ok rf \<Rightarrow> rf | _ \<Rightarrow> 2) nsRFMap))"

fun rack_factors :: "Rack list \<Rightarrow> int gomap \<Rightarrow> int gomap" where
  "rack_factors [] nsRFMap = nsRFMap"
| "rack_factors (rack # racks) nsRFMap =
     rack_factors racks
       (case as_list (idx (conf_map (RackAerospikeConfig rack)) ConfKeyNamespace) of
          None \<Rightarrow> nsRFMap
        | Some nsList \<Rightarrow> namespace_factors (RackID rack) nsList nsRFMap)"

text \<open>The names are the keys of the map.\<close>

definition getAllNamespaceNamesAndRFMap :: "AerospikeClusterSpec \<Rightarrow> int gomap" where
  "getAllNamespaceNamesAndRFMap spec = rack_factors (SpecRacks spec) []"

definition nsNamesFromRFChanges :: "string list \<Rightarrow> string list" where
  "nsNamesFromRFChanges rfChanges =
     remdups (List.map_filter (\<lambda>nsRackID.
       let parts = SplitN2 (CHR ''@'') nsRackID in
       if length parts = 2 then Some (hd parts) else None) rfChanges)"

definition filterActualRFChanges :: "string list \<Rightarrow> int gomap \<Rightarrow> int gomap \<Rightarrow> string list" where
  "filterActualRFChanges existingNsNames oldNsRFMap newNsRFMap =
     filter (\<lambda>k. gomap_get oldNsRFMap k \<noteq> gomap_get newNsRFMap k) existingNsNames"

definition exempt_path :: "string \<Rightarrow> bool" where
  "exempt_path path \<longleftrightarrow>
     HasSuffix path (''/'' @ ConfKeyReplicationFactor) \<or> path = ''/enableDynamicConfigUpdate'' \<or> path = ''/paused''"

definition validateReplicationFactorUpdateComparison ::
  "update_env \<Rightarrow> AerospikeClusterSpec \<Rightarrow> AerospikeCluster \<Rightarrow> string list option \<Rightarrow> (cluster_error, unit) res" where
  "validateReplicationFactorUpdateComparison env oldSpec newObj statusNsNames =
     res_bind (res_map_err VLib (MarshalSpec env oldSpec)) (\<lambda>oldJSON.
     res_bind (res_map_err VLib (MarshalSpec env (ClusterSpec newObj))) (\<lambda>newJSON.
     res_bind (res_map_err (\<lambda>_. V ''JSON patch'') (CreatePatch (UnmarshalDocument env) oldJSON newJSON)) (\<lambda>patch.
       let otherSpecChanged = list_ex (\<lambda>op. \<not> exempt_path (Path op)) patch;
           oldNsRFMap = getAllNamespaceNamesAndRFMap oldSpec;
           newNsRFMap = getAllNamespaceNamesAndRFMap (ClusterSpec newObj);
           namespaceAddedOrRemoved = (set (gomap_keys oldNsRFMap) \<noteq> set (gomap_keys newNsRFMap));
           existingNsNames = filter (has newNsRFMap) (gomap_keys oldNsRFMap);
           actualRFChanges = filterActualRFChanges existingNsNames oldNsRFMap newNsRFMap
       in if actualRFChanges = [] then Ok ()
          else if 1 < length (nsNamesFromRFChanges actualRFChanges) then Err (V ''replication-factor of several namespaces'')
          else if (case statusNsNames of None \<Rightarrow> False | Some names \<Rightarrow> \<not> set actualRFChanges \<subseteq> set names)
          then Err (V ''replication-factor during namespace rollout'')
          else if otherSpecChanged \<or> namespaceAddedOrRemoved then Err (V ''replication-factor with other changes'')
          else if \<not> GetBool (SpecEnableDynamicConfigUpdate (ClusterSpec newObj))
          then Err (V ''replication-factor without enableDynamicConfigUpdate'')
          else Ok ())))"

definition validateReplicationFactorUpdateRestrictions ::
  "update_env \<Rightarrow> AerospikeCluster \<Rightarrow> AerospikeCluster \<Rightarrow> (cluster_error, unit) res" where
  "validateReplicationFactorUpdateRestrictions env oldObj newObj =
     (case StAerospikeConfig (ClusterStatus newObj) of
        None \<Rightarrow> validateReplicationFactorUpdateComparison env (ClusterSpec oldObj) newObj None
      | Some _ \<Rightarrow>
          let statusToSpec = CopyStatusToSpec (ClusterStatus newObj);
              statusNsNames = gomap_keys (getAllNamespaceNamesAndRFMap statusToSpec)
          in res_bind (validateReplicationFactorUpdateComparison env (ClusterSpec oldObj) newObj (Some statusNsNames)) (\<lambda>_.
               validateReplicationFactorUpdateComparison env statusToSpec newObj None))"

section \<open>An update\<close>

definition ValidateUpdate :: "update_env \<Rightarrow> AerospikeCluster \<Rightarrow> AerospikeCluster \<Rightarrow> unit verdict" where
  "ValidateUpdate env oldObject aerospikeCluster =
     (let oldSpec = ClusterSpec oldObject; spec = ClusterSpec aerospikeCluster; status = ClusterStatus aerospikeCluster in
     vbind (webhook_validate (BaseEnv env) aerospikeCluster) (\<lambda>_.
     vbind (check (validateEnableDynamicConfigUpdate (BaseEnv env) aerospikeCluster)) (\<lambda>_.
     vbind (check (validateImageUpdate (SpecImage oldSpec) (SpecImage spec))) (\<lambda>_.
     vbind (check (image_version (SpecImage oldSpec))) (\<lambda>outgoingVersion.
     vbind (check (image_version (SpecImage spec))) (\<lambda>incomingVersion.
     vbind (check (case IsValidUpgrade (BaseEnv env) outgoingVersion incomingVersion of
                     None \<Rightarrow> Ok () | Some e \<Rightarrow> Err (VLib e))) (\<lambda>_.
     vbind (check (if GetBool (MultiPodPerHost (SpecPodSpec spec)) \<noteq> GetBool (MultiPodPerHost (SpecPodSpec oldSpec))
                   then Err (V ''MultiPodPerHost'') else Ok ())) (\<lambda>_.
     vbind (check (validateNetworkPolicyUpdate (SpecNetworkPolicy oldSpec) (SpecNetworkPolicy spec))) (\<lambda>_.
     vbind (check (validateOperationUpdate oldSpec spec status)) (\<lambda>_.
     vbind (check (validateAccessControlUpdate env oldSpec spec)) (\<lambda>_.
     vbind (check (validateTLSAndPKIOnlyUpdate oldSpec spec status)) (\<lambda>_.
     vbind (check (validateAerospikeConfigUpdate (SpecAerospikeConfig spec) (SpecAerospikeConfig oldSpec)
                     (StAerospikeConfig status))) (\<lambda>_.
     vbind (check (validateRackUpdate env oldObject aerospikeCluster)) (\<lambda>_.
     vbind (check (validateParallelScaleDownToggle oldObject aerospikeCluster)) (\<lambda>_.
     vbind (check (validateConcurrentRackRevisions oldObject aerospikeCluster)) (\<lambda>_.
     vbind (check (validateRackRevisionChange env oldObject aerospikeCluster)) (\<lambda>_.
     vbind (check (validateActualPodNames aerospikeCluster)) (\<lambda>_.
     vbind (check (validateReplicationFactorUpdateRestrictions env oldObject aerospikeCluster)) (\<lambda>_.
     vbind (check (warnCheckpointChanges oldObject aerospikeCluster)) (\<lambda>ws. warn ws))))))))))))))))))))"

definition ValidateDelete :: "AerospikeCluster \<Rightarrow> unit verdict" where
  "ValidateDelete aerospikeCluster = warn []"

section \<open>What an accepted update keeps\<close>

lemma accepted_update:
  assumes "snd (ValidateUpdate env old new) = Ok ()"
  shows "snd (webhook_validate (BaseEnv env) new) = Ok ()"
    and "validateRackUpdate env old new = Ok ()"
    and "validateParallelScaleDownToggle old new = Ok ()"
    and "validateConcurrentRackRevisions old new = Ok ()"
    and "validateRackRevisionChange env old new = Ok ()"
    and "validateActualPodNames new = Ok ()"
    and "validateReplicationFactorUpdateRestrictions env old new = Ok ()"
  using assms unfolding ValidateUpdate_def Let_def by (auto simp: res_simps)

lemma accepted_rack_ids:
  assumes "snd (webhook_validate env cluster) = Ok ()"
  shows "distinct (map RackID (SpecRacks (ClusterSpec cluster)))"
proof -
  obtain version where "snd (validateRackConfig env cluster version) = Ok ()"
    using assms unfolding webhook_validate_def by (auto simp: res_simps)
  then show ?thesis by (rule accepted_racks)
qed

lemma find_by_key:
  assumes "distinct (map f xs)" and "x \<in> set xs"
  shows "find (\<lambda>y. f x = f y) xs = Some x"
  using assms by (induction xs) (auto simp: image_iff)

lemma rack_updates_Ok:
  assumes "rack_updates old new racks = Ok changed" and "distinct (map RackID (SpecRacks (ClusterSpec new)))"
    and "rack \<in> set racks" and "rack' \<in> set (SpecRacks (ClusterSpec new))" and "RackID rack = RackID rack'"
  shows "\<exists>c. rack_pair_update old new rack rack' = Ok c"
  using assms(1,3)
proof (induction racks arbitrary: changed)
  case (Cons r racks)
  have found: "find (\<lambda>newRack. RackID rack = RackID newRack) (SpecRacks (ClusterSpec new)) = Some rack'"
    using find_by_key [OF assms(2,4)] assms(5) by simp
  show ?case
  proof (cases "r = rack")
    case True
    with Cons.prems found show ?thesis by (auto simp: res_simps)
  next
    case False
    with Cons show ?thesis by (auto simp: res_simps split: option.splits)
  qed
qed simp

definition placement :: "Rack \<Rightarrow> string list" where
  "placement rack = [RackNodeName rack, RackRackLabel rack, RackRegion rack, RackZone rack]"

lemma rack_pair_update_placement: "rack_pair_update old new r r' = Ok c \<Longrightarrow> placement r = placement r'"
  by (auto simp: rack_pair_update_def placement_def split: if_splits)

lemma rack_pair_update_storage: "rack_pair_update old new r r' = Ok c \<Longrightarrow> rack_storage_update old r r' = Ok ()"
  by (auto simp: rack_pair_update_def res_simps split: if_splits)

definition volumes_kept :: "AerospikeStorageSpec \<Rightarrow> AerospikeStorageSpec \<Rightarrow> bool" where
  "volumes_kept s t \<longleftrightarrow> (\<forall>n. rel_option pv_DeepEqual (pv_named (Volumes s) n) (pv_named (Volumes t) n))"

definition unique_volumes :: "Rack \<Rightarrow> bool" where
  "unique_volumes rack \<longleftrightarrow> distinct (map VolName (Volumes (RackStorage rack)))"

lemma storage_change_kept:
  assumes "validateStorageSpecChange (RackStorage r) (RackStorage r') = Ok ()" "unique_volumes r" "unique_volumes r'"
  shows "volumes_kept (RackStorage r) (RackStorage r')"
  using assms volumes_rel_by_name [of "Volumes (RackStorage r)" "Volumes (RackStorage r')"]
  unfolding validateStorageSpecChange_iff volumes_kept_def unique_volumes_def by blast

lemma no_volumes_kept: "Volumes s = [] \<Longrightarrow> Volumes t = [] \<Longrightarrow> volumes_kept s t"
  by (simp add: volumes_kept_def pv_named_def volume_named_def)

lemma same_revision_storage:
  assumes "rack_storage_update old r r' = Ok ()" "RackRevision r = RackRevision r'" "unique_volumes r" "unique_volumes r'"
  shows "volumes_kept (RackStorage r) (RackStorage r')"
  using assms storage_change_kept [OF _ assms(3,4)] no_volumes_kept [of "RackStorage r" "RackStorage r'"]
  by (auto simp: rack_storage_update_def res_simps split: if_splits)

lemma status_storage:
  assumes "rack_storage_update old r r' = Ok ()" "RackRevision r \<noteq> RackRevision r'"
    and "Volumes (RackStorage r) \<noteq> [] \<or> Volumes (RackStorage r') \<noteq> []"
    and "find (\<lambda>st. RackID st = RackID r' \<and> RackRevision st = RackRevision r') (StRacks (ClusterStatus old)) = Some st"
    and "unique_volumes st" "unique_volumes r'"
  shows "volumes_kept (RackStorage st) (RackStorage r')"
proof -
  have "validateStorageSpecChange (RackStorage st) (RackStorage r') = Ok ()"
    using assms(1-4) by (auto simp: rack_storage_update_def res_simps split: if_splits)
  then show ?thesis using assms(5,6) by (rule storage_change_kept)
qed

text \<open>What deep equality of two rack configurations says of the racks.\<close>

definition racks_DeepEqual :: "Rack list \<Rightarrow> Rack list \<Rightarrow> bool" where
  "racks_DeepEqual = list_all2 (\<lambda>r r'. RackID r = RackID r' \<and> RackRevision r = RackRevision r' \<and> placement r = placement r' \<and>
     list_all2 (\<lambda>v v'. VolName v = VolName v' \<and>
       rel_option pv_DeepEqual (SrcPersistentVolume (VolSource v)) (SrcPersistentVolume (VolSource v')))
       (Volumes (RackStorage r)) (Volumes (RackStorage r')))"

lemma equal_volumes_kept:
  assumes "list_all2 (\<lambda>v v'. VolName v = VolName v' \<and>
       rel_option pv_DeepEqual (SrcPersistentVolume (VolSource v)) (SrcPersistentVolume (VolSource v'))) vs vs'"
  shows "rel_option pv_DeepEqual (pv_named vs n) (pv_named vs' n)"
  using assms by (induction vs vs' rule: list_all2_induct) (auto simp: pv_named_def volume_named_def)

lemma equal_racks_kept:
  assumes "racks_DeepEqual racks racks'" and "distinct (map RackID racks')"
    and "rack \<in> set racks" and "rack' \<in> set racks'" and "RackID rack = RackID rack'"
  shows "placement rack = placement rack' \<and> RackRevision rack = RackRevision rack' \<and>
    volumes_kept (RackStorage rack) (RackStorage rack')"
proof -
  obtain i where i: "i < length racks" "racks ! i = rack" using assms(3) by (auto simp: in_set_conv_nth)
  have len: "length racks = length racks'" using assms(1) by (auto simp: racks_DeepEqual_def dest: list_all2_lengthD)
  note step = list_all2_nthD [OF assms(1) [unfolded racks_DeepEqual_def] i(1)]
  obtain j where j: "j < length racks'" "racks' ! j = rack'" using assms(4) by (auto simp: in_set_conv_nth)
  have "map RackID racks' ! i = map RackID racks' ! j" using step i j len assms(5) by simp
  then have "i = j" using assms(2) i(1) j(1) len by (metis length_map nth_eq_iff_index_eq)
  with step i j equal_volumes_kept show ?thesis by (auto simp: volumes_kept_def)
qed

lemma rack_revisions_set: "set (rack_revisions racks i) = {RackRevision r | r. r \<in> set racks \<and> RackID r = i}"
  by (auto simp: rack_revisions_def)

lemma concurrent_revisions:
  assumes "validateConcurrentRackRevisions old new = Ok ()"
  shows "card {RackRevision r | r. RackID r = i \<and> (r \<in> set (StRacks (ClusterStatus old)) \<or>
      r \<in> set (SpecRacks (ClusterSpec old)) \<or> r \<in> set (SpecRacks (ClusterSpec new)))} \<le> 2" (is "card ?R \<le> 2")
proof -
  define racks where "racks = StRacks (ClusterStatus old) @ SpecRacks (ClusterSpec old) @ SpecRacks (ClusterSpec new)"
  have R: "?R = set (rack_revisions racks i)" unfolding rack_revisions_set racks_def by auto
  show ?thesis
  proof (cases "i \<in> set (map RackID racks)")
    case True
    with assms have "length (rack_revisions racks i) \<le> 2"
      unfolding validateConcurrentRackRevisions_def Let_def racks_def [symmetric] by (auto simp: res_simps split: if_splits)
    then show ?thesis unfolding R using card_length [of "rack_revisions racks i"] by linarith
  next
    case False
    then have "rack_revisions racks i = []" by (auto simp: rack_revisions_def filter_empty_conv)
    then show ?thesis unfolding R by simp
  qed
qed

section \<open>The largest batch\<close>

definition scaled :: "validate_env \<Rightarrow> IntOrString option \<Rightarrow> int \<Rightarrow> int" where
  "scaled env batch base = (case ScaledValue env batch base True of Ok n \<Rightarrow> n | _ \<Rightarrow> 0)"

text \<open>
  What is relied on of scaled values: nothing is an error, and a value that is not negative scales up with its base.
\<close>

definition scaling_law :: "validate_env \<Rightarrow> bool" where
  "scaling_law env \<longleftrightarrow>
     (\<forall>base up. \<exists>e. ScaledValue env None base up = Err e) \<and>
     (\<forall>b p m n. ScaledValue env (Some b) 100 False = Ok p \<and> 0 \<le> p \<and> 0 \<le> m \<and> m \<le> n \<longrightarrow>
        scaled env (Some b) m \<le> scaled env (Some b) n)"

lemma clampedBatch_alt: "clampedBatch env batch base = (if base \<le> scaled env batch base then base else max 1 (scaled env batch base))"
  by (simp add: clampedBatch_def scaled_def Let_def max_def)

lemma clampedBatch_mono:
  assumes "scaled env batch m \<le> scaled env batch n" and "1 \<le> m" and "m \<le> n"
  shows "clampedBatch env batch m \<le> clampedBatch env batch n"
  using assms by (auto simp: clampedBatch_alt)

lemma batch_scales:
  assumes "scaling_law env" and "validateBatchSize env batch rolling cluster = Ok ()" and "0 \<le> m" and "m \<le> n"
  shows "scaled env batch m \<le> scaled env batch n"
proof (cases batch)
  case None
  have "scaled env None k = 0" for k
  proof -
    from assms(1) obtain e where "ScaledValue env None k True = Err e" unfolding scaling_law_def by blast
    then show ?thesis by (simp add: scaled_def)
  qed
  then show ?thesis by (simp add: None)
next
  case (Some b)
  from assms(2) Some obtain p where "ScaledValue env (Some b) 100 False = Ok p" "0 \<le> p"
    by (auto simp: validateBatchSize_def validateIntOrStringField_def res_simps split: if_splits)
  with assms(1,3,4) Some show ?thesis unfolding scaling_law_def by blast
qed

lemma podsLeavingFirstRack_head:
  assumes "DistributeItems (SpecSize spec) (int (length (SpecRacks spec))) = Ok topology" and "0 \<le> SpecSize spec"
    and "SpecRacks spec \<noteq> []"
  shows "podsLeavingFirstRack env spec = clampedBatch env (SpecRollingUpdateBatchSize spec) (hd topology)"
    and "t \<in> set topology \<Longrightarrow> t \<le> hd topology"
proof -
  define k where "k = int (length (SpecRacks spec))"
  have k: "1 \<le> k" using assms(3) by (cases "SpecRacks spec") (auto simp: k_def)
  have top: "topology = map (\<lambda>g. if g < SpecSize spec mod k then SpecSize spec div k + 1 else SpecSize spec div k) [0..k - 1]"
    using assms(1) DistributeItems_nonneg [OF assms(2), of k] k unfolding k_def [symmetric] by simp
  have upto: "[0..k - 1] = 0 # [1..k - 1]" using k by (simp add: upto.simps)
  have hd: "hd topology = SpecSize spec div k + (if SpecSize spec mod k \<noteq> 0 then 1 else 0)"
    using k pos_mod_sign [of k "SpecSize spec"] unfolding top upto by (auto simp: order_less_le)
  have ops: "SpecSize spec sdiv k = SpecSize spec div k" "SpecSize spec smod k = SpecSize spec mod k"
    using assms(2) k by (cases "SpecSize spec = 0"; simp add: signed_divide_int_def signed_modulo_int_def)+
  show "podsLeavingFirstRack env spec = clampedBatch env (SpecRollingUpdateBatchSize spec) (hd topology)"
    using k ops unfolding podsLeavingFirstRack_def Let_def hd k_def [symmetric] by (simp add: max_def)
  show "t \<le> hd topology" if "t \<in> set topology"
    using that unfolding hd by (auto simp: top split: if_splits)
qed

section \<open>Namespaces by name\<close>

definition named :: "gval gomap \<Rightarrow> string \<Rightarrow> bool" where
  "named ns n \<longleftrightarrow> idx ns ConfKeyName = GString n"

definition conf_from :: "gval gomap \<Rightarrow> nsConf \<Rightarrow> bool" where
  "conf_from ns c \<longleftrightarrow> replicationFactor c = rf_or_zero ns \<and> IsNSSCEnabled ns = Ok (scEnabled c)"

lemma sc_enabled_Ok_iff: "sc_enabled ns = Ok b \<longleftrightarrow> IsNSSCEnabled ns = Ok b"
  by (cases "IsNSSCEnabled ns") (auto simp: sc_enabled_def)

lemma ns_confs_of_entries:
  assumes "ns_confs_of vs acc = (Ok m :: ('e, nsConf gomap) res)"
  shows "(\<forall>ns n. GMap ns \<in> set vs \<and> named ns n \<longrightarrow>
           (\<exists>ns' c. GMap ns' \<in> set vs \<and> named ns' n \<and> gomap_get m n = Some c \<and> conf_from ns' c)) \<and>
         (\<forall>n. (\<forall>ns. GMap ns \<in> set vs \<longrightarrow> \<not> named ns n) \<longrightarrow> gomap_get m n = gomap_get acc n)"
  using assms
proof (induction vs arbitrary: acc)
  case (Cons v vs)
  from Cons.prems obtain ns name sc where v: "v = GMap ns" "named ns name" and sc: "IsNSSCEnabled ns = Ok sc"
    and rest: "\<exists>k. ns_confs_of vs (gomap_put name
      \<lparr>noOfRacksForNamespaces = k, replicationFactor = rf_or_zero ns, scEnabled = sc\<rparr> acc) = (Ok m :: ('e, nsConf gomap) res)"
    by (auto simp: res_simps typed_iff named_def Let_def sc_enabled_Ok_iff)
  then obtain k where rest: "ns_confs_of vs (gomap_put name
      \<lparr>noOfRacksForNamespaces = k, replicationFactor = rf_or_zero ns, scEnabled = sc\<rparr> acc) = (Ok m :: ('e, nsConf gomap) res)"
    by blast
  note IH = Cons.IH [OF rest]
  have here: "\<exists>ns' c. GMap ns' \<in> set (v # vs) \<and> named ns' name \<and> gomap_get m name = Some c \<and> conf_from ns' c"
  proof (cases "\<exists>ns'. GMap ns' \<in> set vs \<and> named ns' name")
    case True
    with IH show ?thesis by (meson list.set_intros(2))
  next
    case False
    with IH have "gomap_get m name = Some \<lparr>noOfRacksForNamespaces = k, replicationFactor = rf_or_zero ns, scEnabled = sc\<rparr>"
      by (auto simp: gomap_get_put)
    with v sc show ?thesis by (fastforce simp: conf_from_def)
  qed
  show ?case
  proof (intro conjI allI impI)
    fix ns2 n assume n: "GMap ns2 \<in> set (v # vs) \<and> named ns2 n"
    show "\<exists>ns' c. GMap ns' \<in> set (v # vs) \<and> named ns' n \<and> gomap_get m n = Some c \<and> conf_from ns' c"
    proof (cases "n = name")
      case True
      with here show ?thesis by simp
    next
      case False
      with n v have "GMap ns2 \<in> set vs" by (auto simp: named_def)
      with n IH show ?thesis by (meson list.set_intros(2))
    qed
  next
    fix n assume "\<forall>ns. GMap ns \<in> set (v # vs) \<longrightarrow> \<not> named ns n"
    with v IH show "gomap_get m n = gomap_get acc n" by (auto simp: gomap_get_put)
  qed
qed auto

lemma getNsConf_entries:
  assumes "getNsConfForNamespaces racks acc = (Ok m :: ('e, nsConf gomap) res)"
  shows "(\<forall>rack ns n. rack \<in> set racks \<and> namespace_in rack ns \<and> named ns n \<longrightarrow>
           (\<exists>rack' ns' c. rack' \<in> set racks \<and> namespace_in rack' ns' \<and> named ns' n \<and> gomap_get m n = Some c \<and> conf_from ns' c)) \<and>
         (\<forall>n. (\<forall>rack ns. rack \<in> set racks \<and> namespace_in rack ns \<longrightarrow> \<not> named ns n) \<longrightarrow> gomap_get m n = gomap_get acc n)"
  using assms
proof (induction racks arbitrary: acc)
  case (Cons r racks)
  from Cons.prems obtain nss acc' where nss: "idx (conf_map (RackAerospikeConfig r)) ConfKeyNamespace = GList nss"
    and first: "ns_confs_of nss acc = (Ok acc' :: ('e, nsConf gomap) res)"
    and rest: "getNsConfForNamespaces racks acc' = (Ok m :: ('e, nsConf gomap) res)"
    by (auto simp: res_simps typed_iff)
  have member: "namespace_in r ns \<longleftrightarrow> GMap ns \<in> set nss" for ns by (simp add: namespace_in_def rack_namespaces_def nss)
  note first = ns_confs_of_entries [OF first, folded member] and IH = Cons.IH [OF rest]
  have step: "\<exists>rack' ns' c. rack' \<in> set (r # racks) \<and> namespace_in rack' ns' \<and> named ns' n \<and> gomap_get m n = Some c \<and> conf_from ns' c"
    if "namespace_in rack ns" "named ns n" "rack \<in> set (r # racks)" for rack ns n
  proof (cases "\<exists>rack ns. rack \<in> set racks \<and> namespace_in rack ns \<and> named ns n")
    case True
    with IH show ?thesis by (meson list.set_intros(2))
  next
    case False
    with that have "namespace_in r ns" by auto
    with first that(2) obtain ns' c where "namespace_in r ns'" "named ns' n" "gomap_get acc' n = Some c" "conf_from ns' c" by blast
    moreover have "gomap_get m n = gomap_get acc' n" using IH False by blast
    ultimately show ?thesis by (metis list.set_intros(1))
  qed
  have "gomap_get m n = gomap_get acc n"
    if "\<And>rack ns. rack \<in> set (r # racks) \<Longrightarrow> namespace_in rack ns \<Longrightarrow> \<not> named ns n" for n
    using IH first that by (metis list.set_intros)
  with step show ?case by blast
qed simp

definition unique_namespaces :: "Rack \<Rightarrow> bool" where
  "unique_namespaces rack \<longleftrightarrow> (\<forall>ns ns' n. namespace_in rack ns \<and> namespace_in rack ns' \<and> named ns n \<and> named ns' n \<longrightarrow> ns = ns')"

lemma accepted_batch_size:
  assumes "snd (webhook_validate env cluster) = Ok ()"
  shows "validateBatchSize env (SpecRollingUpdateBatchSize (ClusterSpec cluster)) True cluster = Ok ()"
proof -
  obtain version where "snd (validateRackConfig env cluster version) = Ok ()"
    using assms unfolding webhook_validate_def by (auto simp: res_simps)
  then show ?thesis unfolding validateRackConfig_def Let_def by (auto simp: res_simps)
qed

lemma largest_batch:
  assumes "snd (webhook_validate env new) = Ok ()" and "scaling_law env"
    and "DistributeItems (SpecSize (ClusterSpec new)) (int (length (SpecRacks (ClusterSpec new)))) = Ok topology"
    and "0 \<le> SpecSize (ClusterSpec new)" and "SpecRacks (ClusterSpec new) \<noteq> []" and "t \<in> set topology" and "1 \<le> t"
  shows "clampedBatch env (SpecRollingUpdateBatchSize (ClusterSpec new)) t \<le> podsLeavingFirstRack env (ClusterSpec new)"
proof -
  have t: "t \<le> hd topology" by (rule podsLeavingFirstRack_head(2) [OF assms(3-6)])
  have "scaled env (SpecRollingUpdateBatchSize (ClusterSpec new)) t \<le> scaled env (SpecRollingUpdateBatchSize (ClusterSpec new)) (hd topology)"
    using batch_scales [OF assms(2) accepted_batch_size [OF assms(1)] _ t] assms(7) by simp
  then show ?thesis unfolding podsLeavingFirstRack_head(1) [OF assms(3-5)] using assms(7) t by (rule clampedBatch_mono)
qed

section \<open>Accepted updates\<close>

text \<open>
  Property C4. An accepted update leaves what a running rack cannot change: a rack keeps its placement, under
  one revision it keeps its persistent volumes, going back to the revision of the status brings back the
  volumes the status has for it (unless the rack has no volumes before and after), and no rack has more than two revisions in the old status, the old and
  the new specification.
\<close>

theorem update_preserves_racks:
  assumes "snd (ValidateUpdate env old new) = Ok ()"
    and "\<And>a b. EqualRackConfig env a b \<Longrightarrow> racks_DeepEqual (SpecRacks b) (SpecRacks a)"
    and "rack \<in> set (SpecRacks (ClusterSpec old))" and "rack' \<in> set (SpecRacks (ClusterSpec new))"
    and "RackID rack = RackID rack'" and "unique_volumes rack" and "unique_volumes rack'"
  shows "placement rack = placement rack' \<and>
    (RackRevision rack = RackRevision rack' \<longrightarrow> volumes_kept (RackStorage rack) (RackStorage rack')) \<and>
    (\<forall>st. RackRevision rack \<noteq> RackRevision rack' \<and> unique_volumes st \<and>
       (Volumes (RackStorage rack) \<noteq> [] \<or> Volumes (RackStorage rack') \<noteq> []) \<and>
       find (\<lambda>st. RackID st = RackID rack' \<and> RackRevision st = RackRevision rack') (StRacks (ClusterStatus old)) = Some st \<longrightarrow>
       volumes_kept (RackStorage st) (RackStorage rack')) \<and>
    card {RackRevision r | r. RackID r = RackID rack' \<and> (r \<in> set (StRacks (ClusterStatus old)) \<or>
      r \<in> set (SpecRacks (ClusterSpec old)) \<or> r \<in> set (SpecRacks (ClusterSpec new)))} \<le> 2"
proof -
  note parts = accepted_update [OF assms(1)]
  have ids: "distinct (map RackID (SpecRacks (ClusterSpec new)))" by (rule accepted_rack_ids [OF parts(1)])
  note revisions = concurrent_revisions [OF parts(4), of "RackID rack'"]
  show ?thesis
  proof (cases "EqualRackConfig env (ClusterSpec new) (ClusterSpec old)")
    case True
    from equal_racks_kept [OF assms(2) [OF True] ids assms(3-5)] revisions show ?thesis by blast
  next
    case False
    with parts(2) obtain changed where "rack_updates old new (SpecRacks (ClusterSpec old)) = Ok changed"
      by (auto simp: validateRackUpdate_def res_simps)
    from rack_updates_Ok [OF this ids assms(3-5)] obtain c where pair: "rack_pair_update old new rack rack' = Ok c" ..
    note storage = rack_pair_update_storage [OF pair]
    have "volumes_kept (RackStorage st) (RackStorage rack')"
      if "RackRevision rack \<noteq> RackRevision rack'" "unique_volumes st"
        "Volumes (RackStorage rack) \<noteq> [] \<or> Volumes (RackStorage rack') \<noteq> []"
        "find (\<lambda>st. RackID st = RackID rack' \<and> RackRevision st = RackRevision rack') (StRacks (ClusterStatus old)) = Some st" for st
      by (rule status_storage [OF storage that(1,3,4,2) assms(7)])
    with rack_pair_update_placement [OF pair] same_revision_storage [OF storage _ assms(6,7)] revisions show ?thesis by blast
  qed
qed

text \<open>
  Property C11. Replacing the pods of a rack under a new revision leaves the data reachable: every namespace has a
  second copy, and for a strong-consistency namespace the nodes outside the largest batch of any rack hold
  the replication factor and are a majority of the cluster.
\<close>

theorem revision_change_safe:
  assumes "snd (ValidateUpdate env old new) = Ok ()" and "scaling_law (BaseEnv env)"
  defines "spec \<equiv> ClusterSpec new"
  assumes "\<not> EqualSpec env (ClusterSpec old) spec"
    and "hasRackRevisionChange (StRacks (ClusterStatus old)) (SpecRacks (ClusterSpec old)) (SpecRacks spec)"
    and "DistributeItems (SpecSize spec) (int (length (SpecRacks spec))) = Ok topology" and "t \<in> set topology" and "1 \<le> t"
    and "0 \<le> SpecSize spec"
    and "rack \<in> set (SpecRacks spec)" and "namespace_in rack ns" and "named ns n"
    and "\<And>r. r \<in> set (SpecRacks spec) \<Longrightarrow> unique_namespaces r"
  shows "\<exists>rf. GetNamespaceReplicationFactor ns = Ok rf \<and> 2 \<le> rf \<and>
    (IsNSSCEnabled ns = Ok True \<longrightarrow>
       (let survivors = SpecSize spec - clampedBatch (BaseEnv env) (SpecRollingUpdateBatchSize spec) t in
        rf \<le> survivors \<and> SpecSize spec < 2 * survivors))"
proof -
  note parts = accepted_update [OF assms(1)]
  note spec_facts = accepted_spec_facts [OF parts(1), folded spec_def]
  have racks: "SpecRacks spec \<noteq> []" using assms(10) by auto
  define leaving where "leaving = podsLeavingFirstRack (BaseEnv env) spec"
  from parts(5) assms(4,5) obtain nsConfs where confs: "getNsConfForNamespaces (SpecRacks spec) [] = (Ok nsConfs :: (cluster_error, nsConf gomap) res)"
    and rules: "for_each (\<lambda>(nsName, conf). namespace_survives spec (SpecSize spec - leaving) conf) nsConfs = Ok ()"
    unfolding validateRackRevisionChange_def Let_def spec_def leaving_def
    by (auto simp: res_simps split: if_splits)
  from getNsConf_entries [OF confs] assms(10-12) obtain rack' ns' c where ns': "rack' \<in> set (SpecRacks spec)" "namespace_in rack' ns'"
    "named ns' n" "conf_from ns' c" and c: "gomap_get nsConfs n = Some c" by blast
  have "(n, c) \<in> set nsConfs" using c by (simp add: gomap_get_def map_of_SomeD)
  with rules have "namespace_survives spec (SpecSize spec - leaving) c = Ok ()" unfolding for_each_Ok_iff by fastforce
  then have rule: "1 < replicationFactor c" "scEnabled c \<Longrightarrow> replicationFactor c \<le> SpecSize spec - leaving"
    "scEnabled c \<Longrightarrow> SpecSize spec sdiv 2 < SpecSize spec - leaving"
    by (auto simp: namespace_survives_def split: if_splits)
  have same: "GetNamespaceReplicationFactor ns = GetNamespaceReplicationFactor ns'" "sc_names rack = sc_names rack'"
    using spec_facts assms(10-12) ns'(1-3) unfolding named_def by blast+
  then have rf: "GetNamespaceReplicationFactor ns = Ok (replicationFactor c)"
    using rule(1) ns'(4) by (auto simp: conf_from_def rf_or_zero_def split: res.splits)
  have sc: "scEnabled c" if "IsNSSCEnabled ns = Ok True"
  proof -
    have "n \<in> sc_names rack'" using that assms(11,12) same(2) unfolding sc_names_def named_def by blast
    then obtain ns'' where "namespace_in rack' ns''" "named ns'' n" "IsNSSCEnabled ns'' = Ok True"
      unfolding sc_names_def named_def by blast
    moreover from this ns' assms(13) have "ns'' = ns'" unfolding unique_namespaces_def by blast
    ultimately show ?thesis using ns'(4) by (simp add: conf_from_def)
  qed
  have "clampedBatch (BaseEnv env) (SpecRollingUpdateBatchSize spec) t \<le> leaving"
    using largest_batch [OF parts(1) assms(2), folded spec_def] assms(6-9) racks unfolding leaving_def by blast
  moreover have "SpecSize spec sdiv 2 = SpecSize spec div 2"
    using assms(9) by (cases "SpecSize spec = 0") (simp_all add: signed_divide_int_def)
  ultimately have "replicationFactor c \<le> SpecSize spec - clampedBatch (BaseEnv env) (SpecRollingUpdateBatchSize spec) t \<and>
      SpecSize spec < 2 * (SpecSize spec - clampedBatch (BaseEnv env) (SpecRollingUpdateBatchSize spec) t)"
    if "IsNSSCEnabled ns = Ok True"
    using rule(2,3) [OF sc [OF that]] by (intro conjI; presburger)
  with rf rule(1) show ?thesis unfolding Let_def by auto
qed

section \<open>Replication factors\<close>

text \<open>The replication factor of a namespace in a rack, as the webhook keys it.\<close>

definition factor_of :: "AerospikeClusterSpec \<Rightarrow> string \<Rightarrow> int \<Rightarrow> int option" where
  "factor_of spec name rackID = gomap_get (getAllNamespaceNamesAndRFMap spec) (name @ ''@'' @ Itoa rackID)"

definition factor_changed :: "AerospikeClusterSpec \<Rightarrow> AerospikeClusterSpec \<Rightarrow> string \<Rightarrow> int \<Rightarrow> bool" where
  "factor_changed old new name rackID \<longleftrightarrow>
     factor_of old name rackID \<noteq> None \<and> factor_of new name rackID \<noteq> None \<and> factor_of old name rackID \<noteq> factor_of new name rackID"

lemma has_iff_key: "has m k \<longleftrightarrow> gomap_get m k \<noteq> None"
  by (simp add: has_def)

lemma in_keys_iff: "k \<in> set (gomap_keys m) \<longleftrightarrow> gomap_get m k \<noteq> None"
  by (induction m) (auto simp: gomap_keys_def gomap_get_def)

definition changed_keys :: "AerospikeClusterSpec \<Rightarrow> AerospikeClusterSpec \<Rightarrow> string list" where
  "changed_keys old new =
     filterActualRFChanges (filter (has (getAllNamespaceNamesAndRFMap new)) (gomap_keys (getAllNamespaceNamesAndRFMap old)))
       (getAllNamespaceNamesAndRFMap old) (getAllNamespaceNamesAndRFMap new)"

lemma changed_keys_iff:
  "name @ ''@'' @ Itoa rackID \<in> set (changed_keys old new) \<longleftrightarrow> factor_changed old new name rackID"
  by (auto simp: changed_keys_def filterActualRFChanges_def factor_changed_def factor_of_def in_keys_iff has_iff_key)

lemma changed_name:
  assumes "factor_changed old new name rackID" and "CHR ''@'' \<notin> set name"
  shows "name \<in> set (nsNamesFromRFChanges (changed_keys old new))"
proof -
  have "SplitN2 (CHR ''@'') (name @ ''@'' @ Itoa rackID) = [name, Itoa rackID]"
    using SplitN2_append_sep [OF assms(2)] by simp
  then have "name = hd (SplitN2 (CHR ''@'') (name @ ''@'' @ Itoa rackID))" "length (SplitN2 (CHR ''@'') (name @ ''@'' @ Itoa rackID)) = 2"
    by simp_all
  moreover have "name @ ''@'' @ Itoa rackID \<in> set (changed_keys old new)" using assms(1) by (simp only: changed_keys_iff)
  ultimately show ?thesis unfolding nsNamesFromRFChanges_def set_remdups map_filter_def Let_def set_map
    by (intro image_eqI [of _ _ "name @ ''@'' @ Itoa rackID"]) auto
qed

lemma one_name:
  assumes "length xs \<le> 1" and "x \<in> set xs" and "y \<in> set xs"
  shows "x = y"
  using assms by (cases xs) auto

text \<open>What the comparison with one specification allows.\<close>

lemma factor_comparison:
  assumes "validateReplicationFactorUpdateComparison env oldSpec new names = Ok ()"
    and "factor_changed oldSpec (ClusterSpec new) name rackID"
  shows "GetBool (SpecEnableDynamicConfigUpdate (ClusterSpec new))"
    and "length (nsNamesFromRFChanges (changed_keys oldSpec (ClusterSpec new))) \<le> 1"
    and "factor_of oldSpec n i = None \<longleftrightarrow> factor_of (ClusterSpec new) n i = None"
    and "case names of None \<Rightarrow> True | Some ns \<Rightarrow> name @ ''@'' @ Itoa rackID \<in> set ns"
    and "\<exists>oldJSON newJSON patch. MarshalSpec env oldSpec = Ok oldJSON \<and> MarshalSpec env (ClusterSpec new) = Ok newJSON \<and>
      CreatePatch (UnmarshalDocument env) oldJSON newJSON = Ok patch \<and> list_all (\<lambda>op. exempt_path (Path op)) patch"
proof -
  have nonempty: "changed_keys oldSpec (ClusterSpec new) \<noteq> []"
    using assms(2) changed_keys_iff [of name rackID oldSpec "ClusterSpec new"] by auto
  from assms(1) nonempty obtain oldJSON newJSON patch where json: "MarshalSpec env oldSpec = Ok oldJSON"
    "MarshalSpec env (ClusterSpec new) = Ok newJSON" "CreatePatch (UnmarshalDocument env) oldJSON newJSON = Ok patch"
    and rules: "length (nsNamesFromRFChanges (changed_keys oldSpec (ClusterSpec new))) \<le> 1"
    "case names of None \<Rightarrow> True | Some ns \<Rightarrow> set (changed_keys oldSpec (ClusterSpec new)) \<subseteq> set ns"
    "list_all (\<lambda>op. exempt_path (Path op)) patch"
    "set (gomap_keys (getAllNamespaceNamesAndRFMap oldSpec)) = set (gomap_keys (getAllNamespaceNamesAndRFMap (ClusterSpec new)))"
    "GetBool (SpecEnableDynamicConfigUpdate (ClusterSpec new))"
    unfolding validateReplicationFactorUpdateComparison_def Let_def changed_keys_def [symmetric]
    by (auto simp: res_simps list_ex_iff list_all_iff split: if_splits option.splits)
  show "GetBool (SpecEnableDynamicConfigUpdate (ClusterSpec new))" by (rule rules(5))
  show "length (nsNamesFromRFChanges (changed_keys oldSpec (ClusterSpec new))) \<le> 1" by (rule rules(1))
  show "factor_of oldSpec n i = None \<longleftrightarrow> factor_of (ClusterSpec new) n i = None"
    using rules(4) unfolding factor_of_def by (metis in_keys_iff)
  show "case names of None \<Rightarrow> True | Some ns \<Rightarrow> name @ ''@'' @ Itoa rackID \<in> set ns"
    using rules(2) assms(2) changed_keys_iff [of name rackID oldSpec "ClusterSpec new"] by (auto split: option.splits)
  show "\<exists>oldJSON newJSON patch. MarshalSpec env oldSpec = Ok oldJSON \<and> MarshalSpec env (ClusterSpec new) = Ok newJSON \<and>
      CreatePatch (UnmarshalDocument env) oldJSON newJSON = Ok patch \<and> list_all (\<lambda>op. exempt_path (Path op)) patch"
    using json rules(3) by blast
qed


text \<open>
  Property C12. A changed replication factor travels alone: when an accepted update changes the factor of
  a namespace a rack already had, dynamic configuration is enabled, no other namespace changes its factor, no
  namespace comes or goes, the documents of the two specifications differ only in replication factors and in the
  flags for dynamic updates and pausing, and a deployed cluster already runs the namespace.
\<close>

theorem factor_change_isolated:
  assumes "snd (ValidateUpdate env old new) = Ok ()"
    and "factor_changed (ClusterSpec old) (ClusterSpec new) name rackID" and "CHR ''@'' \<notin> set name"
  shows "GetBool (SpecEnableDynamicConfigUpdate (ClusterSpec new)) \<and>
    (\<forall>name' i. factor_changed (ClusterSpec old) (ClusterSpec new) name' i \<and> CHR ''@'' \<notin> set name' \<longrightarrow> name' = name) \<and>
    (\<forall>name' i. factor_of (ClusterSpec old) name' i = None \<longleftrightarrow> factor_of (ClusterSpec new) name' i = None) \<and>
    (\<exists>oldJSON newJSON patch. MarshalSpec env (ClusterSpec old) = Ok oldJSON \<and> MarshalSpec env (ClusterSpec new) = Ok newJSON \<and>
      CreatePatch (UnmarshalDocument env) oldJSON newJSON = Ok patch \<and> list_all (\<lambda>op. exempt_path (Path op)) patch) \<and>
    (StAerospikeConfig (ClusterStatus new) \<noteq> None \<longrightarrow>
       factor_of (CopyStatusToSpec (ClusterStatus new)) name rackID \<noteq> None)"
proof -
  note parts = accepted_update(7) [OF assms(1), unfolded validateReplicationFactorUpdateRestrictions_def Let_def]
  obtain names where cmp: "validateReplicationFactorUpdateComparison env (ClusterSpec old) new names = Ok ()"
    and names: "StAerospikeConfig (ClusterStatus new) \<noteq> None \<Longrightarrow>
      names = Some (gomap_keys (getAllNamespaceNamesAndRFMap (CopyStatusToSpec (ClusterStatus new))))"
    using parts by (auto simp: res_simps split: option.splits)
  note facts = factor_comparison [OF cmp assms(2)]
  have one: "name' = name" if "factor_changed (ClusterSpec old) (ClusterSpec new) name' i" "CHR ''@'' \<notin> set name'" for name' i
    by (rule one_name [OF facts(2) changed_name [OF that] changed_name [OF assms(2,3)]])
  have "factor_of (CopyStatusToSpec (ClusterStatus new)) name rackID \<noteq> None" if "StAerospikeConfig (ClusterStatus new) \<noteq> None"
    using facts(4) names [OF that] by (auto simp: factor_of_def in_keys_iff)
  with facts(1,3,5) one show ?thesis by blast
qed

section \<open>Names and scale-downs\<close>

lemma longest_name:
  "length acc \<le> length (longest_sts_name cluster rs acc) \<and>
   (\<forall>(rack, n)\<in>set rs. n \<noteq> 0 \<longrightarrow> length (sts_name cluster rack) \<le> length (longest_sts_name cluster rs acc))"
proof (induction rs arbitrary: acc)
  case (Cons r rs)
  obtain rack n where r: "r = (rack, n)" by (cases r)
  define acc' where "acc' = (if n = 0 then acc else if length acc < length (sts_name cluster rack) then sts_name cluster rack else acc)"
  have "length acc \<le> length acc'" "n \<noteq> 0 \<Longrightarrow> length (sts_name cluster rack) \<le> length acc'"
    by (auto simp: acc'_def)
  moreover have "longest_sts_name cluster (r # rs) acc = longest_sts_name cluster rs acc'" by (simp add: r acc'_def)
  ultimately show ?case using Cons.IH [of acc'] r by auto
qed simp

text \<open>
  Property C29. After an accepted update the label Kubernetes derives from the name of a rack's StatefulSet, the name, a
  hyphen and a revision hash, fits a DNS label, for every rack that has pods.
\<close>

theorem accepted_names_fit:
  assumes "snd (ValidateUpdate env old new) = Ok ()"
    and "DistributeItems (SpecSize (ClusterSpec new)) (int (length (SpecRacks (ClusterSpec new)))) = Ok topology"
    and "i < length topology" and "i < length (SpecRacks (ClusterSpec new))" and "topology ! i \<noteq> 0"
  shows "int (length (sts_name new (SpecRacks (ClusterSpec new) ! i))) + 1 + k8sControllerRevisionHashLabelValueMaxRunes
    \<le> DNS1123LabelMaxLength"
proof -
  define racks where "racks = SpecRacks (ClusterSpec new)"
  have "(racks ! i, topology ! i) \<in> set (zip racks topology)"
    using assms(3,4) unfolding racks_def by (auto simp: set_zip)
  then have "length (sts_name new (racks ! i)) \<le> length (longest_sts_name new (zip racks topology) [])"
    using longest_name [of "[]" new "zip racks topology"] assms(5) by fastforce
  moreover have "int (length (longest_sts_name new (zip racks topology) [])) \<le> DNS1123LabelMaxLength - 1 - k8sControllerRevisionHashLabelValueMaxRunes"
    using accepted_update(6) [OF assms(1)] assms(2,4) unfolding validateActualPodNames_def Let_def racks_def [symmetric]
    by (auto simp: res_simps split: if_splits)
  ultimately show ?thesis unfolding racks_def by linarith
qed

text \<open>
  Fact. Parallel scale-down is switched off only at rest: no rack of the status is gone from the
  specification or larger than the specification wants it.
\<close>

theorem parallel_scale_down_off_at_rest:
  assumes "snd (ValidateUpdate env old new) = Ok ()"
    and "GetBool (SpecEnableParallelScaleDown (ClusterSpec old))" and "\<not> GetBool (SpecEnableParallelScaleDown (ClusterSpec new))"
    and "(st, cur) \<in> set (zip (StRacks (ClusterStatus old)) statusTopology)"
    and "DistributeItems (StSize (ClusterStatus old)) (int (length (StRacks (ClusterStatus old)))) = Ok statusTopology"
    and "DistributeItems (SpecSize (ClusterSpec old)) (int (length (SpecRacks (ClusterSpec old)))) = Ok specTopology"
  shows "\<exists>rack want. (rack, want) \<in> set (zip (SpecRacks (ClusterSpec old)) specTopology) \<and> RackID rack = RackID st \<and> cur \<le> want"
proof -
  have rest: "scaleDownInFlight old = Ok False"
    using accepted_update(3) [OF assms(1)] assms(2,3)
    by (auto simp: validateParallelScaleDownToggle_def Let_def res_simps split: if_splits)
  have "StRacks (ClusterStatus old) \<noteq> []" using assms(4) by auto
  with rest assms(4-6) obtain want where want: "map_of (rev (zip (map RackID (SpecRacks (ClusterSpec old))) specTopology)) (RackID st) = Some want"
    and le: "cur \<le> want"
    by (fastforce simp: scaleDownInFlight_def Let_def list_ex_iff split: option.splits if_splits)
  from map_of_SomeD [OF want] have "(RackID st, want) \<in> set (zip (map RackID (SpecRacks (ClusterSpec old))) specTopology)" by simp
  then obtain rack where "(rack, want) \<in> set (zip (SpecRacks (ClusterSpec old)) specTopology)" "RackID rack = RackID st"
    by (auto simp: zip_map1)
  with le show ?thesis by blast
qed

section \<open>Updates at work\<close>

text \<open>
  A document that shows the replication factor of the first namespace, and equality of the records for deep equality.
\<close>

definition example_factor :: "AerospikeClusterSpec \<Rightarrow> int" where
  "example_factor spec = (case getAllNamespaceNamesAndRFMap spec of [] \<Rightarrow> 0 | (_, rf) # _ \<Rightarrow> rf)"

definition example_update_env :: update_env where
  "example_update_env = \<lparr>BaseEnv = example_env, EqualAccessControl = (=), EqualRackConfig = (\<lambda>a b. SpecRacks a = SpecRacks b),
     EqualSpec = (=), MarshalSpec = (\<lambda>spec. Ok (Itoa (example_factor spec))),
     UnmarshalDocument = (\<lambda>bytes. Some [(''replication-factor'', GString bytes)])\<rparr>"

definition moved_cluster :: AerospikeCluster where
  "moved_cluster = (webhook_cluster (IosInt 1))\<lparr>ClusterSpec := (ClusterSpec (webhook_cluster (IosInt 1)))\<lparr>
     SpecRacks := [webhook_rack 1, (webhook_rack 2)\<lparr>RackRevision := ''v2''\<rparr>]\<rparr>\<rparr>"

definition factor_config :: "int \<Rightarrow> gval gomap" where
  "factor_config rf = [(''service'', GMap [(''cluster-name'', GString ''cl'')]),
     (''network'', GMap [(''service'', GMap [(''port'', GInt 3000)])]),
     (''namespaces'', GList [GMap [(''name'', GString ''ap''), (''replication-factor'', GInt rf),
        (''storage-engine'', GMap [(''type'', GString ''device''), (''devices'', GList [GString ''/dev/a'']) ])]]),
     (''logging'', GList [])]"

definition factor_cluster :: "int \<Rightarrow> AerospikeCluster" where
  "factor_cluster rf = (webhook_cluster (IosInt 1))\<lparr>ClusterSpec := (ClusterSpec (webhook_cluster (IosInt 1)))\<lparr>
     SpecEnableDynamicConfigUpdate := Some True,
     SpecRacks := [(webhook_rack 1)\<lparr>RackAerospikeConfig := \<lparr>Value = Some (factor_config rf)\<rparr>\<rparr>]\<rparr>\<rparr>"

lemma example_scaling_law: "scaling_law example_env"
proof -
  have "scaled example_env (Some b) m \<le> scaled example_env (Some b) n"
    if p: "ScaledValue example_env (Some b) 100 False = Ok p" "0 \<le> p" and mn: "m \<le> n" for b p m n
  proof (cases b)
    case (IosInt k)
    then show ?thesis by (simp add: scaled_def example_env_def)
  next
    case (IosString s)
    have "- (- (k * m) div 100) \<le> - (- (k * n) div 100)" if "0 \<le> k" for k :: int
      using zdiv_mono1 [of "- (k * n)" "- (k * m)" 100] mult_left_mono [OF mn that] by simp
    with p IosString show ?thesis
      by (auto simp: scaled_def example_env_def split: if_splits option.splits)
  qed
  then show ?thesis by (auto simp: scaling_law_def example_env_def)
qed

lemma example_move_accepted:
  "snd (ValidateUpdate example_update_env (webhook_cluster (IosInt 1)) moved_cluster) = Ok ()"
  by code_simp

lemma example_factor_accepted:
  "snd (ValidateUpdate example_update_env (factor_cluster 2) (factor_cluster 3)) = Ok ()"
  by code_simp

lemma racks_DeepEqual_refl: "racks_DeepEqual racks racks"
  unfolding racks_DeepEqual_def by (auto intro!: list_all2_refl simp: option.rel_refl)

lemma example_racks:
  "SpecRacks (ClusterSpec (webhook_cluster (IosInt 1))) = [webhook_rack 1, webhook_rack 2]"
  "SpecRacks (ClusterSpec moved_cluster) = [webhook_rack 1, (webhook_rack 2)\<lparr>RackRevision := ''v2''\<rparr>]"
  by (simp_all add: webhook_cluster_def moved_cluster_def)

lemma example_unique_volumes: "unique_volumes (webhook_rack 2)" "unique_volumes ((webhook_rack 2)\<lparr>RackRevision := ''v2''\<rparr>)"
  by (simp_all add: unique_volumes_def webhook_rack_def block_volume_def)

lemma update_preserves_racks_witness:
  "snd (ValidateUpdate example_update_env (webhook_cluster (IosInt 1)) moved_cluster) = Ok () \<and>
   placement (webhook_rack 2) = placement ((webhook_rack 2)\<lparr>RackRevision := ''v2''\<rparr>)"
proof -
  have "EqualRackConfig example_update_env a b \<Longrightarrow> racks_DeepEqual (SpecRacks b) (SpecRacks a)" for a b
    by (simp add: example_update_env_def racks_DeepEqual_refl)
  moreover have "webhook_rack 2 \<in> set (SpecRacks (ClusterSpec (webhook_cluster (IosInt 1))))"
    "(webhook_rack 2)\<lparr>RackRevision := ''v2''\<rparr> \<in> set (SpecRacks (ClusterSpec moved_cluster))" by (simp_all add: example_racks)
  moreover have "RackID (webhook_rack 2) = RackID ((webhook_rack 2)\<lparr>RackRevision := ''v2''\<rparr>)" by simp
  ultimately show ?thesis
    using update_preserves_racks [OF example_move_accepted _ _ _ _ example_unique_volumes] example_move_accepted by blast
qed

lemma example_namespaces:
  "rack_namespaces (webhook_rack i) = [GMap (valid_namespace ''lz4'')]"
  "rack_namespaces ((webhook_rack i)\<lparr>RackRevision := r\<rparr>) = [GMap (valid_namespace ''lz4'')]"
  by (simp_all add: rack_namespaces_def webhook_rack_def conf_map_def valid_config_def idx_def gomap_get_def ConfKeyNamespace_def)

lemma revision_change_witness:
  "\<exists>rf. GetNamespaceReplicationFactor (valid_namespace ''lz4'') = Ok rf \<and> 2 \<le> rf \<and>
     rf \<le> SpecSize (ClusterSpec moved_cluster) -
       clampedBatch example_env (SpecRollingUpdateBatchSize (ClusterSpec moved_cluster)) 2"
proof -
  have law: "scaling_law (BaseEnv example_update_env)" by (simp add: example_update_env_def example_scaling_law)
  have differ: "\<not> EqualSpec example_update_env (ClusterSpec (webhook_cluster (IosInt 1))) (ClusterSpec moved_cluster)"
    by code_simp
  have change: "hasRackRevisionChange (StRacks (ClusterStatus (webhook_cluster (IosInt 1))))
      (SpecRacks (ClusterSpec (webhook_cluster (IosInt 1)))) (SpecRacks (ClusterSpec moved_cluster))" by code_simp
  have top: "DistributeItems (SpecSize (ClusterSpec moved_cluster)) (int (length (SpecRacks (ClusterSpec moved_cluster)))) = Ok [2, 2]"
    by code_simp
  have sz: "0 \<le> SpecSize (ClusterSpec moved_cluster)" by code_simp
  have ns: "named (valid_namespace ''lz4'') ''test''" "IsNSSCEnabled (valid_namespace ''lz4'') = Ok True"
    by (simp_all add: named_def valid_namespace_def idx_def gomap_get_def ConfKeyName_def IsNSSCEnabled_def ConfKeyStrongConsistency_def)
  have "namespace_in (webhook_rack 1) (valid_namespace ''lz4'')" "webhook_rack 1 \<in> set (SpecRacks (ClusterSpec moved_cluster))"
    by (simp_all add: namespace_in_def example_namespaces example_racks)
  moreover have "unique_namespaces r" if "r \<in> set (SpecRacks (ClusterSpec moved_cluster))" for r
    using that by (auto simp: example_racks unique_namespaces_def namespace_in_def example_namespaces)
  ultimately show ?thesis
    using revision_change_safe [OF example_move_accepted law differ change top, of 2 "webhook_rack 1" "valid_namespace ''lz4''" "''test''"] sz ns
    by (auto simp: Let_def example_update_env_def)
qed

lemma factor_change_witness:
  "snd (ValidateUpdate example_update_env (factor_cluster 2) (factor_cluster 3)) = Ok () \<and>
   GetBool (SpecEnableDynamicConfigUpdate (ClusterSpec (factor_cluster 3)))"
proof -
  have "factor_changed (ClusterSpec (factor_cluster 2)) (ClusterSpec (factor_cluster 3)) ''ap'' 1" by code_simp
  with factor_change_isolated [OF example_factor_accepted, of "''ap''" 1] example_factor_accepted show ?thesis by simp
qed

lemma accepted_names_witness:
  "int (length (sts_name moved_cluster ((webhook_rack 2)\<lparr>RackRevision := ''v2''\<rparr>))) + 1 + k8sControllerRevisionHashLabelValueMaxRunes
     \<le> DNS1123LabelMaxLength"
proof -
  have top: "DistributeItems (SpecSize (ClusterSpec moved_cluster)) (int (length (SpecRacks (ClusterSpec moved_cluster)))) = Ok [2, 2]"
    by code_simp
  show ?thesis using accepted_names_fit [OF example_move_accepted top, of 1] by (simp add: example_racks)
qed

text \<open>
  Fact. The check of a revision rolled back is skipped when the rack has no volumes before and after: the volumes
  of the status, which the pods of that revision still have, are dropped.
\<close>

theorem rollback_drops_volumes:
  fixes deployed :: Rack
  defines "deployed \<equiv> webhook_rack 2"
  defines "bumped \<equiv> deployed\<lparr>RackRevision := ''v2'', RackStorage := no_storage\<rparr>"
  defines "rolled_back \<equiv> deployed\<lparr>RackStorage := no_storage\<rparr>"
  defines "old \<equiv> (webhook_cluster (IosInt 1))\<lparr>ClusterStatus := no_status\<lparr>StRacks := [deployed]\<rparr>\<rparr>"
  shows "rack_storage_update old bumped rolled_back = Ok ()"
    and "\<not> volumes_kept (RackStorage deployed) (RackStorage rolled_back)"
proof -
  show "rack_storage_update old bumped rolled_back = Ok ()"
    by (simp add: rack_storage_update_def bumped_def rolled_back_def no_storage_def)
  have "pv_named (Volumes (RackStorage deployed)) ''va'' \<noteq> None" "pv_named (Volumes (RackStorage rolled_back)) ''va'' = None"
    by (simp_all add: deployed_def rolled_back_def webhook_rack_def block_volume_def pv_named_def volume_named_def no_source_def no_storage_def)
  then show "\<not> volumes_kept (RackStorage deployed) (RackStorage rolled_back)"
    unfolding volumes_kept_def by (metis option.rel_distinct(2) option.exhaust)
qed

text \<open>
  Fact. A rack whose flag is set and does not change counts as changed: without a reported configuration any other
  change of the racks is refused.
\<close>

theorem unchanged_block_flag_refused:
  "rack_pair_update old new rack rack = Ok c \<Longrightarrow> RackForceBlockFromRoster rack = Some b \<Longrightarrow> c"
  by (auto simp: rack_pair_update_def res_simps split: if_splits)

end
