(* ===== verification/Cluster_Default.thy ===== *)
theory Cluster_Default
  imports Cluster_Update Config_Merge
begin

text \<open>
  The defaulting webhook (\<^verbatim>\<open>internal/webhook/v1/aerospikecluster_mutating_webhook.go\<close>), which runs before the
  validating one on every created and updated cluster. The maps the code changes in place are
  returned changed; a failed pass rejects the request, so what it changed before is not seen.
\<close>

section \<open>Defaults of one section\<close>

text \<open>Integers are stored as the numbers a decoded document has.\<close>

fun default_value :: "gval \<Rightarrow> gval" where
  "default_value (GInt32 n) = GFloat64 (of_int n)"
| "default_value (GInt n) = GFloat64 (of_int n)"
| "default_value v = v"

fun setDefaultsInConfigMap :: "gval gomap \<Rightarrow> gval gomap \<Rightarrow> (cluster_error, gval gomap) res" where
  "setDefaultsInConfigMap baseConfigs [] = Ok baseConfigs"
| "setDefaultsInConfigMap baseConfigs ((k, v) # defaults) =
     (if (case gomap_get baseConfigs k of None \<Rightarrow> False | Some bv \<Rightarrow> \<not> gval_DeepEqual bv (default_value v))
      then Err (V (''non-default value of '' @ k))
      else setDefaultsInConfigMap (gomap_put k (default_value v) baseConfigs) defaults)"

definition toInterfaceList :: "string list \<Rightarrow> gval" where
  "toInterfaceList xs = GList (map GString xs)"

definition isNameExist :: "string list \<Rightarrow> string \<Rightarrow> bool" where
  "isNameExist names name = list_ex (\<lambda>lName. lName = name) names"

definition ns_defaults :: "string list \<Rightarrow> int option \<Rightarrow> gval \<Rightarrow> (cluster_error, gval) res" where
  "ns_defaults rackEnabledNsList rackID nsInt =
     (case as_map nsInt of
        None \<Rightarrow> Err (V ''namespace not a map'')
      | Some nsMap \<Rightarrow>
          (case as_string (idx nsMap ConfKeyName) of
             None \<Rightarrow> Ok nsInt
           | Some name \<Rightarrow>
               if \<not> isNameExist rackEnabledNsList name then Ok (GMap (gomap_delete ''rack-id'' nsMap))
               else
                 (case rackID of
                    None \<Rightarrow> Ok (GMap (gomap_delete ''rack-id'' nsMap))
                  | Some i \<Rightarrow>
                      res_bind (setDefaultsInConfigMap
                          (if gomap_get nsMap ''rack-id'' = Some (GFloat64 0) \<and> i \<noteq> 0
                           then gomap_delete ''rack-id'' nsMap else nsMap)
                          [(''rack-id'', GInt i)]) (\<lambda>nsMap'. Ok (GMap nsMap')))))"

fun ns_list_defaults :: "string list \<Rightarrow> int option \<Rightarrow> gval list \<Rightarrow> (cluster_error, gval list) res" where
  "ns_list_defaults names rackID [] = Ok []"
| "ns_list_defaults names rackID (v # vs) =
     res_bind (ns_defaults names rackID v) (\<lambda>v'.
     res_bind (ns_list_defaults names rackID vs) (\<lambda>vs'. Ok (v' # vs')))"

definition setDefaultNsConf :: "gval gomap \<Rightarrow> string list \<Rightarrow> int option \<Rightarrow> (cluster_error, gval gomap) res" where
  "setDefaultNsConf config rackEnabledNsList rackID =
     (case gomap_get config ConfKeyNamespace of
        None \<Rightarrow> Err (V ''namespaces not present'')
      | Some nsConf \<Rightarrow>
          if nsConf = GNil then Err (V ''namespaces nil'')
          else
            (case as_list nsConf of
               None \<Rightarrow> Err (V ''namespaces not a list'')
             | Some nsList \<Rightarrow>
                 if nsList = [] then Err (V ''namespaces empty'')
                 else
                   res_bind (ns_list_defaults rackEnabledNsList rackID nsList) (\<lambda>nsList'.
                     Ok (gomap_put ConfKeyNamespace (GList nsList') config))))"

definition setDefaultServiceConf :: "gval gomap \<Rightarrow> string \<Rightarrow> (cluster_error, gval gomap) res" where
  "setDefaultServiceConf config crObjName =
     (case as_map (case gomap_get config ConfKeyService of None \<Rightarrow> GMap [] | Some v \<Rightarrow> v) of
        None \<Rightarrow> Err (V ''service not a map'')
      | Some serviceConf \<Rightarrow>
          res_bind (setDefaultsInConfigMap serviceConf
              [(''node-id'', GString ''ENV_NODE_ID''), (''cluster-name'', GString crObjName)]) (\<lambda>serviceConf'.
            Ok (gomap_put ConfKeyService (GMap serviceConf') config)))"

definition addOperatorClientNameIfNeeded ::
  "gval gomap \<Rightarrow> bool \<Rightarrow> AerospikeOperatorClientCertSpec option \<Rightarrow> gval gomap" where
  "addOperatorClientNameIfNeeded serviceConf serviceTLSEnabled clientCertSpec =
     (case gomap_get serviceConf ''tls-authenticate-client'' of
        None \<Rightarrow> if serviceTLSEnabled then gomap_put ''tls-authenticate-client'' (GString ''any'') serviceConf else serviceConf
      | Some conf \<Rightarrow>
          (case clientCertSpec of
             None \<Rightarrow> serviceConf
           | Some cert \<Rightarrow>
               if TLSClientName cert = [] then serviceConf
               else
                 (case as_list conf of
                    None \<Rightarrow> serviceConf
                  | Some vs \<Rightarrow>
                      if list_ex (\<lambda>v. v = GString (TLSClientName cert)) vs then serviceConf
                      else gomap_put ''tls-authenticate-client'' (GList (vs @ [GString (TLSClientName cert)])) serviceConf)))"

definition delete_all :: "string list \<Rightarrow> 'v gomap \<Rightarrow> 'v gomap" where
  "delete_all ks m = fold gomap_delete ks m"

definition accessKeys :: "string list" where
  "accessKeys = [''access-port'', ''access-addresses'', ''alternate-access-addresses'', ''alternate-access-port'']"

definition tlsAccessKeys :: "string list" where
  "tlsAccessKeys = [''tls-access-port'', ''tls-access-addresses'', ''tls-alternate-access-addresses'', ''tls-alternate-access-port'']"

definition port_defaults :: "int option \<Rightarrow> gval gomap" where
  "port_defaults srvPort =
     (case srvPort of
        None \<Rightarrow> []
      | Some p \<Rightarrow>
          [(''port'', GInt32 p), (''access-port'', GInt32 p), (''access-addresses'', toInterfaceList [''<access-address>'']),
           (''alternate-access-port'', GInt32 p),
           (''alternate-access-addresses'', toInterfaceList [''<alternate-access-address>''])])"

definition tls_port_defaults :: "string \<times> int option \<Rightarrow> gval gomap" where
  "tls_port_defaults tls =
     (case tls of
        (tlsName, Some p) \<Rightarrow>
          if tlsName = [] then []
          else
            [(''tls-port'', GInt32 p), (''tls-access-port'', GInt32 p),
             (''tls-access-addresses'', toInterfaceList [''<tls-access-address>'']),
             (''tls-alternate-access-port'', GInt32 p),
             (''tls-alternate-access-addresses'', toInterfaceList [''<tls-alternate-access-address>''])]
      | _ \<Rightarrow> [])"

definition service_defaults :: "int option \<Rightarrow> string \<times> int option \<Rightarrow> gval gomap \<Rightarrow> (cluster_error, gval gomap) res" where
  "service_defaults srvPort tls serviceConf =
     setDefaultsInConfigMap
       (delete_all (if tls_port_defaults tls = [] then tlsAccessKeys else [])
         (delete_all (if srvPort = None then accessKeys else []) serviceConf))
       (port_defaults srvPort @ tls_port_defaults tls)"

definition setDefaultNetworkConf ::
  "gval gomap \<Rightarrow> AerospikeOperatorClientCertSpec option \<Rightarrow> (cluster_error, gval gomap) res" where
  "setDefaultNetworkConf config clientCertSpec =
     (let configSpec = \<lparr>Value = Some config\<rparr> in
      case gomap_get config ConfKeyNetwork of
        None \<Rightarrow> Err (V ''network nil'')
      | Some network \<Rightarrow>
          (case as_map network of
             None \<Rightarrow> Err (V ''network not a map'')
           | Some networkConf \<Rightarrow>
               (case gomap_get networkConf ConfKeyNetworkService of
                  None \<Rightarrow> Err (V ''network.service nil'')
                | Some service \<Rightarrow>
                    (case as_map service of
                       None \<Rightarrow> Err (V ''network.service not a map'')
                     | Some serviceConf \<Rightarrow>
                         res_bind (res_map_err VConf (GetServicePort configSpec)) (\<lambda>srvPort.
                         res_bind (res_map_err VConf (GetServiceTLSNameAndPort configSpec)) (\<lambda>tls.
                         res_bind (service_defaults srvPort tls serviceConf) (\<lambda>serviceConf'.
                         res_bind (case gomap_get networkConf ConfKeyNetworkHeartbeat of
                                     None \<Rightarrow> Err (V ''network.heartbeat nil'')
                                   | Some v \<Rightarrow>
                                       (case as_map v of
                                          None \<Rightarrow> Err (V ''network.heartbeat not a map'')
                                        | Some heartbeatConf \<Rightarrow>
                                            setDefaultsInConfigMap heartbeatConf [(''mode'', GString ''mesh'')])) (\<lambda>heartbeatConf'.
                           if \<not> has networkConf ConfKeyNetworkFabric then Err (V ''network.fabric nil'')
                           else if has networkConf ConfKeyNetworkAdmin \<and> as_map (idx networkConf ConfKeyNetworkAdmin) = None
                           then Err (V ''network.admin not a map'')
                           else
                             Ok (gomap_put ConfKeyNetwork (GMap
                               (gomap_put ConfKeyNetworkHeartbeat (GMap heartbeatConf')
                                 (gomap_put ConfKeyNetworkService
                                   (GMap (addOperatorClientNameIfNeeded serviceConf' (IsServiceTLSEnabled configSpec) clientCertSpec))
                                   networkConf))) config)))))))))"

text \<open>The search stops at the first console entry.\<close>

fun console_found :: "gval list \<Rightarrow> (cluster_error, bool) res" where
  "console_found [] = Ok False"
| "console_found (conf # confs) =
     (case as_map conf of
        None \<Rightarrow> Err (V ''logging not a list of maps'')
      | Some logConf \<Rightarrow> if idx logConf ConfKeyName = GString ''console'' then Ok True else console_found confs)"

definition setDefaultLoggingConf :: "gval gomap \<Rightarrow> (cluster_error, gval gomap) res" where
  "setDefaultLoggingConf config =
     (case as_list (case gomap_get config ''logging'' of None \<Rightarrow> GList [] | Some v \<Rightarrow> v) of
        None \<Rightarrow> Err (V ''logging not a list'')
      | Some loggingConfList \<Rightarrow>
          res_bind (console_found loggingConfList) (\<lambda>found.
            Ok (gomap_put ''logging''
                 (GList (if found then loggingConfList
                         else loggingConfList @ [GMap [(ConfKeyName, GString ''console''), (''any'', GString ''info'')]])) config)))"

section \<open>Escaping\<close>

text \<open>An empty list is returned as a nil slice by the code; the model does not tell them apart.\<close>

definition escapeString :: "string \<Rightarrow> string" where
  "escapeString str = ReplaceAll (ReplaceAll str ''${un}'' ''$${_DNE}{un}'') ''${dn}'' ''$${_DNE}{dn}''"

fun escapeValue :: "gval \<Rightarrow> gval"
and escape_list :: "gval list \<Rightarrow> gval list"
and escape_entries :: "gval gomap \<Rightarrow> gval gomap \<Rightarrow> gval gomap" where
  "escapeValue (GString s) = GString (escapeString s)"
| "escapeValue (GList vs) = GList (escape_list vs)"
| "escapeValue (GMap m) = GMap (escape_entries m [])"
| "escapeValue v = v"
| "escape_list [] = []"
| "escape_list (v # vs) = escapeValue v # escape_list vs"
| "escape_entries [] acc = acc"
| "escape_entries ((k, v) # m) acc = escape_entries m (gomap_put (escapeString k) (escapeValue v) acc)"

definition escapeLDAPConfiguration :: "gval gomap \<Rightarrow> (cluster_error, gval gomap) res" where
  "escapeLDAPConfiguration config =
     (case gomap_get config ConfKeySecurity of
        None \<Rightarrow> Ok config
      | Some v \<Rightarrow>
          (case as_map v of
             None \<Rightarrow> Err (V ''security not a map'')
           | Some security \<Rightarrow>
               (case gomap_get security ''ldap'' of
                  None \<Rightarrow> Ok config
                | Some ldap \<Rightarrow>
                    Ok (gomap_put ConfKeySecurity (GMap (gomap_put ''ldap'' (escapeValue ldap) security)) config))))"

section \<open>A configuration\<close>

definition setDefaultAerospikeConfigs ::
  "gval gomap \<Rightarrow> int option \<Rightarrow> AerospikeCluster \<Rightarrow> (cluster_error, gval gomap) res" where
  "setDefaultAerospikeConfigs config rackID cluster =
     res_bind (setDefaultNsConf config (SpecRackNamespaces (ClusterSpec cluster)) rackID) (\<lambda>config.
     res_bind (setDefaultServiceConf config (ClusterName cluster)) (\<lambda>config.
     res_bind (setDefaultNetworkConf config (SpecOperatorClientCert (ClusterSpec cluster))) (\<lambda>config.
     res_bind (setDefaultLoggingConf config) (\<lambda>config.
       escapeLDAPConfiguration config))))"

section \<open>Racks\<close>

definition DefaultRackID :: int where "DefaultRackID = 0"

definition default_rack :: Rack where
  "default_rack = \<lparr>RackID = DefaultRackID, RackRevision = [], RackAerospikeConfig = \<lparr>Value = None\<rparr>,
     RackStorage = no_storage, RackForceBlockFromRoster = None, RackZone = [], RackRegion = [], RackRackLabel = [],
     RackNodeName = [], RackInputAerospikeConfig = None, RackInputStorage = None, RackInputPodSpec = None,
     RackPodSpec = no_scheduling\<rparr>"

definition default_rack_modified :: "Rack list \<Rightarrow> Rack \<Rightarrow> bool" where
  "default_rack_modified racks rack \<longleftrightarrow>
     RackID rack = DefaultRackID \<and>
     (1 < length racks \<or> RackZone rack \<noteq> [] \<or> RackRegion rack \<noteq> [] \<or> RackRackLabel rack \<noteq> [] \<or> RackNodeName rack \<noteq> [] \<or>
      RackInputAerospikeConfig rack \<noteq> None \<or> RackInputStorage rack \<noteq> None \<or> RackInputPodSpec rack \<noteq> None)"

definition setDefaultRackConf :: "Rack list \<Rightarrow> (cluster_error, Rack list) res" where
  "setDefaultRackConf racks =
     (if racks = [] then Ok [default_rack]
      else if list_ex (default_rack_modified racks) racks then Err (V ''reserved rack ID'')
      else Ok racks)"

text \<open>
  The effective storage of a rack shares its volumes with the storage it is taken from, so the volumes of the
  rack's own input are defaulted with it.
\<close>

definition rack_storage_from_global :: "AerospikeStorageSpec \<Rightarrow> Rack \<Rightarrow> Rack" where
  "rack_storage_from_global global rack =
     (case RackInputStorage rack of
        None \<Rightarrow> rack\<lparr>RackStorage := setStorageDefaults global\<rparr>
      | Some input \<Rightarrow>
          rack\<lparr>RackStorage := setStorageDefaults input,
               RackInputStorage := Some (input\<lparr>Volumes := Volumes (setStorageDefaults input)\<rparr>)\<rparr>)"

definition updateRacksStorageFromGlobal :: "AerospikeCluster \<Rightarrow> AerospikeCluster" where
  "updateRacksStorageFromGlobal cluster =
     cluster\<lparr>ClusterSpec := (ClusterSpec cluster)\<lparr>
       SpecRacks := map (rack_storage_from_global (SpecStorage (ClusterSpec cluster))) (SpecRacks (ClusterSpec cluster))\<rparr>\<rparr>"

definition rack_config_value :: "AerospikeCluster \<Rightarrow> Rack \<Rightarrow> (cluster_error, gval gomap) res" where
  "rack_config_value cluster rack =
     res_bind (case RackInputAerospikeConfig rack of
                 None \<Rightarrow> Ok (conf_map (SpecAerospikeConfig (ClusterSpec cluster)))
               | Some input \<Rightarrow>
                   res_map_err (\<lambda>_. V ''merge'')
                     (Merge (conf_map (SpecAerospikeConfig (ClusterSpec cluster))) (conf_map input))) (\<lambda>m.
       setDefaultAerospikeConfigs m (Some (RackID rack)) cluster)"

definition rack_config_from_global :: "AerospikeCluster \<Rightarrow> Rack \<Rightarrow> (cluster_error, Rack) res" where
  "rack_config_from_global cluster rack =
     res_bind (rack_config_value cluster rack) (\<lambda>m. Ok (rack\<lparr>RackAerospikeConfig := \<lparr>Value = Some m\<rparr>\<rparr>))"

fun rack_configs_from_global :: "AerospikeCluster \<Rightarrow> Rack list \<Rightarrow> (cluster_error, Rack list) res" where
  "rack_configs_from_global cluster [] = Ok []"
| "rack_configs_from_global cluster (rack # racks) =
     res_bind (rack_config_from_global cluster rack) (\<lambda>rack'.
     res_bind (rack_configs_from_global cluster racks) (\<lambda>racks'. Ok (rack' # racks')))"

definition updateRacksAerospikeConfigFromGlobal :: "AerospikeCluster \<Rightarrow> (cluster_error, AerospikeCluster) res" where
  "updateRacksAerospikeConfigFromGlobal cluster =
     res_bind (rack_configs_from_global cluster (SpecRacks (ClusterSpec cluster))) (\<lambda>racks.
       Ok (cluster\<lparr>ClusterSpec := (ClusterSpec cluster)\<lparr>SpecRacks := racks\<rparr>\<rparr>))"

definition rack_pod_spec_from_global :: "SchedulingPolicy \<Rightarrow> Rack \<Rightarrow> Rack" where
  "rack_pod_spec_from_global global rack =
     rack\<lparr>RackPodSpec := (case RackInputPodSpec rack of None \<Rightarrow> global | Some input \<Rightarrow> input)\<rparr>"

definition updateRacksPodSpecFromGlobal :: "AerospikeCluster \<Rightarrow> AerospikeCluster" where
  "updateRacksPodSpecFromGlobal cluster =
     cluster\<lparr>ClusterSpec := (ClusterSpec cluster)\<lparr>
       SpecRacks := map (rack_pod_spec_from_global (SchedPolicy (SpecPodSpec (ClusterSpec cluster)))) (SpecRacks (ClusterSpec cluster))\<rparr>\<rparr>"

definition updateRacks :: "AerospikeCluster \<Rightarrow> (cluster_error, AerospikeCluster) res" where
  "updateRacks cluster =
     res_bind (updateRacksAerospikeConfigFromGlobal (updateRacksStorageFromGlobal cluster)) (\<lambda>cluster.
       Ok (updateRacksPodSpecFromGlobal cluster))"

section \<open>A cluster\<close>

definition DNSClusterFirstWithHostNet :: string where "DNSClusterFirstWithHostNet = ''ClusterFirstWithHostNet''"
definition DNSClusterFirst :: string where "DNSClusterFirst = ''ClusterFirst''"

definition setPodSpecDefaults :: "AerospikePodSpec \<Rightarrow> AerospikePodSpec" where
  "setPodSpecDefaults podSpec =
     podSpec\<lparr>
       DNSPolicy := (case InputDNSPolicy podSpec of
          None \<Rightarrow> if HostNetwork podSpec then DNSClusterFirstWithHostNet else DNSClusterFirst
        | Some p \<Rightarrow> p),
       SecurityContext := (case SecurityContext podSpec of
          None \<Rightarrow> Some \<lparr>FSGroup = Some 0, OtherSecurity = []\<rparr>
        | Some c \<Rightarrow> Some (c\<lparr>FSGroup := (case FSGroup c of None \<Rightarrow> Some 0 | Some g \<Rightarrow> Some g)\<rparr>))\<rparr>"

definition setNetworkNamespace :: "string \<Rightarrow> AerospikeNetworkPolicy \<Rightarrow> AerospikeNetworkPolicy" where
  "setNetworkNamespace namespace policy =
     (let f = map_option (map (setNamespaceDefault namespace)) in
      policy\<lparr>CustomAccessNetworkNames := f (CustomAccessNetworkNames policy),
        CustomAlternateAccessNetworkNames := f (CustomAlternateAccessNetworkNames policy),
        CustomTLSAccessNetworkNames := f (CustomTLSAccessNetworkNames policy),
        CustomTLSAlternateAccessNetworkNames := f (CustomTLSAlternateAccessNetworkNames policy),
        CustomFabricNetworkNames := f (CustomFabricNetworkNames policy),
        CustomTLSFabricNetworkNames := f (CustomTLSFabricNetworkNames policy)\<rparr>)"

definition max_unavailable_default :: "AerospikeClusterSpec \<Rightarrow> IntOrString option" where
  "max_unavailable_default spec =
     (if GetBool (SpecDisablePDB spec) then None
      else case SpecMaxUnavailable spec of None \<Rightarrow> Some (IosInt 1) | Some m \<Rightarrow> Some m)"

definition AerospikeAPIVersionLabel :: string where "AerospikeAPIVersionLabel = ''aerospike.com/api-version''"
definition AerospikeAPIVersion :: string where "AerospikeAPIVersion = ''v1''"

definition label_default :: "string gomap \<Rightarrow> string gomap" where
  "label_default labels =
     (if has labels AerospikeAPIVersionLabel then labels else gomap_put AerospikeAPIVersionLabel AerospikeAPIVersion labels)"

text \<open>The check for a nil configuration never fails: the specification of the model always has one.\<close>

definition setDefaults :: "AerospikeCluster \<Rightarrow> (cluster_error, AerospikeCluster) res" where
  "setDefaults cluster =
     (let spec = ClusterSpec cluster in
      res_bind (setDefaultRackConf (SpecRacks spec)) (\<lambda>racks.
      let cluster1 = cluster\<lparr>ClusterSpec := spec\<lparr>SpecMaxUnavailable := max_unavailable_default spec,
            SpecNetworkPolicy := setNetworkNamespace (ClusterNamespace cluster) (SpecNetworkPolicy spec),
            SpecStorage := setStorageDefaults (SpecStorage spec), SpecRacks := racks\<rparr>\<rparr> in
      res_bind (setDefaultAerospikeConfigs (conf_map (SpecAerospikeConfig spec)) None cluster1) (\<lambda>config.
      res_bind (updateRacks (cluster1\<lparr>ClusterSpec := (ClusterSpec cluster1)\<lparr>
            SpecAerospikeConfig := \<lparr>Value = Some config\<rparr>\<rparr>\<rparr>)) (\<lambda>cluster2.
        Ok (cluster2\<lparr>ClusterLabels := label_default (ClusterLabels cluster2),
          ClusterSpec := (ClusterSpec cluster2)\<lparr>
            SpecPodSpec := setPodSpecDefaults (SpecPodSpec (ClusterSpec cluster2)),
            SpecRosterNodeBlockList := map (\<lambda>nodeID. TrimLeftZeros (ToUpper nodeID))
              (SpecRosterNodeBlockList (ClusterSpec cluster2))\<rparr>\<rparr>)))))"

definition Default :: "AerospikeCluster \<Rightarrow> (cluster_error, AerospikeCluster) res" where
  "Default aerospikeCluster = setDefaults aerospikeCluster"

section \<open>Escaping again changes nothing\<close>

fun no_occ :: "string \<Rightarrow> string \<Rightarrow> bool" where
  "no_occ p [] = True"
| "no_occ p (c # s) = (\<not> HasPrefix (c # s) p \<and> no_occ p s)"

lemma ReplaceAll_hit:
  "old \<noteq> [] \<Longrightarrow> HasPrefix s old \<Longrightarrow> ReplaceAll s old new = new @ ReplaceAll (drop (length old) s) old new"
  by (subst ReplaceAll.simps) (auto simp: HasPrefix_def)

lemma ReplaceAll_miss: "\<not> HasPrefix (c # t) old \<Longrightarrow> ReplaceAll (c # t) old new = c # ReplaceAll t old new"
  by (subst ReplaceAll.simps) simp

lemma ReplaceAll_absent: "no_occ p s \<Longrightarrow> ReplaceAll s p q = s"
  by (induction s) (auto simp: ReplaceAll_miss ReplaceAll.simps [of "[]"])

lemma HasPrefix_Cons [simp]: "HasPrefix s (c # p) \<longleftrightarrow> (\<exists>t. s = c # t \<and> HasPrefix t p)"
  by (cases s) (auto simp: HasPrefix_def)

lemma HasPrefix_Nil [simp]: "HasPrefix s []"
  by (simp add: HasPrefix_def)

text \<open>A replacement that starts with a dollar creates no new occurrence of a word without one.\<close>

lemma ReplaceAll_prefix:
  assumes "HasPrefix (ReplaceAll s old (d # new)) p" and "d \<notin> set p"
  shows "HasPrefix s p"
  using assms
proof (induction p arbitrary: s)
  case (Cons c p)
  show ?case
  proof (cases s)
    case Nil
    with Cons.prems show ?thesis by (simp add: ReplaceAll.simps)
  next
    case (Cons x t)
    have "ReplaceAll s old (d # new) = x # ReplaceAll t old (d # new)"
    proof (cases "old \<noteq> [] \<and> HasPrefix s old")
      case True
      with Cons.prems ReplaceAll_hit [of old s "d # new"] show ?thesis by auto
    next
      case False
      with Cons show ?thesis by (subst ReplaceAll.simps) auto
    qed
    with Cons.prems Cons.IH [of t] Cons show ?thesis by simp
  qed
qed simp

lemma no_occ_marker:
  assumes "no_occ (CHR ''$'' # CHR ''{'' # a # p) s" and "a \<noteq> CHR ''_''"
  shows "no_occ (CHR ''$'' # CHR ''{'' # a # p) (''$${_DNE}{'' @ [x] @ ''n}'' @ s)"
  using assms by (simp add: HasPrefix_def)

lemma escape_step_removes:
  fixes x :: char
  assumes "x \<noteq> CHR ''_''" "x \<noteq> CHR ''$''"
  shows "no_occ (''${'' @ [x] @ ''n}'') (ReplaceAll s (''${'' @ [x] @ ''n}'') (''$${_DNE}{'' @ [x] @ ''n}''))"
proof (induction "length s" arbitrary: s rule: less_induct)
  case less
  show ?case
  proof (cases s)
    case Nil
    then show ?thesis by (simp add: ReplaceAll.simps)
  next
    case (Cons c t)
    let ?p = "''${'' @ [x] @ ''n}''" and ?q = "''$${_DNE}{'' @ [x] @ ''n}''"
    show ?thesis
    proof (cases "HasPrefix s ?p")
      case True
      then have "ReplaceAll s ?p ?q = ?q @ ReplaceAll (drop (length ?p) s) ?p ?q"
        by (intro ReplaceAll_hit) simp_all
      moreover have "no_occ ?p (ReplaceAll (drop (length ?p) s) ?p ?q)" by (rule less) (simp add: Cons)
      ultimately show ?thesis using no_occ_marker [of x "''n}''"] assms by simp
    next
      case False
      then have eq: "ReplaceAll s ?p ?q = c # ReplaceAll t ?p ?q" unfolding Cons by (rule ReplaceAll_miss)
      have "no_occ ?p (ReplaceAll t ?p ?q)" by (rule less) (simp add: Cons)
      moreover have "\<not> HasPrefix (c # ReplaceAll t ?p ?q) ?p"
      proof
        assume "HasPrefix (c # ReplaceAll t ?p ?q) ?p"
        then have c: "c = CHR ''$''" and "HasPrefix (ReplaceAll t ?p (CHR ''$'' # ''${_DNE}{'' @ [x] @ ''n}'')) (''{'' @ [x] @ ''n}'')" by simp_all
        from this(2) have "HasPrefix t (''{'' @ [x] @ ''n}'')" by (rule ReplaceAll_prefix) (use assms in simp)
        with c Cons False show False by auto
      qed
      ultimately show ?thesis unfolding eq by simp
    qed
  qed
qed

lemma escape_step_keeps:
  fixes x y :: char
  assumes "no_occ (''${'' @ [y] @ ''n}'') s" and "y \<noteq> CHR ''_''" "y \<noteq> CHR ''$''"
  shows "no_occ (''${'' @ [y] @ ''n}'') (ReplaceAll s (''${'' @ [x] @ ''n}'') (''$${_DNE}{'' @ [x] @ ''n}''))"
  using assms(1)
proof (induction "length s" arbitrary: s rule: less_induct)
  case less
  let ?p = "''${'' @ [x] @ ''n}''" and ?q = "''$${_DNE}{'' @ [x] @ ''n}''" and ?w = "''${'' @ [y] @ ''n}''"
  have tail: "no_occ ?w (drop n s)" for n using less.prems
  proof (induction n arbitrary: s)
    case (Suc n)
    then show ?case by (cases s) auto
  qed simp
  show ?case
  proof (cases s)
    case Nil
    then show ?thesis by (simp add: ReplaceAll.simps)
  next
    case (Cons c t)
    show ?thesis
    proof (cases "HasPrefix s ?p")
      case True
      then have "ReplaceAll s ?p ?q = ?q @ ReplaceAll (drop (length ?p) s) ?p ?q"
        by (intro ReplaceAll_hit) simp_all
      moreover have "no_occ ?w (ReplaceAll (drop (length ?p) s) ?p ?q)" by (rule less(1)) (simp_all only: tail, simp add: Cons)
      ultimately show ?thesis using no_occ_marker [of y "''n}''"] assms(2) by simp
    next
      case False
      then have eq: "ReplaceAll s ?p ?q = c # ReplaceAll t ?p ?q" unfolding Cons by (rule ReplaceAll_miss)
      have "no_occ ?w (ReplaceAll t ?p ?q)" using less(2) Cons by (intro less(1)) simp_all
      moreover have "\<not> HasPrefix (c # ReplaceAll t ?p ?q) ?w"
      proof
        assume "HasPrefix (c # ReplaceAll t ?p ?q) ?w"
        then have c: "c = CHR ''$''" and "HasPrefix (ReplaceAll t ?p (CHR ''$'' # ''${_DNE}{'' @ [x] @ ''n}'')) (''{'' @ [y] @ ''n}'')" by simp_all
        from this(2) have "HasPrefix t (''{'' @ [y] @ ''n}'')" by (rule ReplaceAll_prefix) (use assms in simp)
        with c Cons less(2) show False by auto
      qed
      ultimately show ?thesis unfolding eq by simp
    qed
  qed
qed

lemma escapeString_idem: "escapeString (escapeString s) = escapeString s"
proof -
  let ?u = "ReplaceAll s ''${un}'' ''$${_DNE}{un}''"
  have u: "no_occ ''${un}'' ?u" using escape_step_removes [of "CHR ''u''" s] by simp
  have "no_occ ''${un}'' (escapeString s)" "no_occ ''${dn}'' (escapeString s)"
    unfolding escapeString_def
    using escape_step_keeps [of "CHR ''u''" ?u "CHR ''d''"] u escape_step_removes [of "CHR ''d''" ?u] by simp_all
  then show ?thesis unfolding escapeString_def [of "escapeString s"] by (simp add: ReplaceAll_absent)
qed

section \<open>Values of escaped documents\<close>

definition escaped_entries :: "gval gomap \<Rightarrow> bool" where
  "escaped_entries m \<longleftrightarrow> gomap_ok m \<and> (\<forall>(k, v)\<in>set m. escapeString k = k \<and> escapeValue v = v)"

lemma escaped_put:
  assumes "escaped_entries m" and "escapeString k = k" and "escapeValue v = v"
  shows "escaped_entries (gomap_put k v m)"
proof -
  have "set (gomap_put k v m) \<subseteq> insert (k, v) (set m)" by (induction m) (auto split: if_splits)
  with assms show ?thesis unfolding escaped_entries_def by (auto simp: gomap_ok_put)
qed

lemma escape_entries_escaped:
  "escaped_entries (acc @ m) \<Longrightarrow> escape_entries m acc = acc @ m"
proof (induction m arbitrary: acc)
  case (Cons e m)
  obtain k v where e: "e = (k, v)" by (cases e)
  have "gomap_put k v acc = acc @ [(k, v)]"
    using Cons.prems e by (induction acc) (auto simp: escaped_entries_def gomap_ok_def)
  with Cons e show ?case by (simp add: escaped_entries_def)
qed simp

lemma escape_idem:
  "escapeValue (escapeValue v) = escapeValue v"
  "escape_list (escape_list vs) = escape_list vs"
  "escaped_entries acc \<Longrightarrow> escaped_entries (escape_entries m acc)"
proof (induction v and vs and m acc rule: escapeValue_escape_list_escape_entries.induct)
  case (3 m)
  then have "escaped_entries (escape_entries m [])" by (simp add: escaped_entries_def gomap_ok_def)
  with escape_entries_escaped [of "[]" "escape_entries m []"] show ?case by simp
qed (simp_all add: escapeString_idem escaped_put)

section \<open>Sections that are settled\<close>

text \<open>One stage changes one section; a settled section is left alone.\<close>

lemma setDefaults_present:
  "setDefaultsInConfigMap base ds = Ok m \<Longrightarrow> distinct (map fst ds) \<Longrightarrow>
   (\<forall>(k, v)\<in>set ds. gomap_get m k = Some (default_value v)) \<and> (\<forall>k. k \<notin> fst ` set ds \<longrightarrow> gomap_get m k = gomap_get base k)"
proof (induction base ds rule: setDefaultsInConfigMap.induct)
  case (2 base k v ds)
  then have IH: "(\<forall>(k, v)\<in>set ds. gomap_get m k = Some (default_value v)) \<and>
      (\<forall>k'. k' \<notin> fst ` set ds \<longrightarrow> gomap_get m k' = gomap_get (gomap_put k (default_value v) base) k')"
    by (auto split: if_splits)
  moreover have "k \<notin> fst ` set ds" using 2(3) by simp
  ultimately show ?case by (auto simp: gomap_get_put)
qed simp

lemma setDefaults_settled:
  assumes "\<And>k v. (k, v) \<in> set ds \<Longrightarrow> gomap_get m k = Some (default_value v) \<and> gval_DeepEqual (default_value v) (default_value v)"
  shows "setDefaultsInConfigMap m ds = Ok m"
  using assms
proof (induction ds)
  case (Cons e ds)
  obtain k v where e: "e = (k, v)" by (cases e)
  have here: "gomap_get m k = Some (default_value v)" "gval_DeepEqual (default_value v) (default_value v)"
    using Cons.prems [of k v] e by simp_all
  have "setDefaultsInConfigMap m ds = Ok m" by (rule Cons.IH) (meson Cons.prems list.set_intros(2))
  with e here show ?case by (simp add: gomap_put_same)
qed simp

lemma setDefaults_idem:
  assumes "setDefaultsInConfigMap base ds = Ok m" and "distinct (map fst ds)"
    and "\<And>k v. (k, v) \<in> set ds \<Longrightarrow> gval_DeepEqual (default_value v) (default_value v)"
  shows "setDefaultsInConfigMap m ds = Ok m"
  using setDefaults_present [OF assms(1,2)] assms(3) by (intro setDefaults_settled) fastforce

lemma ns_defaults_global_idem:
  "ns_defaults names None v = Ok v' \<Longrightarrow> ns_defaults names None v' = Ok v'"
  by (auto simp: ns_defaults_def idx_def ConfKeyName_def gomap_get_delete gomap_delete_absent split: option.splits if_splits)

lemma ns_list_defaults_global_idem:
  "ns_list_defaults names None vs = Ok vs' \<Longrightarrow> ns_list_defaults names None vs' = Ok vs' \<and> (vs' = [] \<longleftrightarrow> vs = [])"
  by (induction vs arbitrary: vs') (auto simp: res_simps ns_defaults_global_idem)

lemma setDefaultNsConf_idem:
  assumes "setDefaultNsConf config names None = Ok config'"
  shows "\<exists>v. config' = gomap_put ConfKeyNamespace v config"
    and "gomap_get config'' ConfKeyNamespace = gomap_get config' ConfKeyNamespace \<Longrightarrow> setDefaultNsConf config'' names None = Ok config''"
proof -
  obtain nss nss' where nss: "gomap_get config ConfKeyNamespace = Some (GList nss)" "nss \<noteq> []"
    "ns_list_defaults names None nss = Ok nss'" "config' = gomap_put ConfKeyNamespace (GList nss') config"
    using assms by (auto simp: setDefaultNsConf_def res_simps typed_iff split: option.splits if_splits)
  then show "\<exists>v. config' = gomap_put ConfKeyNamespace v config" by blast
  from ns_list_defaults_global_idem [OF nss(3)] nss(2)
  have "ns_list_defaults names None nss' = Ok nss'" "nss' \<noteq> []" by auto
  then show "setDefaultNsConf config'' names None = Ok config''"
    if "gomap_get config'' ConfKeyNamespace = gomap_get config' ConfKeyNamespace"
    using that nss(4) by (simp add: setDefaultNsConf_def gomap_get_put gomap_put_same)
qed

lemma setDefaultServiceConf_idem:
  assumes "setDefaultServiceConf config name = Ok config'"
  shows "\<exists>v. config' = gomap_put ConfKeyService v config"
    and "gomap_get config'' ConfKeyService = gomap_get config' ConfKeyService \<Longrightarrow> setDefaultServiceConf config'' name = Ok config''"
proof -
  define ds where "ds = [(''node-id'', GString ''ENV_NODE_ID''), (''cluster-name'', GString name)]"
  obtain base m where m: "setDefaultsInConfigMap base ds = Ok m" "config' = gomap_put ConfKeyService (GMap m) config"
    using assms by (auto simp: setDefaultServiceConf_def ds_def [symmetric] res_simps split: option.splits)
  then show "\<exists>v. config' = gomap_put ConfKeyService v config" by blast
  have "setDefaultsInConfigMap m ds = Ok m" by (rule setDefaults_idem [OF m(1)]) (auto simp: ds_def)
  then show "setDefaultServiceConf config'' name = Ok config''"
    if "gomap_get config'' ConfKeyService = gomap_get config' ConfKeyService"
    using that m(2) by (simp add: setDefaultServiceConf_def ds_def [symmetric] gomap_get_put gomap_put_same)
qed

lemma console_found_append:
  "console_found confs = Ok False \<Longrightarrow> console_found (confs @ [GMap [(ConfKeyName, GString ''console''), (''any'', v)]]) = Ok True"
  by (induction confs) (auto simp: idx_def gomap_get_def split: option.splits if_splits)

lemma setDefaultLoggingConf_idem:
  assumes "setDefaultLoggingConf config = Ok config'"
  shows "\<exists>v. config' = gomap_put ''logging'' v config"
    and "gomap_get config'' ''logging'' = gomap_get config' ''logging'' \<Longrightarrow> setDefaultLoggingConf config'' = Ok config''"
proof -
  obtain confs found where c: "console_found confs = Ok found" "config' = gomap_put ''logging'' (GList (if found then confs
      else confs @ [GMap [(ConfKeyName, GString ''console''), (''any'', GString ''info'')]])) config"
    using assms unfolding setDefaultLoggingConf_def
    by (cases "as_list (case gomap_get config ''logging'' of None \<Rightarrow> GList [] | Some v \<Rightarrow> v)") (auto simp: res_simps)
  then show "\<exists>v. config' = gomap_put ''logging'' v config" by blast
  have "console_found (if found then confs else confs @ [GMap [(ConfKeyName, GString ''console''), (''any'', GString ''info'')]]) = Ok True"
    using c(1) console_found_append by (cases found) auto
  then show "setDefaultLoggingConf config'' = Ok config''"
    if "gomap_get config'' ''logging'' = gomap_get config' ''logging''"
    using that c(2) by (simp add: setDefaultLoggingConf_def gomap_get_put gomap_put_same)
qed

lemma escapeLDAP_idem:
  assumes "escapeLDAPConfiguration config = Ok config'"
  shows "config' = config \<or> (\<exists>v. config' = gomap_put ConfKeySecurity v config)"
    and "escapeLDAPConfiguration config' = Ok config'"
  using assms
  by (auto simp: escapeLDAPConfiguration_def gomap_get_put gomap_put_same escape_idem split: option.splits)

section \<open>The network section\<close>

lemma delete_all_get: "gomap_get (delete_all ks m) k = (if k \<in> set ks then None else gomap_get m k)"
  unfolding delete_all_def by (induction ks arbitrary: m) (auto simp: gomap_get_delete)

lemma delete_all_absent: "(\<And>k. k \<in> set ks \<Longrightarrow> gomap_get m k = None) \<Longrightarrow> delete_all ks m = m"
  unfolding delete_all_def by (induction ks) (auto simp: gomap_delete_absent)

definition service_port :: "gval gomap \<Rightarrow> (conf_error, int option) res" where
  "service_port service =
     (case gomap_get service ConfKeyPort of
        None \<Rightarrow> Ok None
      | Some port \<Rightarrow> res_bind (must (as_float64 port)) (\<lambda>p. Ok (Some (int32_of_float64 p))))"

definition service_tls :: "gval gomap \<Rightarrow> (conf_error, string \<times> int option) res" where
  "service_tls service =
     (case gomap_get service ConfKeyTLSName of
        None \<Rightarrow> Ok ([], None)
      | Some name \<Rightarrow>
          res_bind (must (as_string name)) (\<lambda>tlsName.
            case gomap_get service ConfKeyTLSPort of
              None \<Rightarrow> Ok (tlsName, None)
            | Some tlsPort \<Rightarrow> res_bind (must (as_float64 tlsPort)) (\<lambda>p. Ok (tlsName, Some (int32_of_float64 p)))))"

lemma network_readers:
  assumes "gomap_get config ConfKeyNetwork = Some (GMap network)" and "gomap_get network ConfKeyNetworkService = Some (GMap service)"
  shows "GetServicePort \<lparr>Value = Some config\<rparr> = service_port service"
    and "GetServiceTLSNameAndPort \<lparr>Value = Some config\<rparr> = service_tls service"
    and "IsServiceTLSEnabled \<lparr>Value = Some config\<rparr> \<longleftrightarrow> has service ConfKeyTLSName"
  using assms
  by (simp_all add: GetServicePort_def GetPortFromConfig_def service_port_def GetServiceTLSNameAndPort_def GetTLSNameAndPort_def
      service_tls_def IsServiceTLSEnabled_def conf_map_def has_def)

lemma setDefaults_agree:
  assumes "setDefaultsInConfigMap base ds = Ok m" and "distinct (map fst ds)" and "(k, v) \<in> set ds" and "gomap_get base k = Some bv"
  shows "gval_DeepEqual bv (default_value v)"
  using assms
proof (induction base ds rule: setDefaultsInConfigMap.induct)
  case (2 base k' v' ds)
  show ?case
  proof (cases "k = k'")
    case True
    with 2 have "v = v'" by (metis (mono_tags, lifting) distinct.simps(2) fst_conv image_eqI list.set_map list.simps(9) prod.inject set_ConsD)
    with 2(2,5) True show ?thesis by (auto split: if_splits)
  next
    case False
    with 2 show ?thesis by (auto simp: gomap_get_put split: if_splits)
  qed
qed simp

lemma float_agree: "gval_DeepEqual bv (GFloat64 r) \<Longrightarrow> bv = GFloat64 r"
  by (cases bv) auto

lemma port_default_keys:
  "fst ` set (port_defaults p) = (if p = None then {} else
     {''port'', ''access-port'', ''access-addresses'', ''alternate-access-port'', ''alternate-access-addresses''})"
  "fst ` set (tls_port_defaults t) = (if tls_port_defaults t = [] then {} else
     {''tls-port'', ''tls-access-port'', ''tls-access-addresses'', ''tls-alternate-access-port'', ''tls-alternate-access-addresses''})"
proof -
  show "fst ` set (port_defaults p) = (if p = None then {} else
     {''port'', ''access-port'', ''access-addresses'', ''alternate-access-port'', ''alternate-access-addresses''})"
    by (cases p) (auto simp: port_defaults_def)
  obtain name q where "t = (name, q)" by (cases t)
  then show "fst ` set (tls_port_defaults t) = (if tls_port_defaults t = [] then {} else
     {''tls-port'', ''tls-access-port'', ''tls-access-addresses'', ''tls-alternate-access-port'', ''tls-alternate-access-addresses''})"
    by (cases q) (auto simp: tls_port_defaults_def)
qed

lemma as_float64_Some: "as_float64 v = Some r \<longleftrightarrow> v = GFloat64 r"
  by (cases v) auto

lemma service_default_distinct: "distinct (map fst (port_defaults p @ tls_port_defaults t))"
  by (auto simp: port_defaults_def tls_port_defaults_def split: option.splits prod.splits)

lemma service_default_refl:
  "(k, v) \<in> set (port_defaults p @ tls_port_defaults t) \<Longrightarrow> gval_DeepEqual (default_value v) (default_value v)"
  by (auto simp: port_defaults_def tls_port_defaults_def toInterfaceList_def split: option.splits prod.splits if_splits)

text \<open>The ports and the name of the certificate are read back as they were.\<close>

lemma service_defaults_reads:
  assumes "service_port service = Ok p" and "service_tls service = Ok t" and "service_defaults p t service = Ok service'"
  shows "gomap_get service' ''port'' = gomap_get service ''port''"
    and "gomap_get service' ''tls-name'' = gomap_get service ''tls-name''"
    and "gomap_get service' ''tls-port'' = gomap_get service ''tls-port''"
proof -
  define base where "base = delete_all (if tls_port_defaults t = [] then tlsAccessKeys else [])
    (delete_all (if p = None then accessKeys else []) service)"
  have out: "setDefaultsInConfigMap base (port_defaults p @ tls_port_defaults t) = Ok service'"
    using assms(3) by (simp add: service_defaults_def base_def)
  have base: "gomap_get base k = gomap_get service k" if "k \<in> {''port'', ''tls-name'', ''tls-port''}" for k
    using that by (auto simp: base_def delete_all_get accessKeys_def tlsAccessKeys_def)
  note present = setDefaults_present [OF out service_default_distinct]
  note agree = setDefaults_agree [OF out service_default_distinct]
  show "gomap_get service' ''tls-name'' = gomap_get service ''tls-name''"
    using present base by (simp add: image_Un port_default_keys)
  show "gomap_get service' ''port'' = gomap_get service ''port''"
  proof (cases "gomap_get service ''port''")
    case None
    then have "p = None" using assms(1) by (simp add: service_port_def ConfKeyPort_def)
    then show ?thesis using present base by (simp add: image_Un port_default_keys)
  next
    case (Some v)
    then obtain r where v: "v = GFloat64 r" "p = Some (int32_of_float64 r)"
      using assms(1) by (auto simp: service_port_def ConfKeyPort_def res_simps typed_iff as_float64_Some)
    then have d: "(''port'', GInt32 (int32_of_float64 r)) \<in> set (port_defaults p @ tls_port_defaults t)" by (simp add: port_defaults_def)
    from agree [OF d] base Some v have "v = GFloat64 (of_int (int32_of_float64 r))" by (simp add: float_agree)
    moreover have "gomap_get service' ''port'' = Some (GFloat64 (of_int (int32_of_float64 r)))" using present d by fastforce
    ultimately show ?thesis using Some by simp
  qed
  show "gomap_get service' ''tls-port'' = gomap_get service ''tls-port''"
  proof (cases "tls_port_defaults t = []")
    case True
    then show ?thesis using present base by (simp add: image_Un port_default_keys)
  next
    case False
    then obtain name q where t: "t = (name, Some q)" "name \<noteq> []" by (auto simp: tls_port_defaults_def split: prod.splits option.splits if_splits)
    with assms(2) obtain r where r: "gomap_get service ''tls-port'' = Some (GFloat64 r)" "q = int32_of_float64 r"
      by (auto simp: service_tls_def ConfKeyTLSPort_def res_simps typed_iff as_float64_Some split: option.splits)
    have d: "(''tls-port'', GInt32 q) \<in> set (port_defaults p @ tls_port_defaults t)" using t by (simp add: tls_port_defaults_def)
    from agree [OF d] base r have "GFloat64 r = GFloat64 (of_int q)" by (simp add: float_agree)
    moreover have "gomap_get service' ''tls-port'' = Some (GFloat64 (of_int q))" using present d by fastforce
    ultimately show ?thesis using r by simp
  qed
qed

lemma service_defaults_settled:
  assumes "service_defaults p t service = Ok service'"
    and "\<And>k. k \<noteq> ''tls-authenticate-client'' \<Longrightarrow> gomap_get service'' k = gomap_get service' k"
  shows "service_defaults p t service'' = Ok service''"
proof -
  define base where "base = delete_all (if tls_port_defaults t = [] then tlsAccessKeys else [])
    (delete_all (if p = None then accessKeys else []) service)"
  have out: "setDefaultsInConfigMap base (port_defaults p @ tls_port_defaults t) = Ok service'"
    using assms(1) by (simp add: service_defaults_def base_def)
  note present = setDefaults_present [OF out service_default_distinct]
  have absent: "gomap_get service'' k = None"
    if "k \<in> set (if p = None then accessKeys else []) \<or> k \<in> set (if tls_port_defaults t = [] then tlsAccessKeys else [])" for k
  proof -
    have k: "k \<noteq> ''tls-authenticate-client''" "k \<notin> fst ` set (port_defaults p @ tls_port_defaults t)" "gomap_get base k = None"
      using that by (auto simp: accessKeys_def tlsAccessKeys_def port_default_keys base_def delete_all_get image_Un split: if_splits)
    with present assms(2) show ?thesis by simp
  qed
  have "setDefaultsInConfigMap service'' (port_defaults p @ tls_port_defaults t) = Ok service''"
  proof (rule setDefaults_settled)
    fix k v assume kv: "(k, v) \<in> set (port_defaults p @ tls_port_defaults t)"
    then have "k \<in> fst ` set (port_defaults p @ tls_port_defaults t)" by force
    then have "k \<noteq> ''tls-authenticate-client''" by (auto simp: image_Un port_default_keys split: if_splits)
    with kv present assms(2) have "gomap_get service'' k = Some (default_value v)" by fastforce
    with kv service_default_refl show "gomap_get service'' k = Some (default_value v) \<and> gval_DeepEqual (default_value v) (default_value v)" by blast
  qed
  moreover have "delete_all (if p = None then accessKeys else []) service'' = service''"
    "delete_all (if tls_port_defaults t = [] then tlsAccessKeys else []) service'' = service''"
    by (rule delete_all_absent, rule absent, blast)+
  ultimately show ?thesis unfolding service_defaults_def by (simp only:)
qed

lemma addOperatorClientName_idem:
  "addOperatorClientNameIfNeeded (addOperatorClientNameIfNeeded s tls cert) tls cert = addOperatorClientNameIfNeeded s tls cert"
  "k \<noteq> ''tls-authenticate-client'' \<Longrightarrow> gomap_get (addOperatorClientNameIfNeeded s tls cert) k = gomap_get s k"
  by (auto simp: addOperatorClientNameIfNeeded_def gomap_get_put typed_iff split: option.splits)

lemmas section_keys = ConfKeyNamespace_def ConfKeyService_def ConfKeyNetwork_def ConfKeySecurity_def
  ConfKeyNetworkService_def ConfKeyNetworkHeartbeat_def ConfKeyNetworkFabric_def ConfKeyNetworkAdmin_def

definition network_settled :: "AerospikeOperatorClientCertSpec option \<Rightarrow> gval gomap \<Rightarrow> bool" where
  "network_settled cert network \<longleftrightarrow> (\<exists>service hb p t.
     gomap_get network ConfKeyNetworkService = Some (GMap service) \<and> service_port service = Ok p \<and> service_tls service = Ok t \<and>
     service_defaults p t service = Ok service \<and>
     addOperatorClientNameIfNeeded service (has service ConfKeyTLSName) cert = service \<and>
     gomap_get network ConfKeyNetworkHeartbeat = Some (GMap hb) \<and> setDefaultsInConfigMap hb [(''mode'', GString ''mesh'')] = Ok hb \<and>
     has network ConfKeyNetworkFabric \<and>
     (has network ConfKeyNetworkAdmin \<longrightarrow> as_map (idx network ConfKeyNetworkAdmin) \<noteq> None))"

lemma settled_network_kept:
  assumes "network_settled cert network" and "gomap_get config ConfKeyNetwork = Some (GMap network)"
  shows "setDefaultNetworkConf config cert = Ok config"
proof -
  obtain service hb p t where n: "gomap_get network ConfKeyNetworkService = Some (GMap service)"
    "service_port service = Ok p" "service_tls service = Ok t" "service_defaults p t service = Ok service"
    "addOperatorClientNameIfNeeded service (has service ConfKeyTLSName) cert = service"
    "gomap_get network ConfKeyNetworkHeartbeat = Some (GMap hb)" "setDefaultsInConfigMap hb [(''mode'', GString ''mesh'')] = Ok hb"
    "has network ConfKeyNetworkFabric" "has network ConfKeyNetworkAdmin \<longrightarrow> as_map (idx network ConfKeyNetworkAdmin) \<noteq> None"
    using assms(1) unfolding network_settled_def by blast
  have "gomap_put ConfKeyNetworkService (GMap service) network = network" "gomap_put ConfKeyNetworkHeartbeat (GMap hb) network = network"
    "gomap_put ConfKeyNetwork (GMap network) config = config"
    using n(1,6) assms(2) by (simp_all add: gomap_put_same)
  with assms(2) n show ?thesis
    unfolding setDefaultNetworkConf_def Let_def by (simp add: network_readers del: setDefaultsInConfigMap.simps)
qed

lemma setDefaultNetworkConf_settles:
  assumes "setDefaultNetworkConf config cert = Ok config'"
  shows "\<exists>network. config' = gomap_put ConfKeyNetwork (GMap network) config \<and> network_settled cert network"
proof -
  obtain network service where old: "gomap_get config ConfKeyNetwork = Some (GMap network)"
      "gomap_get network ConfKeyNetworkService = Some (GMap service)"
    using assms by (auto simp: setDefaultNetworkConf_def Let_def typed_iff split: option.splits)
  note readers = network_readers [OF old]
  obtain p t service' where s: "service_port service = Ok p" "service_tls service = Ok t" "service_defaults p t service = Ok service'"
    using assms old by (auto simp: setDefaultNetworkConf_def Let_def readers res_simps)
  define service2 where "service2 = addOperatorClientNameIfNeeded service' (has service ConfKeyTLSName) cert"
  obtain base hb where hb: "setDefaultsInConfigMap base [(''mode'', GString ''mesh'')] = Ok hb"
      "has network ConfKeyNetworkFabric" "has network ConfKeyNetworkAdmin \<longrightarrow> as_map (idx network ConfKeyNetworkAdmin) \<noteq> None"
    and out: "config' = gomap_put ConfKeyNetwork (GMap (gomap_put ConfKeyNetworkHeartbeat (GMap hb)
        (gomap_put ConfKeyNetworkService (GMap service2) network))) config"
    using assms old s unfolding service2_def
    by (auto simp: setDefaultNetworkConf_def Let_def readers res_simps simp del: setDefaultsInConfigMap.simps split: option.splits if_splits)
  define network2 where "network2 = gomap_put ConfKeyNetworkHeartbeat (GMap hb) (gomap_put ConfKeyNetworkService (GMap service2) network)"
  have other: "gomap_get service2 k = gomap_get service' k" if "k \<noteq> ''tls-authenticate-client''" for k
    unfolding service2_def using that by (rule addOperatorClientName_idem)
  note reads = service_defaults_reads [OF s]
  have port: "service_port service2 = Ok p" using s(1) reads other by (simp add: service_port_def ConfKeyPort_def)
  have "gomap_get service2 ConfKeyTLSName = gomap_get service ConfKeyTLSName" "gomap_get service2 ConfKeyTLSPort = gomap_get service ConfKeyTLSPort"
    using reads other by (simp_all add: ConfKeyTLSName_def ConfKeyTLSPort_def)
  note same = this
  have tls: "service_tls service2 = Ok t" using s(2) unfolding service_tls_def same .
  have named: "has service2 ConfKeyTLSName = has service ConfKeyTLSName" using reads other by (simp add: has_def ConfKeyTLSName_def)
  have "service_defaults p t service2 = Ok service2" by (rule service_defaults_settled [OF s(3) other])
  moreover have "addOperatorClientNameIfNeeded service2 (has service2 ConfKeyTLSName) cert = service2"
    unfolding named by (simp add: service2_def addOperatorClientName_idem)
  moreover have "setDefaultsInConfigMap hb [(''mode'', GString ''mesh'')] = Ok hb"
    by (rule setDefaults_idem [OF hb(1)]) auto
  ultimately have "network_settled cert network2"
    unfolding network_settled_def network2_def using port tls hb(2,3)
    by (cases t) (auto simp: gomap_get_put has_def idx_def section_keys simp del: setDefaultsInConfigMap.simps)
  with out show ?thesis unfolding network2_def by blast
qed

section \<open>Defaulting again changes nothing\<close>

lemma setDefaultAerospikeConfigs_idem:
  assumes "setDefaultAerospikeConfigs config None cluster = Ok config'"
    and "SpecRackNamespaces (ClusterSpec cluster') = SpecRackNamespaces (ClusterSpec cluster)"
    and "ClusterName cluster' = ClusterName cluster"
    and "SpecOperatorClientCert (ClusterSpec cluster') = SpecOperatorClientCert (ClusterSpec cluster)"
  shows "setDefaultAerospikeConfigs config' None cluster' = Ok config'"
proof -
  obtain c1 c2 c3 c4 where ns: "setDefaultNsConf config (SpecRackNamespaces (ClusterSpec cluster)) None = Ok c1"
    and service: "setDefaultServiceConf c1 (ClusterName cluster) = Ok c2"
    and network: "setDefaultNetworkConf c2 (SpecOperatorClientCert (ClusterSpec cluster)) = Ok c3"
    and logging: "setDefaultLoggingConf c3 = Ok c4" and escape: "escapeLDAPConfiguration c4 = Ok config'"
    using assms(1) by (auto simp: setDefaultAerospikeConfigs_def res_simps)
  from setDefaultServiceConf_idem(1) [OF service] obtain s where c2: "c2 = gomap_put ConfKeyService s c1" ..
  from setDefaultNetworkConf_settles [OF network] obtain n where c3: "c3 = gomap_put ConfKeyNetwork (GMap n) c2"
    and settled: "network_settled (SpecOperatorClientCert (ClusterSpec cluster)) n" by blast
  from setDefaultLoggingConf_idem(1) [OF logging] obtain l where c4: "c4 = gomap_put ''logging'' l c3" ..
  from escapeLDAP_idem(1) [OF escape] have c5: "gomap_get config' k = gomap_get c4 k" if "k \<noteq> ConfKeySecurity" for k
    using that by (auto simp: gomap_get_put)
  have "setDefaultNsConf config' (SpecRackNamespaces (ClusterSpec cluster)) None = Ok config'"
    by (rule setDefaultNsConf_idem(2) [OF ns]) (simp add: c5 c2 c3 c4 gomap_get_put section_keys)
  moreover have "setDefaultServiceConf config' (ClusterName cluster) = Ok config'"
    by (rule setDefaultServiceConf_idem(2) [OF service]) (simp add: c5 c3 c4 gomap_get_put section_keys)
  moreover have "setDefaultNetworkConf config' (SpecOperatorClientCert (ClusterSpec cluster)) = Ok config'"
    by (rule settled_network_kept [OF settled]) (simp add: c5 c3 c4 gomap_get_put section_keys)
  moreover have "setDefaultLoggingConf config' = Ok config'"
    by (rule setDefaultLoggingConf_idem(2) [OF logging]) (simp add: c5 section_keys)
  ultimately show ?thesis using escapeLDAP_idem(2) [OF escape] assms(2-4) by (simp add: setDefaultAerospikeConfigs_def)
qed

lemma setNamespaceDefault_idem:
  assumes "space_rune_len namespace = 0"
  shows "setNamespaceDefault namespace (setNamespaceDefault namespace network) = setNamespaceDefault namespace network"
proof (cases "CHR ''/'' \<in> set (TrimSpace network)")
  case True
  then show ?thesis by (simp add: setNamespaceDefault_def Split_slash TrimSpace_idem Let_def del: One_nat_def)
next
  case False
  have "trim_right (TrimSpace network) = TrimSpace network" by (simp add: TrimSpace_def trim_right_idem)
  then have "TrimSpace (namespace @ CHR ''/'' # TrimSpace network) = namespace @ CHR ''/'' # TrimSpace network"
    using assms by (intro TrimSpace_fixed) (simp_all add: space_rune_len_slash trim_right_slash)
  with False show ?thesis by (simp add: setNamespaceDefault_def Split_slash Let_def del: One_nat_def)
qed

section \<open>Racks that are settled\<close>

lemma rack_configs_list:
  "rack_configs_from_global cl racks = Ok racks' \<longleftrightarrow> list_all2 (\<lambda>r r'. rack_config_from_global cl r = Ok r') racks racks'"
  by (induction racks arbitrary: racks') (auto simp: res_simps list_all2_Cons1)

definition same_inputs :: "AerospikeCluster \<Rightarrow> AerospikeCluster \<Rightarrow> bool" where
  "same_inputs a b \<longleftrightarrow> ClusterName a = ClusterName b \<and>
     SpecAerospikeConfig (ClusterSpec a) = SpecAerospikeConfig (ClusterSpec b) \<and>
     SpecRackNamespaces (ClusterSpec a) = SpecRackNamespaces (ClusterSpec b) \<and>
     SpecOperatorClientCert (ClusterSpec a) = SpecOperatorClientCert (ClusterSpec b)"

lemma rack_config_value_cong:
  assumes "same_inputs cl cl'" and "RackID q = RackID r" and "RackInputAerospikeConfig q = RackInputAerospikeConfig r"
  shows "rack_config_value cl' q = rack_config_value cl r"
proof -
  have "setDefaultAerospikeConfigs m i cl' = setDefaultAerospikeConfigs m i cl" for m i
    using assms(1) by (simp add: setDefaultAerospikeConfigs_def same_inputs_def)
  moreover have "SpecAerospikeConfig (ClusterSpec cl') = SpecAerospikeConfig (ClusterSpec cl)"
    using assms(1) by (simp add: same_inputs_def)
  ultimately show ?thesis unfolding rack_config_value_def assms(2,3) by (simp only:)
qed

text \<open>A rack after one pass.\<close>

definition rack_after :: "AerospikeCluster \<Rightarrow> AerospikeStorageSpec \<Rightarrow> SchedulingPolicy \<Rightarrow> Rack \<Rightarrow> Rack \<Rightarrow> bool" where
  "rack_after cl storage sched r r' \<longleftrightarrow>
     (\<exists>m. rack_config_value cl r = Ok m \<and>
       r' = rack_pod_spec_from_global sched ((rack_storage_from_global storage r)\<lparr>RackAerospikeConfig := \<lparr>Value = Some m\<rparr>\<rparr>))"

lemma storage_frame:
  "RackID (rack_storage_from_global g r) = RackID r" "RackRevision (rack_storage_from_global g r) = RackRevision r"
  "RackInputAerospikeConfig (rack_storage_from_global g r) = RackInputAerospikeConfig r"
  "RackInputPodSpec (rack_storage_from_global g r) = RackInputPodSpec r"
  "RackInputStorage (rack_storage_from_global g r) = None \<longleftrightarrow> RackInputStorage r = None"
  "RackZone (rack_storage_from_global g r) = RackZone r" "RackRegion (rack_storage_from_global g r) = RackRegion r"
  "RackRackLabel (rack_storage_from_global g r) = RackRackLabel r" "RackNodeName (rack_storage_from_global g r) = RackNodeName r"
  by (simp_all add: rack_storage_from_global_def split: option.split)

lemma volumes_again:
  "setStorageDefaults (s\<lparr>Volumes := Volumes (setStorageDefaults s)\<rparr>) = setStorageDefaults s"
  by (simp add: setStorageDefaults_def Let_def volume_defaults_idem)

lemma storage_again:
  assumes "setStorageDefaults g = g"
  shows "rack_storage_from_global g (rack_storage_from_global g r) = rack_storage_from_global g r"
  using assms by (auto simp: rack_storage_from_global_def volumes_again split: option.split)

lemma rack_after_keeps:
  assumes "rack_after cl g sched r r'"
  shows "RackID r' = RackID r" "RackInputAerospikeConfig r' = RackInputAerospikeConfig r" "RackInputPodSpec r' = RackInputPodSpec r"
    "RackInputStorage r' = None \<longleftrightarrow> RackInputStorage r = None" "placement r' = placement r"
  using assms by (auto simp: rack_after_def rack_pod_spec_from_global_def storage_frame placement_def)

lemma rack_after_again:
  assumes "rack_after cl g sched r r'" and "setStorageDefaults g = g" and "same_inputs cl cl'"
  shows "rack_after cl' g sched r' r'"
proof -
  define s where "s = rack_storage_from_global g r"
  obtain m where m: "rack_config_value cl r = Ok m" and r': "r' = s\<lparr>RackAerospikeConfig := \<lparr>Value = Some m\<rparr>,
      RackPodSpec := (case RackInputPodSpec s of None \<Rightarrow> sched | Some i \<Rightarrow> i)\<rparr>"
    using assms(1) by (auto simp: rack_after_def rack_pod_spec_from_global_def s_def)
  have "rack_storage_from_global g s = s" unfolding s_def by (rule storage_again [OF assms(2)])
  then have settled: "rack_storage_from_global g r' = r'"
    unfolding r' by (cases s) (auto simp: rack_storage_from_global_def split: option.splits)
  have "rack_config_value cl' r' = Ok m"
    using rack_config_value_cong [OF assms(3) rack_after_keeps(1,2) [OF assms(1)]] m by simp
  then show ?thesis unfolding rack_after_def settled by (simp add: r' rack_pod_spec_from_global_def)
qed

section \<open>The defaulting webhook\<close>

lemma list_all2_then_map:
  "list_all2 (\<lambda>x y. \<exists>c. P x c \<and> y = g c) xs ys \<longleftrightarrow> (\<exists>cs. list_all2 P xs cs \<and> ys = map g cs)"
proof (induction xs arbitrary: ys)
  case (Cons x xs)
  show ?case
  proof
    assume "list_all2 (\<lambda>x y. \<exists>c. P x c \<and> y = g c) (x # xs) ys"
    then obtain c zs where "P x c" "ys = g c # zs" "list_all2 (\<lambda>x y. \<exists>c. P x c \<and> y = g c) xs zs"
      by (auto simp: list_all2_Cons1)
    with Cons obtain cs where "list_all2 P xs cs" "zs = map g cs" by blast
    with \<open>P x c\<close> \<open>ys = g c # zs\<close> show "\<exists>cs. list_all2 P (x # xs) cs \<and> ys = map g cs" by (intro exI [of _ "c # cs"]) simp
  next
    assume "\<exists>cs. list_all2 P (x # xs) cs \<and> ys = map g cs"
    then show "list_all2 (\<lambda>x y. \<exists>c. P x c \<and> y = g c) (x # xs) ys" using Cons by (auto simp: list_all2_Cons1)
  qed
qed simp

lemma updateRacks_racks:
  "updateRacks cl = Ok cl' \<longleftrightarrow> (\<exists>racks. cl' = cl\<lparr>ClusterSpec := (ClusterSpec cl)\<lparr>SpecRacks := racks\<rparr>\<rparr> \<and>
     list_all2 (rack_after cl (SpecStorage (ClusterSpec cl)) (SchedPolicy (SpecPodSpec (ClusterSpec cl))))
       (SpecRacks (ClusterSpec cl)) racks)"
proof -
  define cl1 where "cl1 = updateRacksStorageFromGlobal cl"
  define store where "store = rack_storage_from_global (SpecStorage (ClusterSpec cl))"
  define g where "g = rack_pod_spec_from_global (SchedPolicy (SpecPodSpec (ClusterSpec cl)))"
  have val: "rack_config_value cl1 (store r) = rack_config_value cl r" for r
    by (rule rack_config_value_cong) (simp_all add: same_inputs_def cl1_def updateRacksStorageFromGlobal_def store_def storage_frame)
  have after: "rack_after cl (SpecStorage (ClusterSpec cl)) (SchedPolicy (SpecPodSpec (ClusterSpec cl))) =
      (\<lambda>r r'. \<exists>c. rack_config_from_global cl1 (store r) = Ok c \<and> r' = g c)"
    unfolding rack_after_def store_def [symmetric] g_def [symmetric]
    by (intro ext) (auto simp: rack_config_from_global_def val res_simps)
  have racks: "SpecRacks (ClusterSpec cl1) = map store (SpecRacks (ClusterSpec cl))"
    by (simp add: cl1_def updateRacksStorageFromGlobal_def store_def)
  have "updateRacks cl = Ok cl' \<longleftrightarrow> (\<exists>cs. list_all2 (\<lambda>r c. rack_config_from_global cl1 (store r) = Ok c) (SpecRacks (ClusterSpec cl)) cs \<and>
      cl' = cl1\<lparr>ClusterSpec := (ClusterSpec cl1)\<lparr>SpecRacks := map g cs\<rparr>\<rparr>)"
    unfolding updateRacks_def updateRacksAerospikeConfigFromGlobal_def cl1_def [symmetric]
    by (auto simp: res_simps rack_configs_list racks list_all2_map1 updateRacksPodSpecFromGlobal_def g_def)
      (auto simp: cl1_def updateRacksStorageFromGlobal_def)
  moreover have "cl1\<lparr>ClusterSpec := (ClusterSpec cl1)\<lparr>SpecRacks := rs\<rparr>\<rparr> = cl\<lparr>ClusterSpec := (ClusterSpec cl)\<lparr>SpecRacks := rs\<rparr>\<rparr>" for rs
    by (simp add: cl1_def updateRacksStorageFromGlobal_def)
  ultimately show ?thesis unfolding after list_all2_then_map by metis
qed

lemma setDefaultRackConf_again:
  assumes "setDefaultRackConf racks = Ok racks1" and "list_all2 (rack_after cl g sched) racks1 racks'"
  shows "setDefaultRackConf racks' = Ok racks'"
proof -
  have ne: "racks1 \<noteq> []" and ok: "\<not> list_ex (default_rack_modified racks1) racks1"
    using assms(1) by (auto simp: setDefaultRackConf_def default_rack_modified_def default_rack_def split: if_splits)
  have same: "default_rack_modified racks1 r \<longleftrightarrow> default_rack_modified racks' r'" if "rack_after cl g sched r r'" for r r'
    using rack_after_keeps [OF that] list_all2_lengthD [OF assms(2)] by (auto simp: default_rack_modified_def placement_def)
  have "\<not> list_ex (default_rack_modified racks') racks'"
  proof
    assume "list_ex (default_rack_modified racks') racks'"
    then obtain i where i: "i < length racks'" "default_rack_modified racks' (racks' ! i)" by (auto simp: list_ex_length)
    then have "rack_after cl g sched (racks1 ! i) (racks' ! i)" "i < length racks1"
      using assms(2) by (auto simp: list_all2_conv_all_nth)
    with same i(2) have "default_rack_modified racks1 (racks1 ! i)" by blast
    with ok \<open>i < length racks1\<close> show False by (auto simp: list_ex_length)
  qed
  moreover have "racks' \<noteq> []" using ne assms(2) by auto
  ultimately show ?thesis by (simp add: setDefaultRackConf_def)
qed

lemma roster_defaults_idem: "TrimLeftZeros (ToUpper (TrimLeftZeros (ToUpper s))) = TrimLeftZeros (ToUpper s)"
proof -
  have up: "ascii_upper (ascii_upper c) = ascii_upper c" for c
    by (auto simp: ascii_upper_def Let_def)
  define t where "t = ToUpper s"
  have t: "map ascii_upper t = t" by (simp add: t_def ToUpper_def up)
  then have "\<And>c. c \<in> set t \<Longrightarrow> ascii_upper c = c" by (metis map_eq_conv map_ident)
  then have "ToUpper (TrimLeftZeros t) = TrimLeftZeros t"
    unfolding ToUpper_def TrimLeftZeros_def by (intro map_idI) (auto dest: set_dropWhileD)
  then show ?thesis by (simp add: t_def TrimLeftZeros_def)
qed


lemma field_defaults_idem:
  "setStorageDefaults (setStorageDefaults s) = setStorageDefaults s"
  "setPodSpecDefaults (setPodSpecDefaults p) = setPodSpecDefaults p"
  "SchedPolicy (setPodSpecDefaults p) = SchedPolicy p"
  "label_default (label_default l) = label_default l"
  by (simp_all add: setStorageDefaults_def Let_def policy_defaults_idem volume_defaults_idem setPodSpecDefaults_def
      label_default_def has_def gomap_get_put split: option.split)

lemma network_default_idem:
  "space_rune_len ns = 0 \<Longrightarrow> setNetworkNamespace ns (setNetworkNamespace ns policy) = setNetworkNamespace ns policy"
  by (simp add: setNetworkNamespace_def Let_def option.map_comp comp_def setNamespaceDefault_idem)

text \<open>
  Property C9. Defaulting is idempotent: a cluster that went through the webhook goes through it again unchanged,
  so that writing back an admitted object, with every default filled in, is no change of it. The namespace of a cluster
  does not start with white space.
\<close>

theorem default_idempotent:
  assumes "Default cluster = Ok cluster'" and "space_rune_len (ClusterNamespace cluster) = 0"
  shows "Default cluster' = Ok cluster'"
proof -
  define spec where "spec = ClusterSpec cluster"
  obtain racks1 config racks where
    r1: "setDefaultRackConf (SpecRacks spec) = Ok racks1" and
    g: "setDefaultAerospikeConfigs (conf_map (SpecAerospikeConfig spec)) None (cluster\<lparr>ClusterSpec := spec\<lparr>
        SpecMaxUnavailable := max_unavailable_default spec,
        SpecNetworkPolicy := setNetworkNamespace (ClusterNamespace cluster) (SpecNetworkPolicy spec),
        SpecStorage := setStorageDefaults (SpecStorage spec), SpecRacks := racks1\<rparr>\<rparr>) = Ok config" and
    racks: "list_all2 (rack_after (cluster\<lparr>ClusterSpec := spec\<lparr>SpecMaxUnavailable := max_unavailable_default spec,
        SpecNetworkPolicy := setNetworkNamespace (ClusterNamespace cluster) (SpecNetworkPolicy spec),
        SpecStorage := setStorageDefaults (SpecStorage spec), SpecRacks := racks1, SpecAerospikeConfig := \<lparr>Value = Some config\<rparr>\<rparr>\<rparr>)
      (setStorageDefaults (SpecStorage spec)) (SchedPolicy (SpecPodSpec spec))) racks1 racks" and
    out: "cluster' = cluster\<lparr>ClusterLabels := label_default (ClusterLabels cluster), ClusterSpec := spec\<lparr>
        SpecMaxUnavailable := max_unavailable_default spec,
        SpecNetworkPolicy := setNetworkNamespace (ClusterNamespace cluster) (SpecNetworkPolicy spec),
        SpecStorage := setStorageDefaults (SpecStorage spec), SpecRacks := racks, SpecAerospikeConfig := \<lparr>Value = Some config\<rparr>,
        SpecPodSpec := setPodSpecDefaults (SpecPodSpec spec),
        SpecRosterNodeBlockList := map (\<lambda>nodeID. TrimLeftZeros (ToUpper nodeID)) (SpecRosterNodeBlockList spec)\<rparr>\<rparr>"
    using assms(1) unfolding Default_def setDefaults_def Let_def spec_def [symmetric]
    by (auto simp: res_simps updateRacks_racks)
  have fields: "max_unavailable_default (ClusterSpec cluster') = SpecMaxUnavailable (ClusterSpec cluster')"
    "setNetworkNamespace (ClusterNamespace cluster') (SpecNetworkPolicy (ClusterSpec cluster')) = SpecNetworkPolicy (ClusterSpec cluster')"
    "setStorageDefaults (SpecStorage (ClusterSpec cluster')) = SpecStorage (ClusterSpec cluster')"
    "setPodSpecDefaults (SpecPodSpec (ClusterSpec cluster')) = SpecPodSpec (ClusterSpec cluster')"
    "map (\<lambda>nodeID. TrimLeftZeros (ToUpper nodeID)) (SpecRosterNodeBlockList (ClusterSpec cluster')) = SpecRosterNodeBlockList (ClusterSpec cluster')"
    "label_default (ClusterLabels cluster') = ClusterLabels cluster'"
    by (simp_all add: out field_defaults_idem network_default_idem [OF assms(2)] roster_defaults_idem comp_def max_unavailable_default_def
      split: option.split)
  have conf: "conf_map (SpecAerospikeConfig (ClusterSpec cluster')) = config" by (simp add: out conf_map_def)
  have racks': "setDefaultRackConf (SpecRacks (ClusterSpec cluster')) = Ok (SpecRacks (ClusterSpec cluster'))"
    using setDefaultRackConf_again [OF r1 racks] by (simp add: out)
  have "setDefaultAerospikeConfigs config None cluster' = Ok config"
    by (rule setDefaultAerospikeConfigs_idem [OF g]) (simp_all add: out)
  moreover have "updateRacks cluster' = Ok cluster'"
  proof -
    have after: "rack_after cluster' (setStorageDefaults (SpecStorage spec)) (SchedPolicy (SpecPodSpec spec)) r' r'"
      if "rack_after (cluster\<lparr>ClusterSpec := spec\<lparr>SpecMaxUnavailable := max_unavailable_default spec,
        SpecNetworkPolicy := setNetworkNamespace (ClusterNamespace cluster) (SpecNetworkPolicy spec),
        SpecStorage := setStorageDefaults (SpecStorage spec), SpecRacks := racks1, SpecAerospikeConfig := \<lparr>Value = Some config\<rparr>\<rparr>\<rparr>)
        (setStorageDefaults (SpecStorage spec)) (SchedPolicy (SpecPodSpec spec)) r r'" for r r'
      by (rule rack_after_again [OF that field_defaults_idem(1)]) (simp add: same_inputs_def out)
    have "list_all2 (rack_after cluster' (SpecStorage (ClusterSpec cluster')) (SchedPolicy (SpecPodSpec (ClusterSpec cluster'))))
        racks racks"
      using racks after by (auto simp: out field_defaults_idem list_all2_conv_all_nth)
    then show ?thesis unfolding updateRacks_racks by (auto simp: out intro!: exI [of _ racks])
  qed
  moreover have "cluster'\<lparr>ClusterSpec := (ClusterSpec cluster')\<lparr>SpecAerospikeConfig := \<lparr>Value = Some config\<rparr>\<rparr>\<rparr> = cluster'"
    by (simp add: out)
  ultimately show ?thesis unfolding Default_def setDefaults_def Let_def conf racks' res_bind.simps fields by (simp add: fields)
qed

section \<open>Admitted clusters\<close>

lemma any_ns_sc_total: "(\<And>v. v \<in> set nss \<Longrightarrow> \<exists>ns b. v = GMap ns \<and> IsNSSCEnabled ns = Ok b) \<Longrightarrow> \<exists>b. any_ns_sc nss = Ok b"
proof (induction nss)
  case (Cons v nss)
  from Cons.prems [of v] obtain ns b where "v = GMap ns" "IsNSSCEnabled ns = Ok b" by auto
  with Cons show ?case by (cases b) auto
qed auto

lemma defaulted_racks:
  assumes "Default cluster = Ok cluster'"
  shows "SpecRacks (ClusterSpec cluster') \<noteq> []"
    and "SpecMaxUnavailable (ClusterSpec cluster') = None \<longleftrightarrow> GetBool (SpecDisablePDB (ClusterSpec cluster'))"
proof -
  obtain racks1 cl g sched racks where racks: "setDefaultRackConf (SpecRacks (ClusterSpec cluster)) = Ok racks1"
      "list_all2 (rack_after cl g sched) racks1 racks"
      "SpecRacks (ClusterSpec cluster') = racks"
    and budget: "SpecMaxUnavailable (ClusterSpec cluster') = max_unavailable_default (ClusterSpec cluster)"
      "SpecDisablePDB (ClusterSpec cluster') = SpecDisablePDB (ClusterSpec cluster)"
    using assms unfolding Default_def setDefaults_def Let_def by (auto simp: res_simps updateRacks_racks)
  from racks(1) have "racks1 \<noteq> []" by (auto simp: setDefaultRackConf_def split: if_splits)
  with racks show "SpecRacks (ClusterSpec cluster') \<noteq> []" by auto
  show "SpecMaxUnavailable (ClusterSpec cluster') = None \<longleftrightarrow> GetBool (SpecDisablePDB (ClusterSpec cluster'))"
    unfolding budget by (simp add: max_unavailable_default_def split: option.split)
qed

lemma accepted_delay:
  assumes "snd (webhook_validate env cluster) = Ok ()" and "rack \<in> set (SpecRacks (ClusterSpec cluster))"
  shows "\<exists>d. GetMigrateFillDelay (Some (RackAerospikeConfig rack)) = Ok d"
proof -
  obtain version where "snd (validateRackConfig env cluster version) = Ok ()"
    using assms(1) unfolding webhook_validate_def by (auto simp: res_simps)
  then obtain ds where "snd (racks_checked env (ClusterSpec cluster) version [] [] (SpecRacks (ClusterSpec cluster))) = Ok ds"
    unfolding validateRackConfig_def Let_def by (auto simp: res_simps)
  from racks_checked_Ok [OF this] assms(2) obtain d where "snd (validate_rack env (ClusterSpec cluster) version rack) = Ok d" by blast
  then show ?thesis unfolding validate_rack_def by (auto simp: res_simps split: if_splits)
qed

text \<open>
  Property C10. What admission gives the controller: on a cluster that was defaulted and then accepted, the readers that
  index the first rack, divide by the number of racks and assert the types of the configuration do not panic: the
  cluster has racks, whether it is strongly consistent and the migrate-fill-delay of every rack can be read, and the
  pods can be distributed over the racks.
\<close>

theorem admitted_readers_total:
  assumes "Default cluster = Ok cluster'" and "snd (webhook_validate env cluster') = Ok ()"
  defines "spec \<equiv> ClusterSpec cluster'"
  shows "SpecRacks spec \<noteq> [] \<and> (\<exists>b. IsClusterSCEnabled spec = Ok b) \<and>
    (\<exists>topology. DistributeItems (SpecSize spec) (int (length (SpecRacks spec))) = Ok topology \<and> length topology = length (SpecRacks spec)) \<and>
    (\<forall>rack\<in>set (SpecRacks spec). \<exists>d. GetMigrateFillDelay (Some (RackAerospikeConfig rack)) = Ok d) \<and>
    (SpecMaxUnavailable spec = None \<longleftrightarrow> GetBool (SpecDisablePDB spec))"
proof -
  note racks = defaulted_racks [OF assms(1), folded spec_def]
  then obtain rack rest where first: "SpecRacks spec = rack # rest" by (cases "SpecRacks spec") auto
  have "config_ok (IsDNSName env) (SpecSize spec) (conf_map (RackAerospikeConfig rack))"
    using accepted_spec_facts [OF assms(2), folded spec_def] first by auto
  note ns = config_ok_namespaces [OF this]
  have "\<exists>b. any_ns_sc (rack_namespaces rack) = Ok b"
    by (rule any_ns_sc_total) (use ns(2) in \<open>fastforce simp: namespace_ok_def\<close>)
  then have "\<exists>b. IsClusterSCEnabled spec = Ok b" by (simp add: IsClusterSCEnabled_def first ns(1))
  moreover have "\<exists>topology. DistributeItems (SpecSize spec) (int (length (SpecRacks spec))) = Ok topology \<and>
      length topology = length (SpecRacks spec)"
    using racks(1) by (simp add: DistributeItems_def Let_def)
  ultimately show ?thesis using racks accepted_delay [OF assms(2), folded spec_def] by blast
qed

section \<open>Defaulting at work\<close>

definition user_config :: "gval gomap" where
  "user_config = [(''service'', GMap []),
     (''network'', GMap [(''service'', GMap [(''port'', GFloat64 3000)]), (''heartbeat'', GMap [(''port'', GFloat64 3002)]),
        (''fabric'', GMap [(''port'', GFloat64 3001)])]),
     (''namespaces'', GList [GMap (valid_namespace ''lz4'')])]"

definition user_cluster :: AerospikeCluster where
  "user_cluster = (webhook_cluster (IosInt 1))\<lparr>ClusterSpec := (ClusterSpec (webhook_cluster (IosInt 1)))\<lparr>
     SpecMaxUnavailable := None, SpecRacks := [], SpecStorage := RackStorage (webhook_rack 1),
     SpecRackNamespaces := [''test''], SpecRosterNodeBlockList := [''00a1''],
     SpecAccessControl := None, SpecAerospikeConfig := \<lparr>Value = Some user_config\<rparr>\<rparr>\<rparr>"

definition defaulted_cluster :: AerospikeCluster where
  "defaulted_cluster = (case Default user_cluster of Ok c \<Rightarrow> c | _ \<Rightarrow> user_cluster)"

lemma example_defaulted: "Default user_cluster = Ok defaulted_cluster"
  by code_simp

lemma example_admitted: "snd (webhook_validate example_env defaulted_cluster) = Ok ()"
  by code_simp

lemma default_idempotent_witness:
  "Default user_cluster = Ok defaulted_cluster \<and> Default defaulted_cluster = Ok defaulted_cluster \<and>
   map RackID (SpecRacks (ClusterSpec defaulted_cluster)) = [0] \<and>
   SpecRosterNodeBlockList (ClusterSpec defaulted_cluster) = [''A1'']"
proof -
  have "space_rune_len (ClusterNamespace user_cluster) = 0" by code_simp
  note again = default_idempotent [OF example_defaulted this]
  have "map RackID (SpecRacks (ClusterSpec defaulted_cluster)) = [0]"
    "SpecRosterNodeBlockList (ClusterSpec defaulted_cluster) = [''A1'']" by code_simp+
  with again example_defaulted show ?thesis by simp
qed

lemma admitted_witness:
  "Default user_cluster = Ok defaulted_cluster \<and> snd (webhook_validate example_env defaulted_cluster) = Ok () \<and>
   (\<exists>b. IsClusterSCEnabled (ClusterSpec defaulted_cluster) = Ok b)"
  using admitted_readers_total [OF example_defaulted example_admitted] example_defaulted example_admitted by blast

end
