(* ===== verification/Spec2Isabelle.thy ===== *)
theory Spec2Isabelle
  imports Json_Patch Access_Converge Reconcile_Driver Eviction Rack_Pass Cluster_Default
begin

text \<open>
  The Aerospike Kubernetes operator reconciles \<^verbatim>\<open>AerospikeCluster\<close> resources: admission webhooks
  validate and default a specification, a controller drives racks (one StatefulSet each), pods,
  services, access control and the status towards it. This library models the decision logic of
  the operator in HOL and proves the properties that make it correct. Calls of the Kubernetes API
  and of the Aerospike client are parameters; what the code relies on there is stated as laws of
  the parameter.

  \<^bold>\<open>Foundations.\<close> \<open>Prelude\<close>: results with errors and panics (\<open>res\<close>), Go maps as association
  lists, the locale \<open>string_map\<close> of their laws, and the locale \<open>dup_checked_loop\<close> of the
  loops that refuse duplicates. \<open>Go_Strings\<close> and \<open>Go_Net\<close>: the functions of Go's standard
  library the code calls. Go's \<^verbatim>\<open>string\<close> is a byte list.

  \<^bold>\<open>Configuration.\<close> \<open>Config_Value\<close>: the free-form configuration values and their readers
  (\<^verbatim>\<open>api/v1/utils.go\<close>, \<^verbatim>\<open>api/v1/index_checkpoint.go\<close>). \<open>Config_Merge\<close>: the patch of a rack's
  configuration over the global one (\<^verbatim>\<open>pkg/merge\<close>): lookups, idempotence, panics.
  \<open>Json_Patch\<close>: the creation of JSON patches (\<^verbatim>\<open>pkg/jsonpatch\<close>) and, as a reference, their
  application after RFC 6902; a created patch applied to the old document gives the new one.

  \<^bold>\<open>Specification, names, labels.\<close> \<open>Cluster_Spec\<close>: the records of a specification, images and
  versions, the distribution of pods over racks. \<open>Naming\<close>: names of StatefulSets and pods and
  their parsers, labels and selectors (\<^verbatim>\<open>pkg/utils/utils.go\<close>).

  \<^bold>\<open>Access control.\<close> \<open>Access_Validate\<close>: the validator (\<^verbatim>\<open>api/v1/access_control_validate.go\<close>) and
  its equivalence with a declarative predicate. \<open>Access_Reconcile\<close>: the commands that take a
  cluster from its current to the desired users and roles
  (\<^verbatim>\<open>internal/controller/cluster/access_control.go\<close>). \<open>Access_Converge\<close>: laws of a server that
  executes them, and that a successful pass makes the server refine the specification.

  \<^bold>\<open>Storage.\<close> \<open>Storage_Spec\<close>: volumes, their sources, attachments and policies. \<open>Storage\<close>: the
  webhook's validation of a storage, of its changes, and its defaults (\<^verbatim>\<open>internal/webhook/v1/storage.go\<close>),
  each against a declarative predicate.

  \<^bold>\<open>Admission of a cluster.\<close> \<open>Config_Validate\<close>: the checks of a configuration and of its update
  (\<^verbatim>\<open>pkg/validation\<close>), with every panic of a type assertion, and their equivalence with a declarative
  predicate. \<open>Go_Path\<close>: the paths of \<^verbatim>\<open>path/filepath\<close>. \<open>Cluster_Validate\<close>: the validating webhook for a
  created cluster (\<^verbatim>\<open>aerospikecluster_validating_webhook.go\<close>) and what an accepted specification
  guarantees; the libraries' versions, DNS names, certificates and int-or-string values are the fields of
  \<open>validate_env\<close>. \<open>Cluster_Update\<close>: the same webhook for an updated cluster: what a rack keeps, how many
  nodes stay when a rack moves to a new revision, and how a replication factor may change.
  \<open>Cluster_Default\<close>: the defaulting webhook (\<^verbatim>\<open>aerospikecluster_mutating_webhook.go\<close>) that runs first: a
  second pass changes nothing, and on a cluster that passed both webhooks the controller's readers do not
  panic.

  \<^bold>\<open>Pods and evictions.\<close> \<open>Pod_Health\<close>: the health predicates (\<^verbatim>\<open>pkg/utils/pod.go\<close>).
  \<open>Eviction\<close>: the eviction webhook (\<^verbatim>\<open>internal/webhook/eviction\<close>).

  \<^bold>\<open>Racks and restarts.\<close> \<open>Rack_Plan\<close>: which racks exist, migrate to a new revision and are deleted,
  the order of a rack's pods, batches, scale-down targets and ignorable pods (\<^verbatim>\<open>rack.go\<close>,
  \<^verbatim>\<open>parallel_scaledown.go\<close>, \<^verbatim>\<open>pod.go\<close>). \<open>Restart_Ops\<close>: on-demand operations and their record.
  \<open>Restart_Type\<close>: the restart a pod needs, as the maximum of its reasons. \<open>Namespace_Devices\<close>: devices and
  files added to and removed from namespaces. \<open>Restart_Map\<close>: the restart types of a rack, the
  migrate-fill-delay of a batch and the deletion of local volumes (all \<^verbatim>\<open>pod.go\<close>).

  \<^bold>\<open>Operations on running pods.\<close> \<open>Call_Trace\<close>: operations that call the Kubernetes API and the servers, as
  functions from a state to an outcome, a state and a trace of calls, with rules for the trace.
  \<open>Cluster_Info\<close>: connections, stability, migrate-fill-delay, roster and the safe stop of nodes
  (\<^verbatim>\<open>aero_info_calls.go\<close>, \<^verbatim>\<open>strong_consistency.go\<close>, \<^verbatim>\<open>statefulset.go\<close>). \<open>Pod_Restart\<close>: the restart and the
  upgrade of a batch of pods (\<^verbatim>\<open>pod.go\<close>, \<^verbatim>\<open>pvc.go\<close>): active pods are touched only behind a safe stop, and
  the waits for their replacements end and succeed when the pods come up.

  \<^bold>\<open>Reconcile loop.\<close> \<open>Conditions\<close>: results, status conditions and the terminal status
  (\<^verbatim>\<open>conditions.go\<close>, \<^verbatim>\<open>result.go\<close>). \<open>Reconcile_Driver\<close>: the control flow of one pass
  (\<^verbatim>\<open>reconciler.go\<close>) over its stages.

  \<^bold>\<open>Bounds.\<close> All functions are total; the loops with a retry limit count it down. \<^verbatim>\<open>int\<close> and \<^verbatim>\<open>int32\<close> values are
  unbounded integers where they count racks and pods; quotas are 32-bit words.

  \<^bold>\<open>Not modelled.\<close> The construction of Kubernetes objects, the controllers of
  backups and restores, generated deep copies and schemas, and the start-up of the process.
\<close>

end
